(* ===== verification/Prelude.thy ===== *)
theory Prelude
  imports Main "HOL-Library.Word" "HOL-Library.AList" "HOL-Library.Char_ord"
    "HOL-Library.List_Lexorder" "HOL-Library.Multiset"
begin

text \<open>
  What every component of the development shares: the rule collections, 64-bit signed
  arithmetic as Go's \<open>int64\<close> computes it, Go maps as association lists, and the two
  generic interfaces of the library, an encoder with its decoder (\<open>codec\<close>) and a
  transition system with an invariant (\<open>inv_machine\<close>).
\<close>

named_theorems wrap64 \<open>facts that remove the 64-bit wrap-around inside the representable range\<close>
named_theorems strs \<open>facts about Go strings of printable ASCII characters\<close>
named_theorems gomap \<open>facts about Go maps kept as association lists\<close>

section \<open>Signed 64-bit integers\<close>

text \<open>
  A Go \<open>int64\<close> (and \<open>int\<close>, 64 bits on every platform the program is built for) is an
  \<open>int\<close>; every sum, difference and product goes through \<open>w64\<close>, which wraps
  around as two's complement does.
\<close>

definition w64 :: "int \<Rightarrow> int" where
  "w64 x = (x + 2 ^ 63) mod 2 ^ 64 - 2 ^ 63"

definition in64 :: "int \<Rightarrow> bool" where
  "in64 x \<longleftrightarrow> - (2 ^ 63) \<le> x \<and> x < 2 ^ 63"

lemma w64_id [wrap64]: "in64 x \<Longrightarrow> w64 x = x"
  by (simp add: w64_def in64_def)

lemma w64_in64 [simp]: "in64 (w64 x)"
  by (simp add: w64_def in64_def)

lemma w64_w64 [simp]: "w64 (w64 x) = w64 x"
  by (rule w64_id) simp

text \<open>The same function as two's complement on machine words.\<close>

lemma w64_word: "w64 x = sint (word_of_int x :: 64 word)"
proof -
  have "sint (word_of_int x :: 64 word) = signed_take_bit 63 x"
    by (simp add: sint_sbintrunc')
  then show ?thesis
    by (simp add: w64_def signed_take_bit_eq_take_bit_shift take_bit_eq_mod)
qed

text \<open>Go's \<open>/\<close> on integers truncates towards zero.\<close>

definition quo :: "int \<Rightarrow> int \<Rightarrow> int" where
  "quo a b = sgn a * sgn b * (\<bar>a\<bar> div \<bar>b\<bar>)"

lemma quo_nonneg: "0 \<le> a \<Longrightarrow> 0 < b \<Longrightarrow> quo a b = a div b"
  by (cases "a = 0") (simp_all add: quo_def)

section \<open>Go maps\<close>

text \<open>
  A Go map is an association list with distinct keys. Reading is \<open>map_of\<close>, assigning
  is \<open>AList.update\<close>, \<open>delete\<close> is \<open>AList.delete\<close>. The order of the list stands
  for the order in which one \<open>range\<close> loop happens to visit the map; theorems hold for
  every order.
\<close>

definition gmap :: "('k \<times> 'v) list \<Rightarrow> bool" where
  "gmap m \<longleftrightarrow> distinct (map fst m)"

lemma gmap_Nil [gomap, simp]: "gmap []"
  by (simp add: gmap_def)

lemma gmap_update [gomap, simp]: "gmap m \<Longrightarrow> gmap (AList.update k v m)"
  by (simp add: gmap_def distinct_update)

lemma gmap_delete [gomap, simp]: "gmap m \<Longrightarrow> gmap (AList.delete k m)"
  by (simp add: gmap_def distinct_delete)

lemma map_of_upd [gomap, simp]: "map_of (AList.update k v m) k' = (if k' = k then Some v else map_of m k')"
  by (simp add: update_conv')

lemma map_of_del [gomap, simp]: "map_of (AList.delete k m) k' = (if k' = k then None else map_of m k')"
  by (simp add: delete_conv')

lemma gmap_in_set: "gmap m \<Longrightarrow> (k, v) \<in> set m \<longleftrightarrow> map_of m k = Some v"
  by (simp add: gmap_def)

text \<open>The contract of a map, and that association lists keep it.\<close>

locale kv_map =
  fixes get :: "'m \<Rightarrow> 'k \<Rightarrow> 'v option"
    and put :: "'k \<Rightarrow> 'v \<Rightarrow> 'm \<Rightarrow> 'm"
    and ok :: "'m \<Rightarrow> bool"
  assumes get_put: "get (put k v m) k' = (if k' = k then Some v else get m k')"
    and ok_put: "ok m \<Longrightarrow> ok (put k v m)"
begin

lemma get_put_same: "get (put k v m) k = Some v"
  by (simp add: get_put)

lemma get_put_other: "k' \<noteq> k \<Longrightarrow> get (put k v m) k' = get m k'"
  by (simp add: get_put)

lemma get_fold_put:
  "get (fold (\<lambda>(k, v). put k v) kvs m) k' =
     (case map_of (rev kvs) k' of Some v \<Rightarrow> Some v | None \<Rightarrow> get m k')"
proof (induction kvs arbitrary: m)
  case Nil
  then show ?case by simp
next
  case (Cons kv kvs)
  obtain k v where "kv = (k, v)" by (cases kv)
  then show ?case
    by (simp add: Cons.IH get_put map_add_def split: option.splits)
qed

lemma ok_fold_put: "ok m \<Longrightarrow> ok (fold (\<lambda>(k, v). put k v) kvs m)"
  by (induction kvs arbitrary: m) (auto simp: ok_put)

end

interpretation am: kv_map "\<lambda>m. map_of m" AList.update gmap
  by unfold_locales simp_all

section \<open>Encoders and decoders\<close>

locale codec =
  fixes enc :: "'a \<Rightarrow> 'b"
    and dec :: "'b \<Rightarrow> 'a option"
    and wf :: "'a \<Rightarrow> bool"
  assumes dec_enc: "wf a \<Longrightarrow> dec (enc a) = Some a"
begin

lemma enc_inj: "wf a \<Longrightarrow> wf b \<Longrightarrow> enc a = enc b \<Longrightarrow> a = b"
proof -
  assume "wf a" "wf b" "enc a = enc b"
  then have "Some a = Some b" by (metis dec_enc)
  then show "a = b" by simp
qed

lemma dec_map_enc:
  "list_all wf xs \<Longrightarrow> those (map (\<lambda>x. dec (enc x)) xs) = Some xs"
  by (induction xs) (simp_all add: dec_enc)

end

section \<open>Transition systems with an invariant\<close>

locale inv_machine =
  fixes init :: "'s \<Rightarrow> bool"
    and step :: "'s \<Rightarrow> 's \<Rightarrow> bool"
    and inv :: "'s \<Rightarrow> bool"
  assumes init_inv: "init s \<Longrightarrow> inv s"
    and step_inv: "step s t \<Longrightarrow> inv s \<Longrightarrow> inv t"
begin

lemma steps_inv: "step\<^sup>*\<^sup>* s t \<Longrightarrow> inv s \<Longrightarrow> inv t"
  by (induction rule: rtranclp_induct) (auto intro: step_inv)

lemma reach_inv: "init s \<Longrightarrow> step\<^sup>*\<^sup>* s t \<Longrightarrow> inv t"
  by (blast intro: steps_inv init_inv)

end

section \<open>Lists and loops that may fail\<close>

text \<open>A \<open>range\<close> loop whose body may return an error: the first error ends it.\<close>

fun foldE :: "('x \<Rightarrow> 's \<Rightarrow> 'e + 's) \<Rightarrow> 'x list \<Rightarrow> 's \<Rightarrow> 'e + 's" where
  "foldE f [] s = Inr s"
| "foldE f (x # xs) s = (case f x s of Inl e \<Rightarrow> Inl e | Inr s' \<Rightarrow> foldE f xs s')"

lemma foldE_append:
  "foldE f (xs @ ys) s = (case foldE f xs s of Inl e \<Rightarrow> Inl e | Inr s' \<Rightarrow> foldE f ys s')"
  by (induction xs arbitrary: s) (auto split: sum.splits)

lemma foldE_inv:
  assumes "foldE f xs s = Inr t" and "I s"
    and "\<And>x s s'. x \<in> set xs \<Longrightarrow> I s \<Longrightarrow> f x s = Inr s' \<Longrightarrow> I s'"
  shows "I t"
  using assms
proof (induction xs arbitrary: s)
  case Nil
  then show ?case by simp
next
  case (Cons x xs)
  from Cons.prems(1) obtain s' where s': "f x s = Inr s'" "foldE f xs s' = Inr t"
    by (auto split: sum.splits)
  have "I s'" using Cons.prems(2,3) s'(1) by (meson list.set_intros(1))
  with s'(2) show ?case using Cons.prems(3) by (auto intro: Cons.IH)
qed

lemma foldE_Inr_each:
  "foldE f xs s = Inr t \<Longrightarrow> x \<in> set xs \<Longrightarrow> \<exists>s1 s2. f x s1 = Inr s2"
  by (induction xs arbitrary: s) (auto split: sum.splits)

text \<open>\<open>xs[:n]\<close> when the list is longer than \<open>n\<close>.\<close>

definition limit :: "nat \<Rightarrow> 'a list \<Rightarrow> 'a list" where
  "limit n xs = (if length xs > n then take n xs else xs)"

lemma limit_take: "limit n xs = take n xs"
  by (simp add: limit_def)

end
