(* ===== verification/Go_Strings.thy ===== *)
theory Go_Strings
  imports Prelude
begin

text \<open>
  Go strings and the parts of the packages \<open>strings\<close>, \<open>strconv\<close>, \<open>unicode/utf8\<close> and
  \<open>math/big\<close> that the program calls. A Go string is a list of bytes, which is what a
  HOL \<open>string\<close> is: a text literal outside ASCII is its UTF-8 bytes (\<open>fa\<close>, from code
  points). Case mapping follows Go on ASCII letters and on the letters that Go maps into
  ASCII; other letters are left alone, which is exact for Persian and Arabic text.
\<close>

section \<open>UTF-8\<close>

abbreviation code :: "char \<Rightarrow> nat" where
  "code c \<equiv> of_char c"

definition utf8 :: "nat \<Rightarrow> string" where
  "utf8 r =
    (if r < 0x80 then [char_of r]
     else if r < 0x800 then [char_of (0xC0 + r div 64), char_of (0x80 + r mod 64)]
     else if r < 0x10000 then
       [char_of (0xE0 + r div 4096), char_of (0x80 + r div 64 mod 64), char_of (0x80 + r mod 64)]
     else
       [char_of (0xF0 + r div 262144), char_of (0x80 + r div 4096 mod 64),
        char_of (0x80 + r div 64 mod 64), char_of (0x80 + r mod 64)])"

text \<open>A text literal given by its code points.\<close>

definition fa :: "nat list \<Rightarrow> string" where
  "fa rs = concat (map utf8 rs)"

text \<open>
  \<open>utf8.DecodeRuneInString\<close>: the rune and the number of bytes it takes; an invalid
  sequence is U+FFFD of one byte.
\<close>

definition cont :: "nat \<Rightarrow> nat \<Rightarrow> char \<Rightarrow> bool" where
  "cont lo hi c \<longleftrightarrow> lo \<le> code c \<and> code c \<le> hi"

definition DecodeRune :: "string \<Rightarrow> nat \<times> nat" where
  "DecodeRune s =
    (case s of
       [] \<Rightarrow> (0xFFFD, 0)
     | c0 # s1 \<Rightarrow>
        (if code c0 < 0x80 then (code c0, 1)
         else if 0xC2 \<le> code c0 \<and> code c0 \<le> 0xDF then
          (case s1 of
             c1 # _ \<Rightarrow> if cont 0x80 0xBF c1 then (code c0 mod 32 * 64 + code c1 mod 64, 2) else (0xFFFD, 1)
           | _ \<Rightarrow> (0xFFFD, 1))
         else if 0xE0 \<le> code c0 \<and> code c0 \<le> 0xEF then
          (case s1 of
             c1 # c2 # _ \<Rightarrow>
               if cont (if code c0 = 0xE0 then 0xA0 else 0x80) (if code c0 = 0xED then 0x9F else 0xBF) c1
                  \<and> cont 0x80 0xBF c2
               then (code c0 mod 16 * 4096 + code c1 mod 64 * 64 + code c2 mod 64, 3)
               else (0xFFFD, 1)
           | _ \<Rightarrow> (0xFFFD, 1))
         else if 0xF0 \<le> code c0 \<and> code c0 \<le> 0xF4 then
          (case s1 of
             c1 # c2 # c3 # _ \<Rightarrow>
               if cont (if code c0 = 0xF0 then 0x90 else 0x80) (if code c0 = 0xF4 then 0x8F else 0xBF) c1
                  \<and> cont 0x80 0xBF c2 \<and> cont 0x80 0xBF c3
               then (code c0 mod 8 * 262144 + code c1 mod 64 * 4096 + code c2 mod 64 * 64 + code c3 mod 64, 4)
               else (0xFFFD, 1)
           | _ \<Rightarrow> (0xFFFD, 1))
         else (0xFFFD, 1)))"

lemma DecodeRune_width: "s \<noteq> [] \<Longrightarrow> 0 < snd (DecodeRune s)"
  by (auto simp: DecodeRune_def split: list.splits)

text \<open>\<open>[]rune(s)\<close> and \<open>for _, r := range s\<close>.\<close>

function runes :: "string \<Rightarrow> nat list" where
  "runes s = (if s = [] then [] else fst (DecodeRune s) # runes (drop (snd (DecodeRune s)) s))"
  by pat_completeness auto
termination
  by (relation "measure length") (simp_all add: DecodeRune_width diff_less)

declare runes.simps [simp del]

subsection \<open>Well-formed UTF-8\<close>

definition bad_rune :: "nat \<times> nat \<Rightarrow> bool" where
  "bad_rune p \<longleftrightarrow> fst p = 0xFFFD \<and> snd p \<le> 1"

lemma mod_window:
  fixes x :: nat
  assumes "m * j \<le> x" "x < m * j + m"
  shows "x mod m = x - m * j"
proof -
  from assms have "x = m * j + (x - m * j)" "x - m * j < m" by linarith+
  then show ?thesis by (metis mod_less mod_mult_self4 mult.commute)
qed

lemma div_lin: "x < m \<Longrightarrow> (a * m + x) div m = (a :: nat)"
  by (simp add: div_mult_self3)

lemma mod_lin: "x < m \<Longrightarrow> (a * m + x) mod m = (x :: nat)"
  by simp

text \<open>The four shapes of a well-formed encoding at the start of a string.\<close>

lemma DecodeRune_cases:
  assumes "\<not> bad_rune (DecodeRune s)"
  obtains (one) c0 s' where "s = c0 # s'" "code c0 < 0x80"
  | (two) c0 c1 s' where "s = c0 # c1 # s'" "0xC2 \<le> code c0" "code c0 \<le> 0xDF" "cont 0x80 0xBF c1"
  | (three) c0 c1 c2 s' where "s = c0 # c1 # c2 # s'" "0xE0 \<le> code c0" "code c0 \<le> 0xEF"
      "cont (if code c0 = 0xE0 then 0xA0 else 0x80) (if code c0 = 0xED then 0x9F else 0xBF) c1"
      "cont 0x80 0xBF c2"
  | (four) c0 c1 c2 c3 s' where "s = c0 # c1 # c2 # c3 # s'" "0xF0 \<le> code c0" "code c0 \<le> 0xF4"
      "cont (if code c0 = 0xF0 then 0x90 else 0x80) (if code c0 = 0xF4 then 0x8F else 0xBF) c1"
      "cont 0x80 0xBF c2" "cont 0x80 0xBF c3"
proof -
  obtain c0 s1 where s: "s = c0 # s1"
    using assms by (cases s) (auto simp: DecodeRune_def bad_rune_def)
  consider "code c0 < 0x80" | "0xC2 \<le> code c0" "code c0 \<le> 0xDF"
    | "0xE0 \<le> code c0" "code c0 \<le> 0xEF" | "0xF0 \<le> code c0" "code c0 \<le> 0xF4"
    | "DecodeRune s = (0xFFFD, 1)"
    unfolding s DecodeRune_def by fastforce
  then show thesis
  proof cases
    case 1
    then show ?thesis using s one by blast
  next
    case 2
    with assms s obtain c1 s' where "s1 = c1 # s'" "cont 0x80 0xBF c1"
      by (cases s1) (simp_all add: DecodeRune_def bad_rune_def split: if_splits)
    with 2 s show ?thesis using two by blast
  next
    case 3
    with assms s have "length s1 \<ge> 2" by (cases s1; cases "tl s1") (simp_all add: DecodeRune_def bad_rune_def)
    then obtain c1 c2 s' where s1: "s1 = c1 # c2 # s'"
      by (metis One_nat_def Suc_1 Suc_le_length_iff)
    have "cont (if code c0 = 0xE0 then 0xA0 else 0x80) (if code c0 = 0xED then 0x9F else 0xBF) c1
        \<and> cont 0x80 0xBF c2"
    proof (rule ccontr)
      assume "\<not> ?thesis"
      with 3 s s1 have "DecodeRune s = (0xFFFD, 1)" by (simp add: DecodeRune_def)
      with assms show False by (simp add: bad_rune_def)
    qed
    with 3 s s1 show ?thesis using three by blast
  next
    case 4
    with assms s have "length s1 \<ge> 3"
      by (cases s1; cases "tl s1"; cases "tl (tl s1)") (simp_all add: DecodeRune_def bad_rune_def)
    then obtain c1 c2 c3 s' where s1: "s1 = c1 # c2 # c3 # s'"
      by (metis Suc_le_length_iff numeral_3_eq_3)
    have "cont (if code c0 = 0xF0 then 0x90 else 0x80) (if code c0 = 0xF4 then 0x8F else 0xBF) c1
        \<and> cont 0x80 0xBF c2 \<and> cont 0x80 0xBF c3"
    proof (rule ccontr)
      assume "\<not> ?thesis"
      with 4 s s1 have "DecodeRune s = (0xFFFD, 1)" by (simp add: DecodeRune_def)
      with assms show False by (simp add: bad_rune_def)
    qed
    with 4 s s1 show ?thesis using four by blast
  next
    case 5
    with assms show ?thesis by (simp add: bad_rune_def)
  qed
qed

lemma DecodeRune_good:
  assumes "\<not> bad_rune (DecodeRune s)"
  shows "snd (DecodeRune s) \<le> length s"
    and "DecodeRune (take (snd (DecodeRune s)) s @ t) = DecodeRune s"
  using assms
  by (cases s rule: DecodeRune_cases; simp add: DecodeRune_def)+

lemma code_window:
  fixes c :: char
  assumes "m * j \<le> code c" "code c < m * j + m"
  shows "code c = m * j + code c mod m"
  using mod_window [OF assms] assms(1) by simp

lemma char_of_eq: "n = code c \<Longrightarrow> char_of n = c" for n :: nat
  by simp

lemma utf8_DecodeRune:
  assumes "\<not> bad_rune (DecodeRune s)"
  shows "utf8 (fst (DecodeRune s)) = take (snd (DecodeRune s)) s"
  using assms
proof (cases s rule: DecodeRune_cases)
  case (one c0 s')
  then show ?thesis by (simp add: DecodeRune_def utf8_def)
next
  case (two c0 c1 s')
  let ?a = "code c0 mod 32" and ?b = "code c1 mod 64"
  have a: "code c0 = 0xC0 + ?a" "?a < 32" using two code_window [of 32 6 c0] by auto
  have b: "code c1 = 0x80 + ?b" "?b < 64" using two code_window [of 64 2 c1] by (auto simp: cont_def)
  have r: "0x80 \<le> ?a * 64 + ?b" "?a * 64 + ?b < 0x800" using a b two by linarith+
  then have "utf8 (?a * 64 + ?b) = [c0, c1]"
    unfolding utf8_def using a b by (simp add: div_lin mod_lin char_of_eq)
  then show ?thesis using two by (simp add: DecodeRune_def)
next
  case (three c0 c1 c2 s')
  let ?a = "code c0 mod 16" and ?b = "code c1 mod 64" and ?c = "code c2 mod 64"
  have a: "code c0 = 0xE0 + ?a" "?a < 16" using three code_window [of 16 14 c0] by auto
  have b: "code c1 = 0x80 + ?b" "?b < 64" "?a = 0 \<longrightarrow> 32 \<le> ?b"
    using three code_window [of 64 2 c1] a by (auto simp: cont_def split: if_splits)
  have c: "code c2 = 0x80 + ?c" "?c < 64" using three code_window [of 64 2 c2] by (auto simp: cont_def)
  let ?r = "?a * 4096 + ?b * 64 + ?c"
  have "?r = ?a * 4096 + (?b * 64 + ?c)" "?b * 64 + ?c < 4096" using b c by linarith+
  then have d1: "?r div 4096 = ?a" by (metis div_lin)
  have e: "?r = (?a * 64 + ?b) * 64 + ?c" by simp
  have d2: "?r div 64 mod 64 = ?b" "?r mod 64 = ?c"
    using b(2) c(2) by (metis e div_lin mod_lin)+
  have "0x800 \<le> ?r" "?r < 0x10000" using a b c by linarith+
  then have "utf8 ?r = [c0, c1, c2]"
    unfolding utf8_def d1 d2 using a b c by (simp add: char_of_eq)
  then show ?thesis using three by (simp add: DecodeRune_def)
next
  case (four c0 c1 c2 c3 s')
  let ?a = "code c0 mod 8" and ?b = "code c1 mod 64" and ?c = "code c2 mod 64" and ?d = "code c3 mod 64"
  have a: "code c0 = 0xF0 + ?a" "?a < 8" using four code_window [of 8 30 c0] by auto
  have b: "code c1 = 0x80 + ?b" "?b < 64" "?a = 0 \<longrightarrow> 16 \<le> ?b"
    using four code_window [of 64 2 c1] a by (auto simp: cont_def split: if_splits)
  have c: "code c2 = 0x80 + ?c" "?c < 64" using four code_window [of 64 2 c2] by (auto simp: cont_def)
  have d: "code c3 = 0x80 + ?d" "?d < 64" using four code_window [of 64 2 c3] by (auto simp: cont_def)
  let ?r = "?a * 262144 + ?b * 4096 + ?c * 64 + ?d"
  have "?r = ?a * 262144 + (?b * 4096 + ?c * 64 + ?d)" "?b * 4096 + ?c * 64 + ?d < 262144"
    using b c d by linarith+
  then have d1: "?r div 262144 = ?a" by (metis div_lin)
  have "?r = (?a * 64 + ?b) * 4096 + (?c * 64 + ?d)" by simp
  moreover have "?c * 64 + ?d < 4096" using c d by linarith
  ultimately have d2: "?r div 4096 mod 64 = ?b" using b(2) by (metis div_lin mod_lin)
  have e: "?r = (?a * 4096 + ?b * 64 + ?c) * 64 + ?d" by simp
  have f: "?a * 4096 + ?b * 64 + ?c = (?a * 64 + ?b) * 64 + ?c" by simp
  have d3: "?r div 64 mod 64 = ?c" "?r mod 64 = ?d"
    using d(2) c(2) by (metis e f div_lin mod_lin)+
  have "0x10000 \<le> ?r" using a b c d by linarith
  then have "utf8 ?r = [c0, c1, c2, c3]"
    unfolding utf8_def d1 d2 d3 using a b c d by (simp add: char_of_eq)
  then show ?thesis using four by (simp add: DecodeRune_def)
qed


function valid_utf8 :: "string \<Rightarrow> bool" where
  "valid_utf8 s \<longleftrightarrow>
    (if s = [] then True
     else \<not> bad_rune (DecodeRune s) \<and> valid_utf8 (drop (snd (DecodeRune s)) s))"
  by pat_completeness auto
termination
  by (relation "measure length") (simp_all add: DecodeRune_width diff_less)

declare valid_utf8.simps [simp del]

text \<open>ASCII text: one byte per rune.\<close>

abbreviation ascii :: "string \<Rightarrow> bool" where
  "ascii s \<equiv> list_all (\<lambda>c. code c < 128) s"

lemma valid_ascii [strs]: "ascii s \<Longrightarrow> valid_utf8 s"
proof (induction s)
  case (Cons c s)
  then show ?case by (subst valid_utf8.simps) (auto simp: DecodeRune_def bad_rune_def)
qed (simp add: valid_utf8.simps)

lemma runes_ascii [strs]: "ascii s \<Longrightarrow> runes s = map code s"
proof (induction s)
  case (Cons c s)
  then show ?case by (subst runes.simps) (auto simp: DecodeRune_def)
qed (simp add: runes.simps)

section \<open>Trimming\<close>

text \<open>The UTF-8 encodings of the runes for which \<open>unicode.IsSpace\<close> holds.\<close>

definition space_seqs :: "string list" where
  "space_seqs =
    [[CHR 0x20], [CHR 0x09], [CHR 0x0A], [CHR 0x0B], [CHR 0x0C], [CHR 0x0D],
     [CHR 0xC2, CHR 0x85], [CHR 0xC2, CHR 0xA0], [CHR 0xE1, CHR 0x9A, CHR 0x80],
     [CHR 0xE2, CHR 0x80, CHR 0x80], [CHR 0xE2, CHR 0x80, CHR 0x81], [CHR 0xE2, CHR 0x80, CHR 0x82],
     [CHR 0xE2, CHR 0x80, CHR 0x83], [CHR 0xE2, CHR 0x80, CHR 0x84], [CHR 0xE2, CHR 0x80, CHR 0x85],
     [CHR 0xE2, CHR 0x80, CHR 0x86], [CHR 0xE2, CHR 0x80, CHR 0x87], [CHR 0xE2, CHR 0x80, CHR 0x88],
     [CHR 0xE2, CHR 0x80, CHR 0x89], [CHR 0xE2, CHR 0x80, CHR 0x8A], [CHR 0xE2, CHR 0x80, CHR 0xA8],
     [CHR 0xE2, CHR 0x80, CHR 0xA9], [CHR 0xE2, CHR 0x80, CHR 0xAF], [CHR 0xE2, CHR 0x81, CHR 0x9F],
     [CHR 0xE3, CHR 0x80, CHR 0x80]]"

definition HasPrefix :: "string \<Rightarrow> string \<Rightarrow> bool" where
  "HasPrefix s p \<longleftrightarrow> take (length p) s = p"

definition HasSuffix :: "string \<Rightarrow> string \<Rightarrow> bool" where
  "HasSuffix s p \<longleftrightarrow> length p \<le> length s \<and> drop (length s - length p) s = p"

definition lead_space :: "string \<Rightarrow> nat" where
  "lead_space s = (case find (\<lambda>w. HasPrefix s w) space_seqs of None \<Rightarrow> 0 | Some w \<Rightarrow> length w)"

definition trail_space :: "string \<Rightarrow> nat" where
  "trail_space s = (case find (\<lambda>w. HasSuffix s w) space_seqs of None \<Rightarrow> 0 | Some w \<Rightarrow> length w)"

lemma space_seqs_ne: "w \<in> set space_seqs \<Longrightarrow> w \<noteq> []"
  by (auto simp: space_seqs_def)

lemma lead_space_Nil [simp]: "lead_space [] = 0"
  by (auto simp: lead_space_def HasPrefix_def find_Some_iff split: option.splits)

lemma trail_space_le: "trail_space s \<le> length s"
  by (auto simp: trail_space_def HasSuffix_def find_Some_iff split: option.splits)

function TrimLeftSpace :: "string \<Rightarrow> string" where
  "TrimLeftSpace s = (if lead_space s = 0 then s else TrimLeftSpace (drop (lead_space s) s))"
  by pat_completeness auto
termination
  by (relation "measure length") (auto simp: neq_Nil_conv dest: gr0I intro!: diff_less)

function TrimRightSpace :: "string \<Rightarrow> string" where
  "TrimRightSpace s = (if trail_space s = 0 then s else TrimRightSpace (take (length s - trail_space s) s))"
  by pat_completeness auto
termination
proof (relation "measure length")
  fix s :: string
  assume "trail_space s \<noteq> 0"
  with trail_space_le [of s] show "(take (length s - trail_space s) s, s) \<in> measure length"
    by simp
qed simp

declare TrimLeftSpace.simps [simp del] TrimRightSpace.simps [simp del]

definition TrimSpace :: "string \<Rightarrow> string" where
  "TrimSpace s = TrimRightSpace (TrimLeftSpace s)"

text \<open>Printable ASCII characters other than the space: trimming never removes them.\<close>

definition graph :: "char \<Rightarrow> bool" where
  "graph c \<longleftrightarrow> 33 \<le> code c \<and> code c \<le> 126"

lemma find_zero_length:
  "list_all (\<lambda>w. w \<noteq> []) ws \<Longrightarrow>
   (case find P ws of None \<Rightarrow> 0 | Some w \<Rightarrow> length w) = 0 \<longleftrightarrow> list_all (\<lambda>w. \<not> P w) ws"
  by (induction ws) auto

lemma space_seqs_ends: "list_all (\<lambda>w. w \<noteq> [] \<and> \<not> graph (hd w) \<and> \<not> graph (last w)) space_seqs"
  by (simp add: space_seqs_def graph_def)

lemma space_seqs_nonempty: "list_all (\<lambda>w. w \<noteq> []) space_seqs"
  using space_seqs_ends by (auto simp: list_all_iff)

lemma lead_space_0: "lead_space s = 0 \<longleftrightarrow> list_all (\<lambda>w. \<not> HasPrefix s w) space_seqs"
  unfolding lead_space_def by (rule find_zero_length [OF space_seqs_nonempty])

lemma trail_space_0: "trail_space s = 0 \<longleftrightarrow> list_all (\<lambda>w. \<not> HasSuffix s w) space_seqs"
  unfolding trail_space_def by (rule find_zero_length [OF space_seqs_nonempty])

lemma HasPrefix_hd: "HasPrefix s w \<Longrightarrow> w \<noteq> [] \<Longrightarrow> s \<noteq> [] \<and> hd s = hd w"
  by (cases s; cases w) (auto simp: HasPrefix_def)

lemma HasSuffix_last: "HasSuffix s w \<Longrightarrow> w \<noteq> [] \<Longrightarrow> s \<noteq> [] \<and> last s = last w"
  by (metis HasSuffix_def drop_Nil last_drop length_drop length_greater_0_conv zero_less_diff)

lemma lead_space_graph: "graph (hd s) \<Longrightarrow> lead_space s = 0"
  using space_seqs_ends
  by (auto simp: lead_space_0 list_all_iff dest: HasPrefix_hd)

lemma trail_space_graph: "graph (last s) \<Longrightarrow> trail_space s = 0"
  using space_seqs_ends
  by (auto simp: trail_space_0 list_all_iff dest: HasSuffix_last)

lemma TrimSpace_Nil [strs, simp]: "TrimSpace [] = []"
  by (simp add: TrimSpace_def TrimLeftSpace.simps TrimRightSpace.simps trail_space_le [of "[]", simplified])

lemma TrimSpace_graph [strs]: "graph (hd s) \<Longrightarrow> graph (last s) \<Longrightarrow> TrimSpace s = s"
  by (simp add: TrimSpace_def TrimLeftSpace.simps TrimRightSpace.simps lead_space_graph trail_space_graph)

lemma lead_space_TrimLeft: "lead_space (TrimLeftSpace s) = 0"
  by (induction s rule: TrimLeftSpace.induct) (subst TrimLeftSpace.simps, simp)

lemma trail_space_TrimRight: "trail_space (TrimRightSpace s) = 0"
  by (induction s rule: TrimRightSpace.induct) (subst TrimRightSpace.simps, simp)

lemma lead_space_prefix: "lead_space s = 0 \<Longrightarrow> lead_space (take n s) = 0"
proof -
  have "HasPrefix (take n s) w \<Longrightarrow> HasPrefix s w" for w
    by (metis HasPrefix_def length_take min.cobounded1 min_def take_all_iff take_take)
  then show "lead_space s = 0 \<Longrightarrow> lead_space (take n s) = 0"
    by (auto simp: lead_space_0 list_all_iff)
qed

lemma lead_space_TrimRight: "lead_space s = 0 \<Longrightarrow> lead_space (TrimRightSpace s) = 0"
  by (induction s rule: TrimRightSpace.induct) (subst TrimRightSpace.simps, simp add: lead_space_prefix)

lemma TrimSpace_idem [strs, simp]: "TrimSpace (TrimSpace s) = TrimSpace s"
proof -
  have "lead_space (TrimSpace s) = 0"
    by (simp add: TrimSpace_def lead_space_TrimRight lead_space_TrimLeft)
  moreover have "trail_space (TrimSpace s) = 0"
    by (simp add: TrimSpace_def trail_space_TrimRight)
  ultimately show ?thesis
    by (simp add: TrimSpace_def [of "TrimSpace s"] TrimLeftSpace.simps TrimRightSpace.simps)
qed

text \<open>\<open>strings.Trim(s, cutset)\<close> and \<open>strings.TrimRight(s, cutset)\<close> for a cutset of one ASCII character.\<close>

definition TrimRightChar :: "string \<Rightarrow> char \<Rightarrow> string" where
  "TrimRightChar s c = rev (dropWhile (\<lambda>x. x = c) (rev s))"

definition TrimChar :: "string \<Rightarrow> char \<Rightarrow> string" where
  "TrimChar s c = TrimRightChar (dropWhile (\<lambda>x. x = c) s) c"

definition TrimPrefix :: "string \<Rightarrow> string \<Rightarrow> string" where
  "TrimPrefix s p = (if HasPrefix s p then drop (length p) s else s)"

section \<open>Searching and splitting\<close>

fun Index :: "string \<Rightarrow> string \<Rightarrow> nat option" where
  "Index [] sep = (if sep = [] then Some 0 else None)"
| "Index (c # s) sep = (if HasPrefix (c # s) sep then Some 0 else map_option Suc (Index s sep))"

definition Contains :: "string \<Rightarrow> string \<Rightarrow> bool" where
  "Contains s sub \<longleftrightarrow> Index s sub \<noteq> None"

text \<open>\<open>strings.SplitN(s, sep, 2)\<close> for a non-empty separator.\<close>

definition SplitN2 :: "string \<Rightarrow> string \<Rightarrow> string list" where
  "SplitN2 s sep = (case Index s sep of None \<Rightarrow> [s] | Some i \<Rightarrow> [take i s, drop (i + length sep) s])"

text \<open>\<open>strings.Split(s, sep)\<close> for a separator of one character.\<close>

fun SplitChar :: "string \<Rightarrow> char \<Rightarrow> string list" where
  "SplitChar [] c = [[]]"
| "SplitChar (x # s) c =
    (if x = c then [] # SplitChar s c
     else (case SplitChar s c of [] \<Rightarrow> [[x]] | p # ps \<Rightarrow> (x # p) # ps))"

fun Join :: "string list \<Rightarrow> string \<Rightarrow> string" where
  "Join [] sep = []"
| "Join [s] sep = s"
| "Join (s # t # ss) sep = s @ sep @ Join (t # ss) sep"

lemma SplitN2_not_in: "c \<notin> set s \<Longrightarrow> SplitN2 s [c] = [s]"
proof -
  have "c \<notin> set s \<Longrightarrow> Index s [c] = None"
    by (induction s) (auto simp: HasPrefix_def)
  then show "c \<notin> set s \<Longrightarrow> SplitN2 s [c] = [s]" by (simp add: SplitN2_def)
qed

lemma SplitN2_hd: "hd (SplitN2 s [c]) = takeWhile (\<lambda>x. x \<noteq> c) s"
proof -
  have "(case Index s [c] of None \<Rightarrow> s | Some i \<Rightarrow> take i s) = takeWhile (\<lambda>x. x \<noteq> c) s"
    by (induction s) (auto simp: HasPrefix_def split: option.splits)
  then show ?thesis by (auto simp: SplitN2_def split: option.splits)
qed

section \<open>Case mapping\<close>

definition lower_ascii :: "char \<Rightarrow> char" where
  "lower_ascii c = (if 65 \<le> code c \<and> code c \<le> 90 then char_of (code c + 32) else c)"

text \<open>
  \<open>strings.ToLower\<close>: U+0130 and U+212A are the letters beyond ASCII that Go maps to
  ASCII letters.
\<close>

fun ToLower :: "string \<Rightarrow> string" where
  "ToLower [] = []"
| "ToLower (c # s) =
    (if c = CHR 0xC4 \<and> HasPrefix s [CHR 0xB0] then CHR ''i'' # ToLower (drop 1 s)
     else if c = CHR 0xE2 \<and> HasPrefix s [CHR 0x84, CHR 0xAA] then CHR ''k'' # ToLower (drop 2 s)
     else lower_ascii c # ToLower s)"

text \<open>
  The simple case folding behind \<open>strings.EqualFold\<close>: U+017F folds with \<open>s\<close> and U+212A
  with \<open>k\<close>.
\<close>

fun FoldCase :: "string \<Rightarrow> string" where
  "FoldCase [] = []"
| "FoldCase (c # s) =
    (if c = CHR 0xC5 \<and> HasPrefix s [CHR 0xBF] then CHR ''s'' # FoldCase (drop 1 s)
     else if c = CHR 0xE2 \<and> HasPrefix s [CHR 0x84, CHR 0xAA] then CHR ''k'' # FoldCase (drop 2 s)
     else lower_ascii c # FoldCase s)"

definition EqualFold :: "string \<Rightarrow> string \<Rightarrow> bool" where
  "EqualFold s t \<longleftrightarrow> FoldCase s = FoldCase t"

section \<open>Decimal numbers\<close>

definition digit_char :: "nat \<Rightarrow> char" where
  "digit_char d = char_of (48 + d)"

definition is_digit :: "char \<Rightarrow> bool" where
  "is_digit c \<longleftrightarrow> 48 \<le> code c \<and> code c \<le> 57"

text \<open>The decimal text of a natural number and of an integer (\<open>strconv.Itoa\<close>, \<open>big.Int.String\<close>).\<close>

fun nat_text :: "nat \<Rightarrow> string" where
  "nat_text n = (if n < 10 then [digit_char n] else nat_text (n div 10) @ [digit_char (n mod 10)])"

declare nat_text.simps [simp del]

definition Itoa :: "int \<Rightarrow> string" where
  "Itoa i = (if i < 0 then CHR ''-'' # nat_text (nat (- i)) else nat_text (nat i))"

fun digits_value :: "nat \<Rightarrow> string \<Rightarrow> nat option" where
  "digits_value acc [] = Some acc"
| "digits_value acc (c # s) = (if is_digit c then digits_value (10 * acc + (code c - 48)) s else None)"

definition parse_nat :: "string \<Rightarrow> nat option" where
  "parse_nat s = (if s = [] then None else digits_value 0 s)"

text \<open>\<open>new(big.Int).SetString(s, 10)\<close>: an optional sign, then decimal digits only.\<close>

definition SetString :: "string \<Rightarrow> int option" where
  "SetString s =
    (case s of
       [] \<Rightarrow> None
     | c # t \<Rightarrow>
        (if c = CHR ''-'' then map_option (\<lambda>n. - int n) (parse_nat t)
         else if c = CHR ''+'' then map_option int (parse_nat t)
         else map_option int (parse_nat s)))"

text \<open>
  \<open>strconv.Atoi\<close> and \<open>strconv.ParseInt(s, 10, 64)\<close>: the value and whether the error is
  nil; out of range, the value is the nearest bound.
\<close>

definition Atoi :: "string \<Rightarrow> int \<times> bool" where
  "Atoi s =
    (case SetString s of
       None \<Rightarrow> (0, False)
     | Some i \<Rightarrow>
        (if i < - (2 ^ 63) then (- (2 ^ 63), False)
         else if 2 ^ 63 \<le> i then (2 ^ 63 - 1, False)
         else (i, True)))"

lemma code_digit_char [simp]: "d < 10 \<Longrightarrow> code (digit_char d) = 48 + d"
  by (simp add: digit_char_def)

lemma digits_value_append:
  "digits_value acc (s @ t) = (case digits_value acc s of None \<Rightarrow> None | Some n \<Rightarrow> digits_value n t)"
  by (induction s arbitrary: acc) auto

lemma nat_text_ne [simp]: "nat_text n \<noteq> []"
  by (subst nat_text.simps) simp

lemma digits_value_nat_text: "digits_value 0 (nat_text n) = Some n"
proof (induction n rule: nat_text.induct)
  case (1 n)
  show ?case
  proof (cases "n < 10")
    case True
    then show ?thesis by (subst nat_text.simps) (simp add: is_digit_def)
  next
    case False
    with 1 have "digits_value 0 (nat_text (n div 10)) = Some (n div 10)" by simp
    with False show ?thesis
      by (subst nat_text.simps) (simp add: digits_value_append is_digit_def)
  qed
qed

lemma parse_nat_text [simp]: "parse_nat (nat_text n) = Some n"
  by (simp add: parse_nat_def digits_value_nat_text)

lemma nat_text_digits: "\<forall>c \<in> set (nat_text n). is_digit c"
proof (induction n rule: nat_text.induct)
  case (1 n)
  then show ?case
    by (cases "n < 10"; subst nat_text.simps) (auto simp: is_digit_def)
qed

lemma is_digit_graph: "is_digit c \<Longrightarrow> graph c"
  by (simp add: is_digit_def graph_def)

lemma not_digit [simp]: "\<not> is_digit (CHR ''-'')" "\<not> is_digit (CHR ''+'')" "\<not> is_digit (CHR ''.'')"
  by (simp_all add: is_digit_def)

lemma hd_nat_text: "is_digit (hd (nat_text n))"
  using nat_text_digits [of n] hd_in_set [OF nat_text_ne] by blast

lemma last_nat_text: "is_digit (last (nat_text n))"
  using nat_text_digits [of n] last_in_set [OF nat_text_ne] by blast

lemma Itoa_ne [simp]: "Itoa i \<noteq> []"
  by (simp add: Itoa_def)

lemma SetString_Itoa [strs, simp]: "SetString (Itoa i) = Some i"
proof (cases "i < 0")
  case True
  then show ?thesis by (simp add: Itoa_def SetString_def)
next
  case False
  have "hd (nat_text (nat i)) \<noteq> CHR ''-''" "hd (nat_text (nat i)) \<noteq> CHR ''+''"
    using hd_nat_text [of "nat i"] by auto
  with False show ?thesis
    using parse_nat_text [of "nat i"]
    by (cases "nat_text (nat i)") (auto simp: Itoa_def SetString_def simp del: parse_nat_text)
qed

lemma graph_Itoa: "graph (hd (Itoa i))" "graph (last (Itoa i))"
  by (auto simp: Itoa_def hd_nat_text last_nat_text is_digit_graph) (simp add: graph_def)

lemma TrimSpace_Itoa [strs, simp]: "TrimSpace (Itoa i) = Itoa i"
  by (simp add: TrimSpace_graph graph_Itoa)

lemma dot_notin_Itoa: "CHR ''.'' \<notin> set (Itoa i)"
  using nat_text_digits [of "nat i"] nat_text_digits [of "nat (- i)"] not_digit(3)
  by (auto simp: Itoa_def)

lemma Atoi_Itoa [strs]: "in64 i \<Longrightarrow> Atoi (Itoa i) = (i, True)"
  by (simp add: Atoi_def in64_def)

lemma Atoi_in64: "in64 (fst (Atoi s))"
  by (auto simp: Atoi_def in64_def split: option.splits)

interpretation dec: codec Itoa SetString "\<lambda>_. True"
  by unfold_locales simp

end
