(* ===== verification/Json.thy ===== *)
theory Json
  imports Go_Strings
begin

text \<open>
  JSON documents and the text that package \<open>encoding/json\<close> reads and writes. A document is
  a \<open>json\<close> value; an object keeps its members in the order of the text, and a number keeps
  its literal. \<open>json_text\<close> is what \<open>json.Marshal\<close> writes (with Go's escapes), \<open>json_parse\<close>
  is \<open>json.Unmarshal\<close> into a generic value. Numbers that pass through Go's
  \<open>float64\<close> keep their literal here, which is what happens to the integers up to
  \<open>2 ^ 53\<close> that the program writes.
\<close>

datatype json =
    JNull
  | JBool bool
  | JNum string
  | JStr string
  | JArr "json list"
  | JObj "(string \<times> json) list"

section \<open>Writing\<close>

definition hex_char :: "nat \<Rightarrow> char" where
  "hex_char d = (if d < 10 then char_of (48 + d) else char_of (87 + d))"

definition u_escape :: "nat \<Rightarrow> string" where
  "u_escape r = [CHR 0x5C, CHR ''u'', hex_char (r div 4096 mod 16), hex_char (r div 256 mod 16),
     hex_char (r div 16 mod 16), hex_char (r mod 16)]"

text \<open>One ASCII character inside a JSON string, with HTML escaping as \<open>json.Marshal\<close> does it.\<close>

definition ascii_text :: "char \<Rightarrow> string" where
  "ascii_text c =
    (if c = CHR 0x22 \<or> c = CHR 0x5C then [CHR 0x5C, c]
     else if c = CHR 0x08 then [CHR 0x5C, CHR ''b'']
     else if c = CHR 0x0C then [CHR 0x5C, CHR ''f'']
     else if c = CHR 0x0A then [CHR 0x5C, CHR ''n'']
     else if c = CHR 0x0D then [CHR 0x5C, CHR ''r'']
     else if c = CHR 0x09 then [CHR 0x5C, CHR ''t'']
     else if code c < 32 \<or> c = CHR ''<'' \<or> c = CHR ''>'' \<or> c = CHR ''&'' then u_escape (code c)
     else [c])"

text \<open>The characters of a string; an invalid byte becomes the escape of U+FFFD.\<close>

function str_chars :: "string \<Rightarrow> string" where
  "str_chars s =
    (if s = [] then []
     else if code (hd s) < 0x80 then ascii_text (hd s) @ str_chars (tl s)
     else let (r, w) = DecodeRune s in
       (if r = 0xFFFD \<and> w = 1 then u_escape 0xFFFD
        else if r = 0x2028 \<or> r = 0x2029 then u_escape r
        else take w s) @ str_chars (drop w s))"
  by pat_completeness auto
termination
proof (relation "measure length")
  fix s :: string and x r w
  assume s: "s \<noteq> []" and x: "x = DecodeRune s" "(r, w) = x"
  then have "0 < w" using DecodeRune_width [of s] by (cases "DecodeRune s") auto
  then show "(drop w s, s) \<in> measure length" using s by simp
qed simp_all

declare str_chars.simps [simp del]

definition str_text :: "string \<Rightarrow> string" where
  "str_text s = CHR 0x22 # str_chars s @ [CHR 0x22]"

fun commas :: "string list \<Rightarrow> string" where
  "commas [] = []"
| "commas [s] = s"
| "commas (s # t # ss) = s @ CHR '','' # commas (t # ss)"

fun json_text :: "json \<Rightarrow> string" where
  "json_text JNull = ''null''"
| "json_text (JBool b) = (if b then ''true'' else ''false'')"
| "json_text (JNum n) = n"
| "json_text (JStr s) = str_text s"
| "json_text (JArr xs) = CHR ''['' # commas (map json_text xs) @ '']''"
| "json_text (JObj kvs) = CHR ''{'' # commas (map (\<lambda>(k, v). str_text k @ CHR '':'' # json_text v) kvs) @ ''}''"

section \<open>Reading\<close>

fun skip_ws :: "string \<Rightarrow> string" where
  "skip_ws [] = []"
| "skip_ws (c # s) = (if c \<in> {CHR 0x20, CHR 0x09, CHR 0x0A, CHR 0x0D} then skip_ws s else c # s)"

definition hex_val :: "char \<Rightarrow> nat option" where
  "hex_val c =
    (if is_digit c then Some (code c - 48)
     else if 97 \<le> code c \<and> code c \<le> 102 then Some (code c - 87)
     else if 65 \<le> code c \<and> code c \<le> 70 then Some (code c - 55)
     else None)"

definition hex4 :: "string \<Rightarrow> nat option" where
  "hex4 s =
    (case s of
       a # b # c # d # _ \<Rightarrow>
         (case (hex_val a, hex_val b, hex_val c, hex_val d) of
            (Some a', Some b', Some c', Some d') \<Rightarrow> Some (((a' * 16 + b') * 16 + c') * 16 + d')
          | _ \<Rightarrow> None)
     | _ \<Rightarrow> None)"

definition simple_escape :: "char \<Rightarrow> char option" where
  "simple_escape c =
    (if c = CHR 0x22 \<or> c = CHR 0x5C \<or> c = CHR ''/'' then Some c
     else if c = CHR ''b'' then Some (CHR 0x08)
     else if c = CHR ''f'' then Some (CHR 0x0C)
     else if c = CHR ''n'' then Some (CHR 0x0A)
     else if c = CHR ''r'' then Some (CHR 0x0D)
     else if c = CHR ''t'' then Some (CHR 0x09)
     else None)"

text \<open>
  The rune of an escape \<open>\u\<close> whose four digits start \<open>t\<close>, and the number of characters
  it takes: a surrogate pair is one rune, a lone surrogate is U+FFFD.
\<close>

definition u_rune :: "nat \<Rightarrow> string \<Rightarrow> nat \<times> nat" where
  "u_rune r t =
    (if r < 0xD800 \<or> 0xDFFF < r then (r, 4)
     else if r < 0xDC00 \<and> HasPrefix (drop 4 t) [CHR 0x5C, CHR ''u''] then
       (case hex4 (drop 6 t) of
          Some r2 \<Rightarrow>
            if 0xDC00 \<le> r2 \<and> r2 \<le> 0xDFFF
            then (0x10000 + (r - 0xD800) * 1024 + (r2 - 0xDC00), 10) else (0xFFFD, 4)
        | None \<Rightarrow> (0xFFFD, 4))
     else (0xFFFD, 4))"

lemma u_rune_pos: "0 < snd (u_rune r t)"
  by (auto simp: u_rune_def split: option.splits)

text \<open>The rest of a string literal after its opening quote.\<close>

function read_str :: "string \<Rightarrow> (string \<times> string) option" where
  "read_str s =
    (if s = [] then None
     else if hd s = CHR 0x22 then Some ([], tl s)
     else if hd s = CHR 0x5C then
       (case tl s of
          [] \<Rightarrow> None
        | e # t \<Rightarrow>
           (if e = CHR ''u'' then
              (case hex4 t of
                 None \<Rightarrow> None
               | Some r \<Rightarrow> map_option (\<lambda>(x, y). (utf8 (fst (u_rune r t)) @ x, y))
                   (read_str (drop (snd (u_rune r t)) t)))
            else (case simple_escape e of
                    None \<Rightarrow> None
                  | Some c \<Rightarrow> map_option (\<lambda>(x, y). (c # x, y)) (read_str t))))
     else if code (hd s) < 32 then None
     else if code (hd s) < 0x80 then map_option (\<lambda>(x, y). (hd s # x, y)) (read_str (tl s))
     else let (r, w) = DecodeRune s in
       map_option (\<lambda>(x, y). ((if r = 0xFFFD \<and> w = 1 then utf8 0xFFFD else take w s) @ x, y))
         (read_str (drop w s)))"
  by pat_completeness auto
termination
proof (relation "measure length")
  fix s :: string and e t
  assume "s \<noteq> []" "tl s = e # t"
  then have len: "length s = Suc (Suc (length t))" by (cases s) auto
  show "(drop (snd (u_rune r t)) t, s) \<in> measure length" for r using len by simp
  show "(t, s) \<in> measure length" using len by simp
next
  fix s :: string and x r w
  assume s: "s \<noteq> []" and x: "x = DecodeRune s" "(r, w) = x"
  then have "0 < w" using DecodeRune_width [of s] by (cases "DecodeRune s") auto
  then show "(drop w s, s) \<in> measure length" using s by simp
qed simp_all

declare read_str.simps [simp del]

text \<open>Number literals: \<open>-? (0 | [1-9][0-9]*) ([.][0-9]+)? ([eE][+-]?[0-9]+)?\<close>.\<close>

definition digits1 :: "string \<Rightarrow> bool" where
  "digits1 s \<longleftrightarrow> s \<noteq> [] \<and> list_all is_digit s"

definition valid_exp :: "string \<Rightarrow> bool" where
  "valid_exp s \<longleftrightarrow>
    (case s of
       [] \<Rightarrow> True
     | c # t \<Rightarrow> (c = CHR ''e'' \<or> c = CHR ''E'') \<and>
         digits1 (case t of d # u \<Rightarrow> if d = CHR ''+'' \<or> d = CHR ''-'' then u else t | [] \<Rightarrow> t))"

definition valid_number :: "string \<Rightarrow> bool" where
  "valid_number s \<longleftrightarrow>
    (let t = (if HasPrefix s ''-'' then tl s else s);
         i = takeWhile is_digit t; u = dropWhile is_digit t
     in i \<noteq> [] \<and> (hd i = CHR ''0'' \<longrightarrow> i = ''0'') \<and>
        (if HasPrefix u ''.'' then digits1 (takeWhile is_digit (tl u)) \<and> valid_exp (dropWhile is_digit (tl u))
         else valid_exp u))"

definition num_char :: "char \<Rightarrow> bool" where
  "num_char c \<longleftrightarrow> is_digit c \<or> c \<in> {CHR ''-'', CHR ''+'', CHR ''.'', CHR ''e'', CHR ''E''}"

text \<open>
  The grammar. Every call spends one unit of fuel; \<open>json_parse\<close> starts with one unit per
  character, and \<open>json_parse_text\<close> shows that this is enough.
\<close>

fun pvalue :: "nat \<Rightarrow> string \<Rightarrow> (json \<times> string) option"
  and pelems :: "nat \<Rightarrow> string \<Rightarrow> (json list \<times> string) option"
  and pmembers :: "nat \<Rightarrow> string \<Rightarrow> ((string \<times> json) list \<times> string) option"
where
  "pvalue 0 s = None"
| "pvalue (Suc n) s =
    (case skip_ws s of
       [] \<Rightarrow> None
     | c # t \<Rightarrow>
        (if c = CHR 0x22 then map_option (\<lambda>(x, y). (JStr x, y)) (read_str t)
         else if c = CHR ''['' then
           (if HasPrefix (skip_ws t) '']'' then Some (JArr [], tl (skip_ws t))
            else map_option (\<lambda>(xs, y). (JArr xs, y)) (pelems n t))
         else if c = CHR ''{'' then
           (if HasPrefix (skip_ws t) ''}'' then Some (JObj [], tl (skip_ws t))
            else map_option (\<lambda>(xs, y). (JObj xs, y)) (pmembers n t))
         else if HasPrefix (c # t) ''null'' then Some (JNull, drop 3 t)
         else if HasPrefix (c # t) ''true'' then Some (JBool True, drop 3 t)
         else if HasPrefix (c # t) ''false'' then Some (JBool False, drop 4 t)
         else (let lit = takeWhile num_char (c # t) in
           if valid_number lit then Some (JNum lit, dropWhile num_char (c # t)) else None)))"
| "pelems 0 s = None"
| "pelems (Suc n) s =
    (case pvalue n s of
       None \<Rightarrow> None
     | Some (x, r) \<Rightarrow>
        (case skip_ws r of
           [] \<Rightarrow> None
         | c # t \<Rightarrow>
            (if c = CHR '','' then map_option (\<lambda>(xs, y). (x # xs, y)) (pelems n t)
             else if c = CHR '']'' then Some ([x], t) else None)))"
| "pmembers 0 s = None"
| "pmembers (Suc n) s =
    (case skip_ws s of
       [] \<Rightarrow> None
     | q # t \<Rightarrow>
        (if q \<noteq> CHR 0x22 then None
         else (case read_str t of
            None \<Rightarrow> None
          | Some (k, r) \<Rightarrow>
             (case skip_ws r of
                [] \<Rightarrow> None
              | d # r' \<Rightarrow>
                 (if d \<noteq> CHR '':'' then None
                  else (case pvalue n r' of
                     None \<Rightarrow> None
                   | Some (v, u) \<Rightarrow>
                      (case skip_ws u of
                         [] \<Rightarrow> None
                       | c # w \<Rightarrow>
                          (if c = CHR '','' then map_option (\<lambda>(xs, y). ((k, v) # xs, y)) (pmembers n w)
                           else if c = CHR ''}'' then Some ([(k, v)], w) else None))))))))"

definition json_parse :: "string \<Rightarrow> json option" where
  "json_parse s =
    (case pvalue (Suc (length s)) s of
       Some (j, r) \<Rightarrow> if skip_ws r = [] then Some j else None
     | None \<Rightarrow> None)"

section \<open>Reading back what was written\<close>

lemma hex_val_char: "d < 16 \<Longrightarrow> hex_val (hex_char d) = Some d"
  by (auto simp: hex_val_def hex_char_def is_digit_def)

lemma hex4_u_escape:
  assumes "r < 65536"
  shows "hex4 (drop 2 (u_escape r) @ t) = Some r"
proof -
  have e: "((r div 4096 mod 16 * 16 + r div 256 mod 16) * 16 + r div 16 mod 16) * 16 + r mod 16 = r"
  proof -
    have "r div 256 = r div 16 div 16" "r div 4096 = r div 16 div 16 div 16"
      by (simp_all flip: div_mult2_eq)
    moreover have "r div 16 div 16 div 16 < 16" using assms by (simp flip: div_mult2_eq)
    then have "r div 16 div 16 div 16 mod 16 = r div 16 div 16 div 16" by simp
    ultimately show ?thesis by (simp only: div_mult_mod_eq)
  qed
  have "r div 4096 mod 16 = r div 4096" "r div 4096 < 16" using assms by simp_all
  then show ?thesis using e by (simp add: u_escape_def hex4_def hex_val_char algebra_simps)
qed

lemma read_str_u:
  "read_str (CHR 0x5C # CHR ''u'' # u) =
    (case hex4 u of
       None \<Rightarrow> None
     | Some r \<Rightarrow> map_option (\<lambda>(x, y). (utf8 (fst (u_rune r u)) @ x, y))
         (read_str (drop (snd (u_rune r u)) u)))"
  by (subst read_str.simps) simp

lemma read_str_simple:
  "simple_escape e = Some c \<Longrightarrow> e \<noteq> CHR ''u'' \<Longrightarrow>
   read_str (CHR 0x5C # e # t) = map_option (\<lambda>(x, y). (c # x, y)) (read_str t)"
  by (subst read_str.simps) simp

lemma read_str_escape:
  assumes "r < 0xD800 \<or> 0xDFFF < r" "r < 65536"
  shows "read_str (u_escape r @ t) = map_option (\<lambda>(x, y). (utf8 r @ x, y)) (read_str t)"
proof -
  let ?u = "drop 2 (u_escape r) @ t"
  have "u_escape r @ t = CHR 0x5C # CHR ''u'' # ?u" and d: "drop 4 ?u = t"
    by (simp_all add: u_escape_def)
  moreover have "u_rune r ?u = (r, 4)"
    using assms by (auto simp: u_rune_def)
  ultimately show ?thesis
    using hex4_u_escape [OF assms(2), of t] read_str_u [of ?u] by (simp only: d fst_conv snd_conv option.case)
qed

lemma ascii_text_cases:
  obtains (plain) "ascii_text c = [c]" "c \<noteq> CHR 0x22" "c \<noteq> CHR 0x5C" "\<not> code c < 32"
  | (simple) e where "ascii_text c = [CHR 0x5C, e]" "simple_escape e = Some c" "e \<noteq> CHR ''u''"
  | (escape) "ascii_text c = u_escape (code c)"
proof -
  consider "c = CHR 0x22 \<or> c = CHR 0x5C \<or> c = CHR 0x08 \<or> c = CHR 0x0C \<or> c = CHR 0x0A \<or> c = CHR 0x0D
      \<or> c = CHR 0x09" | "ascii_text c = u_escape (code c)"
    | "ascii_text c = [c]" "c \<noteq> CHR 0x22" "c \<noteq> CHR 0x5C" "\<not> code c < 32"
    unfolding ascii_text_def by argo
  then show thesis
  proof cases
    case 1
    then show ?thesis
      by (elim disjE) (simp_all add: ascii_text_def simple_escape_def simple)
  qed (use plain escape in blast)+
qed

lemma read_str_ascii:
  assumes "code c < 0x80"
  shows "read_str (ascii_text c @ t) = map_option (\<lambda>(x, y). (c # x, y)) (read_str t)"
proof (cases c rule: ascii_text_cases)
  case plain
  then show ?thesis using assms by (subst read_str.simps) simp
next
  case (simple e)
  then show ?thesis by (simp add: read_str_simple)
next
  case escape
  have "utf8 (code c) = [c]" using assms by (simp add: utf8_def)
  then show ?thesis using escape assms by (simp add: read_str_escape)
qed

lemma read_str_chars:
  "valid_utf8 s \<Longrightarrow> read_str (str_chars s @ CHR 0x22 # t) = Some (s, t)"
proof (induction s rule: str_chars.induct)
  case (1 s)
  show ?case
  proof (cases "s = []")
    case True
    then show ?thesis by (simp add: str_chars.simps read_str.simps)
  next
    case ne: False
    have good: "\<not> bad_rune (DecodeRune s)" and rest: "valid_utf8 (drop (snd (DecodeRune s)) s)"
      using 1(3) ne valid_utf8.simps [of s] by auto
    show ?thesis
    proof (cases "code (hd s) < 0x80")
      case True
      then have "drop (snd (DecodeRune s)) s = tl s"
        using ne by (cases s) (simp_all add: DecodeRune_def)
      then have "read_str (str_chars (tl s) @ CHR 0x22 # t) = Some (tl s, t)"
        using 1(1) ne True rest by simp
      then show ?thesis
        using ne True by (subst str_chars.simps) (simp add: read_str_ascii)
    next
      case hi: False
      obtain r w where rw: "DecodeRune s = (r, w)" by (cases "DecodeRune s")
      have IH: "read_str (str_chars (drop w s) @ CHR 0x22 # t) = Some (drop w s, t)"
        using 1(2) ne hi rw rest by simp
      have w: "w \<le> length s" and app: "DecodeRune (take w s @ u) = (r, w)" for u
        using DecodeRune_good [OF good] rw by auto
      have enc: "utf8 r = take w s" using utf8_DecodeRune [OF good] rw by simp
      have pos: "0 < w" using DecodeRune_width [OF ne] rw by simp
      have nb: "\<not> (r = 0xFFFD \<and> w = 1)" using good rw by (auto simp: bad_rune_def)
      show ?thesis
      proof (cases "r = 0x2028 \<or> r = 0x2029")
        case True
        then have chars: "str_chars s = u_escape r @ str_chars (drop w s)"
          using ne hi rw nb by (subst str_chars.simps) auto
        show ?thesis
        proof -
          have "read_str (str_chars s @ CHR 0x22 # t) = Some (utf8 r @ drop w s, t)"
            using chars True IH read_str_escape [of r] by auto
          then show ?thesis by (simp only: enc append_take_drop_id)
        qed
      next
        case False
        let ?u = "str_chars (drop w s) @ CHR 0x22 # t"
        have "str_chars s = take w s @ str_chars (drop w s)"
          using ne hi rw nb False by (subst str_chars.simps) auto
        moreover have "read_str (take w s @ ?u) = map_option (\<lambda>(x, y). (take w s @ x, y)) (read_str ?u)"
        proof -
          have hd: "hd (take w s @ ?u) = hd s" "take w s @ ?u \<noteq> []"
            using ne pos by (cases s; simp add: take_Cons')+
          have "\<not> code (hd s) < 0x80" "hd s \<noteq> CHR 0x22" "hd s \<noteq> CHR 0x5C" "\<not> code (hd s) < 32"
            using hi by auto
          with hd app [of ?u] nb w show ?thesis
            by (subst read_str.simps) (auto simp: Let_def)
        qed
        ultimately show ?thesis using IH by simp
      qed
    qed
  qed
qed


text \<open>Documents whose strings are UTF-8 and whose numbers are number literals.\<close>

fun wf_json :: "json \<Rightarrow> bool" where
  "wf_json JNull = True"
| "wf_json (JBool b) = True"
| "wf_json (JNum n) = (valid_number n \<and> list_all num_char n)"
| "wf_json (JStr s) = valid_utf8 s"
| "wf_json (JArr xs) = list_all wf_json xs"
| "wf_json (JObj kvs) = list_all (\<lambda>(k, v). valid_utf8 k \<and> wf_json v) kvs"

text \<open>Fuel that is enough to read the text of a document back.\<close>

fun cost :: "json \<Rightarrow> nat" where
  "cost (JArr xs) = Suc (sum_list (map (\<lambda>x. Suc (cost x)) xs))"
| "cost (JObj kvs) = Suc (sum_list (map (\<lambda>(k, v). Suc (cost v)) kvs))"
| "cost _ = 1"

lemma cost_pos: "0 < cost j"
  by (cases j) simp_all

lemma valid_number_head:
  assumes "valid_number n"
  obtains c s where "n = c # s" "is_digit c \<or> c = CHR ''-''"
proof (cases n)
  case Nil
  with assms show ?thesis by (simp add: valid_number_def HasPrefix_def Let_def)
next
  case (Cons c s)
  have "is_digit c \<or> c = CHR ''-''"
    using assms Cons by (auto simp: valid_number_def HasPrefix_def Let_def split: if_splits)
  with Cons show ?thesis by (rule that)
qed

lemma length_json_text_pos: "wf_json j \<Longrightarrow> json_text j \<noteq> []"
  by (cases j) (auto simp: str_text_def elim: valid_number_head)

lemma skip_ws_str: "skip_ws (str_text s @ t) = str_text s @ t"
  by (simp add: str_text_def)

lemma skip_ws_text: "wf_json j \<Longrightarrow> skip_ws (json_text j @ t) = json_text j @ t"
  by (cases j) (auto simp: str_text_def is_digit_def elim!: valid_number_head)

definition no_num :: "string \<Rightarrow> bool" where
  "no_num s \<longleftrightarrow> s = [] \<or> \<not> num_char (hd s)"

lemma takeWhile_no_num:
  "list_all num_char n \<Longrightarrow> no_num t \<Longrightarrow> takeWhile num_char (n @ t) = n \<and> dropWhile num_char (n @ t) = t"
  by (cases t) (auto simp: no_num_def list_all_iff takeWhile_append dropWhile_append)

lemma pvalue_number:
  assumes "wf_json (JNum n)" "no_num t"
  shows "pvalue (Suc k) (n @ t) = Some (JNum n, t)"
proof -
  obtain c s where n: "n = c # s" "is_digit c \<or> c = CHR ''-''"
    using assms(1) by (auto elim: valid_number_head)
  have "takeWhile num_char (c # s @ t) = n" "dropWhile num_char (c # s @ t) = t"
    using takeWhile_no_num [of n t] assms n by auto
  moreover have "c \<notin> {CHR 0x22, CHR ''['', CHR ''{'', CHR ''n'', CHR ''t'', CHR ''f'',
      CHR 0x20, CHR 0x09, CHR 0x0A, CHR 0x0D}"
    using n(2) by (auto simp: is_digit_def)
  ultimately show ?thesis
    using assms(1) n by (simp add: HasPrefix_def del: takeWhile.simps dropWhile.simps)
qed


definition reads :: "json \<Rightarrow> bool" where
  "reads j \<longleftrightarrow> (\<forall>n t. cost j \<le> n \<longrightarrow> no_num t \<longrightarrow> pvalue n (json_text j @ t) = Some (j, t))"

lemma reads_D: "reads j \<Longrightarrow> cost j \<le> n \<Longrightarrow> no_num t \<Longrightarrow> pvalue n (json_text j @ t) = Some (j, t)"
  by (simp add: reads_def)

lemma no_num_punct [simp]:
  "no_num (CHR '','' # t)" "no_num (CHR '']'' # t)" "no_num (CHR ''}'' # t)" "no_num []"
  by (simp_all add: no_num_def num_char_def is_digit_def)

lemma commas_Cons: "commas (s # ss) = s @ (if ss = [] then [] else CHR '','' # commas ss)"
  by (cases ss) simp_all

lemma pelems_text:
  assumes "xs \<noteq> []" "list_all reads xs" "sum_list (map (\<lambda>x. Suc (cost x)) xs) \<le> n"
  shows "pelems n (commas (map json_text xs) @ CHR '']'' # t) = Some (xs, t)"
  using assms
proof (induction xs arbitrary: n)
  case Nil
  then show ?case by simp
next
  case (Cons x xs)
  then obtain m where n: "n = Suc m" "cost x \<le> m" by (cases n) auto
  show ?case
  proof (cases "xs = []")
    case True
    with Cons.prems n show ?thesis by (simp add: reads_D)
  next
    case False
    with Cons.prems n have "pelems m (commas (map json_text xs) @ CHR '']'' # t) = Some (xs, t)"
      by (intro Cons.IH) auto
    with False Cons.prems n show ?thesis by (simp add: commas_Cons reads_D)
  qed
qed

lemma pmembers_text:
  assumes "kvs \<noteq> []" "list_all (\<lambda>(k, v). valid_utf8 k \<and> reads v \<and> wf_json v) kvs"
    "sum_list (map (\<lambda>(k, v). Suc (cost v)) kvs) \<le> n"
  shows "pmembers n (commas (map (\<lambda>(k, v). str_text k @ CHR '':'' # json_text v) kvs) @ CHR ''}'' # t)
    = Some (kvs, t)"
  using assms
proof (induction kvs arbitrary: n)
  case Nil
  then show ?case by simp
next
  case (Cons kv kvs)
  obtain k v where kv: "kv = (k, v)" by (cases kv)
  from Cons.prems kv obtain m where n: "n = Suc m" "cost v \<le> m" by (cases n) auto
  let ?tail = "(if kvs = [] then [] else CHR '','' #
      commas (map (\<lambda>(k, v). str_text k @ CHR '':'' # json_text v) kvs)) @ CHR ''}'' # t"
  have v: "pvalue m (json_text v @ ?tail) = Some (v, ?tail)"
    using Cons.prems kv n by (intro reads_D) auto
  have k: "read_str (str_chars k @ CHR 0x22 # CHR '':'' # json_text v @ ?tail)
      = Some (k, CHR '':'' # json_text v @ ?tail)"
    using Cons.prems kv by (intro read_str_chars) simp
  have "pmembers (Suc m) (str_text k @ CHR '':'' # json_text v @ ?tail) = Some (kv # kvs, t)"
  proof (cases "kvs = []")
    case True
    with k v kv show ?thesis by (simp add: str_text_def)
  next
    case False
    with Cons.prems n kv
    have "pmembers m (commas (map (\<lambda>(k, v). str_text k @ CHR '':'' # json_text v) kvs) @ CHR ''}'' # t)
        = Some (kvs, t)"
      by (intro Cons.IH) auto
    with k v kv False show ?thesis by (simp add: str_text_def)
  qed
  then show ?case using kv n by (simp add: commas_Cons)
qed

lemma json_text_no_close:
  "wf_json j \<Longrightarrow> \<not> HasPrefix (skip_ws (json_text j @ t)) '']''"
  by (simp add: skip_ws_text) (cases j; auto simp: str_text_def HasPrefix_def is_digit_def elim!: valid_number_head)

lemma wf_reads: "wf_json j \<Longrightarrow> reads j"
proof (induction j)
  case (JArr xs)
  have elems: "list_all reads xs" using JArr by (auto simp: list_all_iff)
  show ?case unfolding reads_def
  proof (intro allI impI)
    fix n t assume "cost (JArr xs) \<le> n" "no_num t"
    then obtain m where n: "n = Suc m" "sum_list (map (\<lambda>x. Suc (cost x)) xs) \<le> m" by (cases n) auto
    show "pvalue n (json_text (JArr xs) @ t) = Some (JArr xs, t)"
    proof (cases "xs = []")
      case True
      then show ?thesis using n by (simp add: HasPrefix_def)
    next
      case False
      have "\<not> HasPrefix (skip_ws (commas (map json_text xs) @ CHR '']'' # t)) '']''"
        using False JArr.prems by (cases xs) (auto simp: commas_Cons json_text_no_close)
      then show ?thesis using n pelems_text [OF False elems n(2)] by simp
    qed
  qed
next
  case (JObj kvs)
  have elems: "list_all (\<lambda>(k, v). valid_utf8 k \<and> reads v \<and> wf_json v) kvs"
    using JObj by (fastforce simp: list_all_iff)
  show ?case unfolding reads_def
  proof (intro allI impI)
    fix n t assume "cost (JObj kvs) \<le> n" "no_num t"
    then obtain m where n: "n = Suc m" "sum_list (map (\<lambda>(k, v). Suc (cost v)) kvs) \<le> m" by (cases n) auto
    show "pvalue n (json_text (JObj kvs) @ t) = Some (JObj kvs, t)"
    proof (cases "kvs = []")
      case True
      then show ?thesis using n by (simp add: HasPrefix_def)
    next
      case False
      then have "\<not> HasPrefix (skip_ws (commas (map (\<lambda>(k, v). str_text k @ CHR '':'' # json_text v) kvs)
          @ CHR ''}'' # t)) ''}''"
        by (cases kvs) (auto simp: commas_Cons str_text_def HasPrefix_def)
      then show ?thesis using n pmembers_text [OF False elems n(2)] by simp
    qed
  qed
next
  case (JNum n)
  then show ?case
    using pvalue_number [of n] by (auto simp: reads_def simp del: pvalue.simps wf_json.simps elim: less_eqE)
next
  case (JStr s)
  then show ?case
    using read_str_chars [of s] by (auto simp: reads_def str_text_def Suc_le_eq gr0_conv_Suc)
qed (auto simp: reads_def HasPrefix_def Suc_le_eq gr0_conv_Suc)


lemma length_commas:
  assumes "\<And>x. x \<in> set xs \<Longrightarrow> f x \<le> length (g x)"
  shows "sum_list (map (\<lambda>x. Suc (f x)) xs) \<le> Suc (length (commas (map g xs)))"
  using assms
proof (induction xs)
  case (Cons x xs)
  have "f x \<le> length (g x)" using Cons.prems by simp
  moreover have "sum_list (map (\<lambda>x. Suc (f x)) xs) \<le> Suc (length (commas (map g xs)))"
    using Cons by simp
  ultimately show ?case by (auto simp: commas_Cons)
qed simp

lemma cost_le_length: "wf_json j \<Longrightarrow> cost j \<le> length (json_text j)"
proof (induction j)
  case (JArr xs)
  then have "sum_list (map (\<lambda>x. Suc (cost x)) xs) \<le> Suc (length (commas (map json_text xs)))"
    by (intro length_commas) (auto simp: list_all_iff)
  then show ?case by simp
next
  case (JObj kvs)
  have "cost v \<le> length (json_text v)" if "(k, v) \<in> set kvs" for k v
    using JObj that by (fastforce simp: list_all_iff)
  then have "sum_list (map (\<lambda>kv. Suc (cost (snd kv))) kvs)
      \<le> Suc (length (commas (map (\<lambda>(k, v). str_text k @ CHR '':'' # json_text v) kvs)))"
    by (intro length_commas) fastforce
  then show ?case by (simp add: case_prod_unfold)
qed (auto simp: str_text_def elim: valid_number_head)

lemma json_parse_text: "wf_json j \<Longrightarrow> json_parse (json_text j) = Some j"
  using reads_D [OF wf_reads, of j "Suc (length (json_text j))" "[]"] cost_le_length [of j]
  by (simp add: json_parse_def)

text \<open>Text that is written as it is.\<close>

definition plain :: "char \<Rightarrow> bool" where
  "plain c \<longleftrightarrow> 32 \<le> code c \<and> code c < 128 \<and> c \<notin> {CHR 0x22, CHR 0x5C, CHR ''<'', CHR ''>'', CHR ''&''}"

lemma ascii_text_plain: "plain c \<Longrightarrow> ascii_text c = [c]"
proof -
  assume c: "plain c"
  then have "code c \<notin> {8, 12, 10, 13, 9}" by (auto simp: plain_def)
  then have "c \<notin> {CHR 0x08, CHR 0x0C, CHR 0x0A, CHR 0x0D, CHR 0x09}" by auto
  with c show ?thesis unfolding plain_def ascii_text_def by simp
qed

lemma str_text_plain [strs]:
  assumes "list_all plain s"
  shows "str_text s = CHR 0x22 # s @ [CHR 0x22]"
proof -
  have "str_chars s = s"
    using assms
  proof (induction s)
    case Nil
    then show ?case by (simp add: str_chars.simps)
  next
    case (Cons c s)
    then have "str_chars (c # s) = ascii_text c @ str_chars s"
      by (subst str_chars.simps) (simp add: plain_def)
    with Cons show ?case by (simp add: ascii_text_plain)
  qed
  then show ?thesis by (simp add: str_text_def)
qed

interpretation jt: codec json_text json_parse wf_json
  by unfold_locales (rule json_parse_text)


section \<open>Objects as Go maps, and struct fields\<close>

text \<open>
  \<open>json.Unmarshal\<close> into a \<open>map[string]any\<close> or \<open>map[string]json.RawMessage\<close>: the last of
  several members with the same key wins; \<open>null\<close> gives the nil map; anything else is an
  error.
\<close>

definition as_map :: "json \<Rightarrow> (string \<times> json) list option" where
  "as_map j =
    (case j of
       JObj kvs \<Rightarrow> Some (fold (\<lambda>(k, v). AList.update k v) kvs [])
     | JNull \<Rightarrow> Some []
     | _ \<Rightarrow> None)"

lemma update_append_new: "k \<notin> fst ` set acc \<Longrightarrow> AList.update k v acc = acc @ [(k, v)]"
  by (induction acc) auto

lemma fold_update_distinct:
  "gmap (acc @ kvs) \<Longrightarrow> fold (\<lambda>(k, v). AList.update k v) kvs acc = acc @ kvs"
proof (induction kvs arbitrary: acc)
  case (Cons kv kvs)
  obtain k v where kv: "kv = (k, v)" by (cases kv)
  with Cons.prems have "k \<notin> fst ` set acc" by (auto simp: gmap_def)
  then show ?case using Cons kv by (simp add: update_append_new)
qed simp

lemma as_map_obj [simp]: "gmap kvs \<Longrightarrow> as_map (JObj kvs) = Some kvs"
  using fold_update_distinct [of "[]" kvs] by (simp add: as_map_def)

lemma as_map_gmap: "as_map j = Some m \<Longrightarrow> gmap m"
  by (auto simp: as_map_def am.ok_fold_put split: json.splits)

text \<open>
  A struct field takes every member whose key equals its name under case folding, in the
  order of the document; a \<open>null\<close> leaves the field as it was. A value of another type is
  an error of the whole decoding (\<open>None\<close>).
\<close>

definition members_of :: "string \<Rightarrow> (string \<times> json) list \<Rightarrow> json list" where
  "members_of name kvs = map snd (filter (\<lambda>(k, v). EqualFold k name) kvs)"

fun dec_string :: "string \<Rightarrow> json list \<Rightarrow> string option" where
  "dec_string cur [] = Some cur"
| "dec_string cur (JNull # js) = dec_string cur js"
| "dec_string cur (JStr s # js) = dec_string s js"
| "dec_string cur (_ # js) = None"

text \<open>An integer field takes a number literal without fraction and exponent, in range.\<close>

fun dec_int :: "int \<Rightarrow> json list \<Rightarrow> int option" where
  "dec_int cur [] = Some cur"
| "dec_int cur (JNull # js) = dec_int cur js"
| "dec_int cur (JNum n # js) = (if snd (Atoi n) then dec_int (fst (Atoi n)) js else None)"
| "dec_int cur (_ # js) = None"

definition string_field :: "string \<Rightarrow> (string \<times> json) list \<Rightarrow> string option" where
  "string_field name kvs = dec_string [] (members_of name kvs)"

definition int_field :: "string \<Rightarrow> (string \<times> json) list \<Rightarrow> int option" where
  "int_field name kvs = dec_int 0 (members_of name kvs)"

text \<open>A \<open>json.RawMessage\<close> field keeps the last member, \<open>null\<close> included.\<close>

definition raw_field :: "string \<Rightarrow> (string \<times> json) list \<Rightarrow> json option" where
  "raw_field name kvs = (case members_of name kvs of [] \<Rightarrow> None | js \<Rightarrow> Some (last js))"

text \<open>The text of an optional raw message; a missing one is the empty string.\<close>

definition raw_text :: "json option \<Rightarrow> string" where
  "raw_text r = (case r of None \<Rightarrow> [] | Some j \<Rightarrow> json_text j)"

end
