(* ===== verification/Store_Core.thy ===== *)
theory Store_Core
  imports Json "HOL-Library.Product_Lexorder"
begin

text \<open>
  Package \<open>store\<close>, file \<open>store.go\<close>: the persisted database, transactions with the file
  replacement behind them, device binding, entities with their versions, and the two ways
  the sync client writes them (\<open>ApplyPage\<close>, \<open>Bootstrap\<close>). A payload is the document its
  bytes decode to; the clock and the outcomes of the file system calls are arguments.
\<close>

section \<open>State\<close>

record storedEntity =
  se_ID :: string
  se_Type :: string
  se_Version :: int
  se_Deleted :: bool
  se_Payload :: json

record storedOperation =
  so_ID :: string
  so_Sequence :: int
  so_EntityType :: string
  so_EntityID :: string
  so_Action :: string
  so_BaseVersion :: "int option"
  so_DependsOn :: "string list"
  so_Payload :: json
  so_CreatedAt :: string
  so_State :: string
  so_Result :: json

record ConnectionConfig =
  APIURL :: string
  DeviceID :: string
  DeviceToken :: string
  DeviceName :: string
  CafeName :: string
  AccountPhone :: string
  cc_UpdatedAt :: string

record LegacyStockCount =
  lc_ID :: int
  lc_Name :: string
  lc_Quantity :: string
  lc_Unit :: string
  lc_Note :: string
  lc_CreatedAt :: string

record persistedDB =
  Meta :: "(string \<times> string) list"
  Entities :: "(string \<times> storedEntity) list"
  Outbox :: "storedOperation list"
  LegacyStockCounts :: "LegacyStockCount list"
  NextOutboxSeq :: int
  NextLegacyStockCountID :: int
  Connection :: "ConnectionConfig option"

record Entity =
  en_ID :: string
  en_Type :: string
  en_Version :: int
  en_Payload :: json

record Change =
  ch_EntityType :: string
  ch_EntityID :: string
  ch_Version :: int
  ch_Tombstone :: bool
  ch_Operation :: string
  ch_Payload :: json

text \<open>The errors of package \<open>store\<close>, one constructor per message, grouped by component.\<close>

datatype io_err =
    ErrContext | ErrClosed | ErrOpen | ErrWrite | ErrSync | ErrClose | ErrRename | ErrCorrupt | ErrRand

datatype data_err =
    ErrScope | ErrNotFound | ErrIdentity | ErrEmptyCursor | ErrJSON
  | ErrKindMissing | ErrNegativeField string | ErrBadID

datatype intent_err =
    ErrNoWorkflow | ErrAction | ErrTooLarge | ErrNotObject | ErrDeletePayload | ErrEmptyEdit
  | ErrFieldNotEditable string | ErrUnitFixed | ErrNotBool string | ErrBadDecimal | ErrNotDecimal string
  | ErrNotText string | ErrEmptyTitle | ErrNotUUID string | ErrUnknownUnit | ErrRequired string

datatype queue_err =
    ErrIDGiven | ErrEntityIDNotUUID | ErrNotConfigured | ErrPending | ErrNotInSnapshot
  | ErrVersionChanged | ErrNoVersion | ErrPushCount | ErrPushUnknownID | ErrPushStatus
  | ErrOutboxChanged | ErrNotBlocked

datatype order_err =
    ErrNoItems | ErrProductMissing | ErrNoLines | ErrOrderMissing | ErrOrderCompleted | ErrOrderClosed
  | ErrNeedLine | ErrNoTarget | ErrNotOpen | ErrSameTable | ErrTargetMissing | ErrTargetBusy
  | ErrNameShort | ErrOrderCancelled | ErrAlreadyDebtor | ErrAmount
  | ErrFinal string | ErrTransition string string

datatype split_err =
    ErrPayMethod | ErrNoPicks | ErrSplitCompleted | ErrSplitClosed | ErrPickUnknown
  | ErrPickTooMany string | ErrZeroAmount | ErrUndoCompleted | ErrNoPayment

datatype stock_err =
    ErrQty | ErrIngredientMissing | ErrWasteMissing | ErrWasteVoided | ErrPayAmount | ErrDebtorMissing

datatype print_err =
    ErrPrintOrderMissing | ErrPrinterMissing | ErrJobMissing | ErrJobInvalid

datatype err =
    EIO io_err | EData data_err | EIntent intent_err | EQueue queue_err | EOrder order_err
  | ESplit split_err | EStock stock_err | EPrint print_err

definition newEmptyDB :: persistedDB where
  "newEmptyDB = \<lparr> Meta = [], Entities = [], Outbox = [], LegacyStockCounts = [],
     NextOutboxSeq = 0, NextLegacyStockCountID = 0, Connection = None \<rparr>"

text \<open>
  \<open>cloneDB\<close> copies field by field. Values have no identity in the model, so the copies of
  slices and payloads are the values themselves; what remains is that no field is left out.
\<close>

definition clone_entity :: "storedEntity \<Rightarrow> storedEntity" where
  "clone_entity e = \<lparr> se_ID = se_ID e, se_Type = se_Type e, se_Version = se_Version e,
     se_Deleted = se_Deleted e, se_Payload = se_Payload e \<rparr>"

definition clone_op :: "storedOperation \<Rightarrow> storedOperation" where
  "clone_op p = \<lparr> so_ID = so_ID p, so_Sequence = so_Sequence p, so_EntityType = so_EntityType p,
     so_EntityID = so_EntityID p, so_Action = so_Action p,
     so_BaseVersion = (case so_BaseVersion p of None \<Rightarrow> None | Some v \<Rightarrow> Some v),
     so_DependsOn = (if so_DependsOn p = [] then so_DependsOn p else map (\<lambda>d. d) (so_DependsOn p)),
     so_Payload = so_Payload p, so_CreatedAt = so_CreatedAt p, so_State = so_State p,
     so_Result = so_Result p \<rparr>"

definition cloneDB :: "persistedDB \<Rightarrow> persistedDB" where
  "cloneDB src = \<lparr>
     Meta = map (\<lambda>(k, v). (k, v)) (Meta src),
     Entities = map (\<lambda>(k, v). (k, clone_entity v)) (Entities src),
     Outbox = map clone_op (Outbox src),
     LegacyStockCounts = map (\<lambda>c. c) (LegacyStockCounts src),
     NextOutboxSeq = NextOutboxSeq src,
     NextLegacyStockCountID = NextLegacyStockCountID src,
     Connection = (case Connection src of None \<Rightarrow> None | Some c \<Rightarrow> Some c) \<rparr>"

lemma clone_entity_id [simp]: "clone_entity e = e"
  by (simp add: clone_entity_def)

lemma clone_op_id [simp]: "clone_op p = p"
  by (simp add: clone_op_def split: option.split)

lemma cloneDB_id [simp]: "cloneDB db = db"
  by (simp add: cloneDB_def case_prod_eta map_idI split: option.split)

section \<open>Files and transactions\<close>

text \<open>
  The content of a file: nothing, a prefix of an encoded state that does not decode, or a
  whole encoded state.
\<close>

datatype content = Blank | Torn | Whole persistedDB

record disk =
  main_file :: content
  tmp_file :: "content option"

text \<open>The outcome of each call that a transaction makes outside the process.\<close>

record io =
  ctx_ok :: bool
  open_ok :: bool
  write_ok :: bool
  sync_ok :: bool
  close_ok :: bool
  rename_ok :: bool
  writefile_ok :: bool

text \<open>
  The disk states that \<open>withTx\<close> goes through after the closure has returned, in order: a
  crash leaves one of them behind. The last one is the state on return. A file that is
  being written is blank, then torn, then whole.
\<close>

definition commit_trace :: "io \<Rightarrow> persistedDB \<Rightarrow> disk \<Rightarrow> disk list \<times> err option" where
  "commit_trace w db d =
    (let t0 = d\<lparr>tmp_file := Some Blank\<rparr>; t1 = d\<lparr>tmp_file := Some Torn\<rparr>;
         t2 = d\<lparr>tmp_file := Some (Whole db)\<rparr>; rm = d\<lparr>tmp_file := None\<rparr>
     in if \<not> open_ok w then ([d], Some (EIO ErrOpen))
        else if \<not> write_ok w then ([d, t0, t1, rm], Some (EIO ErrWrite))
        else if \<not> sync_ok w then ([d, t0, t1, t2, rm], Some (EIO ErrSync))
        else if \<not> close_ok w then ([d, t0, t1, t2, rm], Some (EIO ErrClose))
        else if rename_ok w then ([d, t0, t1, t2, \<lparr>main_file = Whole db, tmp_file = None\<rparr>], None)
        else
          (let w0 = t2\<lparr>main_file := Blank\<rparr>; w1 = t2\<lparr>main_file := Torn\<rparr>;
               w2 = t2\<lparr>main_file := Whole db\<rparr>
           in if \<not> writefile_ok w then ([d, t0, t1, t2, w0, w1, w1\<lparr>tmp_file := None\<rparr>], Some (EIO ErrRename))
              else ([d, t0, t1, t2, w0, w1, w2, \<lparr>main_file = Whole db, tmp_file = None\<rparr>], None)))"

record Store =
  closed :: bool
  state :: persistedDB
  disk :: disk

definition withTx :: "io \<Rightarrow> (persistedDB \<Rightarrow> err + persistedDB \<times> 'a) \<Rightarrow> Store \<Rightarrow> Store \<times> (err + 'a)" where
  "withTx w fn s =
    (if \<not> ctx_ok w then (s, Inl (EIO ErrContext))
     else if closed s then (s, Inl (EIO ErrClosed))
     else (case fn (cloneDB (state s)) of
             Inl e \<Rightarrow> (s, Inl e)
           | Inr (tx, a) \<Rightarrow>
              (case commit_trace w tx (disk s) of
                 (ds, Some e) \<Rightarrow> (s\<lparr>disk := last ds\<rparr>, Inl e)
               | (ds, None) \<Rightarrow> (s\<lparr>disk := last ds, state := tx\<rparr>, Inr a))))"

text \<open>\<open>Open\<close> on the file that is there; \<open>Close\<close> only marks the store.\<close>

definition Open :: "disk \<Rightarrow> err + Store" where
  "Open d =
    (case main_file d of
       Blank \<Rightarrow> Inr \<lparr> closed = False, state = newEmptyDB, disk = d \<rparr>
     | Torn \<Rightarrow> Inl (EIO ErrCorrupt)
     | Whole db \<Rightarrow> Inr \<lparr> closed = False, state = db, disk = d \<rparr>)"

definition Close :: "Store \<Rightarrow> Store" where
  "Close s = s\<lparr>closed := True\<rparr>"

text \<open>The file holds what memory holds.\<close>

definition durable :: "Store \<Rightarrow> bool" where
  "durable s \<longleftrightarrow> main_file (disk s) = Whole (state s)
     \<or> (main_file (disk s) = Blank \<and> state s = newEmptyDB)"

lemma Open_durable: "Open d = Inr s \<Longrightarrow> durable s"
  by (auto simp: Open_def durable_def split: content.splits)

subsection \<open>The contract of a transaction\<close>

text \<open>
  What a transaction promises to the operations built on it: a failed one leaves the state
  alone, a successful one installs what the closure computed.
\<close>

locale transactional =
  fixes run :: "'w \<Rightarrow> ('db \<Rightarrow> 'e + 'db \<times> 'a) \<Rightarrow> 's \<Rightarrow> 's \<times> ('e + 'a)"
    and view :: "'s \<Rightarrow> 'db"
  assumes run_err: "run w fn s = (s', Inl e) \<Longrightarrow> view s' = view s"
    and run_ok: "run w fn s = (s', Inr a) \<Longrightarrow> fn (view s) = Inr (view s', a)"
begin

lemma run_view:
  assumes "run w fn s = (s', r)"
  obtains (failed) e where "r = Inl e" "view s' = view s"
  | (succeeded) a where "r = Inr a" "fn (view s) = Inr (view s', a)"
  using assms run_err run_ok by (cases r) blast+

lemma run_preserves:
  assumes "run w fn s = (s', r)" and "P (view s)"
    and "\<And>db db' a. P db \<Longrightarrow> fn db = Inr (db', a) \<Longrightarrow> P db'"
  shows "P (view s')"
  using assms(1) by (cases rule: run_view) (use assms in auto)

lemma run_relates:
  assumes "run w fn s = (s', r)" and "\<And>db. R db db"
    and "\<And>db db' a. fn db = Inr (db', a) \<Longrightarrow> R db db'"
  shows "R (view s) (view s')"
  using assms(1) by (cases rule: run_view) (use assms in auto)

end

lemma withTx_err: "withTx w fn s = (s', Inl e) \<Longrightarrow> state s' = state s"
  by (auto simp: withTx_def split: if_splits sum.splits prod.splits option.splits)

lemma withTx_ok: "withTx w fn s = (s', Inr a) \<Longrightarrow> fn (state s) = Inr (state s', a)"
  by (auto simp: withTx_def split: if_splits sum.splits prod.splits option.splits)

interpretation tx: transactional withTx state
  by unfold_locales (fact withTx_err, fact withTx_ok)

lemma withTx_durable: "withTx w fn s = (s', Inr a) \<Longrightarrow> durable s'"
  by (auto simp: withTx_def commit_trace_def durable_def Let_def
      split: if_splits sum.splits prod.splits option.splits)

lemma withTx_durable_err:
  "withTx w fn s = (s', Inl e) \<Longrightarrow> durable s \<Longrightarrow> rename_ok w \<or> writefile_ok w \<Longrightarrow> durable s'"
  by (auto simp: withTx_def commit_trace_def durable_def Let_def
      split: if_splits sum.splits prod.splits option.splits)

lemma withTx_closed: "closed s \<Longrightarrow> fst (withTx w fn s) = s"
  by (auto simp: withTx_def)

lemma withTx_still_open: "withTx w fn s = (s', r) \<Longrightarrow> closed s' = closed s"
  by (auto simp: withTx_def split: if_splits sum.splits prod.splits option.splits)

text \<open>A run that succeeds when every call does.\<close>

definition all_ok :: io where
  "all_ok = \<lparr> ctx_ok = True, open_ok = True, write_ok = True, sync_ok = True, close_ok = True,
     rename_ok = True, writefile_ok = True \<rparr>"

lemma withTx_all_ok:
  "\<not> closed s \<Longrightarrow> fn (state s) = Inr (db, a) \<Longrightarrow>
   withTx all_ok fn s = (s\<lparr>disk := \<lparr>main_file = Whole db, tmp_file = None\<rparr>, state := db\<rparr>, Inr a)"
  by (simp add: withTx_def commit_trace_def all_ok_def Let_def)

end
