(* ===== verification/Store_Entities.thy ===== *)
theory Store_Entities
  imports Store_Core
begin

text \<open>
  \<open>store.go\<close>, second part: device binding, listing and reading entities, the versioned
  merge of server changes (\<open>applyChange\<close>, \<open>ApplyPage\<close>, \<open>Bootstrap\<close>), the legacy stock
  notes, the backup, and the accessors of a payload (\<open>Label\<close>, \<open>Field\<close>, \<open>PriceIRR\<close>,
  \<open>OrderItems\<close>). Each mutating method is a closure \<open>\<dots>_tx\<close> on the database and the
  method itself, which runs the closure in \<open>withTx\<close>.
\<close>

section \<open>Binding a database to a device\<close>

definition metaOf :: "persistedDB \<Rightarrow> string \<Rightarrow> string" where
  "metaOf db k = (case map_of (Meta db) k of None \<Rightarrow> [] | Some v \<Rightarrow> v)"

definition setMeta :: "string \<Rightarrow> string \<Rightarrow> persistedDB \<Rightarrow> persistedDB" where
  "setMeta k v db = db\<lparr>Meta := AList.update k v (Meta db)\<rparr>"

lemma metaOf_setMeta [simp]: "metaOf (setMeta k v db) k' = (if k' = k then v else metaOf db k')"
  by (simp add: metaOf_def setMeta_def)

lemma setMeta_frame [simp]:
  "Entities (setMeta k v db) = Entities db" "Outbox (setMeta k v db) = Outbox db"
  "LegacyStockCounts (setMeta k v db) = LegacyStockCounts db" "Connection (setMeta k v db) = Connection db"
  "NextOutboxSeq (setMeta k v db) = NextOutboxSeq db"
  "NextLegacyStockCountID (setMeta k v db) = NextLegacyStockCountID db"
  by (simp_all add: setMeta_def)

definition Cursor :: "io \<Rightarrow> Store \<Rightarrow> err + string" where
  "Cursor w s = (if \<not> ctx_ok w then Inl (EIO ErrContext) else Inr (metaOf (state s) ''cursor''))"

definition Bind_tx :: "string \<Rightarrow> persistedDB \<Rightarrow> err + persistedDB \<times> unit" where
  "Bind_tx scope db =
    (case map_of (Meta db) ''scope'' of
       Some old \<Rightarrow>
         if old \<noteq> [] \<and> old \<noteq> scope then Inl (EData ErrScope)
         else Inr (setMeta ''scope'' scope db, ())
     | None \<Rightarrow> Inr (setMeta ''scope'' scope db, ()))"

definition Bind :: "io \<Rightarrow> string \<Rightarrow> Store \<Rightarrow> Store \<times> (err + unit)" where
  "Bind w scope s = withTx w (Bind_tx scope) s"

definition SaveConnection_tx :: "string \<Rightarrow> ConnectionConfig \<Rightarrow> persistedDB \<Rightarrow> err + persistedDB \<times> unit" where
  "SaveConnection_tx now cfg db =
    (let scope = APIURL cfg @ ''|'' @ DeviceID cfg;
         db' = (setMeta ''scope'' scope db)\<lparr>Connection := Some (cfg\<lparr>cc_UpdatedAt := now\<rparr>)\<rparr>
     in case map_of (Meta db) ''scope'' of
          Some old \<Rightarrow> if old \<noteq> [] \<and> old \<noteq> scope then Inl (EData ErrScope) else Inr (db', ())
        | None \<Rightarrow> Inr (db', ()))"

definition SaveConnection :: "io \<Rightarrow> string \<Rightarrow> ConnectionConfig \<Rightarrow> Store \<Rightarrow> Store \<times> (err + unit)" where
  "SaveConnection w now cfg s = withTx w (SaveConnection_tx now cfg) s"

definition LoadConnection :: "Store \<Rightarrow> ConnectionConfig option" where
  "LoadConnection s = Connection (state s)"

definition ResetAll :: "io \<Rightarrow> Store \<Rightarrow> Store \<times> (err + unit)" where
  "ResetAll w s = withTx w (\<lambda>db. Inr (newEmptyDB, ())) s"

section \<open>Entities\<close>

definition entityKey :: "string \<Rightarrow> string \<Rightarrow> string" where
  "entityKey kind i = kind @ CHR 0x00 # i"

lemma sep_inj: "c \<notin> set k \<Longrightarrow> c \<notin> set k' \<Longrightarrow> k @ c # i = k' @ c # i' \<longleftrightarrow> k = k' \<and> i = i'"
proof (induction k arbitrary: k')
  case Nil
  then show ?case by (cases k') auto
next
  case (Cons x k)
  then show ?case by (cases k') auto
qed

lemma entityKey_inj:
  assumes "CHR 0x00 \<notin> set k" "CHR 0x00 \<notin> set k'"
  shows "entityKey k i = entityKey k' i' \<longleftrightarrow> k = k' \<and> i = i'"
  using assms by (simp add: entityKey_def sep_inj)

lemma entityKey_id [simp]: "entityKey k i = entityKey k i' \<longleftrightarrow> i = i'"
  by (simp add: entityKey_def)

lemma entityKey_kind:
  "CHR 0x00 \<notin> set k \<Longrightarrow> CHR 0x00 \<notin> set k' \<Longrightarrow> k \<noteq> k' \<Longrightarrow> entityKey k i \<noteq> entityKey k' i'"
  by (simp add: entityKey_inj)

definition entity_view :: "storedEntity \<Rightarrow> Entity" where
  "entity_view e = \<lparr> en_ID = se_ID e, en_Type = se_Type e, en_Version = se_Version e, en_Payload = se_Payload e \<rparr>"

definition EntitiesOf :: "io \<Rightarrow> string \<Rightarrow> Store \<Rightarrow> err + Entity list" where
  "EntitiesOf w kind s =
    (if \<not> ctx_ok w then Inl (EIO ErrContext)
     else Inr (limit 500 (sort_key (\<lambda>e. (en_ID e, en_Type e))
       (map entity_view (filter (\<lambda>e. \<not> se_Deleted e \<and>
           (se_Type e = kind \<or> (kind = ''order'' \<and> se_Type e = ''order_status'')))
         (map snd (Entities (state s))))))))"

text \<open>The live entity under a kind and an identifier.\<close>

definition live :: "persistedDB \<Rightarrow> string \<Rightarrow> string \<Rightarrow> storedEntity option" where
  "live db kind i =
    (case map_of (Entities db) (entityKey kind i) of
       None \<Rightarrow> None
     | Some e \<Rightarrow> if se_Deleted e then None else Some e)"

definition EntityOf :: "io \<Rightarrow> string \<Rightarrow> string \<Rightarrow> Store \<Rightarrow> err + Entity" where
  "EntityOf w kind i s =
    (if \<not> ctx_ok w then Inl (EIO ErrContext)
     else case live (state s) kind i of
            None \<Rightarrow> Inl (EData ErrNotFound)
          | Some e \<Rightarrow> Inr (entity_view e))"

definition putEntity :: "string \<Rightarrow> storedEntity \<Rightarrow> persistedDB \<Rightarrow> persistedDB" where
  "putEntity k e db = db\<lparr>Entities := AList.update k e (Entities db)\<rparr>"

definition getEntity :: "persistedDB \<Rightarrow> string \<Rightarrow> storedEntity option" where
  "getEntity db k = map_of (Entities db) k"

lemma getEntity_put [simp]: "getEntity (putEntity k e db) k' = (if k' = k then Some e else getEntity db k')"
  by (simp add: getEntity_def putEntity_def)

lemma putEntity_frame [simp]:
  "Meta (putEntity k e db) = Meta db" "Outbox (putEntity k e db) = Outbox db"
  "LegacyStockCounts (putEntity k e db) = LegacyStockCounts db" "Connection (putEntity k e db) = Connection db"
  "NextOutboxSeq (putEntity k e db) = NextOutboxSeq db"
  "NextLegacyStockCountID (putEntity k e db) = NextLegacyStockCountID db"
  by (simp_all add: putEntity_def)

text \<open>
  The well-formed databases: maps have distinct keys, and every entity is stored under the
  key made of its own type and identifier.
\<close>

definition wf_db :: "persistedDB \<Rightarrow> bool" where
  "wf_db db \<longleftrightarrow> gmap (Meta db) \<and> gmap (Entities db) \<and>
     list_all (\<lambda>(k, e). k = entityKey (se_Type e) (se_ID e)) (Entities db)"

interpretation ents: kv_map getEntity putEntity "\<lambda>db. gmap (Entities db)"
  by unfold_locales (simp_all, simp add: putEntity_def)

lemma set_update_subset: "set (AList.update k v m) \<subseteq> insert (k, v) (set m)"
  by (induction m) auto

lemma wf_db_put:
  "wf_db db \<Longrightarrow> k = entityKey (se_Type e) (se_ID e) \<Longrightarrow> wf_db (putEntity k e db)"
  using set_update_subset [of k e "Entities db"]
  by (auto simp: wf_db_def putEntity_def list_all_iff)

lemma wf_db_setMeta [simp]: "wf_db db \<Longrightarrow> wf_db (setMeta k v db)"
  by (simp add: wf_db_def setMeta_def)

lemma wf_db_empty: "wf_db newEmptyDB"
  by (simp add: wf_db_def newEmptyDB_def)

lemma wf_db_key: "wf_db db \<Longrightarrow> getEntity db k = Some e \<Longrightarrow> k = entityKey (se_Type e) (se_ID e)"
  by (auto simp: wf_db_def getEntity_def list_all_iff dest!: map_of_SomeD)

section \<open>Merging server changes\<close>

definition applyChange :: "Change \<Rightarrow> persistedDB \<Rightarrow> err + persistedDB" where
  "applyChange c db =
    (if ch_EntityID c = [] \<or> ch_EntityType c = [] then Inl (EData ErrIdentity)
     else
       (let payload = (if ch_Payload c = JNull then JObj [] else ch_Payload c);
            del = (ch_Tombstone c \<or> ch_Operation c = ''delete'');
            key = entityKey (ch_EntityType c) (ch_EntityID c);
            new = \<lparr> se_ID = ch_EntityID c, se_Type = ch_EntityType c, se_Version = ch_Version c,
                     se_Deleted = del, se_Payload = payload \<rparr>
        in case getEntity db key of
             None \<Rightarrow> Inr (putEntity key new db)
           | Some e \<Rightarrow>
              (if ch_Version c > se_Version e \<or> (ch_Version c = 0 \<and> se_Version e = 0)
               then Inr (putEntity key new db) else Inr db)))"

definition ApplyPage_tx :: "Change list \<Rightarrow> string \<Rightarrow> persistedDB \<Rightarrow> err + persistedDB \<times> unit" where
  "ApplyPage_tx changes cursor db =
    (case foldE applyChange changes db of
       Inl e \<Rightarrow> Inl e
     | Inr db' \<Rightarrow> Inr (setMeta ''cursor'' cursor db', ()))"

definition ApplyPage :: "io \<Rightarrow> Change list \<Rightarrow> string \<Rightarrow> Store \<Rightarrow> Store \<times> (err + unit)" where
  "ApplyPage w changes cursor s =
    (if cursor = [] then (s, Inl (EData ErrEmptyCursor)) else withTx w (ApplyPage_tx changes cursor) s)"

definition bootstrapSectionTypes :: "(string \<times> string) list" where
  "bootstrapSectionTypes =
    [(''products'', ''product''), (''categories'', ''category''), (''ingredients'', ''ingredient''),
     (''banners'', ''banner''), (''recipes'', ''recipe''), (''orders'', ''order''),
     (''inventory_summary'', ''inventory_summary''), (''waste_events'', ''waste_event''),
     (''waste_items'', ''waste_item''), (''tables'', ''table''), (''customers'', ''customer''),
     (''debtors'', ''debtor''), (''printers'', ''printer''), (''cafe_profile'', ''cafe_profile'')]"

text \<open>The struct \<open>{id, ingredient_id, version}\<close> that \<open>Bootstrap\<close> decodes of a row.\<close>

definition row_identity :: "json \<Rightarrow> (string \<times> string \<times> int) option" where
  "row_identity raw =
    (case raw of
       JNull \<Rightarrow> Some ([], [], 0)
     | JObj kvs \<Rightarrow>
        (case (string_field ''id'' kvs, string_field ''ingredient_id'' kvs, int_field ''version'' kvs) of
           (Some i, Some g, Some v) \<Rightarrow> Some (i, g, v)
         | _ \<Rightarrow> None)
     | _ \<Rightarrow> None)"

definition bootstrap_row :: "string \<Rightarrow> json \<Rightarrow> persistedDB \<Rightarrow> err + persistedDB" where
  "bootstrap_row kind raw db =
    (case row_identity raw of
       None \<Rightarrow> Inl (EData ErrJSON)
     | Some (i, g, v) \<Rightarrow>
        applyChange \<lparr> ch_EntityType = kind,
          ch_EntityID = (if i = [] \<and> kind = ''inventory_summary'' then g else i),
          ch_Version = v, ch_Tombstone = False, ch_Operation = [], ch_Payload = raw \<rparr> db)"

definition bootstrap_section :: "string \<times> json list \<Rightarrow> persistedDB \<Rightarrow> err + persistedDB" where
  "bootstrap_section sec db =
    (case map_of bootstrapSectionTypes (fst sec) of
       None \<Rightarrow> Inr db
     | Some kind \<Rightarrow> foldE (bootstrap_row kind) (snd sec) db)"

definition Bootstrap_tx :: "(string \<times> json list) list \<Rightarrow> string \<Rightarrow> persistedDB \<Rightarrow> err + persistedDB \<times> unit" where
  "Bootstrap_tx sections cursor db =
    (case foldE bootstrap_section sections (db\<lparr>Entities := []\<rparr>) of
       Inl e \<Rightarrow> Inl e
     | Inr db' \<Rightarrow> Inr (setMeta ''cursor'' cursor db', ()))"

definition Bootstrap :: "io \<Rightarrow> (string \<times> json list) list \<Rightarrow> string \<Rightarrow> Store \<Rightarrow> Store \<times> (err + unit)" where
  "Bootstrap w sections cursor s =
    (if cursor = [] then (s, Inl (EData ErrEmptyCursor)) else withTx w (Bootstrap_tx sections cursor) s)"

section \<open>Legacy stock notes and the backup\<close>

definition AddLegacyStockCount_tx :: "string \<Rightarrow> LegacyStockCount \<Rightarrow> persistedDB \<Rightarrow> err + persistedDB \<times> unit" where
  "AddLegacyStockCount_tx now d db =
    (let n = w64 (NextLegacyStockCountID db + 1)
     in Inr (db\<lparr>NextLegacyStockCountID := n,
          LegacyStockCounts := LegacyStockCounts db @ [d\<lparr>lc_ID := n, lc_CreatedAt := now\<rparr>]\<rparr>, ()))"

definition AddLegacyStockCount :: "io \<Rightarrow> string \<Rightarrow> LegacyStockCount \<Rightarrow> Store \<Rightarrow> Store \<times> (err + unit)" where
  "AddLegacyStockCount w now d s = withTx w (AddLegacyStockCount_tx now d) s"

definition LegacyStockCountsOf :: "io \<Rightarrow> Store \<Rightarrow> err + LegacyStockCount list" where
  "LegacyStockCountsOf w s =
    (if \<not> ctx_ok w then Inl (EIO ErrContext)
     else Inr (limit 500 (sort_key (\<lambda>d. - lc_ID d) (LegacyStockCounts (state s)))))"

text \<open>\<open>ExportBackup\<close>: the state that is encoded.\<close>

definition ExportBackup :: "Store \<Rightarrow> persistedDB" where
  "ExportBackup s =
    (let export = cloneDB (state s)
     in case Connection export of
          None \<Rightarrow> export
        | Some c \<Rightarrow> export\<lparr>Connection := Some (c\<lparr>DeviceToken := []\<rparr>)\<rparr>)"

section \<open>Reading payloads\<close>

text \<open>The first of the given keys with a non-empty string value.\<close>

fun first_string :: "string list \<Rightarrow> (string \<times> json) list \<Rightarrow> (string \<times> string) option" where
  "first_string [] m = None"
| "first_string (k # ks) m =
    (case map_of m k of
       Some (JStr v) \<Rightarrow> if v \<noteq> [] then Some (k, v) else first_string ks m
     | _ \<Rightarrow> first_string ks m)"

definition fa_table_number :: string where
  \<comment> \<open>``table number '' in Persian\<close>
  "fa_table_number = fa [0x645, 0x6CC, 0x632, 0x20, 0x634, 0x645, 0x627, 0x631, 0x647, 0x20]"

definition Label :: "Entity \<Rightarrow> string" where
  "Label e =
    (case as_map (en_Payload e) of
       None \<Rightarrow> en_ID e
     | Some m \<Rightarrow>
        (case first_string [''title'', ''name'', ''full_name'', ''order_number'', ''number''] m of
           None \<Rightarrow> en_ID e
         | Some (k, v) \<Rightarrow> if k = ''number'' \<and> en_Type e = ''table'' then fa_table_number @ v else v))"

definition field_text :: "json \<Rightarrow> string" where
  "field_text j =
    (case j of
       JNull \<Rightarrow> []
     | JStr s \<Rightarrow> s
     | _ \<Rightarrow> TrimChar (json_text j) (CHR 0x22))"

definition payload_field :: "json \<Rightarrow> string \<Rightarrow> string" where
  "payload_field p key =
    (case as_map p of
       None \<Rightarrow> []
     | Some m \<Rightarrow> (case map_of m key of None \<Rightarrow> [] | Some j \<Rightarrow> field_text j))"

definition Field :: "Entity \<Rightarrow> string \<Rightarrow> string" where
  "Field e key = payload_field (en_Payload e) key"

fun first_field :: "string list \<Rightarrow> Entity \<Rightarrow> string" where
  "first_field [] e = []"
| "first_field (k # ks) e = (if Field e k \<noteq> [] then Field e k else first_field ks e)"

definition PriceIRR :: "Entity \<Rightarrow> string" where
  "PriceIRR e = first_field [''price'', ''total_irr'', ''total'', ''remaining'', ''average_cost''] e"

record OrderLineView =
  ov_ID :: string
  ov_ProductID :: string
  ov_ProductName :: string
  ov_Quantity :: int
  ov_UnitPrice :: string
  ov_LineTotal :: string
  ov_Note :: string

text \<open>One element of \<open>items\<close>, decoded as the anonymous struct of \<open>OrderItems\<close>.\<close>

definition raw_price :: "string \<Rightarrow> string \<Rightarrow> (string \<times> json) list \<Rightarrow> string" where
  "raw_price k k' kvs =
    (let a = TrimChar (raw_text (raw_field k kvs)) (CHR 0x22)
     in if a = [] \<or> a = ''null'' then TrimChar (raw_text (raw_field k' kvs)) (CHR 0x22) else a)"

definition order_line :: "json \<Rightarrow> OrderLineView option" where
  "order_line j =
    (let line = (\<lambda>kvs.
       (case (string_field ''id'' kvs, string_field ''product_id'' kvs,
              string_field ''product_name_snapshot'' kvs, string_field ''title'' kvs,
              int_field ''quantity'' kvs, string_field ''note'' kvs) of
          (Some i, Some p, Some n, Some t, Some q, Some note) \<Rightarrow>
            Some \<lparr> ov_ID = i, ov_ProductID = p,
              ov_ProductName = (if n \<noteq> [] then n else if t \<noteq> [] then t else p),
              ov_Quantity = q, ov_UnitPrice = raw_price ''unit_price_irr'' ''unit_price'' kvs,
              ov_LineTotal = raw_price ''line_total_irr'' ''total_price'' kvs, ov_Note = note \<rparr>
        | _ \<Rightarrow> None))
     in case j of JObj kvs \<Rightarrow> line kvs | JNull \<Rightarrow> line [] | _ \<Rightarrow> None)"

text \<open>The array under a struct field of slice type; \<open>null\<close> and absence give the empty slice.\<close>

definition array_field :: "string \<Rightarrow> json \<Rightarrow> json list option" where
  "array_field name p =
    (case p of
       JObj kvs \<Rightarrow>
        (case raw_field name kvs of
           None \<Rightarrow> Some []
         | Some JNull \<Rightarrow> Some []
         | Some (JArr js) \<Rightarrow> Some js
         | Some _ \<Rightarrow> None)
     | JNull \<Rightarrow> Some []
     | _ \<Rightarrow> None)"

definition OrderItems :: "Entity \<Rightarrow> OrderLineView list" where
  "OrderItems e =
    (case array_field ''items'' (en_Payload e) of
       None \<Rightarrow> []
     | Some js \<Rightarrow> (case those (map order_line js) of None \<Rightarrow> [] | Some ls \<Rightarrow> ls))"

end
