(* ===== verification/Store_Props.thy ===== *)
theory Store_Props
  imports Store_Entities
begin

text \<open>
  What the transactional store and the merge of server changes guarantee: atomic and
  crash-safe commits, the per-key refinement of a page of changes, replay safety, what a
  bootstrap keeps, and the listing of entities.
\<close>

section \<open>Commits\<close>

lemma commit_trace_main:
  "d \<in> set (fst (commit_trace w tx dsk)) \<Longrightarrow> rename_ok w \<Longrightarrow>
   main_file d = main_file dsk \<or> main_file d = Whole tx"
  by (auto simp: commit_trace_def Let_def split: if_splits)

lemma durable_Open: "durable s \<Longrightarrow> main_file d = main_file (disk s) \<Longrightarrow> \<exists>s1. Open d = Inr s1 \<and> state s1 = state s"
  by (auto simp: durable_def Open_def)


definition demo_store :: Store where
  "demo_store = \<lparr> closed = False, state = newEmptyDB, disk = \<lparr> main_file = Blank, tmp_file = None \<rparr> \<rparr>"


text \<open>
  C2. A commit whose rename works is crash safe: whichever of the disk states on the way the
  machine stops in, opening the file gives the state before the transaction or the state
  after it.
\<close>

theorem commit_crash_safe:
  assumes "durable s" and "rename_ok w" and "d \<in> set (fst (commit_trace w tx (disk s)))"
  shows "\<exists>s1. Open d = Inr s1 \<and> (state s1 = state s \<or> state s1 = tx)"
proof -
  from commit_trace_main [OF assms(3,2)]
  consider "main_file d = main_file (disk s)" | "main_file d = Whole tx" by blast
  then show ?thesis
  proof cases
    case 1
    then show ?thesis using durable_Open [OF assms(1)] by blast
  next
    case 2
    then show ?thesis by (simp add: Open_def)
  qed
qed

theorem commit_crash_safe_witness:
  "\<exists>s1. Open \<lparr> main_file = Blank, tmp_file = Some Torn \<rparr> = Inr s1 \<and>
     (state s1 = newEmptyDB \<or> state s1 = setMeta ''cursor'' ''c1'' newEmptyDB)"
proof -
  have "durable demo_store" "rename_ok all_ok" by (simp_all add: durable_def demo_store_def all_ok_def)
  moreover have "\<lparr> main_file = Blank, tmp_file = Some Torn \<rparr>
      \<in> set (fst (commit_trace all_ok (setMeta ''cursor'' ''c1'' newEmptyDB) (disk demo_store)))"
    by (simp add: commit_trace_def all_ok_def demo_store_def Let_def)
  ultimately show ?thesis
    using commit_crash_safe [of demo_store all_ok] by (simp add: demo_store_def)
qed

text \<open>
  The fallback of a failed rename is not crash safe: it rewrites the database file in
  place, so a crash can leave a file that opens as an empty database, and one that does not
  open at all.
\<close>

theorem fallback_not_crash_safe:
  assumes "open_ok w" "write_ok w" "sync_ok w" "close_ok w" and "\<not> rename_ok w"
  shows "(\<exists>d \<in> set (fst (commit_trace w tx dsk)). \<exists>s1. Open d = Inr s1 \<and> state s1 = newEmptyDB) \<and>
    (\<exists>d \<in> set (fst (commit_trace w tx dsk)). Open d = Inl (EIO ErrCorrupt))"
  using assms by (auto simp: commit_trace_def Let_def Open_def)

theorem fallback_not_crash_safe_witness:
  "\<exists>d \<in> set (fst (commit_trace (all_ok\<lparr>rename_ok := False\<rparr>) newEmptyDB
      \<lparr> main_file = Whole (setMeta ''cursor'' ''c1'' newEmptyDB), tmp_file = None \<rparr>)).
    Open d = Inl (EIO ErrCorrupt)"
  using fallback_not_crash_safe [of "all_ok\<lparr>rename_ok := False\<rparr>"] by (simp add: all_ok_def)

section \<open>Pages of changes\<close>

definition change_key :: "Change \<Rightarrow> string" where
  "change_key c = entityKey (ch_EntityType c) (ch_EntityID c)"

definition change_entity :: "Change \<Rightarrow> storedEntity" where
  "change_entity c = \<lparr> se_ID = ch_EntityID c, se_Type = ch_EntityType c, se_Version = ch_Version c,
     se_Deleted = (ch_Tombstone c \<or> ch_Operation c = ''delete''),
     se_Payload = (if ch_Payload c = JNull then JObj [] else ch_Payload c) \<rparr>"

text \<open>The abstract merge: one register per key, a change replaces an older version.\<close>

definition newer :: "Change \<Rightarrow> storedEntity \<Rightarrow> bool" where
  "newer c e \<longleftrightarrow> ch_Version c > se_Version e \<or> (ch_Version c = 0 \<and> se_Version e = 0)"

definition merge :: "Change \<Rightarrow> storedEntity option \<Rightarrow> storedEntity option" where
  "merge c old =
    (case old of
       None \<Rightarrow> Some (change_entity c)
     | Some e \<Rightarrow> if newer c e then Some (change_entity c) else Some e)"

definition merge_at :: "string \<Rightarrow> Change \<Rightarrow> storedEntity option \<Rightarrow> storedEntity option" where
  "merge_at k c old = (if change_key c = k then merge c old else old)"

lemma merge_at_simps [simp]:
  "change_key c = k \<Longrightarrow> merge_at k c old = merge c old"
  "change_key c \<noteq> k \<Longrightarrow> merge_at k c old = old"
  by (simp_all add: merge_at_def)

lemma version_change_entity [simp]: "se_Version (change_entity c) = ch_Version c"
  by (simp add: change_entity_def)

lemma applyChange_merge:
  "applyChange c db = Inr db' \<Longrightarrow> getEntity db' k = merge_at k c (getEntity db k)"
  by (auto simp: applyChange_def merge_at_def merge_def newer_def change_key_def change_entity_def Let_def
      split: if_splits option.splits)

lemma applyChange_frame:
  "applyChange c db = Inr db' \<Longrightarrow> Meta db' = Meta db \<and> Outbox db' = Outbox db
    \<and> LegacyStockCounts db' = LegacyStockCounts db \<and> Connection db' = Connection db
    \<and> NextOutboxSeq db' = NextOutboxSeq db \<and> NextLegacyStockCountID db' = NextLegacyStockCountID db"
  by (auto simp: applyChange_def Let_def split: if_splits option.splits)

lemma applyChange_wf: "applyChange c db = Inr db' \<Longrightarrow> wf_db db \<Longrightarrow> wf_db db'"
  by (auto simp: applyChange_def Let_def wf_db_put split: if_splits option.splits)

lemma changes_merge:
  "foldE applyChange cs db = Inr db' \<Longrightarrow> getEntity db' k = fold (merge_at k) cs (getEntity db k)"
  by (induction cs arbitrary: db) (auto simp: applyChange_merge split: sum.splits)

lemma changes_frame:
  "foldE applyChange cs db = Inr db' \<Longrightarrow> Meta db' = Meta db \<and> Outbox db' = Outbox db
    \<and> LegacyStockCounts db' = LegacyStockCounts db \<and> Connection db' = Connection db
    \<and> NextOutboxSeq db' = NextOutboxSeq db \<and> NextLegacyStockCountID db' = NextLegacyStockCountID db"
  by (induction cs arbitrary: db) (auto dest!: applyChange_frame split: sum.splits)

lemma merge_at_version:
  "merge_at k c (Some e) = Some e' \<Longrightarrow>
   se_Version e \<le> se_Version e' \<and> (se_Version e' = se_Version e \<and> se_Version e \<noteq> 0 \<longrightarrow> e' = e)
   \<and> (change_key c = k \<longrightarrow> ch_Version c \<le> se_Version e')"
  by (auto simp: merge_at_def merge_def newer_def split: if_splits)

lemma merge_at_Some: "\<exists>e'. merge_at k c (Some e) = Some e'"
  by (auto simp: merge_at_def merge_def)

lemma fold_merge_version:
  "\<exists>e'. fold (merge_at k) cs (Some e) = Some e' \<and> se_Version e \<le> se_Version e'
    \<and> (se_Version e' = se_Version e \<and> se_Version e \<noteq> 0 \<longrightarrow> e' = e)
    \<and> (\<forall>c \<in> set cs. change_key c = k \<longrightarrow> ch_Version c \<le> se_Version e')"
proof (induction cs arbitrary: e)
  case (Cons c cs)
  obtain e1 where e1: "merge_at k c (Some e) = Some e1" using merge_at_Some by blast
  note v1 = merge_at_version [OF e1]
  from Cons.IH [of e1] obtain e' where e': "fold (merge_at k) cs (Some e1) = Some e'"
    "se_Version e1 \<le> se_Version e'" "se_Version e' = se_Version e1 \<and> se_Version e1 \<noteq> 0 \<longrightarrow> e' = e1"
    "\<forall>c \<in> set cs. change_key c = k \<longrightarrow> ch_Version c \<le> se_Version e'" by blast
  with v1 e1 show ?case by (intro exI [of _ e']) auto
qed simp

lemma ApplyPage_result:
  assumes "ApplyPage w cs cur s = (s', Inr u)"
  obtains db where "foldE applyChange cs (state s) = Inr db" "state s' = setMeta ''cursor'' cur db" "cur \<noteq> []"
  using assms
  by (auto simp: ApplyPage_def ApplyPage_tx_def dest!: withTx_ok split: if_splits sum.splits)

text \<open>
  C3. A page of changes refines the abstract merge key by key: under every key the stored
  entity is the fold of the merge over the changes of that key, in the order of the page;
  the cursor is the page's, and the outbox is untouched.
\<close>

theorem ApplyPage_refines_merge:
  assumes "ApplyPage w cs cur s = (s', Inr u)"
  shows "getEntity (state s') k = fold (merge_at k) cs (getEntity (state s) k)
    \<and> metaOf (state s') ''cursor'' = cur \<and> Outbox (state s') = Outbox (state s)"
proof -
  from assms obtain db where db: "foldE applyChange cs (state s) = Inr db"
    "state s' = setMeta ''cursor'' cur db" by (rule ApplyPage_result)
  then show ?thesis
    using changes_merge [OF db(1), of k] changes_frame [OF db(1)]
    by (simp add: getEntity_def)
qed

definition demo_change :: "int \<Rightarrow> bool \<Rightarrow> Change" where
  "demo_change v tomb = \<lparr> ch_EntityType = ''product'', ch_EntityID = ''p1'', ch_Version = v, ch_Tombstone = tomb,
     ch_Operation = ''update'', ch_Payload = JObj [(''title'', JStr ''Latte'')] \<rparr>"

definition demo_page :: "Store \<times> (err + unit)" where
  "demo_page = ApplyPage all_ok [demo_change 1 False, demo_change 3 True, demo_change 2 False] ''c7'' demo_store"

lemma demo_page_ok: "snd demo_page = Inr ()"
  by (simp add: demo_page_def ApplyPage_def withTx_def ApplyPage_tx_def applyChange_def demo_change_def
      demo_store_def newEmptyDB_def getEntity_def putEntity_def commit_trace_def all_ok_def Let_def)

lemma demo_page_eq:
  "ApplyPage all_ok [demo_change 1 False, demo_change 3 True, demo_change 2 False] ''c7'' demo_store
     = (fst demo_page, Inr ())"
  using demo_page_ok by (simp add: demo_page_def prod_eq_iff)

theorem ApplyPage_refines_merge_witness:
  "getEntity (state (fst demo_page)) (entityKey ''product'' ''p1'') = Some (change_entity (demo_change 3 True))"
  using ApplyPage_refines_merge [OF demo_page_eq, of "entityKey ''product'' ''p1''"]
  by (simp add: merge_at_def merge_def newer_def change_key_def demo_change_def demo_store_def newEmptyDB_def
      getEntity_def)


definition demo_deleted :: Store where
  "demo_deleted = demo_store\<lparr>state := putEntity (entityKey ''product'' ''p1'')
     (change_entity (demo_change 3 True)) newEmptyDB\<rparr>"


text \<open>Applying the same changes again: no change of a known page is newer than its result.\<close>

lemma fold_merge_stable:
  assumes "\<forall>c \<in> set cs. change_key c = k \<longrightarrow> ch_Version c \<le> se_Version e" and "se_Version e \<noteq> 0"
  shows "fold (merge_at k) cs (Some e) = Some e"
  using assms by (induction cs) (auto simp: merge_at_def merge_def newer_def)

definition last_zero :: "string \<Rightarrow> Change list \<Rightarrow> Change option" where
  "last_zero k cs = List.find (\<lambda>c. change_key c = k \<and> ch_Version c = 0) (rev cs)"

lemma fold_merge_zero:
  assumes "fold (merge_at k) cs old = Some e" "se_Version e = 0"
  shows "case last_zero k cs of None \<Rightarrow> old = Some e | Some c \<Rightarrow> e = change_entity c"
  using assms
proof (induction cs arbitrary: e rule: rev_induct)
  case (snoc c cs)
  show ?case
  proof (cases "change_key c = k \<and> ch_Version c = 0")
    case True
    then have "e = change_entity c"
      using snoc.prems by (auto simp: merge_at_def merge_def newer_def split: option.splits if_splits)
    then show ?thesis using True by (simp add: last_zero_def)
  next
    case False
    then have "fold (merge_at k) cs old = Some e"
      using snoc.prems by (cases "change_key c = k") (auto simp: merge_def newer_def split: option.splits if_splits)
    moreover have "last_zero k (cs @ [c]) = last_zero k cs" using False by (auto simp: last_zero_def)
    ultimately show ?thesis using snoc by simp
  qed
qed (simp add: last_zero_def)

lemma fold_merge_nonpos:
  "se_Version x \<le> 0 \<Longrightarrow> \<forall>c \<in> set cs. change_key c = k \<longrightarrow> ch_Version c \<le> 0 \<Longrightarrow>
   fold (merge_at k) cs (Some x) = Some y \<Longrightarrow> se_Version y \<le> 0"
proof (induction cs arbitrary: x)
  case (Cons c cs)
  let ?z = "if change_key c = k \<and> newer c x then change_entity c else x"
  have "merge_at k c (Some x) = Some ?z" by (auto simp: merge_at_def merge_def)
  moreover have "se_Version ?z \<le> 0" using Cons.prems by auto
  ultimately show ?case using Cons.IH [of ?z] Cons.prems by simp
qed simp

lemma fold_merge_idem: "fold (merge_at k) cs (fold (merge_at k) cs old) = fold (merge_at k) cs old"
proof (cases "fold (merge_at k) cs old")
  case None
  then have "\<forall>c \<in> set cs. change_key c \<noteq> k"
  proof (induction cs arbitrary: old)
    case (Cons c cs)
    show ?case
    proof (cases "merge_at k c old")
      case None
      then show ?thesis using Cons by (auto simp: merge_at_def merge_def split: if_splits option.splits)
    next
      case (Some e)
      then show ?thesis using Cons.prems fold_merge_version [of k cs e] by simp
    qed
  qed simp
  then have "fold (merge_at k) cs x = x" for x by (induction cs) (auto simp: merge_at_def)
  then show ?thesis by simp
next
  case (Some e)
  have le: "\<forall>c \<in> set cs. change_key c = k \<longrightarrow> ch_Version c \<le> se_Version e"
  proof (cases old)
    case None
    then show ?thesis using Some
    proof (induction cs)
      case (Cons c cs)
      show ?case
      proof (cases "change_key c = k")
        case True
        with Cons.prems have "fold (merge_at k) cs (Some (change_entity c)) = Some e"
          by (simp add: merge_def)
        with fold_merge_version [of k cs "change_entity c"] show ?thesis by auto
      next
        case False
        with Cons show ?thesis by simp
      qed
    qed simp
  next
    case (Some e0)
    with \<open>fold (merge_at k) cs old = Some e\<close> fold_merge_version [of k cs e0] show ?thesis by auto
  qed
  show ?thesis
  proof (cases "se_Version e = 0")
    case False
    then show ?thesis using Some le by (simp add: fold_merge_stable)
  next
    case True
    obtain e2 where e2: "fold (merge_at k) cs (Some e) = Some e2" "se_Version e \<le> se_Version e2"
      using fold_merge_version [of k cs e] by blast
    have "se_Version e2 \<le> se_Version e"
      using fold_merge_nonpos [of e cs k e2] le True e2(1) by simp
    with e2 True have v2: "se_Version e2 = 0" by simp
    from fold_merge_zero [OF Some True] fold_merge_zero [OF e2(1) v2]
    show ?thesis using Some e2 by (auto split: option.splits)
  qed
qed

text \<open>
  Replaying a page is safe: pulling the same changes a second time, as happens when the
  acknowledgement of the first pull was lost, changes no entity.
\<close>

theorem ApplyPage_replay:
  assumes "ApplyPage w cs cur s = (s1, Inr u1)" and "ApplyPage w' cs cur s1 = (s2, Inr u2)"
  shows "getEntity (state s2) k = getEntity (state s1) k"
proof -
  obtain db1 where 1: "foldE applyChange cs (state s) = Inr db1" "state s1 = setMeta ''cursor'' cur db1"
    using assms(1) by (rule ApplyPage_result)
  obtain db2 where 2: "foldE applyChange cs (state s1) = Inr db2" "state s2 = setMeta ''cursor'' cur db2"
    using assms(2) by (rule ApplyPage_result)
  have "getEntity (state s2) k = fold (merge_at k) cs (getEntity (state s1) k)"
    using changes_merge [OF 2(1), of k] 2(2) by (simp add: getEntity_def)
  moreover have "getEntity (state s1) k = fold (merge_at k) cs (getEntity (state s) k)"
    using changes_merge [OF 1(1), of k] 1(2) by (simp add: getEntity_def)
  ultimately show ?thesis by (simp add: fold_merge_idem)
qed

theorem ApplyPage_replay_witness:
  "\<exists>s2. ApplyPage all_ok [demo_change 1 False, demo_change 3 True, demo_change 2 False] ''c7'' (fst demo_page)
      = (s2, Inr ()) \<and>
    getEntity (state s2) (entityKey ''product'' ''p1'') = getEntity (state (fst demo_page)) (entityKey ''product'' ''p1'')"
proof -
  have "snd (ApplyPage all_ok [demo_change 1 False, demo_change 3 True, demo_change 2 False] ''c7'' (fst demo_page))
      = Inr ()"
    by (simp add: demo_page_def ApplyPage_def withTx_def ApplyPage_tx_def applyChange_def demo_change_def
        demo_store_def newEmptyDB_def getEntity_def putEntity_def setMeta_def commit_trace_def all_ok_def Let_def)
  then obtain s2 where s2:
    "ApplyPage all_ok [demo_change 1 False, demo_change 3 True, demo_change 2 False] ''c7'' (fst demo_page) = (s2, Inr ())"
    by (metis prod.collapse)
  then show ?thesis using ApplyPage_replay [OF demo_page_eq s2] by blast
qed

section \<open>Bootstrap\<close>

definition sync_kinds :: "string set" where
  "sync_kinds = snd ` set bootstrapSectionTypes"

lemma sync_kinds_plain: "kind \<in> sync_kinds \<Longrightarrow> CHR 0x00 \<notin> set kind"
  by (auto simp: sync_kinds_def bootstrapSectionTypes_def)

text \<open>What every step of a bootstrap keeps: the other parts of the database, and the kinds stored.\<close>

definition boot_inv :: "persistedDB \<Rightarrow> persistedDB \<Rightarrow> bool" where
  "boot_inv db0 db \<longleftrightarrow> Meta db = Meta db0 \<and> Outbox db = Outbox db0
    \<and> LegacyStockCounts db = LegacyStockCounts db0 \<and> Connection db = Connection db0
    \<and> NextOutboxSeq db = NextOutboxSeq db0 \<and> wf_db db
    \<and> (\<forall>k e. getEntity db k = Some e \<longrightarrow> se_Type e \<in> sync_kinds)"

lemma boot_inv_change:
  assumes "applyChange c db = Inr db'" "ch_EntityType c \<in> sync_kinds" "boot_inv db0 db"
  shows "boot_inv db0 db'"
  using assms applyChange_frame [OF assms(1)] applyChange_wf [OF assms(1)]
  by (auto simp: boot_inv_def applyChange_merge [OF assms(1)] merge_at_def merge_def change_entity_def
      split: if_splits option.splits)

lemma boot_inv_row:
  "bootstrap_row kind raw db = Inr db' \<Longrightarrow> kind \<in> sync_kinds \<Longrightarrow> boot_inv db0 db \<Longrightarrow> boot_inv db0 db'"
  by (auto simp: bootstrap_row_def elim!: boot_inv_change split: option.splits)

lemma boot_inv_section:
  assumes "bootstrap_section sec db = Inr db'" "boot_inv db0 db"
  shows "boot_inv db0 db'"
proof (cases "map_of bootstrapSectionTypes (fst sec)")
  case None
  with assms show ?thesis by (simp add: bootstrap_section_def)
next
  case (Some kind)
  then have "kind \<in> sync_kinds" by (force simp: sync_kinds_def dest: map_of_SomeD)
  moreover have "foldE (bootstrap_row kind) (snd sec) db = Inr db'"
    using assms(1) Some by (simp add: bootstrap_section_def)
  ultimately show ?thesis
    using assms(2) by (auto elim!: foldE_inv [where I = "boot_inv db0"] intro: boot_inv_row)
qed

lemma Bootstrap_inv:
  assumes "Bootstrap w secs cur s = (s', Inr u)" "gmap (Meta (state s))"
  obtains db where "boot_inv ((state s)\<lparr>Entities := []\<rparr>) db" "state s' = setMeta ''cursor'' cur db"
proof -
  from assms(1) have "Bootstrap_tx secs cur (state s) = Inr (state s', u)"
    by (auto simp: Bootstrap_def dest: withTx_ok split: if_splits)
  then obtain db where db: "foldE bootstrap_section secs ((state s)\<lparr>Entities := []\<rparr>) = Inr db"
    "state s' = setMeta ''cursor'' cur db"
    by (auto simp: Bootstrap_tx_def split: sum.splits)
  have "boot_inv ((state s)\<lparr>Entities := []\<rparr>) ((state s)\<lparr>Entities := []\<rparr>)"
    using assms(2) by (simp add: boot_inv_def wf_db_def getEntity_def)
  with db(1) have "boot_inv ((state s)\<lparr>Entities := []\<rparr>) db"
    by (auto elim!: foldE_inv [where I = "boot_inv _"] intro: boot_inv_section)
  then show ?thesis using db(2) that by blast
qed


definition demo_local :: Store where
  "demo_local = demo_store\<lparr>state := putEntity (entityKey ''expense'' ''x1'')
     \<lparr> se_ID = ''x1'', se_Type = ''expense'', se_Version = 1, se_Deleted = False,
       se_Payload = JObj [(''price'', JStr ''4500000'')] \<rparr> newEmptyDB\<rparr>"

definition demo_boot :: "Store \<times> (err + unit)" where
  "demo_boot = Bootstrap all_ok [(''products'', [JObj [(''id'', JStr ''p1''), (''version'', JNum ''4'')]])] ''c1'' demo_local"

lemma demo_boot_eq:
  "Bootstrap all_ok [(''products'', [JObj [(''id'', JStr ''p1''), (''version'', JNum ''4'')]])] ''c1'' demo_local
     = (fst demo_boot, Inr ())"
proof -
  have "snd demo_boot = Inr ()"
    by (simp add: demo_boot_def Bootstrap_def withTx_def Bootstrap_tx_def bootstrap_section_def bootstrap_row_def
        bootstrapSectionTypes_def row_identity_def string_field_def int_field_def members_of_def EqualFold_def
        lower_ascii_def HasPrefix_def Atoi_def SetString_def parse_nat_def is_digit_def applyChange_def
        demo_local_def demo_store_def newEmptyDB_def getEntity_def putEntity_def commit_trace_def all_ok_def Let_def)
  then show ?thesis by (simp add: demo_boot_def prod_eq_iff)
qed

lemma wf_demo_local: "wf_db (state demo_local)"
  by (simp add: demo_local_def wf_db_put wf_db_empty)


text \<open>
  A bootstrap drops every entity that the server does not own: afterwards nothing is
  stored under a kind outside the table of sections (an expense, a staff member, a print
  job), although the method's comment promises to replace server-owned entities only.
\<close>

theorem Bootstrap_drops_local:
  assumes "Bootstrap w secs cur s = (s', Inr u)" and "wf_db (state s)"
    and "kind \<notin> sync_kinds" and "CHR 0x00 \<notin> set kind"
  shows "live (state s') kind i = None"
proof (rule ccontr)
  assume "live (state s') kind i \<noteq> None"
  then obtain e where e: "getEntity (state s') (entityKey kind i) = Some e"
    by (auto simp: live_def getEntity_def split: option.splits)
  from assms(2) have "gmap (Meta (state s))" by (simp add: wf_db_def)
  with assms(1) obtain db where db: "boot_inv ((state s)\<lparr>Entities := []\<rparr>) db" "state s' = setMeta ''cursor'' cur db"
    by (rule Bootstrap_inv)
  with e have "se_Type e \<in> sync_kinds" "entityKey kind i = entityKey (se_Type e) (se_ID e)"
    by (auto simp: boot_inv_def getEntity_def wf_db_key [unfolded getEntity_def])
  then show False
    using assms(3,4) sync_kinds_plain entityKey_inj by blast
qed

theorem Bootstrap_drops_local_witness:
  "live (state demo_local) ''expense'' ''x1'' \<noteq> None \<and> live (state (fst demo_boot)) ''expense'' ''x1'' = None"
proof -
  have "''expense'' \<notin> sync_kinds" by (simp add: sync_kinds_def bootstrapSectionTypes_def)
  then have "live (state (fst demo_boot)) ''expense'' ''x1'' = None"
    by (intro Bootstrap_drops_local [OF demo_boot_eq wf_demo_local]) simp_all
  then show ?thesis
    by (simp add: demo_local_def live_def putEntity_def)
qed

section \<open>Listing\<close>

definition listed :: "string \<Rightarrow> storedEntity \<Rightarrow> bool" where
  "listed kind e \<longleftrightarrow> \<not> se_Deleted e \<and> (se_Type e = kind \<or> (kind = ''order'' \<and> se_Type e = ''order_status''))"

definition live_views :: "persistedDB \<Rightarrow> string \<Rightarrow> Entity list" where
  "live_views db kind = map entity_view (filter (listed kind) (map snd (Entities db)))"

lemma EntitiesOf_eq:
  "EntitiesOf w kind s = Inr es \<longleftrightarrow> ctx_ok w \<and>
    es = take 500 (sort_key (\<lambda>e. (en_ID e, en_Type e)) (live_views (state s) kind))"
  by (auto simp: EntitiesOf_def limit_take live_views_def listed_def [abs_def])

lemma set_live_views:
  "gmap (Entities db) \<Longrightarrow>
   set (live_views db kind) = {entity_view e | k e. getEntity db k = Some e \<and> listed kind e}"
  by (force simp: live_views_def getEntity_def gmap_def)

lemma entity_view_key [simp]: "en_ID (entity_view e) = se_ID e" "en_Type (entity_view e) = se_Type e"
  by (simp_all add: entity_view_def)

lemma distinct_live_views:
  assumes "wf_db db"
  shows "distinct (map (\<lambda>e. (en_ID e, en_Type e)) (live_views db kind))"
proof -
  have d: "distinct (map fst m) \<Longrightarrow> list_all (\<lambda>(k, e). k = entityKey (se_Type e) (se_ID e)) m \<Longrightarrow>
      distinct (map (\<lambda>e. (se_ID e, se_Type e)) (filter P (map snd m)))" for P and m :: "(string \<times> storedEntity) list"
  proof (induction m)
    case Nil
    then show ?case by simp
  next
    case (Cons a m)
    obtain k e where a: "a = (k, e)" by (cases a)
    have "e' \<notin> snd ` set m" if "se_ID e' = se_ID e" "se_Type e' = se_Type e" for e'
    proof
      assume "e' \<in> snd ` set m"
      then obtain k' where "(k', e') \<in> set m" by auto
      moreover from this Cons.prems(2) have "k' = entityKey (se_Type e') (se_ID e')"
        by (auto simp: list_all_iff)
      ultimately show False using Cons.prems that a by (auto simp: image_iff)
    qed
    then have "(se_ID e, se_Type e) \<notin> (\<lambda>e. (se_ID e, se_Type e)) ` set (map snd m)"
      unfolding list.set_map image_iff [of "(_, _)"] by (metis prod.inject)
    then have "(se_ID e, se_Type e) \<notin> (\<lambda>e. (se_ID e, se_Type e)) ` set (filter P (map snd m))"
      by (meson filter_is_subset image_mono subsetD)
    moreover have "distinct (map (\<lambda>e. (se_ID e, se_Type e)) (filter P (map snd m)))"
      using Cons by simp
    ultimately show ?case by (simp add: a)
  qed
  show ?thesis
    using assms d [of "Entities db" "listed kind"]
    by (simp add: wf_db_def gmap_def live_views_def comp_def)
qed

text \<open>
  Listing a kind gives its live entities in the order of identifier and type, each
  once, at most 500 of them, and all of them when there are no more than 500.
\<close>

theorem EntitiesOf_correct:
  assumes "EntitiesOf w kind s = Inr es" and "wf_db (state s)"
  shows "sorted (map (\<lambda>e. (en_ID e, en_Type e)) es) \<and> distinct es \<and> length es \<le> 500
    \<and> set es \<subseteq> {entity_view e | k e. getEntity (state s) k = Some e \<and> listed kind e}
    \<and> (length (live_views (state s) kind) \<le> 500 \<longrightarrow>
        set es = {entity_view e | k e. getEntity (state s) k = Some e \<and> listed kind e})"
proof -
  let ?key = "\<lambda>e. (en_ID e, en_Type e)" and ?vs = "live_views (state s) kind"
  have es: "es = take 500 (sort_key ?key ?vs)" using assms(1) by (simp add: EntitiesOf_eq)
  have "distinct ?vs" using distinct_live_views [OF assms(2)] by (simp add: distinct_map)
  then have "distinct (sort_key ?key ?vs)" by simp
  moreover have "sorted (map ?key (take 500 (sort_key ?key ?vs)))"
    by (simp add: take_map [symmetric] sorted_wrt_take)
  moreover have "set (take 500 (sort_key ?key ?vs)) \<subseteq> set ?vs"
    by (metis set_sort set_take_subset)
  moreover have "length ?vs \<le> 500 \<Longrightarrow> set (take 500 (sort_key ?key ?vs)) = set ?vs" by simp
  moreover have "set ?vs = {entity_view e | k e. getEntity (state s) k = Some e \<and> listed kind e}"
    using assms(2) by (intro set_live_views) (simp add: wf_db_def)
  ultimately show ?thesis unfolding es by auto
qed

theorem EntitiesOf_correct_witness:
  "\<exists>es. EntitiesOf all_ok ''expense'' demo_local = Inr es \<and> length es \<le> 500 \<and> distinct es"
proof -
  have "EntitiesOf all_ok ''expense'' demo_local =
      Inr (take 500 (sort_key (\<lambda>e. (en_ID e, en_Type e)) (live_views (state demo_local) ''expense'')))"
    by (subst EntitiesOf_eq) (simp add: all_ok_def)
  from this EntitiesOf_correct [OF this wf_demo_local] show ?thesis by blast
qed

end
