(* ===== verification/Money.thy ===== *)
theory Money
  imports Store_Entities
begin

text \<open>
  Amounts and their Persian display: \<open>ToPersianDigits\<close>, \<open>addThousandCommas\<close>,
  \<open>FormatPersianNumber\<close>, \<open>FormatIRRToToman\<close> and the price accessors of \<open>store.go\<close>,
  \<open>parseBigIntSafe\<close> of \<open>domains.go\<close>, and the reading of what the user types back into
  the forms (\<open>normalizeDigits\<close>, \<open>tomanFormToIRR\<close> of \<open>app.go\<close>). One toman is ten rials;
  amounts are stored as decimal texts of rials.
\<close>

section \<open>Replacing strings\<close>

text \<open>
  \<open>strings.Replacer.Replace\<close>: left to right, at each position the first of the old strings
  that starts there is replaced. No old string is empty here.
\<close>

function Replace :: "(string \<times> string) list \<Rightarrow> string \<Rightarrow> string" where
  "Replace ps [] = []"
| "Replace ps (c # s) =
    (case List.find (\<lambda>p. HasPrefix (c # s) (fst p)) ps of
       None \<Rightarrow> c # Replace ps s
     | Some p \<Rightarrow> snd p @ Replace ps (drop (length (fst p) - 1) s))"
  by pat_completeness auto
termination by (relation "measure (\<lambda>(_, s). length s)") auto

section \<open>Persian digits and separators\<close>

definition persian_digit :: "nat \<Rightarrow> string" where
  "persian_digit d = utf8 (0x6F0 + d)"

definition persianDigitsReplacer :: "(string \<times> string) list" where
  "persianDigitsReplacer = map (\<lambda>d. ([digit_char d], persian_digit d)) [0..<10]"

definition ToPersianDigits :: "string \<Rightarrow> string" where
  "ToPersianDigits s = Replace persianDigitsReplacer s"

definition thousand_sep :: string where
  "thousand_sep = utf8 0x66C"

text \<open>The loop of \<open>addThousandCommas\<close> from an index on: three digits, a separator if more follow.\<close>

function comma_groups :: "string \<Rightarrow> string" where
  "comma_groups s =
    (if s = [] then []
     else take 3 s @ (if length s > 3 then thousand_sep else []) @ comma_groups (drop 3 s))"
  by pat_completeness auto
termination by (relation "measure length") auto

declare comma_groups.simps [simp del]

definition addThousandCommas :: "string \<Rightarrow> string" where
  "addThousandCommas p =
    (let neg = HasPrefix p ''-''; q = (if neg then drop 1 p else p); n = length q;
         sign = (if neg then ''-'' else [])
     in if n \<le> 3 then sign @ q
        else
          (let rem = n mod 3
           in sign @ (if rem > 0 then take rem q @ (if n > rem then thousand_sep else []) else [])
                @ comma_groups (drop rem q)))"

definition FormatPersianNumber :: "string \<Rightarrow> string" where
  "FormatPersianNumber raw0 =
    (let raw = TrimSpace raw0
     in if raw = [] then (fa [0x6F0])
        else
          (let parts = SplitN2 raw ''.''; intPart = addThousandCommas (parts ! 0);
               frac = (if length parts = 2 then TrimRightChar (parts ! 1) (CHR ''0'') else [])
           in if frac \<noteq> [] then ToPersianDigits (intPart @ ''/'' @ frac) else ToPersianDigits intPart))"

definition fa_toman :: string where "fa_toman = (fa [0x20, 0x62A, 0x648, 0x645, 0x627, 0x646])"
definition fa_rial :: string where "fa_rial = (fa [0x20, 0x631, 0x6CC, 0x627, 0x644])"
definition fa_zero_toman :: string where "fa_zero_toman = (fa [0x6F0, 0x20, 0x62A, 0x648, 0x645, 0x627, 0x646])"

definition FormatIRRToToman :: "string \<Rightarrow> string" where
  "FormatIRRToToman rawIRR0 =
    (let rawIRR = TrimSpace rawIRR0
     in if rawIRR = [] then fa_zero_toman
        else
          (let p = SplitN2 rawIRR ''.'' ! 0
           in case SetString p of
                None \<Rightarrow> ToPersianDigits rawIRR @ fa_rial
              | Some bi \<Rightarrow>
                 (let toman = quo bi 10; rem = bi - 10 * toman; formatted = FormatPersianNumber (Itoa toman)
                  in if rem \<noteq> 0 then formatted @ fa_toman @ '' ('' @ FormatPersianNumber p @ fa_rial @ '')''
                     else formatted @ fa_toman)))"

section \<open>Prices of an entity\<close>

definition irt_debtor :: "Entity \<Rightarrow> bool" where
  "irt_debtor e \<longleftrightarrow> en_Type e = ''debtor'' \<and> EqualFold (Field e ''currency'') ''IRT''"

definition PriceToman :: "Entity \<Rightarrow> string" where
  "PriceToman e =
    (let raw = PriceIRR e
     in if raw = [] then []
        else if irt_debtor e then FormatPersianNumber raw @ fa_toman
        else FormatIRRToToman raw)"

definition PriceRialFormatted :: "Entity \<Rightarrow> string" where
  "PriceRialFormatted e =
    (let raw = PriceIRR e
     in if raw = [] then []
        else if irt_debtor e then FormatPersianNumber raw @ fa_toman
        else FormatPersianNumber raw @ fa_rial)"

definition SplitShareToman :: "Entity \<Rightarrow> int \<Rightarrow> string" where
  "SplitShareToman e people =
    (if people \<le> 1 then PriceToman e
     else
       (let raw = TrimSpace (PriceIRR e)
        in if raw = [] then fa_zero_toman
           else case SetString (SplitN2 raw ''.'' ! 0) of
                  None \<Rightarrow> fa_zero_toman
                | Some bi \<Rightarrow> FormatIRRToToman (Itoa (bi div people))))"

text \<open>\<open>parseBigIntSafe\<close> of \<open>domains.go\<close> and its twin \<open>parseIRRBig\<close> of \<open>app.go\<close>.\<close>

definition parseBigIntSafe :: "string \<Rightarrow> int" where
  "parseBigIntSafe raw0 =
    (let raw = TrimSpace raw0
     in if raw = [] then 0
        else case SetString (SplitN2 raw ''.'' ! 0) of None \<Rightarrow> 0 | Some bi \<Rightarrow> bi)"

definition parseIRRBig :: "string \<Rightarrow> int" where
  "parseIRRBig raw0 =
    (let raw = TrimSpace raw0
     in if raw = [] then 0
        else case SetString (SplitN2 raw ''.'' ! 0) of None \<Rightarrow> 0 | Some bi \<Rightarrow> bi)"

definition tomanNumber :: "string \<Rightarrow> string" where
  "tomanNumber irr = FormatPersianNumber (Itoa (quo (parseIRRBig irr) 10))"

section \<open>Units\<close>

definition unit_names :: "(string \<times> string) list" where
  "unit_names =
    [(''g'', (fa [0x6AF, 0x631, 0x645, 0x20, 0x28, 0x67, 0x29])), (''kg'', (fa [0x6A9, 0x6CC, 0x644, 0x648, 0x6AF, 0x631, 0x645, 0x20, 0x28, 0x6B, 0x67, 0x29])), (''mg'', (fa [0x645, 0x6CC, 0x644, 0x6CC, 0x200C, 0x6AF, 0x631, 0x645, 0x20, 0x28, 0x6D, 0x67, 0x29])),
     (''ml'', (fa [0x645, 0x6CC, 0x644, 0x6CC, 0x200C, 0x644, 0x6CC, 0x62A, 0x631, 0x20, 0x28, 0x6D, 0x6C, 0x29])), (''cl'', (fa [0x633, 0x627, 0x646, 0x62A, 0x6CC, 0x200C, 0x644, 0x6CC, 0x62A, 0x631, 0x20, 0x28, 0x63, 0x6C, 0x29])), (''l'', (fa [0x644, 0x6CC, 0x62A, 0x631, 0x20, 0x28, 0x6C, 0x29])),
     (''pcs'', (fa [0x639, 0x62F, 0x62F, 0x20, 0x28, 0x70, 0x63, 0x73, 0x29])), (''shot'', (fa [0x634, 0x627, 0x62A, 0x20, 0x627, 0x633, 0x67E, 0x631, 0x633, 0x648, 0x20, 0x28, 0x73, 0x68, 0x6F, 0x74, 0x29])), (''pack'', (fa [0x628, 0x633, 0x62A, 0x647, 0x20, 0x28, 0x70, 0x61, 0x63, 0x6B, 0x29])),
     (''portion'', (fa [0x67E, 0x631, 0x633, 0x20, 0x2F, 0x20, 0x648, 0x639, 0x62F, 0x647, 0x20, 0x28, 0x70, 0x6F, 0x72, 0x74, 0x69, 0x6F, 0x6E, 0x29])), (''bottle'', (fa [0x628, 0x637, 0x631, 0x6CC, 0x20, 0x28, 0x62, 0x6F, 0x74, 0x74, 0x6C, 0x65, 0x29])),
     (''box'', (fa [0x62C, 0x639, 0x628, 0x647, 0x20, 0x2F, 0x20, 0x6A9, 0x627, 0x631, 0x62A, 0x646, 0x20, 0x28, 0x62, 0x6F, 0x78, 0x29])), (''sachet'', (fa [0x633, 0x627, 0x634, 0x647, 0x20, 0x28, 0x73, 0x61, 0x63, 0x68, 0x65, 0x74, 0x29]))]"

definition PersianUnitName :: "string \<Rightarrow> string" where
  "PersianUnitName u =
    (case map_of unit_names (ToLower (TrimSpace u)) of None \<Rightarrow> u | Some n \<Rightarrow> n)"

definition UnitLabel :: "Entity \<Rightarrow> string" where
  "UnitLabel e =
    (let u = Field e ''base_unit'' in PersianUnitName (if u = [] then Field e ''unit'' else u))"

section \<open>Reading form input\<close>

definition digit_table :: "(string \<times> string) list" where
  "digit_table =
    map (\<lambda>d. (utf8 (0x6F0 + d), [digit_char d])) [0..<10]
    @ map (\<lambda>d. (utf8 (0x660 + d), [digit_char d])) [0..<10]
    @ [(utf8 0x66C, []), ('','', []), ('' '', [])]"

definition normalizeDigits :: "string \<Rightarrow> string" where
  "normalizeDigits s = Replace digit_table s"

definition tomanFormToIRR :: "string \<Rightarrow> string option" where
  "tomanFormToIRR raw =
    (let digits = normalizeDigits (TrimSpace raw)
     in if digits = [] then None
        else (case Atoi digits of
                (n, ok) \<Rightarrow> if \<not> ok \<or> n < 0 then None else Some (Itoa (w64 (n * 10)))))"

text \<open>\<open>normalizeNumInput\<close>, rune by rune; U+200C is the zero width non-joiner.\<close>

definition num_input_rune :: "nat \<Rightarrow> string" where
  "num_input_rune r =
    (if 0x6F0 \<le> r \<and> r \<le> 0x6F9 then utf8 (48 + (r - 0x6F0))
     else if 0x660 \<le> r \<and> r \<le> 0x669 then utf8 (48 + (r - 0x660))
     else if r = 32 \<or> r = 0x200C then []
     else utf8 r)"

definition normalizeNumInput :: "string \<Rightarrow> string" where
  "normalizeNumInput v = concat (map num_input_rune (runes (TrimSpace v)))"

definition displayOrderNumber :: "string \<Rightarrow> string" where
  "displayOrderNumber raw =
    (let s = TrimSpace raw
     in if HasPrefix s ''F-'' then TrimSpace (TrimPrefix s ''F-'') else s)"


section \<open>Display and reading back\<close>

lemma parseIRRBig_eq: "parseIRRBig = parseBigIntSafe"
  by (rule ext) (simp add: parseIRRBig_def parseBigIntSafe_def)

lemma parseBigIntSafe_Itoa [strs, simp]: "parseBigIntSafe (Itoa i) = i"
  by (simp add: parseBigIntSafe_def SplitN2_not_in dot_notin_Itoa)

lemma parseBigIntSafe_Nil [simp]: "parseBigIntSafe [] = 0"
  by (simp add: parseBigIntSafe_def)

lemma ToPersianDigits_Nil [simp]: "ToPersianDigits [] = []"
  by (simp add: ToPersianDigits_def)

lemma ToPersianDigits_Cons:
  "ToPersianDigits (c # s) = (if is_digit c then persian_digit (code c - 48) else [c]) @ ToPersianDigits s"
proof -
  have key: "HasPrefix (c # s) [digit_char d] \<longleftrightarrow> c = digit_char d" for d
    by (auto simp: HasPrefix_def)
  have up: "[0..<10] = [0, 1, 2, 3, 4, 5, 6, 7, 8, 9::nat]" by code_simp
  show ?thesis
  proof (cases "is_digit c")
    case True
    define d where "d = code c - 48"
    have d: "d < 10" and c: "c = digit_char d"
      using True by (auto simp: d_def is_digit_def digit_char_def)
    have "d = 0 \<or> d = 1 \<or> d = 2 \<or> d = 3 \<or> d = 4 \<or> d = 5 \<or> d = 6 \<or> d = 7 \<or> d = 8 \<or> d = 9"
      using d by arith
    then show ?thesis
      by (elim disjE)
        (simp_all add: ToPersianDigits_def persianDigitsReplacer_def up HasPrefix_def c is_digit_def digit_char_def)
  next
    case False
    then have "c \<noteq> digit_char d" if "d < 10" for d
      using that by (auto simp: is_digit_def digit_char_def)
    then have "List.find (\<lambda>p. HasPrefix (c # s) (fst p)) persianDigitsReplacer = None"
      by (auto simp: find_None_iff persianDigitsReplacer_def key)
    then show ?thesis using False by (simp add: ToPersianDigits_def)
  qed
qed

lemma ToPersianDigits_append: "ToPersianDigits (s @ t) = ToPersianDigits s @ ToPersianDigits t"
  by (induction s) (simp_all add: ToPersianDigits_Cons)

lemma normalize_Nil [simp]: "normalizeDigits [] = []"
  by (simp add: normalizeDigits_def)

lemma normalize_persian_digit:
  assumes "d < 10"
  shows "normalizeDigits (persian_digit d @ s) = digit_char d # normalizeDigits s"
proof -
  have up: "[0..<10] = [0, 1, 2, 3, 4, 5, 6, 7, 8, 9::nat]" by code_simp
  have "d = 0 \<or> d = 1 \<or> d = 2 \<or> d = 3 \<or> d = 4 \<or> d = 5 \<or> d = 6 \<or> d = 7 \<or> d = 8 \<or> d = 9"
    using assms by arith
  then show ?thesis
    by (elim disjE)
      (simp_all add: normalizeDigits_def persian_digit_def digit_table_def up utf8_def HasPrefix_def)
qed

lemma normalize_sep: "normalizeDigits (thousand_sep @ s) = normalizeDigits s"
proof -
  have up: "[0..<10] = [0, 1, 2, 3, 4, 5, 6, 7, 8, 9::nat]" by code_simp
  show ?thesis
    by (simp add: normalizeDigits_def thousand_sep_def digit_table_def up utf8_def HasPrefix_def)
qed

lemma digit_table_heads:
  "list_all (\<lambda>p. fst p \<noteq> [] \<and> (128 \<le> code (hd (fst p)) \<or> hd (fst p) = CHR '','' \<or> hd (fst p) = CHR '' '')) digit_table"
  by code_simp

lemma normalize_ascii:
  assumes "code c < 128" "c \<noteq> CHR '',''" "c \<noteq> CHR '' ''"
  shows "normalizeDigits (c # s) = c # normalizeDigits s"
proof -
  have "\<not> HasPrefix (c # s) (fst p)" if "p \<in> set digit_table" for p
    using that digit_table_heads assms HasPrefix_hd [of "c # s" "fst p"]
    by (fastforce simp: list_all_iff)
  then have "List.find (\<lambda>p. HasPrefix (c # s) (fst p)) digit_table = None"
    by (force simp: find_None_iff)
  then show ?thesis by (simp add: normalizeDigits_def)
qed

text \<open>A digit text of any length: what the display adds, the reader removes.\<close>

definition digits :: "string \<Rightarrow> bool" where
  "digits s \<longleftrightarrow> list_all is_digit s"

lemma normalize_shown_digits:
  "digits s \<Longrightarrow> normalizeDigits (ToPersianDigits s @ t) = s @ normalizeDigits t"
proof (induction s)
  case (Cons c s)
  then have "is_digit c" "digits s" by (simp_all add: digits_def)
  moreover from this have "code c - 48 < 10" "digit_char (code c - 48) = c"
    by (auto simp: is_digit_def digit_char_def)
  ultimately show ?case
    using Cons.IH by (simp add: ToPersianDigits_Cons normalize_persian_digit)
qed simp

lemma ToPersianDigits_sep [simp]: "ToPersianDigits thousand_sep = thousand_sep"
  by (simp add: thousand_sep_def utf8_def ToPersianDigits_Cons is_digit_def)

lemma digits_take_drop: "digits s \<Longrightarrow> digits (take n s)" "digits s \<Longrightarrow> digits (drop n s)"
  by (auto simp: digits_def list_all_iff dest: in_set_takeD in_set_dropD)

lemma normalize_groups:
  "digits s \<Longrightarrow> normalizeDigits (ToPersianDigits (comma_groups s) @ t) = s @ normalizeDigits t"
proof (induction s arbitrary: t rule: comma_groups.induct)
  case (1 s)
  show ?case
  proof (cases "s = []")
    case True
    then show ?thesis by (simp add: comma_groups.simps)
  next
    case False
    let ?sep = "if length s > 3 then thousand_sep else []"
    have IH: "normalizeDigits (ToPersianDigits (comma_groups (drop 3 s)) @ t) = drop 3 s @ normalizeDigits t"
      using 1 False by (simp add: digits_take_drop)
    have "ToPersianDigits (comma_groups s) @ t =
        ToPersianDigits (take 3 s) @ (?sep @ (ToPersianDigits (comma_groups (drop 3 s)) @ t))"
      using False by (subst comma_groups.simps) (simp add: ToPersianDigits_append)
    also have "normalizeDigits \<dots> = take 3 s @ normalizeDigits (?sep @ (ToPersianDigits (comma_groups (drop 3 s)) @ t))"
      using 1(2) by (intro normalize_shown_digits digits_take_drop)
    also have "\<dots> = take 3 s @ drop 3 s @ normalizeDigits t"
      by (auto simp: normalize_sep IH comma_groups.simps [of "[]"])
    finally show ?thesis by (metis append.assoc append_take_drop_id)
  qed
qed

lemma digits_no_minus: "digits s \<Longrightarrow> \<not> HasPrefix s ''-''"
  by (cases s) (auto simp: digits_def HasPrefix_def)

lemma normalize_commas_digits:
  assumes "digits s"
  shows "normalizeDigits (ToPersianDigits (addThousandCommas s) @ t) = s @ normalizeDigits t"
proof (cases "length s \<le> 3")
  case True
  then show ?thesis
    using assms by (simp add: addThousandCommas_def digits_no_minus normalize_shown_digits)
next
  case False
  define r where "r = length s mod 3"
  have r: "r < length s" using False by (simp add: r_def)
  have "addThousandCommas s = (if r > 0 then take r s @ thousand_sep else []) @ comma_groups (drop r s)"
    using assms False r by (simp add: addThousandCommas_def digits_no_minus Let_def r_def)
  then have "normalizeDigits (ToPersianDigits (addThousandCommas s) @ t) = take r s @ drop r s @ normalizeDigits t"
    using assms
    by (auto simp: ToPersianDigits_append normalize_shown_digits digits_take_drop normalize_sep normalize_groups)
  then show ?thesis by (metis append.assoc append_take_drop_id)
qed

lemma digits_nat_text [simp]: "digits (nat_text n)"
  using nat_text_digits by (simp add: digits_def list_all_iff)

lemma commas_negative: "digits s \<Longrightarrow> addThousandCommas (CHR ''-'' # s) = CHR ''-'' # addThousandCommas s"
  using digits_no_minus [of s] by (auto simp: addThousandCommas_def HasPrefix_def Let_def)

lemma normalize_commas_Itoa:
  "normalizeDigits (ToPersianDigits (addThousandCommas (Itoa i)) @ t) = Itoa i @ normalizeDigits t"
  by (simp add: Itoa_def commas_negative ToPersianDigits_Cons normalize_ascii normalize_commas_digits)

lemma FormatPersianNumber_Itoa: "FormatPersianNumber (Itoa i) = ToPersianDigits (addThousandCommas (Itoa i))"
  by (simp add: FormatPersianNumber_def SplitN2_not_in dot_notin_Itoa Let_def)

lemma normalize_Format_Itoa: "normalizeDigits (FormatPersianNumber (Itoa i) @ t) = Itoa i @ normalizeDigits t"
  by (simp add: FormatPersianNumber_Itoa normalize_commas_Itoa)


text \<open>
  What the display shows can be typed back: reading the grouped Persian digits of any
  amount with the form's digit normalisation gives the decimal text of the amount again.
\<close>

theorem Format_normalize_roundtrip: "normalizeDigits (FormatPersianNumber (Itoa i)) = Itoa i"
  using normalize_Format_Itoa [of i "[]"] by simp

text \<open>The shown text neither starts nor ends with a space, and holds none.\<close>

lemma TrimSpace_ends:
  assumes "list_all (\<lambda>w. hd w \<noteq> hd s \<and> last w \<noteq> last s) space_seqs"
  shows "TrimSpace s = s"
proof -
  have "lead_space s = 0" "trail_space s = 0"
    using assms space_seqs_nonempty unfolding lead_space_0 trail_space_0 list_all_iff
    by (metis HasPrefix_hd, metis HasSuffix_last)
  then show ?thesis by (simp add: TrimSpace_def TrimLeftSpace.simps TrimRightSpace.simps)
qed

lemma comma_groups_ends:
  "s \<noteq> [] \<Longrightarrow> comma_groups s \<noteq> [] \<and> hd (comma_groups s) = hd s \<and> last (comma_groups s) = last s"
proof (induction s rule: comma_groups.induct)
  case (1 s)
  show ?case
  proof (cases "length s > 3")
    case True
    then have "drop 3 s \<noteq> []" by simp
    with 1 show ?thesis by (subst (1 2 3) comma_groups.simps) (simp add: hd_append)
  next
    case False
    with 1(2) show ?thesis
      by (subst (1 2 3) comma_groups.simps) (simp add: comma_groups.simps [of "[]"])
  qed
qed

lemma addThousandCommas_ends:
  assumes "digits s" "s \<noteq> []"
  shows "addThousandCommas s \<noteq> [] \<and> hd (addThousandCommas s) = hd s \<and> last (addThousandCommas s) = last s"
proof (cases "length s \<le> 3")
  case True
  then show ?thesis using assms by (simp add: addThousandCommas_def digits_no_minus)
next
  case False
  define r where "r = length s mod 3"
  have r: "r < length s" using False by (simp add: r_def)
  have eq: "addThousandCommas s = (if r > 0 then take r s @ thousand_sep else []) @ comma_groups (drop r s)"
    using assms False r by (simp add: addThousandCommas_def digits_no_minus Let_def r_def)
  have "comma_groups (drop r s) \<noteq> [] \<and> hd (comma_groups (drop r s)) = hd (drop r s)
      \<and> last (comma_groups (drop r s)) = last (drop r s)"
    using r by (intro comma_groups_ends) simp
  then show ?thesis using r assms(2) by (auto simp: eq hd_append)
qed

lemma persian_ends:
  assumes "s \<noteq> []"
  shows "is_digit (hd s) \<Longrightarrow> hd (ToPersianDigits s) = CHR 0xDB"
    and "is_digit (last s) \<Longrightarrow> \<exists>d < 10. last (ToPersianDigits s) = char_of (0xB0 + d :: nat)"
    and "ToPersianDigits s \<noteq> []"
proof -
  have shape: "persian_digit d = [CHR 0xDB, char_of (0xB0 + d)]" if "d < 10" for d
  proof -
    have "(0x6F0 + d) div 64 = 27" "(0x6F0 + d) mod 64 = 48 + d"
      using that mod_lin [of "48 + d" 64 27] by auto
    then show ?thesis using that by (simp add: persian_digit_def utf8_def char_of_eq_iff take_bit_eq_mod)
  qed
  have d: "is_digit c \<Longrightarrow> code c - 48 < 10" for c by (auto simp: is_digit_def)
  from assms obtain c t where s: "s = c # t" by (cases s) auto
  show "is_digit (hd s) \<Longrightarrow> hd (ToPersianDigits s) = CHR 0xDB"
    by (simp add: s ToPersianDigits_Cons shape d)
  show "ToPersianDigits s \<noteq> []"
    by (simp add: s ToPersianDigits_Cons shape d)
  from assms obtain u e where s': "s = u @ [e]" by (metis rev_exhaust)
  show "\<exists>d < 10. last (ToPersianDigits s) = char_of (0xB0 + d :: nat)" if "is_digit (last s)"
    using that d [of e] by (auto simp: s' ToPersianDigits_append ToPersianDigits_Cons shape)
qed

lemma Format_trimmed: "TrimSpace (FormatPersianNumber (Itoa i)) = FormatPersianNumber (Itoa i)"
proof (rule TrimSpace_ends)
  let ?n = "nat_text (nat \<bar>i\<bar>)" let ?t = "ToPersianDigits (addThousandCommas ?n)"
  have e: "addThousandCommas ?n \<noteq> [] \<and> is_digit (hd (addThousandCommas ?n)) \<and> is_digit (last (addThousandCommas ?n))"
    using addThousandCommas_ends [of ?n] hd_nat_text last_nat_text by simp
  note ends = persian_ends [OF conjunct1 [OF e]]
  have f: "FormatPersianNumber (Itoa i) = (if i < 0 then ''-'' else []) @ ?t"
    unfolding FormatPersianNumber_Itoa by (simp add: Itoa_def commas_negative ToPersianDigits_Cons)
  obtain d where d: "d < 10" "last ?t = char_of (0xB0 + d :: nat)" using ends(2) e by blast
  have "hd (FormatPersianNumber (Itoa i)) \<in> {CHR ''-'', CHR 0xDB}"
    using ends(1) e by (cases "i < 0") (simp_all add: f)
  moreover have "code (last (FormatPersianNumber (Itoa i))) = 0xB0 + d"
    using ends(3) d by (simp add: f)
  moreover have "list_all (\<lambda>w. hd w \<notin> {CHR ''-'', CHR 0xDB} \<and>
      (code (last w) < 0xB0 \<or> 0xBA \<le> code (last w))) space_seqs" by code_simp
  ultimately show "list_all (\<lambda>w. hd w \<noteq> hd (FormatPersianNumber (Itoa i))
      \<and> last w \<noteq> last (FormatPersianNumber (Itoa i))) space_seqs"
    using d(1) by (auto simp: list_all_iff)
qed

lemma set_comma_groups: "set (comma_groups s) \<subseteq> set s \<union> set thousand_sep"
proof (induction s rule: comma_groups.induct)
  case (1 s)
  then show ?case
    by (subst comma_groups.simps) (auto dest: in_set_takeD in_set_dropD)
qed

lemma set_addThousandCommas: "set (addThousandCommas s) \<subseteq> set s \<union> set thousand_sep"
proof -
  have q: "set (drop m (drop n s)) \<subseteq> set s" "set (take m (drop n s)) \<subseteq> set s" for m n
    by (auto dest: in_set_takeD in_set_dropD)
  have "HasPrefix s ''-'' \<Longrightarrow> CHR ''-'' \<in> set s" by (cases s) (auto simp: HasPrefix_def)
  then show ?thesis
    using set_comma_groups [of "drop ((length s - 1) mod 3) (drop 1 s)"] set_comma_groups [of "drop (length s mod 3) s"]
      q [of _ 0] q [of _ 1] set_drop_subset [of 1 s]
    by (auto simp: addThousandCommas_def Let_def dest: in_set_takeD in_set_dropD)
qed

lemma space_notin_persian: "CHR '' '' \<notin> set s \<Longrightarrow> CHR '' '' \<notin> set (ToPersianDigits s)"
proof (induction s)
  case (Cons c s)
  have "CHR '' '' \<notin> set (persian_digit (code c - 48))" if "is_digit c"
  proof -
    have "(0x6F0 + (code c - 48)) div 64 = 27" "(0x6F0 + (code c - 48)) mod 64 = code c"
      using that mod_lin [of "code c" 64 27] by (auto simp: is_digit_def)
    then show ?thesis
      using that by (auto simp: persian_digit_def utf8_def is_digit_def dest!: arg_cong [where f = code])
  qed
  then show ?case using Cons by (simp add: ToPersianDigits_Cons)
qed simp

lemma space_notin_Format: "CHR '' '' \<notin> set (FormatPersianNumber (Itoa i))"
proof -
  have "\<not> is_digit (CHR '' '')" by (simp add: is_digit_def)
  then have "CHR '' '' \<notin> set (Itoa i)"
    using nat_text_digits by (auto simp: Itoa_def)
  moreover have "CHR '' '' \<notin> set thousand_sep" by code_simp
  ultimately show ?thesis
    using set_addThousandCommas [of "Itoa i"] by (auto simp: FormatPersianNumber_Itoa intro!: space_notin_persian)
qed

lemma normalize_digits: "digits s \<Longrightarrow> normalizeDigits s = s"
proof (induction s)
  case (Cons c s)
  then have "is_digit c" "digits s" by (simp_all add: digits_def)
  moreover from this have "code c < 128" "c \<noteq> CHR '',''" "c \<noteq> CHR '' ''" by (auto simp: is_digit_def)
  ultimately show ?case using Cons.IH by (simp add: normalize_ascii)
qed simp

lemma quo_10: "quo (10 * n) 10 = n"
  by (cases "n = 0") (auto simp: quo_def abs_mult sgn_mult mult_sgn_abs)

text \<open>
  The toman amount shown for a stored amount of whole tomans, entered into a form again,
  is stored as the same number of rials, for every amount below the 64-bit bound.
\<close>

theorem tomanForm_roundtrip:
  assumes "0 \<le> n" and "10 * n < 2 ^ 63"
  shows "tomanFormToIRR (tomanNumber (Itoa (10 * n))) = Some (Itoa (10 * n))"
proof -
  have "in64 n" "in64 (10 * n)" using assms by (auto simp: in64_def)
  then have "Atoi (Itoa n) = (n, True)" "w64 (n * 10) = 10 * n"
    by (simp_all add: Atoi_Itoa w64_id mult.commute)
  moreover have "tomanNumber (Itoa (10 * n)) = FormatPersianNumber (Itoa n)"
    by (simp add: tomanNumber_def parseIRRBig_eq quo_10)
  ultimately show ?thesis
    using assms(1) normalize_Format_Itoa [of n "[]"]
    by (simp add: tomanFormToIRR_def Format_trimmed Let_def)
qed

theorem tomanForm_roundtrip_witness:
  "tomanFormToIRR (tomanNumber (Itoa 1850000)) = Some (Itoa 1850000)"
  using tomanForm_roundtrip [of 185000] by simp

text \<open>
  Above that bound the multiplication wraps around: an amount the form accepts as a
  positive number of tomans is stored as a negative number of rials.
\<close>

theorem tomanForm_wraps: "tomanFormToIRR ''1000000000000000000'' = Some ''-8446744073709551616''"
proof -
  let ?s = "''1000000000000000000''"
  have "TrimSpace ?s = ?s" by (rule TrimSpace_graph) (simp_all add: graph_def)
  moreover have "normalizeDigits ?s = ?s" by (rule normalize_digits) (simp add: digits_def is_digit_def)
  moreover have "Itoa 1000000000000000000 = ?s" by (simp add: Itoa_def nat_text.simps digit_char_def char_of_eq_iff take_bit_eq_mod)
  then have "Atoi ?s = (1000000000000000000, True)"
    using Atoi_Itoa [of 1000000000000000000] by (simp add: in64_def)
  moreover have "Itoa (w64 (1000000000000000000 * 10)) = ''-8446744073709551616''"
    by (simp add: w64_def Itoa_def nat_text.simps digit_char_def char_of_eq_iff take_bit_eq_mod)
  ultimately show ?thesis by (simp add: tomanFormToIRR_def)
qed

text \<open>
  The display of rials as tomans loses nothing: two amounts with the same text are the
  same amount, since a rest below one toman is shown in rials as well.
\<close>

theorem FormatIRRToToman_inj:
  assumes "FormatIRRToToman (Itoa i) = FormatIRRToToman (Itoa j)"
  shows "i = j"
proof -
  define rest where "rest k = (if k - 10 * quo k 10 = 0 then []
     else '' ('' @ FormatPersianNumber (Itoa k) @ fa_rial @ '')'')" for k
  have shown: "FormatIRRToToman (Itoa k) = FormatPersianNumber (Itoa (quo k 10)) @ fa_toman @ rest k" for k
    by (simp add: FormatIRRToToman_def rest_def SplitN2_not_in dot_notin_Itoa Let_def)
  have toman: "hd fa_toman = CHR '' ''" "fa_toman \<noteq> []" by (simp_all add: fa_toman_def fa_def utf8_def char_of_eq_iff take_bit_eq_mod)
  then obtain t where t: "fa_toman = CHR '' '' # t" by (metis list.collapse)
  have "takeWhile (\<lambda>c. c \<noteq> CHR '' '') (FormatIRRToToman (Itoa k)) = FormatPersianNumber (Itoa (quo k 10))" for k
  proof -
    have "takeWhile (\<lambda>c. c \<noteq> CHR '' '') (FormatPersianNumber (Itoa (quo k 10)) @ CHR '' '' # t @ rest k)
        = FormatPersianNumber (Itoa (quo k 10))"
      using space_notin_Format [of "quo k 10"] by (subst takeWhile_append2) auto
    then show ?thesis by (simp add: shown t)
  qed
  with assms have q: "FormatPersianNumber (Itoa (quo i 10)) = FormatPersianNumber (Itoa (quo j 10))"
    by metis
  with assms have rest: "rest i = rest j" by (simp add: shown)
  have inj: "k = l" if "FormatPersianNumber (Itoa k) = FormatPersianNumber (Itoa l)" for k l
    using that normalize_Format_Itoa [of k "[]"] normalize_Format_Itoa [of l "[]"] dec.enc_inj by simp
  from inj [OF q] rest show ?thesis
    by (auto simp: rest_def dest: inj split: if_splits)
qed

theorem FormatIRRToToman_inj_witness: "FormatIRRToToman (Itoa 12345) \<noteq> FormatIRRToToman (Itoa 12340)"
  using FormatIRRToToman_inj [of 12345 12340] by auto

end
