(* ===== verification/Outbox.thy ===== *)
theory Outbox
  imports Store_Props Money
begin

text \<open>
  \<open>internal/store/outbox.go\<close>: validating catalog edits, queueing them with their optimistic
  base version, listing what is to be sent, recording the server's answers, and discarding
  blocked operations. Random bytes and the clock are arguments.
\<close>

unbundle bit_operations_syntax

record Operation =
  op_ID :: string
  op_Sequence :: int
  op_EntityType :: string
  op_EntityID :: string
  op_Action :: string
  op_BaseVersion :: "int option"
  op_Payload :: json
  op_CreatedAt :: string
  op_State :: string
  op_Result :: json

record Result =
  rs_ID :: string
  rs_Status :: string
  rs_Error :: json

section \<open>Identifiers\<close>

definition is_hex :: "char \<Rightarrow> bool" where
  "is_hex c \<longleftrightarrow> is_digit c \<or> (97 \<le> code c \<and> code c \<le> 102) \<or> (65 \<le> code c \<and> code c \<le> 70)"

text \<open>\<open>uuidPattern.MatchString\<close>: hexadecimal groups of 8, 4, 4, 4 and 12 joined by dashes.\<close>

definition uuidPattern :: "string \<Rightarrow> bool" where
  "uuidPattern s \<longleftrightarrow> length s = 36 \<and>
     list_all (\<lambda>i. if i \<in> {8, 13, 18, 23} then s ! i = CHR ''-'' else is_hex (s ! i)) [0..<36]"

definition hex_byte :: "8 word \<Rightarrow> string" where
  "hex_byte b = [hex_char (unat b div 16), hex_char (unat b mod 16)]"

definition UUID :: "8 word list option \<Rightarrow> err + string" where
  "UUID rnd =
    (case rnd of
       None \<Rightarrow> Inl (EIO ErrRand)
     | Some b0 \<Rightarrow>
        (let b1 = b0[6 := ((b0 ! 6) AND 15) OR 64];
             b = b1[8 := ((b1 ! 8) AND 63) OR 128];
             s = concat (map hex_byte b)
         in Inr (take 8 s @ ''-'' @ take 4 (drop 8 s) @ ''-'' @ take 4 (drop 12 s) @ ''-''
              @ take 4 (drop 16 s) @ ''-'' @ drop 20 s)))"

section \<open>Validating an edit\<close>

definition catalogFields :: "(string \<times> (string \<times> string) list) list" where
  "catalogFields =
    [(''category'', [(''title'', ''text''), (''slug'', ''text''), (''description'', ''text'')]),
     (''product'', [(''title'', ''text''), (''slug'', ''text''), (''description'', ''text''),
        (''category_id'', ''uuid''), (''price'', ''decimal''), (''cost'', ''decimal''),
        (''is_available'', ''bool'')]),
     (''ingredient'', [(''name'', ''text''), (''sku'', ''text''), (''barcode'', ''text''), (''base_unit'', ''unit'')]),
     (''banner'', [(''title'', ''text''), (''image'', ''text''), (''link'', ''text''), (''is_active'', ''bool'')])]"

text \<open>\<open>decimalPattern\<close>: one to fifteen digits, then possibly a point and one to four digits.\<close>

definition decimalPattern :: "string \<Rightarrow> bool" where
  "decimalPattern s =
    (let a = takeWhile is_digit s; r = dropWhile is_digit s
     in 1 \<le> length a \<and> length a \<le> 15 \<and>
        (case r of
           [] \<Rightarrow> True
         | c # f \<Rightarrow> c = CHR ''.'' \<and> list_all is_digit f \<and> 1 \<le> length f \<and> length f \<le> 4))"

definition base_units :: string where
  "base_units = ''|mg|g|kg|ml|cl|l|pcs|pack|portion|bottle|box|shot|sachet|''"

text \<open>The check of one member, by the type of its field.\<close>

definition check_value :: "string \<Rightarrow> string \<Rightarrow> json \<Rightarrow> intent_err option" where
  "check_value typ key v =
    (if typ = ''bool'' then (case v of JBool b \<Rightarrow> None | _ \<Rightarrow> Some (ErrNotBool key))
     else if typ = ''decimal'' then
       (let str = (case v of JStr s \<Rightarrow> s | _ \<Rightarrow> json_text v)
        in if decimalPattern str then None else Some (ErrNotDecimal key))
     else
       (case v of
          JStr str \<Rightarrow>
            (if length (runes str) > 2000 then Some (ErrNotText key)
             else if (key = ''title'' \<or> key = ''name'') \<and> TrimSpace str = [] then Some ErrEmptyTitle
             else if typ = ''uuid'' \<and> \<not> uuidPattern str then Some (ErrNotUUID key)
             else if typ = ''unit'' \<and> \<not> Contains base_units (''|'' @ str @ ''|'') then Some ErrUnknownUnit
             else None)
        | _ \<Rightarrow> Some (ErrNotText key)))"

definition check_member :: "string \<Rightarrow> string \<Rightarrow> (string \<times> string) list \<Rightarrow> string \<times> json \<Rightarrow> intent_err option" where
  "check_member kind action flds kv =
    (case kv of (key, v) \<Rightarrow>
      (case map_of flds key of
         None \<Rightarrow> Some (ErrFieldNotEditable key)
       | Some typ \<Rightarrow>
          if kind = ''ingredient'' \<and> key = ''base_unit'' \<and> action \<noteq> ''create'' then Some ErrUnitFixed
          else check_value typ key v))"

definition required_fields :: "string \<Rightarrow> string list" where
  "required_fields kind =
    (if kind = ''category'' then [''title'']
     else if kind = ''product'' then [''title'', ''category_id'', ''price'']
     else if kind = ''ingredient'' then [''name'', ''base_unit'']
     else if kind = ''banner'' then [''title''] else [])"

text \<open>The first error of a loop whose bodies only fail.\<close>

fun first_err :: "('a \<Rightarrow> 'e option) \<Rightarrow> 'a list \<Rightarrow> 'e option" where
  "first_err f [] = None"
| "first_err f (x # xs) = (case f x of Some e \<Rightarrow> Some e | None \<Rightarrow> first_err f xs)"

text \<open>
  \<open>validateIntent\<close> on the bytes of the payload: \<open>None\<close> is success. The members are visited in
  the order of the list, which stands for the order of Go's map iteration.
\<close>

definition validateIntent :: "string \<Rightarrow> string \<Rightarrow> string \<Rightarrow> intent_err option" where
  "validateIntent kind action raw =
    (case map_of catalogFields kind of
       None \<Rightarrow> Some ErrNoWorkflow
     | Some flds \<Rightarrow>
        if action \<noteq> ''create'' \<and> action \<noteq> ''update'' \<and> action \<noteq> ''delete'' then Some ErrAction
        else if length raw > 65536 then Some ErrTooLarge
        else (case json_parse raw of
                Some (JObj kvs) \<Rightarrow>
                 (case as_map (JObj kvs) of
                    None \<Rightarrow> Some ErrNotObject
                  | Some payload \<Rightarrow>
                     if action = ''delete'' then (if payload \<noteq> [] then Some ErrDeletePayload else None)
                     else if payload = [] then Some ErrEmptyEdit
                     else (case first_err (check_member kind action flds) payload of
                             Some e \<Rightarrow> Some e
                           | None \<Rightarrow>
                              if action = ''create'' then
                                first_err (\<lambda>k. if map_of payload k = None then Some (ErrRequired k) else None)
                                  (required_fields kind)
                              else None))
              | _ \<Rightarrow> Some ErrNotObject))"

section \<open>Queueing\<close>

definition settled :: "string \<Rightarrow> bool" where
  "settled st \<longleftrightarrow> st = ''applied'' \<or> st = ''discarded''"

definition QueueCatalog_tx ::
    "string \<Rightarrow> string \<Rightarrow> string \<Rightarrow> string \<Rightarrow> string \<Rightarrow> json \<Rightarrow> int \<Rightarrow> persistedDB \<Rightarrow> err + persistedDB \<times> unit" where
  "QueueCatalog_tx opID now kind i action payload expectedVersion db =
    (let scope = metaOf db ''scope''
     in if scope = [] then Inl (EQueue ErrNotConfigured)
        else if list_ex (\<lambda>p. so_EntityType p = kind \<and> so_EntityID p = i \<and> \<not> settled (so_State p)) (Outbox db)
        then Inl (EQueue ErrPending)
        else
          (let add = (\<lambda>base. let n = w64 (NextOutboxSeq db + 1)
             in Inr (db\<lparr>NextOutboxSeq := n, Outbox := Outbox db @
                  [\<lparr> so_ID = opID, so_Sequence = n, so_EntityType = kind, so_EntityID = i, so_Action = action,
                     so_BaseVersion = base, so_DependsOn = [], so_Payload = payload, so_CreatedAt = now,
                     so_State = ''queued'', so_Result = JObj [] \<rparr>]\<rparr>, ()))
           in if action = ''create'' then add None
              else (case getEntity db (entityKey kind i) of
                      None \<Rightarrow> Inl (EQueue ErrNotInSnapshot)
                    | Some e \<Rightarrow>
                       if se_Deleted e then Inl (EQueue ErrNotInSnapshot)
                       else if se_Version e \<noteq> expectedVersion then Inl (EQueue ErrVersionChanged)
                       else if se_Version e < 1 then Inl (EQueue ErrNoVersion)
                       else add (Some (se_Version e)))))"

definition raw_payload :: "string \<Rightarrow> json" where
  "raw_payload raw = (case json_parse raw of None \<Rightarrow> JNull | Some j \<Rightarrow> j)"

text \<open>The identifier that \<open>QueueCatalog\<close> works on.\<close>

definition queue_id :: "8 word list option \<Rightarrow> string \<Rightarrow> string \<Rightarrow> err + string" where
  "queue_id rnd action id0 =
    (if action = ''create'' then (if id0 \<noteq> [] then Inl (EQueue ErrIDGiven) else UUID rnd)
     else if \<not> uuidPattern id0 then Inl (EQueue ErrEntityIDNotUUID) else Inr id0)"

definition QueueCatalog ::
    "io \<Rightarrow> 8 word list option \<Rightarrow> 8 word list option \<Rightarrow> string \<Rightarrow> string \<Rightarrow> string \<Rightarrow> string \<Rightarrow> string \<Rightarrow> int
     \<Rightarrow> Store \<Rightarrow> Store \<times> (err + string)" where
  "QueueCatalog w rnd1 rnd2 now kind id0 action raw expectedVersion s =
    (case validateIntent kind action raw of
       Some e \<Rightarrow> (s, Inl (EIntent e))
     | None \<Rightarrow>
        (case queue_id rnd1 action id0 of
           Inl e \<Rightarrow> (s, Inl e)
         | Inr i \<Rightarrow>
            (case UUID rnd2 of
               Inl e \<Rightarrow> (s, Inl e)
             | Inr opID \<Rightarrow>
                (case withTx w (QueueCatalog_tx opID now kind i action (raw_payload raw) expectedVersion) s of
                   (s', Inl e) \<Rightarrow> (s', Inl e)
                 | (s', Inr _) \<Rightarrow> (s', Inr i)))))"

section \<open>Listing\<close>

definition pending_state :: "string \<Rightarrow> bool" where
  "pending_state st \<longleftrightarrow> st = ''queued'' \<or> st = ''retry'' \<or> st = ''not_processed''"

definition operation_view :: "storedOperation \<Rightarrow> Operation" where
  "operation_view p = \<lparr> op_ID = so_ID p, op_Sequence = so_Sequence p, op_EntityType = so_EntityType p,
     op_EntityID = so_EntityID p, op_Action = so_Action p, op_BaseVersion = so_BaseVersion p,
     op_Payload = so_Payload p, op_CreatedAt = so_CreatedAt p, op_State = so_State p, op_Result = so_Result p \<rparr>"

definition OutboxOf :: "io \<Rightarrow> bool \<Rightarrow> Store \<Rightarrow> err + Operation list" where
  "OutboxOf w pending s =
    (if \<not> ctx_ok w then Inl (EIO ErrContext)
     else
       (let ops = map operation_view (filter (\<lambda>p. pending \<longrightarrow> pending_state (so_State p)) (Outbox (state s)))
        in Inr (if pending then limit 100 (sort_key op_Sequence ops)
                else limit 500 (sort_key (\<lambda>p. - op_Sequence p) ops))))"

definition HasResult :: "Operation \<Rightarrow> bool" where
  "HasResult p = (let s = TrimSpace (json_text (op_Result p)) in s \<noteq> [] \<and> s \<noteq> ''{}'' \<and> s \<noteq> ''null'')"

section \<open>Answers of the server\<close>

definition result_status :: "string \<Rightarrow> bool" where
  "result_status st \<longleftrightarrow> st \<in> {''applied'', ''conflict'', ''rejected'', ''retry'', ''not_processed'', ''skipped''}"

definition check_result :: "Result \<Rightarrow> string list \<Rightarrow> err + string list" where
  "check_result r expected =
    (if rs_ID r \<notin> set expected then Inl (EQueue ErrPushUnknownID)
     else if \<not> result_status (rs_Status r) then Inl (EQueue ErrPushStatus)
     else Inr (removeAll (rs_ID r) expected))"

text \<open>What \<open>json.Marshal(r)\<close> encodes.\<close>

definition result_doc :: "Result \<Rightarrow> json" where
  "result_doc r = JObj [(''operation_id'', JStr (rs_ID r)), (''status'', JStr (rs_Status r)), (''error'', rs_Error r)]"

definition byID :: "storedOperation list \<Rightarrow> (string \<times> nat) list" where
  "byID ops = fold (\<lambda>(k, i). AList.update k i) (zip (map so_ID ops) [0..<length ops]) []"

definition save_result :: "(string \<times> nat) list \<Rightarrow> Result \<Rightarrow> persistedDB \<Rightarrow> err + persistedDB" where
  "save_result ix r db =
    (case map_of ix (rs_ID r) of
       None \<Rightarrow> Inl (EQueue ErrOutboxChanged)
     | Some i \<Rightarrow>
        (let cur = Outbox db ! i
         in if \<not> pending_state (so_State cur) then Inl (EQueue ErrOutboxChanged)
            else Inr (db\<lparr>Outbox := (Outbox db)[i := cur\<lparr>so_State := rs_Status r, so_Result := result_doc r\<rparr>]\<rparr>)))"

definition SaveResults_tx :: "Result list \<Rightarrow> persistedDB \<Rightarrow> err + persistedDB \<times> unit" where
  "SaveResults_tx results db =
    (case foldE (save_result (byID (Outbox db))) results db of
       Inl e \<Rightarrow> Inl e
     | Inr db' \<Rightarrow> Inr (db', ()))"

definition SaveResults :: "io \<Rightarrow> Operation list \<Rightarrow> Result list \<Rightarrow> Store \<Rightarrow> Store \<times> (err + unit)" where
  "SaveResults w sent results s =
    (if length sent \<noteq> length results then (s, Inl (EQueue ErrPushCount))
     else (case foldE check_result results (remdups (map op_ID sent)) of
             Inl e \<Rightarrow> (s, Inl e)
           | Inr _ \<Rightarrow> withTx w (SaveResults_tx results) s))"

section \<open>Discarding\<close>

definition blocked_state :: "string \<Rightarrow> bool" where
  "blocked_state st \<longleftrightarrow> st = ''conflict'' \<or> st = ''rejected'' \<or> st = ''skipped''"

fun discard_first :: "string \<Rightarrow> storedOperation list \<Rightarrow> storedOperation list option" where
  "discard_first i [] = None"
| "discard_first i (p # ps) =
    (if so_ID p = i \<and> blocked_state (so_State p) then Some (p\<lparr>so_State := ''discarded''\<rparr> # ps)
     else map_option (\<lambda>qs. p # qs) (discard_first i ps))"

definition Discard_tx :: "string \<Rightarrow> persistedDB \<Rightarrow> err + persistedDB \<times> unit" where
  "Discard_tx i db =
    (case discard_first i (Outbox db) of
       None \<Rightarrow> Inl (EQueue ErrNotBlocked)
     | Some ops \<Rightarrow> Inr (db\<lparr>Outbox := ops\<rparr>, ()))"

definition Discard :: "io \<Rightarrow> string \<Rightarrow> Store \<Rightarrow> Store \<times> (err + unit)" where
  "Discard w i s = withTx w (Discard_tx i) s"

section \<open>The edit form and labels\<close>

text \<open>\<open>json.MarshalIndent\<close> writes the keys of a map in sorted order.\<close>

definition EditablePayload :: "string \<Rightarrow> json \<Rightarrow> json" where
  "EditablePayload kind raw =
    (let values = (case as_map raw of None \<Rightarrow> [] | Some m \<Rightarrow> m);
         flds = (case map_of catalogFields kind of None \<Rightarrow> [] | Some fs \<Rightarrow> fs)
     in JObj (sort_key fst (List.map_filter (\<lambda>(key, typ).
          if kind = ''ingredient'' \<and> key = ''base_unit'' then None
          else (case map_of values key of
                  None \<Rightarrow> None
                | Some v \<Rightarrow> if v = JNull then None else Some (key, v))) flds)))"

definition EntityTypeLabel :: "Operation \<Rightarrow> string" where
  "EntityTypeLabel p =
    (let t = op_EntityType p
     in if t = ''category'' then (fa [0x62F, 0x633, 0x62A, 0x647, 0x200C, 0x628, 0x646, 0x62F, 0x6CC, 0x20, 0x645, 0x646, 0x648])
        else if t = ''product'' then (fa [0x645, 0x62D, 0x635, 0x648, 0x644, 0x20, 0x645, 0x646, 0x648])
        else if t = ''ingredient'' then (fa [0x6A9, 0x627, 0x644, 0x627, 0x6CC, 0x20, 0x627, 0x646, 0x628, 0x627, 0x631])
        else if t = ''banner'' then (fa [0x628, 0x646, 0x631, 0x20, 0x62F, 0x6CC, 0x62C, 0x6CC, 0x62A, 0x627, 0x644])
        else if t = ''order'' then (fa [0x633, 0x641, 0x627, 0x631, 0x634, 0x20, 0x635, 0x646, 0x62F, 0x648, 0x642])
        else t)"

definition ActionLabel :: "Operation \<Rightarrow> string" where
  "ActionLabel p =
    (let a = op_Action p
     in if a = ''create'' then (fa [0x627, 0x6CC, 0x62C, 0x627, 0x62F, 0x20, 0x631, 0x6A9, 0x648, 0x631, 0x62F])
        else if a = ''update'' then (fa [0x648, 0x6CC, 0x631, 0x627, 0x6CC, 0x634, 0x20, 0x631, 0x6A9, 0x648, 0x631, 0x62F])
        else if a = ''delete'' then (fa [0x62D, 0x630, 0x641, 0x20, 0x631, 0x6A9, 0x648, 0x631, 0x62F])
        else a)"

definition StateLabel :: "Operation \<Rightarrow> string" where
  "StateLabel p =
    (let st = op_State p
     in if st = ''queued'' then (fa [0x62F, 0x631, 0x20, 0x635, 0x641, 0x20, 0x28, 0x51, 0x75, 0x65, 0x75, 0x65, 0x64, 0x29])
        else if st = ''retry'' then (fa [0x62A, 0x644, 0x627, 0x634, 0x20, 0x645, 0x62C, 0x62F, 0x62F, 0x20, 0x28, 0x52, 0x65, 0x74, 0x72, 0x79, 0x29])
        else if st = ''conflict'' then (fa [0x62A, 0x639, 0x627, 0x631, 0x636, 0x20, 0x646, 0x633, 0x62E, 0x647, 0x20, 0x28, 0x43, 0x6F, 0x6E, 0x66, 0x6C, 0x69, 0x63, 0x74, 0x29])
        else if st = ''rejected'' then (fa [0x631, 0x62F, 0x20, 0x634, 0x62F, 0x647, 0x20, 0x28, 0x52, 0x65, 0x6A, 0x65, 0x63, 0x74, 0x65, 0x64, 0x29])
        else if st = ''skipped'' then (fa [0x631, 0x62F, 0x20, 0x634, 0x62F, 0x647, 0x20, 0x28, 0x53, 0x6B, 0x69, 0x70, 0x70, 0x65, 0x64, 0x29])
        else if st = ''applied'' then (fa [0x627, 0x639, 0x645, 0x627, 0x644, 0x20, 0x634, 0x62F, 0x647, 0x20, 0x28, 0x41, 0x70, 0x70, 0x6C, 0x69, 0x65, 0x64, 0x29])
        else if st = ''discarded'' then (fa [0x644, 0x63A, 0x648, 0x20, 0x634, 0x62F, 0x647, 0x20, 0x28, 0x44, 0x69, 0x73, 0x63, 0x61, 0x72, 0x64, 0x65, 0x64, 0x29])
        else st)"


section \<open>The life of an operation\<close>

text \<open>
  The states of an operation form a machine: pending ones are answered by the server,
  blocked ones are discarded by the user; applied and discarded ones are final.
\<close>

inductive op_move :: "string \<Rightarrow> string \<Rightarrow> bool" where
  answer: "pending_state a \<Longrightarrow> result_status b \<Longrightarrow> op_move a b"
| discard: "blocked_state a \<Longrightarrow> op_move a ''discarded''"

inductive_simps op_move_iff: "op_move a b"

definition known_state :: "string \<Rightarrow> bool" where
  "known_state st \<longleftrightarrow> pending_state st \<or> blocked_state st \<or> settled st"

lemmas op_state_defs = known_state_def pending_state_def blocked_state_def settled_def result_status_def

definition same_intent :: "storedOperation \<Rightarrow> storedOperation \<Rightarrow> bool" where
  "same_intent p q \<longleftrightarrow> q = p\<lparr>so_State := so_State q, so_Result := so_Result q\<rparr>"

definition evolves :: "storedOperation \<Rightarrow> storedOperation \<Rightarrow> bool" where
  "evolves p q \<longleftrightarrow> same_intent p q \<and> op_move\<^sup>*\<^sup>* (so_State p) (so_State q)"

lemma same_intent_refl [simp]: "same_intent p p"
  by (simp add: same_intent_def)

lemma same_intent_trans: "same_intent p q \<Longrightarrow> same_intent q r \<Longrightarrow> same_intent p r"
  by (cases p; cases q; cases r) (simp add: same_intent_def)

lemma same_intent_fields:
  "same_intent p q \<Longrightarrow> so_ID q = so_ID p \<and> so_Sequence q = so_Sequence p \<and> so_EntityType q = so_EntityType p
     \<and> so_EntityID q = so_EntityID p \<and> so_Action q = so_Action p \<and> so_BaseVersion q = so_BaseVersion p
     \<and> so_DependsOn q = so_DependsOn p \<and> so_Payload q = so_Payload p \<and> so_CreatedAt q = so_CreatedAt p"
  by (cases p; cases q) (simp add: same_intent_def)

lemma evolves_refl [simp]: "evolves p p"
  by (simp add: evolves_def)

lemma evolves_trans: "evolves p q \<Longrightarrow> evolves q r \<Longrightarrow> evolves p r"
  unfolding evolves_def by (blast intro: same_intent_trans rtranclp_trans)

lemma settled_final: "op_move a b \<Longrightarrow> \<not> settled a"
  by (auto simp: op_move_iff op_state_defs)

lemma op_move_known: "op_move a b \<Longrightarrow> known_state b"
  by (auto simp: op_move_iff op_state_defs)

lemma op_moves_known: "op_move\<^sup>*\<^sup>* a b \<Longrightarrow> known_state a \<Longrightarrow> known_state b"
  by (induction rule: rtranclp_induct) (auto intro: op_move_known)

lemma op_moves_settled: "op_move\<^sup>*\<^sup>* a b \<Longrightarrow> settled a \<Longrightarrow> b = a"
  by (induction rule: converse_rtranclp_induct) (auto dest: settled_final)

abbreviation target :: "storedOperation \<Rightarrow> string \<times> string" where
  "target p \<equiv> (so_EntityType p, so_EntityID p)"

abbreviation active :: "storedOperation \<Rightarrow> bool" where
  "active p \<equiv> \<not> settled (so_State p)"

text \<open>
  The invariant of the outbox: sequence numbers grow along the list and are bounded by the
  counter, identifiers are distinct, states are known, and at most one operation per record
  is neither applied nor discarded.
\<close>

definition outbox_inv :: "persistedDB \<Rightarrow> bool" where
  "outbox_inv db \<longleftrightarrow>
     0 \<le> NextOutboxSeq db \<and> sorted_wrt (<) (map so_Sequence (Outbox db)) \<and>
     list_all (\<lambda>p. 1 \<le> so_Sequence p \<and> so_Sequence p \<le> NextOutboxSeq db \<and> known_state (so_State p)) (Outbox db) \<and>
     distinct (map so_ID (Outbox db)) \<and> distinct (map target (filter active (Outbox db)))"

lemma evolves_target: "evolves p q \<Longrightarrow> target q = target p \<and> (active q \<longrightarrow> active p)"
  using op_moves_settled [of "so_State p" "so_State q"] same_intent_fields [of p q]
  by (auto simp: evolves_def)

lemma evolves_active:
  assumes "list_all2 evolves ps qs" "q \<in> set qs" "active q"
  shows "\<exists>p \<in> set ps. active p \<and> target p = target q"
proof -
  from assms(2) obtain n where "n < length qs" "qs ! n = q" by (auto simp: in_set_conv_nth)
  with assms(1) have "ps ! n \<in> set ps" "evolves (ps ! n) q" by (auto simp: list_all2_conv_all_nth)
  with assms(3) show ?thesis using evolves_target by metis
qed

lemma evolves_targets:
  "list_all2 evolves ps qs \<Longrightarrow> distinct (map target (filter active ps)) \<Longrightarrow> distinct (map target (filter active qs))"
proof (induction rule: list_all2_induct)
  case (Cons p ps q qs)
  note pq = evolves_target [OF Cons.hyps(1)]
  show ?case
  proof (cases "active q")
    case True
    then have "active p" using pq by blast
    have "target q \<notin> target ` {q \<in> set qs. active q}"
    proof
      assume "target q \<in> target ` {q \<in> set qs. active q}"
      then obtain q' where "q' \<in> set qs" "active q'" "target q = target q'" by (auto simp only: image_iff)
      with evolves_active [OF Cons.hyps(2)] obtain p' where "p' \<in> set ps" "active p'" "target p' = target p"
        using pq by metis
      with Cons.prems \<open>active p\<close> show False
        by (simp add: image_iff) metis
    qed
    then show ?thesis using Cons True \<open>active p\<close> by (simp add: image_iff)
  next
    case False
    then show ?thesis using Cons by (simp split: if_splits)
  qed
qed simp

lemma evolves_maps:
  "list_all2 evolves ps qs \<Longrightarrow> map so_ID qs = map so_ID ps \<and> map so_Sequence qs = map so_Sequence ps"
  by (induction rule: list_all2_induct) (auto simp: evolves_def dest!: same_intent_fields)

lemma outbox_inv_evolves:
  assumes "outbox_inv db" and "list_all2 evolves (Outbox db) (Outbox db')" and "NextOutboxSeq db' = NextOutboxSeq db"
  shows "outbox_inv db'"
proof -
  have "list_all (\<lambda>p. 1 \<le> so_Sequence p \<and> so_Sequence p \<le> n \<and> known_state (so_State p)) qs"
    if "list_all2 evolves ps qs" "list_all (\<lambda>p. 1 \<le> so_Sequence p \<and> so_Sequence p \<le> n \<and> known_state (so_State p)) ps"
    for ps qs n
    using that by (induction rule: list_all2_induct)
      (auto simp: evolves_def op_moves_known dest: same_intent_fields)
  then show ?thesis
    using assms evolves_maps [OF assms(2)] evolves_targets [OF assms(2)]
    by (auto simp: outbox_inv_def)
qed

subsection \<open>Each operation as an evolution\<close>

lemma byID_index: "map_of (byID ops) k = Some i \<Longrightarrow> i < length ops \<and> so_ID (ops ! i) = k"
proof -
  have "map_of (byID ops) k = map_of (rev (zip (map so_ID ops) [0..<length ops])) k"
    unfolding byID_def by (subst am.get_fold_put) (simp split: option.splits)
  then show "map_of (byID ops) k = Some i \<Longrightarrow> i < length ops \<and> so_ID (ops ! i) = k"
    by (auto dest!: map_of_SomeD simp: set_zip)
qed

text \<open>What an operation on the outbox alone does to the database.\<close>

definition outbox_evolves :: "persistedDB \<Rightarrow> persistedDB \<Rightarrow> bool" where
  "outbox_evolves db db' \<longleftrightarrow> (\<exists>ops. db' = db\<lparr>Outbox := ops\<rparr> \<and> list_all2 evolves (Outbox db) ops)"

lemma outbox_evolves_refl: "outbox_evolves db db"
  unfolding outbox_evolves_def by (rule exI [of _ "Outbox db"]) (simp add: list_all2_same)

lemma outbox_evolves_trans: "outbox_evolves a b \<Longrightarrow> outbox_evolves b c \<Longrightarrow> outbox_evolves a c"
  unfolding outbox_evolves_def using list_all2_trans [of evolves evolves evolves, OF evolves_trans] by fastforce

lemma outbox_evolves_update:
  assumes "i < length (Outbox db)" "evolves (Outbox db ! i) q"
  shows "outbox_evolves db (db\<lparr>Outbox := (Outbox db)[i := q]\<rparr>)"
  using assms unfolding outbox_evolves_def
  by (intro exI [of _ "(Outbox db)[i := q]"]) (auto simp: list_all2_conv_all_nth nth_list_update)

lemma outbox_evolves_inv: "outbox_inv db \<Longrightarrow> outbox_evolves db db' \<Longrightarrow> outbox_inv db'"
  by (auto simp: outbox_evolves_def intro: outbox_inv_evolves)

lemma save_result_evolves:
  assumes "save_result ix r db = Inr db'" and "result_status (rs_Status r)"
    and "\<And>k i. map_of ix k = Some i \<Longrightarrow> i < length (Outbox db)"
  shows "outbox_evolves db db'"
proof -
  let ?q = "\<lambda>i. (Outbox db ! i)\<lparr>so_State := rs_Status r, so_Result := result_doc r\<rparr>"
  from assms(1) obtain i where i: "map_of ix (rs_ID r) = Some i" "pending_state (so_State (Outbox db ! i))"
    "db' = db\<lparr>Outbox := (Outbox db)[i := ?q i]\<rparr>"
    by (auto simp: save_result_def Let_def split: option.splits if_splits)
  have "evolves (Outbox db ! i) (?q i)"
    using i(2) assms(2) by (auto simp: evolves_def same_intent_def intro: op_move.answer)
  then show ?thesis using i(1,3) assms(3) outbox_evolves_update by blast
qed

lemma outbox_evolves_length: "outbox_evolves db db' \<Longrightarrow> length (Outbox db') = length (Outbox db)"
  by (auto simp: outbox_evolves_def list_all2_conv_all_nth)

lemma save_results_evolve:
  assumes "foldE (save_result ix) rs db = Inr db'" and "list_all (\<lambda>r. result_status (rs_Status r)) rs"
    and "\<And>k i. map_of ix k = Some i \<Longrightarrow> i < length (Outbox db)"
  shows "outbox_evolves db db'"
proof -
  have "outbox_evolves db db' \<and> length (Outbox db') = length (Outbox db)"
  proof (rule foldE_inv [where I = "\<lambda>d. outbox_evolves db d \<and> length (Outbox d) = length (Outbox db)", OF assms(1)])
    fix r d d' assume "r \<in> set rs" and d: "outbox_evolves db d \<and> length (Outbox d) = length (Outbox db)"
      and step: "save_result ix r d = Inr d'"
    then have "outbox_evolves d d'"
      using assms(2,3) by (intro save_result_evolves [OF step]) (auto simp: list_all_iff)
    with d show "outbox_evolves db d' \<and> length (Outbox d') = length (Outbox db)"
      by (auto intro: outbox_evolves_trans dest: outbox_evolves_length)
  qed (simp add: outbox_evolves_refl)
  then show ?thesis by simp
qed

lemma SaveResults_tx_evolves:
  "SaveResults_tx rs db = Inr (db', u) \<Longrightarrow> list_all (\<lambda>r. result_status (rs_Status r)) rs \<Longrightarrow> outbox_evolves db db'"
  by (auto simp: SaveResults_tx_def dest: byID_index intro!: save_results_evolve split: sum.splits)

lemma check_results_ok:
  assumes "foldE check_result rs exp = Inr rest"
  shows "list_all (\<lambda>r. result_status (rs_Status r)) rs \<and> distinct (map rs_ID rs) \<and> set (map rs_ID rs) \<subseteq> set exp"
  using assms
proof (induction rs arbitrary: exp)
  case (Cons r rs)
  from Cons.prems obtain exp1 where step: "check_result r exp = Inr exp1" and
    rest1: "foldE check_result rs exp1 = Inr rest" by (auto split: sum.splits)
  from step have "rs_ID r \<in> set exp" "result_status (rs_Status r)" "exp1 = removeAll (rs_ID r) exp"
    by (auto simp: check_result_def split: if_splits)
  with rest1 have rest: "foldE check_result rs (removeAll (rs_ID r) exp) = Inr rest" by simp
  note \<open>rs_ID r \<in> set exp\<close> \<open>result_status (rs_Status r)\<close>
  with Cons.IH [OF rest] show ?case by auto
qed simp

lemma SaveResults_evolves: "SaveResults w sent rs s = (s', r) \<Longrightarrow> outbox_evolves (state s) (state s')"
  by (auto simp: SaveResults_def outbox_evolves_refl dest: check_results_ok SaveResults_tx_evolves
      elim!: tx.run_view split: if_splits sum.splits)

lemma discard_first_evolves:
  "discard_first i ps = Some qs \<Longrightarrow> list_all2 evolves ps qs"
proof (induction ps arbitrary: qs)
  case (Cons p ps)
  have refl: "list_all2 evolves ps ps" by (simp add: list_all2_same)
  have "evolves p (p\<lparr>so_State := ''discarded''\<rparr>)" if "blocked_state (so_State p)"
    using that by (auto simp: evolves_def same_intent_def intro: op_move.discard)
  with Cons refl show ?case by (auto split: if_splits)
qed simp

lemma Discard_evolves: "Discard w i s = (s', r) \<Longrightarrow> outbox_evolves (state s) (state s')"
  unfolding Discard_def
  by (erule tx.run_relates)
    (auto simp: Discard_tx_def outbox_evolves_refl outbox_evolves_def dest: discard_first_evolves
      split: option.splits)


text \<open>Every way the outbox changes. Other operations of the store leave it alone.\<close>

definition fresh_op :: "8 word list option \<Rightarrow> persistedDB \<Rightarrow> bool" where
  "fresh_op rnd db \<longleftrightarrow> (case UUID rnd of Inl e \<Rightarrow> True | Inr i \<Rightarrow> i \<notin> set (map so_ID (Outbox db)))"

inductive outbox_step :: "Store \<Rightarrow> Store \<Rightarrow> bool" where
  queue: "QueueCatalog w r1 r2 now kind i action raw v s = (s', res) \<Longrightarrow> fresh_op r2 (state s) \<Longrightarrow>
    NextOutboxSeq (state s) < 2 ^ 63 - 1 \<Longrightarrow> outbox_step s s'"
| save: "SaveResults w sent rs s = (s', res) \<Longrightarrow> outbox_step s s'"
| drop: "Discard w i s = (s', res) \<Longrightarrow> outbox_step s s'"
| page: "ApplyPage w cs cur s = (s', res) \<Longrightarrow> outbox_step s s'"
| boot: "Bootstrap w secs cur s = (s', res) \<Longrightarrow> outbox_step s s'"
| other: "Outbox (state s') = Outbox (state s) \<Longrightarrow> NextOutboxSeq (state s') = NextOutboxSeq (state s) \<Longrightarrow>
    outbox_step s s'"

text \<open>What \<open>QueueCatalog\<close> does when it succeeds.\<close>

definition queued_op :: "string \<Rightarrow> string \<Rightarrow> string \<Rightarrow> string \<Rightarrow> string \<Rightarrow> json \<Rightarrow> int option \<Rightarrow> persistedDB \<Rightarrow> storedOperation" where
  "queued_op opID now kind i action payload base db =
    \<lparr> so_ID = opID, so_Sequence = w64 (NextOutboxSeq db + 1), so_EntityType = kind, so_EntityID = i,
      so_Action = action, so_BaseVersion = base, so_DependsOn = [], so_Payload = payload, so_CreatedAt = now,
      so_State = ''queued'', so_Result = JObj [] \<rparr>"

lemma QueueCatalog_tx_ok:
  assumes "QueueCatalog_tx opID now kind i action payload v db = Inr (db', u)"
  shows "\<exists>base. db' = db\<lparr>NextOutboxSeq := w64 (NextOutboxSeq db + 1),
      Outbox := Outbox db @ [queued_op opID now kind i action payload base db]\<rparr>
    \<and> metaOf db ''scope'' \<noteq> []
    \<and> (\<forall>p \<in> set (Outbox db). target p = (kind, i) \<longrightarrow> settled (so_State p))
    \<and> (if action = ''create'' then base = None
       else \<exists>e. live db kind i = Some e \<and> se_Version e = v \<and> 1 \<le> v \<and> base = Some v)"
  using assms
  by (auto simp: QueueCatalog_tx_def queued_op_def Let_def live_def getEntity_def list_ex_iff
      split: if_splits option.splits)

lemma QueueCatalog_run:
  assumes "QueueCatalog w r1 r2 now kind i0 action raw v s = (s', r)"
  obtains (failed) e where "r = Inl e" "state s' = state s"
  | (queued) i opID where "r = Inr i" "validateIntent kind action raw = None" "queue_id r1 action i0 = Inr i"
      "UUID r2 = Inr opID"
      "QueueCatalog_tx opID now kind i action (raw_payload raw) v (state s) = Inr (state s', ())"
proof (cases "validateIntent kind action raw")
  case (Some e)
  then show ?thesis using assms failed by (auto simp: QueueCatalog_def)
next
  case None
  note valid = this
  show ?thesis
  proof (cases "queue_id r1 action i0")
    case (Inl e)
    then have "r = Inl e" "s' = s" using assms valid unfolding QueueCatalog_def by simp_all
    then show ?thesis by (intro failed) simp_all
  next
    case (Inr i)
    note i = this
    show ?thesis
    proof (cases "UUID r2")
      case (Inl e)
      then have "r = Inl e" "s' = s" using assms valid i unfolding QueueCatalog_def by simp_all
      then show ?thesis by (intro failed) simp_all
    next
      case (Inr opID)
      let ?tx = "withTx w (QueueCatalog_tx opID now kind i action (raw_payload raw) v) s"
      have eq: "(s', r) = (case ?tx of (s', Inl e) \<Rightarrow> (s', Inl e) | (s', Inr _) \<Rightarrow> (s', Inr i))"
        using assms valid i Inr unfolding QueueCatalog_def by simp
      obtain s1 r1 where tx: "?tx = (s1, r1)" by (cases ?tx)
      show ?thesis
        using tx eq valid i Inr
        by (cases r1) (auto dest: withTx_err withTx_ok intro: failed queued)
    qed
  qed
qed

lemma outbox_inv_queue:
  assumes "outbox_inv db" "opID \<notin> set (map so_ID (Outbox db))" "NextOutboxSeq db < 2 ^ 63 - 1"
    and "\<forall>p \<in> set (Outbox db). target p = (kind, i) \<longrightarrow> settled (so_State p)"
  shows "outbox_inv (db\<lparr>NextOutboxSeq := w64 (NextOutboxSeq db + 1),
      Outbox := Outbox db @ [queued_op opID now kind i action payload base db]\<rparr>)"
proof -
  have "w64 (NextOutboxSeq db + 1) = NextOutboxSeq db + 1"
    using assms(1,3) by (intro w64_id) (auto simp: in64_def outbox_inv_def)
  then show ?thesis
    using assms by (auto simp: outbox_inv_def queued_op_def sorted_wrt_append list_all_iff op_state_defs)
qed

definition same_outbox :: "persistedDB \<Rightarrow> persistedDB \<Rightarrow> bool" where
  "same_outbox db db' \<longleftrightarrow> Outbox db' = Outbox db \<and> NextOutboxSeq db' = NextOutboxSeq db"

lemma changes_outbox: "foldE applyChange cs db = Inr db' \<Longrightarrow> same_outbox db db'"
  using changes_frame by (auto simp: same_outbox_def)

lemma bootstrap_section_outbox: "bootstrap_section sec db = Inr db' \<Longrightarrow> same_outbox db db'"
proof -
  assume sec: "bootstrap_section sec db = Inr db'"
  show "same_outbox db db'"
  proof (cases "map_of bootstrapSectionTypes (fst sec)")
    case None
    with sec show ?thesis by (simp add: bootstrap_section_def same_outbox_def)
  next
    case (Some kind)
    with sec have "foldE (bootstrap_row kind) (snd sec) db = Inr db'" by (simp add: bootstrap_section_def)
    then show ?thesis
    proof (rule foldE_inv)
      fix r d d' assume "same_outbox db d" "bootstrap_row kind r d = Inr d'"
      then show "same_outbox db d'"
        by (auto simp: bootstrap_row_def same_outbox_def dest!: applyChange_frame split: option.splits)
    qed (simp add: same_outbox_def)
  qed
qed

lemma Bootstrap_tx_outbox:
  assumes "Bootstrap_tx secs cur db = Inr (db', u)"
  shows "same_outbox db db'"
proof -
  from assms obtain db1 where fold: "foldE bootstrap_section secs (db\<lparr>Entities := []\<rparr>) = Inr db1"
    and db': "db' = setMeta ''cursor'' cur db1" by (auto simp: Bootstrap_tx_def split: sum.splits)
  have "same_outbox db db1"
    by (rule foldE_inv [OF fold]) (auto simp: same_outbox_def dest!: bootstrap_section_outbox)
  then show ?thesis by (simp add: same_outbox_def db')
qed

lemma ApplyPage_tx_outbox: "ApplyPage_tx cs cur db = Inr (db', u) \<Longrightarrow> same_outbox db db'"
  by (auto simp: ApplyPage_tx_def same_outbox_def dest!: changes_outbox split: sum.splits)

lemma page_outbox:
  "ApplyPage w cs cur s = (s', r) \<Longrightarrow> same_outbox (state s) (state s')"
  "Bootstrap w secs cur s = (s', r) \<Longrightarrow> same_outbox (state s) (state s')"
  by (auto simp: ApplyPage_def Bootstrap_def same_outbox_def [of db db for db]
      dest: ApplyPage_tx_outbox Bootstrap_tx_outbox elim!: tx.run_view split: if_splits)

lemma outbox_inv_same: "outbox_inv db \<Longrightarrow> same_outbox db db' \<Longrightarrow> outbox_inv db'"
  by (simp add: outbox_inv_def same_outbox_def)

lemma queue_step_inv:
  assumes "QueueCatalog w r1 r2 now kind i action raw v s = (s', res)" "fresh_op r2 (state s)"
    "NextOutboxSeq (state s) < 2 ^ 63 - 1" "outbox_inv (state s)"
  shows "outbox_inv (state s')"
  using assms(1)
proof (cases rule: QueueCatalog_run)
  case failed
  then show ?thesis using assms(4) by simp
next
  case (queued j opID)
  then have "opID \<notin> set (map so_ID (Outbox (state s)))" using assms(2) by (simp add: fresh_op_def)
  with QueueCatalog_tx_ok [OF queued(5)] show ?thesis
    using outbox_inv_queue [OF assms(4) _ assms(3)] by auto
qed

lemma outbox_step_inv: "outbox_step s s' \<Longrightarrow> outbox_inv (state s) \<Longrightarrow> outbox_inv (state s')"
proof (induction rule: outbox_step.induct)
  case (queue w r1 r2 now kind i action raw v s s' res)
  then show ?case by (rule queue_step_inv)
next
  case (save w sent rs s s' res)
  then show ?case by (blast intro: outbox_evolves_inv SaveResults_evolves)
next
  case (drop w i s s' res)
  then show ?case by (blast intro: outbox_evolves_inv Discard_evolves)
next
  case (page w cs cur s s' res)
  then show ?case by (blast intro: outbox_inv_same page_outbox)
next
  case (boot w secs cur s s' res)
  then show ?case by (blast intro: outbox_inv_same page_outbox)
next
  case (other s' s)
  then show ?case by (auto intro: outbox_inv_same simp: same_outbox_def)
qed

definition outbox_start :: "Store \<Rightarrow> bool" where
  "outbox_start s \<longleftrightarrow> Outbox (state s) = [] \<and> NextOutboxSeq (state s) = 0"

interpretation om: inv_machine outbox_start outbox_step "\<lambda>s. outbox_inv (state s)"
proof unfold_locales
  fix s assume "outbox_start s"
  then show "outbox_inv (state s)" by (simp add: outbox_start_def outbox_inv_def)
next
  fix s t assume "outbox_step s t" "outbox_inv (state s)"
  then show "outbox_inv (state t)" by (rule outbox_step_inv)
qed


section \<open>What the outbox guarantees\<close>

text \<open>A concrete device: bound to a server, with one category of version 4.\<close>

definition demo_uuid :: "nat \<Rightarrow> 8 word list option" where
  "demo_uuid n = Some (replicate 15 0 @ [of_nat n])"

definition demo_raw :: string where
  "demo_raw = json_text (JObj [(''title'', JStr ''Tea'')])"

definition demo_bound :: Store where
  "demo_bound = demo_store\<lparr>state := setMeta ''scope'' ''s|d'' newEmptyDB\<rparr>"

definition demo_queue :: "Store \<times> (err + string)" where
  "demo_queue = QueueCatalog all_ok (demo_uuid 7) (demo_uuid 8) ''t1'' ''category'' [] ''create'' demo_raw 0 demo_bound"

lemma demo_raw_valid: "validateIntent ''category'' ''create'' demo_raw = None"
proof -
  have "json_parse demo_raw = Some (JObj [(''title'', JStr ''Tea'')])"
    unfolding demo_raw_def by (rule json_parse_text) (simp add: valid_ascii)
  moreover have "length demo_raw = 15" by (simp add: demo_raw_def str_text_plain plain_def)
  moreover have "TrimSpace ''Tea'' = ''Tea''" by (rule TrimSpace_graph) (simp_all add: graph_def)
  moreover have "length (runes ''Tea'') = 3" by (simp add: runes_ascii)
  ultimately show ?thesis
    by (simp add: validateIntent_def catalogFields_def as_map_def check_member_def check_value_def required_fields_def)
qed

definition demo_id :: "nat \<Rightarrow> string" where
  "demo_id n = (case UUID (demo_uuid n) of Inl e \<Rightarrow> [] | Inr i \<Rightarrow> i)"

lemma demo_id_eq: "UUID (demo_uuid n) = Inr (demo_id n)"
  by (simp add: demo_id_def UUID_def demo_uuid_def Let_def)

lemma demo_queue_eq:
  "demo_queue = (fst demo_queue, Inr (demo_id 7))"
  "state (fst demo_queue) = (setMeta ''scope'' ''s|d'' newEmptyDB)\<lparr>NextOutboxSeq := 1,
     Outbox := [queued_op (demo_id 8) ''t1'' ''category'' (demo_id 7) ''create'' (raw_payload demo_raw) None
       (setMeta ''scope'' ''s|d'' newEmptyDB)]\<rparr>"
proof -
  let ?db = "setMeta ''scope'' ''s|d'' newEmptyDB"
  have "QueueCatalog_tx (demo_id 8) ''t1'' ''category'' (demo_id 7) ''create'' (raw_payload demo_raw) 0 (state demo_bound)
      = Inr (?db\<lparr>NextOutboxSeq := 1, Outbox :=
          [queued_op (demo_id 8) ''t1'' ''category'' (demo_id 7) ''create'' (raw_payload demo_raw) None ?db]\<rparr>, ())"
    by (simp add: QueueCatalog_tx_def demo_bound_def newEmptyDB_def queued_op_def w64_def)
  moreover have "\<not> closed demo_bound" by (simp add: demo_bound_def demo_store_def)
  ultimately have tx: "withTx all_ok (QueueCatalog_tx (demo_id 8) ''t1'' ''category'' (demo_id 7) ''create''
      (raw_payload demo_raw) 0) demo_bound = (demo_bound\<lparr>disk := \<lparr>main_file = Whole (?db\<lparr>NextOutboxSeq := 1,
        Outbox := [queued_op (demo_id 8) ''t1'' ''category'' (demo_id 7) ''create'' (raw_payload demo_raw) None ?db]\<rparr>),
        tmp_file = None\<rparr>, state := ?db\<lparr>NextOutboxSeq := 1,
        Outbox := [queued_op (demo_id 8) ''t1'' ''category'' (demo_id 7) ''create'' (raw_payload demo_raw) None ?db]\<rparr>\<rparr>, Inr ())"
    by (intro withTx_all_ok)
  show "demo_queue = (fst demo_queue, Inr (demo_id 7))"
    "state (fst demo_queue) = ?db\<lparr>NextOutboxSeq := 1, Outbox :=
       [queued_op (demo_id 8) ''t1'' ''category'' (demo_id 7) ''create'' (raw_payload demo_raw) None ?db]\<rparr>"
    by (simp_all add: demo_queue_def QueueCatalog_def demo_raw_valid queue_id_def demo_id_eq tx)
qed

lemma demo_queue_step: "outbox_step demo_bound (fst demo_queue)"
proof (rule outbox_step.queue)
  show "QueueCatalog all_ok (demo_uuid 7) (demo_uuid 8) ''t1'' ''category'' [] ''create'' demo_raw 0 demo_bound
      = (fst demo_queue, Inr (demo_id 7))"
    using demo_queue_eq(1) by (simp add: demo_queue_def)
  show "fresh_op (demo_uuid 8) (state demo_bound)"
    by (simp add: fresh_op_def demo_id_eq demo_bound_def newEmptyDB_def)
  show "NextOutboxSeq (state demo_bound) < 2 ^ 63 - 1" by (simp add: demo_bound_def newEmptyDB_def)
qed

text \<open>
  C10. The outbox of a store that started empty is always well formed, whatever sequence of
  edits, answers, discards, pages and bootstraps ran: sequence numbers strictly grow,
  identifiers are distinct, every state is a known one, and a record never has two
  operations that are neither applied nor discarded.
\<close>

theorem outbox_invariant:
  assumes "outbox_start s" and "outbox_step\<^sup>*\<^sup>* s t"
  shows "outbox_inv (state t)"
  using assms by (rule om.reach_inv)

theorem outbox_invariant_witness: "outbox_inv (state (fst demo_queue)) \<and> Outbox (state (fst demo_queue)) \<noteq> []"
proof -
  have "outbox_start demo_bound" by (simp add: outbox_start_def demo_bound_def newEmptyDB_def)
  then show ?thesis
    using outbox_invariant [of demo_bound "fst demo_queue"] demo_queue_step demo_queue_eq(2) by auto
qed

lemma outbox_step_history:
  assumes "outbox_step s t"
  shows "\<exists>qs new. Outbox (state t) = qs @ new \<and> list_all2 evolves (Outbox (state s)) qs"
proof -
  have grown: "?thesis" if "Outbox (state t) = Outbox (state s) @ new" for new
    using that by (intro exI [of _ "Outbox (state s)"] exI [of _ new]) (simp add: list_all2_same)
  have kept: "?thesis" if "outbox_evolves (state s) (state t)"
    using that by (intro exI [of _ "Outbox (state t)"] exI [of _ "[]"]) (auto simp: outbox_evolves_def)
  from assms show ?thesis
  proof (cases rule: outbox_step.cases)
    case (queue w r1 r2 now kind i action raw v res)
    from queue(1) have "\<exists>new. Outbox (state t) = Outbox (state s) @ new"
      by (cases rule: QueueCatalog_run) (auto dest!: QueueCatalog_tx_ok)
    then show ?thesis using grown by blast
  next
    case (save w sent rs res)
    then show ?thesis using kept SaveResults_evolves by blast
  next
    case (drop w i res)
    then show ?thesis using kept Discard_evolves by blast
  next
    case (page w cs cur res)
    then show ?thesis using page_outbox(1) grown [of "[]"] by (simp add: same_outbox_def)
  next
    case (boot w secs cur res)
    then show ?thesis using page_outbox(2) grown [of "[]"] by (simp add: same_outbox_def)
  next
    case other
    then show ?thesis using grown [of "[]"] by simp
  qed
qed

text \<open>
  C11. An operation is never lost and its intent never changes: after any steps it is still
  at its place in the outbox with the same identifier, sequence number, target, action, base
  version and payload, and its state has only moved from pending to an answer, and from a
  blocked answer to discarded.
\<close>

theorem outbox_history:
  assumes "outbox_step\<^sup>*\<^sup>* s t" and "i < length (Outbox (state s))"
  shows "i < length (Outbox (state t)) \<and> same_intent (Outbox (state s) ! i) (Outbox (state t) ! i)
    \<and> op_move\<^sup>*\<^sup>* (so_State (Outbox (state s) ! i)) (so_State (Outbox (state t) ! i))"
proof -
  have "i < length (Outbox (state t)) \<and> evolves (Outbox (state s) ! i) (Outbox (state t) ! i)"
    using assms(1)
  proof (induction rule: rtranclp_induct)
    case base
    then show ?case using assms(2) by simp
  next
    case (step t u)
    from outbox_step_history [OF step.hyps(2)] step.IH show ?case
      by (auto simp: list_all2_conv_all_nth nth_append intro: evolves_trans)
  qed
  then show ?thesis by (simp add: evolves_def)
qed


theorem outbox_history_witness:
  "so_Payload (Outbox (state (fst (Discard all_ok ''x'' (fst demo_queue)))) ! 0) = raw_payload demo_raw"
proof -
  let ?t = "fst (Discard all_ok ''x'' (fst demo_queue))"
  have "outbox_step (fst demo_queue) ?t"
    by (rule outbox_step.drop [of all_ok "''x''" _ _ "snd (Discard all_ok ''x'' (fst demo_queue))"]) simp
  moreover have "0 < length (Outbox (state (fst demo_queue)))" by (simp add: demo_queue_eq(2))
  ultimately have "same_intent (Outbox (state (fst demo_queue)) ! 0) (Outbox (state ?t) ! 0)"
    using outbox_history [of "fst demo_queue" ?t 0] by blast
  then show ?thesis by (auto dest: same_intent_fields simp: demo_queue_eq(2) queued_op_def)
qed

subsection \<open>Recording answers\<close>

text \<open>The reference: every operation that has an answer takes it, the others stay.\<close>

definition answer :: "Result \<Rightarrow> storedOperation \<Rightarrow> storedOperation" where
  "answer r p = p\<lparr>so_State := rs_Status r, so_Result := result_doc r\<rparr>"

definition answered :: "Result list \<Rightarrow> storedOperation list \<Rightarrow> storedOperation list" where
  "answered rs ops =
    map (\<lambda>p. case List.find (\<lambda>r. rs_ID r = so_ID p) rs of None \<Rightarrow> p | Some r \<Rightarrow> answer r p) ops"

lemma save_result_answer:
  assumes "save_result ix r db = Inr db'" and "distinct (map so_ID (Outbox db))"
    and "\<And>k i. map_of ix k = Some i \<Longrightarrow> i < length (Outbox db) \<and> so_ID (Outbox db ! i) = k"
  shows "db' = db\<lparr>Outbox := map (\<lambda>p. if so_ID p = rs_ID r then answer r p else p) (Outbox db)\<rparr>
    \<and> (\<exists>p \<in> set (Outbox db). so_ID p = rs_ID r \<and> pending_state (so_State p))"
proof -
  from assms(1) obtain i where i: "map_of ix (rs_ID r) = Some i" "pending_state (so_State (Outbox db ! i))"
    "db' = db\<lparr>Outbox := (Outbox db)[i := answer r (Outbox db ! i)]\<rparr>"
    by (auto simp: save_result_def answer_def Let_def split: option.splits if_splits)
  note at = assms(3) [OF i(1)]
  have "so_ID (Outbox db ! j) = rs_ID r \<longleftrightarrow> j = i" if "j < length (Outbox db)" for j
    using at that assms(2) by (metis distinct_conv_nth length_map nth_map)
  then have "(Outbox db)[i := answer r (Outbox db ! i)]
      = map (\<lambda>p. if so_ID p = rs_ID r then answer r p else p) (Outbox db)"
    by (intro nth_equalityI) (auto simp: nth_list_update)
  then show ?thesis using i(2,3) at by (metis nth_mem)
qed

lemma answer_id [simp]: "so_ID (answer r p) = so_ID p"
  by (simp add: answer_def)

lemma answered_ids: "map so_ID (map (\<lambda>p. if so_ID p = k then answer r p else p) ops) = map so_ID ops"
  by (simp add: comp_def if_distrib cong: if_cong)

lemma save_results_answered:
  assumes "foldE (save_result ix) rs db = Inr db'" and "distinct (map rs_ID rs)" and "distinct (map so_ID (Outbox db))"
    and "\<And>k i. map_of ix k = Some i \<Longrightarrow> i < length (Outbox db) \<and> so_ID (Outbox db ! i) = k"
  shows "db' = db\<lparr>Outbox := answered rs (Outbox db)\<rparr>
    \<and> (\<forall>r \<in> set rs. \<exists>p \<in> set (Outbox db). so_ID p = rs_ID r \<and> pending_state (so_State p))"
  using assms
proof (induction rs arbitrary: db)
  case Nil
  then show ?case by (simp add: answered_def)
next
  case (Cons r rs)
  from Cons.prems(1) obtain db1 where db1: "save_result ix r db = Inr db1" "foldE (save_result ix) rs db1 = Inr db'"
    by (auto split: sum.splits)
  let ?ops = "map (\<lambda>p. if so_ID p = rs_ID r then answer r p else p) (Outbox db)"
  from save_result_answer [OF db1(1) Cons.prems(3,4)]
  have d1: "db1 = db\<lparr>Outbox := ?ops\<rparr>" and p1: "\<exists>p \<in> set (Outbox db). so_ID p = rs_ID r \<and> pending_state (so_State p)"
    by auto
  have ids: "so_ID (?ops ! i) = so_ID (Outbox db ! i)" if "i < length (Outbox db)" for i
    using that by simp
  have IH: "db' = db1\<lparr>Outbox := answered rs (Outbox db1)\<rparr>
      \<and> (\<forall>r \<in> set rs. \<exists>p \<in> set (Outbox db1). so_ID p = rs_ID r \<and> pending_state (so_State p))"
  proof (rule Cons.IH [OF db1(2)])
    show "distinct (map rs_ID rs)" using Cons.prems(2) by simp
    show "distinct (map so_ID (Outbox db1))" using Cons.prems(3) answered_ids [of "rs_ID r" r "Outbox db"] by (simp add: d1 del: map_map)
    show "i < length (Outbox db1) \<and> so_ID (Outbox db1 ! i) = k" if "map_of ix k = Some i" for k i
      using Cons.prems(4) [OF that] ids by (simp add: d1)
  qed
  have "answered rs ?ops = answered (r # rs) (Outbox db)"
  proof -
    have "List.find (\<lambda>q. rs_ID q = rs_ID r) rs = None"
      using Cons.prems(2) by (auto simp: find_None_iff) (metis image_eqI)
    then show ?thesis by (auto simp: answered_def)
  qed
  moreover have "\<exists>p \<in> set (Outbox db). so_ID p = rs_ID q \<and> pending_state (so_State p)" if "q \<in> set rs" for q
  proof -
    have "Outbox db1 = ?ops" by (simp add: d1)
    with IH that obtain p where "p \<in> set ?ops" "so_ID p = rs_ID q" "pending_state (so_State p)" by metis
    moreover have "rs_ID q \<noteq> rs_ID r" using that Cons.prems(2) by (auto simp: image_iff)
    ultimately show ?thesis by (auto split: if_splits)
  qed
  ultimately show ?case using IH d1 p1 by auto
qed


lemma sent_bijection:
  assumes "length sent = length rs" "distinct (map rs_ID rs)" "set (map rs_ID rs) \<subseteq> set (map op_ID sent)"
  shows "mset (map rs_ID rs) = mset (map op_ID sent)"
proof -
  have "card (set (map rs_ID rs)) = length sent" using assms(1,2) by (metis distinct_card length_map)
  moreover have "card (set (map op_ID sent)) \<le> length sent" by (metis card_length length_map)
  ultimately have eq: "set (map rs_ID rs) = set (map op_ID sent)"
    using assms(3) by (intro card_seteq) auto
  then have "distinct (map op_ID sent)"
    using \<open>card (set (map rs_ID rs)) = length sent\<close> by (intro card_distinct) simp
  with eq assms(2) show ?thesis by (metis set_eq_iff_mset_eq_distinct)
qed

text \<open>
  C12. Recording the answers of a push is all or nothing and exact. On success the answers are
  a bijection with the operations sent, every answered operation was pending, and the new
  outbox is the old one in which exactly the answered operations took their status and
  result; on any error (a missing, duplicate, unknown or ill-formed answer, or an outbox that
  changed meanwhile) nothing changed.
\<close>

theorem SaveResults_exact:
  assumes "SaveResults w sent rs s = (s', r)" and "outbox_inv (state s)"
  shows "case r of
      Inl e \<Rightarrow> state s' = state s
    | Inr _ \<Rightarrow> mset (map rs_ID rs) = mset (map op_ID sent)
        \<and> (\<forall>q \<in> set rs. \<exists>p \<in> set (Outbox (state s)). so_ID p = rs_ID q \<and> pending_state (so_State p))
        \<and> state s' = (state s)\<lparr>Outbox := answered rs (Outbox (state s))\<rparr>"
proof (cases r)
  case (Inl e)
  with assms(1) show ?thesis
    by (auto simp: SaveResults_def dest: withTx_err split: if_splits sum.splits)
next
  case (Inr u)
  with assms(1) obtain rest where len: "length sent = length rs"
    and chk: "foldE check_result rs (remdups (map op_ID sent)) = Inr rest"
    and tx: "SaveResults_tx rs (state s) = Inr (state s', u)"
    by (auto simp: SaveResults_def dest: withTx_ok split: if_splits sum.splits)
  from tx have fold: "foldE (save_result (byID (Outbox (state s)))) rs (state s) = Inr (state s')"
    by (auto simp: SaveResults_tx_def split: sum.splits)
  note ok = check_results_ok [OF chk]
  have "mset (map rs_ID rs) = mset (map op_ID sent)" using ok by (intro sent_bijection [OF len]) auto
  moreover have "state s' = (state s)\<lparr>Outbox := answered rs (Outbox (state s))\<rparr>
    \<and> (\<forall>q \<in> set rs. \<exists>p \<in> set (Outbox (state s)). so_ID p = rs_ID q \<and> pending_state (so_State p))"
    using ok assms(2) byID_index by (intro save_results_answered [OF fold]) (auto simp: outbox_inv_def)
  ultimately show ?thesis using Inr by simp
qed

definition demo_result :: "string \<Rightarrow> Result" where
  "demo_result st = \<lparr> rs_ID = demo_id 8, rs_Status = st, rs_Error = JNull \<rparr>"

definition demo_sent :: "Operation list" where
  "demo_sent = map operation_view (Outbox (state (fst demo_queue)))"

theorem SaveResults_exact_witness:
  "map so_State (Outbox (state (fst (SaveResults all_ok demo_sent [demo_result ''applied''] (fst demo_queue))))) = [''applied'']"
proof -
  let ?run = "SaveResults all_ok demo_sent [demo_result ''applied''] (fst demo_queue)"
  have inv: "outbox_inv (state (fst demo_queue))"
    by (simp add: demo_queue_eq(2) outbox_inv_def queued_op_def w64_def newEmptyDB_def op_state_defs)
  have open_store: "\<not> closed (fst demo_queue)"
    using withTx_still_open by (fastforce simp: demo_queue_def QueueCatalog_def demo_bound_def demo_store_def
      split: prod.splits option.splits sum.splits)
  have "SaveResults_tx [demo_result ''applied''] (state (fst demo_queue)) =
      Inr ((state (fst demo_queue))\<lparr>Outbox := [answer (demo_result ''applied'') (Outbox (state (fst demo_queue)) ! 0)]\<rparr>, ())"
    by (simp add: SaveResults_tx_def save_result_def byID_def demo_queue_eq(2) queued_op_def demo_result_def
        answer_def op_state_defs)
  from withTx_all_ok [of _ "SaveResults_tx [demo_result ''applied'']", OF open_store this]
  have "snd ?run = Inr ()"
    by (simp add: SaveResults_def demo_sent_def operation_view_def demo_queue_eq(2) queued_op_def check_result_def
        demo_result_def result_status_def)
  then have run: "?run = (fst ?run, Inr ())" by (simp add: prod_eq_iff)
  from SaveResults_exact [OF run inv] show ?thesis
    by (simp add: demo_queue_eq(2) answered_def answer_def demo_result_def queued_op_def)
qed


subsection \<open>Queueing an edit\<close>

lemma hex_char_is_hex: "d < 16 \<Longrightarrow> is_hex (hex_char d)"
  by (simp add: hex_char_def is_hex_def is_digit_def)

lemma hex_byte_hex: "list_all is_hex (hex_byte b)" and hex_byte_length: "length (hex_byte b) = 2"
proof -
  have "unat b < 2 ^ LENGTH(8)" by (rule unsigned_less)
  then have "unat b div 16 < 16" "unat b mod 16 < 16" by auto
  then show "list_all is_hex (hex_byte b)" "length (hex_byte b) = 2"
    by (simp_all add: hex_byte_def hex_char_is_hex)
qed

lemma hex_bytes: "list_all is_hex (concat (map hex_byte bs)) \<and> length (concat (map hex_byte bs)) = 2 * length bs"
  by (induction bs) (auto simp: hex_byte_hex hex_byte_length)

lemma uuidPattern_groups:
  assumes "list_all is_hex s" "length s = 32"
  shows "uuidPattern (take 8 s @ ''-'' @ take 4 (drop 8 s) @ ''-'' @ take 4 (drop 12 s) @ ''-''
      @ take 4 (drop 16 s) @ ''-'' @ drop 20 s)"
proof -
  have hex: "is_hex (s ! j)" if "j < 32" for j using assms that by (simp add: list_all_length)
  define u where "u = take 8 s @ ''-'' @ take 4 (drop 8 s) @ ''-'' @ take 4 (drop 12 s) @ ''-''
    @ take 4 (drop 16 s) @ ''-'' @ drop 20 s"
  have "if i \<in> {8, 13, 18, 23} then u ! i = CHR ''-'' else is_hex (u ! i)" if "i < 36" for i
    using that assms(2) hex by (simp add: u_def nth_append nth_Cons') auto
  moreover have "length u = 36" using assms(2) by (simp add: u_def)
  ultimately have "uuidPattern u" unfolding uuidPattern_def list_all_iff by simp
  then show ?thesis by (simp add: u_def)
qed

lemma UUID_ne: "UUID rnd = Inr i \<Longrightarrow> i \<noteq> []"
  by (auto simp: UUID_def Let_def split: option.splits if_splits)

lemma UUID_uuidPattern:
  assumes "length b = 16" "UUID (Some b) = Inr i"
  shows "uuidPattern i"
proof -
  let ?b = "b[6 := b ! 6 AND 15 OR 64, 8 := b[6 := b ! 6 AND 15 OR 64] ! 8 AND 63 OR 128]"
  let ?s = "concat (map hex_byte ?b)"
  have "list_all is_hex ?s" "length ?s = 32" using hex_bytes [of ?b] assms(1) by simp_all
  from uuidPattern_groups [OF this] show ?thesis using assms(2) by (simp add: UUID_def Let_def)
qed

text \<open>
  An edit that is accepted joins the outbox once, as a queued operation for a well-formed
  identifier, with the version the user saw as its base version, which is the version of the
  live record in the local snapshot; no other operation for that record is open, and the
  snapshot itself is not changed.
\<close>

theorem QueueCatalog_accepted:
  assumes "QueueCatalog w (Some b1) r2 now kind i0 action raw v s = (s', Inr i)" and "length b1 = 16"
  shows "\<exists>op. Outbox (state s') = Outbox (state s) @ [op] \<and> so_State op = ''queued'' \<and> target op = (kind, i)
    \<and> so_Action op = action \<and> uuidPattern i
    \<and> (\<forall>p \<in> set (Outbox (state s)). target p = (kind, i) \<longrightarrow> settled (so_State p))
    \<and> (if action = ''create'' then so_BaseVersion op = None
       else \<exists>e. live (state s) kind i = Some e \<and> se_Version e = v \<and> 1 \<le> v \<and> so_BaseVersion op = Some v)
    \<and> Entities (state s') = Entities (state s)"
  using assms(1)
proof (cases rule: QueueCatalog_run)
  case failed
  then show ?thesis by simp
next
  case (queued j opID)
  then have "uuidPattern i"
    using UUID_uuidPattern [OF assms(2)] by (auto simp: queue_id_def split: if_splits)
  with QueueCatalog_tx_ok [OF queued(5)] queued(1) show ?thesis
    by (auto simp: queued_op_def split: if_splits)
qed

theorem QueueCatalog_accepted_witness:
  "\<exists>op. Outbox (state (fst demo_queue)) = [op] \<and> so_State op = ''queued'' \<and> uuidPattern (demo_id 7)"
proof -
  have "QueueCatalog all_ok (Some (replicate 15 0 @ [of_nat 7])) (demo_uuid 8) ''t1'' ''category'' [] ''create'' demo_raw 0
      demo_bound = (fst demo_queue, Inr (demo_id 7))"
    using demo_queue_eq(1) by (simp add: demo_queue_def demo_uuid_def)
  from QueueCatalog_accepted [OF this] show ?thesis by (auto simp: demo_bound_def newEmptyDB_def)
qed

lemma first_err_None: "first_err f xs = None \<longleftrightarrow> (\<forall>x \<in> set xs. f x = None)"
  by (induction xs) (auto split: option.splits)

lemma digits_value_Some:
  "list_all is_digit s \<Longrightarrow> \<exists>n. digits_value a s = Some n \<and> n < (a + 1) * 10 ^ length s"
proof (induction s arbitrary: a)
  case (Cons c s)
  then have "is_digit c" "list_all is_digit s" by simp_all
  from Cons.IH [OF this(2), of "10 * a + (code c - 48)"] obtain n where
    n: "digits_value (10 * a + (code c - 48)) s = Some n" "n < (10 * a + (code c - 48) + 1) * 10 ^ length s" by blast
  have "10 * a + (code c - 48) + 1 \<le> (a + 1) * 10" using \<open>is_digit c\<close> unfolding is_digit_def by arith
  then have "(10 * a + (code c - 48) + 1) * 10 ^ length s \<le> (a + 1) * 10 * 10 ^ length s" by (rule mult_le_mono1)
  with n(2) have "n < (a + 1) * 10 ^ length (c # s)" by (simp only: list.size power_Suc mult.assoc add_0_right) simp
  with n(1) \<open>is_digit c\<close> show ?case by simp
qed simp

lemma decimalPattern_value:
  assumes "decimalPattern s"
  shows "0 \<le> parseBigIntSafe s \<and> parseBigIntSafe s < 10 ^ 15"
proof -
  let ?a = "takeWhile is_digit s"
  from assms have len: "1 \<le> length ?a" "length ?a \<le> 15" by (auto simp: decimalPattern_def Let_def)
  have "graph (hd s)" using len(1) by (cases s) (auto simp: is_digit_graph split: if_splits)
  moreover have "graph (last s)"
  proof -
    have s: "s = ?a @ dropWhile is_digit s" by simp
    show ?thesis
    proof (cases "dropWhile is_digit s")
      case Nil
      then have "s = ?a" "?a \<noteq> []" using len(1) by (metis takeWhile_dropWhile_id append_Nil2, auto)
      then have "is_digit (last s)" by (metis last_in_set set_takeWhileD)
      then show ?thesis by (rule is_digit_graph)
    next
      case (Cons c f)
      with assms have "list_all is_digit f" "f \<noteq> []" by (auto simp: decimalPattern_def Let_def)
      then have "is_digit (last s)" using Cons by (subst s) (auto simp: list_all_iff)
      then show ?thesis by (rule is_digit_graph)
    qed
  qed
  ultimately have "TrimSpace s = s" by (rule TrimSpace_graph)
  moreover have "hd (SplitN2 s ''.'') = ?a"
  proof -
    have "takeWhile (\<lambda>x. x \<noteq> CHR ''.'') (?a @ dropWhile is_digit s) = ?a"
    proof (subst takeWhile_append2)
      show "x \<noteq> CHR ''.''" if "x \<in> set ?a" for x using that set_takeWhileD [of x is_digit s] by auto
      show "?a @ takeWhile (\<lambda>x. x \<noteq> CHR ''.'') (dropWhile is_digit s) = ?a"
        using assms by (cases "dropWhile is_digit s") (simp_all add: decimalPattern_def Let_def del: dropWhile_eq_Nil_conv)
    qed
    then show ?thesis by (simp add: SplitN2_hd)
  qed
  moreover have "SplitN2 s ''.'' ! 0 = hd (SplitN2 s ''.'')" by (simp add: SplitN2_def split: option.splits)
  moreover obtain n where n: "digits_value 0 ?a = Some n" "n < 10 ^ length ?a"
    using digits_value_Some [of ?a 0] set_takeWhileD [of _ is_digit s] by (auto simp: list_all_iff)
  moreover have "SetString ?a = Some (int n)"
    using len(1) n(1) set_takeWhileD [of "hd ?a" is_digit s]
    by (cases ?a) (auto simp: SetString_def parse_nat_def)
  moreover have "n < 10 ^ 15" using n(2) len(2) power_increasing [of "length ?a" 15 "10::nat"] by linarith
  moreover have "s \<noteq> []" using len(1) by auto
  ultimately show ?thesis by (simp add: parseBigIntSafe_def)
qed

text \<open>
  The gate of offline edits: whatever payload is accepted is an object that touches only
  the editable fields of its kind, so never stock, balances or status; a price or a cost in
  it is a nonnegative amount below \<open>10 ^ 15\<close>, and a title or name is not blank.
\<close>

theorem validateIntent_gate:
  assumes "validateIntent kind action raw = None"
  shows "\<exists>kvs m flds. json_parse raw = Some (JObj kvs) \<and> as_map (JObj kvs) = Some m
    \<and> map_of catalogFields kind = Some flds
    \<and> (\<forall>(k, v) \<in> set m. k \<in> fst ` set flds
        \<and> (k \<in> {''price'', ''cost''} \<longrightarrow>
            (let t = (case v of JStr t \<Rightarrow> t | _ \<Rightarrow> json_text v) in 0 \<le> parseBigIntSafe t \<and> parseBigIntSafe t < 10 ^ 15))
        \<and> (k \<in> {''title'', ''name''} \<longrightarrow> (\<exists>t. v = JStr t \<and> TrimSpace t \<noteq> [])))"
proof -
  from assms obtain flds kvs m where f: "map_of catalogFields kind = Some flds"
    and j: "json_parse raw = Some (JObj kvs)" and m: "as_map (JObj kvs) = Some m"
    and ok: "m = [] \<or> first_err (check_member kind action flds) m = None"
    by (auto simp: validateIntent_def split: option.splits if_splits json.splits)
  have typs: "map_of flds k = Some ty \<Longrightarrow>
      (k \<in> {''price'', ''cost''} \<longrightarrow> ty = ''decimal'') \<and> (k \<in> {''title'', ''name''} \<longrightarrow> ty = ''text'')" for k ty
    using f by (auto simp: catalogFields_def split: if_splits)
  have "k \<in> fst ` set flds
      \<and> (k \<in> {''price'', ''cost''} \<longrightarrow>
          (let t = (case v of JStr t \<Rightarrow> t | _ \<Rightarrow> json_text v) in 0 \<le> parseBigIntSafe t \<and> parseBigIntSafe t < 10 ^ 15))
      \<and> (k \<in> {''title'', ''name''} \<longrightarrow> (\<exists>t. v = JStr t \<and> TrimSpace t \<noteq> []))" if kv: "(k, v) \<in> set m" for k v
  proof -
    from kv ok have "check_member kind action flds (k, v) = None" by (auto simp: first_err_None)
    then obtain ty where ty: "map_of flds k = Some ty" "check_value ty k v = None"
      by (auto simp: check_member_def split: option.splits if_splits)
    have "k \<in> fst ` set flds" using map_of_SomeD [OF ty(1)] by force
    moreover have "let t = (case v of JStr t \<Rightarrow> t | _ \<Rightarrow> json_text v) in 0 \<le> parseBigIntSafe t \<and> parseBigIntSafe t < 10 ^ 15"
      if "k \<in> {''price'', ''cost''}"
    proof -
      have "ty = ''decimal''" using typs [OF ty(1)] that by blast
      then show ?thesis using ty(2) decimalPattern_value by (simp add: check_value_def Let_def split: if_splits)
    qed
    moreover have "\<exists>t. v = JStr t \<and> TrimSpace t \<noteq> []" if "k \<in> {''title'', ''name''}"
    proof -
      have "ty = ''text''" using typs [OF ty(1)] that by blast
      then show ?thesis using ty(2) that by (cases v) (auto simp: check_value_def split: if_splits)
    qed
    ultimately show ?thesis by blast
  qed
  with f j m show ?thesis by blast
qed

theorem validateIntent_gate_witness:
  "\<exists>kvs. json_parse demo_raw = Some (JObj kvs)"
  using validateIntent_gate [OF demo_raw_valid] by blast

subsection \<open>Listing for a push\<close>

lemma take_drop_less:
  assumes "sorted_wrt (<) (map f xs)" "a \<in> set (take n xs)" "b \<in> set (drop n xs)"
  shows "f a < (f b :: 'b :: order)"
proof -
  have "sorted_wrt (<) (map f (take n xs) @ map f (drop n xs))"
    using assms(1) by (metis append_take_drop_id map_append)
  with assms(2,3) show ?thesis by (auto simp: sorted_wrt_append)
qed

text \<open>
  A push takes the oldest pending operations first: the listing has at most one hundred
  of them, in strictly increasing sequence order, and every pending operation that is left
  out was queued after all of those listed.
\<close>

theorem OutboxOf_pending:
  assumes "OutboxOf w True s = Inr ops" and "outbox_inv (state s)"
  shows "length ops \<le> 100 \<and> sorted_wrt (<) (map op_Sequence ops)
    \<and> (\<forall>p \<in> set ops. pending_state (op_State p))
    \<and> (\<forall>q \<in> set (Outbox (state s)). pending_state (so_State q) \<longrightarrow>
         operation_view q \<in> set ops \<or> (length ops = 100 \<and> (\<forall>p \<in> set ops. op_Sequence p < so_Sequence q)))"
proof -
  let ?ps = "filter (\<lambda>p. pending_state (so_State p)) (Outbox (state s))"
  let ?vs = "map operation_view ?ps"
  have seq: "op_Sequence (operation_view p) = so_Sequence p" for p by (simp add: operation_view_def)
  have "sorted_wrt (<) (map so_Sequence ?ps)"
    using assms(2) by (auto simp: outbox_inv_def sorted_wrt_map intro: sorted_wrt_filter)
  then have strict: "sorted_wrt (<) (map op_Sequence ?vs)" by (simp add: comp_def seq)
  then have "sort_key op_Sequence ?vs = ?vs"
    by (intro sort_key_id_if_sorted sorted_wrt_mono_rel [OF _ strict]) simp
  then have ops: "ops = take 100 ?vs"
    using assms(1) by (auto simp: OutboxOf_def limit_take split: if_splits)
  have "operation_view q \<in> set ops \<or> (length ops = 100 \<and> (\<forall>p \<in> set ops. op_Sequence p < so_Sequence q))"
    if q: "q \<in> set (Outbox (state s))" "pending_state (so_State q)" for q
  proof (cases "operation_view q \<in> set ops")
    case False
    have "operation_view q \<in> set ?vs" using q by auto
    with False ops have d: "operation_view q \<in> set (drop 100 ?vs)" by (metis Un_iff append_take_drop_id set_append)
    then have "length ops = 100" using ops by (auto dest: length_pos_if_in_set)
    moreover have "\<forall>p \<in> set ops. op_Sequence p < so_Sequence q"
      using take_drop_less [OF strict _ d] ops seq by simp
    ultimately show ?thesis by blast
  qed simp
  moreover have "sorted_wrt (<) (map op_Sequence ops)"
    using strict unfolding ops take_map [symmetric] by (rule sorted_wrt_take)
  moreover have "pending_state (op_State p)" if "p \<in> set ops" for p
    using that ops by (auto simp: operation_view_def dest!: in_set_takeD)
  ultimately show ?thesis using ops by auto
qed

theorem OutboxOf_pending_witness:
  "\<exists>ops. OutboxOf all_ok True (fst demo_queue) = Inr ops \<and> length ops \<le> 100 \<and> sorted_wrt (<) (map op_Sequence ops)"
proof -
  have "outbox_inv (state (fst demo_queue))"
    by (simp add: demo_queue_eq(2) outbox_inv_def queued_op_def w64_def newEmptyDB_def op_state_defs)
  moreover have "\<exists>ops. OutboxOf all_ok True (fst demo_queue) = Inr ops" by (simp add: OutboxOf_def all_ok_def Let_def)
  ultimately show ?thesis using OutboxOf_pending by blast
qed

end
