(* ===== verification/Local_Records.thy ===== *)
theory Local_Records
  imports Outbox
begin

text \<open>
  \<open>internal/store/domains.go\<close>, the records that exist without a server: Go values as
  documents, the check of money and stock fields, saving, merging and deleting a record, and
  payments on a debtor account.
\<close>

section \<open>Go values and maps\<close>

text \<open>
  \<open>json.Marshal\<close> of a \<open>map[string]any\<close> writes the members in the order of their keys.
\<close>

definition marshal :: "(string \<times> json) list \<Rightarrow> json" where
  "marshal m = JObj (sort_key fst m)"

lemma gmap_sort: "gmap m \<Longrightarrow> gmap (sort_key fst m)"
proof -
  have "mset (map fst (sort_key fst m)) = mset (map fst m)" by (metis mset_map mset_sort)
  then show "gmap m \<Longrightarrow> gmap (sort_key fst m)" unfolding gmap_def by (metis mset_eq_imp_distinct_iff)
qed

lemma map_of_sort: "gmap m \<Longrightarrow> map_of (sort_key fst m) = map_of m"
proof
  fix k assume m: "gmap m"
  have "map_of (sort_key fst m) k = Some v \<longleftrightarrow> map_of m k = Some v" for v
    using gmap_in_set [OF m] gmap_in_set [OF gmap_sort [OF m]] by (metis set_sort)
  then show "map_of (sort_key fst m) k = map_of m k"
    by (metis option.exhaust option.distinct(1) option.inject)
qed

lemma as_map_marshal [simp]: "gmap m \<Longrightarrow> as_map (marshal m) = Some (sort_key fst m)"
  by (simp add: marshal_def gmap_sort)

lemma payload_field_marshal [simp]:
  "gmap m \<Longrightarrow> payload_field (marshal m) k = (case map_of m k of None \<Rightarrow> [] | Some j \<Rightarrow> field_text j)"
  by (simp add: payload_field_def map_of_sort)

text \<open>\<open>m[k]\<close> of a Go map of documents: \<open>nil\<close> when the key is absent.\<close>

definition mget :: "(string \<times> json) list \<Rightarrow> string \<Rightarrow> json" where
  "mget m k = (case map_of m k of None \<Rightarrow> JNull | Some v \<Rightarrow> v)"

text \<open>\<open>fmt.Sprint\<close> of a value that came from \<open>json.Unmarshal\<close> or from a form.\<close>

fun sprint :: "json \<Rightarrow> string" where
  "sprint JNull = ''<nil>''"
| "sprint (JBool b) = (if b then ''true'' else ''false'')"
| "sprint (JNum n) = n"
| "sprint (JStr s) = s"
| "sprint (JArr xs) = ''['' @ Join (map sprint xs) '' '' @ '']''"
| "sprint (JObj kvs) = ''map['' @ Join (map (\<lambda>(k, t). k @ '':'' @ t) (sort_key fst (map (\<lambda>(k, v). (k, sprint v)) kvs))) '' '' @ '']''"

text \<open>
  The integer part of a number literal: \<open>int64(t)\<close> of the decoded \<open>float64\<close>. A value
  outside of the range becomes the smallest integer, as on the amd64 builds.
\<close>

definition num_exp :: "string \<Rightarrow> int" where
  "num_exp s = (case dropWhile (\<lambda>c. c \<noteq> CHR ''e'' \<and> c \<noteq> CHR ''E'') s of
     [] \<Rightarrow> 0 | _ # t \<Rightarrow> (case SetString t of None \<Rightarrow> 0 | Some e \<Rightarrow> e))"

definition num_trunc :: "string \<Rightarrow> int" where
  "num_trunc s =
    (let neg = HasPrefix s ''-'';
         m = takeWhile (\<lambda>c. c \<noteq> CHR ''e'' \<and> c \<noteq> CHR ''E'') (if neg then drop 1 s else s);
         i = takeWhile is_digit m; f = drop 1 (dropWhile is_digit m);
         d = (case digits_value 0 (i @ f) of None \<Rightarrow> 0 | Some n \<Rightarrow> n);
         e = num_exp s - int (length f);
         v = (if 0 \<le> e then d * 10 ^ nat e else d div 10 ^ nat (- e));
         r = (if neg then - int v else int v)
     in if in64 r then r else - (2 ^ 63))"

definition toStr :: "json \<Rightarrow> string" where
  "toStr v =
    (case v of
       JStr t \<Rightarrow> t
     | JNum n \<Rightarrow> Itoa (num_trunc n)
     | JNull \<Rightarrow> []
     | _ \<Rightarrow> sprint v)"

section \<open>Checking money and stock fields\<close>

definition parseNonNegative :: "(string \<times> json) list \<Rightarrow> string \<Rightarrow> err option" where
  "parseNonNegative fs key =
    (case mget fs key of
       JNull \<Rightarrow> None
     | raw \<Rightarrow>
        (let str = TrimSpace (sprint raw)
         in if str = [] then None
            else (case SetString (SplitN2 str ''.'' ! 0) of
                    None \<Rightarrow> Some (EData (ErrNegativeField key))
                  | Some bi \<Rightarrow> if bi < 0 then Some (EData (ErrNegativeField key)) else None)))"

definition checked_fields :: "string \<Rightarrow> string list" where
  "checked_fields kind =
    (if kind = ''product'' then [''price'', ''cost'']
     else if kind = ''ingredient'' then [''current_stock'', ''minimum_stock'', ''reorder_point'', ''average_cost'']
     else if kind = ''debtor'' then [''total'', ''paid'', ''remaining'']
     else if kind = ''expense'' then [''price'']
     else [])"

definition validateLocalFields :: "string \<Rightarrow> (string \<times> json) list \<Rightarrow> err option" where
  "validateLocalFields kind fs = first_err (parseNonNegative fs) (checked_fields kind)"

section \<open>Saving and deleting\<close>

definition set_all :: "(string \<times> json) list \<Rightarrow> (string \<times> json) list \<Rightarrow> (string \<times> json) list" where
  "set_all fs m = fold (\<lambda>(k, v). AList.update k v) fs m"

definition int_json :: "int \<Rightarrow> json" where
  "int_json i = JNum (Itoa i)"

definition next_version :: "storedEntity option \<Rightarrow> int" where
  "next_version existing =
    (case existing of Some e \<Rightarrow> if se_Version e \<ge> 1 then w64 (se_Version e + 1) else 1 | None \<Rightarrow> 1)"

text \<open>The members a save starts from: those of a live record, or none.\<close>

definition merge_base :: "storedEntity option \<Rightarrow> (string \<times> json) list" where
  "merge_base existing =
    (case existing of
       Some e \<Rightarrow> if se_Deleted e then [] else (case as_map (se_Payload e) of None \<Rightarrow> [] | Some m \<Rightarrow> m)
     | None \<Rightarrow> [])"

definition merged_fields ::
    "string \<Rightarrow> bool \<Rightarrow> string \<Rightarrow> (string \<times> json) list \<Rightarrow> storedEntity option \<Rightarrow> (string \<times> json) list" where
  "merged_fields now isNew0 i fs existing =
    (let isNew = (isNew0 \<or> (case existing of Some e \<Rightarrow> se_Deleted e | None \<Rightarrow> True));
         merged1 = AList.update ''id'' (JStr i) (set_all fs (merge_base existing));
         merged2 = (if isNew \<or> mget merged1 ''created_at'' = JNull
                    then AList.update ''created_at'' (JStr now) merged1 else merged1);
         merged3 = AList.update ''updated_at'' (JStr now) merged2
     in AList.update ''version'' (int_json (next_version existing)) merged3)"

definition SaveLocalRecord_tx ::
    "string \<Rightarrow> bool \<Rightarrow> string \<Rightarrow> string \<Rightarrow> (string \<times> json) list \<Rightarrow> persistedDB \<Rightarrow> err + persistedDB \<times> string" where
  "SaveLocalRecord_tx now isNew kind i fs db =
    (let key = entityKey kind i; existing = getEntity db key
     in Inr (putEntity key \<lparr> se_ID = i, se_Type = kind, se_Version = next_version existing, se_Deleted = False,
          se_Payload = marshal (merged_fields now isNew i fs existing) \<rparr> db, i))"

definition SaveLocalRecord ::
    "io \<Rightarrow> 8 word list option \<Rightarrow> string \<Rightarrow> string \<Rightarrow> string \<Rightarrow> (string \<times> json) list \<Rightarrow> Store \<Rightarrow> Store \<times> (err + string)" where
  "SaveLocalRecord w rnd now kind i0 fs s =
    (if TrimSpace kind = [] then (s, Inl (EData ErrKindMissing))
     else (case validateLocalFields kind fs of
             Some e \<Rightarrow> (s, Inl e)
           | None \<Rightarrow>
              (let isNew = (TrimSpace i0 = [])
               in case (if isNew then UUID rnd else Inr i0) of
                    Inl e \<Rightarrow> (s, Inl e)
                  | Inr i \<Rightarrow> withTx w (SaveLocalRecord_tx now isNew kind i fs) s)))"

definition DeleteLocalRecord_tx :: "string \<Rightarrow> string \<Rightarrow> persistedDB \<Rightarrow> err + persistedDB \<times> unit" where
  "DeleteLocalRecord_tx kind i db =
    (case live db kind i of
       None \<Rightarrow> Inl (EData ErrNotFound)
     | Some e \<Rightarrow>
        Inr (putEntity (entityKey kind i) (e\<lparr>se_Version := w64 (se_Version e + 1), se_Deleted := True\<rparr>) db, ()))"

definition DeleteLocalRecord :: "io \<Rightarrow> string \<Rightarrow> string \<Rightarrow> Store \<Rightarrow> Store \<times> (err + unit)" where
  "DeleteLocalRecord w kind i s =
    (if TrimSpace kind = [] \<or> TrimSpace i = [] then (s, Inl (EData ErrBadID))
     else withTx w (DeleteLocalRecord_tx kind i) s)"

section \<open>Rewriting a payload\<close>

text \<open>The step that many operations share: a new payload and the next version.\<close>

definition bump :: "json \<Rightarrow> storedEntity \<Rightarrow> storedEntity" where
  "bump p e = e\<lparr>se_Version := w64 (se_Version e + 1), se_Payload := p\<rparr>"

lemma bump_simps [simp]:
  "se_ID (bump p e) = se_ID e" "se_Type (bump p e) = se_Type e" "se_Deleted (bump p e) = se_Deleted e"
  "se_Payload (bump p e) = p" "se_Version (bump p e) = w64 (se_Version e + 1)"
  by (simp_all add: bump_def)

text \<open>A record of version one.\<close>

definition new_record :: "string \<Rightarrow> string \<Rightarrow> (string \<times> json) list \<Rightarrow> storedEntity" where
  "new_record kind i m =
    \<lparr> se_ID = i, se_Type = kind, se_Version = 1, se_Deleted = False, se_Payload = marshal m \<rparr>"

section \<open>Debtor accounts\<close>

definition debtorKind :: "string \<Rightarrow> string" where
  "debtorKind kind = (if TrimSpace kind = ''company'' then ''company'' else ''personal'')"

text \<open>The members of an account after a payment.\<close>

definition settled_account :: "string \<Rightarrow> int \<Rightarrow> json \<Rightarrow> (string \<times> json) list \<Rightarrow> (string \<times> json) list" where
  "settled_account now pay p dm =
    (let rem = parseBigIntSafe (payload_field p ''remaining'');
         paid = parseBigIntSafe (payload_field p ''paid'');
         (paid', rem', st) = (if pay \<ge> rem then (paid + rem, 0, ''paid'') else (paid + pay, rem - pay, ''partial''))
     in set_all [(''status'', JStr st), (''paid'', JStr (Itoa paid')), (''remaining'', JStr (Itoa rem')),
          (''updated_at'', JStr now)] dm)"

definition SettleDebtorPayment_tx :: "string \<Rightarrow> string \<Rightarrow> int \<Rightarrow> persistedDB \<Rightarrow> err + persistedDB \<times> unit" where
  "SettleDebtorPayment_tx now debtorID pay db =
    (case live db ''debtor'' debtorID of
       None \<Rightarrow> Inl (EStock ErrDebtorMissing)
     | Some d \<Rightarrow>
        (case as_map (se_Payload d) of
           None \<Rightarrow> Inl (EData ErrJSON)
         | Some dm \<Rightarrow>
             Inr (putEntity (entityKey ''debtor'' debtorID)
               (bump (marshal (settled_account now pay (se_Payload d) dm)) d) db, ())))"

definition SettleDebtorPayment :: "io \<Rightarrow> string \<Rightarrow> string \<Rightarrow> string \<Rightarrow> Store \<Rightarrow> Store \<times> (err + unit)" where
  "SettleDebtorPayment w now debtorID amountIRR s =
    (let pay = parseBigIntSafe amountIRR
     in if pay \<le> 0 then (s, Inl (EStock ErrPayAmount))
        else withTx w (SettleDebtorPayment_tx now debtorID pay) s)"


section \<open>What a save keeps and a payment conserves\<close>

lemma map_of_set_all [gomap]:
  "map_of (set_all fs m) k = (case map_of (rev fs) k of Some v \<Rightarrow> Some v | None \<Rightarrow> map_of m k)"
  unfolding set_all_def by (rule am.get_fold_put)

lemma gmap_set_all [gomap, simp]: "gmap m \<Longrightarrow> gmap (set_all fs m)"
  unfolding set_all_def by (rule am.ok_fold_put)

lemma gmap_rev: "gmap fs \<Longrightarrow> map_of (rev fs) k = map_of fs k"
  by (metis gmap_def distinct_rev map_of_eqI rev_map set_rev map_of_inject_set)

lemma field_text_str [simp]: "field_text (JStr s) = s"
  by (simp add: field_text_def)

lemma live_put [simp]:
  "live (putEntity key e db) kind i =
    (if entityKey kind i = key then (if se_Deleted e then None else Some e) else live db kind i)"
  by (simp add: live_def putEntity_def)

lemma getEntity_live: "live db kind i = Some e \<longleftrightarrow> getEntity db (entityKey kind i) = Some e \<and> \<not> se_Deleted e"
  by (auto simp: live_def getEntity_def split: option.splits)

abbreviation own_fields :: "string set" where
  "own_fields \<equiv> {''id'', ''created_at'', ''updated_at'', ''version''}"

lemma merged_fields_get:
  assumes "gmap fs"
  shows "gmap (merged_fields now isNew i fs existing)"
    and "k \<notin> own_fields \<Longrightarrow> map_of (merged_fields now isNew i fs existing) k =
      (case map_of fs k of Some v \<Rightarrow> Some v | None \<Rightarrow> map_of (merge_base existing) k)"
proof -
  have "gmap (merge_base existing)"
    by (auto simp: merge_base_def dest: as_map_gmap split: option.splits)
  then show "gmap (merged_fields now isNew i fs existing)"
    by (simp add: merged_fields_def Let_def)
  show "k \<notin> own_fields \<Longrightarrow> map_of (merged_fields now isNew i fs existing) k =
      (case map_of fs k of Some v \<Rightarrow> Some v | None \<Rightarrow> map_of (merge_base existing) k)"
    using gmap_rev [OF assms, of k] by (simp add: merged_fields_def map_of_set_all Let_def)
qed

lemma merge_base_field:
  "(case map_of (merge_base (getEntity db (entityKey kind i))) k of None \<Rightarrow> [] | Some j \<Rightarrow> field_text j) =
   (case live db kind i of None \<Rightarrow> [] | Some o1 \<Rightarrow> payload_field (se_Payload o1) k)"
  by (auto simp: merge_base_def payload_field_def live_def getEntity_def split: option.splits)

lemma saved_field:
  assumes "gmap fs" "k \<notin> own_fields"
  shows "payload_field (marshal (merged_fields now isNew i fs (getEntity db (entityKey kind i)))) k =
     (case map_of fs k of Some v \<Rightarrow> field_text v
      | None \<Rightarrow> (case live db kind i of None \<Rightarrow> [] | Some o1 \<Rightarrow> payload_field (se_Payload o1) k))"
  using merged_fields_get [OF assms(1)] assms(2) merge_base_field [of db kind i k]
  by (cases "map_of fs k") simp_all

lemma SaveLocalRecord_ok:
  assumes "SaveLocalRecord w rnd now kind i0 fs s = (s', Inr i)"
  shows "validateLocalFields kind fs = None"
    and "SaveLocalRecord_tx now (TrimSpace i0 = []) kind i fs (state s) = Inr (state s', i)"
proof -
  from assms have "TrimSpace kind \<noteq> []" by (auto simp: SaveLocalRecord_def)
  moreover from this assms show v: "validateLocalFields kind fs = None"
    by (cases "validateLocalFields kind fs") (auto simp: SaveLocalRecord_def)
  moreover obtain j where "(if TrimSpace i0 = [] then UUID rnd else Inr i0) = Inr j"
    using assms v calculation(1) by (cases "if TrimSpace i0 = [] then UUID rnd else Inr i0") (auto simp: SaveLocalRecord_def Let_def)
  ultimately have "withTx w (SaveLocalRecord_tx now (TrimSpace i0 = []) kind j fs) s = (s', Inr i)"
    using assms by (simp add: SaveLocalRecord_def Let_def)
  note tx = withTx_ok [OF this]
  then have "j = i" by (simp add: SaveLocalRecord_tx_def Let_def)
  with tx show "SaveLocalRecord_tx now (TrimSpace i0 = []) kind i fs (state s) = Inr (state s', i)" by simp
qed

text \<open>
  Saving a local record merges: afterwards every field given is read back as given, every
  field not given reads as before, the version is the next one (one for a new record), a
  deleted record is revived without its old fields, and no other record changes.
\<close>

theorem SaveLocalRecord_merges:
  assumes "SaveLocalRecord w rnd now kind i0 fs s = (s', Inr i)" and "gmap fs"
  shows "\<exists>e. live (state s') kind i = Some e \<and> se_Version e = next_version (getEntity (state s) (entityKey kind i))
    \<and> (\<forall>k. k \<notin> own_fields \<longrightarrow> payload_field (se_Payload e) k =
         (case map_of fs k of Some v \<Rightarrow> field_text v
          | None \<Rightarrow> (case live (state s) kind i of None \<Rightarrow> [] | Some o1 \<Rightarrow> payload_field (se_Payload o1) k)))
    \<and> (\<forall>key. key \<noteq> entityKey kind i \<longrightarrow> getEntity (state s') key = getEntity (state s) key)"
proof -
  define e where "e = \<lparr> se_ID = i, se_Type = kind, se_Version = next_version (getEntity (state s) (entityKey kind i)),
    se_Deleted = False,
    se_Payload = marshal (merged_fields now (TrimSpace i0 = []) i fs (getEntity (state s) (entityKey kind i))) \<rparr>"
  have s': "state s' = putEntity (entityKey kind i) e (state s)"
    using SaveLocalRecord_ok(2) [OF assms(1)] by (simp add: SaveLocalRecord_tx_def e_def Let_def)
  show ?thesis
    using saved_field [OF assms(2)] by (intro exI [of _ e]) (simp add: s' e_def)
qed

definition demo_fields :: "(string \<times> json) list" where
  "demo_fields = [(''title'', JStr ''Espresso''), (''price'', JStr ''950000'')]"

lemma demo_fields_valid: "validateLocalFields ''product'' demo_fields = None"
proof -
  have "TrimSpace ''950000'' = ''950000''" by (rule TrimSpace_graph) (simp_all add: graph_def)
  moreover have "SplitN2 ''950000'' ''.'' = [''950000'']" by (rule SplitN2_not_in) simp
  moreover have "SetString ''950000'' = Some 950000"
    by (simp add: SetString_def parse_nat_def is_digit_def)
  ultimately show ?thesis
    by (simp add: validateLocalFields_def checked_fields_def parseNonNegative_def demo_fields_def mget_def)
qed

theorem SaveLocalRecord_merges_witness:
  "\<exists>s' e. SaveLocalRecord all_ok None ''t1'' ''product'' ''p7'' demo_fields demo_store = (s', Inr ''p7'')
     \<and> live (state s') ''product'' ''p7'' = Some e \<and> payload_field (se_Payload e) ''title'' = ''Espresso''"
proof -
  have trim: "TrimSpace ''product'' = ''product''" "TrimSpace ''p7'' = ''p7''"
    by (rule TrimSpace_graph; simp add: graph_def)+
  define db where "db = fst (projr (SaveLocalRecord_tx ''t1'' False ''product'' ''p7'' demo_fields (state demo_store)))"
  have tx: "SaveLocalRecord_tx ''t1'' False ''product'' ''p7'' demo_fields (state demo_store) = Inr (db, ''p7'')"
    by (simp add: db_def SaveLocalRecord_tx_def Let_def)
  have "\<not> closed demo_store" by (simp add: demo_store_def)
  from withTx_all_ok [of demo_store "SaveLocalRecord_tx ''t1'' False ''product'' ''p7'' demo_fields", OF this tx]
  obtain s' where run: "SaveLocalRecord all_ok None ''t1'' ''product'' ''p7'' demo_fields demo_store = (s', Inr ''p7'')"
    by (simp add: SaveLocalRecord_def demo_fields_valid trim)
  have g: "gmap demo_fields" by (simp add: gmap_def demo_fields_def)
  from SaveLocalRecord_merges [OF run g] obtain e where "live (state s') ''product'' ''p7'' = Some e"
    "\<forall>k. k \<notin> own_fields \<longrightarrow> payload_field (se_Payload e) k = (case map_of demo_fields k of Some v \<Rightarrow> field_text v
          | None \<Rightarrow> (case live (state demo_store) ''product'' ''p7'' of None \<Rightarrow> [] | Some o1 \<Rightarrow> payload_field (se_Payload o1) k))"
    by blast
  with run show ?thesis by (intro exI [of _ s'] exI [of _ e]) (simp add: demo_fields_def)
qed

lemma settled_account_fields:
  assumes "gmap dm" and "rem = parseBigIntSafe (payload_field p ''remaining'')"
    and "paid = parseBigIntSafe (payload_field p ''paid'')" and "part = (if rem \<le> pay then rem else pay)"
  shows "payload_field (marshal (settled_account now pay p dm)) ''paid'' = Itoa (paid + part)"
    and "payload_field (marshal (settled_account now pay p dm)) ''remaining'' = Itoa (rem - part)"
    and "payload_field (marshal (settled_account now pay p dm)) ''status'' = (if rem \<le> pay then ''paid'' else ''partial'')"
  using assms by (simp_all add: settled_account_def map_of_set_all Let_def)

lemma SettleDebtorPayment_tx_ok:
  assumes "SettleDebtorPayment_tx now i pay db = Inr (db', u)" and "live db ''debtor'' i = Some d"
  obtains dm where "as_map (se_Payload d) = Some dm" "gmap dm"
    "live db' ''debtor'' i = Some (bump (marshal (settled_account now pay (se_Payload d) dm)) d)"
proof -
  from assms obtain dm where dm: "as_map (se_Payload d) = Some dm"
    "db' = putEntity (entityKey ''debtor'' i) (bump (marshal (settled_account now pay (se_Payload d) dm)) d) db"
    by (auto simp: SettleDebtorPayment_tx_def split: option.splits)
  moreover have "\<not> se_Deleted d" using assms(2) by (simp add: getEntity_live)
  ultimately show ?thesis using that as_map_gmap by (simp add: getEntity_live)
qed

text \<open>
  C18. A payment on a debtor account conserves money: what is paid grows by exactly what the
  remaining debt shrinks by, the debt never goes below zero, an overpayment settles exactly
  the debt, and the account is marked paid exactly when nothing remains.
\<close>

theorem SettleDebtorPayment_conserves:
  assumes "SettleDebtorPayment w now i amount s = (s', Inr u)" and "live (state s) ''debtor'' i = Some d"
    and "paid0 = parseBigIntSafe (payload_field (se_Payload d) ''paid'')"
    and "rem0 = parseBigIntSafe (payload_field (se_Payload d) ''remaining'')" and "0 \<le> rem0"
  shows "\<exists>d' paid rem. live (state s') ''debtor'' i = Some d'
    \<and> parseBigIntSafe (payload_field (se_Payload d') ''paid'') = paid
    \<and> parseBigIntSafe (payload_field (se_Payload d') ''remaining'') = rem
    \<and> paid + rem = paid0 + rem0 \<and> 0 \<le> rem \<and> paid - paid0 = min (parseBigIntSafe amount) rem0
    \<and> (payload_field (se_Payload d') ''status'' = ''paid'' \<longleftrightarrow> rem = 0)"
proof -
  let ?pay = "parseBigIntSafe amount"
  from assms(1) have "SettleDebtorPayment_tx now i ?pay (state s) = Inr (state s', u)"
    by (auto simp: SettleDebtorPayment_def Let_def dest: withTx_ok split: if_splits)
  from SettleDebtorPayment_tx_ok [OF this assms(2)] obtain dm where "gmap dm"
    and live: "live (state s') ''debtor'' i = Some (bump (marshal (settled_account now ?pay (se_Payload d) dm)) d)" .
  note f = settled_account_fields [OF \<open>gmap dm\<close> assms(4,3) refl, of now ?pay]
  have pos: "0 < ?pay" using assms(1) by (auto simp: SettleDebtorPayment_def Let_def split: if_splits)
  let ?part = "if rem0 \<le> ?pay then rem0 else ?pay"
  show ?thesis
    using assms(5) pos
    by (intro exI [of _ "bump (marshal (settled_account now ?pay (se_Payload d) dm)) d"] exI [of _ "paid0 + ?part"]
        exI [of _ "rem0 - ?part"]) (simp add: live f)
qed

definition demo_debtor :: Store where
  "demo_debtor = demo_store\<lparr>state := putEntity (entityKey ''debtor'' ''d1'')
     (new_record ''debtor'' ''d1'' [(''paid'', JStr (Itoa 0)), (''remaining'', JStr (Itoa 500))]) newEmptyDB\<rparr>"

theorem SettleDebtorPayment_conserves_witness:
  "\<exists>s' d'. SettleDebtorPayment all_ok ''t2'' ''d1'' (Itoa 800) demo_debtor = (s', Inr ())
     \<and> live (state s') ''debtor'' ''d1'' = Some d' \<and> payload_field (se_Payload d') ''status'' = ''paid''"
proof -
  let ?d = "new_record ''debtor'' ''d1'' [(''paid'', JStr (Itoa 0)), (''remaining'', JStr (Itoa 500))]"
  have g: "gmap [(''paid'', JStr (Itoa 0)), (''remaining'', JStr (Itoa 500))]" by (simp add: gmap_def)
  have live: "live (state demo_debtor) ''debtor'' ''d1'' = Some ?d" by (simp add: demo_debtor_def new_record_def)
  define db where "db = fst (projr (SettleDebtorPayment_tx ''t2'' ''d1'' 800 (state demo_debtor)))"
  have tx: "SettleDebtorPayment_tx ''t2'' ''d1'' 800 (state demo_debtor) = Inr (db, ())"
    using live g by (simp add: db_def SettleDebtorPayment_tx_def new_record_def)
  have "\<not> closed demo_debtor" by (simp add: demo_debtor_def demo_store_def)
  from withTx_all_ok [of demo_debtor "SettleDebtorPayment_tx ''t2'' ''d1'' 800", OF this tx]
  obtain s' where run: "SettleDebtorPayment all_ok ''t2'' ''d1'' (Itoa 800) demo_debtor = (s', Inr ())"
    by (simp add: SettleDebtorPayment_def)
  from SettleDebtorPayment_conserves [OF run live refl refl] g run show ?thesis
    by (auto simp: new_record_def)
qed

end
