(* ===== verification/Orders.thy ===== *)
theory Orders
  imports Local_Records
begin

text \<open>
  \<open>internal/store/domains.go\<close>, the orders of the cash desk: creating one with its totals,
  its table, customer and debtor, editing its lines, moving it to another table, turning it
  into a debt, and the machine of its states. Random bytes are a supply \<open>gen\<close> of which the
  n-th call takes the n-th element; the day of an order in Tehran comes from the time
  package and the zone database and is a parameter.
\<close>

record POSOrderLineInput =
  li_ProductID :: string
  li_Quantity :: int
  li_Note :: string

record POSOrderInput =
  pi_ClientToken :: string
  pi_FulfillmentType :: string
  pi_TableID :: string
  pi_CustomerID :: string
  pi_CustomerName :: string
  pi_CustomerPhone :: string
  pi_CashierName :: string
  pi_PaymentMethod :: string
  pi_DiscountIRR :: string
  pi_ExtraIRR :: string
  pi_ExtraNote :: string
  pi_DebtorDueAt :: string
  pi_DebtorNote :: string
  pi_DebtorKind :: string
  pi_DebtorGroupID :: string
  pi_Note :: string
  pi_Items :: "POSOrderLineInput list"

type_synonym gen = "nat \<Rightarrow> 8 word list option"
type_synonym fields = "(string \<times> json) list"

text \<open>\<open>id, _ := UUID()\<close>: an error leaves the empty string.\<close>

definition uuid_or_empty :: "8 word list option \<Rightarrow> string" where
  "uuid_or_empty rnd = (case UUID rnd of Inl e \<Rightarrow> [] | Inr i \<Rightarrow> i)"

section \<open>Lines and totals\<close>

definition line_fields :: "string \<Rightarrow> POSOrderLineInput \<Rightarrow> Entity \<Rightarrow> int \<Rightarrow> int \<Rightarrow> fields" where
  "line_fields lineID it ent unitPrice lineTotal =
    [(''id'', JStr lineID), (''product_id'', JStr (li_ProductID it)),
     (''product_name_snapshot'', JStr (Label ent)), (''quantity'', int_json (li_Quantity it)),
     (''unit_price_irr'', JStr (Itoa unitPrice)), (''line_total_irr'', JStr (Itoa lineTotal)),
     (''note'', JStr (TrimSpace (li_Note it)))]"

definition add_line :: "gen \<Rightarrow> persistedDB \<Rightarrow> POSOrderLineInput \<Rightarrow> int \<times> fields list \<Rightarrow> err + int \<times> fields list" where
  "add_line gen db it acc =
    (case acc of (subtotal, lines) \<Rightarrow>
      if TrimSpace (li_ProductID it) = [] \<or> li_Quantity it \<le> 0 then Inr (subtotal, lines)
      else (case live db ''product'' (li_ProductID it) of
              None \<Rightarrow> Inl (EOrder ErrProductMissing)
            | Some p \<Rightarrow>
               (let ent = entity_view p; unitPrice = parseBigIntSafe (PriceIRR ent);
                    lineTotal = unitPrice * li_Quantity it
                in Inr (subtotal + lineTotal,
                     lines @ [line_fields (uuid_or_empty (gen (length lines))) it ent unitPrice lineTotal]))))"

definition order_lines :: "gen \<Rightarrow> persistedDB \<Rightarrow> POSOrderLineInput list \<Rightarrow> err + int \<times> fields list" where
  "order_lines gen db items = foldE (add_line gen db) items (0, [])"

definition clamp_discount :: "int \<Rightarrow> int \<Rightarrow> int" where
  "clamp_discount subtotal d = (let d1 = (if d < 0 then 0 else d) in if d1 > subtotal then subtotal else d1)"

definition clamp_extra :: "int \<Rightarrow> int" where
  "clamp_extra x = (if x < 0 then 0 else x)"

definition order_total :: "int \<Rightarrow> int \<Rightarrow> int \<Rightarrow> int" where
  "order_total subtotal discount extra = (let t = subtotal - discount + extra in if t < 0 then 0 else t)"

definition lines_json :: "fields list \<Rightarrow> json" where
  "lines_json lines = JArr (map marshal lines)"

section \<open>Creating an order\<close>

text \<open>
  \<open>countOrdersOnTehranDay\<close>: \<open>day\<close> is the date in Tehran of an RFC 3339 text, if it is one.
\<close>

type_synonym date = "int \<times> int \<times> int"

definition countOrdersOnTehranDay :: "(string \<Rightarrow> date option) \<Rightarrow> date \<Rightarrow> persistedDB \<Rightarrow> int" where
  "countOrdersOnTehranDay day today db =
    int (length (filter (\<lambda>e. se_Type e = ''order'' \<and> \<not> se_Deleted e
      \<and> day (payload_field (se_Payload e) ''created_at'') = Some today) (map snd (Entities db))))"

definition find_token :: "persistedDB \<Rightarrow> string \<Rightarrow> storedEntity option" where
  "find_token db token =
    List.find (\<lambda>e. \<not> se_Deleted e \<and> se_Type e = ''order'' \<and> payload_field (se_Payload e) ''client_token'' = token)
      (map snd (Entities db))"

text \<open>Marking a table as taken by an order; the label of the table if it exists.\<close>

definition occupy_table :: "string \<Rightarrow> string \<Rightarrow> persistedDB \<Rightarrow> string \<times> persistedDB" where
  "occupy_table tableID orderID db =
    (if tableID = [] then ([], db)
     else case live db ''table'' tableID of
            None \<Rightarrow> ([], db)
          | Some t \<Rightarrow>
             (Label (entity_view t),
              case as_map (se_Payload t) of
                None \<Rightarrow> db
              | Some tm \<Rightarrow>
                 putEntity (entityKey ''table'' tableID)
                   (bump (marshal (set_all [(''status'', JStr ''occupied''), (''current_order_id'', JStr orderID)] tm)) t) db))"

definition earned_points :: "int \<Rightarrow> int" where
  "earned_points tot = (let e = w64 (tot div 100000) in if e < 1 then 1 else e)"

definition credit_customer :: "string \<Rightarrow> string \<Rightarrow> string \<Rightarrow> int \<Rightarrow> persistedDB \<Rightarrow> string \<times> string \<times> persistedDB" where
  "credit_customer customerID name phone tot db =
    (if customerID = [] then (name, phone, db)
     else case live db ''customer'' customerID of
            None \<Rightarrow> (name, phone, db)
          | Some c \<Rightarrow>
             (let ent = entity_view c
              in (if name = [] then Label ent else name,
                  if phone = [] then Field ent ''phone'' else phone,
                  case as_map (se_Payload c) of
                    None \<Rightarrow> db
                  | Some cm \<Rightarrow>
                     (let pts = fst (Atoi (Field ent ''loyalty_points'')); prev = fst (Atoi (Field ent ''orders_count''));
                          cm' = set_all [(''loyalty_points'', int_json (w64 (pts + earned_points tot))),
                            (''orders_count'', int_json (w64 (prev + 1)))] cm
                      in putEntity (entityKey ''customer'' customerID) (bump (marshal cm') c) db))))"

definition fa_guest :: string where "fa_guest = (fa [0x645, 0x647, 0x645, 0x627, 0x646, 0x20, 0x62D, 0x636, 0x648, 0x631, 0x6CC, 0x20, 0x6A9, 0x627, 0x641, 0x647])"
definition fa_credit_order :: string where "fa_credit_order = (fa [0x633, 0x641, 0x627, 0x631, 0x634, 0x20, 0x646, 0x633, 0x6CC, 0x647, 0x20, 0x634, 0x645, 0x627, 0x631, 0x647, 0x20])"

definition debtor_fields ::
    "string \<Rightarrow> string \<Rightarrow> string \<Rightarrow> string \<Rightarrow> int \<Rightarrow> string \<Rightarrow> string \<Rightarrow> POSOrderInput \<Rightarrow> fields" where
  "debtor_fields debtID name phone orderNumber tot orderID now req =
    [(''id'', JStr debtID), (''full_name'', JStr name), (''phone'', JStr phone), (''total'', JStr (Itoa tot)),
     (''paid'', JStr ''0''), (''remaining'', JStr (Itoa tot)), (''currency'', JStr ''IRR''),
     (''status'', JStr ''open''), (''description'', JStr (fa_credit_order @ orderNumber)),
     (''note'', JStr (TrimSpace (pi_DebtorNote req))), (''due_at'', JStr (TrimSpace (pi_DebtorDueAt req))),
     (''account_type'', JStr (debtorKind (pi_DebtorKind req))),
     (''group_id'', JStr (TrimSpace (pi_DebtorGroupID req))), (''order_id'', JStr orderID),
     (''created_at'', JStr now), (''version'', int_json 1)]"

definition order_fields ::
    "string \<Rightarrow> string \<Rightarrow> string \<Rightarrow> string \<Rightarrow> string \<Rightarrow> string \<Rightarrow> string \<Rightarrow> int \<Rightarrow> int \<Rightarrow> int \<Rightarrow> int \<Rightarrow> fields list
     \<Rightarrow> string \<Rightarrow> POSOrderInput \<Rightarrow> fields" where
  "order_fields orderID orderNumber ft pm tableLabel name phone subtotal discount extra tot lines now req =
    [(''id'', JStr orderID), (''client_token'', JStr (TrimSpace (pi_ClientToken req))),
     (''order_number'', JStr orderNumber), (''fulfillment_type'', JStr ft), (''table_id'', JStr (pi_TableID req)),
     (''table_label'', JStr tableLabel), (''customer_id'', JStr (pi_CustomerID req)), (''customer_name'', JStr name),
     (''customer_phone'', JStr phone), (''cashier_name'', JStr (TrimSpace (pi_CashierName req))),
     (''payment_method'', JStr pm), (''subtotal_irr'', JStr (Itoa subtotal)), (''discount_irr'', JStr (Itoa discount)),
     (''extra_irr'', JStr (Itoa extra)), (''extra_note'', JStr (TrimSpace (pi_ExtraNote req))),
     (''total_irr'', JStr (Itoa tot)), (''price'', JStr (Itoa tot)), (''status'', JStr ''pending''),
     (''note'', JStr (TrimSpace (pi_Note req))), (''items'', lines_json lines), (''created_at'', JStr now),
     (''version'', int_json 1)]"

text \<open>What follows once the lines are known: totals, table, customer, debtor and the order itself.\<close>

definition place_order ::
    "gen \<Rightarrow> string \<Rightarrow> string \<Rightarrow> string \<Rightarrow> POSOrderInput \<Rightarrow> int \<Rightarrow> fields list \<Rightarrow> persistedDB \<Rightarrow> persistedDB" where
  "place_order gen orderID orderNumber now req subtotal lines db =
    (let discount = clamp_discount subtotal (parseBigIntSafe (pi_DiscountIRR req));
         extra = clamp_extra (parseBigIntSafe (pi_ExtraIRR req));
         tot = order_total subtotal discount extra;
         ft = (let t = TrimSpace (pi_FulfillmentType req) in if t = [] then ''dine_in'' else t);
         pm = (let t = TrimSpace (pi_PaymentMethod req) in if t = [] then ''card_pos'' else t);
         (tableLabel, db1) = occupy_table (pi_TableID req) orderID db;
         (name0, phone, db2) = credit_customer (pi_CustomerID req) (TrimSpace (pi_CustomerName req))
            (TrimSpace (pi_CustomerPhone req)) tot db1;
         name = (if name0 = [] then fa_guest else name0);
         debtID = uuid_or_empty (gen (length lines));
         db3 = (if pm = ''credit_debtor''
                then putEntity (entityKey ''debtor'' debtID)
                       (new_record ''debtor'' debtID (debtor_fields debtID name phone orderNumber tot orderID now req)) db2
                else db2)
     in putEntity (entityKey ''order'' orderID)
          (new_record ''order'' orderID
             (order_fields orderID orderNumber ft pm tableLabel name phone subtotal discount extra tot lines now req)) db3)"

definition CreatePOSOrder_tx ::
    "(string \<Rightarrow> date option) \<Rightarrow> date \<Rightarrow> gen \<Rightarrow> string \<Rightarrow> string \<Rightarrow> POSOrderInput \<Rightarrow> persistedDB \<Rightarrow> err + persistedDB \<times> string" where
  "CreatePOSOrder_tx day today gen orderID now req db =
    (let token = TrimSpace (pi_ClientToken req)
     in case (if token \<noteq> [] then find_token db token else None) of
          Some e \<Rightarrow> Inr (db, if se_ID e \<noteq> [] then se_ID e else orderID)
        | None \<Rightarrow>
           (case order_lines gen db (pi_Items req) of
              Inl e \<Rightarrow> Inl e
            | Inr (subtotal, lines) \<Rightarrow>
               if lines = [] then Inl (EOrder ErrNoLines)
               else
                 (let orderNumber = Itoa (w64 (100 + countOrdersOnTehranDay day today db))
                  in Inr (place_order gen orderID orderNumber now req subtotal lines db, orderID))))"

definition CreatePOSOrder ::
    "io \<Rightarrow> (string \<Rightarrow> date option) \<Rightarrow> date \<Rightarrow> 8 word list option \<Rightarrow> gen \<Rightarrow> string \<Rightarrow> POSOrderInput \<Rightarrow> Store
     \<Rightarrow> Store \<times> (err + string)" where
  "CreatePOSOrder w day today rnd gen now req s =
    (if pi_Items req = [] then (s, Inl (EOrder ErrNoItems))
     else (case UUID rnd of
             Inl e \<Rightarrow> (s, Inl e)
           | Inr orderID \<Rightarrow> withTx w (CreatePOSOrder_tx day today gen orderID now req) s))"

section \<open>Editing the lines\<close>

record OrderItemsUpdate =
  ou_Lines :: "POSOrderLineInput list"
  ou_DiscountIRR :: "string option"
  ou_ExtraIRR :: "string option"
  ou_ExtraNote :: "string option"
  ou_Note :: "string option"

definition status_of :: "fields \<Rightarrow> string" where
  "status_of om = ToLower (TrimSpace (sprint (mget om ''status'')))"

definition opt_field :: "string \<Rightarrow> string option \<Rightarrow> fields" where
  "opt_field k v = (case v of None \<Rightarrow> [] | Some t \<Rightarrow> [(k, JStr (TrimSpace t))])"

definition edited_order :: "string \<Rightarrow> OrderItemsUpdate \<Rightarrow> json \<Rightarrow> int \<Rightarrow> fields list \<Rightarrow> fields \<Rightarrow> fields" where
  "edited_order now upd p subtotal lines om =
    (let discount = clamp_discount subtotal (parseBigIntSafe (case ou_DiscountIRR upd of
            None \<Rightarrow> payload_field p ''discount_irr'' | Some d \<Rightarrow> d));
         extra = clamp_extra (parseBigIntSafe (case ou_ExtraIRR upd of
            None \<Rightarrow> payload_field p ''extra_irr'' | Some x \<Rightarrow> x));
         tot = order_total subtotal discount extra
     in set_all ([(''items'', lines_json lines), (''subtotal_irr'', JStr (Itoa subtotal)),
          (''discount_irr'', JStr (Itoa discount)), (''extra_irr'', JStr (Itoa extra)),
          (''total_irr'', JStr (Itoa tot)), (''price'', JStr (Itoa tot))]
          @ opt_field ''extra_note'' (ou_ExtraNote upd) @ opt_field ''note'' (ou_Note upd)
          @ [(''updated_at'', JStr now)]) om)"

definition UpdateOrderItemsFull_tx :: "gen \<Rightarrow> string \<Rightarrow> string \<Rightarrow> OrderItemsUpdate \<Rightarrow> persistedDB \<Rightarrow> err + persistedDB \<times> unit" where
  "UpdateOrderItemsFull_tx gen now orderID upd db =
    (case live db ''order'' orderID of
       None \<Rightarrow> Inl (EOrder ErrOrderMissing)
     | Some e \<Rightarrow>
        (case as_map (se_Payload e) of
           None \<Rightarrow> Inl (EData ErrJSON)
         | Some om \<Rightarrow>
            if status_of om = ''completed'' then Inl (EOrder ErrOrderCompleted)
            else if status_of om \<in> {''cancelled'', ''canceled'', ''refunded''} then Inl (EOrder ErrOrderClosed)
            else (case order_lines gen db (ou_Lines upd) of
                    Inl er \<Rightarrow> Inl er
                  | Inr (subtotal, lines) \<Rightarrow>
                     if lines = [] then Inl (EOrder ErrNeedLine)
                     else Inr (putEntity (entityKey ''order'' orderID)
                            (bump (marshal (edited_order now upd (se_Payload e) subtotal lines om)) e) db, ()))))"

definition UpdateOrderItemsFull :: "io \<Rightarrow> gen \<Rightarrow> string \<Rightarrow> string \<Rightarrow> OrderItemsUpdate \<Rightarrow> Store \<Rightarrow> Store \<times> (err + unit)" where
  "UpdateOrderItemsFull w gen now orderID upd s = withTx w (UpdateOrderItemsFull_tx gen now orderID upd) s"

definition UpdateOrderItems :: "io \<Rightarrow> gen \<Rightarrow> string \<Rightarrow> string \<Rightarrow> POSOrderLineInput list \<Rightarrow> Store \<Rightarrow> Store \<times> (err + unit)" where
  "UpdateOrderItems w gen now orderID lines s =
    UpdateOrderItemsFull w gen now orderID
      \<lparr> ou_Lines = lines, ou_DiscountIRR = None, ou_ExtraIRR = None, ou_ExtraNote = None, ou_Note = None \<rparr> s"

section \<open>Moving an order to another table\<close>

definition closed_status :: "string \<Rightarrow> bool" where
  "closed_status st \<longleftrightarrow> st \<in> {''completed'', ''cancelled'', ''canceled'', ''refunded''}"

definition open_status :: "string \<Rightarrow> bool" where
  "open_status st \<longleftrightarrow> st \<in> {''pending'', ''accepted'', ''preparing'', ''ready''}"

definition table_busy :: "persistedDB \<Rightarrow> string \<Rightarrow> string \<Rightarrow> bool" where
  "table_busy db orderID dst \<longleftrightarrow>
    list_ex (\<lambda>e. \<not> se_Deleted e \<and> se_Type e = ''order'' \<and> se_ID e \<noteq> orderID
      \<and> payload_field (se_Payload e) ''table_id'' = dst
      \<and> open_status (ToLower (payload_field (se_Payload e) ''status''))) (map snd (Entities db))"

definition free_source :: "string \<Rightarrow> string \<Rightarrow> persistedDB \<Rightarrow> persistedDB" where
  "free_source sourceID orderID db =
    (if sourceID = [] then db
     else case live db ''table'' sourceID of
            None \<Rightarrow> db
          | Some t \<Rightarrow>
             (case as_map (se_Payload t) of
                None \<Rightarrow> db
              | Some sm \<Rightarrow>
                 (let cur = toStr (mget sm ''current_order_id'')
                  in if cur = orderID \<or> TrimSpace cur = []
                     then putEntity (entityKey ''table'' sourceID)
                            (bump (marshal (set_all [(''current_order_id'', JStr []), (''status'', JStr ''available'')] sm)) t) db
                     else db)))"

definition take_target :: "string \<Rightarrow> string \<Rightarrow> storedEntity \<Rightarrow> persistedDB \<Rightarrow> persistedDB" where
  "take_target dst orderID t db =
    (case as_map (se_Payload t) of
       None \<Rightarrow> db
     | Some tm \<Rightarrow>
        putEntity (entityKey ''table'' dst)
          (bump (marshal (set_all [(''status'', JStr ''occupied''), (''current_order_id'', JStr orderID)] tm)) t) db)"

definition TransferOrder_tx :: "string \<Rightarrow> string \<Rightarrow> string \<Rightarrow> persistedDB \<Rightarrow> err + persistedDB \<times> unit" where
  "TransferOrder_tx now orderID dst db =
    (case live db ''order'' orderID of
       None \<Rightarrow> Inl (EOrder ErrOrderMissing)
     | Some e \<Rightarrow>
        (let p = se_Payload e; source = payload_field p ''table_id''
         in if closed_status (ToLower (payload_field p ''status'')) then Inl (EOrder ErrNotOpen)
            else if source = dst then Inl (EOrder ErrSameTable)
            else (case live db ''table'' dst of
                    None \<Rightarrow> Inl (EOrder ErrTargetMissing)
                  | Some t \<Rightarrow>
                     if TrimSpace (payload_field (se_Payload t) ''current_order_id'') \<noteq> [] then Inl (EOrder ErrTargetBusy)
                     else if table_busy db orderID dst then Inl (EOrder ErrTargetBusy)
                     else (case as_map p of
                             None \<Rightarrow> Inl (EData ErrJSON)
                           | Some om \<Rightarrow>
                              (let om' = set_all [(''table_id'', JStr dst), (''table_label'', JStr (Label (entity_view t))),
                                     (''updated_at'', JStr now)] om;
                                   db1 = putEntity (entityKey ''order'' orderID) (bump (marshal om') e) db
                               in Inr (take_target dst orderID t (free_source source orderID db1), ()))))))"

definition TransferOrder :: "io \<Rightarrow> string \<Rightarrow> string \<Rightarrow> string \<Rightarrow> Store \<Rightarrow> Store \<times> (err + unit)" where
  "TransferOrder w now orderID dst0 s =
    (let dst = TrimSpace dst0
     in if dst = [] then (s, Inl (EOrder ErrNoTarget)) else withTx w (TransferOrder_tx now orderID dst) s)"

section \<open>Turning an order into a debt\<close>

definition deferred_debt :: "string \<Rightarrow> string \<Rightarrow> string \<Rightarrow> string \<Rightarrow> string \<Rightarrow> string \<Rightarrow> string \<Rightarrow> int \<Rightarrow> json \<Rightarrow> fields" where
  "deferred_debt debtID name phone dueAt note orderID now tot p =
    [(''id'', JStr debtID), (''full_name'', JStr name), (''phone'', JStr (TrimSpace phone)), (''total'', JStr (Itoa tot)),
     (''paid'', JStr ''0''), (''remaining'', JStr (Itoa tot)), (''currency'', JStr ''IRR''),
     (''status'', JStr ''open''), (''description'', JStr (fa_credit_order @ payload_field p ''order_number'')),
     (''note'', JStr (TrimSpace note)), (''due_at'', JStr (TrimSpace dueAt)), (''order_id'', JStr orderID),
     (''created_at'', JStr now), (''version'', int_json 1)]"

definition deferred_order :: "string \<Rightarrow> string \<Rightarrow> string \<Rightarrow> fields \<Rightarrow> fields" where
  "deferred_order name phone now om =
    set_all ([(''payment_method'', JStr ''credit_debtor''), (''customer_name'', JStr name)]
      @ (if TrimSpace phone \<noteq> [] then [(''customer_phone'', JStr (TrimSpace phone))] else [])
      @ [(''updated_at'', JStr now)]) om"

definition DeferOrderToDebtor_tx ::
    "8 word list option \<Rightarrow> string \<Rightarrow> string \<Rightarrow> string \<Rightarrow> string \<Rightarrow> string \<Rightarrow> string \<Rightarrow> persistedDB \<Rightarrow> err + persistedDB \<times> string" where
  "DeferOrderToDebtor_tx rnd now orderID name phone dueAt note db =
    (case live db ''order'' orderID of
       None \<Rightarrow> Inl (EOrder ErrOrderMissing)
     | Some e \<Rightarrow>
        (case as_map (se_Payload e) of
           None \<Rightarrow> Inl (EData ErrJSON)
         | Some om \<Rightarrow>
            (let p = se_Payload e; tot = parseBigIntSafe (PriceIRR (entity_view e))
             in if ToLower (payload_field p ''status'') \<in> {''cancelled'', ''canceled''} then Inl (EOrder ErrOrderCancelled)
                else if EqualFold (payload_field p ''payment_method'') ''credit_debtor'' then Inl (EOrder ErrAlreadyDebtor)
                else if tot \<le> 0 then Inl (EOrder ErrAmount)
                else (case UUID rnd of
                        Inl er \<Rightarrow> Inl er
                      | Inr debtID \<Rightarrow>
                         Inr (putEntity (entityKey ''order'' orderID) (bump (marshal (deferred_order name phone now om)) e)
                           (putEntity (entityKey ''debtor'' debtID)
                             (new_record ''debtor'' debtID (deferred_debt debtID name phone dueAt note orderID now tot p)) db),
                           debtID)))))"

definition DeferOrderToDebtor ::
    "io \<Rightarrow> 8 word list option \<Rightarrow> string \<Rightarrow> string \<Rightarrow> string \<Rightarrow> string \<Rightarrow> string \<Rightarrow> string \<Rightarrow> Store \<Rightarrow> Store \<times> (err + string)" where
  "DeferOrderToDebtor w rnd now orderID name0 phone dueAt note s =
    (let name = TrimSpace name0
     in if length (runes name) < 2 then (s, Inl (EOrder ErrNameShort))
        else withTx w (DeferOrderToDebtor_tx rnd now orderID name phone dueAt note) s)"

section \<open>The states of an order\<close>

definition allowedOrderTransitions :: "(string \<times> string list) list" where
  "allowedOrderTransitions =
    [([], [''pending'', ''accepted'', ''preparing'', ''ready'', ''completed'', ''cancelled'']),
     (''pending'', [''accepted'', ''preparing'', ''ready'', ''completed'', ''cancelled'']),
     (''accepted'', [''preparing'', ''ready'', ''completed'', ''cancelled'']),
     (''preparing'', [''ready'', ''completed'', ''cancelled'']),
     (''ready'', [''completed'', ''cancelled'']),
     (''completed'', []), (''cancelled'', []), (''canceled'', [])]"

definition norm_status :: "string \<Rightarrow> string" where
  "norm_status st = ToLower (TrimSpace st)"

definition validOrderTransition :: "string \<Rightarrow> string \<Rightarrow> bool" where
  "validOrderTransition from0 to0 =
    (let from = norm_status from0; to = norm_status to0
     in from = to \<or> (case map_of allowedOrderTransitions from of None \<Rightarrow> False | Some ts \<Rightarrow> list_ex (\<lambda>t. t = to) ts))"

text \<open>The stages the cash desk offers, from \<open>app.go\<close>.\<close>

definition orderStatusKey :: "string \<Rightarrow> string" where
  "orderStatusKey raw =
    (let st = norm_status raw
     in if st = ''accepted'' then ''ACCEPTED'' else if st = ''preparing'' then ''PREPARING''
        else if st = ''ready'' then ''READY'' else if st = ''completed'' then ''COMPLETED''
        else if st = ''cancelled'' \<or> st = ''canceled'' then ''CANCELLED''
        else if st = ''refunded'' then ''REFUNDED'' else ''PENDING'')"

definition stage_labels :: "(string \<times> string) list" where
  "stage_labels =
    [(''accepted'', (fa [0x62A, 0x623, 0x6CC, 0x6CC, 0x62F, 0x20, 0x633, 0x641, 0x627, 0x631, 0x634])), (''preparing'', (fa [0x634, 0x631, 0x648, 0x639, 0x20, 0x622, 0x645, 0x627, 0x62F, 0x647, 0x200C, 0x633, 0x627, 0x632, 0x6CC])), (''ready'', (fa [0x622, 0x645, 0x627, 0x62F, 0x647, 0x20, 0x62A, 0x62D, 0x648, 0x6CC, 0x644]))]"

definition stage_chain :: "string list" where
  "stage_chain = [''accepted'', ''preparing'', ''ready'']"

definition orderAdvanceTarget :: "string \<Rightarrow> string list \<Rightarrow> string \<times> string" where
  "orderAdvanceTarget statusKey stages =
    (if statusKey \<notin> set stage_chain \<and> statusKey \<noteq> ''pending'' then ([], [])
     else
       (let later = (if statusKey = ''pending'' then stage_chain else tl (dropWhile (\<lambda>k. k \<noteq> statusKey) stage_chain))
        in case List.find (\<lambda>k. k \<in> set stages) later of
             None \<Rightarrow> ([], [])
           | Some k \<Rightarrow> (k, case map_of stage_labels k of None \<Rightarrow> [] | Some l \<Rightarrow> l)))"

definition fa_complete :: string where "fa_complete = (fa [0x62A, 0x6A9, 0x645, 0x6CC, 0x644, 0x20, 0x648, 0x20, 0x62A, 0x633, 0x648, 0x6CC, 0x647])"

definition orderPrimaryAction :: "string \<Rightarrow> string list \<Rightarrow> string \<times> string" where
  "orderPrimaryAction statusKey stages =
    (case orderAdvanceTarget statusKey stages of
       (t, l) \<Rightarrow> if t \<noteq> [] then (t, l)
         else if open_status statusKey then (''completed'', fa_complete) else ([], []))"

definition posEnabledStages :: "io \<Rightarrow> Store \<Rightarrow> string list" where
  "posEnabledStages w s =
    (let default_stages = [''accepted'', ''preparing'', ''ready'']
     in case EntityOf w ''cafe_profile'' ''cafe-main-profile'' s of
          Inl e \<Rightarrow> default_stages
        | Inr prof \<Rightarrow>
           (let raw = TrimSpace (Field prof ''pos_stages'')
            in if raw = [] then default_stages
               else filter (\<lambda>p. p \<in> set stage_chain) (map (\<lambda>part. TrimSpace (ToLower part)) (SplitChar raw (CHR '','')))))"

end
