(* ===== verification/Orders_Props.thy ===== *)
theory Orders_Props
  imports Orders
begin

text \<open>
  What the order operations guarantee: the totals of a new order and how they read back, the
  client token that makes a repeated submission harmless, the one-way machine of states,
  and the exchange of tables in a transfer.
\<close>

section \<open>Reading a record back\<close>

lemma members_of_sort:
  assumes "length (members_of name m) \<le> 1"
  shows "members_of name (sort_key fst m) = members_of name m"
proof -
  let ?P = "\<lambda>(k, v). EqualFold k name"
  have ms: "mset (filter ?P (sort_key fst m)) = mset (filter ?P m)" by simp
  have "filter ?P (sort_key fst m) = filter ?P m"
  proof (cases "filter ?P m")
    case Nil
    then show ?thesis using ms by (metis mset_zero_iff)
  next
    case (Cons x xs)
    then have "filter ?P m = [x]" using assms by (simp add: members_of_def)
    then show ?thesis using ms by (metis mset_single_iff mset_single_iff_right)
  qed
  then show ?thesis by (simp add: members_of_def)
qed

lemma string_field_sort: "length (members_of name m) \<le> 1 \<Longrightarrow> string_field name (sort_key fst m) = string_field name m"
  and int_field_sort: "length (members_of name m) \<le> 1 \<Longrightarrow> int_field name (sort_key fst m) = int_field name m"
  and raw_field_sort: "length (members_of name m) \<le> 1 \<Longrightarrow> raw_field name (sort_key fst m) = raw_field name m"
  by (simp_all add: string_field_def int_field_def raw_field_def members_of_sort)

lemma dec_str_one: "dec_string c [JStr s] = Some s" by simp

text \<open>Amounts written as quoted decimal texts.\<close>

lemma plain_Itoa: "list_all plain (Itoa i)"
proof -
  have "is_digit c \<Longrightarrow> plain c" for c
    by (auto simp: is_digit_def plain_def)
  moreover have "plain (CHR ''-'')" by (simp add: plain_def)
  ultimately show ?thesis using nat_text_digits by (auto simp: Itoa_def list_all_iff)
qed

lemma quote_notin_Itoa: "CHR 0x22 \<notin> set (Itoa i)"
  using plain_Itoa [of i] by (auto simp: list_all_iff plain_def)

lemma TrimChar_quoted: "CHR 0x22 \<notin> set s \<Longrightarrow> TrimChar (CHR 0x22 # s @ [CHR 0x22]) (CHR 0x22) = s"
proof -
  assume s: "CHR 0x22 \<notin> set s"
  have "dropWhile (\<lambda>x. x = CHR 0x22) (s @ [CHR 0x22]) = s @ [CHR 0x22] \<or> s = []"
    using s by (cases s) auto
  moreover have "dropWhile (\<lambda>x. x = CHR 0x22) (rev s) = rev s"
    using s by (cases "rev s") (auto simp: in_set_conv_decomp)
  ultimately show ?thesis by (auto simp: TrimChar_def TrimRightChar_def)
qed

lemma raw_text_Itoa: "TrimChar (raw_text (Some (JStr (Itoa i)))) (CHR 0x22) = Itoa i"
  by (simp add: raw_text_def str_text_plain plain_Itoa TrimChar_quoted quote_notin_Itoa)

lemma Itoa_not_null: "Itoa i \<noteq> ''null''"
proof
  assume "Itoa i = ''null''"
  then have "SetString ''null'' = Some i" by (metis SetString_Itoa)
  then show False by (simp add: SetString_def parse_nat_def is_digit_def)
qed

section \<open>The lines of an order\<close>

definition valid_item :: "POSOrderLineInput \<Rightarrow> bool" where
  "valid_item it \<longleftrightarrow> TrimSpace (li_ProductID it) \<noteq> [] \<and> 0 < li_Quantity it"

text \<open>The reference: the price list of the moment, and the sum of price times quantity.\<close>

definition menu_price :: "persistedDB \<Rightarrow> string \<Rightarrow> int" where
  "menu_price db i = (case live db ''product'' i of None \<Rightarrow> 0 | Some p \<Rightarrow> parseBigIntSafe (PriceIRR (entity_view p)))"

definition items_sum :: "persistedDB \<Rightarrow> POSOrderLineInput list \<Rightarrow> int" where
  "items_sum db items =
    sum_list (map (\<lambda>it. menu_price db (li_ProductID it) * li_Quantity it) (filter valid_item items))"

definition line_of :: "persistedDB \<Rightarrow> string \<Rightarrow> POSOrderLineInput \<Rightarrow> fields \<Rightarrow> bool" where
  "line_of db i it l \<longleftrightarrow> (\<exists>p. live db ''product'' (li_ProductID it) = Some p \<and>
     l = line_fields i it (entity_view p) (menu_price db (li_ProductID it))
       (menu_price db (li_ProductID it) * li_Quantity it))"

lemma order_lines_acc:
  assumes "foldE (add_line gen db) items (a, ls) = Inr (sub, lines)"
  shows "sub = a + items_sum db items \<and>
    (\<exists>new. lines = ls @ new \<and> list_all2 (\<lambda>it l. \<exists>i. line_of db i it l) (filter valid_item items) new)"
  using assms
proof (induction items arbitrary: a ls)
  case Nil
  then show ?case by (simp add: items_sum_def)
next
  case (Cons it items)
  show ?case
  proof (cases "valid_item it")
    case False
    then have "add_line gen db it (a, ls) = Inr (a, ls)" by (auto simp: add_line_def valid_item_def)
    with Cons False show ?thesis by (simp add: items_sum_def)
  next
    case True
    then have nb: "\<not> (TrimSpace (li_ProductID it) = [] \<or> li_Quantity it \<le> 0)" by (auto simp: valid_item_def)
    from Cons.prems obtain p where p: "live db ''product'' (li_ProductID it) = Some p"
      using nb by (cases "live db ''product'' (li_ProductID it)") (auto simp: add_line_def)
    let ?t = "menu_price db (li_ProductID it) * li_Quantity it"
    let ?i = "uuid_or_empty (gen (length ls))"
    let ?l = "line_fields ?i it (entity_view p) (menu_price db (li_ProductID it)) ?t"
    have step: "add_line gen db it (a, ls) = Inr (a + ?t, ls @ [?l])"
      using nb p by (simp add: add_line_def menu_price_def Let_def)
    have "line_of db ?i it ?l" using p by (auto simp: line_of_def)
    moreover from Cons.prems step have "foldE (add_line gen db) items (a + ?t, ls @ [?l]) = Inr (sub, lines)" by simp
    note Cons.IH [OF this]
    ultimately show ?thesis using True by (auto simp: items_sum_def)
  qed
qed

lemma order_lines_ok:
  assumes "order_lines gen db items = Inr (sub, lines)"
  shows "sub = items_sum db items"
    and "list_all2 (\<lambda>it l. \<exists>i. line_of db i it l) (filter valid_item items) lines"
  using order_lines_acc [of gen db items 0 "[]" sub lines] assms by (auto simp: order_lines_def)

lemma line_members:
  "members_of ''id'' (line_fields i it ent u t) = [JStr i]"
  "members_of ''product_id'' (line_fields i it ent u t) = [JStr (li_ProductID it)]"
  "members_of ''product_name_snapshot'' (line_fields i it ent u t) = [JStr (Label ent)]"
  "members_of ''title'' (line_fields i it ent u t) = []"
  "members_of ''quantity'' (line_fields i it ent u t) = [int_json (li_Quantity it)]"
  "members_of ''unit_price_irr'' (line_fields i it ent u t) = [JStr (Itoa u)]"
  "members_of ''line_total_irr'' (line_fields i it ent u t) = [JStr (Itoa t)]"
  "members_of ''note'' (line_fields i it ent u t) = [JStr (TrimSpace (li_Note it))]"
  by (simp_all add: members_of_def line_fields_def EqualFold_def HasPrefix_def lower_ascii_def)

lemma order_line_read:
  assumes "in64 (li_Quantity it)"
  shows "order_line (marshal (line_fields i it ent u t)) =
     Some \<lparr> ov_ID = i, ov_ProductID = li_ProductID it,
       ov_ProductName = (if Label ent \<noteq> [] then Label ent else li_ProductID it),
       ov_Quantity = li_Quantity it, ov_UnitPrice = Itoa u, ov_LineTotal = Itoa t,
       ov_Note = TrimSpace (li_Note it) \<rparr>"
proof -
  let ?m = "line_fields i it ent u t"
  have "string_field ''id'' (sort_key fst ?m) = Some i"
    "string_field ''product_id'' (sort_key fst ?m) = Some (li_ProductID it)"
    "string_field ''product_name_snapshot'' (sort_key fst ?m) = Some (Label ent)"
    "string_field ''title'' (sort_key fst ?m) = Some []"
    "string_field ''note'' (sort_key fst ?m) = Some (TrimSpace (li_Note it))"
    by (simp_all add: string_field_sort line_members, simp_all add: string_field_def line_members)
  moreover have "int_field ''quantity'' (sort_key fst ?m) = Some (li_Quantity it)"
    by (simp add: int_field_sort line_members) (simp add: int_field_def line_members int_json_def Atoi_Itoa [OF assms])
  moreover have "raw_field ''unit_price_irr'' (sort_key fst ?m) = Some (JStr (Itoa u))"
    "raw_field ''line_total_irr'' (sort_key fst ?m) = Some (JStr (Itoa t))"
    by (simp_all add: raw_field_sort line_members, simp_all add: raw_field_def line_members)
  ultimately show ?thesis
    by (simp add: order_line_def marshal_def raw_price_def raw_text_Itoa Itoa_not_null)
qed

lemma order_lines_read:
  assumes "list_all2 (\<lambda>it l. \<exists>i. line_of db i it l) items lines" and "\<forall>it \<in> set items. in64 (li_Quantity it)"
  shows "\<exists>vs. those (map order_line (map marshal lines)) = Some vs
    \<and> map (\<lambda>v. parseBigIntSafe (ov_LineTotal v)) vs = map (\<lambda>it. menu_price db (li_ProductID it) * li_Quantity it) items
    \<and> map ov_ProductID vs = map li_ProductID items \<and> map ov_Quantity vs = map li_Quantity items"
  using assms
proof (induction rule: list_all2_induct)
  case (Cons it items l lines)
  from Cons.hyps(1) obtain i p where "l = line_fields i it (entity_view p) (menu_price db (li_ProductID it))
      (menu_price db (li_ProductID it) * li_Quantity it)" by (auto simp: line_of_def)
  with Cons order_line_read [of it i "entity_view p"] show ?case by auto
qed simp


section \<open>Placing an order\<close>

lemma order_key_other [simp]:
  "entityKey ''order'' j \<noteq> entityKey ''table'' i" "entityKey ''order'' j \<noteq> entityKey ''customer'' i"
  "entityKey ''order'' j \<noteq> entityKey ''debtor'' i" "entityKey ''order'' j \<noteq> entityKey ''product'' i"
  "entityKey ''table'' j \<noteq> entityKey ''order'' i" "entityKey ''customer'' j \<noteq> entityKey ''order'' i"
  "entityKey ''debtor'' j \<noteq> entityKey ''order'' i" "entityKey ''product'' j \<noteq> entityKey ''order'' i"
  by (simp_all add: entityKey_def)

text \<open>A rewrite of a live record keeps the database well formed.\<close>

lemma wf_db_bump: "wf_db db \<Longrightarrow> live db kind i = Some e \<Longrightarrow> wf_db (putEntity (entityKey kind i) (bump p e) db)"
  by (rule wf_db_put) (auto simp: getEntity_live dest: wf_db_key)

lemma wf_db_new: "wf_db db \<Longrightarrow> wf_db (putEntity (entityKey kind i) (new_record kind i m) db)"
  by (rule wf_db_put) (simp_all add: new_record_def)

text \<open>What a step does outside of the orders.\<close>

definition orders_kept :: "persistedDB \<Rightarrow> persistedDB \<Rightarrow> bool" where
  "orders_kept db db' \<longleftrightarrow> (\<forall>j. getEntity db' (entityKey ''order'' j) = getEntity db (entityKey ''order'' j))
     \<and> (wf_db db \<longrightarrow> wf_db db')"

lemma orders_kept_refl [simp]: "orders_kept db db"
  by (simp add: orders_kept_def)

lemma orders_kept_trans: "orders_kept a b \<Longrightarrow> orders_kept b c \<Longrightarrow> orders_kept a c"
  by (simp add: orders_kept_def)

lemma occupy_table_kept: "orders_kept db (snd (occupy_table tableID orderID db))"
  by (auto simp: occupy_table_def orders_kept_def wf_db_bump split: option.splits)

lemma credit_customer_kept: "orders_kept db (snd (snd (credit_customer c name phone tot db)))"
  by (auto simp: credit_customer_def orders_kept_def wf_db_bump Let_def split: option.splits)

definition debtor_step :: "bool \<Rightarrow> string \<Rightarrow> fields \<Rightarrow> persistedDB \<Rightarrow> persistedDB" where
  "debtor_step b i m db = (if b then putEntity (entityKey ''debtor'' i) (new_record ''debtor'' i m) db else db)"

lemma debtor_step_kept: "orders_kept db (debtor_step b i m db)"
  by (auto simp: debtor_step_def orders_kept_def wf_db_new)

definition new_total :: "POSOrderInput \<Rightarrow> int \<Rightarrow> int" where
  "new_total req sub = order_total sub (clamp_discount sub (parseBigIntSafe (pi_DiscountIRR req)))
     (clamp_extra (parseBigIntSafe (pi_ExtraIRR req)))"

lemma place_order_shape:
  "\<exists>db3 ft pm lbl name phone. orders_kept db db3 \<and>
     place_order gen orderID num now req sub lines db =
       putEntity (entityKey ''order'' orderID) (new_record ''order'' orderID
         (order_fields orderID num ft pm lbl name phone sub (clamp_discount sub (parseBigIntSafe (pi_DiscountIRR req)))
           (clamp_extra (parseBigIntSafe (pi_ExtraIRR req))) (new_total req sub) lines now req)) db3"
proof -
  obtain lbl db1 where t: "occupy_table (pi_TableID req) orderID db = (lbl, db1)" by (cases "occupy_table (pi_TableID req) orderID db")
  obtain name phone db2 where c: "credit_customer (pi_CustomerID req) (TrimSpace (pi_CustomerName req))
      (TrimSpace (pi_CustomerPhone req)) (new_total req sub) db1 = (name, phone, db2)"
    using prod_cases3 by blast
  define pm where "pm = (let t = TrimSpace (pi_PaymentMethod req) in if t = [] then ''card_pos'' else t)"
  define nm where "nm = (if name = [] then fa_guest else name)"
  define db3 where "db3 = debtor_step (pm = ''credit_debtor'') (uuid_or_empty (gen (length lines)))
    (debtor_fields (uuid_or_empty (gen (length lines))) nm phone num (new_total req sub) orderID now req) db2"
  have "orders_kept db db1" "orders_kept db1 db2" "orders_kept db2 db3"
    using occupy_table_kept [of db "pi_TableID req" orderID] t
      credit_customer_kept [of db1 "pi_CustomerID req" "TrimSpace (pi_CustomerName req)"
        "TrimSpace (pi_CustomerPhone req)" "new_total req sub"] c
    by (simp_all add: db3_def debtor_step_kept)
  then have "orders_kept db db3" by (blast intro: orders_kept_trans)
  moreover have "place_order gen orderID num now req sub lines db =
       putEntity (entityKey ''order'' orderID) (new_record ''order'' orderID
         (order_fields orderID num (let t = TrimSpace (pi_FulfillmentType req) in if t = [] then ''dine_in'' else t) pm lbl nm phone
           sub (clamp_discount sub (parseBigIntSafe (pi_DiscountIRR req)))
           (clamp_extra (parseBigIntSafe (pi_ExtraIRR req))) (new_total req sub) lines now req)) db3"
    by (simp add: place_order_def t c [unfolded new_total_def] pm_def nm_def db3_def debtor_step_def new_total_def Let_def)
  ultimately show ?thesis by blast
qed

lemma gmap_order_fields: "gmap (order_fields i num ft pm lbl name phone sub d x tot lines now req)"
  by (simp add: gmap_def order_fields_def)

text \<open>Reading the amounts and the lines of a stored order.\<close>

lemma order_fields_read:
  assumes "e = new_record ''order'' i (order_fields i num ft pm lbl name phone sub d x tot lines now req)"
  shows "payload_field (se_Payload e) ''subtotal_irr'' = Itoa sub" "payload_field (se_Payload e) ''discount_irr'' = Itoa d"
    "payload_field (se_Payload e) ''extra_irr'' = Itoa x" "payload_field (se_Payload e) ''total_irr'' = Itoa tot"
    "payload_field (se_Payload e) ''status'' = ''pending''"
    "payload_field (se_Payload e) ''client_token'' = TrimSpace (pi_ClientToken req)"
    "PriceIRR (entity_view e) = Itoa tot"
  using gmap_order_fields [of i num ft pm lbl name phone sub d x tot lines now req]
  by (simp_all add: assms new_record_def order_fields_def PriceIRR_def Field_def entity_view_def)

lemma order_items_read:
  assumes "e = new_record ''order'' i (order_fields i num ft pm lbl name phone sub d x tot lines now req)"
    and "those (map order_line (map marshal lines)) = Some vs"
  shows "OrderItems (entity_view e) = vs"
proof -
  let ?m = "order_fields i num ft pm lbl name phone sub d x tot lines now req"
  have "members_of ''items'' ?m = [lines_json lines]"
    by (simp add: members_of_def order_fields_def EqualFold_def HasPrefix_def lower_ascii_def)
  then have "raw_field ''items'' (sort_key fst ?m) = Some (lines_json lines)"
    by (simp add: raw_field_sort) (simp add: raw_field_def)
  then show ?thesis
    using assms(2) by (simp add: assms(1) OrderItems_def entity_view_def new_record_def marshal_def array_field_def lines_json_def)
qed

lemma CreatePOSOrder_ok:
  assumes "CreatePOSOrder w day today rnd gen now req s = (s', Inr i)"
  obtains oid where "UUID rnd = Inr oid" "CreatePOSOrder_tx day today gen oid now req (state s) = Inr (state s', i)"
  using assms by (auto simp: CreatePOSOrder_def dest: withTx_ok split: if_splits sum.splits)

lemma CreatePOSOrder_tx_new:
  assumes "CreatePOSOrder_tx day today gen oid now req db = Inr (db', i)"
    and "TrimSpace (pi_ClientToken req) = [] \<or> find_token db (TrimSpace (pi_ClientToken req)) = None"
  obtains sub lines num where "order_lines gen db (pi_Items req) = Inr (sub, lines)" "lines \<noteq> []" "i = oid"
    "db' = place_order gen oid num now req sub lines db"
  using assms by (auto simp: CreatePOSOrder_tx_def Let_def split: if_splits sum.splits option.splits)

text \<open>
  C13. The bill of a new order. The subtotal is the sum of the current menu price times the
  quantity over the valid lines; the discount lies between zero and the subtotal, the extra
  charge is not negative, the total is exactly subtotal minus discount plus extra; and
  the lines that are stored read back with the same products and quantities and with line
  totals that add up to the subtotal.
\<close>

theorem CreatePOSOrder_bill:
  assumes "CreatePOSOrder w day today rnd gen now req s = (s', Inr i)"
    and "TrimSpace (pi_ClientToken req) = [] \<or> find_token (state s) (TrimSpace (pi_ClientToken req)) = None"
    and "\<forall>it \<in> set (pi_Items req). in64 (li_Quantity it) \<and> 0 \<le> menu_price (state s) (li_ProductID it)"
  shows "\<exists>e d x. live (state s') ''order'' i = Some e
    \<and> payload_field (se_Payload e) ''subtotal_irr'' = Itoa (items_sum (state s) (pi_Items req))
    \<and> payload_field (se_Payload e) ''discount_irr'' = Itoa d \<and> payload_field (se_Payload e) ''extra_irr'' = Itoa x
    \<and> 0 \<le> d \<and> d \<le> items_sum (state s) (pi_Items req) \<and> 0 \<le> x
    \<and> PriceIRR (entity_view e) = Itoa (items_sum (state s) (pi_Items req) - d + x)
    \<and> map ov_ProductID (OrderItems (entity_view e)) = map li_ProductID (filter valid_item (pi_Items req))
    \<and> map ov_Quantity (OrderItems (entity_view e)) = map li_Quantity (filter valid_item (pi_Items req))
    \<and> sum_list (map (\<lambda>v. parseBigIntSafe (ov_LineTotal v)) (OrderItems (entity_view e)))
        = items_sum (state s) (pi_Items req)"
proof -
  from assms(1) obtain oid where tx: "CreatePOSOrder_tx day today gen oid now req (state s) = Inr (state s', i)"
    by (rule CreatePOSOrder_ok)
  from CreatePOSOrder_tx_new [OF tx assms(2)] obtain sub lines num where
    lines: "order_lines gen (state s) (pi_Items req) = Inr (sub, lines)" and [simp]: "i = oid"
    and s': "state s' = place_order gen oid num now req sub lines (state s)" .
  let ?d = "clamp_discount sub (parseBigIntSafe (pi_DiscountIRR req))"
  let ?x = "clamp_extra (parseBigIntSafe (pi_ExtraIRR req))"
  from place_order_shape [of "state s" gen oid num now req sub lines] obtain db3 ft pm lbl name phone e where
    e: "e = new_record ''order'' oid (order_fields oid num ft pm lbl name phone sub ?d ?x (new_total req sub) lines now req)"
    and put: "state s' = putEntity (entityKey ''order'' oid) e db3" using s' by metis
  note read = order_fields_read [OF e]
  have sub: "sub = items_sum (state s) (pi_Items req)" by (rule order_lines_ok(1) [OF lines])
  have "0 \<le> sub" unfolding sub items_sum_def
    using assms(3) by (intro sum_list_nonneg) (auto simp: valid_item_def)
  then have d: "0 \<le> ?d" "?d \<le> sub" "0 \<le> ?x" "new_total req sub = sub - ?d + ?x"
    by (auto simp: clamp_discount_def clamp_extra_def new_total_def order_total_def Let_def)
  from order_lines_read [OF order_lines_ok(2) [OF lines]] assms(3) obtain vs where
    vs: "those (map order_line (map marshal lines)) = Some vs"
    "map (\<lambda>v. parseBigIntSafe (ov_LineTotal v)) vs =
       map (\<lambda>it. menu_price (state s) (li_ProductID it) * li_Quantity it) (filter valid_item (pi_Items req))"
    "map ov_ProductID vs = map li_ProductID (filter valid_item (pi_Items req))"
    "map ov_Quantity vs = map li_Quantity (filter valid_item (pi_Items req))" by auto
  have "\<not> se_Deleted e" by (simp add: e new_record_def)
  then have live: "live (state s') ''order'' i = Some e" by (simp add: put)
  show ?thesis
    using d sub vs order_items_read [OF e vs(1)] live
    by (intro exI [of _ e] exI [of _ ?d] exI [of _ ?x]) (simp add: read items_sum_def)
qed


definition demo_menu :: Store where
  "demo_menu = demo_store\<lparr>state := putEntity (entityKey ''product'' ''p1'')
     (new_record ''product'' ''p1'' [(''title'', JStr ''Latte''), (''price'', JStr (Itoa 950000))]) newEmptyDB\<rparr>"

definition demo_req :: "string \<Rightarrow> POSOrderInput" where
  "demo_req token = \<lparr> pi_ClientToken = token, pi_FulfillmentType = [], pi_TableID = [], pi_CustomerID = [],
     pi_CustomerName = [], pi_CustomerPhone = [], pi_CashierName = [], pi_PaymentMethod = [],
     pi_DiscountIRR = Itoa 100000, pi_ExtraIRR = [], pi_ExtraNote = [], pi_DebtorDueAt = [], pi_DebtorNote = [],
     pi_DebtorKind = [], pi_DebtorGroupID = [], pi_Note = [],
     pi_Items = [\<lparr> li_ProductID = ''p1'', li_Quantity = 3, li_Note = [] \<rparr>] \<rparr>"

definition demo_gen :: gen where
  "demo_gen n = demo_uuid (n + 20)"

abbreviation no_day :: "string \<Rightarrow> date option" where
  "no_day \<equiv> \<lambda>_. None"

definition demo_order :: "string \<Rightarrow> Store \<times> (err + string)" where
  "demo_order token = CreatePOSOrder all_ok no_day (2026, 1, 1) (demo_uuid 9) demo_gen ''t1'' (demo_req token) demo_menu"

lemma demo_menu_price: "menu_price (state demo_menu) ''p1'' = 950000"
proof -
  have "gmap [(''title'', JStr ''Latte''), (''price'', JStr (Itoa 950000))]" by (simp add: gmap_def)
  then show ?thesis
    by (simp add: menu_price_def demo_menu_def new_record_def PriceIRR_def Field_def entity_view_def)
qed

lemma wf_demo_menu: "wf_db (state demo_menu)"
  using wf_db_new [OF wf_db_empty] by (simp add: demo_menu_def)

lemma demo_no_token: "find_token (state demo_menu) token = None"
  by (simp add: find_token_def demo_menu_def putEntity_def newEmptyDB_def new_record_def)

lemma demo_order_run: "demo_order token = (fst (demo_order token), Inr (demo_id 9))"
proof -
  have "TrimSpace ''p1'' = ''p1''" by (rule TrimSpace_graph) (simp_all add: graph_def)
  moreover have "\<exists>p. live (state demo_menu) ''product'' ''p1'' = Some p" by (simp add: demo_menu_def new_record_def)
  ultimately obtain sub lines where "order_lines demo_gen (state demo_menu) (pi_Items (demo_req token)) = Inr (sub, lines)"
    "lines \<noteq> []" by (auto simp: order_lines_def demo_req_def add_line_def Let_def)
  moreover have "(if TrimSpace (pi_ClientToken (demo_req token)) \<noteq> [] then find_token (state demo_menu)
      (TrimSpace (pi_ClientToken (demo_req token))) else None) = None" by (simp add: demo_no_token)
  ultimately obtain db where tx: "CreatePOSOrder_tx no_day (2026, 1, 1) demo_gen (demo_id 9) ''t1'' (demo_req token) (state demo_menu)
      = Inr (db, demo_id 9)" unfolding CreatePOSOrder_tx_def Let_def by simp
  have "\<not> closed demo_menu" by (simp add: demo_menu_def demo_store_def)
  from withTx_all_ok [of demo_menu "CreatePOSOrder_tx no_day (2026, 1, 1) demo_gen (demo_id 9) ''t1'' (demo_req token)", OF this tx]
  show ?thesis by (simp add: demo_order_def CreatePOSOrder_def demo_id_eq demo_req_def)
qed

theorem CreatePOSOrder_bill_witness:
  "\<exists>e d. live (state (fst (demo_order ''k1''))) ''order'' (demo_id 9) = Some e
     \<and> payload_field (se_Payload e) ''subtotal_irr'' = Itoa 2850000 \<and> d \<le> (2850000 :: int)"
proof -
  have run: "CreatePOSOrder all_ok no_day (2026, 1, 1) (demo_uuid 9) demo_gen ''t1'' (demo_req ''k1'') demo_menu
      = (fst (demo_order ''k1''), Inr (demo_id 9))" using demo_order_run by (simp add: demo_order_def)
  have "TrimSpace ''p1'' = ''p1''" by (rule TrimSpace_graph) (simp_all add: graph_def)
  then have "items_sum (state demo_menu) (pi_Items (demo_req ''k1'')) = 2850000"
    by (simp add: items_sum_def demo_req_def valid_item_def demo_menu_price)
  moreover have "\<forall>it \<in> set (pi_Items (demo_req ''k1'')). in64 (li_Quantity it) \<and> 0 \<le> menu_price (state demo_menu) (li_ProductID it)"
    by (simp add: demo_req_def demo_menu_price in64_def)
  ultimately show ?thesis using CreatePOSOrder_bill [OF run] demo_no_token by metis
qed

section \<open>Submitting twice\<close>

lemma find_token_Some:
  assumes "find_token db t = Some e" "wf_db db"
  shows "getEntity db (entityKey ''order'' (se_ID e)) = Some e \<and> \<not> se_Deleted e \<and> se_Type e = ''order''
    \<and> payload_field (se_Payload e) ''client_token'' = t"
proof -
  from assms(1) have e: "e \<in> set (map snd (Entities db))" "\<not> se_Deleted e" "se_Type e = ''order''"
    "payload_field (se_Payload e) ''client_token'' = t" by (auto simp: find_token_def find_Some_iff)
  from e(1) obtain k where k: "(k, e) \<in> set (Entities db)" by auto
  with assms(2) have "getEntity db k = Some e" by (simp add: getEntity_def wf_db_def gmap_in_set)
  with wf_db_key [OF assms(2) this] e show ?thesis by simp
qed

lemma find_token_None:
  assumes "find_token db t = None" "getEntity db k = Some e" "\<not> se_Deleted e" "se_Type e = ''order''"
  shows "payload_field (se_Payload e) ''client_token'' \<noteq> t"
proof -
  have "e \<in> set (map snd (Entities db))" using assms(2) by (force simp: getEntity_def dest: map_of_SomeD)
  then show ?thesis using assms(1,3,4) by (auto simp: find_token_def find_None_iff)
qed

lemma token_after_placing:
  assumes "find_token db t = None" "wf_db db" "t = TrimSpace (pi_ClientToken req)"
  shows "\<exists>e. find_token (place_order gen oid num now req sub lines db) t = Some e \<and> se_ID e = oid"
proof -
  let ?db' = "place_order gen oid num now req sub lines db"
  from place_order_shape [of db gen oid num now req sub lines] obtain db3 ft pm lbl name phone e where
    kept: "orders_kept db db3" and
    e: "e = new_record ''order'' oid (order_fields oid num ft pm lbl name phone sub (clamp_discount sub (parseBigIntSafe (pi_DiscountIRR req)))
      (clamp_extra (parseBigIntSafe (pi_ExtraIRR req))) (new_total req sub) lines now req)"
    and put: "?db' = putEntity (entityKey ''order'' oid) e db3" by metis
  have wf': "wf_db ?db'" using kept assms(2) by (simp add: put e wf_db_new orders_kept_def)
  have at: "getEntity ?db' (entityKey ''order'' oid) = Some e" by (simp add: put)
  have "find_token ?db' t \<noteq> None"
    using find_token_None [OF _ at] order_fields_read(6) [OF e] assms(3) by (auto simp: e new_record_def)
  then obtain e' where e': "find_token ?db' t = Some e'" by blast
  note f = find_token_Some [OF e' wf']
  have "se_ID e' = oid"
  proof (rule ccontr)
    assume "se_ID e' \<noteq> oid"
    then have "getEntity db (entityKey ''order'' (se_ID e')) = Some e'"
      using f kept by (simp add: put orders_kept_def)
    then show False using find_token_None [OF assms(1)] f by blast
  qed
  with e' show ?thesis by blast
qed

text \<open>
  C14. A form submitted twice makes one order: a second request with the same client token
  returns the identifier of the first one and leaves the database as it is, whatever else
  the second request holds.
\<close>

theorem CreatePOSOrder_idempotent:
  assumes "CreatePOSOrder w day today rnd gen now req s = (s1, Inr i)" and "wf_db (state s)"
    and "getEntity (state s) (entityKey ''order'' []) = None"
    and "TrimSpace (pi_ClientToken req) \<noteq> []" and "pi_ClientToken req' = pi_ClientToken req"
    and "CreatePOSOrder w' day' today' rnd' gen' now' req' s1 = (s2, r)"
  shows "state s2 = state s1 \<and> (case r of Inr j \<Rightarrow> j = i | Inl e \<Rightarrow> True)"
proof (cases r)
  case (Inl e)
  then show ?thesis
    using assms(6) by (auto simp: CreatePOSOrder_def dest: withTx_err split: if_splits sum.splits)
next
  case (Inr j)
  let ?t = "TrimSpace (pi_ClientToken req)"
  obtain oid where u: "UUID rnd = Inr oid" and tx: "CreatePOSOrder_tx day today gen oid now req (state s) = Inr (state s1, i)"
    using CreatePOSOrder_ok [OF assms(1)] .
  have "\<exists>e. find_token (state s1) ?t = Some e \<and> se_ID e = i \<and> i \<noteq> []"
  proof (cases "find_token (state s) ?t")
    case (Some e)
    then have "se_ID e \<noteq> []" using find_token_Some [OF Some assms(2)] assms(3) by auto
    with Some tx assms(4) show ?thesis by (auto simp: CreatePOSOrder_tx_def)
  next
    case None
    obtain sub lines num where "i = oid" "state s1 = place_order gen oid num now req sub lines (state s)"
      using CreatePOSOrder_tx_new [OF tx] None by blast
    moreover from this have "\<exists>e. find_token (state s1) ?t = Some e \<and> se_ID e = oid"
      using token_after_placing [OF None assms(2) refl] by simp
    ultimately show ?thesis using UUID_ne [OF u] by blast
  qed
  moreover obtain oid' where "CreatePOSOrder_tx day' today' gen' oid' now' req' (state s1) = Inr (state s2, j)"
    using CreatePOSOrder_ok [OF assms(6) [unfolded Inr]] .
  ultimately show ?thesis using assms(4,5) Inr by (auto simp: CreatePOSOrder_tx_def)
qed

theorem CreatePOSOrder_idempotent_witness:
  "state (fst (CreatePOSOrder all_ok no_day (2026, 1, 1) (demo_uuid 10) demo_gen ''t2'' (demo_req ''k1'') (fst (demo_order ''k1''))))
     = state (fst (demo_order ''k1''))"
proof -
  let ?again = "CreatePOSOrder all_ok no_day (2026, 1, 1) (demo_uuid 10) demo_gen ''t2'' (demo_req ''k1'') (fst (demo_order ''k1''))"
  have run: "CreatePOSOrder all_ok no_day (2026, 1, 1) (demo_uuid 9) demo_gen ''t1'' (demo_req ''k1'') demo_menu
      = (fst (demo_order ''k1''), Inr (demo_id 9))" using demo_order_run by (simp add: demo_order_def)
  have "getEntity (state demo_menu) (entityKey ''order'' []) = None"
    by (simp add: demo_menu_def newEmptyDB_def getEntity_def putEntity_def entityKey_def)
  moreover have "TrimSpace (pi_ClientToken (demo_req ''k1'')) \<noteq> []"
    using TrimSpace_graph [of "''k1''"] by (simp add: demo_req_def graph_def)
  moreover have "?again = (fst ?again, snd ?again)" by simp
  ultimately show ?thesis using CreatePOSOrder_idempotent [OF run wf_demo_menu] by blast
qed


section \<open>The machine of order states\<close>

definition status_rank :: "string \<Rightarrow> nat" where
  "status_rank st =
    (if st = [] then 0 else if st = ''pending'' then 1 else if st = ''accepted'' then 2
     else if st = ''preparing'' then 3 else if st = ''ready'' then 4 else 5)"

lemma transition_rank:
  assumes "validOrderTransition a b"
  shows "norm_status a = norm_status b \<or> status_rank (norm_status a) < status_rank (norm_status b)"
  using assms
  by (auto simp: validOrderTransition_def allowedOrderTransitions_def status_rank_def Let_def split: if_splits)

interpretation order_machine: inv_machine "\<lambda>st. norm_status st = norm_status a" validOrderTransition
  "\<lambda>st. norm_status a = norm_status st \<or> status_rank (norm_status a) < status_rank (norm_status st)" for a
  by unfold_locales (auto dest: transition_rank)

text \<open>
  The life of an order only goes forward: along any number of accepted status changes the
  rank never falls, and it stays the same only while the status does. So no order returns to
  an earlier stage, and a completed or cancelled one never changes again.
\<close>

theorem order_status_one_way:
  assumes "validOrderTransition\<^sup>*\<^sup>* a b"
  shows "norm_status b = norm_status a \<or> status_rank (norm_status a) < status_rank (norm_status b)"
  using order_machine.reach_inv [OF refl assms] by auto

theorem order_status_one_way_witness:
  "\<not> validOrderTransition\<^sup>*\<^sup>* ''completed'' ''preparing''"
proof -
  have "TrimSpace ''completed'' = ''completed''" "TrimSpace ''preparing'' = ''preparing''"
    by (rule TrimSpace_graph; simp add: graph_def)+
  then have "norm_status ''completed'' = ''completed''" "norm_status ''preparing'' = ''preparing''"
    by (simp_all add: norm_status_def HasPrefix_def lower_ascii_def)
  then show ?thesis
    using order_status_one_way [of "''completed''" "''preparing''"] by (auto simp: status_rank_def)
qed

lemma norm_literals:
  "norm_status ''pending'' = ''pending''" "norm_status ''accepted'' = ''accepted''"
  "norm_status ''preparing'' = ''preparing''" "norm_status ''ready'' = ''ready''" "norm_status ''completed'' = ''completed''"
proof -
  have "TrimSpace ''pending'' = ''pending''" "TrimSpace ''accepted'' = ''accepted''"
    "TrimSpace ''preparing'' = ''preparing''" "TrimSpace ''ready'' = ''ready''" "TrimSpace ''completed'' = ''completed''"
    by (rule TrimSpace_graph; simp add: graph_def)+
  then show "norm_status ''pending'' = ''pending''" "norm_status ''accepted'' = ''accepted''"
    "norm_status ''preparing'' = ''preparing''" "norm_status ''ready'' = ''ready''" "norm_status ''completed'' = ''completed''"
    by (simp_all add: norm_status_def HasPrefix_def lower_ascii_def)
qed

lemma advance_cases:
  assumes "orderPrimaryAction key stages = (t, l)" "t \<noteq> []"
  shows "(key = ''pending'' \<and> t \<in> {''accepted'', ''preparing'', ''ready'', ''completed''})
    \<or> (key = ''accepted'' \<and> t \<in> {''preparing'', ''ready'', ''completed''})
    \<or> (key = ''preparing'' \<and> t \<in> {''ready'', ''completed''}) \<or> (key = ''ready'' \<and> t = ''completed'')"
  using assms
  by (auto simp: orderPrimaryAction_def orderAdvanceTarget_def stage_chain_def open_status_def Let_def
      split: prod.splits if_splits option.splits)

text \<open>
  The main button of an order never offers what the store would refuse: its target is a
  valid transition from the current status, and a stage that is switched off is never a
  target.
\<close>

theorem primary_action_valid:
  assumes "orderPrimaryAction key stages = (t, l)" and "t \<noteq> []"
  shows "validOrderTransition key t \<and> (t = ''completed'' \<or> t \<in> set stages)"
proof
  show "validOrderTransition key t"
    using advance_cases [OF assms]
    by (elim disjE conjE) (auto simp: validOrderTransition_def allowedOrderTransitions_def norm_literals)
  show "t = ''completed'' \<or> t \<in> set stages"
    using assms
    by (auto simp: orderPrimaryAction_def orderAdvanceTarget_def Let_def find_Some_iff
        split: prod.splits if_splits option.splits)
qed

theorem primary_action_valid_witness:
  "validOrderTransition ''accepted'' ''ready''"
proof -
  have "orderPrimaryAction ''accepted'' [''ready''] = (''ready'', the (map_of stage_labels ''ready''))"
    by (simp add: orderPrimaryAction_def orderAdvanceTarget_def stage_chain_def stage_labels_def fa_def utf8_def)
  from primary_action_valid [OF this] show ?thesis by simp
qed

section \<open>Transfer\<close>

lemma table_busy_wf:
  assumes "wf_db db"
  shows "table_busy db o1 t \<longleftrightarrow> (\<exists>e. getEntity db (entityKey ''order'' (se_ID e)) = Some e \<and> \<not> se_Deleted e
    \<and> se_Type e = ''order'' \<and> se_ID e \<noteq> o1 \<and> payload_field (se_Payload e) ''table_id'' = t
    \<and> open_status (ToLower (payload_field (se_Payload e) ''status'')))" (is "_ \<longleftrightarrow> (\<exists>e. ?P e)")
proof
  assume "table_busy db o1 t"
  then obtain k e where e: "(k, e) \<in> set (Entities db)" "\<not> se_Deleted e" "se_Type e = ''order''" "se_ID e \<noteq> o1"
    "payload_field (se_Payload e) ''table_id'' = t" "open_status (ToLower (payload_field (se_Payload e) ''status''))"
    by (auto simp: table_busy_def list_ex_iff)
  then have "getEntity db k = Some e" using assms by (simp add: getEntity_def wf_db_def gmap_in_set)
  with wf_db_key [OF assms this] e have "?P e" by simp
  then show "\<exists>e. ?P e" by blast
next
  assume "\<exists>e. ?P e"
  then show "table_busy db o1 t"
    by (force simp: table_busy_def list_ex_iff getEntity_def dest: map_of_SomeD)
qed

lemma table_key_other [simp]:
  "entityKey ''table'' t = entityKey ''table'' t' \<longleftrightarrow> t = t'"
  by simp

lemma free_source_kept: "orders_kept db (free_source src o1 db)"
  by (auto simp: free_source_def orders_kept_def wf_db_bump Let_def split: option.splits)

lemma take_target_kept:
  "live db0 ''table'' t = Some e \<Longrightarrow> getEntity db (entityKey ''table'' t) = getEntity db0 (entityKey ''table'' t) \<Longrightarrow>
   orders_kept db (take_target t o1 e db)"
  by (auto simp: take_target_def orders_kept_def wf_db_bump getEntity_live split: option.splits)

definition table_shows :: "persistedDB \<Rightarrow> string \<Rightarrow> string \<Rightarrow> string \<Rightarrow> bool" where
  "table_shows db t st o1 \<longleftrightarrow> (\<exists>e. live db ''table'' t = Some e \<and> payload_field (se_Payload e) ''status'' = st
     \<and> payload_field (se_Payload e) ''current_order_id'' = o1)"

lemma take_target_shows:
  assumes "live db ''table'' t = Some e0" "as_map (se_Payload e) = Some tm" "\<not> se_Deleted e"
  shows "table_shows (take_target t o1 e db) t ''occupied'' o1"
proof -
  have "gmap tm" using assms(2) by (rule as_map_gmap)
  then show ?thesis using assms by (simp add: table_shows_def take_target_def map_of_set_all)
qed

lemma free_source_other: "t \<noteq> src \<Longrightarrow> live (free_source src o1 db) ''table'' t = live db ''table'' t"
  by (auto simp: free_source_def Let_def split: option.splits)

lemma free_source_shows:
  assumes "live db ''table'' src = Some e" "as_map (se_Payload e) = Some sm" "src \<noteq> []"
    "toStr (mget sm ''current_order_id'') = o1"
  shows "table_shows (free_source src o1 db) src ''available'' []"
proof -
  have "gmap sm" using assms(2) by (rule as_map_gmap)
  moreover have "\<not> se_Deleted e" using assms(1) by (simp add: getEntity_live)
  ultimately show ?thesis using assms by (simp add: table_shows_def free_source_def map_of_set_all Let_def)
qed

lemma take_target_other: "t \<noteq> t' \<Longrightarrow> live (take_target t o1 e db) ''table'' t' = live db ''table'' t'"
  by (auto simp: take_target_def split: option.splits)


definition moved_fields :: "string \<Rightarrow> string \<Rightarrow> storedEntity \<Rightarrow> fields \<Rightarrow> fields" where
  "moved_fields now t te om =
    set_all [(''table_id'', JStr t), (''table_label'', JStr (Label (entity_view te))), (''updated_at'', JStr now)] om"

lemma TransferOrder_tx_ok:
  assumes "TransferOrder_tx now o1 t db = Inr (db', u)" and "live db ''order'' o1 = Some e"
  obtains om te where "as_map (se_Payload e) = Some om" "live db ''table'' t = Some te"
    "payload_field (se_Payload e) ''table_id'' \<noteq> t" "\<not> table_busy db o1 t"
    "TrimSpace (payload_field (se_Payload te) ''current_order_id'') = []"
    "db' = take_target t o1 te (free_source (payload_field (se_Payload e) ''table_id'') o1
       (putEntity (entityKey ''order'' o1) (bump (marshal (moved_fields now t te om)) e) db))"
  using assms
  by (auto simp: TransferOrder_tx_def moved_fields_def Let_def split: if_splits option.splits)

text \<open>
  C15. A transfer moves an open order from one table to another and nothing else about it:
  afterwards the order names the target, the target table is occupied by this order, the
  table it left is available again when it was held by this order, the target was free
  before, and no other open order names it.
\<close>

theorem TransferOrder_exchange:
  assumes "TransferOrder w now o1 t0 s = (s', Inr u)" and "wf_db (state s)"
    and "live (state s) ''order'' o1 = Some e" and "src = payload_field (se_Payload e) ''table_id''"
    and "live (state s) ''table'' (TrimSpace t0) = Some te" and "as_map (se_Payload te) \<noteq> None"
  shows "(\<exists>e'. live (state s') ''order'' o1 = Some e' \<and> payload_field (se_Payload e') ''table_id'' = TrimSpace t0
      \<and> payload_field (se_Payload e') ''status'' = payload_field (se_Payload e) ''status''
      \<and> payload_field (se_Payload e') ''total_irr'' = payload_field (se_Payload e) ''total_irr'')
    \<and> table_shows (state s') (TrimSpace t0) ''occupied'' o1
    \<and> TrimSpace (payload_field (se_Payload te) ''current_order_id'') = []
    \<and> \<not> table_busy (state s') o1 (TrimSpace t0)
    \<and> (\<forall>se sm. src \<noteq> [] \<and> live (state s) ''table'' src = Some se \<and> as_map (se_Payload se) = Some sm
         \<and> toStr (mget sm ''current_order_id'') = o1 \<longrightarrow> table_shows (state s') src ''available'' [])"
proof -
  let ?t = "TrimSpace t0" let ?db = "state s"
  from assms(1) have tx: "TransferOrder_tx now o1 ?t ?db = Inr (state s', u)"
    by (auto simp: TransferOrder_def Let_def dest: withTx_ok split: if_splits)
  obtain om where om: "as_map (se_Payload e) = Some om" and ne: "src \<noteq> ?t" and free: "\<not> table_busy ?db o1 ?t"
    and was: "TrimSpace (payload_field (se_Payload te) ''current_order_id'') = []"
    and s': "state s' = take_target ?t o1 te (free_source src o1
       (putEntity (entityKey ''order'' o1) (bump (marshal (moved_fields now ?t te om)) e) ?db))"
    using TransferOrder_tx_ok [OF tx assms(3)] assms(4,5) by (metis option.inject)
  define e' where "e' = bump (marshal (moved_fields now ?t te om)) e"
  define db1 where "db1 = putEntity (entityKey ''order'' o1) e' ?db"
  define db2 where "db2 = free_source src o1 db1"
  have nd: "\<not> se_Deleted e" using assms(3) by (simp add: getEntity_live)
  have s2: "state s' = take_target ?t o1 te db2" by (simp add: s' db2_def db1_def e'_def)
  have wf1: "wf_db db1" unfolding db1_def e'_def using assms(2,3) by (rule wf_db_bump)
  have k2: "orders_kept db1 db2" unfolding db2_def by (rule free_source_kept)
  have t2: "live db2 ''table'' ?t = Some te" using ne assms(5) by (simp add: db2_def free_source_other db1_def)
  then have k3: "orders_kept db2 (state s')" unfolding s2 by (rule take_target_kept) simp
  have kept: "getEntity (state s') (entityKey ''order'' j) = getEntity db1 (entityKey ''order'' j)" for j
    using k2 k3 by (simp add: orders_kept_def)
  have wf': "wf_db (state s')" using wf1 k2 k3 by (simp add: orders_kept_def)
  have g: "gmap om" using om by (rule as_map_gmap)
  have "live (state s') ''order'' o1 = Some e'"
    using nd kept [of o1] by (simp add: getEntity_live db1_def e'_def)
  moreover have "payload_field (se_Payload e') ''table_id'' = ?t"
    "payload_field (se_Payload e') ''status'' = payload_field (se_Payload e) ''status''"
    "payload_field (se_Payload e') ''total_irr'' = payload_field (se_Payload e) ''total_irr''"
    using g om by (simp_all add: e'_def moved_fields_def map_of_set_all payload_field_def [of "se_Payload e"])
  moreover have "table_shows (state s') ?t ''occupied'' o1"
    unfolding s2 using t2 assms(6) by (auto simp: getEntity_live intro: take_target_shows [OF t2])
  moreover have "\<not> table_busy (state s') o1 ?t"
    using free kept by (auto simp: table_busy_wf [OF wf'] table_busy_wf [OF assms(2)] db1_def)
  moreover have "table_shows (state s') src ''available'' []"
    if "src \<noteq> []" "live ?db ''table'' src = Some se" "as_map (se_Payload se) = Some sm"
      "toStr (mget sm ''current_order_id'') = o1" for se sm
  proof -
    have "table_shows db2 src ''available'' []"
      unfolding db2_def using that by (intro free_source_shows [of _ _ se sm]) (simp_all add: db1_def)
    then show ?thesis using ne by (simp add: s2 table_shows_def take_target_other)
  qed
  ultimately show ?thesis using was by blast
qed

definition demo_floor :: Store where
  "demo_floor = demo_store\<lparr>state :=
     putEntity (entityKey ''order'' ''o1'') (new_record ''order'' ''o1'' [(''status'', JStr ''pending''), (''table_id'', JStr ''A'')])
    (putEntity (entityKey ''table'' ''A'') (new_record ''table'' ''A'' [(''status'', JStr ''occupied''), (''current_order_id'', JStr ''o1'')])
    (putEntity (entityKey ''table'' ''B'') (new_record ''table'' ''B'' [(''status'', JStr ''available'')]) newEmptyDB))\<rparr>"

theorem TransferOrder_exchange_witness:
  "\<exists>s'. TransferOrder all_ok ''t1'' ''o1'' ''B'' demo_floor = (s', Inr ()) \<and> table_shows (state s') ''B'' ''occupied'' ''o1''
     \<and> table_shows (state s') ''A'' ''available'' []"
proof -
  let ?of = "[(''status'', JStr ''pending''), (''table_id'', JStr ''A'')]"
  let ?af = "[(''status'', JStr ''occupied''), (''current_order_id'', JStr ''o1'')]"
  let ?bf = "[(''status'', JStr ''available'')]"
  have g: "gmap ?of" "gmap ?af" "gmap ?bf" by (simp_all add: gmap_def)
  have B: "TrimSpace ''B'' = ''B''" by (rule TrimSpace_graph) (simp_all add: graph_def)
  have live: "live (state demo_floor) ''order'' ''o1'' = Some (new_record ''order'' ''o1'' ?of)"
    "live (state demo_floor) ''table'' ''A'' = Some (new_record ''table'' ''A'' ?af)"
    "live (state demo_floor) ''table'' ''B'' = Some (new_record ''table'' ''B'' ?bf)"
    by (simp_all add: demo_floor_def new_record_def)
  have wf: "wf_db (state demo_floor)" by (simp add: demo_floor_def wf_db_new wf_db_empty)
  have "\<not> table_busy (state demo_floor) ''o1'' ''B''"
    by (simp add: table_busy_def demo_floor_def putEntity_def newEmptyDB_def new_record_def entityKey_def)
  moreover have "ToLower ''pending'' = ''pending''" by (simp add: HasPrefix_def lower_ascii_def)
  ultimately obtain db where tx: "TransferOrder_tx ''t1'' ''o1'' ''B'' (state demo_floor) = Inr (db, ())"
    using live g by (simp add: TransferOrder_tx_def new_record_def closed_status_def Let_def)
  have "\<not> closed demo_floor" by (simp add: demo_floor_def demo_store_def)
  from withTx_all_ok [of demo_floor "TransferOrder_tx ''t1'' ''o1'' ''B''", OF this tx]
  obtain s' where run: "TransferOrder all_ok ''t1'' ''o1'' ''B'' demo_floor = (s', Inr ())"
    by (simp add: TransferOrder_def B)
  have src: "payload_field (se_Payload (new_record ''order'' ''o1'' ?of)) ''table_id'' = ''A''"
    using g by (simp add: new_record_def)
  have map: "as_map (se_Payload (new_record ''table'' ''B'' ?bf)) \<noteq> None"
    "as_map (se_Payload (new_record ''table'' ''A'' ?af)) = Some (sort_key fst ?af)"
    "toStr (mget (sort_key fst ?af) ''current_order_id'') = ''o1''"
    using g by (simp_all add: new_record_def mget_def map_of_sort toStr_def)
  show ?thesis
    using TransferOrder_exchange [OF run wf live(1) refl, unfolded B src, OF live(3) map(1)] run live(2) map(2,3) by blast
qed

section \<open>Debts\<close>

text \<open>
  Turning an order into a debt creates one open account over exactly the total of the
  order, with nothing paid, that names the order; the order is marked as credit, and a
  second attempt on the same order is refused.
\<close>

theorem DeferOrderToDebtor_once:
  assumes "DeferOrderToDebtor w rnd now o1 name phone due note s = (s', Inr i)"
    and "live (state s) ''order'' o1 = Some e"
  shows "(\<exists>d. live (state s') ''debtor'' i = Some d
      \<and> payload_field (se_Payload d) ''remaining'' = Itoa (parseBigIntSafe (PriceIRR (entity_view e)))
      \<and> 0 < parseBigIntSafe (PriceIRR (entity_view e))
      \<and> payload_field (se_Payload d) ''paid'' = ''0'' \<and> payload_field (se_Payload d) ''order_id'' = o1)
    \<and> (\<exists>e'. live (state s') ''order'' o1 = Some e' \<and> payload_field (se_Payload e') ''payment_method'' = ''credit_debtor'')
    \<and> (\<exists>er. snd (DeferOrderToDebtor w' rnd' now' o1 name' phone' due' note' s') = Inl er)"
proof -
  let ?nm = "TrimSpace name" let ?tot = "parseBigIntSafe (PriceIRR (entity_view e))"
  from assms(1) have "DeferOrderToDebtor_tx rnd now o1 ?nm phone due note (state s) = Inr (state s', i)"
    by (auto simp: DeferOrderToDebtor_def Let_def dest: withTx_ok split: if_splits)
  then obtain om where om: "as_map (se_Payload e) = Some om" and pos: "0 < ?tot"
    and s': "state s' = putEntity (entityKey ''order'' o1) (bump (marshal (deferred_order ?nm phone now om)) e)
      (putEntity (entityKey ''debtor'' i) (new_record ''debtor'' i
         (deferred_debt i ?nm phone due note o1 now ?tot (se_Payload e))) (state s))"
    using assms(2) by (auto simp: DeferOrderToDebtor_tx_def Let_def split: if_splits option.splits sum.splits)
  have "gmap om" using om by (rule as_map_gmap)
  then have g: "gmap (deferred_order ?nm phone now om)" by (simp add: deferred_order_def)
  have gd: "gmap (deferred_debt i ?nm phone due note o1 now ?tot (se_Payload e))"
    by (simp add: gmap_def deferred_debt_def)
  have nd: "\<not> se_Deleted e" using assms(2) by (simp add: getEntity_live)
  let ?e' = "bump (marshal (deferred_order ?nm phone now om)) e"
  have e': "live (state s') ''order'' o1 = Some ?e'" using nd by (simp add: s')
  have pm: "payload_field (se_Payload ?e') ''payment_method'' = ''credit_debtor''"
    using g by (simp add: deferred_order_def map_of_set_all)
  have again: "\<exists>er. DeferOrderToDebtor_tx rnd' now' o1 nm phone' due' note' (state s') = Inl er" for nm
    using e' g pm by (simp add: DeferOrderToDebtor_tx_def EqualFold_def Let_def)
  have "\<exists>er. snd (DeferOrderToDebtor w' rnd' now' o1 name' phone' due' note' s') = Inl er"
  proof (rule ccontr)
    assume "\<not> ?thesis"
    then obtain s2 j where "DeferOrderToDebtor w' rnd' now' o1 name' phone' due' note' s' = (s2, Inr j)"
      by (cases "DeferOrderToDebtor w' rnd' now' o1 name' phone' due' note' s'") (metis old.sum.exhaust snd_conv)
    then have "DeferOrderToDebtor_tx rnd' now' o1 (TrimSpace name') phone' due' note' (state s') = Inr (state s2, j)"
      by (auto simp: DeferOrderToDebtor_def Let_def dest: withTx_ok split: if_splits)
    then show False using again [of "TrimSpace name'"] by auto
  qed
  moreover have "\<exists>d. live (state s') ''debtor'' i = Some d
      \<and> payload_field (se_Payload d) ''remaining'' = Itoa ?tot \<and> payload_field (se_Payload d) ''paid'' = ''0''
      \<and> payload_field (se_Payload d) ''order_id'' = o1"
    using gd by (simp add: s' new_record_def) (simp add: deferred_debt_def)
  ultimately show ?thesis using e' pm pos by blast
qed

definition demo_bill :: Store where
  "demo_bill = demo_store\<lparr>state := putEntity (entityKey ''order'' ''o1'')
     (new_record ''order'' ''o1'' [(''price'', JStr (Itoa 700)), (''status'', JStr ''ready'')]) newEmptyDB\<rparr>"

theorem DeferOrderToDebtor_once_witness:
  "\<exists>s' d. DeferOrderToDebtor all_ok (demo_uuid 5) ''t1'' ''o1'' ''Sara'' [] [] [] demo_bill = (s', Inr (demo_id 5))
     \<and> live (state s') ''debtor'' (demo_id 5) = Some d \<and> payload_field (se_Payload d) ''remaining'' = Itoa 700"
proof -
  let ?m = "[(''price'', JStr (Itoa 700)), (''status'', JStr ''ready'')]"
  have g: "gmap ?m" by (simp add: gmap_def)
  have live: "live (state demo_bill) ''order'' ''o1'' = Some (new_record ''order'' ''o1'' ?m)"
    by (simp add: demo_bill_def new_record_def)
  have price: "parseBigIntSafe (PriceIRR (entity_view (new_record ''order'' ''o1'' ?m))) = 700"
    using g by (simp add: PriceIRR_def Field_def entity_view_def new_record_def)
  have name: "TrimSpace ''Sara'' = ''Sara''" by (rule TrimSpace_graph) (simp_all add: graph_def)
  have "ToLower ''ready'' = ''ready''" by (simp add: HasPrefix_def lower_ascii_def)
  then obtain db where tx: "DeferOrderToDebtor_tx (demo_uuid 5) ''t1'' ''o1'' ''Sara'' [] [] [] (state demo_bill) = Inr (db, demo_id 5)"
    using live price g
    by (simp add: DeferOrderToDebtor_tx_def demo_id_eq Let_def new_record_def EqualFold_def HasPrefix_def lower_ascii_def)
  have "\<not> closed demo_bill" by (simp add: demo_bill_def demo_store_def)
  from withTx_all_ok [of demo_bill "DeferOrderToDebtor_tx (demo_uuid 5) ''t1'' ''o1'' ''Sara'' [] [] []", OF this tx]
  obtain s' where run: "DeferOrderToDebtor all_ok (demo_uuid 5) ''t1'' ''o1'' ''Sara'' [] [] [] demo_bill = (s', Inr (demo_id 5))"
    by (simp add: DeferOrderToDebtor_def name runes_ascii)
  from DeferOrderToDebtor_once [OF run live, unfolded price] run show ?thesis by blast
qed


section \<open>Editing\<close>

lemma gmap_edited: "gmap om \<Longrightarrow> gmap (edited_order now upd p sub lines om)"
  by (simp add: edited_order_def Let_def)

lemma edited_fields:
  assumes "gmap om" "d = clamp_discount sub (parseBigIntSafe (case ou_DiscountIRR upd of
      None \<Rightarrow> payload_field p ''discount_irr'' | Some d \<Rightarrow> d))"
    "x = clamp_extra (parseBigIntSafe (case ou_ExtraIRR upd of None \<Rightarrow> payload_field p ''extra_irr'' | Some x \<Rightarrow> x))"
  shows "map_of (edited_order now upd p sub lines om) ''subtotal_irr'' = Some (JStr (Itoa sub))"
    "map_of (edited_order now upd p sub lines om) ''discount_irr'' = Some (JStr (Itoa d))"
    "map_of (edited_order now upd p sub lines om) ''extra_irr'' = Some (JStr (Itoa x))"
    "map_of (edited_order now upd p sub lines om) ''total_irr'' = Some (JStr (Itoa (order_total sub d x)))"
    "map_of (edited_order now upd p sub lines om) ''price'' = Some (JStr (Itoa (order_total sub d x)))"
    "map_of (edited_order now upd p sub lines om) ''status'' = map_of om ''status''"
    "map_of (edited_order now upd p sub lines om) ''table_id'' = map_of om ''table_id''"
  using assms by (simp_all add: edited_order_def map_of_set_all opt_field_def Let_def map_add_def split: option.splits)

text \<open>
  Editing the lines of an order prices them again by the menu: the new subtotal is the sum
  over the new valid lines, the total is subtotal minus discount plus extra (never below
  zero), where a discount or extra that is not given keeps its stored value; status and table
  stay; and an order that is completed, cancelled or refunded cannot be edited.
\<close>

theorem UpdateOrderItems_bill:
  assumes "UpdateOrderItemsFull w gen now o1 upd s = (s', Inr u)"
  shows "\<exists>e om e' d x. live (state s) ''order'' o1 = Some e \<and> as_map (se_Payload e) = Some om
    \<and> \<not> closed_status (status_of om) \<and> filter valid_item (ou_Lines upd) \<noteq> []
    \<and> live (state s') ''order'' o1 = Some e'
    \<and> d = clamp_discount (items_sum (state s) (ou_Lines upd)) (parseBigIntSafe (case ou_DiscountIRR upd of
          None \<Rightarrow> payload_field (se_Payload e) ''discount_irr'' | Some t \<Rightarrow> t))
    \<and> x = clamp_extra (parseBigIntSafe (case ou_ExtraIRR upd of
          None \<Rightarrow> payload_field (se_Payload e) ''extra_irr'' | Some t \<Rightarrow> t))
    \<and> payload_field (se_Payload e') ''subtotal_irr'' = Itoa (items_sum (state s) (ou_Lines upd))
    \<and> PriceIRR (entity_view e') = Itoa (max 0 (items_sum (state s) (ou_Lines upd) - d + x))
    \<and> payload_field (se_Payload e') ''status'' = payload_field (se_Payload e) ''status''
    \<and> payload_field (se_Payload e') ''table_id'' = payload_field (se_Payload e) ''table_id''"
proof -
  from assms have tx: "UpdateOrderItemsFull_tx gen now o1 upd (state s) = Inr (state s', u)"
    by (simp add: UpdateOrderItemsFull_def withTx_ok)
  from tx obtain e om sub lines where e: "live (state s) ''order'' o1 = Some e" and om: "as_map (se_Payload e) = Some om"
    and st: "\<not> closed_status (status_of om)"
    and lines: "order_lines gen (state s) (ou_Lines upd) = Inr (sub, lines)" "lines \<noteq> []"
    and s': "state s' = putEntity (entityKey ''order'' o1) (bump (marshal (edited_order now upd (se_Payload e) sub lines om)) e) (state s)"
    by (auto simp: UpdateOrderItemsFull_tx_def closed_status_def split: option.splits if_splits sum.splits)
  have sub: "sub = items_sum (state s) (ou_Lines upd)" by (rule order_lines_ok(1) [OF lines(1)])
  have vl: "filter valid_item (ou_Lines upd) \<noteq> []" using order_lines_ok(2) [OF lines(1)] lines(2) by auto
  have g: "gmap om" using om by (rule as_map_gmap)
  note f = edited_fields [OF g refl refl, of now upd "se_Payload e" sub lines]
  let ?e' = "bump (marshal (edited_order now upd (se_Payload e) sub lines om)) e"
  have "\<not> se_Deleted e" using e by (simp add: getEntity_live)
  then have "live (state s') ''order'' o1 = Some ?e'" by (simp add: s')
  moreover have "PriceIRR (entity_view ?e') = Itoa (order_total sub
      (clamp_discount sub (parseBigIntSafe (case ou_DiscountIRR upd of
          None \<Rightarrow> payload_field (se_Payload e) ''discount_irr'' | Some t \<Rightarrow> t)))
      (clamp_extra (parseBigIntSafe (case ou_ExtraIRR upd of
          None \<Rightarrow> payload_field (se_Payload e) ''extra_irr'' | Some t \<Rightarrow> t))))"
    using gmap_edited [OF g] by (simp add: PriceIRR_def Field_def entity_view_def f)
  moreover have "order_total a b c = max 0 (a - b + c)" for a b c by (simp add: order_total_def Let_def)
  ultimately show ?thesis
    using e om st vl gmap_edited [OF g]
    by (intro exI [of _ e] exI [of _ om] exI [of _ ?e'] exI conjI)
      (simp_all add: f sub [symmetric] payload_field_def [of "se_Payload e"])
qed

definition demo_edit :: Store where
  "demo_edit = demo_menu\<lparr>state := putEntity (entityKey ''order'' ''o1'')
     (new_record ''order'' ''o1'' [(''status'', JStr ''pending'')]) (state demo_menu)\<rparr>"

definition demo_update :: OrderItemsUpdate where
  "demo_update = \<lparr> ou_Lines = pi_Items (demo_req []), ou_DiscountIRR = None, ou_ExtraIRR = Some (Itoa 50000),
     ou_ExtraNote = None, ou_Note = None \<rparr>"

theorem UpdateOrderItems_bill_witness:
  "\<exists>s1 e'. UpdateOrderItemsFull all_ok demo_gen ''t3'' ''o1'' demo_update demo_edit = (s1, Inr ())
     \<and> live (state s1) ''order'' ''o1'' = Some e' \<and> PriceIRR (entity_view e') = Itoa 2900000"
proof -
  have p1: "TrimSpace ''p1'' = ''p1''" and pending: "TrimSpace ''pending'' = ''pending''"
    by (rule TrimSpace_graph; simp add: graph_def)+
  have g: "gmap [(''status'', JStr ''pending'')]" by (simp add: gmap_def)
  have live: "live (state demo_edit) ''order'' ''o1'' = Some (new_record ''order'' ''o1'' [(''status'', JStr ''pending'')])"
    by (simp add: demo_edit_def new_record_def)
  have "live (state demo_edit) ''product'' ''p1'' = live (state demo_menu) ''product'' ''p1''" by (simp add: demo_edit_def)
  then have price: "menu_price (state demo_edit) ''p1'' = 950000" using demo_menu_price by (simp add: menu_price_def)
  have sum: "items_sum (state demo_edit) (ou_Lines demo_update) = 2850000"
    by (simp add: items_sum_def demo_update_def demo_req_def valid_item_def p1 price)
  have "\<exists>p. live (state demo_edit) ''product'' ''p1'' = Some p" by (simp add: demo_edit_def demo_menu_def new_record_def)
  then obtain sub lines where "order_lines demo_gen (state demo_edit) (ou_Lines demo_update) = Inr (sub, lines)" "lines \<noteq> []"
    using p1 by (auto simp: order_lines_def demo_update_def demo_req_def add_line_def Let_def)
  moreover have "status_of (sort_key fst [(''status'', JStr ''pending'')]) = ''pending''"
    using pending by (simp add: status_of_def mget_def HasPrefix_def lower_ascii_def)
  ultimately obtain db where tx: "UpdateOrderItemsFull_tx demo_gen ''t3'' ''o1'' demo_update (state demo_edit) = Inr (db, ())"
    using live g by (simp add: UpdateOrderItemsFull_tx_def new_record_def)
  have "\<not> closed demo_edit" by (simp add: demo_edit_def demo_menu_def demo_store_def)
  from withTx_all_ok [of demo_edit "UpdateOrderItemsFull_tx demo_gen ''t3'' ''o1'' demo_update", OF this tx]
  obtain s1 where run: "UpdateOrderItemsFull all_ok demo_gen ''t3'' ''o1'' demo_update demo_edit = (s1, Inr ())"
    by (simp add: UpdateOrderItemsFull_def)
  from UpdateOrderItems_bill [OF run] obtain e' d x where e': "live (state s1) ''order'' ''o1'' = Some e'"
    "d = clamp_discount 2850000 (parseBigIntSafe (payload_field (se_Payload (new_record ''order'' ''o1'' [(''status'', JStr ''pending'')])) ''discount_irr''))"
    "x = clamp_extra (parseBigIntSafe (Itoa 50000))" "PriceIRR (entity_view e') = Itoa (max 0 (2850000 - d + x))"
    unfolding sum by (auto simp: live demo_update_def)
  then have "PriceIRR (entity_view e') = Itoa 2900000"
    using g by (simp add: new_record_def clamp_discount_def clamp_extra_def)
  with run e'(1) show ?thesis by blast
qed

end
