(* ===== verification/Split_Bill.thy ===== *)
theory Split_Bill
  imports Orders_Props
begin

text \<open>
  \<open>internal/store/domains.go\<close>, the split bill: the payable amount of every line as a share
  of the final total, what has been paid so far, the quote of a selection, recording one
  person's payment and undoing the last one. Payments are kept as a JSON text inside of the
  order, so recording and reading them goes through the encoder and the decoder.
  Amounts are 64-bit integers here.
\<close>

record SplitBillLine =
  sl_Key :: string
  sl_Title :: string
  sl_Quantity :: int
  sl_PaidQuantity :: int
  sl_UnitPayableIRR :: int
  sl_LinePayableIRR :: int
  sl_PaidIRR :: int
  sl_RemainingIRR :: int

record SplitPaymentLine =
  pl_LineID :: string
  pl_Quantity :: int
  pl_AmountIRR :: int

record SplitPayment =
  sp_ID :: string
  sp_At :: string
  sp_Method :: string
  sp_AmountIRR :: int
  sp_ClientToken :: string
  sp_Lines :: "SplitPaymentLine list"

section \<open>Reading and writing payments\<close>

text \<open>\<open>big.Int.Int64\<close> takes the low 64 bits.\<close>

definition Int64 :: "int \<Rightarrow> int" where
  "Int64 b = w64 b"

definition payment_line :: "fields \<Rightarrow> SplitPaymentLine" where
  "payment_line lm =
    \<lparr> pl_LineID = toStr (mget lm ''line_id''), pl_Quantity = fst (Atoi (toStr (mget lm ''quantity''))),
      pl_AmountIRR = Int64 (parseBigIntSafe (toStr (mget lm ''amount_irr''))) \<rparr>"

definition payment_lines :: "json \<Rightarrow> SplitPaymentLine list" where
  "payment_lines ll =
    (case ll of
       JArr js \<Rightarrow> List.map_filter (\<lambda>li. case li of
           JObj kvs \<Rightarrow> map_option payment_line (as_map (JObj kvs)) | _ \<Rightarrow> None) js
     | _ \<Rightarrow> [])"

definition payment_of :: "fields \<Rightarrow> SplitPayment" where
  "payment_of r =
    \<lparr> sp_ID = toStr (mget r ''id''), sp_At = toStr (mget r ''at''), sp_Method = toStr (mget r ''method''),
      sp_AmountIRR = Int64 (parseBigIntSafe (toStr (mget r ''amount_irr''))),
      sp_ClientToken = toStr (mget r ''client_token''), sp_Lines = payment_lines (mget r ''lines'') \<rparr>"

text \<open>\<open>json.Unmarshal\<close> of the stored text into a slice of maps.\<close>

definition payment_rows :: "string \<Rightarrow> fields list option" where
  "payment_rows raw =
    (case json_parse raw of
       Some (JArr rs) \<Rightarrow> those (map as_map rs)
     | Some JNull \<Rightarrow> Some []
     | _ \<Rightarrow> None)"

definition parseSplitPayments :: "Entity \<Rightarrow> SplitPayment list" where
  "parseSplitPayments e =
    (let raw = TrimSpace (Field e ''split_payments'')
     in if raw = [] then []
        else (case payment_rows raw of None \<Rightarrow> [] | Some rows \<Rightarrow> map payment_of rows))"

definition payment_line_row :: "SplitPaymentLine \<Rightarrow> fields" where
  "payment_line_row l = [(''line_id'', JStr (pl_LineID l)), (''quantity'', int_json (pl_Quantity l)),
     (''amount_irr'', JStr (Itoa (pl_AmountIRR l)))]"

definition payment_row :: "SplitPayment \<Rightarrow> fields" where
  "payment_row p = [(''id'', JStr (sp_ID p)), (''at'', JStr (sp_At p)), (''method'', JStr (sp_Method p)),
     (''amount_irr'', JStr (Itoa (sp_AmountIRR p))), (''client_token'', JStr (sp_ClientToken p)),
     (''lines'', JArr (map (\<lambda>l. marshal (payment_line_row l)) (sp_Lines p)))]"

definition payments_blob :: "SplitPayment list \<Rightarrow> string" where
  "payments_blob ps = json_text (JArr (map (\<lambda>p. marshal (payment_row p)) ps))"

section \<open>The bill\<close>

text \<open>The totals of the payments: all of it, and the quantity and amount under each line.\<close>

definition paid_total :: "SplitPayment list \<Rightarrow> int" where
  "paid_total ps = fold (\<lambda>p a. w64 (a + sp_AmountIRR p)) ps 0"

definition paid_lines :: "SplitPayment list \<Rightarrow> SplitPaymentLine list" where
  "paid_lines ps = concat (map sp_Lines ps)"

definition paidQty :: "SplitPayment list \<Rightarrow> string \<Rightarrow> int" where
  "paidQty ps k = fold (\<lambda>l a. if pl_LineID l = k then w64 (a + pl_Quantity l) else a) (paid_lines ps) 0"

definition paidAmt :: "SplitPayment list \<Rightarrow> string \<Rightarrow> int" where
  "paidAmt ps k = fold (\<lambda>l a. if pl_LineID l = k then w64 (a + pl_AmountIRR l) else a) (paid_lines ps) 0"

definition line_amount :: "OrderLineView \<Rightarrow> int" where
  "line_amount it = Int64 (parseBigIntSafe (ov_LineTotal it))"

text \<open>The share of one line; the last line takes what is left.\<close>

definition line_payable :: "int \<Rightarrow> int \<Rightarrow> int \<Rightarrow> bool \<Rightarrow> int \<Rightarrow> int" where
  "line_payable tot subtotal lineTotal is_last allocated =
    (let p = (if subtotal > 0 \<and> tot > 0
              then (if is_last then w64 (tot - allocated) else quo (w64 (lineTotal * tot)) subtotal)
              else 0)
     in if p < 0 then 0 else p)"

fun bill_lines :: "SplitPayment list \<Rightarrow> int \<Rightarrow> int \<Rightarrow> int \<Rightarrow> OrderLineView list \<Rightarrow> SplitBillLine list" where
  "bill_lines ps tot subtotal allocated [] = []"
| "bill_lines ps tot subtotal allocated (it # its) =
    (let payable = line_payable tot subtotal (line_amount it) (its = []) allocated;
         qty = ov_Quantity it;
         unit = (if qty > 0 then quo payable qty else 0);
         rem = w64 (payable - paidAmt ps (ov_ID it))
     in \<lparr> sl_Key = ov_ID it, sl_Title = ov_ProductName it, sl_Quantity = qty, sl_PaidQuantity = paidQty ps (ov_ID it),
          sl_UnitPayableIRR = unit, sl_LinePayableIRR = payable, sl_PaidIRR = paidAmt ps (ov_ID it),
          sl_RemainingIRR = (if rem < 0 then 0 else rem) \<rparr>
        # bill_lines ps tot subtotal (w64 (allocated + payable)) its)"

definition SplitBillOf :: "Entity \<Rightarrow> SplitBillLine list \<times> int \<times> int \<times> int" where
  "SplitBillOf e =
    (let tot = Int64 (parseBigIntSafe (PriceIRR e));
         items = OrderItems e;
         subtotal = fold (\<lambda>it a. w64 (a + line_amount it)) items 0;
         ps = parseSplitPayments e;
         paid = paid_total ps;
         remaining = w64 (tot - paid)
     in (bill_lines ps tot subtotal 0 items, tot, paid, if remaining < 0 then 0 else remaining))"

definition splitQuote :: "SplitBillLine \<Rightarrow> int \<Rightarrow> int" where
  "splitQuote l qty =
    (let unpaid = w64 (sl_Quantity l - sl_PaidQuantity l)
     in if qty \<le> 0 \<or> unpaid \<le> 0 then 0
        else if qty \<ge> unpaid then sl_RemainingIRR l
        else
          (let amt0 = w64 (qty * sl_UnitPayableIRR l);
               amt = (if amt0 \<le> 0 then quo (w64 (sl_RemainingIRR l * qty)) unpaid else amt0)
           in if amt > sl_RemainingIRR l then sl_RemainingIRR l else amt))"

section \<open>Recording and undoing a payment\<close>

text \<open>One selected line; \<open>picks\<close> is a Go map from line identifiers to quantities.\<close>

definition pick_line ::
    "(string \<times> SplitBillLine) list \<Rightarrow> string \<times> int \<Rightarrow> SplitPaymentLine list \<times> int \<Rightarrow> err + SplitPaymentLine list \<times> int" where
  "pick_line by_key pick acc =
    (case pick of (lineID, qty) \<Rightarrow>
     (case map_of by_key lineID of
        None \<Rightarrow> Inl (ESplit ErrPickUnknown)
      | Some l \<Rightarrow>
         (let unpaid = w64 (sl_Quantity l - sl_PaidQuantity l)
          in if qty \<le> 0 \<or> qty > unpaid then Inl (ESplit (ErrPickTooMany (sl_Title l)))
             else
               (let amt = splitQuote l qty
                in Inr (fst acc @ [\<lparr> pl_LineID = lineID, pl_Quantity = qty, pl_AmountIRR = amt \<rparr>], w64 (snd acc + amt))))))"

definition lines_by_key :: "SplitBillLine list \<Rightarrow> (string \<times> SplitBillLine) list" where
  "lines_by_key ls = fold (\<lambda>(k, l). AList.update k l) (map (\<lambda>l. (sl_Key l, l)) ls) []"

definition split_status :: "int \<Rightarrow> int \<Rightarrow> int \<Rightarrow> string" where
  "split_status rem tot paid =
    (if rem = 0 \<and> tot > 0 then ''PAID'' else if paid > 0 then ''PARTIAL'' else ''UNPAID'')"

definition split_rest :: "int \<Rightarrow> int \<Rightarrow> int" where
  "split_rest tot paid = (let r = w64 (tot - paid) in if r < 0 then 0 else r)"

text \<open>The members of an order after its list of payments was replaced.\<close>

definition split_fields :: "string \<Rightarrow> int \<Rightarrow> SplitPayment list \<Rightarrow> fields \<Rightarrow> fields" where
  "split_fields now tot ps om =
    (let paid = paid_total ps; rem = split_rest tot paid
     in set_all [(''split_payments'', JStr (payments_blob ps)), (''split_paid_irr'', JStr (Itoa paid)),
          (''split_remaining_irr'', JStr (Itoa rem)), (''split_status'', JStr (split_status rem tot paid)),
          (''updated_at'', JStr now)] om)"

definition RecordSplitPayment_tx ::
    "8 word list option \<Rightarrow> string \<Rightarrow> string \<Rightarrow> (string \<times> int) list \<Rightarrow> string \<Rightarrow> string \<Rightarrow> persistedDB
     \<Rightarrow> err + persistedDB \<times> (int \<times> int)" where
  "RecordSplitPayment_tx rnd now orderID picks pay_method clientToken db =
    (case live db ''order'' orderID of
       None \<Rightarrow> Inl (EOrder ErrOrderMissing)
     | Some e \<Rightarrow>
        (let ent = entity_view e; st = ToLower (Field ent ''status'')
         in if st = ''completed'' then Inl (ESplit ErrSplitCompleted)
            else if st \<in> {''cancelled'', ''canceled'', ''refunded''} then Inl (ESplit ErrSplitClosed)
            else
              (let payments = parseSplitPayments ent; tok = TrimSpace clientToken
               in if tok \<noteq> [] \<and> list_ex (\<lambda>p. sp_ClientToken p = tok) payments
                  then (case SplitBillOf ent of (_, _, paid, remaining) \<Rightarrow> Inr (db, (paid, remaining)))
                  else (case SplitBillOf ent of
                          (lines, tot, _, _) \<Rightarrow>
                           (case foldE (pick_line (lines_by_key lines)) picks ([], 0) of
                              Inl er \<Rightarrow> Inl er
                            | Inr (payLines, amount) \<Rightarrow>
                               if amount \<le> 0 then Inl (ESplit ErrZeroAmount)
                               else (case UUID rnd of
                                       Inl er \<Rightarrow> Inl er
                                     | Inr pid \<Rightarrow>
                                        (case as_map (se_Payload e) of
                                           None \<Rightarrow> Inl (EData ErrJSON)
                                         | Some om \<Rightarrow>
                                            (let ps = payments @ [\<lparr> sp_ID = pid, sp_At = now, sp_Method = pay_method,
                                                   sp_AmountIRR = amount, sp_ClientToken = tok, sp_Lines = payLines \<rparr>]
                                             in Inr (putEntity (entityKey ''order'' orderID)
                                                  (bump (marshal (split_fields now tot ps om)) e) db,
                                                  (paid_total ps, split_rest tot (paid_total ps)))))))))))"

definition RecordSplitPayment ::
    "io \<Rightarrow> 8 word list option \<Rightarrow> string \<Rightarrow> string \<Rightarrow> (string \<times> int) list \<Rightarrow> string \<Rightarrow> string \<Rightarrow> Store \<Rightarrow> Store \<times> (err + int \<times> int)" where
  "RecordSplitPayment w rnd now orderID picks pay_method0 clientToken s =
    (let pay_method = TrimSpace (ToLower pay_method0)
     in if pay_method \<notin> {''cash'', ''card'', ''transfer''} then (s, Inl (ESplit ErrPayMethod))
        else if picks = [] then (s, Inl (ESplit ErrNoPicks))
        else withTx w (RecordSplitPayment_tx rnd now orderID picks pay_method clientToken) s)"

definition UndoLastSplitPayment_tx :: "string \<Rightarrow> string \<Rightarrow> persistedDB \<Rightarrow> err + persistedDB \<times> unit" where
  "UndoLastSplitPayment_tx now orderID db =
    (case live db ''order'' orderID of
       None \<Rightarrow> Inl (EOrder ErrOrderMissing)
     | Some e \<Rightarrow>
        (let ent = entity_view e
         in if EqualFold (Field ent ''status'') ''completed'' then Inl (ESplit ErrUndoCompleted)
            else (case parseSplitPayments ent of
                    [] \<Rightarrow> Inl (ESplit ErrNoPayment)
                  | p # rest \<Rightarrow>
                     (case as_map (se_Payload e) of
                        None \<Rightarrow> Inl (EData ErrJSON)
                      | Some om \<Rightarrow>
                         Inr (putEntity (entityKey ''order'' orderID)
                           (bump (marshal (split_fields now (Int64 (parseBigIntSafe (PriceIRR ent))) (butlast (p # rest)) om)) e) db,
                           ())))))"

definition UndoLastSplitPayment :: "io \<Rightarrow> string \<Rightarrow> string \<Rightarrow> Store \<Rightarrow> Store \<times> (err + unit)" where
  "UndoLastSplitPayment w now orderID s = withTx w (UndoLastSplitPayment_tx now orderID) s"

end
