(* ===== verification/Split_Props.thy ===== *)
theory Split_Props
  imports Split_Bill
begin

text \<open>
  What the split bill guarantees: the shares of the lines add up to the total, the payments
  stored as text read back as they were written, a payment that is undone leaves no trace,
  and a payment that is sent twice counts once.
\<close>

section \<open>Payments as text\<close>

lemma e_notin_nat_text: "c \<in> set (nat_text n) \<Longrightarrow> c \<noteq> CHR ''e'' \<and> c \<noteq> CHR ''E'' \<and> c \<noteq> CHR ''-''"
  using nat_text_digits [of n] by (auto simp: is_digit_def)

lemma num_trunc_Itoa: "in64 i \<Longrightarrow> num_trunc (Itoa i) = i"
proof -
  assume i: "in64 i"
  have nt: "takeWhile (\<lambda>c. c \<noteq> CHR ''e'' \<and> c \<noteq> CHR ''E'') (nat_text n) = nat_text n" for n
    by (rule takeWhile_eq_all_conv [THEN iffD2]) (use e_notin_nat_text in auto)
  have dt: "takeWhile is_digit (nat_text n) = nat_text n" "dropWhile is_digit (nat_text n) = []" for n
    using nat_text_digits [of n] by simp_all
  have ex: "num_exp (Itoa i) = 0"
  proof -
    have "dropWhile (\<lambda>c. c \<noteq> CHR ''e'' \<and> c \<noteq> CHR ''E'') (Itoa i) = []"
      using e_notin_nat_text by (auto simp: Itoa_def)
    then show ?thesis by (simp only: num_exp_def list.case)
  qed
  have pos: "\<not> HasPrefix (nat_text n) ''-''" for n
    using e_notin_nat_text [of "hd (nat_text n)" n] by (cases "nat_text n") (auto simp: HasPrefix_def)
  show ?thesis
  proof (cases "i < 0")
    case True
    then have "Itoa i = CHR ''-'' # nat_text (nat (- i))" by (simp add: Itoa_def)
    then show ?thesis
      using i True ex by (simp add: num_trunc_def HasPrefix_def nt dt digits_value_nat_text Let_def)
  next
    case False
    then have "Itoa i = nat_text (nat i)" by (simp add: Itoa_def)
    then show ?thesis
      using i False ex by (simp add: num_trunc_def pos nt dt digits_value_nat_text Let_def)
  qed
qed

definition wf_payment_line :: "SplitPaymentLine \<Rightarrow> bool" where
  "wf_payment_line l \<longleftrightarrow> valid_utf8 (pl_LineID l) \<and> in64 (pl_Quantity l) \<and> in64 (pl_AmountIRR l)"

definition wf_payment :: "SplitPayment \<Rightarrow> bool" where
  "wf_payment p \<longleftrightarrow> valid_utf8 (sp_ID p) \<and> valid_utf8 (sp_At p) \<and> valid_utf8 (sp_Method p)
     \<and> valid_utf8 (sp_ClientToken p) \<and> in64 (sp_AmountIRR p) \<and> list_all wf_payment_line (sp_Lines p)"

lemma gmap_rows: "gmap (payment_line_row l)" "gmap (payment_row p)"
  by (simp_all add: gmap_def payment_line_row_def payment_row_def)

lemma mget_sort: "gmap m \<Longrightarrow> mget (sort_key fst m) k = mget m k"
  by (simp add: mget_def map_of_sort)

lemma payment_line_roundtrip:
  assumes "wf_payment_line l"
  shows "payment_line (sort_key fst (payment_line_row l)) = l"
  using assms
  by (simp add: payment_line_def mget_sort gmap_rows)
    (simp add: payment_line_row_def mget_def toStr_def int_json_def num_trunc_Itoa Atoi_Itoa wf_payment_line_def
      Int64_def w64_id)

lemma payment_lines_roundtrip:
  "list_all wf_payment_line ls \<Longrightarrow> payment_lines (JArr (map (\<lambda>l. marshal (payment_line_row l)) ls)) = ls"
proof (induction ls)
  case (Cons l ls)
  have "as_map (JObj (sort_key fst (payment_line_row l))) = Some (sort_key fst (payment_line_row l))"
    by (simp add: gmap_sort gmap_rows)
  with Cons show ?case
    by (simp add: payment_lines_def map_filter_simps marshal_def payment_line_roundtrip)
qed (simp add: payment_lines_def map_filter_simps)

lemma payment_roundtrip:
  assumes "wf_payment p"
  shows "payment_of (sort_key fst (payment_row p)) = p"
  using assms payment_lines_roundtrip [of "sp_Lines p"]
  by (simp add: payment_of_def mget_sort gmap_rows)
    (simp add: payment_row_def mget_def toStr_def wf_payment_def Int64_def w64_id)

lemma wf_json_marshal: "list_all (\<lambda>(k, v). valid_utf8 k \<and> wf_json v) m \<Longrightarrow> wf_json (marshal m)"
  by (simp add: marshal_def list_all_iff)

lemma nat_text_lead: "0 < n \<Longrightarrow> hd (nat_text n) \<noteq> CHR ''0''"
proof (induction n rule: nat_text.induct)
  case (1 n)
  show ?case
  proof (cases "n < 10")
    case True
    then have "nat_text n = [digit_char n]" by (simp add: nat_text.simps)
    moreover have "code (digit_char n) \<noteq> code (CHR ''0'')" using True 1(2) by simp
    ultimately show ?thesis by (metis list.sel(1))
  next
    case False
    then have "nat_text n = nat_text (n div 10) @ [digit_char (n mod 10)]" by (subst nat_text.simps) simp
    then show ?thesis using False 1 by simp
  qed
qed

lemma valid_number_Itoa: "valid_number (Itoa i) \<and> list_all num_char (Itoa i)"
proof -
  have d: "takeWhile is_digit (nat_text n) = nat_text n" "dropWhile is_digit (nat_text n) = []" for n
    using nat_text_digits [of n] by simp_all
  have zero: "nat_text 0 = ''0''" by (simp add: nat_text.simps digit_char_def char_of_eq_iff take_bit_eq_mod)
  have lead: "hd (nat_text n) = CHR ''0'' \<Longrightarrow> nat_text n = ''0''" for n
    using nat_text_lead [of n] zero by (cases "n = 0") auto
  have pos: "\<not> HasPrefix (nat_text n) ''-''" for n
    using e_notin_nat_text [of "hd (nat_text n)" n] by (cases "nat_text n") (auto simp: HasPrefix_def)
  have "valid_number (nat_text n)" "valid_number (CHR ''-'' # nat_text n)" for n
    using lead [of n] pos [of n] by (simp_all add: valid_number_def d Let_def, simp_all add: HasPrefix_def valid_exp_def)
  moreover have "list_all num_char (nat_text n)" for n
    using nat_text_digits [of n] by (auto simp: list_all_iff num_char_def)
  ultimately show ?thesis by (simp add: Itoa_def num_char_def)
qed

lemma valid_utf8_Itoa: "valid_utf8 (Itoa i)"
  using plain_Itoa [of i] by (intro valid_ascii) (auto simp: list_all_iff plain_def)

lemma wf_json_row: "wf_payment p \<Longrightarrow> wf_json (marshal (payment_row p))"
proof -
  have "wf_json (marshal (payment_line_row l))" if "wf_payment_line l" for l
    using that by (intro wf_json_marshal)
      (simp add: payment_line_row_def wf_payment_line_def int_json_def valid_number_Itoa valid_utf8_Itoa valid_ascii)
  then show "wf_payment p \<Longrightarrow> wf_json (marshal (payment_row p))"
    by (intro wf_json_marshal) (auto simp: payment_row_def wf_payment_def valid_utf8_Itoa valid_ascii list_all_iff [of wf_payment_line] list_all_iff [of wf_json])
qed


lemma payments_blob_rows:
  assumes "list_all wf_payment ps"
  shows "payment_rows (payments_blob ps) = Some (map (\<lambda>p. sort_key fst (payment_row p)) ps)"
proof -
  have "wf_json (JArr (map (\<lambda>p. marshal (payment_row p)) ps))"
    using assms by (auto simp: list_all_iff intro: wf_json_row)
  then have "json_parse (payments_blob ps) = Some (JArr (map (\<lambda>p. marshal (payment_row p)) ps))"
    unfolding payments_blob_def by (rule json_parse_text)
  moreover have "those (map (\<lambda>p. as_map (marshal (payment_row p))) ps) = Some (map (\<lambda>p. sort_key fst (payment_row p)) ps)"
    by (induction ps) (simp_all add: gmap_rows)
  ultimately show ?thesis by (simp add: payment_rows_def comp_def)
qed

lemma payments_blob_trim: "TrimSpace (payments_blob ps) = payments_blob ps" "payments_blob ps \<noteq> []"
  by (rule TrimSpace_graph; simp add: payments_blob_def graph_def) (simp add: payments_blob_def)

text \<open>The payments stored in an entity whose \<open>split_payments\<close> member is their text.\<close>

lemma parse_blob:
  assumes "list_all wf_payment ps" "Field e ''split_payments'' = payments_blob ps"
  shows "parseSplitPayments e = ps"
proof -
  have "map payment_of (map (\<lambda>p. sort_key fst (payment_row p)) ps) = ps"
    using assms(1) by (induction ps) (simp_all add: payment_roundtrip)
  then show ?thesis
    using assms(2) by (simp add: parseSplitPayments_def payments_blob_trim payments_blob_rows [OF assms(1)])
qed

section \<open>The shares of the lines\<close>

lemma bill_lines_share:
  assumes "its \<noteq> []" "0 < T" "T < 2 ^ 63" "0 < S"
    and "\<forall>it \<in> set its. 0 \<le> line_amount it \<and> line_amount it * T < 2 ^ 63"
    and "0 \<le> a" "a * S \<le> T * (S - sum_list (map line_amount its))"
  shows "sum_list (map sl_LinePayableIRR (bill_lines ps T S a its)) = T - a
    \<and> list_all (\<lambda>l. 0 \<le> sl_LinePayableIRR l) (bill_lines ps T S a its)"
  using assms
proof (induction its arbitrary: a)
  case (Cons it its)
  have amt: "0 \<le> line_amount it" "line_amount it * T < 2 ^ 63" using Cons.prems(5) by auto
  have nonneg: "0 \<le> sum_list (map line_amount its)"
    using Cons.prems(5) by (intro sum_list_nonneg) auto
  have "a * S \<le> T * S"
    using Cons.prems(2,7) amt nonneg
    by (smt (verit) list.simps(9) mult_left_mono sum_list.Cons)
  then have le: "a \<le> T" using Cons.prems(4) by simp
  show ?case
  proof (cases "its = []")
    case True
    have "w64 (T - a) = T - a" using le Cons.prems(3,6) by (intro w64_id) (auto simp: in64_def)
    then show ?thesis
      using True le Cons.prems by (simp add: line_payable_def Let_def)
  next
    case False
    let ?p = "line_amount it * T div S"
    have w: "w64 (line_amount it * T) = line_amount it * T"
      using amt Cons.prems(2) by (intro w64_id) (auto simp: in64_def intro: order_trans [of _ 0])
    have p0: "0 \<le> ?p" using amt Cons.prems(2,4) by (simp add: pos_imp_zdiv_nonneg_iff)
    have pay: "line_payable T S (line_amount it) (its = []) a = ?p"
      using False amt Cons.prems(2,4) p0 by (simp add: line_payable_def w quo_nonneg)
    have pS: "?p * S \<le> line_amount it * T" using Cons.prems(4) by (metis minus_mod_eq_div_mult pos_mod_sign diff_le_eq le_add_same_cancel1)
    have step: "(a + ?p) * S \<le> T * (S - sum_list (map line_amount its))"
      using Cons.prems(7) pS by (simp add: algebra_simps)
    have "T * (S - sum_list (map line_amount its)) \<le> T * S" using nonneg Cons.prems(2) by simp
    with step have "(a + ?p) * S \<le> T * S" by linarith
    then have "a + ?p \<le> T" using Cons.prems(4) by simp
    then have "w64 (a + ?p) = a + ?p" using Cons.prems(3,6) p0 by (intro w64_id) (auto simp: in64_def)
    moreover have "sum_list (map sl_LinePayableIRR (bill_lines ps T S (a + ?p) its)) = T - (a + ?p)
        \<and> list_all (\<lambda>l. 0 \<le> sl_LinePayableIRR l) (bill_lines ps T S (a + ?p) its)"
      using False Cons.prems p0 step by (intro Cons.IH) auto
    ultimately show ?thesis using pay p0 by (simp add: Let_def)
  qed
qed simp

lemma sum64_exact:
  assumes "\<forall>it \<in> set its. 0 \<le> line_amount it" "0 \<le> a" "a + sum_list (map line_amount its) < 2 ^ 63"
  shows "fold (\<lambda>it a. w64 (a + line_amount it)) its a = a + sum_list (map line_amount its)"
  using assms
proof (induction its arbitrary: a)
  case (Cons it its)
  have "0 \<le> sum_list (map line_amount its)" using Cons.prems(1) by (intro sum_list_nonneg) auto
  then have "w64 (a + line_amount it) = a + line_amount it"
    using Cons.prems by (intro w64_id) (auto simp: in64_def)
  with Cons show ?case by (simp add: add.assoc)
qed simp

definition bill_total :: "Entity \<Rightarrow> int" where
  "bill_total e = Int64 (parseBigIntSafe (PriceIRR e))"

text \<open>The bills whose distribution stays within 64 bits.\<close>

definition fair_bill :: "Entity \<Rightarrow> bool" where
  "fair_bill e \<longleftrightarrow> OrderItems e \<noteq> [] \<and> 0 < bill_total e \<and>
    (\<forall>it \<in> set (OrderItems e). 0 \<le> line_amount it \<and> line_amount it * bill_total e < 2 ^ 63) \<and>
    0 < sum_list (map line_amount (OrderItems e)) \<and> sum_list (map line_amount (OrderItems e)) < 2 ^ 63"

lemma bill_shares:
  assumes "fair_bill e"
  shows "sum_list (map sl_LinePayableIRR (fst (SplitBillOf e))) = bill_total e \<and> (\<forall>l \<in> set (fst (SplitBillOf e)). 0 \<le> sl_LinePayableIRR l)"
proof -
  let ?S = "sum_list (map line_amount (OrderItems e))"
  have "bill_total e < 2 ^ 63" using w64_in64 [of "parseBigIntSafe (PriceIRR e)"] by (simp add: bill_total_def Int64_def in64_def)
  moreover have "fst (SplitBillOf e) = bill_lines (parseSplitPayments e) (bill_total e) ?S 0 (OrderItems e)"
    using sum64_exact [of "OrderItems e" 0] assms by (simp add: SplitBillOf_def bill_total_def fair_bill_def Let_def)
  ultimately show ?thesis
    using bill_lines_share [of "OrderItems e" "bill_total e" ?S 0 "parseSplitPayments e"] assms
    by (simp add: list_all_iff fair_bill_def)
qed


text \<open>
  Beyond that bound the product wraps around and the distribution is wrong: of two equal
  lines of four thousand million rials, the first is assigned nothing and the second all.
\<close>

theorem SplitBill_product_wraps:
  "map sl_LinePayableIRR (bill_lines [] 8000000000 8000000000 0
     [\<lparr> ov_ID = ''a'', ov_ProductID = ''p'', ov_ProductName = ''x'', ov_Quantity = 1, ov_UnitPrice = Itoa 4000000000,
        ov_LineTotal = Itoa 4000000000, ov_Note = [] \<rparr>,
      \<lparr> ov_ID = ''b'', ov_ProductID = ''p'', ov_ProductName = ''x'', ov_Quantity = 1, ov_UnitPrice = Itoa 4000000000,
        ov_LineTotal = Itoa 4000000000, ov_Note = [] \<rparr>]) = [0, 8000000000]"
proof -
  have "w64 4000000000 = 4000000000" "w64 (4000000000 * 8000000000) = - 4893488147419103232"
    "w64 8000000000 = 8000000000" "w64 0 = 0" by (simp_all add: w64_def)
  then show ?thesis
    by (simp add: line_amount_def Int64_def line_payable_def quo_def Let_def)
qed


section \<open>One payment\<close>

text \<open>An order as this program writes it: sorted members and one list of items.\<close>

definition canonical :: "storedEntity \<Rightarrow> bool" where
  "canonical e \<longleftrightarrow> (\<exists>m. se_Payload e = marshal m \<and> gmap m \<and> length (members_of ''items'' m) \<le> 1)"

lemma members_of_update: "\<not> EqualFold k name \<Longrightarrow> members_of name (AList.update k v m) = members_of name m"
  by (induction m) (auto simp: members_of_def)

lemma members_of_set_all:
  "list_all (\<lambda>(k, v). \<not> EqualFold k name) fs \<Longrightarrow> members_of name (set_all fs m) = members_of name m"
  unfolding set_all_def by (induction fs arbitrary: m) (auto simp: members_of_update)

abbreviation split_keys :: "string set" where
  "split_keys \<equiv> {''split_payments'', ''split_paid_irr'', ''split_remaining_irr'', ''split_status'', ''updated_at''}"

lemma split_fields_get:
  "map_of (split_fields now tot ps om) ''split_payments'' = Some (JStr (payments_blob ps))"
  "k \<notin> split_keys \<Longrightarrow> map_of (split_fields now tot ps om) k = map_of om k"
  by (simp_all add: split_fields_def map_of_set_all Let_def)

lemma split_fields_items: "members_of ''items'' (split_fields now tot ps om) = members_of ''items'' om"
  unfolding split_fields_def Let_def
  by (rule members_of_set_all) (simp add: EqualFold_def HasPrefix_def lower_ascii_def)

lemma split_entity:
  assumes "canonical e" "as_map (se_Payload e) = Some om" "e' = bump (marshal (split_fields now tot ps om)) e"
  shows "canonical e'"
    and "k \<notin> split_keys \<Longrightarrow> Field (entity_view e') k = Field (entity_view e) k"
    and "OrderItems (entity_view e') = OrderItems (entity_view e)"
    and "list_all wf_payment ps \<Longrightarrow> parseSplitPayments (entity_view e') = ps"
proof -
  from assms(1) obtain m where m: "se_Payload e = marshal m" "gmap m" "length (members_of ''items'' m) \<le> 1"
    by (auto simp: canonical_def)
  then have om: "om = sort_key fst m" using assms(2) by simp
  have g: "gmap om" "gmap (split_fields now tot ps om)" using m(2) by (simp_all add: om gmap_sort split_fields_def Let_def)
  have it: "members_of ''items'' (split_fields now tot ps om) = members_of ''items'' m"
    using m(3) by (simp add: split_fields_items om members_of_sort)
  have p': "se_Payload e' = marshal (split_fields now tot ps om)" by (simp add: assms(3))
  show "canonical e'" unfolding canonical_def p' using g(2) it m(3) by auto
  show "k \<notin> split_keys \<Longrightarrow> Field (entity_view e') k = Field (entity_view e) k"
    using g by (simp add: Field_def entity_view_def p' split_fields_get payload_field_def [of "se_Payload e"] assms(2))
  have "raw_field ''items'' (sort_key fst (split_fields now tot ps om)) = raw_field ''items'' (sort_key fst m)"
    using m(3) it by (simp add: raw_field_sort) (simp add: raw_field_def)
  then show "OrderItems (entity_view e') = OrderItems (entity_view e)"
    by (simp add: OrderItems_def entity_view_def p' m(1) marshal_def array_field_def)
  show "list_all wf_payment ps \<Longrightarrow> parseSplitPayments (entity_view e') = ps"
    using g by (intro parse_blob) (simp_all add: Field_def entity_view_def p' split_fields_get)
qed

lemma PriceIRR_cong:
  assumes "\<And>k. k \<notin> split_keys \<Longrightarrow> Field e' k = Field e k"
  shows "PriceIRR e' = PriceIRR e"
  by (simp add: PriceIRR_def assms)

lemma SplitBillOf_cong:
  "PriceIRR e' = PriceIRR e \<Longrightarrow> OrderItems e' = OrderItems e \<Longrightarrow> parseSplitPayments e' = parseSplitPayments e \<Longrightarrow>
   SplitBillOf e' = SplitBillOf e"
  by (simp add: SplitBillOf_def)

subsection \<open>The selection\<close>

lemma bill_lines_rest: "l \<in> set (bill_lines ps T S a its) \<Longrightarrow> 0 \<le> sl_RemainingIRR l \<and> in64 (sl_RemainingIRR l)"
proof (induction its arbitrary: a)
  case (Cons it its)
  have "in64 0" by (simp add: in64_def)
  with Cons show ?case by (auto simp: Let_def)
qed simp

lemma lines_by_key_in: "map_of (lines_by_key ls) k = Some l \<Longrightarrow> l \<in> set ls \<and> sl_Key l = k"
proof -
  have "map_of (lines_by_key ls) k = map_of (rev (map (\<lambda>l. (sl_Key l, l)) ls)) k"
    unfolding lines_by_key_def by (subst am.get_fold_put) (simp split: option.splits)
  then show "map_of (lines_by_key ls) k = Some l \<Longrightarrow> l \<in> set ls \<and> sl_Key l = k"
    by (auto dest!: map_of_SomeD)
qed

lemma in64_quo:
  assumes "in64 a" "0 < b"
  shows "in64 (quo a b)"
proof -
  have "\<bar>a\<bar> div b \<le> \<bar>a\<bar>" using assms(2) zdiv_mono2 [of "\<bar>a\<bar>" 1 b] by simp
  moreover have "0 \<le> \<bar>a\<bar> div b" using assms(2) by (simp add: pos_imp_zdiv_nonneg_iff)
  ultimately show ?thesis using assms by (auto simp: in64_def quo_def sgn_if)
qed

lemma splitQuote_bounds:
  assumes "0 \<le> sl_RemainingIRR l" "in64 (sl_RemainingIRR l)"
  shows "splitQuote l q \<le> sl_RemainingIRR l" and "in64 (splitQuote l q)"
    and "0 < q \<Longrightarrow> q = w64 (sl_Quantity l - sl_PaidQuantity l) \<Longrightarrow> splitQuote l q = sl_RemainingIRR l"
proof -
  show "splitQuote l q \<le> sl_RemainingIRR l" using assms(1) by (auto simp: splitQuote_def Let_def)
  have "in64 0" by (simp add: in64_def)
  then show "in64 (splitQuote l q)" using assms(2) by (auto simp: splitQuote_def Let_def intro: in64_quo)
  show "0 < q \<Longrightarrow> q = w64 (sl_Quantity l - sl_PaidQuantity l) \<Longrightarrow> splitQuote l q = sl_RemainingIRR l"
    by (simp add: splitQuote_def)
qed

text \<open>What a payment charges for one selected line.\<close>

definition charged :: "SplitBillLine list \<Rightarrow> SplitPaymentLine \<Rightarrow> bool" where
  "charged lines pl \<longleftrightarrow> (\<exists>l \<in> set lines. sl_Key l = pl_LineID pl \<and> 0 < pl_Quantity pl
     \<and> pl_Quantity pl \<le> w64 (sl_Quantity l - sl_PaidQuantity l) \<and> pl_AmountIRR pl \<le> sl_RemainingIRR l
     \<and> (pl_Quantity pl = w64 (sl_Quantity l - sl_PaidQuantity l) \<longrightarrow> pl_AmountIRR pl = sl_RemainingIRR l))"

lemma picks_charged:
  assumes "foldE (pick_line (lines_by_key lines)) picks (acc, a) = Inr (pls, amt)"
    and "\<forall>l \<in> set lines. 0 \<le> sl_RemainingIRR l \<and> in64 (sl_RemainingIRR l)" and "in64 a"
  shows "in64 amt \<and> (\<exists>new. pls = acc @ new \<and> map pl_LineID new = map fst picks \<and> map pl_Quantity new = map snd picks
    \<and> list_all (charged lines) new \<and> list_all (\<lambda>pl. in64 (pl_Quantity pl) \<and> in64 (pl_AmountIRR pl)) new)"
  using assms
proof (induction picks arbitrary: acc a)
  case Nil
  then show ?case by simp
next
  case (Cons pick picks)
  obtain k q where pick: "pick = (k, q)" by (cases pick)
  from Cons.prems(1) obtain l where l: "map_of (lines_by_key lines) k = Some l"
    by (cases "map_of (lines_by_key lines) k") (auto simp: pick pick_line_def)
  from Cons.prems(1) have q: "0 < q" "q \<le> w64 (sl_Quantity l - sl_PaidQuantity l)"
    by (auto simp: pick pick_line_def l Let_def split: if_splits)
  let ?amt = "splitQuote l q" let ?pl = "\<lparr> pl_LineID = k, pl_Quantity = q, pl_AmountIRR = ?amt \<rparr>"
  have "pick_line (lines_by_key lines) pick (acc, a) = Inr (acc @ [?pl], w64 (a + ?amt))"
    using q by (simp add: pick pick_line_def l Let_def)
  then have step: "foldE (pick_line (lines_by_key lines)) picks (acc @ [?pl], w64 (a + ?amt)) = Inr (pls, amt)"
    using Cons.prems(1) by simp
  note ll = lines_by_key_in [OF l]
  then have r: "0 \<le> sl_RemainingIRR l" "in64 (sl_RemainingIRR l)" using Cons.prems(2) by auto
  have "charged lines ?pl"
    unfolding charged_def using ll q splitQuote_bounds [OF r] by (intro bexI [of _ l]) auto
  moreover have "in64 q"
    using q w64_in64 [of "sl_Quantity l - sl_PaidQuantity l"] by (auto simp: in64_def)
  moreover have "in64 ?amt" by (rule splitQuote_bounds(2) [OF r])
  moreover note Cons.IH [OF step Cons.prems(2) w64_in64]
  ultimately show ?case by (auto simp: pick)
qed


subsection \<open>Recording it\<close>

lemma ascii_UUID: "UUID rnd = Inr i \<Longrightarrow> ascii i"
proof -
  have hex: "list_all is_hex s \<Longrightarrow> ascii s" for s
    by (auto simp: list_all_iff is_hex_def is_digit_def)
  have "ascii (concat (map hex_byte bs))" for bs using hex_bytes hex by blast
  then show "UUID rnd = Inr i \<Longrightarrow> ascii i"
    by (auto simp: UUID_def Let_def list_all_iff split: option.splits dest!: in_set_takeD in_set_dropD)
qed

definition token_used :: "string \<Rightarrow> Entity \<Rightarrow> bool" where
  "token_used tok e \<longleftrightarrow> TrimSpace tok \<noteq> [] \<and> list_ex (\<lambda>p. sp_ClientToken p = TrimSpace tok) (parseSplitPayments e)"

lemma RecordSplitPayment_tx_new:
  assumes "RecordSplitPayment_tx rnd now o1 picks pm tok db = Inr (db', (paid, rem))"
    and "live db ''order'' o1 = Some e" and "\<not> token_used tok (entity_view e)"
    and "SplitBillOf (entity_view e) = (lines, tot, paid0, rem0)"
  obtains pid om pls amt p ps where "UUID rnd = Inr pid" "as_map (se_Payload e) = Some om"
    "foldE (pick_line (lines_by_key lines)) picks ([], 0) = Inr (pls, amt)" "0 < amt"
    "p = \<lparr> sp_ID = pid, sp_At = now, sp_Method = pm, sp_AmountIRR = amt, sp_ClientToken = TrimSpace tok, sp_Lines = pls \<rparr>"
    "ps = parseSplitPayments (entity_view e) @ [p]"
    "db' = putEntity (entityKey ''order'' o1) (bump (marshal (split_fields now tot ps om)) e) db"
    "paid = paid_total ps" "rem = split_rest tot (paid_total ps)"
proof -
  let ?rest = "case foldE (pick_line (lines_by_key lines)) picks ([], 0) of
      Inl er \<Rightarrow> Inl er
    | Inr (payLines, amount) \<Rightarrow>
       if amount \<le> 0 then Inl (ESplit ErrZeroAmount)
       else (case UUID rnd of
               Inl er \<Rightarrow> Inl er
             | Inr pid \<Rightarrow>
                (case as_map (se_Payload e) of
                   None \<Rightarrow> Inl (EData ErrJSON)
                 | Some om \<Rightarrow>
                    (let ps = parseSplitPayments (entity_view e) @ [\<lparr> sp_ID = pid, sp_At = now, sp_Method = pm,
                           sp_AmountIRR = amount, sp_ClientToken = TrimSpace tok, sp_Lines = payLines \<rparr>]
                     in Inr (putEntity (entityKey ''order'' o1) (bump (marshal (split_fields now tot ps om)) e) db,
                          (paid_total ps, split_rest tot (paid_total ps))))))"
  have "RecordSplitPayment_tx rnd now o1 picks pm tok db = Inr (db', (paid, rem)) \<Longrightarrow> ?rest = Inr (db', (paid, rem))"
    using assms(2-4) unfolding token_used_def
    by (simp add: RecordSplitPayment_tx_def Let_def split: if_splits del: sum.case_eq_if)
  with assms(1) have rest: "?rest = Inr (db', (paid, rem))" by blast
  from rest obtain pls amt where fold: "foldE (pick_line (lines_by_key lines)) picks ([], 0) = Inr (pls, amt)"
    by (cases "foldE (pick_line (lines_by_key lines)) picks ([], 0)") auto
  from rest fold have pos: "0 < amt" by (cases "amt \<le> 0") auto
  from rest fold pos obtain pid where pid: "UUID rnd = Inr pid" by (cases "UUID rnd") auto
  from rest fold pos pid obtain om where om: "as_map (se_Payload e) = Some om" by (cases "as_map (se_Payload e)") auto
  show ?thesis using rest fold pos pid om by (intro that [OF pid om fold pos refl refl]) (auto simp: Let_def)
qed

text \<open>
  C17. Recording a payment. The payment joins the list that is stored with the order and reads
  back exactly; its lines are the selected ones, none charged more than what remains of it,
  and a line selected to its last unit exactly what remains; amount and lines of the order
  itself stay, and the paid and remaining sums that are returned are those of the new bill.
\<close>

theorem RecordSplitPayment_recorded:
  assumes "RecordSplitPayment w rnd now o1 picks pm tok s = (s', Inr (paid, rem))"
    and "live (state s) ''order'' o1 = Some e" and "canonical e" and "\<not> token_used tok (entity_view e)"
    and "list_all wf_payment (parseSplitPayments (entity_view e))"
    and "valid_utf8 now" and "valid_utf8 (TrimSpace tok)" and "\<forall>pick \<in> set picks. valid_utf8 (fst pick)"
    and "SplitBillOf (entity_view e) = (lines, tot, paid0, rem0)"
  shows "\<exists>e' p lines'. live (state s') ''order'' o1 = Some e'
    \<and> parseSplitPayments (entity_view e') = parseSplitPayments (entity_view e) @ [p] \<and> 0 < sp_AmountIRR p
    \<and> map pl_LineID (sp_Lines p) = map fst picks \<and> map pl_Quantity (sp_Lines p) = map snd picks
    \<and> list_all (charged lines) (sp_Lines p)
    \<and> OrderItems (entity_view e') = OrderItems (entity_view e) \<and> PriceIRR (entity_view e') = PriceIRR (entity_view e)
    \<and> SplitBillOf (entity_view e') = (lines', tot, paid, rem)"
proof -
  define m where "m = TrimSpace (ToLower pm)"
  have m: "m \<in> {''cash'', ''card'', ''transfer''}" and
    tx: "RecordSplitPayment_tx rnd now o1 picks m tok (state s) = Inr (state s', (paid, rem))"
    using assms(1) by (auto simp: RecordSplitPayment_def m_def Let_def dest: withTx_ok split: if_splits)
  obtain pid om pls amt p ps where new: "UUID rnd = Inr pid" "as_map (se_Payload e) = Some om"
    "foldE (pick_line (lines_by_key lines)) picks ([], 0) = Inr (pls, amt)" "0 < amt"
    "p = \<lparr> sp_ID = pid, sp_At = now, sp_Method = m, sp_AmountIRR = amt, sp_ClientToken = TrimSpace tok, sp_Lines = pls \<rparr>"
    "ps = parseSplitPayments (entity_view e) @ [p]"
    "state s' = putEntity (entityKey ''order'' o1) (bump (marshal (split_fields now tot ps om)) e) (state s)"
    "paid = paid_total ps" "rem = split_rest tot (paid_total ps)"
    using RecordSplitPayment_tx_new [OF tx assms(2,4,9)] by blast
  have "\<forall>l \<in> set lines. 0 \<le> sl_RemainingIRR l \<and> in64 (sl_RemainingIRR l)"
    using assms(9) bill_lines_rest by (auto simp: SplitBillOf_def Let_def)
  moreover have "in64 0" by (simp add: in64_def)
  ultimately have pc: "in64 amt" "map pl_LineID pls = map fst picks" "map pl_Quantity pls = map snd picks"
    "list_all (charged lines) pls" "list_all (\<lambda>pl. in64 (pl_Quantity pl) \<and> in64 (pl_AmountIRR pl)) pls"
    using picks_charged [OF new(3)] by auto
  have "valid_utf8 (pl_LineID pl)" if "pl \<in> set pls" for pl
  proof -
    have "pl_LineID pl \<in> set (map fst picks)" using that unfolding pc(2) [symmetric] by simp
    then show ?thesis using assms(8) by auto
  qed
  then have "list_all wf_payment_line pls" using pc(5) by (auto simp: list_all_iff wf_payment_line_def)
  moreover have "valid_utf8 m" using m by (auto intro: valid_ascii)
  ultimately have "wf_payment p"
    using assms(6,7) pc(1) valid_ascii [OF ascii_UUID [OF new(1)]] by (simp add: wf_payment_def new(5))
  then have wf: "list_all wf_payment ps" using assms(5) by (simp add: new(6))
  define e' where "e' = bump (marshal (split_fields now tot ps om)) e"
  note sp = split_entity [OF assms(3) new(2) e'_def]
  have price: "PriceIRR (entity_view e') = PriceIRR (entity_view e)" using sp(2) by (rule PriceIRR_cong)
  have "\<not> se_Deleted e" using assms(2) by (simp add: getEntity_live)
  then have "live (state s') ''order'' o1 = Some e'" by (simp add: new(7) e'_def)
  moreover have "tot = Int64 (parseBigIntSafe (PriceIRR (entity_view e)))"
    using assms(9) by (simp add: SplitBillOf_def Let_def)
  then have "\<exists>lines'. SplitBillOf (entity_view e') = (lines', tot, paid, rem)"
    unfolding SplitBillOf_def Let_def sp(4) [OF wf] price new(8,9) split_rest_def by simp
  moreover have "sp_Lines p = pls" "sp_AmountIRR p = amt" by (simp_all add: new(5))
  ultimately show ?thesis
    using sp(3) sp(4) [OF wf] price pc(2-4) new(4) new(6) by metis
qed


text \<open>
  Undoing the last payment. The list of payments that is stored afterwards is the old one
  without its last element, and the bill of the order is that of the shorter list.
\<close>

theorem UndoLastSplitPayment_drops_last:
  assumes "UndoLastSplitPayment w now o1 s = (s', Inr u)"
    and "live (state s) ''order'' o1 = Some e" and "canonical e"
    and "list_all wf_payment (parseSplitPayments (entity_view e))"
  shows "\<exists>e' lines. live (state s') ''order'' o1 = Some e' \<and> parseSplitPayments (entity_view e) \<noteq> []
    \<and> parseSplitPayments (entity_view e') = butlast (parseSplitPayments (entity_view e))
    \<and> OrderItems (entity_view e') = OrderItems (entity_view e) \<and> PriceIRR (entity_view e') = PriceIRR (entity_view e)
    \<and> SplitBillOf (entity_view e') = (lines, Int64 (parseBigIntSafe (PriceIRR (entity_view e))),
        paid_total (butlast (parseSplitPayments (entity_view e))),
        split_rest (Int64 (parseBigIntSafe (PriceIRR (entity_view e)))) (paid_total (butlast (parseSplitPayments (entity_view e)))))"
proof -
  let ?ps = "parseSplitPayments (entity_view e)" let ?tot = "Int64 (parseBigIntSafe (PriceIRR (entity_view e)))"
  from assms(1) have tx: "UndoLastSplitPayment_tx now o1 (state s) = Inr (state s', u)"
    by (simp add: UndoLastSplitPayment_def withTx_ok)
  then have ne: "?ps \<noteq> []" using assms(2) by (auto simp: UndoLastSplitPayment_tx_def Let_def split: if_splits)
  then obtain p rest where ps: "?ps = p # rest" by (cases ?ps) auto
  obtain om where om: "as_map (se_Payload e) = Some om"
    and s': "state s' = putEntity (entityKey ''order'' o1) (bump (marshal (split_fields now ?tot (butlast ?ps) om)) e) (state s)"
    using tx assms(2) ps by (cases "as_map (se_Payload e)") (auto simp: UndoLastSplitPayment_tx_def Let_def split: if_splits)
  define e' where "e' = bump (marshal (split_fields now ?tot (butlast ?ps) om)) e"
  note sp = split_entity [OF assms(3) om e'_def]
  have "list_all wf_payment (butlast ?ps)" using assms(4) by (auto simp: list_all_iff dest: in_set_butlastD)
  note kept = sp(4) [OF this]
  have price: "PriceIRR (entity_view e') = PriceIRR (entity_view e)" using sp(2) by (rule PriceIRR_cong)
  have "\<not> se_Deleted e" using assms(2) by (simp add: getEntity_live)
  then have "live (state s') ''order'' o1 = Some e'" by (simp add: s' e'_def)
  moreover have "\<exists>lines. SplitBillOf (entity_view e') = (lines, ?tot, paid_total (butlast ?ps), split_rest ?tot (paid_total (butlast ?ps)))"
    unfolding SplitBillOf_def Let_def kept price split_rest_def by simp
  ultimately show ?thesis using ne kept sp(3) price by blast
qed

text \<open>
  A payment that is sent twice with the same token counts once: the repetition changes
  nothing and answers with the sums of the bill as it stands.
\<close>

theorem RecordSplitPayment_once:
  assumes "RecordSplitPayment w rnd now o1 picks pm tok s = (s', r)"
    and "live (state s) ''order'' o1 = Some e" and "token_used tok (entity_view e)"
  shows "state s' = state s \<and> (\<forall>paid rem. r = Inr (paid, rem) \<longrightarrow>
     (\<exists>lines tot. SplitBillOf (entity_view e) = (lines, tot, paid, rem)))"
proof (cases r)
  case (Inl er)
  then show ?thesis
    using assms(1) by (auto simp: RecordSplitPayment_def Let_def dest: withTx_err split: if_splits)
next
  case (Inr pr)
  then have tx: "RecordSplitPayment_tx rnd now o1 picks (TrimSpace (ToLower pm)) tok (state s) = Inr (state s', pr)"
    using assms(1) by (auto simp: RecordSplitPayment_def Let_def dest: withTx_ok split: if_splits)
  obtain lines tot paid rem where bill: "SplitBillOf (entity_view e) = (lines, tot, paid, rem)"
    using prod_cases4 by blast
  have "state s' = state s \<and> pr = (paid, rem)"
    using tx assms(2,3) bill by (auto simp: RecordSplitPayment_tx_def token_used_def Let_def split: if_splits)
  then show ?thesis using Inr bill by auto
qed


section \<open>A worked bill\<close>

text \<open>Two lines of 300 and 400 rials with a total of 600: the shares are 257 and 343.\<close>

definition demo_item :: "string \<Rightarrow> int \<Rightarrow> POSOrderLineInput" where
  "demo_item i q = \<lparr> li_ProductID = i, li_Quantity = q, li_Note = [] \<rparr>"

definition demo_view :: Entity where
  "demo_view = \<lparr> en_ID = ''p1'', en_Type = ''product'', en_Version = 1, en_Payload = JNull \<rparr>"

definition demo_split_fields :: fields where
  "demo_split_fields = [(''items'', lines_json [line_fields ''a'' (demo_item ''p1'' 1) demo_view 300 300,
       line_fields ''b'' (demo_item ''p2'' 2) demo_view 200 400]), (''price'', JStr (Itoa 600)), (''status'', JStr ''pending'')]"

definition demo_split :: storedEntity where
  "demo_split = new_record ''order'' ''o1'' demo_split_fields"

definition demo_split_store :: Store where
  "demo_split_store = demo_store\<lparr>state := putEntity (entityKey ''order'' ''o1'') demo_split newEmptyDB\<rparr>"

lemma demo_label: "Label demo_view = ''p1''"
  by (simp add: Label_def demo_view_def as_map_def)

lemma gmap_demo_split: "gmap demo_split_fields"
  by (simp add: gmap_def demo_split_fields_def)

lemma demo_split_members: "members_of ''items'' demo_split_fields = [lines_json [line_fields ''a'' (demo_item ''p1'' 1) demo_view 300 300,
       line_fields ''b'' (demo_item ''p2'' 2) demo_view 200 400]]"
  by (simp add: members_of_def demo_split_fields_def EqualFold_def HasPrefix_def lower_ascii_def)

lemma demo_split_items:
  "OrderItems (entity_view demo_split) =
    [\<lparr> ov_ID = ''a'', ov_ProductID = ''p1'', ov_ProductName = ''p1'', ov_Quantity = 1, ov_UnitPrice = Itoa 300,
       ov_LineTotal = Itoa 300, ov_Note = [] \<rparr>,
     \<lparr> ov_ID = ''b'', ov_ProductID = ''p2'', ov_ProductName = ''p1'', ov_Quantity = 2, ov_UnitPrice = Itoa 200,
       ov_LineTotal = Itoa 400, ov_Note = [] \<rparr>]"
proof -
  have "raw_field ''items'' (sort_key fst demo_split_fields) = Some (lines_json [line_fields ''a'' (demo_item ''p1'' 1) demo_view 300 300,
       line_fields ''b'' (demo_item ''p2'' 2) demo_view 200 400])"
    by (simp add: raw_field_sort demo_split_members) (simp add: raw_field_def demo_split_members)
  moreover have "in64 (li_Quantity (demo_item ''p1'' 1))" "in64 (li_Quantity (demo_item ''p2'' 2))"
    by (simp_all add: demo_item_def in64_def)
  ultimately show ?thesis
    by (simp add: OrderItems_def array_field_def entity_view_def demo_split_def new_record_def marshal_def [of demo_split_fields]
        lines_json_def order_line_read demo_label) (simp add: demo_item_def)
qed

lemma demo_split_read:
  "PriceIRR (entity_view demo_split) = Itoa 600" "parseSplitPayments (entity_view demo_split) = []"
  "Field (entity_view demo_split) ''status'' = ''pending''" "canonical demo_split"
  using gmap_demo_split demo_split_members
  by (simp_all add: PriceIRR_def parseSplitPayments_def Field_def entity_view_def demo_split_def new_record_def canonical_def)
    (simp_all add: demo_split_fields_def, metis demo_split_fields_def demo_split_members le_numeral_extra(4) length_Cons list.size(3) One_nat_def)


lemma w64_literal: "w64 0 = 0" "w64 1 = 1" "(numeral k :: int) < 2 ^ 63 \<Longrightarrow> w64 (numeral k) = numeral k"
  by (simp_all add: w64_id in64_def)

definition demo_bill_lines :: "SplitBillLine list" where
  "demo_bill_lines =
    [\<lparr> sl_Key = ''a'', sl_Title = ''p1'', sl_Quantity = 1, sl_PaidQuantity = 0, sl_UnitPayableIRR = 257,
       sl_LinePayableIRR = 257, sl_PaidIRR = 0, sl_RemainingIRR = 257 \<rparr>,
     \<lparr> sl_Key = ''b'', sl_Title = ''p1'', sl_Quantity = 2, sl_PaidQuantity = 0, sl_UnitPayableIRR = 171,
       sl_LinePayableIRR = 343, sl_PaidIRR = 0, sl_RemainingIRR = 343 \<rparr>]"

lemma demo_bill_of: "SplitBillOf (entity_view demo_split) = (demo_bill_lines, 600, 0, 600)"
  by (simp add: SplitBillOf_def demo_split_read demo_split_items Let_def Int64_def line_amount_def line_payable_def
      paidQty_def paidAmt_def paid_lines_def paid_total_def quo_def demo_bill_lines_def w64_literal)

lemma demo_split_live: "live (state demo_split_store) ''order'' ''o1'' = Some demo_split"
  by (simp add: demo_split_store_def demo_split_def new_record_def)

lemma demo_split_run:
  "\<exists>s'. RecordSplitPayment all_ok (demo_uuid 3) ''t1'' ''o1'' [(''a'', 1)] ''cash'' ''k1'' demo_split_store = (s', Inr (257, 343))"
proof -
  have low: "ToLower ''cash'' = ''cash''" "ToLower ''pending'' = ''pending''" by (simp_all add: HasPrefix_def lower_ascii_def)
  have trim: "TrimSpace ''cash'' = ''cash''" by (rule TrimSpace_graph) (simp_all add: graph_def)
  have pick: "foldE (pick_line (lines_by_key demo_bill_lines)) [(''a'', 1)] ([], 0) =
      Inr ([\<lparr> pl_LineID = ''a'', pl_Quantity = 1, pl_AmountIRR = 257 \<rparr>], 257)"
    by (simp add: pick_line_def lines_by_key_def demo_bill_lines_def splitQuote_def w64_literal)
  obtain om where om: "as_map (se_Payload demo_split) = Some om"
    using gmap_demo_split by (simp add: demo_split_def new_record_def)
  have "\<exists>db. RecordSplitPayment_tx (demo_uuid 3) ''t1'' ''o1'' [(''a'', 1)] ''cash'' ''k1'' (state demo_split_store) = Inr (db, (257, 343))"
    by (simp add: RecordSplitPayment_tx_def demo_split_live demo_split_read demo_bill_of low pick om demo_id_eq Let_def
        paid_total_def split_rest_def w64_literal del: foldE.simps)
  then obtain db where tx: "RecordSplitPayment_tx (demo_uuid 3) ''t1'' ''o1'' [(''a'', 1)] ''cash'' ''k1'' (state demo_split_store)
      = Inr (db, (257, 343))" by blast
  have "\<not> closed demo_split_store" by (simp add: demo_split_store_def demo_store_def)
  from withTx_all_ok [of demo_split_store "RecordSplitPayment_tx (demo_uuid 3) ''t1'' ''o1'' [(''a'', 1)] ''cash'' ''k1''", OF this tx]
  show ?thesis by (simp add: RecordSplitPayment_def low trim del: ToLower.simps)
qed


theorem RecordSplitPayment_recorded_witness:
  "\<exists>s' e' p. RecordSplitPayment all_ok (demo_uuid 3) ''t1'' ''o1'' [(''a'', 1)] ''cash'' ''k1'' demo_split_store = (s', Inr (257, 343))
     \<and> live (state s') ''order'' ''o1'' = Some e' \<and> parseSplitPayments (entity_view e') = [p] \<and> map pl_Quantity (sp_Lines p) = [1]"
proof -
  obtain s' where run: "RecordSplitPayment all_ok (demo_uuid 3) ''t1'' ''o1'' [(''a'', 1)] ''cash'' ''k1'' demo_split_store
      = (s', Inr (257, 343))" using demo_split_run by blast
  have "TrimSpace ''k1'' = ''k1''" by (rule TrimSpace_graph) (simp_all add: graph_def)
  then have h: "\<not> token_used ''k1'' (entity_view demo_split)" "list_all wf_payment (parseSplitPayments (entity_view demo_split))"
    "valid_utf8 ''t1''" "valid_utf8 (TrimSpace ''k1'')" "\<forall>pick \<in> set [(''a'', 1::int)]. valid_utf8 (fst pick)"
    by (simp_all add: token_used_def demo_split_read valid_ascii)
  from RecordSplitPayment_recorded [OF run demo_split_live demo_split_read(4) h demo_bill_of] run show ?thesis
    by (auto simp: demo_split_read)
qed


text \<open>The same order with one payment on it.\<close>

definition demo_pay :: SplitPayment where
  "demo_pay = \<lparr> sp_ID = ''x1'', sp_At = ''t1'', sp_Method = ''cash'', sp_AmountIRR = 257, sp_ClientToken = ''k1'',
     sp_Lines = [\<lparr> pl_LineID = ''a'', pl_Quantity = 1, pl_AmountIRR = 257 \<rparr>] \<rparr>"

definition demo_paid :: storedEntity where
  "demo_paid = bump (marshal (split_fields ''t1'' 600 [demo_pay] (sort_key fst demo_split_fields))) demo_split"

definition demo_paid_store :: Store where
  "demo_paid_store = demo_store\<lparr>state := putEntity (entityKey ''order'' ''o1'') demo_paid newEmptyDB\<rparr>"

lemma demo_paid_map: "as_map (se_Payload demo_split) = Some (sort_key fst demo_split_fields)"
  using gmap_demo_split by (simp add: demo_split_def new_record_def)

lemma demo_pay_wf: "list_all wf_payment [demo_pay]"
  by (simp add: wf_payment_def wf_payment_line_def demo_pay_def valid_ascii in64_def)

lemmas demo_paid_read = split_entity [OF demo_split_read(4) demo_paid_map demo_paid_def]

lemma demo_paid_live: "live (state demo_paid_store) ''order'' ''o1'' = Some demo_paid" "\<not> closed demo_paid_store"
  by (simp_all add: demo_paid_store_def demo_paid_def demo_split_def new_record_def demo_store_def)

lemma demo_paid_payments: "parseSplitPayments (entity_view demo_paid) = [demo_pay]"
  by (rule demo_paid_read(4) [OF demo_pay_wf])

lemma demo_paid_status: "Field (entity_view demo_paid) ''status'' = ''pending''"
  using demo_paid_read(2) [of "''status''"] demo_split_read(3) by simp

theorem UndoLastSplitPayment_drops_last_witness:
  "\<exists>s' e'. UndoLastSplitPayment all_ok ''t2'' ''o1'' demo_paid_store = (s', Inr ())
     \<and> live (state s') ''order'' ''o1'' = Some e' \<and> parseSplitPayments (entity_view e') = []"
proof -
  obtain om where om: "as_map (se_Payload demo_paid) = Some om"
    using demo_paid_read(1) by (auto simp: canonical_def)
  have "\<not> EqualFold ''pending'' ''completed''" by (simp add: EqualFold_def HasPrefix_def lower_ascii_def)
  then have "\<exists>db. UndoLastSplitPayment_tx ''t2'' ''o1'' (state demo_paid_store) = Inr (db, ())"
    by (simp add: UndoLastSplitPayment_tx_def demo_paid_live demo_paid_status demo_paid_payments om Let_def)
  then obtain db where tx: "UndoLastSplitPayment_tx ''t2'' ''o1'' (state demo_paid_store) = Inr (db, ())" by blast
  from withTx_all_ok [of demo_paid_store "UndoLastSplitPayment_tx ''t2'' ''o1''", OF demo_paid_live(2) tx]
  obtain s' where run: "UndoLastSplitPayment all_ok ''t2'' ''o1'' demo_paid_store = (s', Inr ())"
    by (simp add: UndoLastSplitPayment_def)
  have "list_all wf_payment (parseSplitPayments (entity_view demo_paid))" using demo_pay_wf by (simp add: demo_paid_payments)
  from UndoLastSplitPayment_drops_last [OF run demo_paid_live(1) demo_paid_read(1) this] run show ?thesis
    by (auto simp: demo_paid_payments)
qed

theorem RecordSplitPayment_once_witness:
  "state (fst (RecordSplitPayment all_ok (demo_uuid 4) ''t2'' ''o1'' [(''a'', 1)] ''cash'' ''k1'' demo_paid_store)) = state demo_paid_store"
proof -
  let ?run = "RecordSplitPayment all_ok (demo_uuid 4) ''t2'' ''o1'' [(''a'', 1)] ''cash'' ''k1'' demo_paid_store"
  have "TrimSpace ''k1'' = ''k1''" by (rule TrimSpace_graph) (simp_all add: graph_def)
  then have "token_used ''k1'' (entity_view demo_paid)"
    by (simp add: token_used_def demo_paid_payments demo_pay_def)
  moreover have "?run = (fst ?run, snd ?run)" by simp
  ultimately show ?thesis using RecordSplitPayment_once [OF _ demo_paid_live(1)] by blast
qed

end
