(* ===== verification/Json_Structs.thy ===== *)
theory Json_Structs
  imports Json
begin

text \<open>
  Further cases of \<open>json.Unmarshal\<close> into a struct: Boolean fields, slices, and the members
  of a document that is decoded into a struct.
\<close>

fun dec_bool :: "bool \<Rightarrow> json list \<Rightarrow> bool option" where
  "dec_bool cur [] = Some cur"
| "dec_bool cur (JNull # js) = dec_bool cur js"
| "dec_bool cur (JBool b # js) = dec_bool b js"
| "dec_bool cur (_ # js) = None"

definition bool_field :: "string \<Rightarrow> (string \<times> json) list \<Rightarrow> bool option" where
  "bool_field name kvs = dec_bool False (members_of name kvs)"

text \<open>The members of a document that is decoded into a struct.\<close>

definition struct_members :: "json \<Rightarrow> (string \<times> json) list option" where
  "struct_members j = (case j of JObj kvs \<Rightarrow> Some kvs | JNull \<Rightarrow> Some [] | _ \<Rightarrow> None)"

text \<open>A slice: \<open>null\<close> is the nil slice.\<close>

definition slice :: "json \<Rightarrow> json list option" where
  "slice j = (case j of JArr js \<Rightarrow> Some js | JNull \<Rightarrow> Some [] | _ \<Rightarrow> None)"

definition slice_field :: "string \<Rightarrow> (json \<Rightarrow> 'a option) \<Rightarrow> (string \<times> json) list \<Rightarrow> 'a list option" where
  "slice_field name f kvs =
    (case raw_field name kvs of
       None \<Rightarrow> Some []
     | Some j \<Rightarrow> (case slice j of None \<Rightarrow> None | Some js \<Rightarrow> those (map f js)))"

end
