(* ===== verification/Sync_Client.thy ===== *)
theory Sync_Client
  imports Outbox Json_Structs
begin

text \<open>
  Package \<open>syncclient\<close>: one round of synchronisation with the server. The server and the
  network are a parameter \<open>srv\<close>, a function from the requests sent so far to the reply of
  the last one; nothing is assumed about it. The outcomes of the file system during the
  n-th call of the store are \<open>ios n\<close>. The state of a round records every request together
  with the store at the moment of sending.
\<close>

section \<open>Requests and replies\<close>

datatype sync_req =
    Handshake string
  | BootstrapReq
  | Push "Operation list"
  | Pull string
  | Ack string

datatype reply = NoReply | ReadError | Reply int string

record APIError =
  ae_Code :: string
  ae_Message :: string
  ae_RetryClass :: string

datatype sync_err =
    ErrUnreachable | ErrRead | ErrTooBig | ErrInvalidJSON int | ErrAPI APIError | ErrHTTP int | ErrDecode
  | ErrVersion | ErrPaged | ErrNoData | ErrCursorStuck | ErrPageLimit | EStore err

subsection \<open>Decoding into structs\<close>

definition api_error :: "(string \<times> json) list \<Rightarrow> APIError option" where
  "api_error kvs =
    (case (string_field ''code'' kvs, string_field ''message'' kvs, string_field ''retry_class'' kvs) of
       (Some c, Some m, Some r) \<Rightarrow> Some \<lparr> ae_Code = c, ae_Message = m, ae_RetryClass = r \<rparr>
     | _ \<Rightarrow> None)"

text \<open>A pointer to a struct: \<open>null\<close> or absence is \<open>nil\<close>.\<close>

definition error_field :: "(string \<times> json) list \<Rightarrow> APIError option option" where
  "error_field kvs =
    (case raw_field ''error'' kvs of
       None \<Rightarrow> Some None
     | Some JNull \<Rightarrow> Some None
     | Some (JObj es) \<Rightarrow> (case api_error es of None \<Rightarrow> None | Some e \<Rightarrow> Some (Some e))
     | Some _ \<Rightarrow> None)"

definition envelope :: "json \<Rightarrow> (bool \<times> json option \<times> APIError option) option" where
  "envelope j =
    (case struct_members j of
       None \<Rightarrow> None
     | Some kvs \<Rightarrow>
        (case (bool_field ''success'' kvs, error_field kvs) of
           (Some ok, Some er) \<Rightarrow> Some (ok, raw_field ''data'' kvs, er)
         | _ \<Rightarrow> None))"

definition reply_data :: "reply \<Rightarrow> sync_err + json option" where
  "reply_data r =
    (case r of
       NoReply \<Rightarrow> Inl ErrUnreachable
     | ReadError \<Rightarrow> Inl ErrRead
     | Reply status raw \<Rightarrow>
        if length raw > 32 * 2 ^ 20 then Inl ErrTooBig
        else (case Option.bind (json_parse raw) envelope of
                None \<Rightarrow> Inl (ErrInvalidJSON status)
              | Some (ok, data, er) \<Rightarrow>
                 if status < 200 \<or> status \<ge> 300 \<or> \<not> ok
                 then (case er of Some a \<Rightarrow> Inl (ErrAPI a) | None \<Rightarrow> Inl (ErrHTTP status))
                 else Inr data))"

definition limits_field :: "(string \<times> json) list \<Rightarrow> int option" where
  "limits_field kvs =
    (case raw_field ''limits'' kvs of
       None \<Rightarrow> Some 0
     | Some j \<Rightarrow> (case struct_members j of None \<Rightarrow> None | Some ls \<Rightarrow> int_field ''max_batch_size'' ls))"

definition handshake_of :: "json \<Rightarrow> (bool \<times> int \<times> int) option" where
  "handshake_of j =
    (case struct_members j of
       None \<Rightarrow> None
     | Some kvs \<Rightarrow>
        (case (bool_field ''bootstrap_required'' kvs, int_field ''supported_protocol_version'' kvs, limits_field kvs) of
           (Some b, Some v, Some m) \<Rightarrow> Some (b, v, m)
         | _ \<Rightarrow> None))"

definition sections_of :: "json \<Rightarrow> (string \<times> json list) list option option" where
  "sections_of j =
    (case j of
       JNull \<Rightarrow> Some None
     | JObj kvs \<Rightarrow>
        (case those (map (\<lambda>(k, v). map_option (\<lambda>js. (k, js)) (slice v)) kvs) of
           None \<Rightarrow> None
         | Some secs \<Rightarrow> Some (Some (fold (\<lambda>(k, js). AList.update k js) secs [])))
     | _ \<Rightarrow> None)"

definition bootstrap_of :: "json \<Rightarrow> (string \<times> (string \<times> json list) list option \<times> bool) option" where
  "bootstrap_of j =
    (case struct_members j of
       None \<Rightarrow> None
     | Some kvs \<Rightarrow>
        (case (string_field ''snapshot_cursor'' kvs, bool_field ''has_more'' kvs,
               case raw_field ''data'' kvs of None \<Rightarrow> Some None | Some d \<Rightarrow> sections_of d) of
           (Some c, Some m, Some d) \<Rightarrow> Some (c, d, m)
         | _ \<Rightarrow> None))"

definition result_of :: "json \<Rightarrow> Result option" where
  "result_of j =
    (case struct_members j of
       None \<Rightarrow> None
     | Some kvs \<Rightarrow>
        (case (string_field ''operation_id'' kvs, string_field ''status'' kvs) of
           (Some i, Some st) \<Rightarrow> Some \<lparr> rs_ID = i, rs_Status = st,
              rs_Error = (case raw_field ''error'' kvs of None \<Rightarrow> JNull | Some e \<Rightarrow> e) \<rparr>
         | _ \<Rightarrow> None))"

definition results_of :: "json \<Rightarrow> Result list option" where
  "results_of j = (case struct_members j of None \<Rightarrow> None | Some kvs \<Rightarrow> slice_field ''results'' result_of kvs)"

definition change_of :: "json \<Rightarrow> Change option" where
  "change_of j =
    (case struct_members j of
       None \<Rightarrow> None
     | Some kvs \<Rightarrow>
        (case (string_field ''entity_type'' kvs, string_field ''entity_id'' kvs, int_field ''entity_version'' kvs,
               bool_field ''tombstone'' kvs, string_field ''operation'' kvs) of
           (Some t, Some i, Some v, Some tomb, Some p) \<Rightarrow>
             Some \<lparr> ch_EntityType = t, ch_EntityID = i, ch_Version = v, ch_Tombstone = tomb, ch_Operation = p,
               ch_Payload = (case raw_field ''payload'' kvs of None \<Rightarrow> JNull | Some d \<Rightarrow> d) \<rparr>
         | _ \<Rightarrow> None))"

definition page_of :: "json \<Rightarrow> (string \<times> bool \<times> Change list) option" where
  "page_of j =
    (case struct_members j of
       None \<Rightarrow> None
     | Some kvs \<Rightarrow>
        (case (string_field ''next_cursor'' kvs, bool_field ''has_more'' kvs, slice_field ''changes'' change_of kvs) of
           (Some n, Some m, Some cs) \<Rightarrow> Some (n, m, cs)
         | _ \<Rightarrow> None))"

section \<open>A client\<close>

text \<open>\<open>New\<close>, over the parts that \<open>url.Parse\<close> finds (a parameter).\<close>

record URL =
  u_Scheme :: string
  u_Host :: string
  u_Hostname :: string
  u_HasUser :: bool
  u_RawQuery :: string
  u_Fragment :: string
  u_Path :: string
  u_String :: string

record Client =
  cl_BaseURL :: string
  cl_DeviceID :: string
  cl_DeviceToken :: string

datatype client_err = ErrURL | ErrNotOrigin | ErrNeedsHTTPS | ErrNoDevice

definition New :: "(string \<Rightarrow> URL option) \<Rightarrow> string \<Rightarrow> string \<Rightarrow> string \<Rightarrow> client_err + Client" where
  "New parse base i token =
    (case parse (TrimRightChar base (CHR ''/'')) of
       None \<Rightarrow> Inl ErrURL
     | Some u \<Rightarrow>
        if u_Host u = [] \<or> u_HasUser u \<or> u_RawQuery u \<noteq> [] \<or> u_Fragment u \<noteq> [] \<or> u_Path u \<noteq> [] then Inl ErrNotOrigin
        else if u_Scheme u \<noteq> ''https''
             \<and> \<not> (u_Scheme u = ''http'' \<and> u_Hostname u \<in> {''localhost'', ''127.0.0.1'', ''::1''}) then Inl ErrNeedsHTTPS
        else if CHR 0x0D \<in> set (i @ token) \<or> CHR 0x0A \<in> set (i @ token) \<or> i = [] \<or> token = [] then Inl ErrNoDevice
        else Inr \<lparr> cl_BaseURL = u_String u, cl_DeviceID = i, cl_DeviceToken = token \<rparr>)"

section \<open>A round of synchronisation\<close>

record sync_st =
  ss_store :: Store
  ss_sent :: "(sync_req \<times> Store) list"
  ss_calls :: nat

type_synonym 'a sync = "sync_st \<Rightarrow> sync_st \<times> (sync_err + 'a)"
type_synonym server = "sync_req list \<Rightarrow> reply"

definition give :: "'a \<Rightarrow> 'a sync" where
  "give a st = (st, Inr a)"

definition stop :: "sync_err \<Rightarrow> 'a sync" where
  "stop e st = (st, Inl e)"

definition then_do :: "'a sync \<Rightarrow> ('a \<Rightarrow> 'b sync) \<Rightarrow> 'b sync" where
  "then_do m f st = (case m st of (st1, Inl e) \<Rightarrow> (st1, Inl e) | (st1, Inr a) \<Rightarrow> f a st1)"

text \<open>A call of the store, and a read.\<close>

definition call :: "(nat \<Rightarrow> io) \<Rightarrow> (io \<Rightarrow> Store \<Rightarrow> Store \<times> (err + 'a)) \<Rightarrow> 'a sync" where
  "call ios m st =
    (case m (ios (ss_calls st)) (ss_store st) of
       (s', r) \<Rightarrow> (st\<lparr>ss_store := s', ss_calls := Suc (ss_calls st)\<rparr>, map_sum EStore id r))"

definition peek :: "(nat \<Rightarrow> io) \<Rightarrow> (io \<Rightarrow> Store \<Rightarrow> err + 'a) \<Rightarrow> 'a sync" where
  "peek ios m st =
    (st\<lparr>ss_calls := Suc (ss_calls st)\<rparr>, map_sum EStore id (m (ios (ss_calls st)) (ss_store st)))"

definition send :: "sync_req \<Rightarrow> sync_st \<Rightarrow> sync_st" where
  "send q st = st\<lparr>ss_sent := ss_sent st @ [(q, ss_store st)]\<rparr>"

text \<open>\<open>request\<close> with a struct to decode into, and without (\<open>out == nil\<close>).\<close>

definition ask :: "server \<Rightarrow> sync_req \<Rightarrow> (json \<Rightarrow> 'a option) \<Rightarrow> 'a sync" where
  "ask srv q dec0 st =
    (let st' = send q st
     in (st', case reply_data (srv (map fst (ss_sent st'))) of
                Inl e \<Rightarrow> Inl e
              | Inr data \<Rightarrow> (case Option.bind data dec0 of None \<Rightarrow> Inl ErrDecode | Some a \<Rightarrow> Inr a)))"

definition tell :: "server \<Rightarrow> sync_req \<Rightarrow> unit sync" where
  "tell srv q st =
    (let st' = send q st
     in (st', case reply_data (srv (map fst (ss_sent st'))) of Inl e \<Rightarrow> Inl e | Inr data \<Rightarrow> Inr ()))"

definition bootstrap :: "server \<Rightarrow> (nat \<Rightarrow> io) \<Rightarrow> unit sync" where
  "bootstrap srv ios =
    then_do (ask srv BootstrapReq bootstrap_of) (\<lambda>(cursor, data, hasMore).
      if hasMore then stop ErrPaged
      else case data of
             None \<Rightarrow> stop ErrNoData
           | Some secs \<Rightarrow> call ios (\<lambda>w. Bootstrap w secs cursor))"

fun pull_pages :: "server \<Rightarrow> (nat \<Rightarrow> io) \<Rightarrow> nat \<Rightarrow> bool \<Rightarrow> string \<Rightarrow> unit sync" where
  "pull_pages srv ios 0 recovered cursor st = stop ErrPageLimit st"
| "pull_pages srv ios (Suc n) recovered cursor st =
    (case ask srv (Pull cursor) page_of st of
       (st1, Inl (ErrAPI a)) \<Rightarrow>
         if \<not> recovered \<and> ae_RetryClass a = ''bootstrap''
         then then_do (bootstrap srv ios) (\<lambda>_. then_do (peek ios Cursor) (pull_pages srv ios n True)) st1
         else (st1, Inl (ErrAPI a))
     | (st1, Inl e) \<Rightarrow> (st1, Inl e)
     | (st1, Inr (nxt, hasMore, changes)) \<Rightarrow>
         if hasMore \<and> nxt = cursor then stop ErrCursorStuck st1
         else then_do (call ios (\<lambda>w. ApplyPage w changes nxt)) (\<lambda>_.
                then_do (tell srv (Ack nxt)) (\<lambda>_.
                  if \<not> hasMore then give () else pull_pages srv ios n recovered nxt)) st1)"

definition push_batch :: "server \<Rightarrow> (nat \<Rightarrow> io) \<Rightarrow> Operation list \<Rightarrow> unit sync" where
  "push_batch srv ios ops =
    (if ops = [] then give ()
     else then_do (ask srv (Push ops) results_of) (\<lambda>rs. call ios (\<lambda>w. SaveResults w ops rs)))"

definition Refresh :: "server \<Rightarrow> (nat \<Rightarrow> io) \<Rightarrow> Client \<Rightarrow> unit sync" where
  "Refresh srv ios c =
    then_do (call ios (\<lambda>w. Bind w (cl_BaseURL c @ ''|'' @ cl_DeviceID c))) (\<lambda>_.
    then_do (peek ios Cursor) (\<lambda>cursor0.
    then_do (ask srv (Handshake cursor0) handshake_of) (\<lambda>(boot, ver, maxBatch).
      if ver \<noteq> 2 then stop ErrVersion
      else
        then_do (if boot \<or> cursor0 = [] then then_do (bootstrap srv ios) (\<lambda>_. peek ios Cursor) else give cursor0) (\<lambda>cursor.
        then_do (peek ios (\<lambda>w. OutboxOf w True)) (\<lambda>ops.
        then_do (push_batch srv ios
          (if maxBatch > 0 \<and> int (length ops) > maxBatch then take (nat maxBatch) ops else ops)) (\<lambda>_.
          pull_pages srv ios 100 False cursor))))))"

section \<open>What holds along a round\<close>

text \<open>The file holds the state, and the state holds this cursor.\<close>

definition committed :: "Store \<Rightarrow> string \<Rightarrow> bool" where
  "committed s c \<longleftrightarrow> durable s \<and> metaOf (state s) ''cursor'' = c"

text \<open>
  A relation between the states of a round that is kept by everything a round does: by
  sending a request, where an acknowledgement may only be sent for a committed cursor, and
  by the calls of the store.
\<close>

locale sync_relation =
  fixes R :: "sync_st \<Rightarrow> sync_st \<Rightarrow> bool"
  assumes R_refl: "R st st"
    and R_trans: "R a b \<Longrightarrow> R b c \<Longrightarrow> R a c"
    and R_count: "R st (st\<lparr>ss_calls := n\<rparr>)"
    and R_send: "(\<And>c. q = Ack c \<Longrightarrow> committed (ss_store st) c) \<Longrightarrow> R st (send q st)"
    and R_bind: "R st (st\<lparr>ss_store := fst (Bind w scope (ss_store st))\<rparr>)"
    and R_boot: "R st (st\<lparr>ss_store := fst (Bootstrap w secs cur (ss_store st))\<rparr>)"
    and R_save: "R st (st\<lparr>ss_store := fst (SaveResults w sent rs (ss_store st))\<rparr>)"
    and R_page: "R st (st\<lparr>ss_store := fst (ApplyPage w cs cur (ss_store st))\<rparr>)"
begin

lemma R_then_do:
  assumes "R st (fst (m st))" and "\<And>a st1. m st = (st1, Inr a) \<Longrightarrow> R st1 (fst (f a st1))"
  shows "R st (fst (then_do m f st))"
proof -
  obtain st1 r where m: "m st = (st1, r)" by (cases "m st")
  with assms show ?thesis by (cases r) (auto simp: then_do_def intro: R_trans)
qed

lemma R_call: "(\<And>w. R st (st\<lparr>ss_store := fst (m w (ss_store st))\<rparr>)) \<Longrightarrow> R st (fst (call ios m st))"
  by (auto simp: call_def split: prod.splits) (metis R_count R_trans fst_conv sync_st.update_convs(1,3))

lemma R_peek: "R st (fst (peek ios m st))"
  by (simp add: peek_def R_count)

lemma R_ask: "(\<And>c. q \<noteq> Ack c) \<Longrightarrow> R st (fst (ask srv q dec0 st))"
  by (auto simp: ask_def Let_def intro: R_send)

lemma R_tell: "(\<And>c. q = Ack c \<Longrightarrow> committed (ss_store st) c) \<Longrightarrow> R st (fst (tell srv q st))"
  by (auto simp: tell_def Let_def intro: R_send)

lemma R_bootstrap: "R st (fst (bootstrap srv ios st))"
  unfolding bootstrap_def
  by (rule R_then_do)
    (auto simp: stop_def R_refl split: option.splits intro!: R_ask R_call R_boot)

lemma page_committed:
  assumes "call ios (\<lambda>w. ApplyPage w cs nxt) st = (st1, Inr u)"
  shows "committed (ss_store st1) nxt"
proof -
  obtain s' r where run: "ApplyPage (ios (ss_calls st)) cs nxt (ss_store st) = (s', r)"
    by (cases "ApplyPage (ios (ss_calls st)) cs nxt (ss_store st)")
  with assms have st1: "ss_store st1 = s'" and r: "r = Inr u" by (cases r; auto simp: call_def)+
  with run have run': "ApplyPage (ios (ss_calls st)) cs nxt (ss_store st) = (s', Inr u)" by simp
  then have "durable s'" by (auto simp: ApplyPage_def dest: withTx_durable split: if_splits)
  moreover from ApplyPage_result [OF run'] have "metaOf (state s') ''cursor'' = nxt"
    by (metis metaOf_setMeta)
  ultimately show ?thesis by (simp add: committed_def st1)
qed

lemma R_pull_pages: "R st (fst (pull_pages srv ios n recovered cursor st))"
proof (induction n arbitrary: recovered cursor st)
  case 0
  then show ?case by (simp add: stop_def R_refl)
next
  case (Suc n)
  obtain st1 r where ask: "ask srv (Pull cursor) page_of st = (st1, r)" by (cases "ask srv (Pull cursor) page_of st")
  have "R st st1" using R_ask [of "Pull cursor" st srv page_of] by (simp add: ask)
  moreover have "R st1 (fst (then_do (bootstrap srv ios) (\<lambda>_. then_do (peek ios Cursor) (pull_pages srv ios n True)) st1))"
    by (intro R_then_do R_bootstrap R_peek Suc.IH)
  moreover have "R st1 (fst (then_do (call ios (\<lambda>w. ApplyPage w changes nxt)) (\<lambda>_. then_do (tell srv (Ack nxt)) f) st1))"
    if "\<And>u st. R st (fst (f u st))" for changes nxt f
    by (intro R_then_do R_call R_page R_tell) (auto simp: that dest: page_committed)
  moreover have "R st1 st1" by (rule R_refl)
  moreover have "R st (fst (give u st))" for u :: unit and st by (simp add: give_def R_refl)
  ultimately show ?case
    by (auto simp: ask stop_def Suc.IH split: sum.splits sync_err.splits intro!: R_trans [of st st1])
qed

lemma R_push_batch: "R st (fst (push_batch srv ios ops st))"
  by (auto simp: push_batch_def give_def R_refl intro!: R_then_do R_ask R_call R_save)

lemma R_Refresh: "R st (fst (Refresh srv ios c st))"
  unfolding Refresh_def
  by (intro R_then_do R_call R_bind R_peek)
    (auto simp: stop_def give_def R_refl
      intro!: R_then_do R_ask R_peek R_bootstrap R_push_batch R_pull_pages)

end

subsection \<open>The relations that a round keeps\<close>

text \<open>An acknowledgement was sent while its cursor was in the state and in the file.\<close>

definition ack_ok :: "sync_req \<times> Store \<Rightarrow> bool" where
  "ack_ok = (\<lambda>(q, s). case q of Ack c \<Rightarrow> committed s c | _ \<Rightarrow> True)"

interpretation acks: sync_relation "\<lambda>a b. list_all ack_ok (ss_sent a) \<longrightarrow> list_all ack_ok (ss_sent b)"
  by unfold_locales (auto simp: send_def ack_ok_def split: sync_req.splits)

text \<open>Operations are neither added nor lost, and each only moves along its states.\<close>

definition outbox_moves :: "persistedDB \<Rightarrow> persistedDB \<Rightarrow> bool" where
  "outbox_moves db db' \<longleftrightarrow> list_all2 evolves (Outbox db) (Outbox db') \<and> NextOutboxSeq db' = NextOutboxSeq db"

lemma outbox_moves_refl: "outbox_moves db db"
  by (simp add: outbox_moves_def list_all2_same)

lemma outbox_moves_trans: "outbox_moves a b \<Longrightarrow> outbox_moves b c \<Longrightarrow> outbox_moves a c"
  using list_all2_trans [of evolves evolves evolves, OF evolves_trans] by (fastforce simp: outbox_moves_def)

lemma same_outbox_moves: "same_outbox a b \<Longrightarrow> outbox_moves a b"
  by (simp add: same_outbox_def outbox_moves_def list_all2_same)

lemma outbox_evolves_moves: "outbox_evolves a b \<Longrightarrow> outbox_moves a b"
  by (auto simp: outbox_evolves_def outbox_moves_def)

lemma Bind_same_outbox: "same_outbox (state s) (state (fst (Bind w scope s)))"
proof -
  have "same_outbox db db'" if "Bind_tx scope db = Inr (db', u)" for db db' u
    using that by (auto simp: Bind_tx_def same_outbox_def split: option.splits if_splits)
  then show ?thesis
    using tx.run_relates [of w "Bind_tx scope" s "fst (Bind w scope s)" "snd (Bind w scope s)" same_outbox]
    by (auto simp: Bind_def same_outbox_def)
qed

interpretation ops: sync_relation "\<lambda>a b. outbox_moves (state (ss_store a)) (state (ss_store b))"
proof unfold_locales
  fix st :: sync_st and w sent rs
  show "outbox_moves (state (ss_store st)) (state (ss_store (st\<lparr>ss_store := fst (SaveResults w sent rs (ss_store st))\<rparr>)))"
    using SaveResults_evolves [of w sent rs "ss_store st"] by (auto intro!: outbox_evolves_moves simp: prod_eq_iff)
next
  fix st :: sync_st and w cs cur
  show "outbox_moves (state (ss_store st)) (state (ss_store (st\<lparr>ss_store := fst (ApplyPage w cs cur (ss_store st))\<rparr>)))"
    using page_outbox(1) [of w cs cur "ss_store st"] by (auto intro!: same_outbox_moves simp: prod_eq_iff)
next
  fix st :: sync_st and w secs cur
  show "outbox_moves (state (ss_store st)) (state (ss_store (st\<lparr>ss_store := fst (Bootstrap w secs cur (ss_store st))\<rparr>)))"
    using page_outbox(2) [of w secs cur "ss_store st"] by (auto intro!: same_outbox_moves simp: prod_eq_iff)
qed (auto simp: send_def outbox_moves_refl intro: outbox_moves_trans same_outbox_moves Bind_same_outbox)

subsection \<open>The number of requests\<close>

text \<open>A step of a round sends at most \<open>n\<close> requests.\<close>

definition sends_upto :: "nat \<Rightarrow> 'a sync \<Rightarrow> bool" where
  "sends_upto n m \<longleftrightarrow> (\<forall>st. length (ss_sent (fst (m st))) \<le> length (ss_sent st) + n)"

lemma sends_then_do: "sends_upto a m \<Longrightarrow> (\<And>x. sends_upto b (f x)) \<Longrightarrow> sends_upto (a + b) (then_do m f)"
  unfolding sends_upto_def
proof (rule allI)
  fix st assume "\<forall>st. length (ss_sent (fst (m st))) \<le> length (ss_sent st) + a"
    and "\<And>x. \<forall>st. length (ss_sent (fst (f x st))) \<le> length (ss_sent st) + b"
  then have "length (ss_sent (fst (m st))) \<le> length (ss_sent st) + a"
    and "length (ss_sent (fst (f x (fst (m st))))) \<le> length (ss_sent (fst (m st))) + b" for x by blast+
  then show "length (ss_sent (fst (then_do m f st))) \<le> length (ss_sent st) + (a + b)"
    by (auto simp: then_do_def split: prod.splits sum.splits) (metis add.assoc add_le_mono1 fst_conv le_trans)
qed

lemma sends_mono: "sends_upto a m \<Longrightarrow> a \<le> b \<Longrightarrow> sends_upto b m"
  unfolding sends_upto_def by (meson add_le_mono le_refl le_trans)

lemma sends_basic:
  "sends_upto 0 (give x)" "sends_upto 0 (stop e)" "sends_upto 0 (call ios m)" "sends_upto 0 (peek ios r)"
  "sends_upto 1 (ask srv q d)" "sends_upto 1 (tell srv q)"
  by (auto simp: sends_upto_def give_def stop_def call_def peek_def ask_def tell_def send_def Let_def split: prod.splits)

lemma sends_last: "sends_upto 1 m \<Longrightarrow> (\<And>x. sends_upto 0 (f x)) \<Longrightarrow> sends_upto 1 (then_do m f)"
  using sends_then_do [of 1 m 0 f] by simp

lemma sends_bootstrap: "sends_upto 1 (bootstrap srv ios)"
  unfolding bootstrap_def
  by (intro sends_last sends_basic) (auto simp: sends_basic split: option.splits prod.splits)

lemma sends_pull_pages: "sends_upto (2 * n) (pull_pages srv ios n recovered cursor)"
proof (induction n arbitrary: recovered cursor)
  case 0
  then show ?case by (simp add: sends_upto_def stop_def)
next
  case (Suc n)
  have boot: "sends_upto (1 + (0 + 2 * n)) (then_do (bootstrap srv ios) (\<lambda>_. then_do (peek ios Cursor) (pull_pages srv ios n True)))"
    by (intro sends_then_do sends_bootstrap sends_basic Suc.IH)
  have page: "sends_upto (0 + (1 + 2 * n)) (then_do (call ios (\<lambda>w. ApplyPage w changes nxt)) (\<lambda>_. then_do (tell srv (Ack nxt)) f))"
    if "\<And>u. sends_upto (2 * n) (f u)" for changes nxt f
    by (intro sends_then_do sends_basic that)
  have give: "sends_upto (2 * n) (give u)" for u :: unit by (rule sends_mono [OF sends_basic(1)]) simp
  have ask: "length (ss_sent (fst (ask srv (Pull cursor) page_of st))) = Suc (length (ss_sent st))" for st
    by (simp add: ask_def send_def Let_def)
  show ?case
    unfolding sends_upto_def
  proof
    fix st
    obtain st1 r where r: "ask srv (Pull cursor) page_of st = (st1, r)" by (cases "ask srv (Pull cursor) page_of st")
    with ask [of st] have "length (ss_sent st1) = Suc (length (ss_sent st))" by simp
    moreover have "length (ss_sent (fst (then_do (bootstrap srv ios) (\<lambda>_. then_do (peek ios Cursor) (pull_pages srv ios n True)) st1)))
        \<le> length (ss_sent st1) + (1 + 2 * n)" using boot by (simp add: sends_upto_def)
    moreover have "length (ss_sent (fst (then_do (call ios (\<lambda>w. ApplyPage w changes nxt)) (\<lambda>_. then_do (tell srv (Ack nxt)) f) st1)))
        \<le> length (ss_sent st1) + (1 + 2 * n)" if "\<And>u. sends_upto (2 * n) (f u)" for changes nxt f
      using page [OF that] by (simp add: sends_upto_def)
    ultimately show "length (ss_sent (fst (pull_pages srv ios (Suc n) recovered cursor st))) \<le> length (ss_sent st) + 2 * Suc n"
      using give Suc.IH by (auto simp: r stop_def split: sum.splits sync_err.splits)
  qed
qed

lemma sends_push_batch: "sends_upto 1 (push_batch srv ios ops)"
proof (cases "ops = []")
  case True
  then show ?thesis using sends_mono [OF sends_basic(1), of 1] by (simp add: push_batch_def)
next
  case False
  then show ?thesis unfolding push_batch_def by (simp only: if_False) (intro sends_last sends_basic)
qed

lemma sends_Refresh: "sends_upto 203 (Refresh srv ios c)"
proof -
  let ?pull = "\<lambda>cursor. pull_pages srv ios 100 False cursor"
  have tl: "sends_upto (0 + (1 + 2 * 100)) (then_do (peek ios (\<lambda>w. OutboxOf w True)) (\<lambda>ops. then_do (push_batch srv ios (g ops)) (\<lambda>_. ?pull cursor)))"
    for g cursor
    by (intro sends_then_do sends_basic sends_push_batch sends_pull_pages)
  have mid: "sends_upto 1 (if b then then_do (bootstrap srv ios) (\<lambda>_. peek ios Cursor) else give cur)" for b cur
    using sends_last [OF sends_bootstrap sends_basic(4)] sends_mono [OF sends_basic(1), of 1] by (cases b) simp_all
  have rest: "sends_upto 202 (if v then stop ErrVersion else
      then_do (if b then then_do (bootstrap srv ios) (\<lambda>_. peek ios Cursor) else give cur) (\<lambda>cursor.
        then_do (peek ios (\<lambda>w. OutboxOf w True)) (\<lambda>ops. then_do (push_batch srv ios (g ops)) (\<lambda>_. ?pull cursor))))"
    for v b cur g
    using sends_then_do [OF mid tl] sends_mono [OF sends_basic(2), of 202] by (cases v) simp_all
  have "sends_upto (0 + (0 + (1 + 202))) (Refresh srv ios c)"
    unfolding Refresh_def case_prod_beta by (intro sends_then_do sends_basic rest)
  then show ?thesis by simp
qed

section \<open>Properties\<close>

text \<open>The state before a round that starts on the store \<open>s\<close>.\<close>

definition round_start :: "Store \<Rightarrow> sync_st" where
  "round_start s = \<lparr> ss_store = s, ss_sent = [], ss_calls = 0 \<rparr>"

text \<open>
  C6. Commit before acknowledge: whatever the server answers and whichever file operation
  fails, an acknowledgement of a cursor is only ever sent at a moment when that cursor is in
  the state and the whole state is in the database file.
\<close>

theorem Refresh_acks_committed:
  "list_all ack_ok (ss_sent (fst (Refresh srv ios c (round_start s))))"
  using acks.R_Refresh [of "round_start s" srv ios c] by (simp add: round_start_def)

text \<open>
  C7. A round of synchronisation never adds or loses a queued operation and never changes
  its intent: the operations of the outbox are the same ones in the same order, and the state
  of each has only moved along the operation machine. In particular the outbox invariant is
  kept.
\<close>

theorem Refresh_keeps_outbox:
  "let t = ss_store (fst (Refresh srv ios c (round_start s)))
   in list_all2 (\<lambda>p q. same_intent p q \<and> op_move\<^sup>*\<^sup>* (so_State p) (so_State q)) (Outbox (state s)) (Outbox (state t))
     \<and> NextOutboxSeq (state t) = NextOutboxSeq (state s)"
  using ops.R_Refresh [of "round_start s" srv ios c]
  by (auto simp: round_start_def outbox_moves_def evolves_def [abs_def] Let_def)

text \<open>
  C8. A round ends: it sends at most 203 requests (a handshake, a bootstrap, a push and two
  for each of at most 100 pages), whatever the server answers.
\<close>

theorem Refresh_bounded:
  "length (ss_sent (fst (Refresh srv ios c (round_start s)))) \<le> 203"
proof -
  from sends_Refresh [of srv ios c] have "length (ss_sent (fst (Refresh srv ios c (round_start s)))) \<le> length (ss_sent (round_start s)) + 203"
    unfolding sends_upto_def by blast
  then show ?thesis by (simp add: round_start_def)
qed

lemma then_do_ok:
  assumes "then_do m f st = (st', Inr b)"
  obtains st1 a where "m st = (st1, Inr a)" "f a st1 = (st', Inr b)"
  using assms by (auto simp: then_do_def split: prod.splits sum.splits)

lemma tell_sent: "tell srv q st = (st', r) \<Longrightarrow> st' = send q st"
  by (simp add: tell_def Let_def)

lemma pull_pages_ok:
  assumes "pull_pages srv ios n recovered cursor st = (st', Inr u)"
  shows "\<exists>cur. last (ss_sent st') = (Ack cur, ss_store st') \<and> committed (ss_store st') cur"
  using assms
proof (induction n arbitrary: recovered cursor st)
  case 0
  then show ?case by (simp add: stop_def)
next
  case (Suc n)
  obtain st1 r where ask: "ask srv (Pull cursor) page_of st = (st1, r)" by (cases "ask srv (Pull cursor) page_of st")
  show ?case
  proof (cases r)
    case (Inl e)
    with Suc.prems ask obtain a where "then_do (bootstrap srv ios) (\<lambda>_. then_do (peek ios Cursor) (pull_pages srv ios n True)) st1 = (st', Inr u)"
      by (auto split: sync_err.splits if_splits)
    then show ?thesis by (elim then_do_ok) (rule Suc.IH)
  next
    case (Inr page)
    obtain nxt hasMore changes where page: "page = (nxt, hasMore, changes)" by (cases page)
    with Suc.prems ask Inr have "then_do (call ios (\<lambda>w. ApplyPage w changes nxt)) (\<lambda>_. then_do (tell srv (Ack nxt)) (\<lambda>_.
        if \<not> hasMore then give () else pull_pages srv ios n recovered nxt)) st1 = (st', Inr u)"
      by (auto simp: stop_def split: if_splits)
    then obtain st2 st3 a where call: "call ios (\<lambda>w. ApplyPage w changes nxt) st1 = (st2, Inr a)"
      and tell: "tell srv (Ack nxt) st2 = (st3, Inr ())"
      and rest: "(if \<not> hasMore then give () else pull_pages srv ios n recovered nxt) st3 = (st', Inr u)"
      by (elim then_do_ok) auto
    show ?thesis
    proof (cases hasMore)
      case True
      with rest show ?thesis by (auto intro: Suc.IH)
    next
      case False
      with rest have "st' = send (Ack nxt) st2" using tell_sent [OF tell] by (simp add: give_def)
      then show ?thesis using acks.page_committed [OF call] by (simp add: send_def)
    qed
  qed
qed

text \<open>
  A round that reports success ended with the acknowledgement of the cursor that the
  state and the database file hold.
\<close>

theorem Refresh_success:
  assumes "Refresh srv ios c (round_start s) = (st', Inr ())"
  shows "\<exists>cur. last (ss_sent st') = (Ack cur, ss_store st') \<and> committed (ss_store st') cur"
proof -
  from assms obtain st1 cursor where "pull_pages srv ios 100 False cursor st1 = (st', Inr ())"
    unfolding Refresh_def by (auto elim!: then_do_ok simp: stop_def split: if_splits)
  then show ?thesis by (rule pull_pages_ok)
qed

text \<open>A server that answers every request: a bootstrap, then one empty page.\<close>

definition ok_reply :: "json \<Rightarrow> reply" where
  "ok_reply data = Reply 200 (json_text (JObj [(''success'', JBool True), (''data'', data)]))"

definition demo_server :: server where
  "demo_server qs =
    (case last qs of
       Handshake _ \<Rightarrow> ok_reply (JObj [(''supported_protocol_version'', JNum ''2'')])
     | BootstrapReq \<Rightarrow> ok_reply (JObj [(''snapshot_cursor'', JStr ''c1''), (''data'', JObj [])])
     | Pull _ \<Rightarrow> ok_reply (JObj [(''next_cursor'', JStr ''c2'')])
     | _ \<Rightarrow> ok_reply JNull)"

definition demo_client :: Client where
  "demo_client = \<lparr> cl_BaseURL = ''https://x'', cl_DeviceID = ''d'', cl_DeviceToken = ''t'' \<rparr>"

definition demo_round :: "sync_st \<times> (sync_err + unit)" where
  "demo_round = Refresh demo_server (\<lambda>_. all_ok) demo_client (round_start demo_store)"

lemma reply_data_ok:
  assumes "wf_json data" "length (json_text data) \<le> 1000"
  shows "reply_data (ok_reply data) = Inr (Some data)"
proof -
  let ?j = "JObj [(''success'', JBool True), (''data'', data)]"
  have "json_parse (json_text ?j) = Some ?j" using assms(1) by (intro json_parse_text) (simp add: valid_ascii)
  moreover have "length (json_text ?j) \<le> 2000" using assms(2) by (simp add: str_text_plain plain_def)
  ultimately show ?thesis
    by (simp add: reply_data_def ok_reply_def envelope_def struct_members_def bool_field_def error_field_def
        raw_field_def members_of_def EqualFold_def)
qed

lemma demo_replies:
  "reply_data (ok_reply (JObj [(''supported_protocol_version'', JNum ''2'')])) = Inr (Some (JObj [(''supported_protocol_version'', JNum ''2'')]))"
  "reply_data (ok_reply (JObj [(''snapshot_cursor'', JStr ''c1''), (''data'', JObj [])])) = Inr (Some (JObj [(''snapshot_cursor'', JStr ''c1''), (''data'', JObj [])]))"
  "reply_data (ok_reply (JObj [(''next_cursor'', JStr ''c2'')])) = Inr (Some (JObj [(''next_cursor'', JStr ''c2'')]))"
  "reply_data (ok_reply JNull) = Inr (Some JNull)"
  by (rule reply_data_ok; simp add: valid_ascii str_text_plain plain_def valid_number_def num_char_def is_digit_def HasPrefix_def valid_exp_def)+

lemmas demo_fields_defs = string_field_def bool_field_def int_field_def slice_field_def limits_field_def
  raw_field_def members_of_def struct_members_def EqualFold_def HasPrefix_def lower_ascii_def

lemma demo_decoded:
  "handshake_of (JObj [(''supported_protocol_version'', JNum ''2'')]) = Some (False, 2, 0)"
  "bootstrap_of (JObj [(''snapshot_cursor'', JStr ''c1''), (''data'', JObj [])]) = Some (''c1'', Some [], False)"
  "page_of (JObj [(''next_cursor'', JStr ''c2'')]) = Some (''c2'', False, [])"
proof -
  have "Atoi ''2'' = (2, True)" by code_simp
  then show "handshake_of (JObj [(''supported_protocol_version'', JNum ''2'')]) = Some (False, 2, 0)"
    by (simp add: handshake_of_def demo_fields_defs)
qed (simp_all add: bootstrap_of_def page_of_def sections_of_def demo_fields_defs)

definition demo_s1 :: Store where "demo_s1 = fst (Bind all_ok ''https://x|d'' demo_store)"
definition demo_s2 :: Store where "demo_s2 = fst (Bootstrap all_ok [] ''c1'' demo_s1)"
definition demo_s3 :: Store where "demo_s3 = fst (ApplyPage all_ok [] ''c2'' demo_s2)"

lemma demo_calls:
  "Bind all_ok ''https://x|d'' demo_store = (demo_s1, Inr ())"
  "Bootstrap all_ok [] ''c1'' demo_s1 = (demo_s2, Inr ())"
  "ApplyPage all_ok [] ''c2'' demo_s2 = (demo_s3, Inr ())"
  "Cursor all_ok demo_s1 = Inr []" "Cursor all_ok demo_s2 = Inr ''c1''" "OutboxOf all_ok True demo_s2 = Inr []"
  by (simp_all add: demo_s3_def demo_s2_def demo_s1_def Bind_def Bootstrap_def ApplyPage_def withTx_def commit_trace_def all_ok_def
      Let_def Bind_tx_def Bootstrap_tx_def ApplyPage_tx_def demo_store_def newEmptyDB_def Cursor_def metaOf_def setMeta_def OutboxOf_def limit_def)

lemma demo_round_ok: "demo_round = (fst demo_round, Inr ())"
proof -
  have "snd demo_round = Inr ()"
    by (simp add: demo_round_def Refresh_def then_do_def call_def peek_def ask_def tell_def send_def round_start_def
        demo_client_def demo_calls demo_server_def demo_replies demo_decoded bootstrap_def push_batch_def give_def
        numeral_eq_Suc Let_def)
  then show ?thesis by (simp add: prod_eq_iff)
qed

theorem Refresh_success_witness:
  "\<exists>st' cur. demo_round = (st', Inr ()) \<and> last (ss_sent st') = (Ack cur, ss_store st') \<and> committed (ss_store st') cur"
  using Refresh_success [of demo_server "\<lambda>_. all_ok" demo_client demo_store "fst demo_round"] demo_round_ok
  unfolding demo_round_def by metis

text \<open>
  C9. A store that is bound to another server or device is never synchronised: the round
  stops with the scope error before any request is sent, and the state is untouched.
\<close>

theorem Refresh_foreign_scope:
  assumes "map_of (Meta (state s)) ''scope'' = Some old" "old \<noteq> []" "old \<noteq> cl_BaseURL c @ ''|'' @ cl_DeviceID c"
    and "ctx_ok (ios 0)" "\<not> closed s"
  shows "\<exists>st'. Refresh srv ios c (round_start s) = (st', Inl (EStore (EData ErrScope))) \<and> ss_sent st' = [] \<and> ss_store st' = s"
  using assms by (simp add: Refresh_def then_do_def call_def round_start_def Bind_def withTx_def Bind_tx_def)

theorem Refresh_foreign_scope_witness:
  "\<exists>st'. Refresh demo_server (\<lambda>_. all_ok) demo_client (round_start demo_bound) = (st', Inl (EStore (EData ErrScope)))
     \<and> ss_sent st' = [] \<and> ss_store st' = demo_bound"
  by (rule Refresh_foreign_scope [of _ "''s|d''"])
    (simp_all add: demo_bound_def demo_client_def all_ok_def demo_store_def setMeta_def newEmptyDB_def)

text \<open>
  A client exists only for an origin without credentials, path, query or fragment,
  reached by HTTPS or on the loopback interface, and its credentials hold no line break, so
  that the authorisation header is one line.
\<close>

theorem New_safe:
  assumes "New parse base i token = Inr c"
  shows "\<exists>u. parse (TrimRightChar base (CHR ''/'')) = Some u \<and> cl_BaseURL c = u_String u
    \<and> u_Host u \<noteq> [] \<and> \<not> u_HasUser u \<and> u_Path u = [] \<and> u_RawQuery u = [] \<and> u_Fragment u = []
    \<and> (u_Scheme u = ''https'' \<or> u_Scheme u = ''http'' \<and> u_Hostname u \<in> {''localhost'', ''127.0.0.1'', ''::1''})
    \<and> cl_DeviceID c \<noteq> [] \<and> cl_DeviceToken c \<noteq> []
    \<and> set (''Device '' @ cl_DeviceID c @ '':'' @ cl_DeviceToken c) \<inter> {CHR 0x0D, CHR 0x0A} = {}"
  using assms by (auto simp: New_def split: option.splits if_splits)

definition demo_url :: URL where
  "demo_url = \<lparr> u_Scheme = ''https'', u_Host = ''x'', u_Hostname = ''x'', u_HasUser = False, u_RawQuery = [], u_Fragment = [],
     u_Path = [], u_String = ''https://x'' \<rparr>"

theorem New_safe_witness:
  "New (\<lambda>_. Some demo_url) ''https://x/'' ''d'' ''t'' = Inr demo_client \<and> CHR 0x0A \<notin> set (cl_DeviceID demo_client)"
proof -
  have run: "New (\<lambda>_. Some demo_url) ''https://x/'' ''d'' ''t'' = Inr demo_client"
    by (simp add: New_def demo_url_def demo_client_def)
  from New_safe [OF this] show ?thesis by (simp add: run)
qed

end
