(* ===== verification/Print_Jobs.thy ===== *)
theory Print_Jobs
  imports Local_Records Json_Structs Money
begin

text \<open>
  \<open>internal/store/printing.go\<close>: print jobs as records of the store, the routing of the
  documents of an order to printers, and the states of a job. What a call gets from outside
  is a record \<open>print_env\<close>: the readings of the clock, the outcomes of the file system, the
  random bytes, the order in which Go visits the keys of a map (unspecified in the language)
  and the order in which \<open>sort.Slice\<close> leaves equal elements (unspecified too).
\<close>

section \<open>Jobs\<close>

definition PrintStatusPending :: string where "PrintStatusPending = ''pending''"
definition PrintStatusPrinting :: string where "PrintStatusPrinting = ''printing''"
definition PrintStatusPrinted :: string where "PrintStatusPrinted = ''printed''"
definition PrintStatusFailed :: string where "PrintStatusFailed = ''failed''"

lemmas print_status_defs = PrintStatusPending_def PrintStatusPrinting_def PrintStatusPrinted_def PrintStatusFailed_def

text \<open>A slice of strings that may be \<open>nil\<close> is an option.\<close>

record PrintJobView =
  pv_ID :: string
  pv_OrderID :: string
  pv_OrderNumber :: string
  pv_DocType :: string
  pv_PrinterID :: string
  pv_PrinterTitle :: string
  pv_Connection :: string
  pv_Queue :: string
  pv_PaperWidth :: string
  pv_Status :: string
  pv_LastError :: string
  pv_Attempts :: int
  pv_Copies :: int
  pv_Categories :: "string list option"
  pv_CreatedAt :: string
  pv_UpdatedAt :: string

definition StatusLabel :: "PrintJobView \<Rightarrow> string" where
  "StatusLabel j =
    (if pv_Status j = PrintStatusPrinted then (fa [0x686, 0x627, 0x67E, 0x20, 0x634, 0x62F])
     else if pv_Status j = PrintStatusPrinting then (fa [0x62F, 0x631, 0x20, 0x62D, 0x627, 0x644, 0x20, 0x686, 0x627, 0x67E])
     else if pv_Status j = PrintStatusFailed then (fa [0x62E, 0x637, 0x627, 0x6CC, 0x20, 0x686, 0x627, 0x67E])
     else (fa [0x62F, 0x631, 0x20, 0x635, 0x641, 0x20, 0x686, 0x627, 0x67E]))"

definition StatusClass :: "PrintJobView \<Rightarrow> string" where
  "StatusClass j =
    (if pv_Status j = PrintStatusPrinted then ''status-ok''
     else if pv_Status j = PrintStatusPrinting then ''status-info''
     else if pv_Status j = PrintStatusFailed then ''status-danger''
     else ''status-warn'')"

definition DocTypeLabel :: "PrintJobView \<Rightarrow> string" where
  "DocTypeLabel j =
    (if pv_DocType j = ''kitchen'' then (fa [0x62D, 0x648, 0x627, 0x644, 0x647, 0x20, 0x622, 0x645, 0x627, 0x62F, 0x647, 0x200C, 0x633, 0x627, 0x632, 0x6CC, 0x20, 0x28, 0x628, 0x627, 0x631, 0x2F, 0x622, 0x634, 0x67E, 0x632, 0x62E, 0x627, 0x646, 0x647, 0x29])
     else if pv_DocType j = ''test'' then (fa [0x641, 0x6CC, 0x634, 0x20, 0x622, 0x632, 0x645, 0x627, 0x6CC, 0x634, 0x6CC, 0x20, 0x686, 0x627, 0x67E, 0x6AF, 0x631])
     else (fa [0x641, 0x6CC, 0x634, 0x20, 0x645, 0x634, 0x62A, 0x631, 0x6CC, 0x20, 0x28, 0x635, 0x646, 0x62F, 0x648, 0x642, 0x29]))"

record printJobPayload =
  pj_ID :: string
  pj_OrderID :: string
  pj_OrderNumber :: string
  pj_DocType :: string
  pj_PrinterID :: string
  pj_PrinterTitle :: string
  pj_Connection :: string
  pj_Queue :: string
  pj_PaperWidth :: string
  pj_Status :: string
  pj_LastError :: string
  pj_Attempts :: int
  pj_Copies :: int
  pj_Categories :: "string list option"
  pj_DedupeKey :: string
  pj_CreatedAt :: string
  pj_UpdatedAt :: string
  pj_Version :: int

text \<open>\<open>json.Marshal\<close> of the struct: fields in declaration order, \<open>omitempty\<close> on two of them.\<close>

definition encode_job :: "printJobPayload \<Rightarrow> json" where
  "encode_job p = JObj (
     [(''id'', JStr (pj_ID p)), (''order_id'', JStr (pj_OrderID p)), (''order_number'', JStr (pj_OrderNumber p)),
      (''doc_type'', JStr (pj_DocType p)), (''printer_id'', JStr (pj_PrinterID p)),
      (''printer_title'', JStr (pj_PrinterTitle p)), (''connection'', JStr (pj_Connection p)),
      (''queue'', JStr (pj_Queue p)), (''paper_width'', JStr (pj_PaperWidth p)), (''status'', JStr (pj_Status p)),
      (''last_error'', JStr (pj_LastError p)), (''attempts'', int_json (pj_Attempts p))]
     @ (if pj_Copies p = 0 then [] else [(''copies'', int_json (pj_Copies p))])
     @ (case pj_Categories p of
          None \<Rightarrow> [] | Some cs \<Rightarrow> if cs = [] then [] else [(''categories'', JArr (map JStr cs))])
     @ [(''dedupe_key'', JStr (pj_DedupeKey p)), (''created_at'', JStr (pj_CreatedAt p)),
        (''updated_at'', JStr (pj_UpdatedAt p)), (''version'', int_json (pj_Version p))])"

text \<open>A field of type \<open>[]string\<close>.\<close>

definition dec_elem :: "json \<Rightarrow> string option" where
  "dec_elem j = (case j of JStr s \<Rightarrow> Some s | JNull \<Rightarrow> Some [] | _ \<Rightarrow> None)"

definition strings_field :: "string \<Rightarrow> (string \<times> json) list \<Rightarrow> string list option option" where
  "strings_field name kvs =
    (case raw_field name kvs of
       None \<Rightarrow> Some None
     | Some JNull \<Rightarrow> Some None
     | Some (JArr js) \<Rightarrow> map_option Some (those (map dec_elem js))
     | Some _ \<Rightarrow> None)"

definition job_strings :: "string list" where
  "job_strings = [''id'', ''order_id'', ''order_number'', ''doc_type'', ''printer_id'', ''printer_title'', ''connection'',
     ''queue'', ''paper_width'', ''status'', ''last_error'', ''dedupe_key'', ''created_at'', ''updated_at'']"

definition decode_job_members :: "(string \<times> json) list \<Rightarrow> printJobPayload option" where
  "decode_job_members kvs =
    (case (those (map (\<lambda>k. string_field k kvs) job_strings), int_field ''attempts'' kvs, int_field ''copies'' kvs,
           strings_field ''categories'' kvs, int_field ''version'' kvs) of
       (Some [i, oi, num, doc, pid, title, conn, q, paper, status, er, dedupe, created, updated], Some a, Some c, Some cats, Some v) \<Rightarrow>
         Some \<lparr> pj_ID = i, pj_OrderID = oi, pj_OrderNumber = num, pj_DocType = doc, pj_PrinterID = pid,
           pj_PrinterTitle = title, pj_Connection = conn, pj_Queue = q, pj_PaperWidth = paper, pj_Status = status,
           pj_LastError = er, pj_Attempts = a, pj_Copies = c, pj_Categories = cats, pj_DedupeKey = dedupe,
           pj_CreatedAt = created, pj_UpdatedAt = updated, pj_Version = v \<rparr>
     | _ \<Rightarrow> None)"

definition decodePrintJob :: "json \<Rightarrow> printJobPayload option" where
  "decodePrintJob payload =
    (case Option.bind (struct_members payload) decode_job_members of
       None \<Rightarrow> None
     | Some p \<Rightarrow> if pj_ID p = [] then None else Some p)"

definition printJobView :: "printJobPayload \<Rightarrow> PrintJobView" where
  "printJobView p =
    \<lparr> pv_ID = pj_ID p, pv_OrderID = pj_OrderID p, pv_OrderNumber = pj_OrderNumber p, pv_DocType = pj_DocType p,
      pv_PrinterID = pj_PrinterID p, pv_PrinterTitle = pj_PrinterTitle p, pv_Connection = pj_Connection p,
      pv_Queue = pj_Queue p, pv_PaperWidth = pj_PaperWidth p, pv_Status = pj_Status p, pv_LastError = pj_LastError p,
      pv_Attempts = pj_Attempts p, pv_Copies = (if pj_Copies p < 1 then 1 else pj_Copies p),
      pv_Categories = pj_Categories p, pv_CreatedAt = pj_CreatedAt p, pv_UpdatedAt = pj_UpdatedAt p \<rparr>"

record print_env =
  pe_now :: "nat \<Rightarrow> string"
  pe_io :: "nat \<Rightarrow> io"
  pe_rnd :: "nat \<Rightarrow> 8 word list option"
  pe_keys :: "string list \<Rightarrow> string list"
  pe_ties :: "PrintJobView list \<Rightarrow> PrintJobView list"

section \<open>Storing and listing jobs\<close>

definition savePrintJob_tx :: "string \<Rightarrow> printJobPayload \<Rightarrow> persistedDB \<Rightarrow> err + persistedDB \<times> unit" where
  "savePrintJob_tx now p db =
    (let key = entityKey ''print_job'' (pj_ID p);
         nextVer = (case getEntity db key of Some old \<Rightarrow> w64 (se_Version old + 1) | None \<Rightarrow> 1)
     in Inr (putEntity key \<lparr> se_ID = pj_ID p, se_Type = ''print_job'', se_Version = nextVer, se_Deleted = False,
          se_Payload = encode_job (p\<lparr>pj_UpdatedAt := now, pj_Version := nextVer\<rparr>) \<rparr> db, ()))"

definition savePrintJob :: "io \<Rightarrow> string \<Rightarrow> printJobPayload \<Rightarrow> Store \<Rightarrow> Store \<times> (err + unit)" where
  "savePrintJob w now p s = withTx w (savePrintJob_tx now p) s"

text \<open>The jobs among listed records, of one order or of all.\<close>

definition jobs_of :: "string \<Rightarrow> Entity list \<Rightarrow> PrintJobView list" where
  "jobs_of orderID es =
    map printJobView (filter (\<lambda>p. orderID = [] \<or> pj_OrderID p = orderID)
      (List.map_filter (\<lambda>e. decodePrintJob (en_Payload e)) es))"

definition PrintJobs :: "(PrintJobView list \<Rightarrow> PrintJobView list) \<Rightarrow> io \<Rightarrow> string \<Rightarrow> Store \<Rightarrow> err + PrintJobView list" where
  "PrintJobs ties w orderID s =
    (case EntitiesOf w ''print_job'' s of
       Inl e \<Rightarrow> Inl e
     | Inr ents \<Rightarrow> Inr (limit 100 (rev (sort_key pv_CreatedAt (ties (jobs_of orderID ents))))))"

definition PrintJob :: "io \<Rightarrow> string \<Rightarrow> Store \<Rightarrow> err + PrintJobView" where
  "PrintJob w jobID s =
    (case EntityOf w ''print_job'' jobID s of
       Inl e \<Rightarrow> Inl (EPrint ErrJobMissing)
     | Inr e \<Rightarrow> (case decodePrintJob (en_Payload e) of
                  None \<Rightarrow> Inl (EPrint ErrJobInvalid)
                | Some p \<Rightarrow> Inr (printJobView p)))"

text \<open>What a change of state makes of a job.\<close>

definition moved_job :: "string \<Rightarrow> string \<Rightarrow> string \<Rightarrow> printJobPayload \<Rightarrow> printJobPayload" where
  "moved_job now status lastError p =
    p\<lparr>pj_Attempts := (if status = PrintStatusPrinting then w64 (pj_Attempts p + 1) else pj_Attempts p),
      pj_Status := status, pj_LastError := lastError, pj_UpdatedAt := now, pj_Version := w64 (pj_Version p + 1)\<rparr>"

definition UpdatePrintJobStatus_tx ::
    "string \<Rightarrow> string \<Rightarrow> string \<Rightarrow> string \<Rightarrow> persistedDB \<Rightarrow> err + persistedDB \<times> PrintJobView" where
  "UpdatePrintJobStatus_tx now jobID status lastError db =
    (case live db ''print_job'' jobID of
       None \<Rightarrow> Inl (EPrint ErrJobMissing)
     | Some e \<Rightarrow>
        (case decodePrintJob (se_Payload e) of
           None \<Rightarrow> Inl (EPrint ErrJobInvalid)
         | Some p0 \<Rightarrow>
            (let p = moved_job now status lastError p0
             in Inr (putEntity (entityKey ''print_job'' jobID)
                  (e\<lparr>se_Version := pj_Version p, se_Payload := encode_job p\<rparr>) db, printJobView p))))"

definition UpdatePrintJobStatus ::
    "io \<Rightarrow> string \<Rightarrow> string \<Rightarrow> string \<Rightarrow> string \<Rightarrow> Store \<Rightarrow> Store \<times> (err + PrintJobView)" where
  "UpdatePrintJobStatus w now jobID status lastError s = withTx w (UpdatePrintJobStatus_tx now jobID status lastError) s"

text \<open>The zero view, which Go returns beside an error.\<close>

definition no_job :: PrintJobView where
  "no_job = \<lparr> pv_ID = [], pv_OrderID = [], pv_OrderNumber = [], pv_DocType = [], pv_PrinterID = [], pv_PrinterTitle = [],
     pv_Connection = [], pv_Queue = [], pv_PaperWidth = [], pv_Status = [], pv_LastError = [], pv_Attempts = 0,
     pv_Copies = 0, pv_Categories = None, pv_CreatedAt = [], pv_UpdatedAt = [] \<rparr>"

section \<open>Routing\<close>

definition isActivePrinter :: "Entity \<Rightarrow> bool" where
  "isActivePrinter e \<longleftrightarrow>
    (let v = ToLower (TrimSpace (Field e ''is_active'')) in v \<noteq> ''false'' \<and> v \<noteq> ''0'' \<and> v \<noteq> (fa [0x63A, 0x6CC, 0x631, 0x641, 0x639, 0x627, 0x644]))"

definition byID_printer :: "Entity list \<Rightarrow> string \<Rightarrow> Entity option" where
  "byID_printer act i = (if i = [] then None else List.find (\<lambda>p. en_ID p = i) act)"

definition nameMatches :: "Entity \<Rightarrow> string \<Rightarrow> bool" where
  "nameMatches printer name0 \<longleftrightarrow>
    (let name = TrimSpace name0; label = Label printer
     in name \<noteq> [] \<and> (label = name \<or> Contains label name \<or> Contains name label))"

definition station_text :: "Entity \<Rightarrow> string" where
  "station_text p = Field p ''station'' @ Label p"

definition cashier_printer :: "Entity list \<Rightarrow> Entity option" where
  "cashier_printer act =
    (case List.find (\<lambda>p. Contains (station_text p) (fa [0x635, 0x646, 0x62F, 0x648, 0x642]) \<or> Contains (ToLower (station_text p)) ''cashier'') act of
       Some p \<Rightarrow> Some p
     | None \<Rightarrow> (case act of [] \<Rightarrow> None | p # _ \<Rightarrow> Some p))"

definition kitchenStation :: "Entity list \<Rightarrow> Entity option" where
  "kitchenStation act =
    List.find (\<lambda>p. Contains (station_text p) (fa [0x628, 0x627, 0x631]) \<or> Contains (station_text p) (fa [0x622, 0x634, 0x67E, 0x632, 0x62E, 0x627, 0x646, 0x647])
      \<or> Contains (ToLower (station_text p)) ''kitchen'') act"

text \<open>What one printer is to print of the order; \<open>None\<close> stands for all categories.\<close>

record wanted =
  wn_DocType :: string
  wn_Printer :: Entity
  wn_Copies :: int
  wn_Cats :: "string list option"

definition clamp_copies :: "int \<Rightarrow> int" where
  "clamp_copies c = (if c < 1 then 1 else if c > 5 then 5 else c)"

text \<open>A Go map filled in a loop: the last value of a key stays.\<close>

definition table_of :: "(Entity \<Rightarrow> string) \<Rightarrow> Entity list \<Rightarrow> (string \<times> string) list" where
  "table_of f es = fold (\<lambda>e. AList.update (en_ID e) (f e)) es []"

definition lookup_text :: "(string \<times> string) list \<Rightarrow> string \<Rightarrow> string" where
  "lookup_text m k = (case map_of m k of None \<Rightarrow> [] | Some v \<Rightarrow> v)"

text \<open>The categories of the lines of an order.\<close>

definition order_cats :: "(string \<times> string) list \<Rightarrow> Entity \<Rightarrow> string list" where
  "order_cats productCat order =
    remdups (filter (\<lambda>c. c \<noteq> []) (map (\<lambda>line. lookup_text productCat (ov_ProductID line)) (OrderItems order)))"

definition route_cat :: "(string list \<Rightarrow> string list) \<Rightarrow> (string \<times> string) list \<Rightarrow> Entity \<Rightarrow> string" where
  "route_cat keys catTitle r =
    (let c = TrimSpace (Field r ''category_id'')
     in if c \<noteq> [] then c
        else fold (\<lambda>i acc. if lookup_text catTitle i \<noteq> [] \<and> lookup_text catTitle i = TrimSpace (Field r ''category_name'')
                          then i else acc) (keys (map fst catTitle)) [])"

definition route_printer :: "Entity list \<Rightarrow> Entity \<Rightarrow> Entity option" where
  "route_printer act r =
    (case byID_printer act (TrimSpace (Field r ''printer_id'')) of
       Some p \<Rightarrow> Some p
     | None \<Rightarrow> List.find (\<lambda>x. nameMatches x (Field r ''printer_name'')) act)"

definition route_copies :: "Entity \<Rightarrow> int" where
  "route_copies r = (let a = Atoi (TrimSpace (Field r ''copies'')) in if snd a then clamp_copies (fst a) else 1)"

text \<open>\<open>routeByCat\<close>; a route was found iff it is not empty (\<open>anyRoute\<close>).\<close>

definition add_route ::
    "(string list \<Rightarrow> string list) \<Rightarrow> Entity list \<Rightarrow> (string \<times> string) list \<Rightarrow> Entity \<Rightarrow>
     (string \<times> Entity \<times> int) list \<Rightarrow> (string \<times> Entity \<times> int) list" where
  "add_route keys act catTitle r m =
    (if \<not> isActivePrinter r then m
     else let c = route_cat keys catTitle r
          in if c = [] then m
             else (case route_printer act r of None \<Rightarrow> m | Some p \<Rightarrow> AList.update c (p, route_copies r) m))"

definition routeByCat ::
    "(string list \<Rightarrow> string list) \<Rightarrow> Entity list \<Rightarrow> (string \<times> string) list \<Rightarrow> Entity list \<Rightarrow> (string \<times> Entity \<times> int) list" where
  "routeByCat keys act catTitle routes = fold (add_route keys act catTitle) routes []"

text \<open>\<open>addKitchen\<close>: the tickets made so far in their order, at most one for each printer.\<close>

definition merge_cats :: "string list option \<Rightarrow> string list option \<Rightarrow> string list option" where
  "merge_cats old cats =
    (case cats of
       None \<Rightarrow> None
     | Some cs \<Rightarrow> (case old of None \<Rightarrow> None | Some os \<Rightarrow> Some (os @ filter (\<lambda>c. c \<notin> set os) cs)))"

definition addKitchen :: "Entity \<Rightarrow> string list option \<Rightarrow> int \<Rightarrow> wanted list \<Rightarrow> wanted list" where
  "addKitchen p cats copies0 ws =
    (let copies = clamp_copies copies0
     in if List.find (\<lambda>x. en_ID (wn_Printer x) = en_ID p) ws = None
        then ws @ [\<lparr> wn_DocType = ''kitchen'', wn_Printer = p, wn_Copies = copies, wn_Cats = cats \<rparr>]
        else map (\<lambda>x. if en_ID (wn_Printer x) = en_ID p
                      then x\<lparr>wn_Cats := merge_cats (wn_Cats x) cats, wn_Copies := max copies (wn_Copies x)\<rparr> else x) ws)"

definition route_category ::
    "(string \<times> Entity \<times> int) list \<Rightarrow> int \<Rightarrow> string \<Rightarrow> wanted list \<times> string list \<Rightarrow> wanted list \<times> string list" where
  "route_category routes wantKitchen c acc =
    (case acc of (ws, leftover) \<Rightarrow>
      (case map_of routes c of
         Some (p, copies) \<Rightarrow> (addKitchen p (Some [c]) (w64 (wantKitchen * copies)) ws, leftover)
       | None \<Rightarrow> (ws, leftover @ [c])))"

text \<open>The tickets for the kitchen.\<close>

definition kitchen_wants ::
    "Entity list \<Rightarrow> Entity \<Rightarrow> (string \<times> Entity \<times> int) list \<Rightarrow> string list \<Rightarrow> int \<Rightarrow> wanted list" where
  "kitchen_wants act cashier routes cats wantKitchen =
    (case fold (route_category routes wantKitchen) cats ([], []) of (ws, leftover) \<Rightarrow>
      if routes = [] then
        (case kitchenStation act of
           Some kp \<Rightarrow> if en_ID kp \<noteq> en_ID cashier then addKitchen kp None wantKitchen ws else ws
         | None \<Rightarrow> ws)
      else if leftover \<noteq> [] then
        (case kitchenStation act of Some kp \<Rightarrow> addKitchen kp (Some leftover) wantKitchen ws | None \<Rightarrow> ws)
      else ws)"

definition catSig :: "string list option \<Rightarrow> string" where
  "catSig cats = (case cats of None \<Rightarrow> ''all'' | Some cs \<Rightarrow> Join (sort cs) '','')"

definition dedupe_key :: "string \<Rightarrow> string \<Rightarrow> string \<Rightarrow> int \<Rightarrow> string list option \<Rightarrow> string" where
  "dedupe_key orderID doc printer copies cats =
    orderID @ ''|'' @ doc @ ''|'' @ printer @ ''|'' @ Itoa copies @ ''|'' @ catSig cats"

definition paper_of :: "Entity \<Rightarrow> string" where
  "paper_of printer = (let paper = Field printer ''paper_width'' in if paper \<noteq> ''58mm'' \<and> paper \<noteq> ''80mm'' then ''80mm'' else paper)"

definition wanted_job :: "string \<Rightarrow> string \<Rightarrow> string \<Rightarrow> wanted \<Rightarrow> printJobPayload" where
  "wanted_job now orderID orderNumber wn =
    (let p = wn_Printer wn; cats = map_option sort (wn_Cats wn)
     in \<lparr> pj_ID = [], pj_OrderID = orderID, pj_OrderNumber = orderNumber, pj_DocType = wn_DocType wn,
          pj_PrinterID = en_ID p, pj_PrinterTitle = Label p, pj_Connection = Field p ''connection'',
          pj_Queue = Field p ''queue'', pj_PaperWidth = paper_of p, pj_Status = PrintStatusPending, pj_LastError = [],
          pj_Attempts = 0, pj_Copies = wn_Copies wn, pj_Categories = cats,
          pj_DedupeKey = dedupe_key orderID (wn_DocType wn) (en_ID p) (wn_Copies wn) cats,
          pj_CreatedAt = now, pj_UpdatedAt = now, pj_Version = 0 \<rparr>)"

text \<open>The job that records that there is no active printer.\<close>

definition failed_job :: "string \<Rightarrow> string \<Rightarrow> string \<Rightarrow> int \<Rightarrow> int \<Rightarrow> printJobPayload" where
  "failed_job now orderID orderNumber wantCustomer wantKitchen =
    (let doc = (if wantCustomer \<le> 0 then ''kitchen'' else ''customer'');
         copies = (if wantCustomer \<le> 0 then wantKitchen else wantCustomer)
     in \<lparr> pj_ID = [], pj_OrderID = orderID, pj_OrderNumber = orderNumber, pj_DocType = doc, pj_PrinterID = [],
          pj_PrinterTitle = (fa [0x686, 0x627, 0x67E, 0x6AF, 0x631, 0x20, 0x62A, 0x639, 0x631, 0x6CC, 0x641, 0x200C, 0x646, 0x634, 0x62F, 0x647]), pj_Connection = [], pj_Queue = [], pj_PaperWidth = ''80mm'',
          pj_Status = PrintStatusFailed,
          pj_LastError = (fa [0x647, 0x6CC, 0x686, 0x20, 0x686, 0x627, 0x67E, 0x6AF, 0x631, 0x20, 0x641, 0x639, 0x627, 0x644, 0x6CC, 0x20, 0x62A, 0x639, 0x631, 0x6CC, 0x641, 0x20, 0x646, 0x634, 0x62F, 0x647, 0x20, 0x627, 0x633, 0x62A, 0x61B, 0x20, 0x627, 0x632, 0x20, 0xAB, 0x67E, 0x631, 0x6CC, 0x646, 0x62A, 0x631, 0x647, 0x627, 0x20, 0x648, 0x20, 0x62A, 0x646, 0x638, 0x6CC, 0x645, 0x627, 0x62A, 0xBB, 0x20, 0x6CC, 0x6A9, 0x20, 0x686, 0x627, 0x67E, 0x6AF, 0x631, 0x20, 0x62D, 0x631, 0x627, 0x631, 0x62A, 0x6CC, 0x20, 0x627, 0x636, 0x627, 0x641, 0x647, 0x20, 0x6A9, 0x646, 0x6CC, 0x62F, 0x2E]),
          pj_Attempts = 0, pj_Copies = copies, pj_Categories = None,
          pj_DedupeKey = orderID @ ''|'' @ doc @ ''||'' @ Itoa copies @ ''|all'',
          pj_CreatedAt = now, pj_UpdatedAt = now, pj_Version = 0 \<rparr>)"

section \<open>Making jobs without doubling them\<close>

definition view_key :: "PrintJobView \<Rightarrow> string" where
  "view_key j = dedupe_key (pv_OrderID j) (pv_DocType j) (pv_PrinterID j) (pv_Copies j) (pv_Categories j)"

definition known_status :: "string \<Rightarrow> bool" where
  "known_status st \<longleftrightarrow> st \<in> {PrintStatusPending, PrintStatusPrinting, PrintStatusPrinted, PrintStatusFailed}"

definition reusable :: "(string \<times> PrintJobView) list \<Rightarrow> printJobPayload \<Rightarrow> PrintJobView option" where
  "reusable byDedupe p =
    (if pj_DedupeKey p = [] then None
     else (case map_of byDedupe (pj_DedupeKey p) of
             Some old \<Rightarrow> if known_status (pv_Status old) then Some old else None
           | None \<Rightarrow> None))"

text \<open>
  The loop of \<open>createPrintJobs\<close> over the payloads: the number of jobs stored so far, the
  jobs returned so far, the store.
\<close>

fun create_jobs ::
    "print_env \<Rightarrow> (string \<times> PrintJobView) list \<Rightarrow> printJobPayload list \<Rightarrow> nat \<Rightarrow> PrintJobView list \<Rightarrow> Store \<Rightarrow>
     Store \<times> PrintJobView list \<times> err option" where
  "create_jobs env byDedupe [] n out s = (s, out, None)"
| "create_jobs env byDedupe (p # ps) n out s =
    (case reusable byDedupe p of
       Some old \<Rightarrow> create_jobs env byDedupe ps n (out @ [old]) s
     | None \<Rightarrow>
        (case UUID (pe_rnd env n) of
           Inl e \<Rightarrow> (s, out, Some e)
         | Inr i \<Rightarrow>
            (case savePrintJob (pe_io env (6 + n)) (pe_now env (Suc n)) (p\<lparr>pj_ID := i\<rparr>) s of
               (s', Inl e) \<Rightarrow> (s', out, Some e)
             | (s', Inr _) \<Rightarrow> create_jobs env byDedupe ps (Suc n) (out @ [printJobView (p\<lparr>pj_ID := i\<rparr>)]) s')))"

definition by_dedupe :: "PrintJobView list \<Rightarrow> (string \<times> PrintJobView) list" where
  "by_dedupe existing = fold (\<lambda>j. AList.update (view_key j) j) existing []"

definition createPrintJobs ::
    "print_env \<Rightarrow> string \<Rightarrow> printJobPayload list \<Rightarrow> Store \<Rightarrow> Store \<times> PrintJobView list \<times> err option" where
  "createPrintJobs env orderID payloads s =
    (let existing = (case PrintJobs (pe_ties env) (pe_io env 5) orderID s of Inl _ \<Rightarrow> [] | Inr js \<Rightarrow> js)
     in create_jobs env (by_dedupe existing) payloads 0 [] s)"

text \<open>\<open>list, _ := s.Entities(ctx, kind)\<close>.\<close>

definition list_or_empty :: "io \<Rightarrow> string \<Rightarrow> Store \<Rightarrow> Entity list" where
  "list_or_empty w kind s = (case EntitiesOf w kind s of Inl _ \<Rightarrow> [] | Inr es \<Rightarrow> es)"

definition doc_count :: "(string \<times> int) list \<Rightarrow> string \<Rightarrow> int" where
  "doc_count docs k = (case map_of docs k of None \<Rightarrow> 0 | Some n \<Rightarrow> n)"

text \<open>Everything that is to be printed of an order, when there is an active printer.\<close>

definition order_wants ::
    "(string list \<Rightarrow> string list) \<Rightarrow> Entity list \<Rightarrow> Entity \<Rightarrow> Entity list \<Rightarrow> Entity list \<Rightarrow> Entity list \<Rightarrow> Entity \<Rightarrow> int \<Rightarrow> int \<Rightarrow> wanted list" where
  "order_wants keys act cashier routes products categories order wantCustomer wantKitchen =
    (if wantCustomer > 0
     then [\<lparr> wn_DocType = ''customer'', wn_Printer = cashier, wn_Copies = wantCustomer, wn_Cats = None \<rparr>] else [])
    @ (if wantKitchen > 0
       then kitchen_wants act cashier (routeByCat keys act (table_of Label categories) routes)
              (keys (order_cats (table_of (\<lambda>p. Field p ''category_id'') products) order)) wantKitchen
       else [])"

definition order_payloads :: "print_env \<Rightarrow> string \<Rightarrow> Entity \<Rightarrow> int \<Rightarrow> int \<Rightarrow> Store \<Rightarrow> printJobPayload list" where
  "order_payloads env orderID order wantCustomer wantKitchen s =
    (let act = filter isActivePrinter (list_or_empty (pe_io env 1) ''printer'' s);
         routes = list_or_empty (pe_io env 2) ''printer_route'' s;
         products = list_or_empty (pe_io env 3) ''product'' s;
         categories = list_or_empty (pe_io env 4) ''category'' s;
         orderNumber = Field order ''order_number''
     in case cashier_printer act of
          None \<Rightarrow> [failed_job (pe_now env 0) orderID orderNumber wantCustomer wantKitchen]
        | Some cashier \<Rightarrow> map (wanted_job (pe_now env 0) orderID orderNumber)
            (order_wants (pe_keys env) act cashier routes products categories order wantCustomer wantKitchen))"

definition EnqueueOrderPrintJobsDocs ::
    "print_env \<Rightarrow> string \<Rightarrow> (string \<times> int) list \<Rightarrow> Store \<Rightarrow> Store \<times> PrintJobView list \<times> err option" where
  "EnqueueOrderPrintJobsDocs env orderID docs s =
    (case EntityOf (pe_io env 0) ''order'' orderID s of
       Inl _ \<Rightarrow> (s, [], Some (EPrint ErrPrintOrderMissing))
     | Inr order \<Rightarrow>
        (let wantCustomer = doc_count docs ''customer''; wantKitchen = doc_count docs ''kitchen''
         in if wantCustomer \<le> 0 \<and> wantKitchen \<le> 0 then (s, [], None)
            else createPrintJobs env orderID (order_payloads env orderID order wantCustomer wantKitchen s) s))"

definition EnqueueOrderPrintJobs :: "print_env \<Rightarrow> string \<Rightarrow> Store \<Rightarrow> Store \<times> PrintJobView list \<times> err option" where
  "EnqueueOrderPrintJobs env orderID s = EnqueueOrderPrintJobsDocs env orderID [(''customer'', 1), (''kitchen'', 1)] s"

definition test_job :: "string \<Rightarrow> string \<Rightarrow> Entity \<Rightarrow> printJobPayload" where
  "test_job now i printer =
    \<lparr> pj_ID = i, pj_OrderID = [], pj_OrderNumber = [], pj_DocType = ''test'', pj_PrinterID = en_ID printer,
      pj_PrinterTitle = Label printer, pj_Connection = Field printer ''connection'', pj_Queue = Field printer ''queue'',
      pj_PaperWidth = paper_of printer, pj_Status = PrintStatusPending, pj_LastError = [], pj_Attempts = 0, pj_Copies = 0,
      pj_Categories = None, pj_DedupeKey = ''test|'' @ i, pj_CreatedAt = now, pj_UpdatedAt = now, pj_Version = 0 \<rparr>"

definition EnqueueTestPrintJob :: "print_env \<Rightarrow> string \<Rightarrow> Store \<Rightarrow> Store \<times> (err + PrintJobView)" where
  "EnqueueTestPrintJob env printerID s =
    (case EntityOf (pe_io env 0) ''printer'' printerID s of
       Inl _ \<Rightarrow> (s, Inl (EPrint ErrPrinterMissing))
     | Inr printer \<Rightarrow>
        (case UUID (pe_rnd env 0) of
           Inl e \<Rightarrow> (s, Inl e)
         | Inr i \<Rightarrow>
            (let p = test_job (pe_now env 0) i printer
             in case savePrintJob (pe_io env 1) (pe_now env 1) p s of
                  (s', Inl e) \<Rightarrow> (s', Inl e)
                | (s', Inr _) \<Rightarrow> (s', Inr (printJobView p)))))"

end
