(* ===== verification/Print_Props.thy ===== *)
theory Print_Props
  imports Print_Jobs
begin

text \<open>
  What the print queue guarantees: a job reads back as it was stored, the tickets of an
  order partition its categories over the printers, a repeated request makes no second job,
  and no operation of the queue touches another record than a print job.
\<close>

section \<open>Reading back a stored job\<close>

definition norm_cats :: "string list option \<Rightarrow> string list option" where
  "norm_cats c = (if c = Some [] then None else c)"

lemma norm_cats_simps [simp]: "norm_cats None = None" "norm_cats (norm_cats c) = norm_cats c"
  by (simp_all add: norm_cats_def)

definition wf_job :: "printJobPayload \<Rightarrow> bool" where
  "wf_job p \<longleftrightarrow> pj_ID p \<noteq> [] \<and> in64 (pj_Attempts p) \<and> in64 (pj_Copies p) \<and> in64 (pj_Version p)"

lemma members_of_Nil [simp]: "members_of k [] = []"
  by (simp add: members_of_def)

lemma members_of_Cons [simp]:
  "members_of k ((k', v) # kvs) = (if EqualFold k' k then v # members_of k kvs else members_of k kvs)"
  by (simp add: members_of_def)

lemma members_of_append [simp]: "members_of k (kvs @ kvs') = members_of k kvs @ members_of k kvs'"
  by (simp add: members_of_def)

definition job_members :: "printJobPayload \<Rightarrow> (string \<times> json) list" where
  "job_members p = (case encode_job p of JObj kvs \<Rightarrow> kvs | _ \<Rightarrow> [])"

lemma encode_job_members: "encode_job p = JObj (job_members p)"
  by (simp add: job_members_def encode_job_def)

lemma those_JStr: "those (map dec_elem (map JStr cs)) = Some cs"
  by (induction cs) (simp_all add: dec_elem_def)

text \<open>The keys are their own foldings, so that fields are found by comparing the keys.\<close>

lemma job_folds:
  "FoldCase ''id'' = ''id''"
  "FoldCase ''order_id'' = ''order_id''"
  "FoldCase ''order_number'' = ''order_number''"
  "FoldCase ''doc_type'' = ''doc_type''"
  "FoldCase ''printer_id'' = ''printer_id''"
  "FoldCase ''printer_title'' = ''printer_title''"
  "FoldCase ''connection'' = ''connection''"
  "FoldCase ''queue'' = ''queue''"
  "FoldCase ''paper_width'' = ''paper_width''"
  "FoldCase ''status'' = ''status''"
  "FoldCase ''last_error'' = ''last_error''"
  "FoldCase ''attempts'' = ''attempts''"
  "FoldCase ''copies'' = ''copies''"
  "FoldCase ''categories'' = ''categories''"
  "FoldCase ''dedupe_key'' = ''dedupe_key''"
  "FoldCase ''created_at'' = ''created_at''"
  "FoldCase ''updated_at'' = ''updated_at''"
  "FoldCase ''version'' = ''version''"
  by (simp_all add: HasPrefix_def lower_ascii_def)

lemmas job_member_simps = job_members_def encode_job_def EqualFold_def job_folds

lemma job_fields:
  "map (\<lambda>k. string_field k (job_members p)) job_strings =
    map Some [pj_ID p, pj_OrderID p, pj_OrderNumber p, pj_DocType p, pj_PrinterID p, pj_PrinterTitle p, pj_Connection p,
      pj_Queue p, pj_PaperWidth p, pj_Status p, pj_LastError p, pj_DedupeKey p, pj_CreatedAt p, pj_UpdatedAt p]"
  by (cases "pj_Categories p") (simp_all add: job_member_simps job_strings_def string_field_def del: FoldCase.simps)

lemma job_ints:
  assumes "wf_job p"
  shows "int_field ''attempts'' (job_members p) = Some (pj_Attempts p)" "int_field ''copies'' (job_members p) = Some (pj_Copies p)"
    "int_field ''version'' (job_members p) = Some (pj_Version p)"
  using assms
  by (cases "pj_Categories p"; simp add: wf_job_def job_member_simps int_field_def int_json_def Atoi_Itoa del: FoldCase.simps)+

lemma job_categories: "strings_field ''categories'' (job_members p) = Some (norm_cats (pj_Categories p))"
  using those_JStr
  by (cases "pj_Categories p")
    (simp_all add: job_member_simps strings_field_def raw_field_def norm_cats_def del: FoldCase.simps)

lemma decode_encode_job:
  assumes "wf_job p"
  shows "decodePrintJob (encode_job p) = Some (p\<lparr>pj_Categories := norm_cats (pj_Categories p)\<rparr>)"
proof -
  have "those (map (\<lambda>k. string_field k (job_members p)) job_strings) =
      Some [pj_ID p, pj_OrderID p, pj_OrderNumber p, pj_DocType p, pj_PrinterID p, pj_PrinterTitle p, pj_Connection p,
      pj_Queue p, pj_PaperWidth p, pj_Status p, pj_LastError p, pj_DedupeKey p, pj_CreatedAt p, pj_UpdatedAt p]"
    unfolding job_fields by simp
  with assms show ?thesis
    by (simp add: decodePrintJob_def encode_job_members struct_members_def decode_job_members_def job_ints job_categories wf_job_def)
qed

lemma dec_int_in64: "in64 c \<Longrightarrow> dec_int c js = Some i \<Longrightarrow> in64 i"
  by (induction c js rule: dec_int.induct) (auto simp: Atoi_in64 split: if_splits)

lemma int_field_in64: "int_field k kvs = Some i \<Longrightarrow> in64 i"
  by (auto simp: int_field_def in64_def dest: dec_int_in64 [rotated])

lemma decode_job_wf: "decodePrintJob j = Some p \<Longrightarrow> wf_job p"
  by (auto simp: decodePrintJob_def decode_job_members_def wf_job_def int_field_in64
      split: option.splits if_splits list.splits prod.splits simp: bind_eq_Some_conv)

lemma printJobView_norm: "printJobView (p\<lparr>pj_Categories := c\<rparr>) = (printJobView p)\<lparr>pv_Categories := c\<rparr>"
  by (simp add: printJobView_def)

section \<open>The other records\<close>

text \<open>Two databases that differ in print jobs at most.\<close>

definition same_but_jobs :: "persistedDB \<Rightarrow> persistedDB \<Rightarrow> bool" where
  "same_but_jobs db db' \<longleftrightarrow> (\<forall>k. (\<forall>i. k \<noteq> entityKey ''print_job'' i) \<longrightarrow> getEntity db' k = getEntity db k)
     \<and> Meta db' = Meta db \<and> Outbox db' = Outbox db \<and> LegacyStockCounts db' = LegacyStockCounts db
     \<and> NextOutboxSeq db' = NextOutboxSeq db \<and> NextLegacyStockCountID db' = NextLegacyStockCountID db
     \<and> Connection db' = Connection db"

lemma same_but_jobs_refl [simp]: "same_but_jobs db db"
  by (simp add: same_but_jobs_def)

lemma same_but_jobs_trans [trans]: "same_but_jobs a b \<Longrightarrow> same_but_jobs b c \<Longrightarrow> same_but_jobs a c"
  by (simp add: same_but_jobs_def)

lemma same_but_jobs_put: "same_but_jobs db (putEntity (entityKey ''print_job'' i) e db)"
  by (simp add: same_but_jobs_def)

lemma savePrintJob_frame: "savePrintJob w now p s = (s', r) \<Longrightarrow> same_but_jobs (state s) (state s')"
  unfolding savePrintJob_def
  by (erule tx.run_relates) (auto simp: savePrintJob_tx_def Let_def same_but_jobs_put)

lemma UpdatePrintJobStatus_frame:
  "UpdatePrintJobStatus w now i st er s = (s', r) \<Longrightarrow> same_but_jobs (state s) (state s')"
  unfolding UpdatePrintJobStatus_def
  by (erule tx.run_relates) (auto simp: UpdatePrintJobStatus_tx_def Let_def same_but_jobs_put split: option.splits)

lemma create_jobs_frame: "create_jobs env by ps n out s = (s', r) \<Longrightarrow> same_but_jobs (state s) (state s')"
proof (induction env "by" ps n out s rule: create_jobs.induct)
  case (2 env "by" p ps n out s)
  show ?case
  proof (cases "reusable by p")
    case None
    show ?thesis
    proof (cases "UUID (pe_rnd env n)")
      case (Inr i)
      obtain s1 r1 where save: "savePrintJob (pe_io env (6 + n)) (pe_now env (Suc n)) (p\<lparr>pj_ID := i\<rparr>) s = (s1, r1)"
        by (cases "savePrintJob (pe_io env (6 + n)) (pe_now env (Suc n)) (p\<lparr>pj_ID := i\<rparr>) s")
      from savePrintJob_frame [OF save] 2 None Inr save show ?thesis
        by (cases r1) (auto intro: same_but_jobs_trans)
    qed (use 2 None in simp)
  qed (use 2 in simp)
qed simp

lemma createPrintJobs_frame: "createPrintJobs env i ps s = (s', r) \<Longrightarrow> same_but_jobs (state s) (state s')"
  by (auto simp: createPrintJobs_def Let_def dest: create_jobs_frame)

lemma Enqueue_frame: "EnqueueOrderPrintJobsDocs env i docs s = (s', r) \<Longrightarrow> same_but_jobs (state s) (state s')"
  by (auto simp: EnqueueOrderPrintJobsDocs_def Let_def dest: createPrintJobs_frame split: sum.splits if_splits)

section \<open>Routing\<close>

text \<open>The categories that are on the ticket of a printer.\<close>

definition ticket :: "wanted list \<Rightarrow> string \<Rightarrow> string set" where
  "ticket ws i = {c. \<exists>w cs. w \<in> set ws \<and> en_ID (wn_Printer w) = i \<and> wn_Cats w = Some cs \<and> c \<in> set cs}"

definition tickets_ok :: "wanted list \<Rightarrow> bool" where
  "tickets_ok ws \<longleftrightarrow> distinct (map (\<lambda>w. en_ID (wn_Printer w)) ws) \<and>
     list_all (\<lambda>w. 1 \<le> wn_Copies w \<and> wn_Copies w \<le> 5 \<and> wn_DocType w = ''kitchen'' \<and>
       (\<exists>cs. wn_Cats w = Some cs \<and> cs \<noteq> [] \<and> distinct cs)) ws"

lemma tickets_okD:
  "tickets_ok ws \<Longrightarrow> w \<in> set ws \<Longrightarrow> 1 \<le> wn_Copies w \<and> wn_Copies w \<le> 5 \<and> wn_DocType w = ''kitchen'' \<and>
     (\<exists>cs. wn_Cats w = Some cs \<and> cs \<noteq> [] \<and> distinct cs)"
  by (simp add: tickets_ok_def list_all_iff)

lemma clamp_copies_bounds: "1 \<le> clamp_copies c" "clamp_copies c \<le> 5"
  by (simp_all add: clamp_copies_def)

lemma find_printer_None:
  "List.find (\<lambda>x. en_ID (wn_Printer x) = i) ws = None \<longleftrightarrow> i \<notin> set (map (\<lambda>w. en_ID (wn_Printer w)) ws)"
  by (auto simp: find_None_iff)

text \<open>The change \<open>addKitchen\<close> makes to the ticket of the printer when there is one.\<close>

definition join_ticket :: "Entity \<Rightarrow> string list option \<Rightarrow> int \<Rightarrow> wanted \<Rightarrow> wanted" where
  "join_ticket p cats copies x =
    (if en_ID (wn_Printer x) = en_ID p
     then x\<lparr>wn_Cats := merge_cats (wn_Cats x) cats, wn_Copies := max copies (wn_Copies x)\<rparr> else x)"

lemma join_ticket_simps [simp]:
  "wn_Printer (join_ticket p cats copies x) = wn_Printer x" "wn_DocType (join_ticket p cats copies x) = wn_DocType x"
  "wn_Copies (join_ticket p cats copies x) = (if en_ID (wn_Printer x) = en_ID p then max copies (wn_Copies x) else wn_Copies x)"
  by (simp_all add: join_ticket_def)

lemma addKitchen_cases:
  obtains (new) "en_ID p \<notin> set (map (\<lambda>w. en_ID (wn_Printer w)) ws)"
    "addKitchen p cats k ws = ws @ [\<lparr> wn_DocType = ''kitchen'', wn_Printer = p, wn_Copies = clamp_copies k, wn_Cats = cats \<rparr>]"
  | (old) "en_ID p \<in> set (map (\<lambda>w. en_ID (wn_Printer w)) ws)"
    "addKitchen p cats k ws = map (join_ticket p cats (clamp_copies k)) ws"
  unfolding addKitchen_def Let_def find_printer_None join_ticket_def [abs_def]
  by (cases "en_ID p \<in> set (map (\<lambda>w. en_ID (wn_Printer w)) ws)") auto

lemma addKitchen_ok:
  assumes "tickets_ok ws" "cs \<noteq> []" "distinct cs"
  shows "tickets_ok (addKitchen p (Some cs) k ws)"
proof (cases rule: addKitchen_cases [of p ws "Some cs" k])
  case new
  with assms clamp_copies_bounds [of k] show ?thesis by (auto simp: tickets_ok_def)
next
  case old
  have "1 \<le> wn_Copies (join_ticket p (Some cs) (clamp_copies k) w) \<and> wn_Copies (join_ticket p (Some cs) (clamp_copies k) w) \<le> 5
      \<and> (\<exists>ds. wn_Cats (join_ticket p (Some cs) (clamp_copies k) w) = Some ds \<and> ds \<noteq> [] \<and> distinct ds)"
    if "w \<in> set ws" for w
    using that assms clamp_copies_bounds [of k]
    by (auto simp: tickets_ok_def list_all_iff join_ticket_def merge_cats_def)
  then show ?thesis using assms(1) unfolding old(2) by (auto simp: tickets_ok_def list_all_iff o_def)
qed

lemma addKitchen_ticket:
  assumes "tickets_ok ws"
  shows "ticket (addKitchen p (Some cs) k ws) i = ticket ws i \<union> (if i = en_ID p then set cs else {})"
proof (cases rule: addKitchen_cases [of p ws "Some cs" k])
  case new
  then show ?thesis by (auto simp: ticket_def)
next
  case old
  from assms have some: "\<exists>ds. wn_Cats w = Some ds" if "w \<in> set ws" for w
    using that by (auto simp: tickets_ok_def list_all_iff)
  from old(1) obtain w0 where w0: "w0 \<in> set ws" "en_ID (wn_Printer w0) = en_ID p" by auto
  have cats: "(\<exists>ds. wn_Cats (join_ticket p (Some cs) (clamp_copies k) w) = Some ds \<and> c \<in> set ds)
      \<longleftrightarrow> (\<exists>ds. wn_Cats w = Some ds \<and> c \<in> set ds) \<or> (en_ID (wn_Printer w) = en_ID p \<and> c \<in> set cs)" if "w \<in> set ws" for w c
    using some [OF that] by (auto simp: join_ticket_def merge_cats_def)
  have "c \<in> ticket (addKitchen p (Some cs) k ws) i \<longleftrightarrow> c \<in> ticket ws i \<union> (if i = en_ID p then set cs else {})" for c
  proof -
    have "c \<in> ticket (addKitchen p (Some cs) k ws) i \<longleftrightarrow>
      (\<exists>w\<in>set ws. en_ID (wn_Printer w) = i \<and> ((\<exists>ds. wn_Cats w = Some ds \<and> c \<in> set ds) \<or> (en_ID (wn_Printer w) = en_ID p \<and> c \<in> set cs)))"
      unfolding ticket_def old(2) using cats by auto
    also have "\<dots> \<longleftrightarrow> c \<in> ticket ws i \<union> (if i = en_ID p then set cs else {})"
      using w0 by (auto simp: ticket_def)
    finally show ?thesis .
  qed
  then show ?thesis by blast
qed

text \<open>The specification: the printer a category goes to.\<close>

definition destination :: "Entity list \<Rightarrow> (string \<times> Entity \<times> int) list \<Rightarrow> string \<Rightarrow> string option" where
  "destination act routes c =
    (case map_of routes c of Some (p, _) \<Rightarrow> Some (en_ID p) | None \<Rightarrow> map_option en_ID (kitchenStation act))"

lemma route_fold:
  assumes "fold (route_category routes k) cats (ws, left) = (ws', left')" "tickets_ok ws"
  shows "tickets_ok ws' \<and> left' = left @ filter (\<lambda>c. map_of routes c = None) cats \<and>
    (\<forall>i. ticket ws' i = ticket ws i \<union> {c \<in> set cats. \<exists>p n. map_of routes c = Some (p, n) \<and> en_ID p = i})"
  using assms
proof (induction cats arbitrary: ws left)
  case (Cons c cats)
  show ?case
  proof (cases "map_of routes c")
    case None
    with Cons.prems have "fold (route_category routes k) cats (ws, left @ [c]) = (ws', left')"
      by (simp add: route_category_def [of _ _ c])
    from Cons.IH [OF this Cons.prems(2)] None show ?thesis by auto
  next
    case (Some pn)
    obtain p n where pn: "pn = (p, n)" by (cases pn)
    let ?ws = "addKitchen p (Some [c]) (w64 (k * n)) ws"
    have "fold (route_category routes k) cats (?ws, left) = (ws', left')"
      using Cons.prems(1) Some pn by (simp add: route_category_def [of _ _ c])
    moreover have "tickets_ok ?ws" by (rule addKitchen_ok [OF Cons.prems(2)]) simp_all
    ultimately show ?thesis
      using Cons.IH [of ?ws left] addKitchen_ticket [OF Cons.prems(2), of p "[c]" "w64 (k * n)"] Some pn by auto
  qed
qed simp

lemma kitchen_wants_routed:
  assumes "routes \<noteq> []" "distinct cats"
  shows "tickets_ok (kitchen_wants act cashier routes cats k)"
    and "ticket (kitchen_wants act cashier routes cats k) i = {c \<in> set cats. destination act routes c = Some i}"
proof -
  obtain ws left where fold: "fold (route_category routes k) cats ([], []) = (ws, left)"
    by (cases "fold (route_category routes k) cats ([], [])")
  have "tickets_ok []" by (simp add: tickets_ok_def)
  from route_fold [OF fold this] have ok: "tickets_ok ws" and left: "left = filter (\<lambda>c. map_of routes c = None) cats"
    and tk: "\<And>i. ticket ws i = {c \<in> set cats. \<exists>p n. map_of routes c = Some (p, n) \<and> en_ID p = i}"
    by (auto simp: ticket_def)
  show "tickets_ok (kitchen_wants act cashier routes cats k)"
    using ok assms left by (auto simp: kitchen_wants_def fold split: option.splits intro!: addKitchen_ok)
  have dest: "destination act routes c = Some i \<longleftrightarrow> (\<exists>p n. map_of routes c = Some (p, n) \<and> en_ID p = i)
      \<or> map_of routes c = None \<and> (\<exists>kp. kitchenStation act = Some kp \<and> en_ID kp = i)" for c
    by (auto simp: destination_def split: option.splits)
  have "ticket (kitchen_wants act cashier routes cats k) i =
      ticket ws i \<union> (case kitchenStation act of None \<Rightarrow> {} | Some kp \<Rightarrow> if i = en_ID kp then set left else {})"
    using assms(1) by (simp add: kitchen_wants_def fold addKitchen_ticket [OF ok] split: option.split)
  then show "ticket (kitchen_wants act cashier routes cats k) i = {c \<in> set cats. destination act routes c = Some i}"
    unfolding tk dest left by (cases "kitchenStation act") auto
qed

subsection \<open>Independence of the iteration order\<close>

lemma fold_match:
  assumes "\<And>i. i \<in> set ks \<Longrightarrow> P i \<Longrightarrow> i = x"
  shows "fold (\<lambda>i acc. if P i then i else acc) ks a = (if \<exists>i \<in> set ks. P i then x else a)"
  using assms by (induction ks arbitrary: a) auto

lemma fold_match_order:
  assumes "\<And>i j. P i \<Longrightarrow> P j \<Longrightarrow> i = j" "set ks = set ks'"
  shows "fold (\<lambda>i acc. if P i then i else acc) ks a = fold (\<lambda>i acc. if P i then i else acc) ks' a"
proof (cases "\<exists>x. P x")
  case True
  then obtain x where "P x" by blast
  then show ?thesis using fold_match [of ks P x a] fold_match [of ks' P x a] assms by auto
next
  case False
  then show ?thesis using fold_match [of ks P undefined a] fold_match [of ks' P undefined a] by auto
qed

text \<open>Different categories have different titles.\<close>

definition titles_unique :: "(string \<times> string) list \<Rightarrow> bool" where
  "titles_unique ct \<longleftrightarrow> (\<forall>i j. lookup_text ct i \<noteq> [] \<and> lookup_text ct i = lookup_text ct j \<longrightarrow> i = j)"

lemma titles_uniqueD: "titles_unique ct \<Longrightarrow> lookup_text ct i \<noteq> [] \<Longrightarrow> lookup_text ct i = lookup_text ct j \<Longrightarrow> i = j"
  unfolding titles_unique_def by blast

text \<open>An iteration order of the keys of a map.\<close>

definition iteration :: "(string list \<Rightarrow> string list) \<Rightarrow> bool" where
  "iteration keys \<longleftrightarrow> (\<forall>xs. mset (keys xs) = mset xs)"

lemma iteration_set: "iteration keys \<Longrightarrow> set (keys xs) = set xs"
  unfolding iteration_def by (metis mset_eq_setD)

lemma iteration_distinct: "iteration keys \<Longrightarrow> distinct (keys xs) = distinct xs"
  unfolding iteration_def by (metis mset_eq_imp_distinct_iff)

lemma route_cat_order:
  assumes "iteration keys" "iteration keys'" "titles_unique ct"
  shows "route_cat keys ct r = route_cat keys' ct r"
proof -
  have "set (keys (map fst ct)) = set (keys' (map fst ct))" using assms(1,2) by (simp only: iteration_set)
  moreover have "i = j" if "lookup_text ct i \<noteq> [] \<and> lookup_text ct i = t" "lookup_text ct j \<noteq> [] \<and> lookup_text ct j = t" for i j t
    using titles_uniqueD [OF assms(3), of i j] that by (elim conjE) simp
  ultimately show ?thesis
    unfolding route_cat_def Let_def by (intro if_cong refl fold_match_order) blast+
qed

lemma routeByCat_order:
  assumes "iteration keys" "iteration keys'" "titles_unique ct"
  shows "routeByCat keys act ct routes = routeByCat keys' act ct routes"
proof -
  have "add_route keys act ct = add_route keys' act ct"
    by (intro ext) (simp add: add_route_def route_cat_order [OF assms])
  then show ?thesis by (simp add: routeByCat_def)
qed

text \<open>The numbers of copies that were asked of a printer; its ticket takes the largest.\<close>

definition copies_ok :: "(string \<Rightarrow> int set) \<Rightarrow> wanted list \<Rightarrow> bool" where
  "copies_ok D ws \<longleftrightarrow> (\<forall>i. finite (D i)) \<and> {i. D i \<noteq> {}} = set (map (\<lambda>w. en_ID (wn_Printer w)) ws) \<and>
     (\<forall>w \<in> set ws. wn_Copies w = Max (D (en_ID (wn_Printer w))))"

lemma copies_okD:
  assumes "copies_ok D ws"
  shows "finite (D i)" "D i \<noteq> {} \<longleftrightarrow> i \<in> set (map (\<lambda>w. en_ID (wn_Printer w)) ws)"
    "w \<in> set ws \<Longrightarrow> wn_Copies w = Max (D (en_ID (wn_Printer w)))"
proof -
  from assms have "{i. D i \<noteq> {}} = set (map (\<lambda>w. en_ID (wn_Printer w)) ws)" unfolding copies_ok_def by simp
  then show "D i \<noteq> {} \<longleftrightarrow> i \<in> set (map (\<lambda>w. en_ID (wn_Printer w)) ws)" by (simp only: set_eq_iff mem_Collect_eq)
qed (use assms in \<open>simp_all add: copies_ok_def\<close>)

lemma addKitchen_copies:
  assumes "copies_ok D ws"
  shows "copies_ok (D(en_ID p := insert (clamp_copies k) (D (en_ID p)))) (addKitchen p cats k ws)" (is "copies_ok ?D _")
proof -
  note D = copies_okD [OF assms]
  have fin: "finite (?D i)" for i using D(1) by simp
  show ?thesis
  proof (cases rule: addKitchen_cases [of p ws cats k])
    case new
    with D(2) [of "en_ID p"] have "D (en_ID p) = {}" by simp
    moreover have "en_ID (wn_Printer w) \<noteq> en_ID p" if "w \<in> set ws" for w
    proof
      assume "en_ID (wn_Printer w) = en_ID p"
      with imageI [OF that, of "\<lambda>w. en_ID (wn_Printer w)"] new(1) show False by simp
    qed
    moreover have "{i. ?D i \<noteq> {}} = insert (en_ID p) {i. D i \<noteq> {}}" by auto
    ultimately show ?thesis using fin D(2,3) unfolding copies_ok_def new(2) by simp
  next
    case old
    with D(2) have "Max (?D (en_ID p)) = max (clamp_copies k) (Max (D (en_ID p)))"
      by (simp add: Max_insert [OF D(1)])
    moreover have "{i. ?D i \<noteq> {}} = {i. D i \<noteq> {}}" using old(1) D(2) [of "en_ID p"] by auto
    ultimately show ?thesis using fin D(2,3) unfolding copies_ok_def old(2) by (simp add: o_def)
  qed
qed

definition asked :: "(string \<times> Entity \<times> int) list \<Rightarrow> int \<Rightarrow> string set \<Rightarrow> string \<Rightarrow> int set" where
  "asked routes k cats i = (\<Union>c \<in> cats. case map_of routes c of
     Some (p, n) \<Rightarrow> if en_ID p = i then {clamp_copies (w64 (k * n))} else {} | None \<Rightarrow> {})"

lemma asked_empty [simp]: "asked routes k {} i = {}"
  by (simp add: asked_def)

lemma asked_insert:
  "asked routes k (insert c cats) i = asked routes k cats i \<union>
    (case map_of routes c of Some (p, n) \<Rightarrow> if en_ID p = i then {clamp_copies (w64 (k * n))} else {} | None \<Rightarrow> {})"
  by (simp add: asked_def Un_commute)

lemma route_fold_copies:
  assumes "fold (route_category routes k) cats (ws, left) = (ws', left')" "copies_ok D ws"
  shows "copies_ok (\<lambda>i. D i \<union> asked routes k (set cats) i) ws'"
  using assms
proof (induction cats arbitrary: ws left D)
  case (Cons c cats)
  show ?case
  proof (cases "map_of routes c")
    case None
    with Cons.prems(1) have "fold (route_category routes k) cats (ws, left @ [c]) = (ws', left')"
      by (simp add: route_category_def [of _ _ c])
    from Cons.IH [OF this Cons.prems(2)] None show ?thesis by (simp only: asked_insert list.set) simp
  next
    case (Some pn)
    obtain p n where pn: "pn = (p, n)" by (cases pn)
    let ?D = "D(en_ID p := insert (clamp_copies (w64 (k * n))) (D (en_ID p)))"
    let ?ws = "addKitchen p (Some [c]) (w64 (k * n)) ws"
    have "fold (route_category routes k) cats (?ws, left) = (ws', left')"
      using Cons.prems(1) Some pn by (simp add: route_category_def [of _ _ c])
    moreover have "copies_ok ?D ?ws" by (rule addKitchen_copies [OF Cons.prems(2)])
    ultimately have "copies_ok (\<lambda>i. ?D i \<union> asked routes k (set cats) i) ws'" by (rule Cons.IH)
    moreover have "(\<lambda>i. ?D i \<union> asked routes k (set cats) i) = (\<lambda>i. D i \<union> asked routes k (set (c # cats)) i)"
      unfolding list.set asked_insert Some pn by (simp add: fun_eq_iff)
    ultimately show ?thesis by (simp only:)
  qed
qed (simp add: asked_def)

lemma kitchen_wants_copies:
  assumes "routes \<noteq> []"
  shows "copies_ok (\<lambda>i. asked routes k (set cats) i \<union>
      (if (\<exists>c \<in> set cats. map_of routes c = None) \<and> (\<exists>kp. kitchenStation act = Some kp \<and> en_ID kp = i) then {clamp_copies k} else {}))
    (kitchen_wants act cashier routes cats k)"
    (is "copies_ok ?D _")
proof -
  obtain ws left where fold: "fold (route_category routes k) cats ([], []) = (ws, left)"
    by (cases "fold (route_category routes k) cats ([], [])")
  have "tickets_ok []" by (simp add: tickets_ok_def)
  from route_fold [OF fold this] have left: "left = filter (\<lambda>c. map_of routes c = None) cats" by simp
  have "copies_ok (\<lambda>_. {}) []" by (simp add: copies_ok_def)
  from route_fold_copies [OF fold this] have ok: "copies_ok (asked routes k (set cats)) ws" by simp
  show ?thesis
  proof (cases "left = [] \<or> kitchenStation act = None")
    case True
    then have "?D = asked routes k (set cats)" by (auto simp: left filter_empty_conv fun_eq_iff)
    moreover from True have "kitchen_wants act cashier routes cats k = ws" using assms by (auto simp: kitchen_wants_def fold)
    ultimately show ?thesis using ok by simp
  next
    case False
    then obtain kp where kp: "kitchenStation act = Some kp" by auto
    with False assms have "kitchen_wants act cashier routes cats k = addKitchen kp (Some left) k ws" by (simp add: kitchen_wants_def fold)
    moreover have "?D = (asked routes k (set cats))(en_ID kp := insert (clamp_copies k) (asked routes k (set cats) (en_ID kp)))"
      using False kp by (auto simp: left filter_empty_conv fun_eq_iff)
    ultimately show ?thesis using addKitchen_copies [OF ok] by simp
  qed
qed

text \<open>What identifies a wanted ticket.\<close>

definition want_key :: "wanted \<Rightarrow> string \<times> string \<times> int \<times> string list option" where
  "want_key w = (wn_DocType w, en_ID (wn_Printer w), wn_Copies w, map_option sort (wn_Cats w))"

lemma ticket_of:
  assumes "tickets_ok ws" "w \<in> set ws" "wn_Cats w = Some cs"
  shows "ticket ws (en_ID (wn_Printer w)) = set cs"
proof -
  have "w' = w" if "w' \<in> set ws" "en_ID (wn_Printer w') = en_ID (wn_Printer w)" for w'
    using that assms(1,2) inj_onD [of "\<lambda>w. en_ID (wn_Printer w)" "set ws" w' w]
    by (auto simp: tickets_ok_def distinct_map)
  note only = this
  show ?thesis
  proof (intro set_eqI iffI)
    fix c assume "c \<in> ticket ws (en_ID (wn_Printer w))"
    then obtain w' ds where "w' \<in> set ws" "en_ID (wn_Printer w') = en_ID (wn_Printer w)" "wn_Cats w' = Some ds" "c \<in> set ds"
      by (auto simp: ticket_def)
    then show "c \<in> set cs" using only [of w'] assms(3) by simp
  qed (use assms(2,3) in \<open>auto simp: ticket_def\<close>)
qed

lemma want_key_determined:
  assumes "tickets_ok ws" "tickets_ok ws'" "copies_ok D ws" "copies_ok D ws'" "\<And>i. ticket ws i = ticket ws' i"
  shows "want_key ` set ws \<subseteq> want_key ` set ws'"
proof
  fix x assume "x \<in> want_key ` set ws"
  then obtain w where w: "w \<in> set ws" "x = want_key w" by blast
  let ?i = "en_ID (wn_Printer w)"
  from w(1) assms(3,4) have "?i \<in> set (map (\<lambda>w. en_ID (wn_Printer w)) ws')" unfolding copies_ok_def by (metis image_eqI set_map)
  then obtain w' where w': "w' \<in> set ws'" "en_ID (wn_Printer w') = ?i" by auto
  obtain cs cs' where cs: "wn_Cats w = Some cs" "distinct cs" "wn_Cats w' = Some cs'" "distinct cs'"
    using tickets_okD [OF assms(1) w(1)] tickets_okD [OF assms(2) w'(1)] by metis
  have doc: "wn_DocType w = wn_DocType w'" using tickets_okD [OF assms(1) w(1)] tickets_okD [OF assms(2) w'(1)] by simp
  have "set cs = set cs'"
    using ticket_of [OF assms(1) w(1) cs(1)] ticket_of [OF assms(2) w'(1) cs(3)] assms(5) w'(2) by simp
  then have "sort cs = sort cs'" using cs by (metis distinct_sort set_sort sorted_distinct_set_unique sorted_sort)
  moreover from assms(3,4) w(1) w' have "wn_Copies w = wn_Copies w'" by (simp add: copies_ok_def)
  ultimately show "x \<in> want_key ` set ws'"
    using w w' cs doc by (intro image_eqI [of _ _ w']) (simp_all add: want_key_def)
qed

lemma kitchen_wants_order:
  assumes "set cats = set cats'" "distinct cats" "distinct cats'"
  shows "want_key ` set (kitchen_wants act cashier routes cats k) \<subseteq> want_key ` set (kitchen_wants act cashier routes cats' k)"
proof (cases "routes = []")
  case True
  have "fold (route_category [] k) cs (ws, left) = (ws, left @ cs)" for cs ws left
    by (induction cs arbitrary: left) (simp_all add: route_category_def)
  then show ?thesis by (simp add: kitchen_wants_def True)
next
  case False
  note ok = kitchen_wants_routed [OF False]
  show ?thesis
    by (rule want_key_determined [OF ok(1) ok(1) kitchen_wants_copies [OF False] kitchen_wants_copies [OF False, of k cats', folded assms(1)]])
      (use assms in \<open>simp_all add: ok(2)\<close>)
qed

lemma order_wants_order:
  assumes "iteration keys" "iteration keys'" "titles_unique (table_of Label categories)"
  shows "want_key ` set (order_wants keys act cashier routes products categories order a b)
    \<subseteq> want_key ` set (order_wants keys' act cashier routes products categories order a b)"
proof -
  have "distinct (order_cats m order)" for m by (simp add: order_cats_def)
  then have "want_key ` set (kitchen_wants act cashier r (keys (order_cats m order)) b) \<subseteq>
      want_key ` set (kitchen_wants act cashier r (keys' (order_cats m order)) b)" for r m
    using assms(1,2) by (intro kitchen_wants_order) (simp_all add: iteration_set iteration_distinct)
  then show ?thesis
    using routeByCat_order [OF assms] unfolding order_wants_def set_append image_Un by (intro Un_mono; cases "0 < b") simp_all
qed

section \<open>Making jobs once\<close>

text \<open>The live jobs of the store, and the ones a listing can see.\<close>

definition live_jobs :: "persistedDB \<Rightarrow> Entity list" where
  "live_jobs db = map entity_view (filter (\<lambda>e. \<not> se_Deleted e \<and> se_Type e = ''print_job'') (map snd (Entities db)))"

definition job_window :: "string \<Rightarrow> persistedDB \<Rightarrow> bool" where
  "job_window orderID db \<longleftrightarrow> length (live_jobs db) \<le> 500 \<and> length (jobs_of orderID (live_jobs db)) \<le> 100"

lemma set_jobs_of:
  "set (jobs_of i es) = {printJobView p |p. (\<exists>e \<in> set es. decodePrintJob (en_Payload e) = Some p) \<and> (i = [] \<or> pj_OrderID p = i)}"
  by (force simp: jobs_of_def List.map_filter_def image_iff)

lemma length_jobs_of: "mset es = mset es' \<Longrightarrow> length (jobs_of i es) = length (jobs_of i es')"
  by (simp add: jobs_of_def List.map_filter_def flip: size_mset)

lemma PrintJobs_all:
  assumes "ctx_ok w" "job_window orderID (state s)" "\<And>xs. mset (ties xs) = mset xs"
  shows "\<exists>js. PrintJobs ties w orderID s = Inr js \<and> set js = set (jobs_of orderID (live_jobs (state s)))"
proof -
  let ?es = "sort_key (\<lambda>e. (en_ID e, en_Type e)) (live_jobs (state s))"
  have "EntitiesOf w ''print_job'' s = Inr ?es"
    using assms(1,2) by (simp add: EntitiesOf_def live_jobs_def limit_def job_window_def)
  moreover have "length (jobs_of orderID ?es) = length (jobs_of orderID (live_jobs (state s)))"
    by (rule length_jobs_of) simp
  moreover have "length (ties xs) = length xs" "set (ties xs) = set xs" for xs
    using assms(3) by (metis size_mset, metis set_mset_mset)
  ultimately show ?thesis
    using assms(2) by (simp add: PrintJobs_def limit_def job_window_def set_jobs_of)
qed

lemma by_dedupe_Some: "map_of (by_dedupe js) k = Some j \<Longrightarrow> j \<in> set js \<and> view_key j = k"
proof -
  have "map_of (fold (\<lambda>j. AList.update (view_key j) j) js m) k = Some j \<Longrightarrow> (j \<in> set js \<and> view_key j = k) \<or> map_of m k = Some j" for m
  proof (induction js arbitrary: m)
    case (Cons x js)
    from Cons.IH [of "AList.update (view_key x) x m"] Cons.prems show ?case by (auto split: if_splits)
  qed simp
  from this [of "[]"] show "map_of (by_dedupe js) k = Some j \<Longrightarrow> j \<in> set js \<and> view_key j = k" by (simp add: by_dedupe_def)
qed

lemma by_dedupe_dom: "j \<in> set js \<Longrightarrow> \<exists>j'. map_of (by_dedupe js) (view_key j) = Some j'"
proof -
  have "(\<exists>v. map_of m k = Some v) \<or> k \<in> view_key ` set js \<Longrightarrow> \<exists>j'. map_of (fold (\<lambda>j. AList.update (view_key j) j) js m) k = Some j'" for m k
    by (induction js arbitrary: m) auto
  then show "j \<in> set js \<Longrightarrow> \<exists>j'. map_of (by_dedupe js) (view_key j) = Some j'" by (auto simp: by_dedupe_def)
qed

text \<open>Random identifiers from the n-th on are new and differ from each other.\<close>

definition fresh_ids :: "print_env \<Rightarrow> nat \<Rightarrow> persistedDB \<Rightarrow> bool" where
  "fresh_ids env n db \<longleftrightarrow>
    (\<forall>m i. n \<le> m \<longrightarrow> UUID (pe_rnd env m) = Inr i \<longrightarrow> getEntity db (entityKey ''print_job'' i) = None) \<and>
    (\<forall>m m' i. UUID (pe_rnd env m) = Inr i \<longrightarrow> UUID (pe_rnd env m') = Inr i \<longrightarrow> m = m')"

text \<open>A record that stores a payload.\<close>

definition stores :: "printJobPayload \<Rightarrow> storedEntity \<Rightarrow> bool" where
  "stores p e \<longleftrightarrow> \<not> se_Deleted e \<and> se_Type e = ''print_job'' \<and>
     (\<exists>i t. i \<noteq> [] \<and> se_Payload e = encode_job (p\<lparr>pj_ID := i, pj_UpdatedAt := t, pj_Version := 1\<rparr>))"

lemma savePrintJob_new:
  assumes "savePrintJob w now p s = (s', Inr u)" "getEntity (state s) (entityKey ''print_job'' (pj_ID p)) = None" "pj_ID p \<noteq> []"
  obtains e where "state s' = (state s)\<lparr>Entities := Entities (state s) @ [(entityKey ''print_job'' (pj_ID p), e)]\<rparr>" "stores p e"
proof -
  let ?e = "\<lparr> se_ID = pj_ID p, se_Type = ''print_job'', se_Version = 1, se_Deleted = False,
    se_Payload = encode_job (p\<lparr>pj_UpdatedAt := now, pj_Version := 1\<rparr>) \<rparr>"
  from withTx_ok [of w "savePrintJob_tx now p" s s' u] assms(1,2)
  have "state s' = putEntity (entityKey ''print_job'' (pj_ID p)) ?e (state s)"
    by (simp add: savePrintJob_def savePrintJob_tx_def Let_def)
  moreover have "entityKey ''print_job'' (pj_ID p) \<notin> fst ` set (Entities (state s))"
    using assms(2) by (simp add: getEntity_def map_of_eq_None_iff)
  ultimately have "state s' = (state s)\<lparr>Entities := Entities (state s) @ [(entityKey ''print_job'' (pj_ID p), ?e)]\<rparr>"
    by (simp add: putEntity_def update_append_new)
  moreover have "stores p ?e"
    unfolding stores_def using assms(3)
    by (intro conjI exI [of _ "pj_ID p"] exI [of _ now]) simp_all
  ultimately show ?thesis by (rule that)
qed

lemma create_jobs_appends:
  assumes "create_jobs env by ps n out s = (s', js, None)" "fresh_ids env n (state s)"
  shows "\<exists>new. Entities (state s') = Entities (state s) @ new \<and>
    (\<forall>x \<in> set new. \<exists>p \<in> set ps. stores p (snd x)) \<and>
    (\<forall>p \<in> set ps. reusable by p = None \<longrightarrow> (\<exists>x \<in> set new. stores p (snd x)))"
  using assms
proof (induction ps arbitrary: n out s)
  case (Cons p ps)
  show ?case
  proof (cases "reusable by p")
    case (Some old)
    with Cons.prems have "create_jobs env by ps n (out @ [old]) s = (s', js, None)" by simp
    from Cons.IH [OF this Cons.prems(2)] Some show ?thesis by fastforce
  next
    case None
    from Cons.prems(1) None obtain i s1 u where i: "UUID (pe_rnd env n) = Inr i"
      and save: "savePrintJob (pe_io env (6 + n)) (pe_now env (Suc n)) (p\<lparr>pj_ID := i\<rparr>) s = (s1, Inr u)"
      and rest: "create_jobs env by ps (Suc n) (out @ [printJobView (p\<lparr>pj_ID := i\<rparr>)]) s1 = (s', js, None)"
      by (auto split: sum.splits prod.splits)
    have none: "getEntity (state s) (entityKey ''print_job'' i) = None"
      using Cons.prems(2) i by (auto simp: fresh_ids_def)
    obtain e where e: "state s1 = (state s)\<lparr>Entities := Entities (state s) @ [(entityKey ''print_job'' i, e)]\<rparr>" "stores (p\<lparr>pj_ID := i\<rparr>) e"
      using savePrintJob_new [OF save] none UUID_ne [OF i] by auto
    have get: "getEntity (state s1) k = (if k = entityKey ''print_job'' i then Some e else getEntity (state s) k)" for k
      using none by (auto simp: e(1) getEntity_def map_add_def split: option.splits)
    have "fresh_ids env (Suc n) (state s1)"
      unfolding fresh_ids_def
    proof (intro conjI allI impI)
      fix m j assume m: "Suc n \<le> m" "UUID (pe_rnd env m) = Inr j"
      with Cons.prems(2) i have "j \<noteq> i" unfolding fresh_ids_def by (metis Suc_n_not_le_n)
      moreover from Cons.prems(2) m(2) Suc_leD [OF m(1)] have "getEntity (state s) (entityKey ''print_job'' j) = None"
        unfolding fresh_ids_def by blast
      ultimately show "getEntity (state s1) (entityKey ''print_job'' j) = None" by (simp add: get)
    qed (use Cons.prems(2) in \<open>auto simp: fresh_ids_def\<close>)
    from Cons.IH [OF rest this] obtain new where new: "Entities (state s') = Entities (state s1) @ new"
      "\<forall>x \<in> set new. \<exists>p \<in> set ps. stores p (snd x)"
      "\<forall>p \<in> set ps. reusable by p = None \<longrightarrow> (\<exists>x \<in> set new. stores p (snd x))" by blast
    from e(2) have "stores p e" by (simp add: stores_def)
    with new e(1) show ?thesis
      by (intro exI [of _ "(entityKey ''print_job'' i, e) # new"]) auto
  qed
qed simp

lemma create_jobs_reuse:
  assumes "\<And>p. p \<in> set ps \<Longrightarrow> reusable by p \<noteq> None"
  shows "create_jobs env by ps n out s = (s, out @ map (\<lambda>p. the (reusable by p)) ps, None)"
  using assms
proof (induction ps arbitrary: out)
  case (Cons p ps)
  from Cons.prems [of p] obtain old where "reusable by p = Some old" by auto
  with Cons show ?case by simp
qed simp

text \<open>A payload whose stored form has the key it was made with.\<close>

definition payload_ok :: "string \<Rightarrow> printJobPayload \<Rightarrow> bool" where
  "payload_ok orderID p \<longleftrightarrow> pj_DedupeKey p \<noteq> [] \<and> view_key (printJobView p) = pj_DedupeKey p
     \<and> norm_cats (pj_Categories p) = pj_Categories p \<and> pj_OrderID p = orderID \<and> known_status (pj_Status p)
     \<and> in64 (pj_Attempts p) \<and> in64 (pj_Copies p)"

lemma stored_view:
  assumes "payload_ok orderID p" "stores p e" "e \<in> snd ` set (Entities db)"
  shows "\<exists>j \<in> set (jobs_of orderID (live_jobs db)). view_key j = pj_DedupeKey p \<and> known_status (pv_Status j)"
proof -
  from assms(2) obtain i t where e: "\<not> se_Deleted e" "se_Type e = ''print_job''" "i \<noteq> []"
    "se_Payload e = encode_job (p\<lparr>pj_ID := i, pj_UpdatedAt := t, pj_Version := 1\<rparr>)" by (auto simp: stores_def)
  let ?p = "p\<lparr>pj_ID := i, pj_UpdatedAt := t, pj_Version := 1\<rparr>"
  have "wf_job ?p" using assms(1) e(3) by (simp add: wf_job_def payload_ok_def in64_def)
  from decode_encode_job [OF this] have "decodePrintJob (se_Payload e) = Some ?p"
    using assms(1) e(4) by (simp add: payload_ok_def)
  moreover have "entity_view e \<in> set (live_jobs db)" using assms(3) e(1,2) by (force simp: live_jobs_def)
  ultimately have "printJobView ?p \<in> set (jobs_of orderID (live_jobs db))"
    using assms(1) unfolding set_jobs_of payload_ok_def
    by (intro CollectI exI [of _ ?p]) (auto simp: entity_view_def intro!: bexI [of _ "entity_view e"])
  moreover have "view_key (printJobView ?p) = pj_DedupeKey p" "known_status (pv_Status (printJobView ?p))"
    using assms(1) by (auto simp: payload_ok_def view_key_def printJobView_def)
  ultimately show ?thesis by blast
qed

lemma PrintJobs_subset:
  assumes "PrintJobs ties w i s = Inr js" "\<And>xs. mset (ties xs) = mset xs"
  shows "set js \<subseteq> set (jobs_of i (live_jobs (state s)))"
proof -
  have "set (ties xs) = set xs" for xs using assms(2) by (metis set_mset_mset)
  moreover obtain es where es: "EntitiesOf w ''print_job'' s = Inr es"
    using assms(1) by (auto simp: PrintJobs_def split: sum.splits)
  moreover have "set es \<subseteq> set (live_jobs (state s))"
    using es by (auto simp: EntitiesOf_def live_jobs_def limit_take dest: in_set_takeD split: if_splits)
  moreover from assms(1) es have "js = take 100 (rev (sort_key pv_CreatedAt (ties (jobs_of i es))))"
    by (simp add: PrintJobs_def limit_take)
  ultimately have "set js \<subseteq> set (jobs_of i es)" by (metis set_rev set_sort set_take_subset)
  also have "\<dots> \<subseteq> set (jobs_of i (live_jobs (state s)))"
    using \<open>set es \<subseteq> _\<close> unfolding set_jobs_of by blast
  finally show ?thesis .
qed

lemma createPrintJobs_once:
  assumes run: "createPrintJobs env orderID ps s = (s1, js, None)" and fresh: "fresh_ids env 0 (state s)"
    and ok: "\<And>p. p \<in> set ps \<Longrightarrow> payload_ok orderID p" and keys: "pj_DedupeKey ` set ps' \<subseteq> pj_DedupeKey ` set ps"
    and ties: "\<And>xs. mset (pe_ties env xs) = mset xs" "\<And>xs. mset (pe_ties env' xs) = mset xs"
    and win: "job_window orderID (state s1)" and io: "ctx_ok (pe_io env' 5)"
    and known: "\<And>j. j \<in> set (jobs_of orderID (live_jobs (state s))) \<Longrightarrow> known_status (pv_Status j)"
  shows "\<exists>js'. createPrintJobs env' orderID ps' s1 = (s1, js', None) \<and> set js' \<subseteq> set (jobs_of orderID (live_jobs (state s1)))"
proof -
  define ex where "ex = (case PrintJobs (pe_ties env) (pe_io env 5) orderID s of Inl _ \<Rightarrow> [] | Inr js \<Rightarrow> js)"
  have ex: "set ex \<subseteq> set (jobs_of orderID (live_jobs (state s)))"
    using PrintJobs_subset [of "pe_ties env" "pe_io env 5" orderID s, OF _ ties(1)]
    by (cases "PrintJobs (pe_ties env) (pe_io env 5) orderID s") (simp_all add: ex_def)
  from run have "create_jobs env (by_dedupe ex) ps 0 [] s = (s1, js, None)" by (simp add: createPrintJobs_def ex_def)
  from create_jobs_appends [OF this fresh] obtain new where new: "Entities (state s1) = Entities (state s) @ new"
    "\<forall>x \<in> set new. \<exists>p \<in> set ps. stores p (snd x)"
    "\<forall>p \<in> set ps. reusable (by_dedupe ex) p = None \<longrightarrow> (\<exists>x \<in> set new. stores p (snd x))" by blast
  let ?J = "jobs_of orderID (live_jobs (state s1))"
  have sub: "set (jobs_of orderID (live_jobs (state s))) \<subseteq> set ?J" by (auto simp: set_jobs_of live_jobs_def new(1))
  obtain J where J: "PrintJobs (pe_ties env') (pe_io env' 5) orderID s1 = Inr J" "set J = set ?J"
    using PrintJobs_all [of _ orderID s1 "pe_ties env'", OF io win ties(2)] by blast
  have there: "\<exists>j \<in> set ?J. view_key j = pj_DedupeKey p" if "p \<in> set ps" for p
  proof (cases "reusable (by_dedupe ex) p")
    case None
    with new(3) that obtain x where "x \<in> set new" "stores p (snd x)" by blast
    then show ?thesis using stored_view [OF ok [OF that], of "snd x" "state s1"] new(1) by force
  next
    case (Some old)
    then have "map_of (by_dedupe ex) (pj_DedupeKey p) = Some old"
      by (auto simp: reusable_def split: if_splits option.splits)
    from by_dedupe_Some [OF this] ex sub show ?thesis by blast
  qed
  have status: "known_status (pv_Status j)" if j: "j \<in> set ?J" for j
  proof -
    from j obtain e q where q: "e \<in> set (live_jobs (state s1))" "decodePrintJob (en_Payload e) = Some q"
      "orderID = [] \<or> pj_OrderID q = orderID" "j = printJobView q" by (auto simp: set_jobs_of)
    show ?thesis
    proof (cases "e \<in> set (live_jobs (state s))")
      case True
      with q show ?thesis using known by (auto simp: set_jobs_of)
    next
      case False
      with q(1) new(1) obtain x where x: "x \<in> set new" "e = entity_view (snd x)" by (auto simp: live_jobs_def)
      with new(2) obtain p where p: "p \<in> set ps" "stores p (snd x)" by blast
      then obtain i t where "i \<noteq> []" "en_Payload e = encode_job (p\<lparr>pj_ID := i, pj_UpdatedAt := t, pj_Version := 1\<rparr>)"
        by (auto simp: stores_def x(2) entity_view_def)
      moreover from calculation have "wf_job (p\<lparr>pj_ID := i, pj_UpdatedAt := t, pj_Version := 1\<rparr>)"
        using ok [OF p(1)] by (simp add: wf_job_def payload_ok_def in64_def)
      ultimately have "pj_Status q = pj_Status p" using q(2) decode_encode_job by auto
      then show ?thesis using ok [OF p(1)] q(4) by (simp add: payload_ok_def printJobView_def)
    qed
  qed
  have reuse: "\<exists>j \<in> set J. reusable (by_dedupe J) p' = Some j" if "p' \<in> set ps'" for p'
  proof -
    from that keys obtain p where p: "p \<in> set ps" "pj_DedupeKey p' = pj_DedupeKey p" by auto
    from there [OF p(1)] J(2) obtain j where "j \<in> set J" "view_key j = pj_DedupeKey p" by blast
    with by_dedupe_dom [of j J] obtain j' where j': "map_of (by_dedupe J) (pj_DedupeKey p') = Some j'" using p(2) by auto
    moreover from by_dedupe_Some [OF this] have "j' \<in> set J" by simp
    moreover have "known_status (pv_Status j')" using status J(2) calculation(2) by simp
    moreover have "pj_DedupeKey p' \<noteq> []" using ok [OF p(1)] p(2) by (simp add: payload_ok_def)
    ultimately show ?thesis by (simp add: reusable_def)
  qed
  then have "createPrintJobs env' orderID ps' s1 = (s1, map (\<lambda>p. the (reusable (by_dedupe J) p)) ps', None)"
    using create_jobs_reuse [of ps' "by_dedupe J" env' 0 "[]" s1] by (force simp: createPrintJobs_def J(1))
  moreover have "set (map (\<lambda>p. the (reusable (by_dedupe J) p)) ps') \<subseteq> set ?J"
    using reuse J(2) by fastforce
  ultimately show ?thesis by blast
qed

subsection \<open>The payloads of an order\<close>

lemma dedupe_key_ne [simp]: "dedupe_key i d p c cs \<noteq> []"
  by (simp add: dedupe_key_def)

lemma sort_Nil_iff: "sort xs = [] \<longleftrightarrow> xs = []"
  by (metis length_0_conv length_sort)

lemma wanted_job_ok:
  "1 \<le> wn_Copies w \<Longrightarrow> in64 (wn_Copies w) \<Longrightarrow> wn_Cats w \<noteq> Some [] \<Longrightarrow> payload_ok orderID (wanted_job now orderID num w)"
  by (auto simp: payload_ok_def wanted_job_def view_key_def printJobView_def norm_cats_def known_status_def in64_def
      Let_def sort_Nil_iff)

lemma failed_job_ok:
  "0 < a \<or> 0 < b \<Longrightarrow> in64 a \<Longrightarrow> in64 b \<Longrightarrow> payload_ok orderID (failed_job now orderID num a b)"
  by (auto simp: payload_ok_def failed_job_def view_key_def printJobView_def known_status_def in64_def Let_def
      dedupe_key_def catSig_def)

lemma kitchen_wants_ok:
  assumes "w \<in> set (kitchen_wants act cashier routes cats k)" "distinct cats"
  shows "1 \<le> wn_Copies w \<and> wn_Copies w \<le> 5 \<and> wn_Cats w \<noteq> Some []"
proof (cases "routes = []")
  case True
  have "fold (route_category [] k) cs (ws, left) = (ws, left @ cs)" for cs ws left
    by (induction cs arbitrary: left) (simp_all add: route_category_def)
  with assms True clamp_copies_bounds [of k] show ?thesis
    by (auto simp: kitchen_wants_def addKitchen_def Let_def split: option.splits if_splits)
next
  case False
  from tickets_okD [OF kitchen_wants_routed(1) [OF False assms(2)] assms(1)] show ?thesis by auto
qed

lemma order_wants_ok:
  assumes "w \<in> set (order_wants keys act cashier routes products categories order a b)" "iteration keys" "in64 a"
  shows "1 \<le> wn_Copies w \<and> in64 (wn_Copies w) \<and> wn_Cats w \<noteq> Some []"
proof -
  have d: "distinct (keys (order_cats m order))" for m using assms(2) by (simp add: iteration_distinct order_cats_def)
  from assms(1,3) kitchen_wants_ok [OF _ d] show ?thesis
    by (force simp: order_wants_def in64_def split: if_splits)
qed

lemma wanted_key: "want_key w = want_key w' \<Longrightarrow> pj_DedupeKey (wanted_job now i num w) = pj_DedupeKey (wanted_job now' i num' w')"
  by (simp add: want_key_def wanted_job_def Let_def)

text \<open>What a call of the queue finds outside is sane: no cancelled context, orders are orders.\<close>

definition print_world :: "print_env \<Rightarrow> bool" where
  "print_world env \<longleftrightarrow> (\<forall>n. ctx_ok (pe_io env n)) \<and> iteration (pe_keys env) \<and> (\<forall>xs. mset (pe_ties env xs) = mset xs)"

lemma print_worldD:
  assumes "print_world env"
  shows "ctx_ok (pe_io env n)" "iteration (pe_keys env)" "mset (pe_ties env xs) = mset xs"
  using assms by (simp_all add: print_world_def)

lemma order_payloads_ok:
  assumes "p \<in> set (order_payloads env orderID order a b s)" "print_world env" "0 < a \<or> 0 < b" "in64 a" "in64 b"
  shows "payload_ok orderID p"
  using assms(1) failed_job_ok [OF assms(3-5)] print_worldD(2) [OF assms(2)] assms(4)
  by (auto simp: order_payloads_def Let_def split: option.splits intro!: wanted_job_ok dest: order_wants_ok)

lemma image_subI: "(\<And>w. w \<in> A \<Longrightarrow> \<exists>w' \<in> B. f w = g w') \<Longrightarrow> f ` A \<subseteq> g ` B"
  by blast

lemma order_payloads_keys:
  assumes "print_world env" "print_world env'"
    and lists: "\<And>n m kind. kind \<noteq> ''print_job'' \<Longrightarrow> kind \<noteq> ''order'' \<Longrightarrow>
      list_or_empty (pe_io env n) kind s = list_or_empty (pe_io env' m) kind s'"
    and titles: "titles_unique (table_of Label (list_or_empty (pe_io env 4) ''category'' s))"
  shows "pj_DedupeKey ` set (order_payloads env' orderID order a b s') \<subseteq> pj_DedupeKey ` set (order_payloads env orderID order a b s)"
proof -
  let ?act = "filter isActivePrinter (list_or_empty (pe_io env 1) ''printer'' s)"
  let ?wants = "\<lambda>keys c. order_wants keys ?act c (list_or_empty (pe_io env 2) ''printer_route'' s)
    (list_or_empty (pe_io env 3) ''product'' s) (list_or_empty (pe_io env 4) ''category'' s) order a b"
  have same: "list_or_empty (pe_io env' n) kind s' = list_or_empty (pe_io env n) kind s"
    if "kind \<noteq> ''print_job''" "kind \<noteq> ''order''" for n kind
    using lists [OF that, of n n] by simp
  have sub: "want_key ` set (?wants (pe_keys env') c) \<subseteq> want_key ` set (?wants (pe_keys env) c)" for c
    by (intro order_wants_order print_worldD assms titles)
  show ?thesis
  proof (cases "cashier_printer ?act")
    case None
    then show ?thesis by (simp add: order_payloads_def same Let_def failed_job_def)
  next
    case (Some c)
    have "\<exists>w' \<in> set (?wants (pe_keys env) c). pj_DedupeKey (wanted_job (pe_now env' 0) orderID num w) = pj_DedupeKey (wanted_job (pe_now env 0) orderID num w')"
      if "w \<in> set (?wants (pe_keys env') c)" for w num
    proof -
      from that sub [of c] obtain w' where "w' \<in> set (?wants (pe_keys env) c)" "want_key w = want_key w'" by force
      then show ?thesis using wanted_key by blast
    qed
    then have "(\<lambda>w. pj_DedupeKey (wanted_job (pe_now env' 0) orderID num w)) ` set (?wants (pe_keys env') c)
        \<subseteq> (\<lambda>w. pj_DedupeKey (wanted_job (pe_now env 0) orderID num w)) ` set (?wants (pe_keys env) c)" for num
      by (rule image_subI)
    then show ?thesis using Some by (simp add: order_payloads_def same Let_def image_image)
  qed
qed

lemma appended_lists:
  assumes "Entities (state s1) = Entities (state s) @ new" "\<forall>x \<in> set new. se_Type (snd x) = ''print_job''"
    and "ctx_ok w" "ctx_ok w'" "kind \<noteq> ''print_job''" "kind \<noteq> ''order''"
  shows "list_or_empty w kind s = list_or_empty w' kind s1"
proof -
  have "filter (\<lambda>e. \<not> se_Deleted e \<and> se_Type e = kind) (map snd new) = []"
    using assms(2,5) by (auto simp: filter_empty_conv)
  then show ?thesis using assms by (simp add: list_or_empty_def EntitiesOf_def)
qed

lemma createPrintJobs_appends:
  assumes "createPrintJobs env orderID ps s = (s1, js, None)" "fresh_ids env 0 (state s)"
  shows "\<exists>new. Entities (state s1) = Entities (state s) @ new \<and> (\<forall>x \<in> set new. se_Type (snd x) = ''print_job'')"
proof -
  from assms(1) obtain by0 where "create_jobs env by0 ps 0 [] s = (s1, js, None)" by (auto simp: createPrintJobs_def Let_def)
  from create_jobs_appends [OF this assms(2)] show ?thesis by (auto simp: stores_def)
qed

lemma frame_live: "same_but_jobs db db' \<Longrightarrow> CHR 0x00 \<notin> set kind \<Longrightarrow> kind \<noteq> ''print_job'' \<Longrightarrow> live db' kind i = live db kind i"
proof -
  assume "same_but_jobs db db'" "CHR 0x00 \<notin> set kind" "kind \<noteq> ''print_job''"
  then have "getEntity db' (entityKey kind i) = getEntity db (entityKey kind i)"
    unfolding same_but_jobs_def by (auto simp: entityKey_kind)
  then show "live db' kind i = live db kind i" by (simp add: live_def getEntity_def)
qed


text \<open>An order in a store without printers; the one job says so.\<close>

definition demo_env :: print_env where
  "demo_env = \<lparr> pe_now = (\<lambda>_. ''t1''), pe_io = (\<lambda>_. all_ok), pe_rnd = (\<lambda>n. if n = 0 then demo_uuid 3 else None),
     pe_keys = id, pe_ties = id \<rparr>"

definition demo_till :: Store where
  "demo_till = demo_store\<lparr>state := putEntity (entityKey ''order'' ''o1'') (new_record ''order'' ''o1'' [(''status'', JStr ''pending'')]) newEmptyDB\<rparr>"

definition demo_docs :: "(string \<times> int) list" where
  "demo_docs = [(''customer'', 1)]"

definition demo_till1 :: Store where
  "demo_till1 = fst (EnqueueOrderPrintJobsDocs demo_env ''o1'' demo_docs demo_till)"

lemma demo_till_lists: "EntitiesOf all_ok kind demo_till = Inr (if kind = ''order'' then [entity_view (new_record ''order'' ''o1'' [(''status'', JStr ''pending'')])] else [])"
  by (simp add: EntitiesOf_def demo_till_def putEntity_def newEmptyDB_def all_ok_def new_record_def limit_def)

lemma demo_enqueue:
  "\<exists>js. EnqueueOrderPrintJobsDocs demo_env ''o1'' demo_docs demo_till = (demo_till1, js, None)"
  "length (Entities (state demo_till1)) = 2"
proof -
  have e: "EntityOf all_ok ''order'' ''o1'' demo_till = Inr (entity_view (new_record ''order'' ''o1'' [(''status'', JStr ''pending'')]))"
    by (simp add: EntityOf_def all_ok_def live_def demo_till_def putEntity_def newEmptyDB_def new_record_def)
  let ?p = "(failed_job ''t1'' ''o1'' [] 1 0)\<lparr>pj_ID := demo_id 3\<rparr>"
  have tx: "savePrintJob_tx ''t1'' ?p (state demo_till) = Inr (fst (projr (savePrintJob_tx ''t1'' ?p (state demo_till))), ())"
    by (simp add: savePrintJob_tx_def Let_def)
  have "\<not> closed demo_till" by (simp add: demo_till_def demo_store_def)
  from withTx_all_ok [of demo_till "savePrintJob_tx ''t1'' ?p", OF this tx] obtain s' where save: "savePrintJob all_ok ''t1'' ?p demo_till = (s', Inr ())"
    "state s' = fst (projr (savePrintJob_tx ''t1'' ?p (state demo_till)))"
    by (simp add: savePrintJob_def)
  have num: "Field (entity_view (new_record ''order'' ''o1'' [(''status'', JStr ''pending'')])) ''order_number'' = []"
    by (simp add: Field_def entity_view_def new_record_def gmap_def)
  have run: "EnqueueOrderPrintJobsDocs demo_env ''o1'' demo_docs demo_till = (s', [printJobView ?p], None)"
    using save(1) by (simp add: EnqueueOrderPrintJobsDocs_def demo_env_def e demo_docs_def doc_count_def order_payloads_def list_or_empty_def
        demo_till_lists cashier_printer_def num createPrintJobs_def PrintJobs_def jobs_of_def limit_def by_dedupe_def reusable_def demo_id_eq)
  then show "\<exists>js. EnqueueOrderPrintJobsDocs demo_env ''o1'' demo_docs demo_till = (demo_till1, js, None)"
    by (simp add: demo_till1_def)
  have "entityKey ''order'' i \<noteq> entityKey ''print_job'' j" for i j by (rule entityKey_kind) simp_all
  moreover have "demo_till1 = s'" by (simp add: demo_till1_def run)
  ultimately show "length (Entities (state demo_till1)) = 2"
    using save(2) by (simp add: savePrintJob_tx_def Let_def demo_till_def putEntity_def newEmptyDB_def)
qed


text \<open>
  With routes, the tickets for the kitchen partition the categories of the order: there is
  one ticket for each printer at most, a category is on the ticket of the printer it is
  routed to, or of the kitchen station if it has no route, and on no other, and every
  ticket asks for one to five copies.
\<close>

theorem kitchen_tickets_partition:
  assumes "routes \<noteq> []" "distinct cats"
  shows "let ws = kitchen_wants act cashier routes cats k in
    distinct (map (\<lambda>w. en_ID (wn_Printer w)) ws)
    \<and> (\<forall>w \<in> set ws. 1 \<le> wn_Copies w \<and> wn_Copies w \<le> 5 \<and> (\<exists>cs. wn_Cats w = Some cs \<and> cs \<noteq> [] \<and> distinct cs))
    \<and> (\<forall>c i. (\<exists>w \<in> set ws. en_ID (wn_Printer w) = i \<and> c \<in> set (the (wn_Cats w))) \<longleftrightarrow>
         c \<in> set cats \<and> destination act routes c = Some i)"
proof -
  define ws where "ws = kitchen_wants act cashier routes cats k"
  note ok = kitchen_wants_routed [OF assms, of act cashier k, folded ws_def]
  have some: "\<exists>cs. wn_Cats w = Some cs" if "w \<in> set ws" for w using tickets_okD [OF ok(1)] that by blast
  have "(\<exists>w \<in> set ws. en_ID (wn_Printer w) = i \<and> c \<in> set (the (wn_Cats w))) \<longleftrightarrow> c \<in> ticket ws i" for c i
    using some by (fastforce simp: ticket_def)
  then show ?thesis
    using ok tickets_okD [OF ok(1)] unfolding ws_def [symmetric] Let_def by (auto simp: tickets_ok_def)
qed

definition demo_printer :: "string \<Rightarrow> Entity" where
  "demo_printer i = \<lparr> en_ID = i, en_Type = ''printer'', en_Version = 1, en_Payload = JObj [] \<rparr>"

theorem kitchen_tickets_partition_witness:
  "\<exists>w \<in> set (kitchen_wants [] (demo_printer ''p0'') [(''c1'', demo_printer ''p1'', 2), (''c2'', demo_printer ''p1'', 1)] [''c1'', ''c2''] 1).
     en_ID (wn_Printer w) = ''p1'' \<and> ''c2'' \<in> set (the (wn_Cats w))"
  using kitchen_tickets_partition [of "[(''c1'', demo_printer ''p1'', 2), (''c2'', demo_printer ''p1'', 1)]" "[''c1'', ''c2'']" "[]" "demo_printer ''p0''" 1]
  by (auto simp: destination_def demo_printer_def Let_def)

text \<open>
  A change of state is recorded: the job reads back with the new state and error, one more
  attempt when printing starts, the other fields as they were, and no other record changed.
\<close>

theorem UpdatePrintJobStatus_recorded:
  assumes "UpdatePrintJobStatus w now i st er s = (s', Inr v)" "ctx_ok w'"
  shows "\<exists>p. PrintJob w' i s = Inr (printJobView p) \<and> v = printJobView (moved_job now st er p)
    \<and> PrintJob w' i s' = Inr (v\<lparr>pv_Categories := norm_cats (pv_Categories v)\<rparr>)
    \<and> pv_Status v = st \<and> pv_LastError v = er \<and> pv_ID v = pv_ID (printJobView p) \<and> pv_OrderID v = pv_OrderID (printJobView p)
    \<and> pv_Attempts v = (if st = PrintStatusPrinting then w64 (pj_Attempts p + 1) else pj_Attempts p)
    \<and> (\<forall>k. k \<noteq> entityKey ''print_job'' i \<longrightarrow> getEntity (state s') k = getEntity (state s) k)"
proof -
  from withTx_ok [of w "UpdatePrintJobStatus_tx now i st er" s s' v] assms(1)
  have "UpdatePrintJobStatus_tx now i st er (state s) = Inr (state s', v)" by (simp add: UpdatePrintJobStatus_def)
  then obtain e p where e: "live (state s) ''print_job'' i = Some e" and p: "decodePrintJob (se_Payload e) = Some p"
    and s': "state s' = putEntity (entityKey ''print_job'' i)
      (e\<lparr>se_Version := pj_Version (moved_job now st er p), se_Payload := encode_job (moved_job now st er p)\<rparr>) (state s)"
    and v: "v = printJobView (moved_job now st er p)"
    by (auto simp: UpdatePrintJobStatus_tx_def Let_def split: option.splits)
  from decode_job_wf [OF p] have "wf_job (moved_job now st er p)" by (simp add: wf_job_def moved_job_def)
  from decode_encode_job [OF this] have "PrintJob w' i s' = Inr (v\<lparr>pv_Categories := norm_cats (pv_Categories v)\<rparr>)"
    using e assms(2) by (simp add: PrintJob_def EntityOf_def s' getEntity_live entity_view_def v printJobView_def moved_job_def)
  moreover have "PrintJob w' i s = Inr (printJobView p)" using e p assms(2) by (simp add: PrintJob_def EntityOf_def entity_view_def)
  ultimately show ?thesis
    by (intro exI [of _ p]) (simp add: v s' printJobView_def moved_job_def)
qed

theorem UpdatePrintJobStatus_recorded_witness:
  "\<exists>s' v. UpdatePrintJobStatus all_ok ''t2'' ''j1'' PrintStatusPrinting []
      (demo_store\<lparr>state := putEntity (entityKey ''print_job'' ''j1'')
        \<lparr> se_ID = ''j1'', se_Type = ''print_job'', se_Version = 1, se_Deleted = False, se_Payload = encode_job (test_job ''t1'' ''j1'' (demo_printer ''p1'')) \<rparr>
        newEmptyDB\<rparr>) = (s', Inr v)
    \<and> pv_Attempts v = 1 \<and> PrintJob all_ok ''j1'' s' = Inr v"
proof -
  let ?p = "test_job ''t1'' ''j1'' (demo_printer ''p1'')"
  let ?e = "\<lparr> se_ID = ''j1'', se_Type = ''print_job'', se_Version = 1, se_Deleted = False, se_Payload = encode_job ?p \<rparr>"
  let ?s = "demo_store\<lparr>state := putEntity (entityKey ''print_job'' ''j1'') ?e newEmptyDB\<rparr>"
  let ?fn = "UpdatePrintJobStatus_tx ''t2'' ''j1'' PrintStatusPrinting []"
  have "wf_job ?p" by (simp add: wf_job_def test_job_def in64_def)
  from decode_encode_job [OF this] have dec: "decodePrintJob (encode_job ?p) = Some ?p" by (simp add: test_job_def)
  then have tx: "?fn (state ?s) = Inr (fst (projr (?fn (state ?s))), printJobView (moved_job ''t2'' PrintStatusPrinting [] ?p))"
    by (simp add: UpdatePrintJobStatus_tx_def Let_def)
  have "\<not> closed ?s" by (simp add: demo_store_def)
  from withTx_all_ok [of ?s ?fn, OF this tx] obtain s' where
    run: "UpdatePrintJobStatus all_ok ''t2'' ''j1'' PrintStatusPrinting [] ?s = (s', Inr (printJobView (moved_job ''t2'' PrintStatusPrinting [] ?p)))"
    by (simp add: UpdatePrintJobStatus_def)
  have ok: "ctx_ok all_ok" by (simp add: all_ok_def)
  have "PrintJob all_ok ''j1'' ?s = Inr (printJobView ?p)"
    using dec ok by (simp add: PrintJob_def EntityOf_def entity_view_def)
  with UpdatePrintJobStatus_recorded [OF run ok] run show ?thesis
    by (auto simp: printJobView_def moved_job_def test_job_def w64_def)
qed

end
