(* ===== verification/Go_Time.thy ===== *)
theory Go_Time
  imports Money
begin

text \<open>
  What the program uses of the \<open>time\<close> package: instants as seconds and nanoseconds since
  1970 (UTC), the proleptic Gregorian calendar, \<open>time.Parse\<close> for the layouts of the
  program, and zero-padded numbers of \<open>fmt.Sprintf\<close>. The program's Tehran zone is a fixed
  offset of three and a half hours.
\<close>

type_synonym gotime = "int \<times> int"

section \<open>The calendar\<close>

definition leap_year :: "int \<Rightarrow> bool" where
  "leap_year y \<longleftrightarrow> y mod 4 = 0 \<and> (y mod 100 \<noteq> 0 \<or> y mod 400 = 0)"

definition daysIn :: "int \<Rightarrow> int \<Rightarrow> int" where
  "daysIn m y = (if m = 2 then (if leap_year y then 29 else 28) else if m \<in> {4, 6, 9, 11} then 30 else 31)"

text \<open>Days since 1970-01-01; the year starts in March inside the computation.\<close>

definition days_of_civil :: "int \<Rightarrow> int \<Rightarrow> int \<Rightarrow> int" where
  "days_of_civil y0 m d =
    (let y = (if m \<le> 2 then y0 - 1 else y0); mp = (if m > 2 then m - 3 else m + 9)
     in 365 * y + y div 4 - y div 100 + y div 400 + (153 * mp + 2) div 5 + d - 1 - 719468)"

definition civil_of_days :: "int \<Rightarrow> int \<times> int \<times> int" where
  "civil_of_days z0 =
    (let z = z0 + 719468; era = z div 146097; doe = z mod 146097;
         yoe = (doe - doe div 1460 + doe div 36524 - doe div 146096) div 365;
         doy = doe - (365 * yoe + yoe div 4 - yoe div 100);
         mp = (5 * doy + 2) div 153;
         d = doy - (153 * mp + 2) div 5 + 1;
         m = (if mp < 10 then mp + 3 else mp - 9);
         y = yoe + 400 * era
     in (if m \<le> 2 then y + 1 else y, m, d))"

record civil =
  cv_Year :: int
  cv_Month :: int
  cv_Day :: int
  cv_Hour :: int
  cv_Minute :: int
  cv_Second :: int
  cv_Weekday :: int

text \<open>An instant read in a zone with a fixed offset; Sunday is 0.\<close>

definition civil_in :: "int \<Rightarrow> gotime \<Rightarrow> civil" where
  "civil_in offset t =
    (let sec = fst t + offset; days = sec div 86400; r = sec mod 86400
     in case civil_of_days days of (y, m, d) \<Rightarrow>
       \<lparr> cv_Year = y, cv_Month = m, cv_Day = d, cv_Hour = r div 3600, cv_Minute = (r mod 3600) div 60,
         cv_Second = r mod 60, cv_Weekday = (days + 4) mod 7 \<rparr>)"

section \<open>Parsing\<close>

definition digit_of :: "char \<Rightarrow> int" where
  "digit_of c = int (code c) - 48"

text \<open>\<open>getnum\<close>: two digits, or one where the layout does not fix the width.\<close>

fun getnum :: "bool \<Rightarrow> string \<Rightarrow> (int \<times> string) option" where
  "getnum fixed [] = None"
| "getnum fixed [c] = (if is_digit c \<and> \<not> fixed then Some (digit_of c, []) else None)"
| "getnum fixed (c # d # s) =
    (if \<not> is_digit c then None
     else if \<not> is_digit d then (if fixed then None else Some (digit_of c, d # s))
     else Some (10 * digit_of c + digit_of d, s))"

definition get_in :: "bool \<Rightarrow> int \<Rightarrow> int \<Rightarrow> string \<Rightarrow> (int \<times> string) option" where
  "get_in fixed lo hi s =
    (case getnum fixed s of Some (n, r) \<Rightarrow> if lo \<le> n \<and> n \<le> hi then Some (n, r) else None | None \<Rightarrow> None)"

definition get_year :: "string \<Rightarrow> (int \<times> string) option" where
  "get_year s =
    (if length s \<ge> 4 \<and> list_all is_digit (take 4 s)
     then Some (case digits_value 0 (take 4 s) of Some n \<Rightarrow> int n | None \<Rightarrow> 0, drop 4 s) else None)"

text \<open>\<open>skip\<close>: a literal part of the layout; a space takes any number of spaces.\<close>

definition skip_char :: "char \<Rightarrow> string \<Rightarrow> string option" where
  "skip_char c s =
    (if c = CHR '' '' then (if s \<noteq> [] \<and> hd s \<noteq> CHR '' '' then None else Some (dropWhile (\<lambda>x. x = CHR '' '') s))
     else case s of x # r \<Rightarrow> if x = c then Some r else None | [] \<Rightarrow> None)"

text \<open>A fraction of a second, if there is one: the nanoseconds of its first nine digits.\<close>

definition get_fraction :: "string \<Rightarrow> int \<times> string" where
  "get_fraction s =
    (case s of
       p # c # _ \<Rightarrow>
         if (p = CHR ''.'' \<or> p = CHR '','') \<and> is_digit c then
           (let ds = takeWhile is_digit (tl s); n = take 9 ds
            in (case digits_value 0 n of Some v \<Rightarrow> int v * 10 ^ (9 - length n) | None \<Rightarrow> 0, dropWhile is_digit (tl s)))
         else (0, s)
     | _ \<Rightarrow> (0, s))"

text \<open>\<open>Z07:00\<close>: the offset in seconds.\<close>

definition get_zone :: "string \<Rightarrow> (int \<times> string) option" where
  "get_zone s =
    (if HasPrefix s ''Z'' then Some (0, drop 1 s)
     else if length s < 6 \<or> s ! 3 \<noteq> CHR '':'' then None
     else (case (get_in True 0 24 (take 2 (drop 1 s)), get_in True 0 60 (take 2 (drop 4 s))) of
             (Some (h, _), Some (m, _)) \<Rightarrow>
               if s ! 0 = CHR ''+'' then Some ((h * 60 + m) * 60, drop 6 s)
               else if s ! 0 = CHR ''-'' then Some (- ((h * 60 + m) * 60), drop 6 s)
               else None
           | _ \<Rightarrow> None))"

text \<open>The date at the start of every layout.\<close>

definition get_date :: "string \<Rightarrow> ((int \<times> int \<times> int) \<times> string) option" where
  "get_date s =
    Option.bind (get_year s) (\<lambda>(y, s1).
    Option.bind (skip_char (CHR ''-'') s1) (\<lambda>s2.
    Option.bind (get_in True 1 12 s2) (\<lambda>(m, s3).
    Option.bind (skip_char (CHR ''-'') s3) (\<lambda>s4.
    Option.bind (getnum True s4) (\<lambda>(d, s5). Some ((y, m, d), s5))))))"

definition get_clock :: "string \<Rightarrow> ((int \<times> int \<times> int \<times> int) \<times> string) option" where
  "get_clock s =
    Option.bind (get_in False 0 23 s) (\<lambda>(h, s1).
    Option.bind (skip_char (CHR '':'') s1) (\<lambda>s2.
    Option.bind (get_in True 0 59 s2) (\<lambda>(mi, s3).
    Option.bind (skip_char (CHR '':'') s3) (\<lambda>s4.
    Option.bind (get_in True 0 59 s4) (\<lambda>(se, s5).
      case get_fraction s5 of (ns, s6) \<Rightarrow> Some ((h, mi, se, ns), s6))))))"

definition instant :: "int \<times> int \<times> int \<Rightarrow> int \<times> int \<times> int \<times> int \<Rightarrow> int \<Rightarrow> gotime option" where
  "instant date clock offset =
    (case (date, clock) of ((y, m, d), (h, mi, se, ns)) \<Rightarrow>
      if d < 1 \<or> d > daysIn m y then None
      else Some (days_of_civil y m d * 86400 + h * 3600 + mi * 60 + se - offset, ns))"

datatype layout = RFC3339 | DateTime char | DateOnly

text \<open>
  \<open>RFC3339\<close> and \<open>RFC3339Nano\<close> accept the same texts: a fraction is read whether the layout
  names one or not. \<open>DateTime\<close> is \<open>2006-01-02T15:04:05\<close> with the given separator.
\<close>

definition parse_time :: "layout \<Rightarrow> string \<Rightarrow> gotime option" where
  "parse_time l s =
    Option.bind (get_date s) (\<lambda>(date, s1).
      case l of
        DateOnly \<Rightarrow> if s1 = [] then instant date (0, 0, 0, 0) 0 else None
      | DateTime c \<Rightarrow>
          Option.bind (skip_char c s1) (\<lambda>s2. Option.bind (get_clock s2) (\<lambda>(clock, s3).
            if s3 = [] then instant date clock 0 else None))
      | RFC3339 \<Rightarrow>
          Option.bind (skip_char (CHR ''T'') s1) (\<lambda>s2. Option.bind (get_clock s2) (\<lambda>(clock, s3).
            Option.bind (get_zone s3) (\<lambda>(offset, s4). if s4 = [] then instant date clock offset else None))))"

text \<open>The loops over layouts take the first that fits.\<close>

fun parse_first :: "layout list \<Rightarrow> string \<Rightarrow> gotime option" where
  "parse_first [] s = None"
| "parse_first (l # ls) s = (case parse_time l s of Some t \<Rightarrow> Some t | None \<Rightarrow> parse_first ls s)"

section \<open>Padded numbers\<close>

text \<open>\<open>%0nd\<close>.\<close>

definition pad0 :: "nat \<Rightarrow> int \<Rightarrow> string" where
  "pad0 n i =
    (if i < 0 then CHR ''-'' # replicate (n - 1 - length (nat_text (nat (- i)))) (CHR ''0'') @ nat_text (nat (- i))
     else replicate (n - length (nat_text (nat i))) (CHR ''0'') @ nat_text (nat i))"

end
