(* ===== verification/Jalali.thy ===== *)
theory Jalali
  imports Go_Time
begin

text \<open>
  \<open>jalali.go\<close>: the Solar Hijri calendar and the Persian display of dates and times.
\<close>

definition jalaliMonthNames :: "string list" where
  "jalaliMonthNames = [[], (fa [0x641, 0x631, 0x648, 0x631, 0x62F, 0x6CC, 0x646]), (fa [0x627, 0x631, 0x62F, 0x6CC, 0x628, 0x647, 0x634, 0x62A]), (fa [0x62E, 0x631, 0x62F, 0x627, 0x62F]), (fa [0x62A, 0x6CC, 0x631]), (fa [0x645, 0x631, 0x62F, 0x627, 0x62F]), (fa [0x634, 0x647, 0x631, 0x6CC, 0x648, 0x631]), (fa [0x645, 0x647, 0x631]), (fa [0x622, 0x628, 0x627, 0x646]), (fa [0x622, 0x630, 0x631]), (fa [0x62F, 0x6CC]),
     (fa [0x628, 0x647, 0x645, 0x646]), (fa [0x627, 0x633, 0x641, 0x646, 0x62F])]"

definition jalaliWeekdayNames :: "string list" where
  "jalaliWeekdayNames = [(fa [0x6CC, 0x6A9, 0x634, 0x646, 0x628, 0x647]), (fa [0x62F, 0x648, 0x634, 0x646, 0x628, 0x647]), (fa [0x633, 0x647, 0x200C, 0x634, 0x646, 0x628, 0x647]), (fa [0x686, 0x647, 0x627, 0x631, 0x634, 0x646, 0x628, 0x647]), (fa [0x67E, 0x646, 0x62C, 0x200C, 0x634, 0x646, 0x628, 0x647]), (fa [0x62C, 0x645, 0x639, 0x647]), (fa [0x634, 0x646, 0x628, 0x647])]"

text \<open>Go's remainder has the sign of the dividend.\<close>

definition rmd :: "int \<Rightarrow> int \<Rightarrow> int" where
  "rmd a b = a - b * quo a b"

definition gDaysInMonth :: "int list" where
  "gDaysInMonth = [0, 31, 59, 90, 120, 151, 181, 212, 243, 273, 304, 334]"

text \<open>The number of days that the conversion starts from.\<close>

definition g_days :: "int \<Rightarrow> int \<Rightarrow> int \<Rightarrow> int" where
  "g_days gy gm gd =
    (let gy2 = (if gm > 2 then gy + 1 else gy)
     in 355666 + 365 * gy + quo (gy2 + 3) 4 - quo (gy2 + 99) 100 + quo (gy2 + 399) 400 + gd + gDaysInMonth ! nat (gm - 1))"

text \<open>The year and the day in the year.\<close>

definition jalali_year :: "int \<Rightarrow> int \<times> int" where
  "jalali_year days0 =
    (let jy0 = -1595 + 33 * quo days0 12053; days1 = rmd days0 12053;
         jy1 = jy0 + 4 * quo days1 1461; days2 = rmd days1 1461
     in if days2 > 365 then (jy1 + quo (days2 - 1) 365, rmd (days2 - 1) 365) else (jy1, days2))"

definition GregorianToJalali :: "int \<Rightarrow> int \<Rightarrow> int \<Rightarrow> int \<times> int \<times> int" where
  "GregorianToJalali gy gm gd =
    (if gm < 1 \<or> gm > 12 then (gy, gm, gd)
     else case jalali_year (g_days gy gm gd) of (jy, days) \<Rightarrow>
       if days < 186 then (jy, 1 + quo days 31, 1 + rmd days 31)
       else (jy, 7 + quo (days - 186) 30, 1 + rmd (days - 186) 30))"

definition tehranZone :: int where
  "tehranZone = 3 * 3600 + 30 * 60"

definition jalali_of :: "civil \<Rightarrow> int \<times> int \<times> int" where
  "jalali_of loc = GregorianToJalali (cv_Year loc) (cv_Month loc) (cv_Day loc)"

definition clock_text :: "civil \<Rightarrow> string" where
  "clock_text loc = pad0 2 (cv_Hour loc) @ '':'' @ pad0 2 (cv_Minute loc)"

definition date_text :: "civil \<Rightarrow> string" where
  "date_text loc = (case jalali_of loc of (jy, jm, jd) \<Rightarrow> pad0 4 jy @ ''/'' @ pad0 2 jm @ ''/'' @ pad0 2 jd)"

definition FormatJalaliFull :: "gotime \<Rightarrow> string" where
  "FormatJalaliFull t =
    (let loc = civil_in tehranZone t
     in case jalali_of loc of (jy, jm, jd) \<Rightarrow>
       ToPersianDigits (jalaliWeekdayNames ! nat (cv_Weekday loc mod 7) @ '' '' @ Itoa jd @ '' ''
         @ (if jm \<ge> 1 \<and> jm \<le> 12 then jalaliMonthNames ! nat jm else []) @ '' '' @ Itoa jy
         @ (fa [0x20, 0x2014, 0x20, 0x633, 0x627, 0x639, 0x62A, 0x20]) @ clock_text loc))"

definition FormatJalaliClock :: "gotime \<Rightarrow> string" where
  "FormatJalaliClock t = ToPersianDigits (clock_text (civil_in tehranZone t))"

definition stamp_layouts :: "layout list" where
  "stamp_layouts = [RFC3339, RFC3339, DateTime (CHR ''T''), DateTime (CHR '' '')]"

definition FormatJalaliDate :: "string \<Rightarrow> string" where
  "FormatJalaliDate iso0 =
    (let iso = TrimSpace iso0
     in if iso = [] then (fa [0x2014])
        else case parse_first (stamp_layouts @ [DateOnly]) iso of
               Some t \<Rightarrow> ToPersianDigits (date_text (civil_in tehranZone t))
             | None \<Rightarrow> ToPersianDigits iso)"

definition FormatJalaliShort :: "string \<Rightarrow> string" where
  "FormatJalaliShort iso0 =
    (let iso = TrimSpace iso0
     in if iso = [] then (fa [0x2014])
        else case parse_first stamp_layouts iso of
               Some t \<Rightarrow> ToPersianDigits (date_text (civil_in tehranZone t) @ (fa [0x20, 0x2014, 0x20]) @ clock_text (civil_in tehranZone t))
             | None \<Rightarrow> ToPersianDigits iso)"

section \<open>The conversion keeps the days\<close>

text \<open>
  The day number of a Solar Hijri date in the 33-year rule, as a reference: a year has 365
  days, and in a cycle of 33 years the years 0, 4, 8, \<dots>, 28 have 366; six months of 31
  days come first, then months of 30.
\<close>

definition jalali_leap :: "int \<Rightarrow> bool" where
  "jalali_leap jy \<longleftrightarrow> (let r = (jy + 1595) mod 33 in r mod 4 = 0 \<and> r \<noteq> 32)"

definition jalali_month_days :: "int \<Rightarrow> int \<Rightarrow> int" where
  "jalali_month_days jy jm = (if jm \<le> 6 then 31 else if jm \<le> 11 then 30 else if jalali_leap jy then 30 else 29)"

definition jalali_day_number :: "int \<times> int \<times> int \<Rightarrow> int" where
  "jalali_day_number = (\<lambda>(jy, jm, jd).
     (let c = (jy + 1595) div 33; r = (jy + 1595) mod 33
      in 12053 * c + 365 * r + (r + 3) div 4 + (if jm \<le> 7 then 31 * (jm - 1) else 30 * (jm - 1) + 6) + jd - 1))"

lemma quo_rmd_nonneg: "0 \<le> a \<Longrightarrow> 0 < b \<Longrightarrow> quo a b = a div b \<and> rmd a b = a mod b"
  by (simp add: rmd_def quo_nonneg minus_mult_div_eq_mod)

definition jalali_year_start :: "int \<Rightarrow> int" where
  "jalali_year_start jy = 12053 * ((jy + 1595) div 33) + 365 * ((jy + 1595) mod 33) + ((jy + 1595) mod 33 + 3) div 4"

lemma jalali_year_split:
  assumes "0 \<le> n" "jalali_year n = (jy, d)"
  shows "jalali_year_start jy + d = n \<and> 0 \<le> d \<and> d < (if jalali_leap jy then 366 else 365)"
proof -
  define c d1 where "c = n div 12053" and "d1 = n mod 12053"
  define g d2 where "g = d1 div 1461" and "d2 = d1 mod 1461"
  define q where "q = (if d2 > 365 then (d2 - 1) div 365 else 0)"
  have n: "n = 12053 * c + 1461 * g + d2" by (simp add: c_def d1_def g_def d2_def)
  have b1: "0 \<le> d1" "d1 \<le> 12052" using pos_mod_bound [of 12053 n] by (auto simp: d1_def simp del: pos_mod_bound)
  have b2: "0 \<le> d2" "d2 \<le> 1460" using pos_mod_bound [of 1461 d1] by (auto simp: d2_def simp del: pos_mod_bound)
  have "d1 = 1461 * g + d2" by (simp add: g_def d2_def)
  with b1 b2 have g: "0 \<le> g" "g \<le> 8" "g = 8 \<Longrightarrow> d2 \<le> 364" by linarith+
  have q: "0 \<le> q" "q \<le> 3" "q = 0 \<longleftrightarrow> d2 \<le> 365" using b2 by (auto simp: q_def)
  have res: "jy = -1595 + 33 * c + 4 * g + q" "d = (if d2 > 365 then (d2 - 1) mod 365 else d2)"
    using assms b1 b2
    by (auto simp: jalali_year_def Let_def quo_rmd_nonneg c_def [symmetric] d1_def [symmetric] g_def [symmetric] d2_def [symmetric]
        q_def split: if_splits)
  have d: "d = d2 - 365 * q - (if q = 0 then 0 else 1)"
    unfolding res(2) q_def using b2 by (auto simp: minus_mult_div_eq_mod [symmetric])
  have r: "4 * g + q < 33" "0 \<le> 4 * g + q" using g q by (cases "g = 8"; auto)+
  have yr: "(jy + 1595) div 33 = c" "(jy + 1595) mod 33 = 4 * g + q" using r by (simp_all add: res(1))
  have quarter: "(4 * g + q + 3) div 4 = g + (if q = 0 then 0 else 1)" using q by auto
  have leap: "jalali_leap jy \<longleftrightarrow> q = 0 \<and> g \<noteq> 8" unfolding jalali_leap_def yr Let_def using q g by auto
  have "jalali_year_start jy + d = n" unfolding jalali_year_start_def yr quarter d n by simp
  moreover have "0 \<le> d" using d q b2 unfolding q_def by (auto simp: res(2))
  moreover have "d < (if jalali_leap jy then 366 else 365)"
  proof (cases "q = 0")
    case True
    then have "g = 8 \<Longrightarrow> d \<le> 364" "d \<le> 365" using g(3) q(3) d by auto
    then show ?thesis by (auto simp: leap True)
  next
    case False
    then have "d2 > 365" using q(3) by auto
    then show ?thesis using False by (simp add: res(2) leap)
  qed
  ultimately show ?thesis by blast
qed

lemma month_offset:
  assumes "1 \<le> gm" "gm \<le> 12"
  shows "gDaysInMonth ! nat (gm - 1) = (if gm > 2 then (153 * (gm - 3) + 2) div 5 + 59 else (153 * (gm + 9) + 2) div 5 - 306)"
proof -
  have "gm \<in> {1, 2, 3, 4, 5, 6, 7, 8, 9, 10, 11, 12}" using assms by (simp; presburger)
  then show ?thesis by (auto simp: gDaysInMonth_def)
qed

lemma g_days_civil:
  assumes "0 \<le> gy" "1 \<le> gm" "gm \<le> 12"
  shows "g_days gy gm gd = days_of_civil gy gm gd + 1075195"
proof -
  define y where "y = (if gm \<le> 2 then gy - 1 else gy)"
  have gy2: "(if gm > 2 then gy + 1 else gy) = y + 1" by (simp add: y_def)
  have "- 1 \<le> y" using assms(1) by (simp add: y_def)
  then have "quo (y + 1 + 3) 4 = y div 4 + 1" "quo (y + 1 + 99) 100 = y div 100 + 1" "quo (y + 1 + 399) 400 = y div 400 + 1"
    by (simp_all add: quo_nonneg)
  then show ?thesis
    unfolding g_days_def days_of_civil_def Let_def gy2 y_def [symmetric] month_offset [OF assms(2,3)]
    by (simp add: y_def)
qed

lemma days_of_civil_nonneg:
  assumes "0 \<le> gy" "1 \<le> gm" "gm \<le> 12" "1 \<le> gd"
  shows "0 \<le> days_of_civil gy gm gd + 1075195"
proof -
  define y where "y = (if gm \<le> 2 then gy - 1 else gy)"
  define mp where "mp = (if gm > 2 then gm - 3 else gm + 9)"
  have "- 1 \<le> y" "0 \<le> mp" using assms by (auto simp: y_def mp_def)
  then have "- 1 \<le> y div 4" "y div 100 \<le> y + 1" "- 1 \<le> y div 400" "0 \<le> (153 * mp + 2) div 5" by auto
  then show ?thesis
    using assms(4) \<open>- 1 \<le> y\<close> unfolding days_of_civil_def Let_def y_def [symmetric] mp_def [symmetric] by linarith
qed

text \<open>
  C40. The conversion to the Solar Hijri calendar is exact: the date it gives is a date of the
  33-year rule, and its day number there is the day number of the Gregorian date, up to the
  constant distance of the two epochs. So consecutive days have consecutive dates and no
  two days share one.
\<close>

theorem GregorianToJalali_exact:
  assumes "0 \<le> gy" "1 \<le> gm" "gm \<le> 12" "1 \<le> gd"
  shows "case GregorianToJalali gy gm gd of (jy, jm, jd) \<Rightarrow>
    jalali_day_number (jy, jm, jd) = days_of_civil gy gm gd + 1075195
    \<and> 1 \<le> jm \<and> jm \<le> 12 \<and> 1 \<le> jd \<and> jd \<le> jalali_month_days jy jm"
proof -
  let ?n = "g_days gy gm gd"
  obtain jy d where yd: "jalali_year ?n = (jy, d)" by (cases "jalali_year ?n")
  have n: "?n = days_of_civil gy gm gd + 1075195" by (rule g_days_civil [OF assms(1-3)])
  have split: "jalali_year_start jy + d = ?n" "0 \<le> d" "d < (if jalali_leap jy then 366 else 365)"
    using jalali_year_split [OF _ yd] days_of_civil_nonneg [OF assms] n by auto
  have num: "jalali_day_number (jy, jm, jd) = jalali_year_start jy + (if jm \<le> 7 then 31 * (jm - 1) else 30 * (jm - 1) + 6) + jd - 1" for jm jd
    by (simp add: jalali_day_number_def jalali_year_start_def Let_def)
  show ?thesis
  proof (cases "d < 186")
    case True
    define q r where "q = d div 31" and "r = d mod 31"
    have d: "d = 31 * q + r" "0 \<le> r" "r < 31" by (simp_all add: q_def r_def)
    have "0 \<le> q" "q \<le> 5" using d True split(2) by linarith+
    moreover have "GregorianToJalali gy gm gd = (jy, 1 + q, 1 + r)"
      unfolding GregorianToJalali_def yd using True split(2) assms(2,3) by (simp add: quo_rmd_nonneg q_def r_def)
    ultimately show ?thesis using split(1) d n by (simp add: num jalali_month_days_def)
  next
    case False
    define e where "e = d - 186"
    define q r where "q = e div 30" and "r = e mod 30"
    have d: "e = 30 * q + r" "0 \<le> r" "r < 30" "0 \<le> e" using False by (simp_all add: q_def r_def e_def)
    have "e < (if jalali_leap jy then 180 else 179)" using split(3) by (auto simp: e_def split: if_splits)
    with d have "0 \<le> q" "q \<le> 5" "q = 5 \<Longrightarrow> r < (if jalali_leap jy then 30 else 29)" by (auto split: if_splits)
    moreover have "GregorianToJalali gy gm gd = (jy, 7 + q, 1 + r)"
      unfolding GregorianToJalali_def yd using False d(4) assms(2,3) by (simp add: quo_rmd_nonneg q_def r_def e_def)
    ultimately show ?thesis using split(1) d n e_def by (auto simp: num jalali_month_days_def)
  qed
qed

theorem GregorianToJalali_exact_witness:
  "GregorianToJalali 2026 3 21 = (1405, 1, 1) \<and> jalali_day_number (1405, 1, 1) = days_of_civil 2026 3 21 + 1075195"
proof -
  have "GregorianToJalali 2026 3 21 = (1405, 1, 1)" by code_simp
  with GregorianToJalali_exact [of 2026 3 21] show ?thesis by simp
qed

end
