(* ===== verification/Receipts.thy ===== *)
theory Receipts
  imports Jalali
begin

text \<open>
  \<open>printing.go\<close>, the documents: the lines of a customer receipt, a kitchen ticket and a
  test page, and their bytes for a thermal printer (ESC/POS). A reference printer that
  interprets the bytes is the specification of the encoding.
\<close>

section \<open>Labels\<close>

text \<open>The zero \<open>store.Entity\<close>, which stands for a record that was not found.\<close>

definition no_entity :: Entity where
  "no_entity = \<lparr> en_ID = [], en_Type = [], en_Version = 0, en_Payload = JNull \<rparr>"

definition rune_digit :: "nat \<Rightarrow> string" where
  "rune_digit r =
    (if 0x30 \<le> r \<and> r \<le> 0x39 then [digit_char (r - 0x30)]
     else if 0x6F0 \<le> r \<and> r \<le> 0x6F9 then [digit_char (r - 0x6F0)]
     else if 0x660 \<le> r \<and> r \<le> 0x669 then [digit_char (r - 0x660)]
     else [])"

definition digitsFa :: "string \<Rightarrow> string" where
  "digitsFa v = ToPersianDigits (concat (map rune_digit (runes v)))"

definition jalaliDateTimeFa :: "string \<Rightarrow> string" where
  "jalaliDateTimeFa stamp0 =
    (let iso = TrimSpace stamp0
     in if iso = [] then []
        else case parse_first stamp_layouts iso of
               Some t \<Rightarrow> ToPersianDigits (date_text (civil_in tehranZone t) @ ''  '' @ clock_text (civil_in tehranZone t))
             | None \<Rightarrow> ToPersianDigits iso)"

text \<open>\<open>strings.LastIndex\<close>.\<close>

definition LastIndex :: "string \<Rightarrow> string \<Rightarrow> nat option" where
  "LastIndex s t = (case filter (\<lambda>i. HasPrefix (drop i s) t) [0..<Suc (length s)] of [] \<Rightarrow> None | is \<Rightarrow> Some (last is))"

definition jalaliTimeFa :: "string \<Rightarrow> string" where
  "jalaliTimeFa stamp =
    (let full = jalaliDateTimeFa stamp in case LastIndex full ''  '' of Some i \<Rightarrow> drop (i + 2) full | None \<Rightarrow> full)"

definition orderTypeLabelFa :: "Entity \<Rightarrow> string" where
  "orderTypeLabelFa order =
    (let t = ToLower (TrimSpace (Field order ''fulfillment_type''))
     in if t = ''outside'' \<or> t = ''takeaway'' then (fa [0x628, 0x6CC, 0x631, 0x648, 0x646, 0x200C, 0x628, 0x631])
        else if t = ''delivery'' then (fa [0x627, 0x631, 0x633, 0x627, 0x644])
        else (fa [0x62D, 0x636, 0x648, 0x631, 0x6CC]))"

definition paymentLabelFa :: "Entity \<Rightarrow> string" where
  "paymentLabelFa order =
    (let m = ToLower (TrimSpace (Field order ''payment_method''))
     in if m = ''cash'' \<or> m = ''card_pos'' then (fa [0x646, 0x642, 0x62F, 0x6CC, 0x20, 0x2F, 0x20, 0x6A9, 0x627, 0x631, 0x62A, 0x62E, 0x648, 0x627, 0x646])
        else if m = ''credit_debtor'' \<or> m = ''credit'' then (fa [0x62E, 0x631, 0x6CC, 0x62F, 0x20, 0x627, 0x639, 0x62A, 0x628, 0x627, 0x631, 0x6CC, 0x20, 0x28, 0x646, 0x633, 0x6CC, 0x647, 0x29])
        else if m = ''mixed'' then (fa [0x62A, 0x631, 0x6A9, 0x6CC, 0x628, 0x6CC])
        else [])"

definition cafeReceiptTexts :: "Entity \<Rightarrow> string \<times> string" where
  "cafeReceiptTexts cafe =
    (if en_ID cafe = [] then ([], [])
     else
       (let header = TrimSpace (Field cafe ''receipt_header_text''); footer = TrimSpace (Field cafe ''receipt_footer_text'')
        in (header, if footer = [] then TrimSpace (Field cafe ''receipt_note'') else footer)))"

definition cafeNameFa :: "Entity \<Rightarrow> string" where
  "cafeNameFa cafe =
    (if en_ID cafe \<noteq> [] \<and> Label cafe \<noteq> [] \<and> Label cafe \<noteq> en_ID cafe then Label cafe else (fa [0x641, 0x627, 0x6A9, 0x62A, 0x648, 0x631, 0x20, 0x641, 0x631, 0x648, 0x634]))"

definition tableNumberFa :: "Entity \<Rightarrow> string" where
  "tableNumberFa order = digitsFa (Field order ''table_label'')"

section \<open>The lines of a document\<close>

record receiptLine =
  rl_Text :: string
  rl_Bold :: bool
  rl_Center :: bool
  rl_Big :: bool
  rl_Feed :: bool
  rl_Solid :: bool

definition plain_line :: "string \<Rightarrow> receiptLine" where
  "plain_line t = \<lparr> rl_Text = t, rl_Bold = False, rl_Center = False, rl_Big = False, rl_Feed = False, rl_Solid = False \<rparr>"

abbreviation center_line :: "string \<Rightarrow> receiptLine" where
  "center_line t \<equiv> (plain_line t)\<lparr>rl_Center := True\<rparr>"

abbreviation bold_line :: "string \<Rightarrow> receiptLine" where
  "bold_line t \<equiv> (plain_line t)\<lparr>rl_Bold := True\<rparr>"

abbreviation title_line :: "string \<Rightarrow> receiptLine" where
  "title_line t \<equiv> (plain_line t)\<lparr>rl_Bold := True, rl_Center := True\<rparr>"

abbreviation feed_line :: receiptLine where
  "feed_line \<equiv> (plain_line [])\<lparr>rl_Feed := True\<rparr>"

abbreviation solid_line :: receiptLine where
  "solid_line \<equiv> (plain_line [])\<lparr>rl_Solid := True\<rparr>"

definition fa_no_items :: string where "fa_no_items = (fa [0x622, 0x6CC, 0x62A, 0x645, 0x6CC, 0x20, 0x62B, 0x628, 0x62A, 0x20, 0x646, 0x634, 0x62F, 0x647, 0x20, 0x627, 0x633, 0x62A])"
definition fa_thanks :: string where "fa_thanks = (fa [0x627, 0x632, 0x20, 0x62E, 0x631, 0x6CC, 0x62F, 0x20, 0x634, 0x645, 0x627, 0x20, 0x633, 0x67E, 0x627, 0x633, 0x6AF, 0x632, 0x627, 0x631, 0x6CC, 0x645])"

definition test_lines :: "gotime \<Rightarrow> string \<Rightarrow> receiptLine list" where
  "test_lines now cafeName =
    [title_line cafeName, center_line ''SALES RECEIPT'', solid_line, center_line (fa [0x641, 0x6CC, 0x634, 0x20, 0x622, 0x632, 0x645, 0x627, 0x6CC, 0x634, 0x6CC, 0x20, 0x686, 0x627, 0x67E, 0x6AF, 0x631, 0x20, 0x62D, 0x631, 0x627, 0x631, 0x62A, 0x6CC]),
     center_line (fa [0x627, 0x62A, 0x635, 0x627, 0x644, 0x20, 0x686, 0x627, 0x67E, 0x6AF, 0x631, 0x20, 0x628, 0x631, 0x642, 0x631, 0x627, 0x631, 0x20, 0x627, 0x633, 0x62A, 0x2E]), center_line (FormatJalaliFull now), solid_line, title_line fa_thanks,
     center_line ''POWERED BY MENUVEX.IR'']"

text \<open>A line that is only there when its text is not empty.\<close>

definition opt_line :: "string \<Rightarrow> receiptLine list \<Rightarrow> receiptLine list" where
  "opt_line t ls = (if t \<noteq> [] then ls else [])"

definition note_lines :: "OrderLineView \<Rightarrow> receiptLine list" where
  "note_lines it = opt_line (ov_Note it) [plain_line (''+ '' @ ov_Note it)]"

definition kitchen_item :: "OrderLineView \<Rightarrow> receiptLine list" where
  "kitchen_item it =
    bold_line ((fa [0xD7]) @ FormatPersianNumber (Itoa (ov_Quantity it)) @ '' '' @ ov_ProductName it) # note_lines it"

definition kitchen_lines :: "Entity \<Rightarrow> Entity \<Rightarrow> OrderLineView list \<Rightarrow> receiptLine list" where
  "kitchen_lines order cafe items =
    [title_line (fa [0x633, 0x641, 0x627, 0x631, 0x634, 0x20, 0x622, 0x634, 0x67E, 0x632, 0x62E, 0x627, 0x646, 0x647])]
    @ (if en_ID cafe \<noteq> [] then [center_line (cafeNameFa cafe)] else [])
    @ [solid_line]
    @ opt_line (tableNumberFa order)
        [(plain_line ((fa [0x645, 0x6CC, 0x632, 0x20]) @ tableNumberFa order))\<lparr>rl_Bold := True, rl_Big := True, rl_Center := True\<rparr>]
    @ [bold_line ((fa [0x634, 0x645, 0x627, 0x631, 0x647, 0x20]) @ ToPersianDigits (Field order ''order_number'')),
       plain_line ((fa [0x633, 0x627, 0x639, 0x62A, 0x3A, 0x20]) @ jalaliTimeFa (Field order ''created_at'')),
       plain_line ((fa [0x62A, 0x627, 0x631, 0x6CC, 0x62E, 0x3A, 0x20]) @ jalaliDateTimeFa (Field order ''created_at'')),
       plain_line ((fa [0x646, 0x648, 0x639, 0x3A, 0x20]) @ orderTypeLabelFa order), feed_line]
    @ (if items = [] then [center_line fa_no_items] else [])
    @ concat (map kitchen_item items)
    @ opt_line (Field order ''note'') [feed_line, bold_line ((fa [0x6CC, 0x627, 0x62F, 0x62F, 0x627, 0x634, 0x62A, 0x3A, 0x20]) @ Field order ''note'')]
    @ [solid_line, center_line (fa [0x2014, 0x20, 0x67E, 0x627, 0x6CC, 0x627, 0x646, 0x20, 0x633, 0x641, 0x627, 0x631, 0x634, 0x20, 0x2014])]"

definition text_lines :: "string \<Rightarrow> receiptLine list" where
  "text_lines t = (if t = [] then [] else map title_line (filter (\<lambda>p. TrimSpace p \<noteq> []) (SplitChar t (CHR 0x0A))))"

definition customer_item :: "OrderLineView \<Rightarrow> receiptLine list" where
  "customer_item it =
    bold_line (ov_ProductName it) # note_lines it
    @ [plain_line (FormatPersianNumber (Itoa (ov_Quantity it)) @ (fa [0x20, 0xD7, 0x20]) @ FormatIRRToToman (ov_UnitPrice it)
         @ '' = '' @ FormatIRRToToman (ov_LineTotal it))]"

definition total_qty :: "OrderLineView list \<Rightarrow> int" where
  "total_qty items = fold (\<lambda>it n. w64 (n + ov_Quantity it)) items 0"

definition amount_line :: "string \<Rightarrow> string \<Rightarrow> receiptLine list" where
  "amount_line label v = (if v \<noteq> [] \<and> v \<noteq> ''0'' then [plain_line (label @ FormatIRRToToman v)] else [])"

definition customer_lines :: "Entity \<Rightarrow> Entity \<Rightarrow> OrderLineView list \<Rightarrow> receiptLine list" where
  "customer_lines order cafe items =
    [center_line ''SALES RECEIPT'', title_line (cafeNameFa cafe)]
    @ (if en_ID cafe \<noteq> [] then opt_line (Field cafe ''address'') [center_line (Field cafe ''address'')] else [])
    @ text_lines (fst (cafeReceiptTexts cafe))
    @ [solid_line, plain_line ((fa [0x634, 0x645, 0x627, 0x631, 0x647, 0x20, 0x641, 0x6CC, 0x634, 0x3A, 0x20]) @ ToPersianDigits (Field order ''order_number'')),
       plain_line ((fa [0x62A, 0x627, 0x631, 0x6CC, 0x62E, 0x3A, 0x20]) @ jalaliDateTimeFa (Field order ''created_at'')),
       plain_line ((fa [0x646, 0x648, 0x639, 0x20, 0x633, 0x641, 0x627, 0x631, 0x634, 0x3A, 0x20]) @ orderTypeLabelFa order)]
    @ opt_line (paymentLabelFa order) [plain_line ((fa [0x67E, 0x631, 0x62F, 0x627, 0x62E, 0x62A, 0x3A, 0x20]) @ paymentLabelFa order)]
    @ opt_line (Field order ''customer_name'') [plain_line ((fa [0x645, 0x634, 0x62A, 0x631, 0x6CC, 0x3A, 0x20]) @ Field order ''customer_name'')]
    @ opt_line (Field order ''customer_phone'') [plain_line ((fa [0x62A, 0x644, 0x641, 0x646, 0x20, 0x645, 0x634, 0x62A, 0x631, 0x6CC, 0x3A, 0x20]) @ Field order ''customer_phone'')]
    @ opt_line (tableNumberFa order) [plain_line ((fa [0x645, 0x6CC, 0x632, 0x3A, 0x20]) @ tableNumberFa order)]
    @ [feed_line]
    @ (if items = [] then [center_line fa_no_items] else [])
    @ concat (map customer_item items)
    @ [feed_line, plain_line ((fa [0x62A, 0x639, 0x62F, 0x627, 0x62F, 0x20, 0x627, 0x642, 0x644, 0x627, 0x645, 0x3A, 0x20]) @ FormatPersianNumber (Itoa (total_qty items)))]
    @ amount_line (fa [0x62C, 0x645, 0x639, 0x20, 0x627, 0x642, 0x644, 0x627, 0x645, 0x3A, 0x20]) (Field order ''subtotal_irr'')
    @ amount_line (fa [0x62A, 0x62E, 0x641, 0x6CC, 0x641, 0x3A, 0x20, 0x2D, 0x20]) (Field order ''discount_irr'')
    @ [(plain_line ((fa [0x645, 0x628, 0x644, 0x63A, 0x20, 0x642, 0x627, 0x628, 0x644, 0x20, 0x67E, 0x631, 0x62F, 0x627, 0x62E, 0x62A, 0x3A, 0x20]) @ PriceToman order))\<lparr>rl_Bold := True, rl_Big := True\<rparr>]
    @ opt_line (Field order ''note'') [feed_line, plain_line ((fa [0x6CC, 0x627, 0x62F, 0x62F, 0x627, 0x634, 0x62A, 0x3A, 0x20]) @ Field order ''note'')]
    @ [solid_line, title_line fa_thanks]
    @ text_lines (snd (cafeReceiptTexts cafe))
    @ [center_line ''POWERED BY MENUVEX.IR'']"

definition buildReceiptLinesFiltered ::
    "gotime \<Rightarrow> Entity \<Rightarrow> Entity \<Rightarrow> string \<Rightarrow> (string \<Rightarrow> bool) option \<Rightarrow> receiptLine list" where
  "buildReceiptLinesFiltered now order cafe docType keepItem =
    (if docType = ''test'' then test_lines now (cafeNameFa cafe)
     else
       (let items = (case keepItem of None \<Rightarrow> OrderItems order | Some keep \<Rightarrow> filter (\<lambda>it. keep (ov_ProductID it)) (OrderItems order))
        in if docType = ''kitchen'' then kitchen_lines order cafe items else customer_lines order cafe items))"

definition buildReceiptLines :: "gotime \<Rightarrow> Entity \<Rightarrow> Entity \<Rightarrow> string \<Rightarrow> receiptLine list" where
  "buildReceiptLines now order cafe docType = buildReceiptLinesFiltered now order cafe docType None"

section \<open>The bytes for the printer\<close>

definition boolByte :: "bool \<Rightarrow> char" where
  "boolByte v = (if v then CHR 0x01 else CHR 0x00)"

definition paperChars :: "string \<Rightarrow> nat" where
  "paperChars paperWidth = (if paperWidth = ''58mm'' then 32 else 48)"

definition line_bytes :: "string \<Rightarrow> receiptLine \<Rightarrow> string" where
  "line_bytes paperWidth ln =
    (if rl_Feed ln \<or> rl_Solid ln
     then replicate (paperChars paperWidth) (if rl_Solid ln then CHR ''='' else CHR ''-'') @ [CHR 0x0A]
     else [CHR 0x1B, CHR 0x61, boolByte (rl_Center ln)]
       @ (if rl_Bold ln then [CHR 0x1B, CHR 0x45, CHR 0x01] else [])
       @ (if rl_Big ln then [CHR 0x1D, CHR 0x21, CHR 0x11] else [])
       @ rl_Text ln
       @ (if rl_Big ln then [CHR 0x1D, CHR 0x21, CHR 0x00] else [])
       @ (if rl_Bold ln then [CHR 0x1B, CHR 0x45, CHR 0x00] else [])
       @ [CHR 0x1B, CHR 0x61, CHR 0x00, CHR 0x0A])"

definition buildESCPos :: "receiptLine list \<Rightarrow> string \<Rightarrow> string" where
  "buildESCPos lines paperWidth =
    [CHR 0x1B, CHR 0x40] @ concat (map (line_bytes paperWidth) lines)
    @ [CHR 0x1B, CHR 0x64, CHR 0x03] @ [CHR 0x1D, CHR 0x56, CHR 0x42, CHR 0x00]"

section \<open>A reference printer\<close>

text \<open>
  A printed row has the alignment that was set when its first character came; a character
  has the weight and size that were set when it came.
\<close>

datatype printed = Row bool "(char \<times> bool \<times> bool) list" | FeedLines nat | PartialCut

record printer =
  pr_center :: bool
  pr_bold :: bool
  pr_big :: bool
  pr_row_center :: bool
  pr_row :: "(char \<times> bool \<times> bool) list"
  pr_paper :: "printed list"

definition put_char :: "char \<Rightarrow> printer \<Rightarrow> printer" where
  "put_char c p = p\<lparr>pr_row_center := (if pr_row p = [] then pr_center p else pr_row_center p),
     pr_row := pr_row p @ [(c, pr_bold p, pr_big p)]\<rparr>"

definition end_row :: "printer \<Rightarrow> printer" where
  "end_row p = p\<lparr>pr_paper := pr_paper p @ [Row (if pr_row p = [] then pr_center p else pr_row_center p) (pr_row p)], pr_row := []\<rparr>"

text \<open>The bytes in order; an unknown command or a cut-off one stops the printer (\<open>None\<close>).\<close>

fun run_printer :: "string \<Rightarrow> printer \<Rightarrow> printer option" where
  "run_printer [] p = Some p"
| "run_printer (c # s) p =
    (if c = CHR 0x1B then
       (case s of
          [] \<Rightarrow> None
        | d # t \<Rightarrow>
           if d = CHR 0x40 then run_printer t (p\<lparr>pr_center := False, pr_bold := False, pr_big := False, pr_row := []\<rparr>)
           else (case t of
                   [] \<Rightarrow> None
                 | n # u \<Rightarrow>
                    if d = CHR 0x61 then run_printer u (p\<lparr>pr_center := (n = CHR 0x01)\<rparr>)
                    else if d = CHR 0x45 then run_printer u (p\<lparr>pr_bold := (n = CHR 0x01)\<rparr>)
                    else if d = CHR 0x64 then run_printer u (p\<lparr>pr_paper := pr_paper p @ [FeedLines (code n)]\<rparr>)
                    else None))
     else if c = CHR 0x1D then
       (case s of
          d # n # u \<Rightarrow>
           if d = CHR 0x21 then run_printer u (p\<lparr>pr_big := (n = CHR 0x11)\<rparr>)
           else if d = CHR 0x56 \<and> n = CHR 0x42 then
             (case u of [] \<Rightarrow> None | _ # v \<Rightarrow> run_printer v (p\<lparr>pr_paper := pr_paper p @ [PartialCut]\<rparr>))
           else None
        | _ \<Rightarrow> None)
     else if c = CHR 0x0A then run_printer s (end_row p)
     else run_printer s (put_char c p))"

section \<open>The encoding is correct\<close>

text \<open>Text that holds no command.\<close>

definition no_control :: "string \<Rightarrow> bool" where
  "no_control s \<longleftrightarrow> list_all (\<lambda>c. c \<noteq> CHR 0x1B \<and> c \<noteq> CHR 0x1D \<and> c \<noteq> CHR 0x0A) s"

lemma no_control_simps [simp]:
  "no_control []" "no_control (c # s) \<longleftrightarrow> c \<noteq> CHR 0x1B \<and> c \<noteq> CHR 0x1D \<and> c \<noteq> CHR 0x0A \<and> no_control s"
  by (auto simp: no_control_def)

text \<open>What the printer is to show for a line.\<close>

definition line_row :: "string \<Rightarrow> receiptLine \<Rightarrow> printed" where
  "line_row paperWidth ln =
    (if rl_Feed ln \<or> rl_Solid ln
     then Row False (replicate (paperChars paperWidth) (if rl_Solid ln then CHR ''='' else CHR ''-'', False, False))
     else Row (rl_Center ln \<and> rl_Text ln \<noteq> []) (map (\<lambda>c. (c, rl_Bold ln, rl_Big ln)) (rl_Text ln)))"

text \<open>The printer between two lines.\<close>

definition at_rest :: "printer \<Rightarrow> bool" where
  "at_rest p \<longleftrightarrow> \<not> pr_center p \<and> \<not> pr_bold p \<and> \<not> pr_big p \<and> pr_row p = []"

lemma run_text:
  "no_control t \<Longrightarrow> run_printer (t @ s) p = run_printer s (fold put_char t p)"
  by (induction t arbitrary: p) auto

lemma fold_put_char:
  "fold put_char t p = p\<lparr>pr_row := pr_row p @ map (\<lambda>c. (c, pr_bold p, pr_big p)) t,
     pr_row_center := (if t \<noteq> [] \<and> pr_row p = [] then pr_center p else pr_row_center p)\<rparr>"
  by (induction t arbitrary: p) (simp_all add: put_char_def)

lemma run_line:
  assumes "at_rest p" "rl_Feed ln \<or> rl_Solid ln \<or> no_control (rl_Text ln)"
  shows "\<exists>p'. run_printer (line_bytes paper ln @ s) p = run_printer s p' \<and> at_rest p' \<and> pr_paper p' = pr_paper p @ [line_row paper ln]"
proof (cases "rl_Feed ln \<or> rl_Solid ln")
  case True
  let ?t = "replicate (paperChars paper) (if rl_Solid ln then CHR ''='' else CHR ''-'')"
  have "no_control ?t" by (simp add: no_control_def list_all_iff)
  then have "run_printer (line_bytes paper ln @ s) p = run_printer s (end_row (fold put_char ?t p))"
    using True by (simp add: line_bytes_def run_text)
  then show ?thesis
    using assms(1) True
    by (intro exI [of _ "end_row (fold put_char ?t p)"]) (simp add: fold_put_char end_row_def at_rest_def line_row_def map_replicate paperChars_def del: fold_replicate)
next
  case False
  with assms(2) have t: "no_control (rl_Text ln)" by blast
  let ?p1 = "p\<lparr>pr_center := rl_Center ln, pr_bold := rl_Bold ln, pr_big := rl_Big ln\<rparr>"
  let ?p2 = "(fold put_char (rl_Text ln) ?p1)\<lparr>pr_center := False, pr_bold := False, pr_big := False\<rparr>"
  have "run_printer (line_bytes paper ln @ s) p = run_printer s (end_row ?p2)"
  proof -
    obtain rc out where p: "p = \<lparr> pr_center = False, pr_bold = False, pr_big = False, pr_row_center = rc, pr_row = [], pr_paper = out \<rparr>"
      using assms(1) by (cases p) (auto simp: at_rest_def)
    show ?thesis
      using False by (cases "rl_Bold ln"; cases "rl_Big ln")
        (simp_all add: p line_bytes_def run_text [OF t] boolByte_def fold_put_char)
  qed
  then show ?thesis
    using assms(1) False
    by (intro exI [of _ "end_row ?p2"]) (simp add: fold_put_char end_row_def at_rest_def line_row_def)
qed

lemma run_lines:
  assumes "at_rest p" "list_all (\<lambda>ln. rl_Feed ln \<or> rl_Solid ln \<or> no_control (rl_Text ln)) lines"
  shows "\<exists>p'. run_printer (concat (map (line_bytes paper) lines) @ s) p = run_printer s p' \<and> at_rest p'
    \<and> pr_paper p' = pr_paper p @ map (line_row paper) lines"
  using assms
proof (induction lines arbitrary: p)
  case (Cons ln lines)
  then obtain p1 where "run_printer (line_bytes paper ln @ concat (map (line_bytes paper) lines) @ s) p
      = run_printer (concat (map (line_bytes paper) lines) @ s) p1" "at_rest p1" "pr_paper p1 = pr_paper p @ [line_row paper ln]"
    using run_line [of p ln paper] by fastforce
  moreover from Cons.IH [OF this(2)] Cons.prems(2) obtain p2 where
    "run_printer (concat (map (line_bytes paper) lines) @ s) p1 = run_printer s p2" "at_rest p2"
    "pr_paper p2 = pr_paper p1 @ map (line_row paper) lines" by auto
  ultimately show ?case by auto
qed auto

text \<open>
  C39. The bytes of a document make the printer show exactly its lines, in order, each with its
  alignment, weight and size, then feed three lines and cut once; whatever state the
  printer was in, it ends with every attribute reset. (For texts without control bytes.)
\<close>

theorem buildESCPos_prints:
  assumes "list_all (\<lambda>ln. rl_Feed ln \<or> rl_Solid ln \<or> no_control (rl_Text ln)) lines"
  shows "\<exists>p'. run_printer (buildESCPos lines paper) p = Some p' \<and> at_rest p'
    \<and> pr_paper p' = pr_paper p @ map (line_row paper) lines @ [FeedLines 3, PartialCut]"
proof -
  let ?p = "p\<lparr>pr_center := False, pr_bold := False, pr_big := False, pr_row := []\<rparr>"
  have "at_rest ?p" by (simp add: at_rest_def)
  from run_lines [OF this assms] obtain p1 where
    "run_printer (concat (map (line_bytes paper) lines) @ [CHR 0x1B, CHR 0x64, CHR 0x03, CHR 0x1D, CHR 0x56, CHR 0x42, CHR 0x00]) ?p
       = run_printer [CHR 0x1B, CHR 0x64, CHR 0x03, CHR 0x1D, CHR 0x56, CHR 0x42, CHR 0x00] p1" "at_rest p1"
    "pr_paper p1 = pr_paper ?p @ map (line_row paper) lines" by blast
  then show ?thesis by (simp add: buildESCPos_def at_rest_def)
qed

definition demo_device :: printer where
  "demo_device = \<lparr> pr_center = True, pr_bold = True, pr_big = False, pr_row_center = False, pr_row = [], pr_paper = [] \<rparr>"

theorem buildESCPos_prints_witness:
  "\<exists>p'. run_printer (buildESCPos [title_line ''Cafe'', solid_line] ''58mm'') demo_device = Some p' \<and> at_rest p'
     \<and> pr_paper p' = [Row True [(CHR ''C'', True, False), (CHR ''a'', True, False), (CHR ''f'', True, False), (CHR ''e'', True, False)],
         Row False (replicate 32 (CHR ''='', False, False)), FeedLines 3, PartialCut]"
  using buildESCPos_prints [of "[title_line ''Cafe'', solid_line]" "''58mm''" demo_device]
  by (auto simp: plain_line_def line_row_def paperChars_def demo_device_def)

end
