(* ===== verification/Printing.thy ===== *)
theory Printing
  imports Print_Props Receipts
begin

text \<open>
  \<open>printing.go\<close>, the policy and the dispatcher: which documents the stages of an order ask
  for, where the bytes of a job go, how a job is printed and how its state follows. The
  environment (spool directory, network, the system's print queue) is a record of outcomes;
  what was delivered is part of the result.
\<close>

section \<open>Policy\<close>

definition profile :: "io \<Rightarrow> Store \<Rightarrow> err + Entity" where
  "profile w s = EntityOf w ''cafe_profile'' ''cafe-main-profile'' s"

definition printerEnabled :: "io \<Rightarrow> io \<Rightarrow> Store \<Rightarrow> bool" where
  "printerEnabled w w' s =
    (let choice = (case profile w s of Inl _ \<Rightarrow> [] | Inr prof \<Rightarrow> TrimSpace (Field prof ''printer_enabled''))
     in if choice = ''true'' then True
        else if choice = ''false'' then False
        else list_or_empty w' ''printer'' s \<noteq> [])"

record PrintScenario =
  sc_Mode :: string
  sc_Doc :: string
  sc_Copies :: int
  sc_Merchant :: bool
  sc_Checkout :: bool

record PrintPolicy =
  po_Create :: PrintScenario
  po_NoTable :: PrintScenario
  po_Checkout :: PrintScenario
  po_Complete :: PrintScenario

definition defaultPolicy :: PrintPolicy where
  "defaultPolicy =
    \<lparr> po_Create = \<lparr> sc_Mode = ''kitchen'', sc_Doc = ''kitchen'', sc_Copies = 1, sc_Merchant = False, sc_Checkout = False \<rparr>,
      po_NoTable = \<lparr> sc_Mode = ''kitchen'', sc_Doc = ''kitchen'', sc_Copies = 1, sc_Merchant = False, sc_Checkout = False \<rparr>,
      po_Checkout = \<lparr> sc_Mode = ''both'', sc_Doc = ''cashier'', sc_Copies = 2, sc_Merchant = True, sc_Checkout = True \<rparr>,
      po_Complete = \<lparr> sc_Mode = ''customer'', sc_Doc = ''cashier'', sc_Copies = 1, sc_Merchant = False, sc_Checkout = False \<rparr> \<rparr>"

definition apply_policy :: "Entity \<Rightarrow> string \<Rightarrow> PrintScenario \<Rightarrow> PrintScenario" where
  "apply_policy prof prefix sc =
    (let m = TrimSpace (Field prof (prefix @ ''_mode'')); d = TrimSpace (Field prof (prefix @ ''_doc''));
         c = TrimSpace (Field prof (prefix @ ''_copies'')); n = Atoi c
     in sc\<lparr>sc_Mode := (if m \<noteq> [] then m else sc_Mode sc), sc_Doc := (if d \<noteq> [] then d else sc_Doc sc),
          sc_Copies := (if c \<noteq> [] \<and> snd n \<and> fst n \<ge> 1 \<and> fst n \<le> 5 then fst n else sc_Copies sc)\<rparr>)"

definition printPolicy :: "io \<Rightarrow> Store \<Rightarrow> PrintPolicy" where
  "printPolicy w s =
    (case profile w s of
       Inl _ \<Rightarrow> defaultPolicy
     | Inr prof \<Rightarrow>
        (let p = defaultPolicy; checkout = apply_policy prof ''pw_checkout'' (po_Checkout p);
             v = TrimSpace (Field prof ''pw_checkout_merchant'')
         in \<lparr> po_Create = apply_policy prof ''pw_create'' (po_Create p),
              po_NoTable = apply_policy prof ''pw_notable'' (po_NoTable p),
              po_Checkout = (if v \<noteq> [] then checkout\<lparr>sc_Merchant := (v = ''true'')\<rparr> else checkout),
              po_Complete = apply_policy prof ''pw_complete'' (po_Complete p) \<rparr>))"

definition docs :: "PrintScenario \<Rightarrow> (string \<times> int) list" where
  "docs sc =
    (let c = clamp_copies (sc_Copies sc)
     in if sc_Checkout sc then
          (if sc_Mode sc = ''customer'' then [(''customer'', c)]
           else if sc_Mode sc = ''both'' then [(''customer'', 2)]
           else if sc_Mode sc = ''custom'' then [(''customer'', if sc_Merchant sc then c + c else c)]
           else [])
        else if sc_Mode sc = ''kitchen'' then [(''kitchen'', c)]
        else if sc_Mode sc = ''customer'' then [(''customer'', c)]
        else if sc_Mode sc = ''both'' then [(''customer'', c), (''kitchen'', c)]
        else if sc_Mode sc = ''custom'' then
          (if sc_Doc sc = ''kitchen'' then [(''kitchen'', c)]
           else if sc_Doc sc = ''cashier'' then [(''customer'', c)]
           else if sc_Doc sc = ''all'' then [(''customer'', c), (''kitchen'', c)]
           else [])
        else [])"

definition scenario_of :: "PrintPolicy \<Rightarrow> string \<Rightarrow> PrintScenario option" where
  "scenario_of pol event =
    (if event = ''create'' then Some (po_Create pol)
     else if event = ''notable'' then Some (po_NoTable pol)
     else if event = ''checkout'' then Some (po_Checkout pol)
     else if event = ''complete'' then Some (po_Complete pol)
     else None)"

section \<open>Delivering bytes\<close>

text \<open>One to three digits that end before the given character.\<close>

definition octet :: "char \<Rightarrow> string \<Rightarrow> (string \<times> string) option" where
  "octet c s =
    (let ds = takeWhile is_digit s; r = dropWhile is_digit s
     in if 1 \<le> length ds \<and> length ds \<le> 3 \<and> r \<noteq> [] \<and> hd r = c then Some (ds @ [c], tl r) else None)"

text \<open>
  \<open>networkPrinterPattern\<close> at the start of a text: four octets with dots, a colon and two to
  five digits.
\<close>

definition match_network :: "string \<Rightarrow> string option" where
  "match_network s =
    Option.bind (octet (CHR ''.'') s) (\<lambda>(a, s1).
    Option.bind (octet (CHR ''.'') s1) (\<lambda>(b, s2).
    Option.bind (octet (CHR ''.'') s2) (\<lambda>(c, s3).
    Option.bind (octet (CHR '':'') s3) (\<lambda>(d, s4).
      let port = take 5 (takeWhile is_digit s4) in if length port \<ge> 2 then Some (a @ b @ c @ d @ port) else None))))"

fun parseNetworkTarget :: "string \<Rightarrow> string" where
  "parseNetworkTarget [] = []"
| "parseNetworkTarget (c # s) = (case match_network (c # s) of Some m \<Rightarrow> m | None \<Rightarrow> parseNetworkTarget s)"

text \<open>Outcomes: the text of an error, or \<open>None\<close> for success.\<close>

record send_env =
  sv_spool :: string
  sv_mkdir :: "string option"
  sv_spool_write :: "string option"
  sv_dial :: "string option"
  sv_write :: "string option"
  sv_windows :: bool
  sv_lp :: bool
  sv_lp_run :: "string option"

datatype delivery = ToSpool string string string | ToNetwork string string | ToQueue "string option" string

definition spool_name :: "PrintJobView \<Rightarrow> string" where
  "spool_name job = ''print-'' @ pv_ID job @ ''-'' @ pv_DocType job @ ''.bin''"

definition sendToPrinter :: "send_env \<Rightarrow> PrintJobView \<Rightarrow> string \<Rightarrow> string + delivery" where
  "sendToPrinter v job payload =
    (let dir = TrimSpace (sv_spool v); target = parseNetworkTarget (pv_Connection job); q = TrimSpace (pv_Queue job)
     in if dir \<noteq> [] then
          (case sv_mkdir v of
             Some e \<Rightarrow> Inl ((fa [0x633, 0x627, 0x62E, 0x62A, 0x20, 0x67E, 0x648, 0x634, 0x647, 0x20, 0x627, 0x633, 0x67E, 0x648, 0x644, 0x20, 0x686, 0x627, 0x67E, 0x20, 0x646, 0x627, 0x645, 0x648, 0x641, 0x642, 0x20, 0x628, 0x648, 0x62F, 0x3A, 0x20]) @ e)
           | None \<Rightarrow>
              (case sv_spool_write v of
                 Some e \<Rightarrow> Inl ((fa [0x646, 0x648, 0x634, 0x62A, 0x646, 0x20, 0x641, 0x627, 0x6CC, 0x644, 0x20, 0x627, 0x633, 0x67E, 0x648, 0x644, 0x20, 0x686, 0x627, 0x67E, 0x20, 0x646, 0x627, 0x645, 0x648, 0x641, 0x642, 0x20, 0x628, 0x648, 0x62F, 0x3A, 0x20]) @ e)
               | None \<Rightarrow> Inr (ToSpool dir (spool_name job) payload)))
        else if target \<noteq> [] then
          (case sv_dial v of
             Some e \<Rightarrow> Inl ((fa [0x627, 0x62A, 0x635, 0x627, 0x644, 0x20, 0x634, 0x628, 0x6A9, 0x647, 0x20, 0x628, 0x647, 0x20, 0x686, 0x627, 0x67E, 0x6AF, 0x631, 0x20, 0x28]) @ target @ (fa [0x29, 0x20, 0x628, 0x631, 0x642, 0x631, 0x627, 0x631, 0x20, 0x646, 0x634, 0x62F, 0x3A, 0x20]) @ e)
           | None \<Rightarrow>
              (case sv_write v of
                 Some e \<Rightarrow> Inl ((fa [0x627, 0x631, 0x633, 0x627, 0x644, 0x20, 0x62F, 0x627, 0x62F, 0x647, 0x20, 0x628, 0x647, 0x20, 0x686, 0x627, 0x67E, 0x6AF, 0x631, 0x20, 0x634, 0x628, 0x6A9, 0x647, 0x20, 0x646, 0x627, 0x645, 0x648, 0x641, 0x642, 0x20, 0x628, 0x648, 0x62F, 0x3A, 0x20]) @ e)
               | None \<Rightarrow> Inr (ToNetwork target payload)))
        else if \<not> sv_windows v \<and> sv_lp v then
          (case sv_lp_run v of
             Some out \<Rightarrow> Inl ((fa [0x635, 0x641, 0x20, 0x686, 0x627, 0x67E, 0x20, 0x633, 0x6CC, 0x633, 0x62A, 0x645, 0x200C, 0x639, 0x627, 0x645, 0x644, 0x20, 0x62E, 0x637, 0x627, 0x20, 0x62F, 0x627, 0x62F, 0x3A, 0x20]) @ TrimSpace out)
           | None \<Rightarrow> Inr (ToQueue (if q \<noteq> [] \<and> q \<noteq> ''-'' then Some q else None) payload))
        else if sv_windows v then
          Inl (fa [0x628, 0x631, 0x627, 0x6CC, 0x20, 0x627, 0x6CC, 0x646, 0x20, 0x686, 0x627, 0x67E, 0x6AF, 0x631, 0x20, 0x622, 0x62F, 0x631, 0x633, 0x20, 0x634, 0x628, 0x6A9, 0x647, 0x20, 0x28, 0x49, 0x50, 0x3A, 0x39, 0x31, 0x30, 0x30, 0x29, 0x20, 0x62B, 0x628, 0x62A, 0x20, 0x646, 0x634, 0x62F, 0x647, 0x20, 0x648, 0x20, 0x627, 0x631, 0x633, 0x627, 0x644, 0x20, 0x62E, 0x627, 0x645, 0x20, 0x628, 0x647, 0x20, 0x635, 0x641, 0x20, 0x648, 0x6CC, 0x646, 0x62F, 0x648, 0x632, 0x20, 0x62F, 0x631, 0x20, 0x627, 0x6CC, 0x646, 0x20, 0x646, 0x633, 0x62E, 0x647, 0x20, 0x67E, 0x634, 0x62A, 0x6CC, 0x628, 0x627, 0x646, 0x6CC, 0x20, 0x646, 0x645, 0x6CC, 0x200C, 0x634, 0x648, 0x62F, 0x61B, 0x20, 0x622, 0x62F, 0x631, 0x633, 0x20, 0x634, 0x628, 0x6A9, 0x647, 0x20, 0x686, 0x627, 0x67E, 0x6AF, 0x631, 0x20, 0x631, 0x627, 0x20, 0x62F, 0x631, 0x20, 0x62A, 0x646, 0x638, 0x6CC, 0x645, 0x627, 0x62A, 0x20, 0x648, 0x627, 0x631, 0x62F, 0x20, 0x6A9, 0x646, 0x6CC, 0x62F])
        else Inl (fa [0x686, 0x627, 0x67E, 0x6AF, 0x631, 0x20, 0x645, 0x642, 0x635, 0x62F, 0x20, 0x645, 0x634, 0x62E, 0x635, 0x20, 0x646, 0x6CC, 0x633, 0x62A, 0x3A, 0x20, 0x622, 0x62F, 0x631, 0x633, 0x20, 0x634, 0x628, 0x6A9, 0x647, 0x20, 0x28, 0x49, 0x50, 0x3A, 0x39, 0x31, 0x30, 0x30, 0x29, 0x20, 0x62B, 0x628, 0x62A, 0x20, 0x646, 0x634, 0x62F, 0x647, 0x20, 0x648, 0x20, 0x635, 0x641, 0x20, 0x686, 0x627, 0x67E, 0x20, 0x633, 0x6CC, 0x633, 0x62A, 0x645, 0x200C, 0x639, 0x627, 0x645, 0x644, 0x20, 0x28, 0x43, 0x55, 0x50, 0x53, 0x29, 0x20, 0x647, 0x645, 0x20, 0x62F, 0x631, 0x20, 0x62F, 0x633, 0x62A, 0x631, 0x633, 0x20, 0x646, 0x6CC, 0x633, 0x62A]))"

section \<open>Dispatching\<close>

record dispatch_env =
  de_io :: "nat \<Rightarrow> io"
  de_now :: "nat \<Rightarrow> string"
  de_time :: gotime
  de_send :: "nat \<Rightarrow> send_env"
  de_errtext :: "err \<Rightarrow> string"

text \<open>
  The view that \<open>UpdatePrintJobStatus\<close> returns beside its error: the closure has filled it
  in even when the commit fails afterwards.
\<close>

definition returned_view :: "io \<Rightarrow> string \<Rightarrow> string \<Rightarrow> string \<Rightarrow> string \<Rightarrow> Store \<Rightarrow> PrintJobView" where
  "returned_view w now i st er s =
    (if \<not> ctx_ok w \<or> closed s then no_job
     else (case UpdatePrintJobStatus_tx now i st er (state s) of Inl _ \<Rightarrow> no_job | Inr (_, v) \<Rightarrow> v))"

definition entity_or_zero :: "io \<Rightarrow> string \<Rightarrow> string \<Rightarrow> Store \<Rightarrow> Entity" where
  "entity_or_zero w kind i s = (case EntityOf w kind i s of Inl _ \<Rightarrow> no_entity | Inr e \<Rightarrow> e)"

text \<open>The lines a job prints: a kitchen ticket with categories keeps only their items.\<close>

definition job_lines :: "gotime \<Rightarrow> Entity \<Rightarrow> Entity \<Rightarrow> Entity list \<Rightarrow> PrintJobView \<Rightarrow> receiptLine list" where
  "job_lines now order cafe products job =
    (let cats = (case pv_Categories job of None \<Rightarrow> [] | Some cs \<Rightarrow> cs); prodCat = table_of (\<lambda>p. Field p ''category_id'') products
     in if pv_DocType job = ''kitchen'' \<and> cats \<noteq> [] \<and> en_ID order \<noteq> []
        then buildReceiptLinesFiltered now order cafe (pv_DocType job) (Some (\<lambda>pid. lookup_text prodCat pid \<in> set cats))
        else buildReceiptLines now order cafe (pv_DocType job))"

fun send_copies :: "(nat \<Rightarrow> send_env) \<Rightarrow> PrintJobView \<Rightarrow> string \<Rightarrow> nat \<Rightarrow> nat \<Rightarrow> delivery list \<Rightarrow> delivery list \<times> string option" where
  "send_copies v job payload i 0 out = (out, None)"
| "send_copies v job payload i (Suc n) out =
    (case sendToPrinter (v i) job payload of
       Inl e \<Rightarrow> (out, Some e)
     | Inr d \<Rightarrow> send_copies v job payload (Suc i) n (out @ [d]))"

definition dispatchPrintJob :: "dispatch_env \<Rightarrow> PrintJobView \<Rightarrow> Store \<Rightarrow> Store \<times> PrintJobView \<times> delivery list" where
  "dispatchPrintJob env job0 s =
    (case UpdatePrintJobStatus (de_io env 0) (de_now env 0) (pv_ID job0) PrintStatusPrinting [] s of
       (s1, Inl e) \<Rightarrow>
         (s1, (returned_view (de_io env 0) (de_now env 0) (pv_ID job0) PrintStatusPrinting [] s)
                \<lparr>pv_Status := PrintStatusFailed, pv_LastError := de_errtext env e\<rparr>, [])
     | (s1, Inr job) \<Rightarrow>
         (let order = (if pv_OrderID job \<noteq> [] then entity_or_zero (de_io env 1) ''order'' (pv_OrderID job) s1 else no_entity);
              cafe = entity_or_zero (de_io env 2) ''cafe_profile'' ''cafe-main-profile'' s1;
              lines = job_lines (de_time env) order cafe (list_or_empty (de_io env 3) ''product'' s1) job;
              payload = buildESCPos lines (pv_PaperWidth job)
          in case send_copies (de_send env) job payload 0 (nat (clamp_copies (pv_Copies job))) [] of (out, er) \<Rightarrow>
               (let st = (case er of None \<Rightarrow> PrintStatusPrinted | Some _ \<Rightarrow> PrintStatusFailed);
                    msg = (case er of None \<Rightarrow> [] | Some e \<Rightarrow> e)
                in (fst (UpdatePrintJobStatus (de_io env 4) (de_now env 1) (pv_ID job) st msg s1),
                    returned_view (de_io env 4) (de_now env 1) (pv_ID job) st msg s1, out))))"

text \<open>
  The loop of \<open>enqueueAndDispatchPrintJobsDocs\<close>: the jobs are replaced in the slice that
  is being visited, so the loop goes by index.
\<close>

record dispatch_sum =
  ds_jobs :: "PrintJobView list"
  ds_printed :: int
  ds_failed :: int
  ds_sent :: "delivery list"

fun dispatch_loop :: "(nat \<Rightarrow> dispatch_env) \<Rightarrow> nat \<Rightarrow> nat \<Rightarrow> dispatch_sum \<Rightarrow> Store \<Rightarrow> Store \<times> dispatch_sum" where
  "dispatch_loop envs i 0 st s = (s, st)"
| "dispatch_loop envs i (Suc n) st s =
    (let j = ds_jobs st ! i
     in if pv_Status j = PrintStatusPrinted then dispatch_loop envs (Suc i) n (st\<lparr>ds_printed := ds_printed st + 1\<rparr>) s
        else if pv_Status j = PrintStatusFailed \<and> pv_Attempts j > 0 \<and> pv_PrinterID j = []
        then dispatch_loop envs (Suc i) n (st\<lparr>ds_failed := ds_failed st + 1\<rparr>) s
        else (case dispatchPrintJob (envs i) j s of (s', done, out) \<Rightarrow>
               (let st1 = st\<lparr>ds_jobs := map (\<lambda>x. if pv_ID x = pv_ID done then done else x) (ds_jobs st), ds_sent := ds_sent st @ out\<rparr>
                in dispatch_loop envs (Suc i) n
                     (if pv_Status done = PrintStatusPrinted then st1\<lparr>ds_printed := ds_printed st1 + 1\<rparr>
                      else st1\<lparr>ds_failed := ds_failed st1 + 1\<rparr>) s')))"

definition print_summary :: "int \<Rightarrow> int \<Rightarrow> string" where
  "print_summary printed failed =
    (if failed = 0 \<and> printed > 0 then (fa [0x641, 0x6CC, 0x634, 0x200C, 0x647, 0x627, 0x20, 0x628, 0x647, 0x200C, 0x635, 0x648, 0x631, 0x62A, 0x20, 0x62E, 0x648, 0x62F, 0x6A9, 0x627, 0x631, 0x20, 0x686, 0x627, 0x67E, 0x20, 0x634, 0x62F, 0x646, 0x62F, 0x20, 0x28]) @ Itoa printed @ (fa [0x20, 0x641, 0x6CC, 0x634, 0x29, 0x2E])
     else if printed > 0 then (fa [0x628, 0x62E, 0x634, 0x6CC, 0x20, 0x627, 0x632, 0x20, 0x641, 0x6CC, 0x634, 0x200C, 0x647, 0x627, 0x20, 0x686, 0x627, 0x67E, 0x20, 0x634, 0x62F, 0x20, 0x648, 0x20]) @ Itoa failed @ (fa [0x20, 0x641, 0x6CC, 0x634, 0x20, 0x62E, 0x637, 0x627, 0x20, 0x62F, 0x627, 0x631, 0x62F, 0x61B, 0x20, 0x627, 0x632, 0x20, 0xAB, 0x6A9, 0x644, 0x20, 0x633, 0x641, 0x627, 0x631, 0x634, 0x627, 0x62A, 0xBB, 0x20, 0x62A, 0x644, 0x627, 0x634, 0x20, 0x645, 0x62C, 0x62F, 0x62F, 0x20, 0x628, 0x632, 0x646, 0x6CC, 0x62F, 0x2E])
     else if failed > 0 then (fa [0x633, 0x641, 0x627, 0x631, 0x634, 0x20, 0x62B, 0x628, 0x62A, 0x20, 0x634, 0x62F, 0x20, 0x627, 0x645, 0x627, 0x20, 0x686, 0x627, 0x67E, 0x20, 0x62E, 0x648, 0x62F, 0x6A9, 0x627, 0x631, 0x20, 0x646, 0x627, 0x645, 0x648, 0x641, 0x642, 0x20, 0x628, 0x648, 0x62F, 0x20, 0x28]) @ Itoa failed
       @ (fa [0x20, 0x4A, 0x6F, 0x62, 0x20, 0x646, 0x627, 0x645, 0x648, 0x641, 0x642, 0x29, 0x61B, 0x20, 0x633, 0x641, 0x627, 0x631, 0x634, 0x20, 0x633, 0x627, 0x644, 0x645, 0x20, 0x627, 0x633, 0x62A, 0x20, 0x648, 0x20, 0x627, 0x632, 0x20, 0xAB, 0x6A9, 0x644, 0x20, 0x633, 0x641, 0x627, 0x631, 0x634, 0x627, 0x62A, 0xBB, 0x20, 0x645, 0x6CC, 0x200C, 0x62A, 0x648, 0x627, 0x646, 0x6CC, 0x62F, 0x20, 0x62F, 0x648, 0x628, 0x627, 0x631, 0x647, 0x20, 0x686, 0x627, 0x67E, 0x20, 0x6A9, 0x646, 0x6CC, 0x62F, 0x2E])
     else (fa [0x4A, 0x6F, 0x62, 0x20, 0x686, 0x627, 0x67E, 0x6CC, 0x20, 0x628, 0x631, 0x627, 0x6CC, 0x20, 0x627, 0x6CC, 0x646, 0x20, 0x633, 0x641, 0x627, 0x631, 0x634, 0x20, 0x633, 0x627, 0x62E, 0x62A, 0x647, 0x20, 0x646, 0x634, 0x62F, 0x2E]))"

record print_app =
  pa_read :: "nat \<Rightarrow> io"
  pa_queue :: print_env
  pa_disp :: "nat \<Rightarrow> dispatch_env"

definition enqueueAndDispatchPrintJobsDocs ::
    "print_app \<Rightarrow> (err \<Rightarrow> string) \<Rightarrow> string \<Rightarrow> (string \<times> int) list \<Rightarrow> Store \<Rightarrow> Store \<times> PrintJobView list \<times> string \<times> delivery list" where
  "enqueueAndDispatchPrintJobsDocs app errtext orderID ds s =
    (case EnqueueOrderPrintJobsDocs (pa_queue app) orderID ds s of
       (s1, jobs, Some e) \<Rightarrow> (s1, [], (fa [0x62E, 0x637, 0x627, 0x6CC, 0x20, 0x633, 0x627, 0x62E, 0x62A, 0x20, 0x4A, 0x6F, 0x62, 0x20, 0x686, 0x627, 0x67E, 0x3A, 0x20]) @ errtext e, [])
     | (s1, jobs, None) \<Rightarrow>
        (case dispatch_loop (pa_disp app) 0 (length jobs) \<lparr> ds_jobs = jobs, ds_printed = 0, ds_failed = 0, ds_sent = [] \<rparr> s1 of
           (s2, st) \<Rightarrow> (s2, ds_jobs st, print_summary (ds_printed st) (ds_failed st), ds_sent st)))"

definition enqueueAndDispatchPrintJobs ::
    "print_app \<Rightarrow> (err \<Rightarrow> string) \<Rightarrow> string \<Rightarrow> Store \<Rightarrow> Store \<times> PrintJobView list \<times> string \<times> delivery list" where
  "enqueueAndDispatchPrintJobs app errtext orderID s =
    enqueueAndDispatchPrintJobsDocs app errtext orderID [(''customer'', 1), (''kitchen'', 1)] s"

text \<open>The documents an event asks for; none when printing is off or the event is unknown.\<close>

definition event_docs :: "print_app \<Rightarrow> string \<Rightarrow> Store \<Rightarrow> (string \<times> int) list" where
  "event_docs app event s =
    (if \<not> printerEnabled (pa_read app 0) (pa_read app 1) s then []
     else (case scenario_of (printPolicy (pa_read app 2) s) event of None \<Rightarrow> [] | Some sc \<Rightarrow> docs sc))"

definition autoPrint ::
    "print_app \<Rightarrow> (err \<Rightarrow> string) \<Rightarrow> string \<Rightarrow> string \<Rightarrow> Store \<Rightarrow> Store \<times> string \<times> delivery list" where
  "autoPrint app errtext orderID event s =
    (let ds = event_docs app event s
     in if ds = [] then (s, [], [])
        else (case enqueueAndDispatchPrintJobsDocs app errtext orderID ds s of (s', jobs, summary, out) \<Rightarrow> (s', summary, out)))"

text \<open>
  \<open>autoPrintAsync\<close> up to its return, and what its goroutine does later on the jobs.
\<close>

definition autoPrintAsync :: "print_app \<Rightarrow> string \<Rightarrow> string \<Rightarrow> Store \<Rightarrow> Store \<times> PrintJobView list" where
  "autoPrintAsync app orderID event s =
    (let ds = event_docs app event s
     in if ds = [] then (s, [])
        else (case EnqueueOrderPrintJobsDocs (pa_queue app) orderID ds s of
                (s', jobs, Some _) \<Rightarrow> (s', []) | (s', jobs, None) \<Rightarrow> (s', jobs)))"

fun background_print :: "(nat \<Rightarrow> dispatch_env) \<Rightarrow> nat \<Rightarrow> PrintJobView list \<Rightarrow> Store \<Rightarrow> Store \<times> delivery list" where
  "background_print envs i [] s = (s, [])"
| "background_print envs i (j # js) s =
    (if pv_Status j = PrintStatusPrinted then background_print envs (Suc i) js s
     else (case dispatchPrintJob (envs i) j s of (s1, done, out) \<Rightarrow>
            (case background_print envs (Suc i) js s1 of (s2, out') \<Rightarrow> (s2, out @ out'))))"

section \<open>Frames\<close>

lemma dispatchPrintJob_frame: "dispatchPrintJob env j s = (s', r) \<Longrightarrow> same_but_jobs (state s) (state s')"
proof -
  assume run: "dispatchPrintJob env j s = (s', r)"
  obtain s1 r1 where up: "UpdatePrintJobStatus (de_io env 0) (de_now env 0) (pv_ID j) PrintStatusPrinting [] s = (s1, r1)"
    by (cases "UpdatePrintJobStatus (de_io env 0) (de_now env 0) (pv_ID j) PrintStatusPrinting [] s")
  have frame: "same_but_jobs (state s) (state s1)" by (rule UpdatePrintJobStatus_frame [OF up])
  have "same_but_jobs (state s1) (state (fst (UpdatePrintJobStatus w now i st er s1)))" for w now i st er
    using UpdatePrintJobStatus_frame by (metis prod.collapse)
  with frame show "same_but_jobs (state s) (state s')"
    using run by (cases r1) (auto simp: dispatchPrintJob_def up Let_def intro: same_but_jobs_trans split: prod.splits)
qed

lemma dispatch_loop_frame: "dispatch_loop envs i n st s = (s', st') \<Longrightarrow> same_but_jobs (state s) (state s')"
proof (induction n arbitrary: i st s)
  case (Suc n)
  obtain s1 d out where run: "dispatchPrintJob (envs i) (ds_jobs st ! i) s = (s1, d, out)"
    by (cases "dispatchPrintJob (envs i) (ds_jobs st ! i) s") auto
  note frame = dispatchPrintJob_frame [OF run]
  show ?case
  proof (cases "pv_Status (ds_jobs st ! i) = PrintStatusPrinted
      \<or> pv_Status (ds_jobs st ! i) = PrintStatusFailed \<and> pv_Attempts (ds_jobs st ! i) > 0 \<and> pv_PrinterID (ds_jobs st ! i) = []")
    case True
    with Suc.prems obtain st1 where "dispatch_loop envs (Suc i) n st1 s = (s', st')" by (simp add: Let_def split: if_splits)
    then show ?thesis by (rule Suc.IH)
  next
    case False
    with Suc.prems run obtain st1 where "dispatch_loop envs (Suc i) n st1 s1 = (s', st')" by (auto simp: Let_def split: if_splits)
    from same_but_jobs_trans [OF frame Suc.IH [OF this]] show ?thesis .
  qed
qed simp

lemma enqueueAndDispatch_frame:
  "enqueueAndDispatchPrintJobsDocs app errtext i ds s = (s', r) \<Longrightarrow> same_but_jobs (state s) (state s')"
  by (auto simp: enqueueAndDispatchPrintJobsDocs_def split: prod.splits option.splits
      dest!: Enqueue_frame dispatch_loop_frame intro: same_but_jobs_trans)

lemma background_print_frame: "background_print envs i js s = (s', out) \<Longrightarrow> same_but_jobs (state s) (state s')"
proof (induction js arbitrary: i s s' out)
  case (Cons j js)
  obtain s1 d o1 where run: "dispatchPrintJob (envs i) j s = (s1, d, o1)" by (cases "dispatchPrintJob (envs i) j s") auto
  obtain s2 o2 where rest: "background_print envs (Suc i) js s1 = (s2, o2)" by (cases "background_print envs (Suc i) js s1")
  show ?case
  proof (cases "pv_Status j = PrintStatusPrinted")
    case True
    with Cons show ?thesis by simp
  next
    case False
    from same_but_jobs_trans [OF dispatchPrintJob_frame [OF run] Cons.IH [OF rest]] False Cons.prems run rest
    show ?thesis by simp
  qed
qed simp

text \<open>
  Printing never touches a sale: whatever the printers and the file system do, automatic
  printing (direct, or in the background) leaves every record that is not a print job, the
  outbox and the settings exactly as they were.
\<close>

theorem printing_keeps_records:
  "same_but_jobs (state s) (state (fst (autoPrint app errtext orderID event s)))
   \<and> (case autoPrintAsync app orderID event s of (s1, jobs) \<Rightarrow>
        same_but_jobs (state s) (state s1) \<and> same_but_jobs (state s1) (state (fst (background_print envs 0 jobs s1))))"
proof -
  have "same_but_jobs (state s) (state (fst (enqueueAndDispatchPrintJobsDocs app errtext orderID ds s)))" for ds
    using enqueueAndDispatch_frame by (metis prod.collapse)
  then have 1: "same_but_jobs (state s) (state (fst (autoPrint app errtext orderID event s)))"
    by (simp add: autoPrint_def Let_def case_prod_beta)
  have "same_but_jobs (state s) (state s1)" if "autoPrintAsync app orderID event s = (s1, jobs)" for s1 jobs
    using that by (auto simp: autoPrintAsync_def Let_def dest: Enqueue_frame split: if_splits prod.splits option.splits)
  moreover have "same_but_jobs (state s1) (state (fst (background_print envs 0 jobs s1)))" for s1 jobs
    using background_print_frame by (metis prod.collapse)
  ultimately show ?thesis using 1 by (auto split: prod.splits)
qed

section \<open>The outcome of a job\<close>

definition delivered :: "delivery \<Rightarrow> string" where
  "delivered d = (case d of ToSpool dir n b \<Rightarrow> b | ToNetwork t b \<Rightarrow> b | ToQueue q b \<Rightarrow> b)"

lemma sendToPrinter_bytes: "sendToPrinter v job payload = Inr d \<Longrightarrow> delivered d = payload"
  by (auto simp: sendToPrinter_def Let_def delivered_def split: if_splits option.splits)

lemma send_copies_result:
  assumes "send_copies v job payload i n out = (out', er)"
  shows "(er = None \<and> out' = out @ drop (length out) out' \<and> length out' = length out + n
      \<or> (\<exists>k e. er = Some e \<and> k < n \<and> sendToPrinter (v (i + k)) job payload = Inl e \<and> length out' = length out + k))
    \<and> (list_all (\<lambda>d. delivered d = payload) out \<longrightarrow> list_all (\<lambda>d. delivered d = payload) out')"
  using assms
proof (induction n arbitrary: i out)
  case (Suc n)
  show ?case
  proof (cases "sendToPrinter (v i) job payload")
    case (Inl e)
    with Suc.prems show ?thesis by auto
  next
    case (Inr d)
    with Suc.prems have "send_copies v job payload (Suc i) n (out @ [d]) = (out', er)" by simp
    note ih = Suc.IH [OF this]
    from ih consider "er = None" "out' = (out @ [d]) @ drop (length (out @ [d])) out'" "length out' = length out + Suc n"
      | k e where "er = Some e" "k < n" "sendToPrinter (v (Suc i + k)) job payload = Inl e" "length out' = length out + Suc k" by auto
    then have "er = None \<and> out' = out @ drop (length out) out' \<and> length out' = length out + Suc n
      \<or> (\<exists>k e. er = Some e \<and> k < Suc n \<and> sendToPrinter (v (i + k)) job payload = Inl e \<and> length out' = length out + k)"
    proof cases
      case 1
      then show ?thesis by (metis append_assoc append_eq_conv_conj)
    next
      case 2
      then show ?thesis by (intro disjI2 exI [of _ "Suc k"] exI [of _ e]) simp
    qed
    with ih sendToPrinter_bytes [OF Inr] show ?thesis by auto
  qed
qed auto

lemma update_all_ok:
  assumes "\<not> closed s" "live (state s) ''print_job'' i = Some e" "decodePrintJob (se_Payload e) = Some p"
  obtains s' where "UpdatePrintJobStatus all_ok now i st er s = (s', Inr (printJobView (moved_job now st er p)))"
    "returned_view all_ok now i st er s = printJobView (moved_job now st er p)" "\<not> closed s'"
    "state s' = putEntity (entityKey ''print_job'' i)
       (e\<lparr>se_Version := pj_Version (moved_job now st er p), se_Payload := encode_job (moved_job now st er p)\<rparr>) (state s)"
proof -
  let ?fn = "UpdatePrintJobStatus_tx now i st er"
  have tx: "?fn (state s) = Inr (putEntity (entityKey ''print_job'' i)
       (e\<lparr>se_Version := pj_Version (moved_job now st er p), se_Payload := encode_job (moved_job now st er p)\<rparr>) (state s),
       printJobView (moved_job now st er p))"
    using assms by (simp add: UpdatePrintJobStatus_tx_def Let_def)
  show ?thesis
    using withTx_all_ok [of s ?fn, OF assms(1) tx] assms(1) tx that
    by (simp add: UpdatePrintJobStatus_def returned_view_def all_ok_def)
qed

lemma moved_job_decode:
  assumes "wf_job p"
  shows "decodePrintJob (encode_job (moved_job now st er p)) = Some ((moved_job now st er p)\<lparr>pj_Categories := norm_cats (pj_Categories p)\<rparr>)"
  using decode_encode_job [of "moved_job now st er p"] assms by (simp add: wf_job_def moved_job_def)

text \<open>The order of a job.\<close>

definition job_order :: "PrintJobView \<Rightarrow> Store \<Rightarrow> Entity" where
  "job_order v s = (if pv_OrderID v \<noteq> [] then entity_or_zero all_ok ''order'' (pv_OrderID v) s else no_entity)"


definition demo_send :: send_env where
  "demo_send = \<lparr> sv_spool = ''spool'', sv_mkdir = None, sv_spool_write = None, sv_dial = None, sv_write = None, sv_windows = False,
     sv_lp = False, sv_lp_run = None \<rparr>"

definition demo_disp :: dispatch_env where
  "demo_disp = \<lparr> de_io = (\<lambda>_. all_ok), de_now = (\<lambda>_. ''t2''), de_time = (0, 0), de_send = (\<lambda>_. demo_send), de_errtext = (\<lambda>_. []) \<rparr>"

definition demo_queue_store :: Store where
  "demo_queue_store = demo_store\<lparr>state := putEntity (entityKey ''print_job'' ''j1'')
     \<lparr> se_ID = ''j1'', se_Type = ''print_job'', se_Version = 1, se_Deleted = False,
       se_Payload = encode_job (test_job ''t1'' ''j1'' (demo_printer ''p1'')) \<rparr> newEmptyDB\<rparr>"


section \<open>What a stage asks for\<close>

text \<open>
  A stage asks for customer receipts and kitchen tickets only, each at most once, at the
  checkout only for customer receipts; the number of copies is one to five, except at a
  checkout of custom layout with a merchant copy, where it is up to ten.
\<close>

theorem docs_bounds:
  "distinct (map fst (docs sc)) \<and> (\<forall>(d, n) \<in> set (docs sc). d \<in> {''customer'', ''kitchen''} \<and> 1 \<le> n \<and> n \<le> 10
     \<and> (sc_Checkout sc \<longrightarrow> d = ''customer'')
     \<and> (\<not> (sc_Checkout sc \<and> sc_Mode sc = ''custom'' \<and> sc_Merchant sc) \<longrightarrow> n \<le> 5))"
  using clamp_copies_bounds [of "sc_Copies sc"] by (simp add: docs_def Let_def)

theorem docs_bounds_witness:
  "(''customer'', 2) \<in> set (docs (po_Checkout defaultPolicy)) \<and> (2 :: int) \<le> 5"
  using docs_bounds [of "po_Checkout defaultPolicy"] by (simp add: docs_def defaultPolicy_def)

text \<open>
  The dispatcher prints at most five copies of a job, so of the ten copies that such a
  checkout asks for only five come out.
\<close>

lemma merchant_copies_lost:
  "docs \<lparr> sc_Mode = ''custom'', sc_Doc = ''cashier'', sc_Copies = 5, sc_Merchant = True, sc_Checkout = True \<rparr> = [(''customer'', 10)]
   \<and> nat (clamp_copies 10) = 5"
  by (simp add: docs_def clamp_copies_def)

section \<open>Tickets of an order\<close>

lemma distinct_count_list_one: "distinct xs \<Longrightarrow> x \<in> set xs \<Longrightarrow> count_list xs x = 1"
  by (induction xs) auto

text \<open>
  C31. With routes, every line of an order whose product has a category with a destination is
  printed on exactly one kitchen ticket: exactly one of the wanted tickets selects the line.
\<close>

theorem order_line_on_one_ticket:
  assumes "it \<in> set (OrderItems order)" "lookup_text prodCat (ov_ProductID it) \<noteq> []"
    and "destination act routes (lookup_text prodCat (ov_ProductID it)) \<noteq> None" "routes \<noteq> []" "iteration keys"
  shows "length (filter (\<lambda>w. lookup_text prodCat (ov_ProductID it) \<in> set (the (wn_Cats w)))
    (kitchen_wants act cashier routes (keys (order_cats prodCat order)) k)) = 1"
proof -
  let ?c = "lookup_text prodCat (ov_ProductID it)" and ?cats = "keys (order_cats prodCat order)"
  define ws where "ws = kitchen_wants act cashier routes ?cats k"
  have d: "distinct ?cats" using assms(5) by (simp add: iteration_distinct order_cats_def)
  have c: "?c \<in> set ?cats" using assms(1,2,5) by (force simp: iteration_set order_cats_def)
  obtain i where i: "destination act routes ?c = Some i" using assms(3) by blast
  note ok = kitchen_wants_routed [OF assms(4) d, of act cashier k, folded ws_def]
  have mem: "?c \<in> set (the (wn_Cats w)) \<longleftrightarrow> en_ID (wn_Printer w) = i" if w: "w \<in> set ws" for w
  proof -
    from tickets_okD [OF ok(1) w] obtain cs where cs: "wn_Cats w = Some cs" by blast
    have "set cs = {c \<in> set ?cats. destination act routes c = Some (en_ID (wn_Printer w))}"
      using ticket_of [OF ok(1) w cs] ok(2) by simp
    then show ?thesis using c i cs by auto
  qed
  have "?c \<in> ticket ws i" using c i by (simp add: ok(2))
  then obtain w where w: "w \<in> set ws" "en_ID (wn_Printer w) = i" by (auto simp: ticket_def)
  have "filter (\<lambda>w. ?c \<in> set (the (wn_Cats w))) ws = filter (\<lambda>w. en_ID (wn_Printer w) = i) ws"
    using mem by (rule filter_cong [OF refl])
  moreover have "length (filter (\<lambda>w. en_ID (wn_Printer w) = i) ws) = count_list (map (\<lambda>w. en_ID (wn_Printer w)) ws) i"
    by (induction ws) auto
  moreover have "count_list (map (\<lambda>w. en_ID (wn_Printer w)) ws) i = 1"
    using ok(1) w by (intro distinct_count_list_one) (auto simp: tickets_ok_def)
  ultimately show ?thesis by (simp add: ws_def)
qed

definition demo_ticket_order :: Entity where
  "demo_ticket_order = \<lparr> en_ID = ''o1'', en_Type = ''order'', en_Version = 1,
     en_Payload = JObj [(''items'', JArr [JObj [(''product_id'', JStr ''p1'')]])] \<rparr>"

lemma demo_ticket_items:
  "OrderItems demo_ticket_order = [\<lparr> ov_ID = [], ov_ProductID = ''p1'', ov_ProductName = ''p1'', ov_Quantity = 0, ov_UnitPrice = [],
     ov_LineTotal = [], ov_Note = [] \<rparr>]"
  by (simp add: OrderItems_def demo_ticket_order_def array_field_def raw_field_def order_line_def string_field_def int_field_def
      raw_price_def raw_text_def EqualFold_def HasPrefix_def lower_ascii_def TrimChar_def TrimRightChar_def)

theorem order_line_on_one_ticket_witness:
  "length (filter (\<lambda>w. ''c1'' \<in> set (the (wn_Cats w)))
    (kitchen_wants [] (demo_printer ''p0'') [(''c1'', demo_printer ''k1'', 2)] (id (order_cats [(''p1'', ''c1'')] demo_ticket_order)) 1)) = 1"
proof -
  let ?it = "hd (OrderItems demo_ticket_order)"
  have cat: "lookup_text [(''p1'', ''c1'')] (ov_ProductID ?it) = ''c1''" by (simp add: demo_ticket_items lookup_text_def)
  have "iteration id" by (simp add: iteration_def)
  from order_line_on_one_ticket [of ?it demo_ticket_order "[(''p1'', ''c1'')]" "[]" "[(''c1'', demo_printer ''k1'', 2)]" id "demo_printer ''p0''" 1,
      unfolded cat, OF _ _ _ _ this]
  show ?thesis by (simp add: demo_ticket_items destination_def demo_printer_def)
qed

end
