(* ===== verification/Go_Float.thy ===== *)
theory Go_Float
  imports Complex_Main Go_Strings
begin

text \<open>
  Go's \<open>float64\<close> and the parts of \<open>strconv\<close> the stock book uses: \<open>ParseFloat(s, 64)\<close> and
  \<open>FormatFloat(x, 'f', 2, 64)\<close>. A finite value is its sign and its exact magnitude; every
  arithmetic result goes through \<open>round64\<close>, rounding to the nearest binary64 value, ties to
  even, with gradual underflow and overflow to infinity. No product is fused with a sum,
  which is how the amd64 builds compute. The section at the end bounds the rounding error and
  shows when a computation on hundredths prints exactly.
\<close>

section \<open>Binary64\<close>

datatype float64 = NaN | Infty bool | Fin bool rat

function bit_length :: "int \<Rightarrow> int" where
  "bit_length n = (if n \<le> 0 then 0 else 1 + bit_length (n div 2))"
  by pat_completeness auto
termination
  by (relation "measure nat") auto

declare bit_length.simps [simp del]

text \<open>The exponent of a positive number: \<open>2 powi exponent m \<le> m < 2 powi (exponent m + 1)\<close>.\<close>

definition exponent :: "rat \<Rightarrow> int" where
  "exponent m =
    (let (a, b) = quotient_of m; e = bit_length a - bit_length b
     in if 2 powi e \<le> m then e else e - 1)"

definition round_even :: "rat \<Rightarrow> int" where
  "round_even x =
    (let f = \<lfloor>x\<rfloor>; r = x - of_int f in if r < 1 / 2 \<or> (r = 1 / 2 \<and> even f) then f else f + 1)"

definition ulp_exp :: "rat \<Rightarrow> int" where
  "ulp_exp m = max (exponent m - 52) (- 1074)"

definition round64 :: "bool \<Rightarrow> rat \<Rightarrow> float64" where
  "round64 neg m =
    (if m = 0 then Fin neg 0
     else (let u = 2 powi ulp_exp m; r = of_int (round_even (m / u)) * u
           in if 2 powi 1024 \<le> r then Infty neg else Fin neg r))"

fun sval :: "bool \<Rightarrow> rat \<Rightarrow> rat" where
  "sval neg m = (if neg then - m else m)"

definition of_sval :: "rat \<Rightarrow> float64" where
  "of_sval r = round64 (r < 0) \<bar>r\<bar>"

fun f_neg :: "float64 \<Rightarrow> float64" where
  "f_neg NaN = NaN"
| "f_neg (Infty n) = Infty (\<not> n)"
| "f_neg (Fin n m) = Fin (\<not> n) m"

text \<open>A sum that is zero is \<open>+0\<close> unless both terms are negative zeros.\<close>

fun f_add :: "float64 \<Rightarrow> float64 \<Rightarrow> float64" where
  "f_add (Fin n m) (Fin n' m') =
    (let r = sval n m + sval n' m' in if r = 0 then Fin (n \<and> n') 0 else of_sval r)"
| "f_add (Infty n) (Infty n') = (if n = n' then Infty n else NaN)"
| "f_add (Infty n) (Fin _ _) = Infty n"
| "f_add (Fin _ _) (Infty n) = Infty n"
| "f_add NaN _ = NaN"
| "f_add _ NaN = NaN"

definition f_sub :: "float64 \<Rightarrow> float64 \<Rightarrow> float64" where
  "f_sub a b = f_add a (f_neg b)"

fun f_mul :: "float64 \<Rightarrow> float64 \<Rightarrow> float64" where
  "f_mul (Fin n m) (Fin n' m') = round64 (n \<noteq> n') (m * m')"
| "f_mul (Infty n) (Infty n') = Infty (n \<noteq> n')"
| "f_mul (Infty n) (Fin n' m) = (if m = 0 then NaN else Infty (n \<noteq> n'))"
| "f_mul (Fin n' m) (Infty n) = (if m = 0 then NaN else Infty (n \<noteq> n'))"
| "f_mul NaN _ = NaN"
| "f_mul _ NaN = NaN"

fun f_div :: "float64 \<Rightarrow> float64 \<Rightarrow> float64" where
  "f_div (Fin n m) (Fin n' m') =
    (if m' = 0 then (if m = 0 then NaN else Infty (n \<noteq> n')) else round64 (n \<noteq> n') (m / m'))"
| "f_div (Infty n) (Infty n') = NaN"
| "f_div (Infty n) (Fin n' m) = Infty (n \<noteq> n')"
| "f_div (Fin n' m) (Infty n) = Fin (n \<noteq> n') 0"
| "f_div NaN _ = NaN"
| "f_div _ NaN = NaN"

fun f_less :: "float64 \<Rightarrow> float64 \<Rightarrow> bool" where
  "f_less (Fin n m) (Fin n' m') \<longleftrightarrow> sval n m < sval n' m'"
| "f_less (Infty n) (Infty n') \<longleftrightarrow> n \<and> \<not> n'"
| "f_less (Infty n) (Fin _ _) \<longleftrightarrow> n"
| "f_less (Fin _ _) (Infty n) \<longleftrightarrow> \<not> n"
| "f_less NaN _ \<longleftrightarrow> False"
| "f_less _ NaN \<longleftrightarrow> False"

fun f_eq :: "float64 \<Rightarrow> float64 \<Rightarrow> bool" where
  "f_eq (Fin n m) (Fin n' m') \<longleftrightarrow> sval n m = sval n' m'"
| "f_eq (Infty n) (Infty n') \<longleftrightarrow> n = n'"
| "f_eq _ _ \<longleftrightarrow> False"

definition f_le :: "float64 \<Rightarrow> float64 \<Rightarrow> bool" where
  "f_le a b \<longleftrightarrow> f_less a b \<or> f_eq a b"

definition f_zero :: float64 where
  "f_zero = Fin False 0"

text \<open>\<open>float64(n)\<close> of an integer.\<close>

definition f_of_int :: "int \<Rightarrow> float64" where
  "f_of_int i = of_sval (of_int i)"

section \<open>Reading: \<open>strconv.ParseFloat\<close>\<close>

text \<open>
  \<open>readFloat\<close>: an optional sign, decimal or (after \<open>0x\<close>) hexadecimal digits with at most one
  point, an exponent (\<open>e\<close>, or the mandatory \<open>p\<close> of a hexadecimal number), and underscores
  between digits. Exponent digits beyond 10000 are dropped.
\<close>

definition hex_digit :: "char \<Rightarrow> bool" where
  "hex_digit c \<longleftrightarrow> is_digit c \<or> (97 \<le> code (lower_ascii c) \<and> code (lower_ascii c) \<le> 102)"

definition hex_value :: "char \<Rightarrow> nat" where
  "hex_value c = (if is_digit c then code c - 48 else code (lower_ascii c) - 87)"

fun underscores :: "bool \<Rightarrow> char \<Rightarrow> string \<Rightarrow> bool" where
  "underscores hex saw [] \<longleftrightarrow> saw \<noteq> CHR ''_''"
| "underscores hex saw (c # s) \<longleftrightarrow>
    (if is_digit c \<or> (hex \<and> hex_digit c) then underscores hex CHR ''0'' s
     else if c = CHR ''_'' then saw = CHR ''0'' \<and> underscores hex CHR ''_'' s
     else saw \<noteq> CHR ''_'' \<and> underscores hex CHR ''!'' s)"

definition base_prefix :: "string \<Rightarrow> bool" where
  "base_prefix s \<longleftrightarrow> length s > 2 \<and> s ! 0 = CHR ''0'' \<and> lower_ascii (s ! 1) = CHR ''x''"

definition underscoreOK :: "string \<Rightarrow> bool" where
  "underscoreOK s \<longleftrightarrow>
    (if length s \<ge> 2 \<and> s ! 0 = CHR ''0'' \<and> lower_ascii (s ! 1) \<in> {CHR ''b'', CHR ''o'', CHR ''x''}
     then underscores (lower_ascii (s ! 1) = CHR ''x'') CHR ''0'' (drop 2 s)
     else underscores False CHR ''^'' s)"

definition exp_digits :: "string \<Rightarrow> nat" where
  "exp_digits s = fold (\<lambda>c e. if c \<noteq> CHR ''_'' \<and> e < 10000 then e * 10 + hex_value c else e) s 0"

text \<open>The exponent after its letter, which must reach the end of the text.\<close>

definition exp_part :: "string \<Rightarrow> int option" where
  "exp_part t =
    (let (neg, d) = (case t of c # d \<Rightarrow> if c = CHR ''-'' then (True, d) else if c = CHR ''+'' then (False, d) else (False, t)
                             | [] \<Rightarrow> (False, []))
     in if d = [] \<or> \<not> is_digit (hd d) \<or> \<not> list_all (\<lambda>c. is_digit c \<or> c = CHR ''_'') d then None
        else Some (if neg then - int (exp_digits d) else int (exp_digits d)))"

definition digit_sum :: "int \<Rightarrow> string \<Rightarrow> int" where
  "digit_sum base s = fold (\<lambda>c n. base * n + int (hex_value c)) s 0"

text \<open>
  The parts of an unsigned number: whether it is hexadecimal, its digits before and after the
  point, and the rest of the text. Then its exact value.
\<close>

definition scan_parts :: "string \<Rightarrow> bool \<times> string \<times> string \<times> string" where
  "scan_parts s =
    (let hex = base_prefix s; t = (if hex then drop 2 s else s);
         dig = (\<lambda>c. c = CHR ''_'' \<or> (if hex then hex_digit c else is_digit c));
         i = takeWhile dig t; r = dropWhile dig t;
         dot = (r \<noteq> [] \<and> hd r = CHR ''.'');
         f = (if dot then takeWhile dig (tl r) else []);
         e = (if dot then dropWhile dig (tl r) else r);
         plain = filter (\<lambda>c. c \<noteq> CHR ''_'')
     in (hex, plain i, plain f, e))"

definition mantissa :: "bool \<Rightarrow> string \<Rightarrow> string \<Rightarrow> rat" where
  "mantissa hex i f =
    (let base = (if hex then 16 else 10) in of_int (digit_sum base (i @ f)) / of_int base ^ length f)"

definition scan_number :: "string \<Rightarrow> rat option" where
  "scan_number s =
    (let (hex, i, f, e) = scan_parts s
     in if i @ f = [] then None
        else if CHR ''_'' \<in> set s \<and> \<not> underscoreOK s then None
        else if e = [] then (if hex then None else Some (mantissa hex i f))
        else if lower_ascii (hd e) = (if hex then CHR ''p'' else CHR ''e'')
        then map_option (\<lambda>x. mantissa hex i f * (if hex then 2 else 10) powi x) (exp_part (tl e))
        else None)"

definition cut_sign :: "string \<Rightarrow> bool \<times> string" where
  "cut_sign s =
    (case s of [] \<Rightarrow> (False, [])
     | c # t \<Rightarrow> if c = CHR ''-'' then (True, t) else if c = CHR ''+'' then (False, t) else (False, s))"

text \<open>The value and whether the error is nil: a range error still returns an infinity.\<close>

definition ParseFloat :: "string \<Rightarrow> float64 \<times> bool" where
  "ParseFloat s =
    (let (neg, t) = cut_sign s
     in if map lower_ascii t \<in> {''inf'', ''infinity''} then (Infty neg, True)
        else if map lower_ascii s = ''nan'' then (NaN, True)
        else (case scan_number t of
                None \<Rightarrow> (f_zero, False)
              | Some m \<Rightarrow> (case round64 neg m of Fin n r \<Rightarrow> (Fin n r, True) | x \<Rightarrow> (x, False))))"

section \<open>Printing: \<open>strconv.FormatFloat(x, 'f', 2, 64)\<close>\<close>

definition cents_text :: "nat \<Rightarrow> string" where
  "cents_text n = nat_text (n div 100) @ CHR ''.'' # [digit_char (n div 10 mod 10), digit_char (n mod 10)]"

fun FormatFloat2 :: "float64 \<Rightarrow> string" where
  "FormatFloat2 NaN = ''NaN''"
| "FormatFloat2 (Infty n) = (if n then ''-Inf'' else ''+Inf'')"
| "FormatFloat2 (Fin n m) = (if n then ''-'' else []) @ cents_text (nat (round_even (m * 100)))"

section \<open>Rounding errors\<close>

lemma bit_length_nonneg: "0 \<le> bit_length a"
  by (induction a rule: bit_length.induct) (simp add: bit_length.simps)

lemma bit_length_bounds: "0 < a \<Longrightarrow> 2 powi (bit_length a - 1) \<le> (of_int a :: rat) \<and> (of_int a :: rat) < 2 powi bit_length a"
proof (induction a rule: bit_length.induct)
  case (1 n)
  show ?case
  proof (cases "n = 1")
    case True
    then show ?thesis by (simp add: bit_length.simps)
  next
    case False
    let ?l = "bit_length (n div 2)"
    have l: "bit_length n = 1 + ?l" using 1(2) by (simp add: bit_length.simps [of n])
    have IH: "2 powi (?l - 1) \<le> (of_int (n div 2) :: rat)" "(of_int (n div 2) :: rat) < 2 powi ?l"
      using 1 False by auto
    have "2 * (n div 2) \<le> n \<and> n < 2 * (n div 2) + 2" by linarith
    then have n: "2 * of_int (n div 2) \<le> (of_int n :: rat)" "(of_int n :: rat) \<le> 2 * of_int (n div 2) + 1"
      by linarith+
    have p: "(2 :: rat) powi ?l = 2 * 2 powi (?l - 1)" "(2 :: rat) powi (1 + ?l) = 2 * 2 powi ?l"
      by (simp_all add: power_int_diff power_int_add)
    have "0 \<le> ?l" by (rule bit_length_nonneg)
    then obtain k where k: "?l = int k" using zero_le_imp_eq_int by blast
    have "n div 2 + 1 \<le> 2 ^ k" using IH(2) unfolding k
      by (metis of_int_less_iff of_int_numeral of_int_power power_int_of_nat zless_imp_add1_zle)
    then have "of_int (n div 2) + 1 \<le> (2 :: rat) powi ?l" unfolding k
      by (metis of_int_1 of_int_add of_int_le_iff of_int_numeral of_int_power power_int_of_nat)
    then have "(of_int n :: rat) < 2 powi (1 + ?l)" using n(2) p(2) by linarith
    moreover have "2 powi ?l \<le> (of_int n :: rat)" using n(1) IH(1) p(1) by linarith
    ultimately show ?thesis unfolding l by simp
  qed
qed

lemma exponent_bounds:
  assumes "0 < m"
  shows "2 powi exponent m \<le> m \<and> m < 2 powi (exponent m + 1)"
proof -
  obtain a b where q: "quotient_of m = (a, b)" by force
  have b: "0 < b" and m: "m = of_int a / of_int b" using quotient_of_denom_pos [OF q] quotient_of_div [OF q] by auto
  then have a: "0 < a" using assms by (simp add: zero_less_divide_iff)
  let ?e = "bit_length a - bit_length b"
  note A = bit_length_bounds [OF a] and B = bit_length_bounds [OF b]
  have pos: "0 < (of_int b :: rat)" "0 < (2 :: rat) powi (bit_length b - 1)" using b by simp_all
  have "m < 2 powi bit_length a / 2 powi (bit_length b - 1)"
    unfolding m using A B pos a by (intro frac_less) auto
  also have "\<dots> = 2 powi (?e + 1)" by (simp add: power_int_diff power_int_add)
  finally have up: "m < 2 powi (?e + 1)" .
  have "2 powi (bit_length a - 1) / 2 powi bit_length b \<le> m"
    unfolding m using A B pos a b by (intro frac_le) auto
  moreover have "(2 :: rat) powi (bit_length a - 1) / 2 powi bit_length b = 2 powi (?e - 1)"
    by (simp add: power_int_diff)
  ultimately have low: "2 powi (?e - 1) \<le> m" by simp
  have e: "exponent m = (if 2 powi ?e \<le> m then ?e else ?e - 1)" by (simp add: exponent_def q)
  show ?thesis using up low unfolding e by simp
qed

lemma round_even_error: "\<bar>of_int (round_even x) - x\<bar> \<le> 1 / 2"
proof -
  define f where "f = \<lfloor>x\<rfloor>"
  have "of_int f \<le> x" "x < of_int f + 1" using floor_correct [of x] unfolding f_def by auto
  then show ?thesis unfolding round_even_def Let_def f_def [symmetric] by (auto simp: abs_if)
qed

lemma round_even_near: "\<bar>x - of_int k\<bar> < 1 / 2 \<Longrightarrow> round_even x = k"
proof -
  assume "\<bar>x - of_int k\<bar> < 1 / 2"
  then have "\<bar>of_int (round_even x) - (of_int k :: rat)\<bar> < 1" using round_even_error [of x] by linarith
  then show "round_even x = k" by linarith
qed

lemma round_even_nonneg: "0 \<le> x \<Longrightarrow> 0 \<le> round_even x"
  by (simp add: round_even_def Let_def)

text \<open>Rounding changes a value below \<open>2 ^ 60\<close> by at most one part in \<open>2 ^ 53\<close>, or by a trifle near zero.\<close>

lemma powi_big: "(2 :: rat) ^ 61 \<le> 2 powi 1024"
  using power_int_increasing [of 61 1024 "2 :: rat"] by (simp only: power_int_numeral)

lemma powi_tiny: "(2 :: rat) powi (- 1074) \<le> 1 / 2 ^ 60"
proof -
  have "(2 :: rat) powi (- 1074) \<le> 2 powi (- 60)" by (rule power_int_increasing) simp_all
  also have "(2 :: rat) powi (- 60) = 1 / 2 ^ 60" by (simp only: power_int_minus power_int_numeral divide_inverse mult_1_left)
  finally show ?thesis .
qed

lemma ulp_bound:
  assumes "0 < m"
  shows "2 powi ulp_exp m \<le> m / 2 ^ 52 + 1 / 2 ^ 60"
proof -
  have "(2 :: rat) powi (exponent m - 52) = 2 powi exponent m / 2 powi 52" by (simp add: power_int_diff)
  also have "\<dots> \<le> m / 2 ^ 52" using exponent_bounds [OF assms] by (simp add: divide_right_mono)
  finally have "(2 :: rat) powi (exponent m - 52) \<le> m / 2 ^ 52" .
  moreover have "0 \<le> m / 2 ^ 52" "(0 :: rat) \<le> 1 / 2 ^ 60" using assms by simp_all
  ultimately show ?thesis using powi_tiny unfolding ulp_exp_def max_def by (auto simp del: power_int_minus)
qed

lemma round64_error:
  assumes "0 \<le> m" "m < 2 ^ 60"
  obtains r where "round64 neg m = Fin neg r" "0 \<le> r" "\<bar>r - m\<bar> \<le> m / 2 ^ 53 + 1 / 2 ^ 60" "m = 0 \<Longrightarrow> r = 0"
proof (cases "m = 0")
  case True
  then show ?thesis using that [of 0] by (simp add: round64_def)
next
  case False
  define u where "u = (2 :: rat) powi ulp_exp m"
  define r where "r = of_int (round_even (m / u)) * u"
  have m: "0 < m" using False assms by simp
  have u: "0 < u" by (simp add: u_def)
  have "\<bar>r - m\<bar> = \<bar>of_int (round_even (m / u)) - m / u\<bar> * u"
    using u by (simp add: r_def abs_if field_simps)
  also have "\<dots> \<le> 1 / 2 * u" using round_even_error u by (intro mult_right_mono) auto
  finally have err: "\<bar>r - m\<bar> \<le> m / 2 ^ 53 + 1 / 2 ^ 60" using ulp_bound [OF m] unfolding u_def by simp
  have "r < 2 ^ 61" using err assms(2) by (simp add: abs_if split: if_splits)
  then have "\<not> 2 powi 1024 \<le> r" using powi_big by linarith
  moreover have "0 \<le> r" using u m by (simp add: r_def round_even_nonneg)
  ultimately show ?thesis using that [of r] err False unfolding round64_def Let_def u_def r_def by simp
qed

section \<open>Hundredths\<close>

text \<open>
  A float within \<open>d\<close> of a number. The rules follow one sum, difference or product; a value
  within half a hundredth of \<open>k / 100\<close> prints as \<open>k\<close> hundredths.
\<close>

definition near :: "rat \<Rightarrow> rat \<Rightarrow> float64 \<Rightarrow> bool" where
  "near d v x \<longleftrightarrow> (\<exists>n m. x = Fin n m \<and> 0 \<le> m \<and> \<bar>sval n m - v\<bar> \<le> d)"

definition fits :: "rat \<Rightarrow> bool" where
  "fits v \<longleftrightarrow> \<bar>v\<bar> \<le> 1000000000000"

text \<open>One rounding of a value that fits, or nearly does.\<close>

definition eps :: rat where
  "eps = 1 / 2000"

lemma signed_cases [simp]: "sval n m = (if n then - m else m)"
  by simp

lemma round64_near:
  assumes "0 \<le> m" "m \<le> 3000000000000"
  shows "near eps (sval n m) (round64 n m)"
proof -
  obtain r where r: "round64 n m = Fin n r" "0 \<le> r" "\<bar>r - m\<bar> \<le> m / 2 ^ 53 + 1 / 2 ^ 60"
    using round64_error [of m n] assms by auto
  moreover have "m / 2 ^ 53 + 1 / 2 ^ 60 \<le> eps" using assms(2) by (simp add: eps_def)
  ultimately show ?thesis unfolding near_def by auto
qed

lemma of_sval_near: "\<bar>v\<bar> \<le> 3000000000000 \<Longrightarrow> near eps v (of_sval v)"
  using round64_near [of "\<bar>v\<bar>" "v < 0"] by (auto simp: of_sval_def abs_if split: if_splits)

lemma near_neg: "near d v x \<Longrightarrow> near d (- v) (f_neg x)"
proof -
  assume "near d v x"
  then obtain n m where x: "x = Fin n m" "0 \<le> m" and d: "\<bar>sval n m - v\<bar> \<le> d" unfolding near_def by blast
  have "sval (\<not> n) m = - sval n m" by simp
  then have "\<bar>sval (\<not> n) m - - v\<bar> \<le> d" using d by linarith
  then show "near d (- v) (f_neg x)" using x unfolding near_def by (metis f_neg.simps(3))
qed

lemma near_mono: "near d v x \<Longrightarrow> d \<le> d' \<Longrightarrow> near d' v x"
  unfolding near_def by fastforce

lemma near_add:
  assumes "near d v x" "near d' v' y" "fits v" "fits v'" "d + d' \<le> 1"
  shows "near (d + d' + eps) (v + v') (f_add x y)"
proof -
  obtain n m n' m' where x: "x = Fin n m" "\<bar>sval n m - v\<bar> \<le> d" and y: "y = Fin n' m'" "\<bar>sval n' m' - v'\<bar> \<le> d'"
    using assms(1,2) unfolding near_def by blast
  define r where "r = sval n m + sval n' m'"
  have e: "0 \<le> eps" by (simp add: eps_def)
  have nr: "\<bar>r - (v + v')\<bar> \<le> d + d'" using x(2) y(2) unfolding r_def by linarith
  show ?thesis
  proof (cases "r = 0")
    case True
    then have "f_add x y = Fin (n \<and> n') 0" by (simp add: x y r_def Let_def)
    then show ?thesis using nr e True unfolding near_def by auto
  next
    case False
    then have s: "f_add x y = of_sval r" by (simp add: x y r_def Let_def)
    have "\<bar>r\<bar> \<le> 3000000000000" using nr assms(3-5) unfolding fits_def by linarith
    then show ?thesis using nr of_sval_near [of r] unfolding s near_def by fastforce
  qed
qed

text \<open>The rounding of one number, with the error relative to it; then of a product of two.\<close>

definition close :: "rat \<Rightarrow> float64 \<Rightarrow> bool" where
  "close v x \<longleftrightarrow> (\<exists>n m. x = Fin n m \<and> 0 \<le> m \<and> \<bar>sval n m - v\<bar> \<le> \<bar>v\<bar> / 2 ^ 53 + 1 / 2 ^ 60)"

lemma round64_close:
  assumes "0 \<le> m" "m \<le> 3000000000000"
  shows "close (sval n m) (round64 n m)"
proof -
  obtain r where "round64 n m = Fin n r" "0 \<le> r" "\<bar>r - m\<bar> \<le> m / 2 ^ 53 + 1 / 2 ^ 60"
    using round64_error [of m n] assms by auto
  then show ?thesis using assms(1) unfolding close_def by (auto simp: abs_minus_commute)
qed

lemma of_sval_close: "fits v \<Longrightarrow> close v (of_sval v)"
  using round64_close [of "\<bar>v\<bar>" "v < 0"] by (auto simp: of_sval_def fits_def abs_if split: if_splits)

lemma close_near: "close v x \<Longrightarrow> fits v \<Longrightarrow> near eps v x"
  unfolding close_def near_def fits_def eps_def by fastforce

lemma product_error:
  assumes "\<bar>a - v\<bar> \<le> \<bar>v\<bar> / 2 ^ 53 + 1 / 2 ^ 60" "\<bar>b - w\<bar> \<le> \<bar>w\<bar> / 2 ^ 53 + 1 / 2 ^ 60"
    and "fits v" "fits w" "fits (v * w)"
  shows "\<bar>a * b - v * w\<bar> \<le> eps"
proof -
  define c t where ct: "c = (1 :: rat) / 2 ^ 53" "t = (1 :: rat) / 2 ^ 60"
  have a: "\<bar>a - v\<bar> \<le> \<bar>v\<bar> * c + t" and b: "\<bar>b - w\<bar> \<le> \<bar>w\<bar> * c + t" using assms(1,2) by (simp_all add: ct)
  have pos: "0 \<le> c" "0 \<le> t" by (simp_all add: ct)
  have "a * b - v * w = v * (b - w) + w * (a - v) + (a - v) * (b - w)" by (simp add: algebra_simps)
  then have "\<bar>a * b - v * w\<bar> \<le> \<bar>v\<bar> * \<bar>b - w\<bar> + \<bar>w\<bar> * \<bar>a - v\<bar> + \<bar>a - v\<bar> * \<bar>b - w\<bar>"
    using abs_triangle_ineq [of "v * (b - w) + w * (a - v)" "(a - v) * (b - w)"]
      abs_triangle_ineq [of "v * (b - w)" "w * (a - v)"] by (simp add: abs_mult)
  also have "\<dots> \<le> \<bar>v\<bar> * (\<bar>w\<bar> * c + t) + \<bar>w\<bar> * (\<bar>v\<bar> * c + t) + (\<bar>v\<bar> * c + t) * (\<bar>w\<bar> * c + t)"
    using a b pos by (intro add_mono mult_left_mono mult_mono) auto
  also have "\<dots> = \<bar>v * w\<bar> * (2 * c + c * c) + (\<bar>v\<bar> + \<bar>w\<bar>) * (t + c * t) + t * t"
    by (simp add: algebra_simps abs_mult)
  also have "\<dots> \<le> 1000000000000 * (2 * c + c * c) + (1000000000000 + 1000000000000) * (t + c * t) + t * t"
    using assms(3-5) pos unfolding fits_def by (intro add_mono mult_right_mono) auto
  also have "\<dots> \<le> eps" by (simp add: eps_def ct)
  finally show ?thesis .
qed

lemma close_mul:
  assumes "close v x" "close w y" "fits v" "fits w" "fits (v * w)"
  shows "near (2 * eps) (v * w) (f_mul x y)"
proof -
  obtain n m n' m' where x: "x = Fin n m" "0 \<le> m" "\<bar>sval n m - v\<bar> \<le> \<bar>v\<bar> / 2 ^ 53 + 1 / 2 ^ 60"
    and y: "y = Fin n' m'" "0 \<le> m'" "\<bar>sval n' m' - w\<bar> \<le> \<bar>w\<bar> / 2 ^ 53 + 1 / 2 ^ 60"
    using assms(1,2) unfolding close_def by blast
  have s: "sval (n \<noteq> n') (m * m') = sval n m * sval n' m'" by simp
  have e: "\<bar>sval (n \<noteq> n') (m * m') - v * w\<bar> \<le> eps"
    unfolding s by (rule product_error [OF x(3) y(3) assms(3-5)])
  have "m * m' = \<bar>sval (n \<noteq> n') (m * m')\<bar>" using x(2) y(2) by simp
  also have "\<dots> \<le> 3000000000000" using e assms(5) unfolding fits_def eps_def by linarith
  finally have "near eps (sval (n \<noteq> n') (m * m')) (f_mul x y)"
    using round64_near [of "m * m'" "n \<noteq> n'"] x y by simp
  then show ?thesis using e unfolding near_def by fastforce
qed

section \<open>The text of hundredths\<close>

definition cents :: "int \<Rightarrow> string" where
  "cents k = (if k < 0 then ''-'' else []) @ cents_text (nat \<bar>k\<bar>)"

text \<open>The two texts of zero, \<open>0.00\<close> and \<open>-0.00\<close>, both show no hundredths.\<close>

definition shows_cents :: "int \<Rightarrow> string \<Rightarrow> bool" where
  "shows_cents k s \<longleftrightarrow> s = cents k \<or> (k = 0 \<and> s = ''-'' @ cents 0)"

lemma FormatFloat2_near:
  assumes "near d (of_int k / 100) x" "d < 1 / 200"
  shows "shows_cents k (FormatFloat2 x)"
proof -
  obtain n m where x: "x = Fin n m" "0 \<le> m" and d: "\<bar>sval n m - of_int k / 100\<bar> \<le> d"
    using assms(1) unfolding near_def by blast
  have lt: "\<bar>sval n m * 100 - of_int k\<bar> < 1 / 2" using d assms(2) by (simp add: abs_if split: if_splits)
  have k: "k = (if n then - round_even (m * 100) else round_even (m * 100))"
    using round_even_near [of "m * 100" "if n then - k else k"] lt by (auto simp: abs_if split: if_splits)
  have "0 \<le> round_even (m * 100)" using x(2) by (simp add: round_even_nonneg)
  then show ?thesis unfolding x shows_cents_def cents_def using k by (cases n) auto
qed

lemma digit_sum_append: "digit_sum base (s @ t) = fold (\<lambda>c n. base * n + int (hex_value c)) t (digit_sum base s)"
  by (simp add: digit_sum_def)

lemma digit_char_facts [simp]:
  "d < 10 \<Longrightarrow> is_digit (digit_char d)" "d < 10 \<Longrightarrow> hex_value (digit_char d) = d"
  by (simp_all add: is_digit_def hex_value_def)

lemma digit_sum_nat_text: "digit_sum 10 (nat_text n) = int n"
proof (induction n rule: nat_text.induct)
  case (1 n)
  show ?case
  proof (cases "n < 10")
    case True
    then show ?thesis by (simp add: nat_text.simps digit_sum_def)
  next
    case False
    then have "digit_sum 10 (nat_text n) = 10 * int (n div 10) + int (n mod 10)"
      by (subst nat_text.simps) (simp add: digit_sum_append 1)
    then show ?thesis by presburger
  qed
qed

lemma digit_sum_cents: "digit_sum 10 (nat_text (n div 100) @ [digit_char (n div 10 mod 10), digit_char (n mod 10)]) = int n"
proof -
  have H: "10 * (10 * (n div 100) + n div 10 mod 10) + n mod 10 = n"
    using div_mult_mod_eq [of n 10] div_mult_mod_eq [of "n div 10" 10] div_mult2_eq [of n 10 10] by simp
  have "10 * (10 * int (n div 100) + int (n div 10 mod 10)) + int (n mod 10) = int n"
    using arg_cong [OF H, of int] by (simp only: of_nat_add of_nat_mult of_nat_numeral)
  then show ?thesis by (simp add: digit_sum_append digit_sum_nat_text)
qed

lemma digit_not_x: "is_digit c \<Longrightarrow> lower_ascii c = c \<and> c \<noteq> CHR ''x'' \<and> c \<noteq> CHR ''_''"
  by (auto simp: is_digit_def lower_ascii_def)

lemma cents_text_chars: "\<forall>c \<in> set (cents_text n). is_digit c \<or> c = CHR ''.''"
  using nat_text_digits [of "n div 100"] by (auto simp: cents_text_def)

lemma scan_cents_text: "scan_number (cents_text n) = Some (of_nat n / 100)"
proof -
  let ?i = "nat_text (n div 100)" and ?f = "[digit_char (n div 10 mod 10), digit_char (n mod 10)]"
  have chars: "c \<in> set (cents_text n) \<Longrightarrow> lower_ascii c \<noteq> CHR ''x'' \<and> c \<noteq> CHR ''_''" for c
    using cents_text_chars [of n] digit_not_x by (fastforce simp: lower_ascii_def)
  have len: "2 < length (cents_text n)" by (simp add: cents_text_def)
  then have "\<not> base_prefix (cents_text n)" unfolding base_prefix_def using chars nth_mem [of 1 "cents_text n"] by force
  moreover have i: "\<forall>c \<in> set ?i. is_digit c" by (rule nat_text_digits)
  moreover have "takeWhile (\<lambda>c. c = CHR ''_'' \<or> is_digit c) (cents_text n) = ?i"
    "dropWhile (\<lambda>c. c = CHR ''_'' \<or> is_digit c) (cents_text n) = CHR ''.'' # ?f"
    using i by (simp_all add: cents_text_def takeWhile_append dropWhile_append)
  moreover have "filter (\<lambda>c. c \<noteq> CHR ''_'') ?i = ?i" using i digit_not_x by (intro filter_True) blast
  moreover have "digit_char (n div 10 mod 10) \<noteq> CHR ''_''" "digit_char (n mod 10) \<noteq> CHR ''_''"
    using digit_not_x digit_char_facts(1) by (meson mod_less_divisor zero_less_numeral)+
  moreover have "CHR ''_'' \<notin> set (cents_text n)" using chars by blast
  ultimately have "scan_parts (cents_text n) = (False, ?i, ?f, [])" "CHR ''_'' \<notin> set (cents_text n)"
    by (simp_all add: scan_parts_def Let_def del: dropWhile_eq_Nil_conv)
  then show ?thesis using digit_sum_cents [of n] by (simp add: scan_number_def mantissa_def)
qed

text \<open>The exact value of a text that is a number, and what \<open>ParseFloat\<close> makes of it.\<close>

definition amount :: "string \<Rightarrow> rat option" where
  "amount s =
    (let (neg, t) = cut_sign s
     in if map lower_ascii t \<in> {''inf'', ''infinity''} \<or> map lower_ascii s = ''nan'' then None
        else map_option (sval neg) (scan_number t))"

lemma digit_sum_nonneg: "0 \<le> base \<Longrightarrow> 0 \<le> digit_sum base ds"
  by (induction ds rule: rev_induct) (simp_all add: digit_sum_append, simp add: digit_sum_def)

lemma mantissa_nonneg: "0 \<le> mantissa hex i f"
  using digit_sum_nonneg [of "if hex then 16 else 10" "i @ f"] by (auto simp: mantissa_def Let_def)

lemma scan_number_nonneg: "scan_number t = Some m \<Longrightarrow> 0 \<le> m"
proof -
  obtain hex i f e where p: "scan_parts t = (hex, i, f, e)" by (metis prod.exhaust)
  show "scan_number t = Some m \<Longrightarrow> 0 \<le> m"
    using mantissa_nonneg [of hex i f] by (auto simp: scan_number_def p split: if_splits)
qed

lemma ParseFloat_amount:
  assumes "amount s = Some v" "fits v"
  obtains x where "ParseFloat s = (x, True)" "close v x"
proof -
  obtain neg t where c: "cut_sign s = (neg, t)" by force
  with assms(1) obtain m where m: "scan_number t = Some m" "v = sval neg m"
    and ns: "map lower_ascii t \<notin> {''inf'', ''infinity''}" "map lower_ascii s \<noteq> ''nan''"
    by (auto simp: amount_def split: if_splits)
  have "0 \<le> m" using scan_number_nonneg [OF m(1)] .
  moreover from this have "m \<le> 3000000000000" using assms(2) m(2) by (auto simp: fits_def split: if_splits)
  ultimately have cl: "close v (round64 neg m)" using round64_close m(2) by simp
  then obtain n r where r: "round64 neg m = Fin n r" unfolding close_def by blast
  have "ParseFloat s = (Fin n r, True)" using ns by (simp add: ParseFloat_def c m(1) r)
  then show ?thesis using that cl r by simp
qed

lemma cents_text_hd: "is_digit (hd (cents_text n))"
  using hd_nat_text [of "n div 100"] by (simp add: cents_text_def)

lemma not_special: "is_digit (hd t) \<Longrightarrow> t \<noteq> [] \<Longrightarrow> map lower_ascii t \<notin> {''inf'', ''infinity'', ''nan''}"
  by (cases t) (auto simp: digit_not_x is_digit_def)

lemma shows_cents_amount: "shows_cents k s \<Longrightarrow> amount s = Some (of_int k / 100)"
proof -
  have ne: "cents_text n \<noteq> []" for n by (simp add: cents_text_def)
  have neg: "amount (''-'' @ cents_text n) = Some (- (of_nat n / 100))" for n
    using not_special [OF cents_text_hd ne] by (simp add: amount_def cut_sign_def scan_cents_text lower_ascii_def)
  have pos: "amount (cents_text n) = Some (of_nat n / 100)" for n
  proof -
    have "cut_sign (cents_text n) = (False, cents_text n)"
      using cents_text_hd [of n] ne [of n] by (cases "cents_text n") (auto simp: cut_sign_def)
    then show ?thesis using not_special [OF cents_text_hd ne] by (simp add: amount_def scan_cents_text)
  qed
  show "shows_cents k s \<Longrightarrow> amount s = Some (of_int k / 100)"
    using neg [of "nat \<bar>k\<bar>"] pos [of "nat \<bar>k\<bar>"] neg [of 0] by (auto simp: shows_cents_def cents_def)
qed

lemma cents_trim: "shows_cents k s \<Longrightarrow> TrimSpace s = s"
  using cents_text_hd is_digit_graph by (intro TrimSpace_graph) (auto simp: shows_cents_def cents_def cents_text_def graph_def)

end
