(* ===== verification/Inventory.thy ===== *)
theory Inventory
  imports Orders Json_Structs Go_Float
begin

text \<open>
  \<open>internal/store/domains.go\<close>, the stock book: recipes (bills of materials), the change of an
  order's state with the deduction of its recipes, stock movements with their running average
  cost, waste, and its cancellation. A range over the map of entities visits them in the
  order of the list; what it adds on the way is never a recipe, so the loops see the recipes of
  the state they started from.
\<close>

section \<open>Recipes\<close>

record RecipeLineView =
  rl_IngredientID :: string
  rl_IngredientName :: string
  rl_Quantity :: string
  rl_Unit :: string

definition recipe_line :: "json \<Rightarrow> RecipeLineView option" where
  "recipe_line j =
    (case struct_members j of
       None \<Rightarrow> None
     | Some kvs \<Rightarrow>
        (case (string_field ''ingredient_id'' kvs, string_field ''ingredient_name'' kvs,
               string_field ''quantity'' kvs, string_field ''unit'' kvs) of
           (Some i, Some n, Some q, Some u) \<Rightarrow>
             Some \<lparr> rl_IngredientID = i, rl_IngredientName = n, rl_Quantity = q, rl_Unit = u \<rparr>
         | _ \<Rightarrow> None))"

definition RecipeLines :: "Entity \<Rightarrow> RecipeLineView list" where
  "RecipeLines e =
    (case array_field ''items'' (en_Payload e) of
       None \<Rightarrow> []
     | Some js \<Rightarrow> (case those (map recipe_line js) of None \<Rightarrow> [] | Some ls \<Rightarrow> ls))"

section \<open>Stock\<close>

text \<open>The next draw of random bytes; a list that has run out stands for a failing source.\<close>

type_synonym draws = "8 word list option list"

definition draw :: "draws \<Rightarrow> 8 word list option" where
  "draw rs = (case rs of [] \<Rightarrow> None | r # _ \<Rightarrow> r)"

definition fa_deduction :: string where "fa_deduction = (fa [0x6A9, 0x633, 0x631, 0x20, 0x62E, 0x648, 0x62F, 0x6A9, 0x627, 0x631, 0x20, 0x631, 0x633, 0x67E, 0x6CC, 0x20, 0x633, 0x641, 0x627, 0x631, 0x634, 0x20])"

definition consumption_fields ::
    "string \<Rightarrow> string \<Rightarrow> string \<Rightarrow> string \<Rightarrow> string \<Rightarrow> float64 \<Rightarrow> float64 \<Rightarrow> Entity \<Rightarrow> fields" where
  "consumption_fields now orderID number movID ingID deduct newStock ingView =
    [(''id'', JStr movID), (''title'', JStr (Label ingView)), (''ingredient_id'', JStr ingID),
     (''ingredient_name'', JStr (Label ingView)), (''unit'', JStr (Field ingView ''base_unit'')),
     (''transaction_type'', JStr ''consumption''), (''quantity'', JStr (FormatFloat2 (f_neg deduct))),
     (''stock_after'', JStr (FormatFloat2 newStock)), (''description'', JStr (fa_deduction @ number)),
     (''order_id'', JStr orderID), (''created_at'', JStr now), (''version'', int_json 1)]"

text \<open>One line of a recipe: the stock goes down and a movement documents it.\<close>

definition deduct_line ::
    "string \<Rightarrow> string \<Rightarrow> string \<Rightarrow> int \<Rightarrow> RecipeLineView \<Rightarrow> draws \<times> persistedDB \<Rightarrow> draws \<times> persistedDB" where
  "deduct_line now orderID number q rl = (\<lambda>(rs, db).
    (case live db ''ingredient'' (rl_IngredientID rl) of
       None \<Rightarrow> (rs, db)
     | Some ing \<Rightarrow>
        (case as_map (se_Payload ing) of
           None \<Rightarrow> (rs, db)
         | Some im \<Rightarrow>
            (let curStock = fst (ParseFloat (sprint (mget im ''current_stock'')));
                 perUnit = fst (ParseFloat (rl_Quantity rl));
                 deduct = f_mul perUnit (f_of_int q);
                 newStock = f_sub curStock deduct;
                 ing' = bump (marshal (AList.update ''current_stock'' (JStr (FormatFloat2 newStock)) im)) ing;
                 db1 = putEntity (entityKey ''ingredient'' (rl_IngredientID rl)) ing' db
             in (drop 1 rs,
                 case UUID (draw rs) of
                   Inl _ \<Rightarrow> db1
                 | Inr movID \<Rightarrow>
                    if f_eq deduct f_zero then db1
                    else putEntity (entityKey ''inventory_movement'' movID)
                           (new_record ''inventory_movement'' movID
                             (consumption_fields now orderID number movID (rl_IngredientID rl) deduct newStock
                               (entity_view ing'))) db1)))))"

definition deduct_recipe ::
    "string \<Rightarrow> string \<Rightarrow> string \<Rightarrow> OrderLineView \<Rightarrow> storedEntity \<Rightarrow> draws \<times> persistedDB \<Rightarrow> draws \<times> persistedDB" where
  "deduct_recipe now orderID number line r st =
    (if se_Deleted r \<or> se_Type r \<noteq> ''recipe'' \<or> payload_field (se_Payload r) ''product_id'' \<noteq> ov_ProductID line then st
     else fold (deduct_line now orderID number (ov_Quantity line)) (RecipeLines (entity_view r)) st)"

definition deduct_order :: "string \<Rightarrow> string \<Rightarrow> Entity \<Rightarrow> draws \<times> persistedDB \<Rightarrow> draws \<times> persistedDB" where
  "deduct_order now orderID ent st =
    fold (\<lambda>line st. fold (deduct_recipe now orderID (Field ent ''order_number'') line) (map snd (Entities (snd st))) st)
      (OrderItems ent) st"

section \<open>The state of an order\<close>

definition release_table :: "string \<Rightarrow> persistedDB \<Rightarrow> persistedDB" where
  "release_table tableID db =
    (if tableID = [] then db
     else case live db ''table'' tableID of
            None \<Rightarrow> db
          | Some t \<Rightarrow>
             (case as_map (se_Payload t) of
                None \<Rightarrow> db
              | Some tm \<Rightarrow>
                  putEntity (entityKey ''table'' tableID)
                    (bump (marshal (AList.delete ''current_order_id'' (AList.update ''status'' (JStr ''available'') tm))) t) db))"

definition prev_status :: "fields \<Rightarrow> string" where
  "prev_status om = (case mget om ''status'' of JStr s \<Rightarrow> s | _ \<Rightarrow> [])"

definition moved_order :: "string \<Rightarrow> string \<Rightarrow> string \<Rightarrow> fields \<Rightarrow> fields" where
  "moved_order now newStatus reason om =
    set_all ([(''status'', JStr newStatus), (''updated_at'', JStr now)]
      @ (if TrimSpace reason \<noteq> [] then [(''status_reason'', JStr (TrimSpace reason))] else [])
      @ (if newStatus = ''completed'' then [(''completed_at'', JStr now)] else [])) om"

text \<open>What a change of state does besides the order: the recipes are deducted and the table is freed.\<close>

definition status_effects :: "draws \<Rightarrow> string \<Rightarrow> string \<Rightarrow> string \<Rightarrow> string \<Rightarrow> Entity \<Rightarrow> persistedDB \<Rightarrow> persistedDB" where
  "status_effects rs now orderID prevStatus newStatus ent db =
    (let db1 = (if newStatus = ''completed'' \<and> prevStatus \<noteq> ''completed''
                then snd (deduct_order now orderID ent (rs, release_table (Field ent ''table_id'') db)) else db)
     in if newStatus = ''cancelled'' then release_table (Field ent ''table_id'') db1 else db1)"

definition UpdateLocalOrderStatusReason_tx ::
    "draws \<Rightarrow> string \<Rightarrow> string \<Rightarrow> string \<Rightarrow> string \<Rightarrow> persistedDB \<Rightarrow> err + persistedDB \<times> unit" where
  "UpdateLocalOrderStatusReason_tx rs now orderID newStatus reason db =
    (case live db ''order'' orderID of
       None \<Rightarrow> Inl (EOrder ErrOrderMissing)
     | Some oEnt \<Rightarrow>
        (case as_map (se_Payload oEnt) of
           None \<Rightarrow> Inl (EData ErrJSON)
         | Some om \<Rightarrow>
            (let prevStatus = prev_status om
             in if \<not> validOrderTransition prevStatus newStatus
                then (if norm_status prevStatus \<in> {''completed'', ''cancelled'', ''canceled''}
                      then Inl (EOrder (ErrFinal prevStatus)) else Inl (EOrder (ErrTransition prevStatus newStatus)))
                else if EqualFold prevStatus newStatus then Inr (db, ())
                else Inr (putEntity (entityKey ''order'' orderID) (bump (marshal (moved_order now newStatus reason om)) oEnt)
                       (status_effects rs now orderID prevStatus newStatus (entity_view oEnt) db), ()))))"

definition UpdateLocalOrderStatusReason ::
    "io \<Rightarrow> draws \<Rightarrow> string \<Rightarrow> string \<Rightarrow> string \<Rightarrow> string \<Rightarrow> Store \<Rightarrow> Store \<times> (err + unit)" where
  "UpdateLocalOrderStatusReason w rs now orderID newStatus reason s =
    withTx w (UpdateLocalOrderStatusReason_tx rs now orderID newStatus reason) s"

definition UpdateLocalOrderStatus :: "io \<Rightarrow> draws \<Rightarrow> string \<Rightarrow> string \<Rightarrow> string \<Rightarrow> Store \<Rightarrow> Store \<times> (err + unit)" where
  "UpdateLocalOrderStatus w rs now orderID newStatus s = UpdateLocalOrderStatusReason w rs now orderID newStatus [] s"

section \<open>Movements\<close>

definition abs_qty :: "float64 \<Rightarrow> float64" where
  "abs_qty q = (if f_less q f_zero then f_neg q else q)"

text \<open>The signed change of stock, and the kind under which the movement is booked.\<close>

definition stock_delta :: "string \<Rightarrow> float64 \<Rightarrow> float64 \<Rightarrow> float64 \<times> string" where
  "stock_delta txType curStock qtyVal =
    (let absQty = abs_qty qtyVal
     in if txType \<in> {''consumption'', ''waste'', ''return_to_supplier'', ''transfer_out''} then (f_neg absQty, txType)
        else if txType = ''outgoing'' then
          ((if f_le curStock f_zero then f_zero else if f_less curStock absQty then f_neg curStock else f_neg absQty),
           ''consumption'')
        else if txType \<in> {''purchase'', ''opening_balance'', ''transfer_in''} then (absQty, txType)
        else if txType = ''incoming'' then (absQty, ''purchase'')
        else if txType = ''adjustment'' then (qtyVal, txType)
        else if txType = ''adjustment_target'' then (f_sub qtyVal curStock, ''adjustment'')
        else (absQty, txType))"

definition average_cost :: "float64 \<Rightarrow> float64 \<Rightarrow> float64 \<Rightarrow> float64 \<Rightarrow> float64 \<Rightarrow> float64" where
  "average_cost curStock oldAvg signedDelta unitCost newStock =
    f_div (f_add (f_mul curStock oldAvg) (f_mul signedDelta unitCost)) newStock"

definition set_cost :: "string \<Rightarrow> float64 \<Rightarrow> float64 \<Rightarrow> float64 \<Rightarrow> string \<Rightarrow> json \<Rightarrow> fields \<Rightarrow> fields" where
  "set_cost txType signedDelta curStock newStock unitCostStr p im =
    (let (unitCost, ok) = ParseFloat (TrimSpace unitCostStr)
     in if TrimSpace unitCostStr \<noteq> [] \<and> ok \<and> f_le f_zero unitCost \<and> f_less f_zero signedDelta
        then (let oldAvg = fst (ParseFloat (payload_field p ''average_cost''));
                  im1 = (if f_less f_zero curStock \<and> f_less f_zero newStock
                         then AList.update ''average_cost''
                                (JStr (FormatFloat2 (average_cost curStock oldAvg signedDelta unitCost newStock))) im
                         else if f_less f_zero newStock then AList.update ''average_cost'' (JStr (FormatFloat2 unitCost)) im
                         else im)
              in if txType = ''purchase'' then AList.update ''last_purchase_cost'' (JStr (FormatFloat2 unitCost)) im1 else im1)
        else im)"

definition movement_fields ::
    "string \<Rightarrow> string \<Rightarrow> string \<Rightarrow> string \<Rightarrow> float64 \<Rightarrow> float64 \<Rightarrow> string \<Rightarrow> string \<Rightarrow> Entity \<Rightarrow> fields" where
  "movement_fields now movID ingID txType signedDelta newStock unitCostStr note ingView =
    [(''id'', JStr movID), (''title'', JStr (Label ingView)), (''ingredient_id'', JStr ingID),
     (''ingredient_name'', JStr (Label ingView)), (''unit'', JStr (Field ingView ''base_unit'')),
     (''transaction_type'', JStr txType), (''quantity'', JStr (FormatFloat2 signedDelta)),
     (''stock_after'', JStr (FormatFloat2 newStock)), (''unit_cost'', JStr (TrimSpace unitCostStr)),
     (''description'', JStr (TrimSpace note)), (''created_at'', JStr now), (''version'', int_json 1)]"

definition fa_waste :: string where "fa_waste = (fa [0x636, 0x627, 0x6CC, 0x639, 0x627, 0x62A, 0x20])"

definition waste_note :: "string \<Rightarrow> string \<times> string" where
  "waste_note note =
    (case SplitN2 note ''::'' of [a, b] \<Rightarrow> (TrimSpace a, TrimSpace b) | _ \<Rightarrow> (TrimSpace note, []))"

definition waste_fields :: "string \<Rightarrow> string \<Rightarrow> string \<Rightarrow> float64 \<Rightarrow> string \<Rightarrow> Entity \<Rightarrow> fields" where
  "waste_fields now wasteID ingID absQty note ingView =
    (let (reason, desc) = waste_note note
     in [(''id'', JStr wasteID), (''title'', JStr (fa_waste @ Label ingView)), (''ingredient_id'', JStr ingID),
         (''ingredient_name'', JStr (Label ingView)), (''quantity'', JStr (FormatFloat2 absQty)),
         (''unit'', JStr (Field ingView ''base_unit'')), (''reason'', JStr reason), (''description'', JStr desc),
         (''created_at'', JStr now), (''version'', int_json 1)])"

definition RecordStockMovement_tx ::
    "8 word list option \<Rightarrow> string \<Rightarrow> string \<Rightarrow> string \<Rightarrow> string \<Rightarrow> float64 \<Rightarrow> string \<Rightarrow> string \<Rightarrow> persistedDB
      \<Rightarrow> err + persistedDB \<times> string" where
  "RecordStockMovement_tx rnd2 now movID ingID txType0 qtyVal unitCostStr note db =
    (case live db ''ingredient'' ingID of
       None \<Rightarrow> Inl (EStock ErrIngredientMissing)
     | Some ing \<Rightarrow>
        (case as_map (se_Payload ing) of
           None \<Rightarrow> Inl (EData ErrJSON)
         | Some im \<Rightarrow>
            (let p = se_Payload ing; ingView = entity_view ing;
                 curStock = fst (ParseFloat (payload_field p ''current_stock''));
                 (signedDelta, txType) = stock_delta txType0 curStock qtyVal;
                 newStock = f_add curStock signedDelta;
                 im' = AList.update ''updated_at'' (JStr now)
                         (set_cost txType signedDelta curStock newStock unitCostStr p
                           (AList.update ''current_stock'' (JStr (FormatFloat2 newStock)) im));
                 db1 = putEntity (entityKey ''ingredient'' ingID) (bump (marshal im') ing) db;
                 db2 = putEntity (entityKey ''inventory_movement'' movID)
                         (new_record ''inventory_movement'' movID
                           (movement_fields now movID ingID txType signedDelta newStock unitCostStr note ingView)) db1;
                 wasteID = uuid_or_empty rnd2;
                 db3 = (if txType = ''waste''
                        then putEntity (entityKey ''waste_event'' wasteID)
                               (new_record ''waste_event'' wasteID
                                 (waste_fields now wasteID ingID (abs_qty qtyVal) note ingView)) db2
                        else db2)
             in Inr (db3, movID))))"

definition RecordStockMovement ::
    "io \<Rightarrow> 8 word list option \<Rightarrow> 8 word list option \<Rightarrow> string \<Rightarrow> string \<Rightarrow> string \<Rightarrow> string \<Rightarrow> string \<Rightarrow> string \<Rightarrow> Store
      \<Rightarrow> Store \<times> (err + string)" where
  "RecordStockMovement w rnd rnd2 now ingID txType qtyStr unitCostStr note s =
    (case ParseFloat (TrimSpace qtyStr) of
       (qtyVal, ok) \<Rightarrow>
         if \<not> ok \<or> f_eq qtyVal f_zero then (s, Inl (EStock ErrQty))
         else (case UUID rnd of
                 Inl e \<Rightarrow> (s, Inl e)
               | Inr movID \<Rightarrow> withTx w (RecordStockMovement_tx rnd2 now movID ingID txType qtyVal unitCostStr note) s))"

section \<open>Cancelling waste\<close>

definition fa_void_waste :: string where "fa_void_waste = (fa [0x627, 0x628, 0x637, 0x627, 0x644, 0x20, 0x636, 0x627, 0x6CC, 0x639, 0x627, 0x62A])"

definition text_of :: "json \<Rightarrow> string" where
  "text_of j = (case j of JStr s \<Rightarrow> s | _ \<Rightarrow> [])"

definition VoidWasteEvent_tx :: "string \<Rightarrow> string \<Rightarrow> persistedDB \<Rightarrow> err + persistedDB \<times> (string \<times> string)" where
  "VoidWasteEvent_tx now wasteID db =
    (case live db ''waste_event'' wasteID of
       None \<Rightarrow> Inl (EStock ErrWasteMissing)
     | Some e \<Rightarrow>
        (case as_map (se_Payload e) of
           None \<Rightarrow> Inl (EData ErrJSON)
         | Some m \<Rightarrow>
            if mget m ''status'' = JStr ''voided'' then Inl (EStock ErrWasteVoided)
            else (let m' = set_all [(''status'', JStr ''voided''), (''voided_at'', JStr now)] m
                  in Inr (putEntity (entityKey ''waste_event'' wasteID) (bump (marshal m') e) db,
                       (text_of (mget m' ''ingredient_id''), text_of (mget m' ''quantity''))))))"

text \<open>Two transactions, each with its own outcome on disk: the event first, then the stock.\<close>

definition VoidWasteEvent ::
    "io \<Rightarrow> io \<Rightarrow> 8 word list option \<Rightarrow> string \<Rightarrow> string \<Rightarrow> string \<Rightarrow> Store \<Rightarrow> Store \<times> (err + unit)" where
  "VoidWasteEvent w w' rnd now now' wasteID s =
    (case withTx w (VoidWasteEvent_tx now wasteID) s of
       (s1, Inl e) \<Rightarrow> (s1, Inl e)
     | (s1, Inr (ingredientID, qty)) \<Rightarrow>
        if ingredientID \<noteq> [] \<and> qty \<noteq> [] \<and> qty \<noteq> ''0''
        then (case RecordStockMovement w' rnd None now' ingredientID ''adjustment'' qty [] fa_void_waste s1 of
                (s2, Inl e) \<Rightarrow> (s2, Inl e)
              | (s2, Inr _) \<Rightarrow> (s2, Inr ()))
        else (s1, Inr ()))"

section \<open>Reorder points\<close>

definition NeedsReorder :: "Entity \<Rightarrow> bool" where
  "NeedsReorder e =
    (let (cur, ok) = ParseFloat (Field e ''current_stock'');
         below = (\<lambda>k. let (rp, ok') = ParseFloat (Field e k) in ok' \<and> f_less f_zero rp \<and> f_le cur rp)
     in en_Type e = ''ingredient'' \<and> ok \<and> (below ''reorder_point'' \<or> below ''minimum_stock'' \<or> f_less cur f_zero))"

end
