(* ===== verification/Inventory_Props.thy ===== *)
theory Inventory_Props
  imports Inventory Orders_Props
begin

text \<open>
  What the stock book guarantees when amounts are whole hundredths, the precision in which it
  writes them: binary rounding never shows, every movement changes the stock by exactly what
  it books, a completed order takes exactly its recipes, and the book balances over any
  sequence of these operations.
\<close>

section \<open>Stock in hundredths\<close>

definition stock_is :: "persistedDB \<Rightarrow> string \<Rightarrow> int \<Rightarrow> bool" where
  "stock_is db i c \<longleftrightarrow>
    (\<exists>e m t. live db ''ingredient'' i = Some e \<and> as_map (se_Payload e) = Some m
       \<and> map_of m ''current_stock'' = Some (JStr t) \<and> shows_cents c t)"

text \<open>Half of the range in which one rounding stays below a twentieth of a hundredth.\<close>

definition small :: "int \<Rightarrow> bool" where
  "small c \<longleftrightarrow> \<bar>c\<bar> \<le> 50000000000000"

lemma small_fits: "small c \<Longrightarrow> fits (of_int c / 100)"
  by (simp add: small_def fits_def)

lemma small_diff_fits: "small c \<Longrightarrow> small k \<Longrightarrow> fits (of_int (c - k) / 100)"
proof -
  assume "small c" "small k"
  then have "\<bar>c - k\<bar> \<le> 100000000000000" unfolding small_def by linarith
  then have "\<bar>of_int (c - k) :: rat\<bar> \<le> 100000000000000" by linarith
  then show ?thesis by (simp add: fits_def)
qed

text \<open>A float that stands for \<open>c\<close> hundredths, with at most \<open>n\<close> roundings behind it.\<close>

definition about :: "nat \<Rightarrow> int \<Rightarrow> float64 \<Rightarrow> bool" where
  "about n c x \<longleftrightarrow> near (of_nat n * eps) (of_int c / 100) x"

lemma about_print: "about n c x \<Longrightarrow> n \<le> 9 \<Longrightarrow> shows_cents c (FormatFloat2 x)"
  unfolding about_def by (erule FormatFloat2_near) (simp add: eps_def)

lemma about_parse: "amount t = Some (of_int c / 100) \<Longrightarrow> fits (of_int c / 100) \<Longrightarrow> about 1 c (fst (ParseFloat t)) \<and> snd (ParseFloat t)"
proof -
  assume "amount t = Some (of_int c / 100)" and f: "fits (of_int c / 100)"
  then obtain x where "ParseFloat t = (x, True)" "close (of_int c / 100) x" by (rule ParseFloat_amount)
  then show "about 1 c (fst (ParseFloat t)) \<and> snd (ParseFloat t)"
    using close_near f by (simp add: about_def)
qed

lemma about_neg: "about n c x \<Longrightarrow> about n (- c) (f_neg x)"
  unfolding about_def using near_neg by fastforce

lemma about_add:
  assumes "about n c x" "about k d y" "fits (of_int c / 100)" "fits (of_int d / 100)" "n + k \<le> 9"
  shows "about (n + k + 1) (c + d) (f_add x y)"
proof -
  have "of_nat n * eps + of_nat k * eps \<le> (1 :: rat)" using assms(5) by (simp add: eps_def flip: of_nat_add)
  then show ?thesis using near_add [of "of_nat n * eps" "of_int c / 100" x "of_nat k * eps" "of_int d / 100" y] assms
    unfolding about_def by (simp add: algebra_simps add_divide_distrib)
qed

lemma about_zero [simp]: "about n 0 f_zero"
  by (auto simp: about_def near_def f_zero_def eps_def)

lemma about_val: "about n c x \<Longrightarrow> \<exists>s m. x = Fin s m \<and> \<bar>sval s m - of_int c / 100\<bar> \<le> of_nat n * eps"
  unfolding about_def near_def by blast

lemma about_less:
  assumes "about n c x" "about k d y" "n + k \<le> 9"
  shows "c < d \<Longrightarrow> f_less x y" "d < c \<Longrightarrow> \<not> f_less x y \<and> \<not> f_le x y"
proof -
  obtain s m s' m' where x: "x = Fin s m" "\<bar>sval s m - of_int c / 100\<bar> \<le> of_nat n * eps"
    and y: "y = Fin s' m'" "\<bar>sval s' m' - of_int d / 100\<bar> \<le> of_nat k * eps"
    using about_val [OF assms(1)] about_val [OF assms(2)] by blast
  have "of_nat n * eps + of_nat k * eps \<le> 9 * eps" using assms(3)
    by (simp add: eps_def flip: of_nat_add)
  then have e: "of_nat n * eps + of_nat k * eps < (1 / 100 :: rat)" by (simp add: eps_def)
  show "f_less x y" if "c < d"
  proof -
    have "of_int c / 100 + 1 / 100 \<le> (of_int d / 100 :: rat)" using that by (simp flip: add_divide_distrib)
    then have "sval s m < sval s' m'" using x(2) y(2) e by linarith
    then show ?thesis by (simp add: x y)
  qed
  show "\<not> f_less x y \<and> \<not> f_le x y" if "d < c"
  proof -
    have "of_int d / 100 + 1 / 100 \<le> (of_int c / 100 :: rat)" using that by (simp flip: add_divide_distrib)
    then have "sval s' m' < sval s m" using x(2) y(2) e by linarith
    then show ?thesis by (simp add: x y f_le_def)
  qed
qed

section \<open>One movement\<close>

text \<open>What a movement of \<open>k\<close> hundredths means for a stock of \<open>c\<close>, in exact arithmetic.\<close>

definition delta_cents :: "string \<Rightarrow> int \<Rightarrow> int \<Rightarrow> int" where
  "delta_cents txType c k =
    (if txType \<in> {''consumption'', ''waste'', ''return_to_supplier'', ''transfer_out''} then - \<bar>k\<bar>
     else if txType = ''outgoing'' then (if c \<le> 0 then 0 else - min \<bar>k\<bar> c)
     else if txType = ''adjustment'' then k
     else if txType = ''adjustment_target'' then k - c
     else \<bar>k\<bar>)"

definition booked_as :: "string \<Rightarrow> string" where
  "booked_as txType =
    (if txType = ''outgoing'' then ''consumption'' else if txType = ''incoming'' then ''purchase''
     else if txType = ''adjustment_target'' then ''adjustment'' else txType)"

lemma delta_bound: "\<bar>delta_cents txType c k\<bar> \<le> \<bar>c\<bar> + \<bar>k\<bar>"
proof -
  have "\<bar>if c \<le> 0 then 0 else - min \<bar>k\<bar> c\<bar> \<le> \<bar>c\<bar> + \<bar>k\<bar>" "\<bar>k - c\<bar> \<le> \<bar>c\<bar> + \<bar>k\<bar>" "\<bar>- \<bar>k\<bar>\<bar> \<le> \<bar>c\<bar> + \<bar>k\<bar>"
    "\<bar>k\<bar> \<le> \<bar>c\<bar> + \<bar>k\<bar>" "\<bar>\<bar>k\<bar>\<bar> \<le> \<bar>c\<bar> + \<bar>k\<bar>" by (auto simp: min_def)
  then show ?thesis unfolding delta_cents_def by presburger
qed

lemma abs_qty_about: "about n k x \<Longrightarrow> n \<le> 4 \<Longrightarrow> about n \<bar>k\<bar> (abs_qty x)"
proof -
  assume a: "about n k x" "n \<le> 4"
  have z: "about 0 0 f_zero" by simp
  consider "k < 0" | "k > 0" | "k = 0" by linarith
  then show ?thesis
  proof cases
    case 1
    then show ?thesis using about_less(1) [OF a(1) z] about_neg [OF a(1)] a(2) by (simp add: abs_qty_def)
  next
    case 2
    then show ?thesis using about_less(2) [OF a(1) z] a by (simp add: abs_qty_def)
  next
    case 3
    then show ?thesis using about_neg [OF a(1)] a(1) by (simp add: abs_qty_def)
  qed
qed

lemma outgoing_about:
  assumes "about 1 c x" "about 1 a y" "0 \<le> a"
  shows "about 1 (if c \<le> 0 then 0 else - min a c)
    (if f_le x f_zero then f_zero else if f_less x y then f_neg x else f_neg y)"
proof -
  note l0 = about_less [OF assms(1) about_zero [of 0]] and l1 = about_less [OF assms(1,2)]
  note neg = about_neg [OF assms(1)] about_neg [OF assms(2)]
  consider "c < 0" | "c = 0" | "0 < c" "c < a" | "0 < c" "a < c" | "0 < c" "a = c" by linarith
  then show ?thesis
  proof cases
    case 2
    show ?thesis
    proof (cases "f_less x y")
      case True
      then show ?thesis using 2 neg by simp
    next
      case False
      then have "a = 0" using l1(1) 2 assms(3) by fastforce
      then show ?thesis using 2 neg by simp
    qed
  qed (use l0 l1 neg in \<open>simp_all add: f_le_def\<close>)
qed

lemma stock_delta_about:
  assumes "about 1 c x" "about 1 k y" "small c" "small k"
  shows "about 3 (delta_cents txType c k) (fst (stock_delta txType x y)) \<and> snd (stock_delta txType x y) = booked_as txType"
proof -
  have mono: "about n d z \<Longrightarrow> n \<le> 3 \<Longrightarrow> about 3 d z" for n d z
    unfolding about_def by (erule near_mono) (simp add: eps_def)
  have a: "about 1 \<bar>k\<bar> (abs_qty y)" using abs_qty_about [OF assms(2)] by simp
  have o: "about 3 (if c \<le> 0 then 0 else - min \<bar>k\<bar> c)
      (if f_le x f_zero then f_zero else if f_less x (abs_qty y) then f_neg x else f_neg (abs_qty y))"
    using mono [OF outgoing_about [OF assms(1) a]] by simp
  have t: "about 3 (k - c) (f_sub y x)"
    using about_add [OF assms(2) about_neg [OF assms(1)]] small_fits [OF assms(3)] small_fits [OF assms(4)]
    by (simp add: f_sub_def fits_def numeral_3_eq_3)
  show ?thesis
    using mono [OF a] mono [OF about_neg [OF a]] mono [OF assms(2)] o t
    by (simp add: stock_delta_def delta_cents_def booked_as_def Let_def)
qed

text \<open>What a movement writes, with the stock it found.\<close>

lemma set_cost_stock: "map_of (set_cost tx d x n u p im) ''current_stock'' = map_of im ''current_stock''"
  "gmap im \<Longrightarrow> gmap (set_cost tx d x n u p im)"
  by (simp_all add: set_cost_def Let_def split: prod.splits)

lemma gmap_movement: "gmap (movement_fields now movID ing tx d n u note v)"
  by (simp add: movement_fields_def gmap_def)

lemma movement_read [simp]:
  "payload_field (marshal (movement_fields now movID ing tx d n u note v)) ''ingredient_id'' = ing"
  "payload_field (marshal (movement_fields now movID ing tx d n u note v)) ''transaction_type'' = tx"
  "payload_field (marshal (movement_fields now movID ing tx d n u note v)) ''quantity'' = FormatFloat2 d"
  "payload_field (marshal (movement_fields now movID ing tx d n u note v)) ''stock_after'' = FormatFloat2 n"
  using gmap_movement by (simp_all add: movement_fields_def)

lemma movement_keys [simp]:
  "entityKey ''ingredient'' i \<noteq> entityKey ''inventory_movement'' j"
  "entityKey ''ingredient'' i \<noteq> entityKey ''waste_event'' j"
  "entityKey ''inventory_movement'' i \<noteq> entityKey ''waste_event'' j"
  "entityKey ''ingredient'' i \<noteq> entityKey ''table'' j"
  "entityKey ''ingredient'' i \<noteq> entityKey ''order'' j"
  "entityKey ''inventory_movement'' i \<noteq> entityKey ''ingredient'' j"
  "entityKey ''waste_event'' i \<noteq> entityKey ''ingredient'' j"
  "entityKey ''waste_event'' i \<noteq> entityKey ''inventory_movement'' j"
  "entityKey ''inventory_movement'' i \<noteq> entityKey ''table'' j"
  "entityKey ''inventory_movement'' i \<noteq> entityKey ''order'' j"
  by (simp_all add: entityKey_kind)

definition movement_is :: "persistedDB \<Rightarrow> string \<Rightarrow> string \<Rightarrow> string \<Rightarrow> int \<Rightarrow> int \<Rightarrow> bool" where
  "movement_is db movID ing kind d after \<longleftrightarrow>
    (\<exists>e. live db ''inventory_movement'' movID = Some e \<and>
       payload_field (se_Payload e) ''ingredient_id'' = ing \<and>
       payload_field (se_Payload e) ''transaction_type'' = kind \<and>
       shows_cents d (payload_field (se_Payload e) ''quantity'') \<and>
       shows_cents after (payload_field (se_Payload e) ''stock_after''))"

lemma stock_is_put:
  assumes "live db ''ingredient'' i = Some e" "gmap m" "map_of m ''current_stock'' = Some (JStr t)" "shows_cents c t"
  shows "stock_is (putEntity (entityKey ''ingredient'' i) (bump (marshal m) e) db) i c"
  using assms by (auto simp: stock_is_def getEntity_live map_of_sort)

lemma stock_is_other:
  "entityKey ''ingredient'' i \<noteq> key \<Longrightarrow> stock_is (putEntity key e db) i c = stock_is db i c"
  by (simp add: stock_is_def)

lemma RecordStockMovement_tx_exact:
  assumes run: "RecordStockMovement_tx rnd2 now movID ing txType x unitCostStr note db = Inr (db', movID')"
    and stock: "stock_is db ing c" and qty: "about 1 k x" and sm: "small c" "small k"
  shows "stock_is db' ing (c + delta_cents txType c k) \<and>
    movement_is db' movID ing (booked_as txType) (delta_cents txType c k) (c + delta_cents txType c k) \<and>
    (\<forall>i. i \<noteq> ing \<longrightarrow> live db' ''ingredient'' i = live db ''ingredient'' i)"
proof -
  obtain e m t where e: "live db ''ingredient'' ing = Some e" "as_map (se_Payload e) = Some m"
    and t: "map_of m ''current_stock'' = Some (JStr t)" "shows_cents c t"
    using stock unfolding stock_is_def by blast
  have gm: "gmap m" using e(2) by (rule as_map_gmap)
  let ?d = "delta_cents txType c k" and ?cur = "fst (ParseFloat t)"
  have pf: "payload_field (se_Payload e) ''current_stock'' = t" by (simp add: payload_field_def e(2) t(1))
  have cur: "about 1 c ?cur" using about_parse [OF shows_cents_amount [OF t(2)] small_fits [OF sm(1)]] by simp
  obtain delta kind where sd: "stock_delta txType ?cur x = (delta, kind)" by force
  have d: "about 3 ?d delta" "kind = booked_as txType"
    using stock_delta_about [OF cur qty sm, of txType] unfolding sd by simp_all
  have "\<bar>?d\<bar> \<le> 100000000000000" using delta_bound [of txType c k] sm unfolding small_def by linarith
  then have "\<bar>of_int ?d :: rat\<bar> \<le> 100000000000000" by linarith
  then have fits: "fits (of_int ?d / 100)" by (simp add: fits_def)
  have new: "about 5 (c + ?d) (f_add ?cur delta)"
    using about_add [OF cur d(1) small_fits [OF sm(1)] fits] by simp
  note prints = about_print [OF d(1)] about_print [OF new]
  show ?thesis
    using run e t gm prints d(2)
    by (auto simp: RecordStockMovement_tx_def pf sd Let_def movement_is_def new_record_def
        stock_is_other set_cost_stock intro!: stock_is_put split: if_splits)
qed

section \<open>The recipes of an order\<close>

text \<open>The live recipes, in the order of the map, and the lines an order takes from them.\<close>

definition recipes :: "persistedDB \<Rightarrow> storedEntity list" where
  "recipes db = filter (\<lambda>e. \<not> se_Deleted e \<and> se_Type e = ''recipe'') (map snd (Entities db))"

definition bom :: "persistedDB \<Rightarrow> OrderLineView list \<Rightarrow> (int \<times> RecipeLineView) list" where
  "bom db lines = concat (map (\<lambda>l. concat (map (\<lambda>r. map (Pair (ov_Quantity l)) (RecipeLines (entity_view r)))
      (filter (\<lambda>r. payload_field (se_Payload r) ''product_id'' = ov_ProductID l) (recipes db)))) lines)"

lemma filter_update:
  assumes "\<not> P v" "\<And>v'. map_of m k = Some v' \<Longrightarrow> \<not> P v'"
  shows "filter P (map snd (AList.update k v m)) = filter P (map snd m)"
  using assms by (induction m) (auto split: if_splits)

lemma recipes_put:
  assumes "wf_db db" "CHR 0x00 \<notin> set kind" "kind \<noteq> ''recipe''" "se_Type e \<noteq> ''recipe''"
  shows "recipes (putEntity (entityKey kind i) e db) = recipes db"
proof -
  have "se_Type e' \<noteq> ''recipe''" if "map_of (Entities db) (entityKey kind i) = Some e'" for e'
    using wf_db_key [OF assms(1), of "entityKey kind i" e'] that assms(2,3)
    by (auto simp: getEntity_def entityKey_inj)
  then show ?thesis using assms(3,4) unfolding recipes_def putEntity_def
    by (simp) (rule filter_update; auto)
qed

lemma deduct_recipe_skip: "\<not> (\<not> se_Deleted r \<and> se_Type r = ''recipe'') \<Longrightarrow> deduct_recipe now oid num l r st = st"
  by (auto simp: deduct_recipe_def)

lemma fold_filter: "(\<And>x s. x \<in> set xs \<Longrightarrow> \<not> P x \<Longrightarrow> f x s = s) \<Longrightarrow> fold f xs s = fold f (filter P xs) s"
  by (induction xs arbitrary: s) auto

abbreviation take_line :: "string \<Rightarrow> string \<Rightarrow> string \<Rightarrow> int \<times> RecipeLineView \<Rightarrow> draws \<times> persistedDB \<Rightarrow> draws \<times> persistedDB" where
  "take_line now oid num \<equiv> (\<lambda>(q, rl). deduct_line now oid num q rl)"

lemma deduct_line_recipes:
  assumes "wf_db (snd st)"
  shows "wf_db (snd (deduct_line now oid num q rl st)) \<and> recipes (snd (deduct_line now oid num q rl st)) = recipes (snd st)"
proof -
  obtain rs db where st: "st = (rs, db)" by force
  have wf: "wf_db db" using assms st by simp
  have ing: "wf_db (putEntity (entityKey ''ingredient'' i) (bump p e) db) \<and>
      recipes (putEntity (entityKey ''ingredient'' i) (bump p e) db) = recipes db" if "live db ''ingredient'' i = Some e" for i p e
  proof -
    have "se_Type e \<noteq> ''recipe''"
      using wf_db_key [OF wf, of "entityKey ''ingredient'' i" e] that by (auto simp: getEntity_live entityKey_inj)
    then show ?thesis using wf_db_bump [OF wf that] recipes_put [OF wf, of "''ingredient''" "bump p e"] by simp
  qed
  have mov: "wf_db (putEntity (entityKey ''inventory_movement'' j) (new_record ''inventory_movement'' j m) d) \<and>
      recipes (putEntity (entityKey ''inventory_movement'' j) (new_record ''inventory_movement'' j m) d) = recipes d"
    if "wf_db d" for j m d
    using wf_db_new [OF that] recipes_put [OF that, of "''inventory_movement''"] by (simp add: new_record_def)
  show ?thesis using wf ing mov unfolding st deduct_line_def
    by (simp add: Let_def split: option.split sum.split)
qed

lemma take_lines_recipes:
  "wf_db (snd st) \<Longrightarrow> wf_db (snd (fold (take_line now oid num) xs st)) \<and> recipes (snd (fold (take_line now oid num) xs st)) = recipes (snd st)"
proof (induction xs arbitrary: st)
  case (Cons x xs)
  obtain q rl where x: "x = (q, rl)" by force
  show ?case using Cons.IH [of "deduct_line now oid num q rl st"] deduct_line_recipes [OF Cons.prems] by (simp add: x)
qed simp

lemma deduct_recipes_bom:
  "fold (deduct_recipe now oid num l) rs st =
    fold (take_line now oid num) (concat (map (\<lambda>r. map (Pair (ov_Quantity l)) (RecipeLines (entity_view r)))
      (filter (\<lambda>r. payload_field (se_Payload r) ''product_id'' = ov_ProductID l)
        (filter (\<lambda>r. \<not> se_Deleted r \<and> se_Type r = ''recipe'') rs)))) st"
  by (induction rs arbitrary: st) (simp_all add: deduct_recipe_def fold_map comp_def)

lemma deduct_lines_bom:
  assumes "wf_db (snd st)"
  shows "fold (\<lambda>l st. fold (deduct_recipe now oid num l) (map snd (Entities (snd st))) st) ls st =
    fold (take_line now oid num) (bom (snd st) ls) st"
  using assms
proof (induction ls arbitrary: st)
  case Nil
  then show ?case by (simp add: bom_def)
next
  case (Cons l ls)
  let ?xs = "bom (snd st) [l]"
  have one: "fold (deduct_recipe now oid num l) (map snd (Entities (snd st))) st = fold (take_line now oid num) ?xs st"
    by (simp add: deduct_recipes_bom bom_def recipes_def)
  have "bom (snd (fold (take_line now oid num) ?xs st)) ls = bom (snd st) ls"
    using take_lines_recipes [OF Cons.prems] by (simp add: bom_def)
  moreover have "bom (snd st) (l # ls) = ?xs @ bom (snd st) ls" by (simp add: bom_def)
  ultimately show ?case
    using Cons.IH [of "fold (take_line now oid num) ?xs st"] take_lines_recipes [OF Cons.prems] by (simp add: one)
qed

text \<open>What one line takes.\<close>

definition cents_of :: "string \<Rightarrow> int" where
  "cents_of t = (case amount t of None \<Rightarrow> 0 | Some v \<Rightarrow> \<lfloor>v * 100\<rfloor>)"

lemma cents_of_shows: "shows_cents k t \<Longrightarrow> cents_of t = k"
  by (simp add: cents_of_def shows_cents_amount)

lemma stock_is_unique: "stock_is db i c \<Longrightarrow> stock_is db i c' \<Longrightarrow> c' = c"
  unfolding stock_is_def by (auto dest!: cents_of_shows)

text \<open>A line that takes whole hundredths, within the range of the book.\<close>

definition line_ok :: "int \<times> RecipeLineView \<Rightarrow> bool" where
  "line_ok = (\<lambda>(q, rl). amount (rl_Quantity rl) = Some (of_int (cents_of (rl_Quantity rl)) / 100)
     \<and> small (cents_of (rl_Quantity rl)) \<and> small (100 * q) \<and> small (cents_of (rl_Quantity rl) * q))"

definition taken :: "string \<Rightarrow> int \<times> RecipeLineView \<Rightarrow> int" where
  "taken i = (\<lambda>(q, rl). if rl_IngredientID rl = i then cents_of (rl_Quantity rl) * q else 0)"

lemma deduct_about:
  assumes "line_ok (q, rl)"
  shows "about 2 (cents_of (rl_Quantity rl) * q) (f_mul (fst (ParseFloat (rl_Quantity rl))) (f_of_int q))"
proof -
  let ?u = "cents_of (rl_Quantity rl)"
  have a: "amount (rl_Quantity rl) = Some (of_int ?u / 100)" and s: "small ?u" "small (100 * q)" "small (?u * q)"
    using assms by (simp_all add: line_ok_def)
  obtain x where x: "ParseFloat (rl_Quantity rl) = (x, True)" "close (of_int ?u / 100) x"
    by (rule ParseFloat_amount [OF a small_fits [OF s(1)]])
  have q: "fits (of_int q)" using small_fits [OF s(2)] by simp
  then have y: "close (of_int q) (f_of_int q)" unfolding f_of_int_def by (rule of_sval_close)
  have "fits (of_int ?u / 100 * of_int q)" using small_fits [OF s(3)] by simp
  then have "near (2 * eps) (of_int ?u / 100 * of_int q) (f_mul x (f_of_int q))"
    using close_mul [OF x(2) y small_fits [OF s(1)] q] by simp
  then show ?thesis by (simp add: about_def x(1))
qed

lemma deduct_line_stock:
  assumes "line_ok (q, rl)" "stock_is db i c" "small c" "deduct_line now oid num q rl (rs, db) = (rs', db')"
  shows "stock_is db' i (c - taken i (q, rl))"
proof (cases "rl_IngredientID rl = i")
  case False
  then have "live db' ''ingredient'' i = live db ''ingredient'' i" using assms(4)
    by (auto simp: deduct_line_def Let_def split: option.splits sum.splits if_splits)
  then show ?thesis using assms(2) False by (simp add: stock_is_def taken_def)
next
  case True
  obtain e m t where e: "live db ''ingredient'' i = Some e" "as_map (se_Payload e) = Some m"
    and t: "map_of m ''current_stock'' = Some (JStr t)" "shows_cents c t"
    using assms(2) unfolding stock_is_def by blast
  let ?k = "cents_of (rl_Quantity rl) * q" and ?d = "f_mul (fst (ParseFloat (rl_Quantity rl))) (f_of_int q)"
  have cur: "about 1 c (fst (ParseFloat t))" using about_parse [OF shows_cents_amount [OF t(2)] small_fits [OF assms(3)]] by simp
  have "small ?k" using assms(1) by (simp add: line_ok_def)
  then have "fits (of_int (- ?k) / 100)" using small_fits [of ?k] by (simp add: fits_def)
  then have new: "about 4 (c - ?k) (f_sub (fst (ParseFloat t)) ?d)"
    using about_add [OF cur about_neg [OF deduct_about [OF assms(1)]] small_fits [OF assms(3)]]
    by (simp add: f_sub_def eval_nat_numeral)
  have "stock_is (putEntity (entityKey ''ingredient'' i) (bump (marshal (AList.update ''current_stock''
      (JStr (FormatFloat2 (f_sub (fst (ParseFloat t)) ?d))) m)) e) db) i (c - ?k)"
    using e as_map_gmap [OF e(2)] about_print [OF new] by (intro stock_is_put) auto
  then show ?thesis using assms(4) e t True
    by (auto simp: deduct_line_def taken_def Let_def mget_def stock_is_other split: sum.splits if_splits)
qed

abbreviation total_taken :: "string \<Rightarrow> (int \<times> RecipeLineView) list \<Rightarrow> int" where
  "total_taken i xs \<equiv> sum_list (map (taken i) xs)"

text \<open>Every line that takes from an ingredient is in range, and so is what they take together.\<close>

definition bom_ok :: "string \<Rightarrow> int \<Rightarrow> (int \<times> RecipeLineView) list \<Rightarrow> bool" where
  "bom_ok i c xs \<longleftrightarrow> list_all (\<lambda>x. rl_IngredientID (snd x) = i \<longrightarrow> line_ok x) xs
     \<and> \<bar>c\<bar> + sum_list (map (\<lambda>x. \<bar>taken i x\<bar>) xs) \<le> 50000000000000"

lemma sum_list_abs_nonneg: "0 \<le> sum_list (map (\<lambda>x. \<bar>f x :: int\<bar>) xs)"
  by (induction xs) auto

lemma bom_ok_Cons:
  assumes "bom_ok i c (x # xs)"
  shows "small c \<and> bom_ok i (c - taken i x) xs \<and> (rl_IngredientID (snd x) = i \<longrightarrow> line_ok x)"
  using assms sum_list_abs_nonneg [of "taken i" xs] unfolding bom_ok_def small_def by auto

lemma deduct_line_other: "rl_IngredientID rl \<noteq> i \<Longrightarrow>
    live (snd (deduct_line now oid num q rl st)) ''ingredient'' i = live (snd st) ''ingredient'' i"
  by (cases st) (auto simp: deduct_line_def Let_def split: option.splits sum.splits)

lemma take_lines_stock:
  assumes "bom_ok i c xs" "stock_is (snd st) i c"
  shows "stock_is (snd (fold (take_line now oid num) xs st)) i (c - total_taken i xs)"
  using assms
proof (induction xs arbitrary: c st)
  case Nil
  then show ?case by simp
next
  case (Cons x xs)
  obtain q rl where x: "x = (q, rl)" by force
  obtain rs db where st: "st = (rs, db)" by force
  obtain rs' db' where d: "deduct_line now oid num q rl (rs, db) = (rs', db')" by force
  have ok: "small c" "bom_ok i (c - taken i x) xs" "rl_IngredientID rl = i \<longrightarrow> line_ok (q, rl)"
    using bom_ok_Cons [OF Cons.prems(1)] by (simp_all add: x)
  have "stock_is db' i (c - taken i x)"
  proof (cases "rl_IngredientID rl = i")
    case True
    then show ?thesis using deduct_line_stock [OF _ _ ok(1) d] ok(3) Cons.prems(2) by (simp add: st x)
  next
    case False
    then show ?thesis using deduct_line_other [OF False, of now oid num q "(rs, db)"] Cons.prems(2)
      by (simp add: d st x stock_is_def taken_def)
  qed
  then show ?case using Cons.IH [OF ok(2), of "(rs', db')"] by (simp add: x st d algebra_simps)
qed

lemma release_table_stock: "live (release_table t db) ''ingredient'' i = live db ''ingredient'' i"
  by (simp add: release_table_def split: option.split)

lemma release_table_recipes: "wf_db db \<Longrightarrow> wf_db (release_table t db) \<and> recipes (release_table t db) = recipes db"
proof -
  assume wf: "wf_db db"
  have "se_Type e \<noteq> ''recipe''" if "live db ''table'' t = Some e" for e
    using wf_db_key [OF wf, of "entityKey ''table'' t" e] that by (auto simp: getEntity_live entityKey_inj)
  then show ?thesis using wf wf_db_bump [OF wf] recipes_put [OF wf, of "''table''"]
    by (auto simp: release_table_def split: option.split)
qed

lemma completed_effects_stock:
  assumes "wf_db db" "bom_ok i c (bom db (OrderItems ent))" "stock_is db i c" "prevStatus \<noteq> ''completed''"
  shows "stock_is (status_effects rs now oid prevStatus ''completed'' ent db) i (c - total_taken i (bom db (OrderItems ent)))"
proof -
  let ?db = "release_table (Field ent ''table_id'') db"
  have r: "wf_db ?db" "bom ?db ls = bom db ls" for ls
    using release_table_recipes [OF assms(1)] by (simp_all add: bom_def)
  have "stock_is ?db i c" using assms(3) by (simp add: stock_is_def release_table_stock)
  then show ?thesis using take_lines_stock [of i c "bom ?db (OrderItems ent)" "(rs, ?db)" now oid "Field ent ''order_number''"] assms(2,4)
    deduct_lines_bom [of "(rs, ?db)"] r by (simp add: status_effects_def deduct_order_def)
qed

lemma final_status: "validOrderTransition ''completed'' st \<Longrightarrow> norm_status st = ''completed''"
  by (simp add: validOrderTransition_def norm_literals allowedOrderTransitions_def Let_def)

lemma norm_cancelled: "norm_status ''cancelled'' = ''cancelled''"
proof -
  have "TrimSpace ''cancelled'' = ''cancelled''" by (rule TrimSpace_graph; simp add: graph_def)
  then show ?thesis by (simp add: norm_status_def HasPrefix_def lower_ascii_def)
qed

lemma moved_status: "gmap om \<Longrightarrow> map_of (moved_order now st reason om) ''status'' = Some (JStr st)"
  by (simp add: moved_order_def map_of_set_all)

lemma gmap_moved: "gmap om \<Longrightarrow> gmap (moved_order now st reason om)"
  by (simp add: moved_order_def)

text \<open>An order whose stored state is \<open>st\<close>.\<close>

definition order_in :: "persistedDB \<Rightarrow> string \<Rightarrow> string \<Rightarrow> storedEntity \<Rightarrow> bool" where
  "order_in db orderID st e \<longleftrightarrow> live db ''order'' orderID = Some e \<and>
    (\<exists>om. as_map (se_Payload e) = Some om \<and> prev_status om = st)"

lemma status_update_cases:
  assumes "order_in db orderID st e"
    and "UpdateLocalOrderStatusReason_tx rs now orderID st' reason db = Inr (db', u)"
  shows "validOrderTransition st st' \<and>
    (if EqualFold st st' then db' = db
     else \<exists>e'. db' = putEntity (entityKey ''order'' orderID) e' (status_effects rs now orderID st st' (entity_view e) db)
       \<and> \<not> se_Deleted e' \<and> order_in db' orderID st' e')"
proof -
  obtain om where e: "live db ''order'' orderID = Some e" "as_map (se_Payload e) = Some om" "prev_status om = st"
    using assms(1) unfolding order_in_def by blast
  have g: "gmap om" using e(2) by (rule as_map_gmap)
  have nd: "\<not> se_Deleted e" using e(1) by (simp add: getEntity_live)
  have read: "prev_status (sort_key fst (moved_order now st' reason om)) = st'"
    using g by (simp add: prev_status_def mget_def map_of_sort gmap_moved moved_status)
  show ?thesis using assms(2) e nd read gmap_moved [OF g]
    by (auto simp: UpdateLocalOrderStatusReason_tx_def order_in_def Let_def split: if_splits)
qed


section \<open>The book balances\<close>

text \<open>The movements of an ingredient, and what they add up to.\<close>

definition is_movement :: "string \<Rightarrow> storedEntity \<Rightarrow> bool" where
  "is_movement i e \<longleftrightarrow> \<not> se_Deleted e \<and> se_Type e = ''inventory_movement'' \<and> payload_field (se_Payload e) ''ingredient_id'' = i"

definition booked :: "persistedDB \<Rightarrow> string \<Rightarrow> int" where
  "booked db i = sum_list (map (\<lambda>e. cents_of (payload_field (se_Payload e) ''quantity''))
     (filter (is_movement i) (map snd (Entities db))))"

lemma booked_put_other:
  assumes "wf_db db" "CHR 0x00 \<notin> set kind" "kind \<noteq> ''inventory_movement''" "se_Type e \<noteq> ''inventory_movement''"
  shows "booked (putEntity (entityKey kind j) e db) i = booked db i"
proof -
  have "se_Type e' \<noteq> ''inventory_movement''" if "map_of (Entities db) (entityKey kind j) = Some e'" for e'
    using wf_db_key [OF assms(1), of "entityKey kind j" e'] that assms(2,3) by (auto simp: getEntity_def entityKey_inj)
  then have "filter (is_movement i) (map snd (AList.update (entityKey kind j) e (Entities db))) = filter (is_movement i) (map snd (Entities db))"
    using assms(4) by (intro filter_update) (auto simp: is_movement_def)
  then show ?thesis by (simp add: booked_def putEntity_def)
qed

lemma booked_put_new:
  assumes "getEntity db (entityKey ''inventory_movement'' j) = None"
  shows "booked (putEntity (entityKey ''inventory_movement'' j) (new_record ''inventory_movement'' j m) db) i =
    booked db i + (if payload_field (marshal m) ''ingredient_id'' = i then cents_of (payload_field (marshal m) ''quantity'') else 0)"
  using assms by (simp add: booked_def putEntity_def getEntity_def update_append_new map_of_eq_None_iff is_movement_def new_record_def)

lemma live_type:
  assumes "wf_db db" "CHR 0x00 \<notin> set kind" "live db kind j = Some e" "CHR 0x00 \<notin> set kind'" "kind' \<noteq> kind"
  shows "se_Type e \<noteq> kind'"
  using wf_db_key [OF assms(1), of "entityKey kind j" e] assms(2-) by (auto simp: getEntity_live entityKey_inj)

lemma booked_bump:
  assumes "wf_db db" "live db kind j = Some e" "CHR 0x00 \<notin> set kind" "kind \<noteq> ''inventory_movement''"
  shows "booked (putEntity (entityKey kind j) (bump p e) db) i = booked db i"
  using booked_put_other [OF assms(1,3,4)] live_type [OF assms(1,3,2), of "''inventory_movement''"] assms(4) by simp

lemma RecordStockMovement_tx_book:
  assumes run: "RecordStockMovement_tx rnd2 now movID ing txType x uc note db = Inr (db', movID')"
    and wf: "wf_db db" and fresh: "getEntity db (entityKey ''inventory_movement'' movID) = None"
    and stock: "stock_is db i c" and qty: "about 1 k x" and sm: "small c" "small k"
  shows "wf_db db' \<and> (\<exists>d. stock_is db' i (c + d) \<and> booked db' i = booked db i + d)"
proof -
  obtain e m where e: "live db ''ingredient'' ing = Some e" "as_map (se_Payload e) = Some m"
    using run by (auto simp: RecordStockMovement_tx_def split: option.splits)
  let ?cur = "fst (ParseFloat (payload_field (se_Payload e) ''current_stock''))"
  obtain delta kind where sd: "stock_delta txType ?cur x = (delta, kind)" by force
  define M where "M = f_add ?cur delta"
  define p where "p = marshal (AList.update ''updated_at'' (JStr now) (set_cost kind delta ?cur M uc (se_Payload e)
    (AList.update ''current_stock'' (JStr (FormatFloat2 M)) m)))"
  define db1 where db1: "db1 = putEntity (entityKey ''ingredient'' ing) (bump p e) db"
  define db2 where db2: "db2 = putEntity (entityKey ''inventory_movement'' movID) (new_record ''inventory_movement'' movID
        (movement_fields now movID ing kind delta M uc note (entity_view e))) db1"
  have db': "db' = (if kind = ''waste'' then putEntity (entityKey ''waste_event'' (uuid_or_empty rnd2))
      (new_record ''waste_event'' (uuid_or_empty rnd2)
        (waste_fields now (uuid_or_empty rnd2) ing (abs_qty x) note (entity_view e))) db2 else db2)"
    using run e unfolding db2 db1 p_def M_def by (simp add: RecordStockMovement_tx_def sd Let_def)
  have wf1: "wf_db db1" unfolding db1 by (rule wf_db_bump [OF wf e(1)])
  have wf2: "wf_db db2" unfolding db2 by (rule wf_db_new [OF wf1])
  have "getEntity db1 (entityKey ''inventory_movement'' movID) = None" using fresh by (simp add: db1)
  then have "booked db2 i = booked db1 i + (if ing = i then cents_of (FormatFloat2 delta) else 0)"
    unfolding db2 by (simp add: booked_put_new)
  moreover have "booked db1 i = booked db i" unfolding db1 by (rule booked_bump [OF wf e(1)]) simp_all
  moreover have "booked (putEntity (entityKey ''waste_event'' j) (new_record ''waste_event'' j f) db2) i = booked db2 i" for j f
    by (rule booked_put_other [OF wf2]) (simp_all add: new_record_def)
  ultimately have b: "booked db' i = booked db i + (if ing = i then cents_of (FormatFloat2 delta) else 0)"
    by (simp add: db')
  have "wf_db db'" using wf2 wf_db_new [OF wf2] by (simp add: db')
  moreover have "\<exists>d. stock_is db' i (c + d) \<and> booked db' i = booked db i + d"
  proof (cases "ing = i")
    case False
    then have "stock_is db' i c" using stock by (simp add: db' db2 db1 stock_is_def)
    then show ?thesis using b False by (intro exI [of _ 0]) simp
  next
    case True
    have "stock_is db' i (c + delta_cents txType c k) \<and>
        movement_is db' movID i (booked_as txType) (delta_cents txType c k) (c + delta_cents txType c k)"
      using RecordStockMovement_tx_exact [OF run _ qty sm] stock True by simp
    then have "stock_is db' i (c + delta_cents txType c k)" "shows_cents (delta_cents txType c k) (FormatFloat2 delta)"
      by (auto simp: movement_is_def db' db2 new_record_def split: if_splits)
    then show ?thesis using b True by (auto simp: cents_of_shows)
  qed
  ultimately show ?thesis by blast
qed

text \<open>Draws that give new movement identifiers, each of them once.\<close>

definition fresh_draws :: "draws \<Rightarrow> persistedDB \<Rightarrow> bool" where
  "fresh_draws rs db \<longleftrightarrow> distinct (map UUID rs) \<and>
    list_all (\<lambda>r. \<exists>j. UUID r = Inr j \<and> getEntity db (entityKey ''inventory_movement'' j) = None) rs"

lemma gmap_consumption: "gmap (consumption_fields now oid num movID ing d n v)"
  by (simp add: consumption_fields_def gmap_def)

lemma consumption_read [simp]:
  "payload_field (marshal (consumption_fields now oid num movID ing d n v)) ''ingredient_id'' = ing"
  "payload_field (marshal (consumption_fields now oid num movID ing d n v)) ''quantity'' = FormatFloat2 (f_neg d)"
  using gmap_consumption by (simp_all add: consumption_fields_def)

lemma deduct_about_print:
  assumes "line_ok (q, rl)"
  shows "cents_of (FormatFloat2 (f_neg (f_mul (fst (ParseFloat (rl_Quantity rl))) (f_of_int q)))) = - (cents_of (rl_Quantity rl) * q)"
  using about_print [OF about_neg [OF deduct_about [OF assms]]] by (simp add: cents_of_shows)

lemma deduct_zero:
  assumes "line_ok (q, rl)" "f_eq (f_mul (fst (ParseFloat (rl_Quantity rl))) (f_of_int q)) f_zero"
  shows "cents_of (rl_Quantity rl) * q = 0"
proof -
  let ?d = "f_mul (fst (ParseFloat (rl_Quantity rl))) (f_of_int q)" and ?k = "cents_of (rl_Quantity rl) * q"
  have "f_le ?d f_zero" "\<not> f_less ?d f_zero" using assms(2) by (cases ?d; simp add: f_le_def f_zero_def)+
  then show ?thesis using about_less [OF deduct_about [OF assms(1)] about_zero [of 0]] by fastforce
qed

lemma deduct_line_shape:
  assumes "deduct_line now oid num q rl (rs, db) = (rs', db')"
  shows "(rs', db') = (rs, db) \<or>
    (\<exists>e p n v. live db ''ingredient'' (rl_IngredientID rl) = Some e \<and> rs' = drop 1 rs \<and>
      (let d = f_mul (fst (ParseFloat (rl_Quantity rl))) (f_of_int q);
           db1 = putEntity (entityKey ''ingredient'' (rl_IngredientID rl)) (bump p e) db
       in (\<forall>j. UUID (draw rs) = Inr j \<longrightarrow> db' = (if f_eq d f_zero then db1
            else putEntity (entityKey ''inventory_movement'' j)
              (new_record ''inventory_movement'' j (consumption_fields now oid num j (rl_IngredientID rl) d n v)) db1))))"
proof (cases "live db ''ingredient'' (rl_IngredientID rl)")
  case None
  then show ?thesis using assms by (simp add: deduct_line_def)
next
  case (Some e)
  show ?thesis
  proof (cases "as_map (se_Payload e)")
    case None
    then show ?thesis using assms Some by (simp add: deduct_line_def)
  next
    case m: (Some m)
    let ?n = "f_sub (fst (ParseFloat (sprint (mget m ''current_stock'')))) (f_mul (fst (ParseFloat (rl_Quantity rl))) (f_of_int q))"
    let ?p = "marshal (AList.update ''current_stock'' (JStr (FormatFloat2 ?n)) m)"
    show ?thesis using assms Some m
      by (intro disjI2 exI [of _ e] exI [of _ ?p] exI [of _ ?n] exI [of _ "entity_view (bump ?p e)"])
        (auto simp: deduct_line_def Let_def)
  qed
qed

lemma deduct_line_book:
  assumes run: "deduct_line now oid num q rl (rs, db) = (rs', db')"
    and wf: "wf_db db" and fresh: "fresh_draws rs db" "rs \<noteq> []"
    and ok: "rl_IngredientID rl = i \<longrightarrow> line_ok (q, rl) \<and> stock_is db i c"
  shows "booked db' i = booked db i - taken i (q, rl) \<and> fresh_draws rs' db' \<and> (rs' = rs \<or> rs' = tl rs)"
proof -
  obtain r rt where rs: "rs = r # rt" using fresh(2) by (cases rs) auto
  obtain j where j: "UUID r = Inr j" "getEntity db (entityKey ''inventory_movement'' j) = None"
    using fresh(1) by (auto simp: fresh_draws_def rs)
  have rest: "fresh_draws rt db" using fresh(1) by (simp add: fresh_draws_def rs)
  have "Inr j \<notin> UUID ` set rt" using fresh(1) j(1) by (simp add: fresh_draws_def rs)
  then have new: "\<forall>r' \<in> set rt. UUID r' \<noteq> Inr j" by (metis imageI)
  show ?thesis
  proof (cases "(rs', db') = (rs, db)")
    case True
    have "rl_IngredientID rl \<noteq> i"
    proof
      assume i: "rl_IngredientID rl = i"
      then obtain e m where "live db ''ingredient'' i = Some e" "as_map (se_Payload e) = Some m"
        using ok unfolding stock_is_def by blast
      then have "rs' = drop 1 rs" using run i by (simp add: deduct_line_def Let_def)
      then show False using True rs by simp
    qed
    then show ?thesis using True fresh(1) by (simp add: taken_def)
  next
    case False
    let ?d = "f_mul (fst (ParseFloat (rl_Quantity rl))) (f_of_int q)"
    obtain e p n v db1 where e: "live db ''ingredient'' (rl_IngredientID rl) = Some e" "rs' = rt"
      and db1: "db1 = putEntity (entityKey ''ingredient'' (rl_IngredientID rl)) (bump p e) db"
      and db': "db' = (if f_eq ?d f_zero then db1 else putEntity (entityKey ''inventory_movement'' j)
              (new_record ''inventory_movement'' j (consumption_fields now oid num j (rl_IngredientID rl) ?d n v)) db1)"
      using deduct_line_shape [OF run] False j(1) by (auto simp: Let_def rs draw_def)
    have b1: "booked db1 i = booked db i" unfolding db1 by (rule booked_bump [OF wf e(1)]) simp_all
    have fr: "getEntity db1 (entityKey ''inventory_movement'' k) = getEntity db (entityKey ''inventory_movement'' k)" for k
      by (simp add: db1)
    have "\<exists>k. UUID r' = Inr k \<and> getEntity db' (entityKey ''inventory_movement'' k) = None" if r': "r' \<in> set rt" for r'
    proof -
      obtain k where "UUID r' = Inr k" "getEntity db (entityKey ''inventory_movement'' k) = None"
        using rest r' by (auto simp: fresh_draws_def list_all_iff)
      then show ?thesis using new r' by (auto simp: db' fr)
    qed
    then have "fresh_draws rt db'" using rest by (simp add: fresh_draws_def list_all_iff)
    moreover have "booked db' i = booked db i - taken i (q, rl)"
      using b1 booked_put_new [of db1 j] j(2) ok deduct_about_print deduct_zero by (auto simp: db' fr taken_def)
    ultimately show ?thesis using e(2) rs by simp
  qed
qed

lemma take_lines_book:
  assumes "bom_ok i c xs" "stock_is (snd st) i c" "wf_db (snd st)" "fresh_draws (fst st) (snd st)" "length xs \<le> length (fst st)"
  shows "booked (snd (fold (take_line now oid num) xs st)) i = booked (snd st) i - total_taken i xs"
  using assms
proof (induction xs arbitrary: c st)
  case Nil
  then show ?case by simp
next
  case (Cons x xs)
  obtain q rl where x: "x = (q, rl)" by force
  obtain rs db where st: "st = (rs, db)" by force
  obtain rs' db' where d: "deduct_line now oid num q rl (rs, db) = (rs', db')" by force
  have ok: "small c" "bom_ok i (c - taken i x) xs" "rl_IngredientID rl = i \<longrightarrow> line_ok (q, rl)"
    using bom_ok_Cons [OF Cons.prems(1)] by (simp_all add: x)
  have "bom_ok i c [x]" using Cons.prems(1) sum_list_abs_nonneg [of "taken i" xs] by (simp add: bom_ok_def)
  then have stock: "stock_is db' i (c - taken i x)"
    using take_lines_stock [of i c "[x]" st now oid num] Cons.prems(2) by (simp add: x st d)
  have wf: "wf_db db'" using deduct_line_recipes [of st now oid num q rl] Cons.prems(3) by (simp add: st d)
  have "rs \<noteq> []" using Cons.prems(5) by (auto simp: st)
  then have b: "booked db' i = booked db i - taken i x" "fresh_draws rs' db'" "rs' = rs \<or> rs' = tl rs"
    using deduct_line_book [OF d, of i c] Cons.prems(2-4) ok(3) by (simp_all add: st x)
  have "length xs \<le> length rs'" using b(3) Cons.prems(5) by (auto simp: st)
  then show ?case using Cons.IH [OF ok(2), of "(rs', db')"] stock wf b by (simp add: x st d)
qed

lemma release_table_book: "wf_db db \<Longrightarrow> booked (release_table t db) i = booked db i"
  using booked_bump [of db "''table''"] by (simp add: release_table_def split: option.split)

text \<open>The effects of a change of state on the book, whatever the new state is.\<close>

lemma status_effects_book:
  assumes wf: "wf_db db" and stock: "stock_is db i c" and ok: "bom_ok i c (bom db (OrderItems ent))"
    and draws: "fresh_draws rs db" "length (bom db (OrderItems ent)) \<le> length rs"
  shows "\<exists>d. stock_is (status_effects rs now oid st st' ent db) i (c + d)
     \<and> booked (status_effects rs now oid st st' ent db) i = booked db i + d \<and> wf_db (status_effects rs now oid st st' ent db)"
proof -
  let ?t = "Field ent ''table_id''"
  let ?db = "release_table ?t db"
  have r: "wf_db ?db" "recipes ?db = recipes db" using release_table_recipes [OF wf] by simp_all
  have rb: "stock_is ?db i c" "booked ?db i = booked db i"
    using stock release_table_book [OF wf] by (simp_all add: stock_is_def release_table_stock)
  have g: "getEntity ?db (entityKey ''inventory_movement'' j) = getEntity db (entityKey ''inventory_movement'' j)" for j
    by (simp add: release_table_def split: option.split)
  have fd: "fresh_draws rs ?db" using draws(1) by (simp add: fresh_draws_def g)
  have bom: "bom ?db ls = bom db ls" for ls by (simp add: bom_def r(2))
  let ?xs = "bom db (OrderItems ent)"
  let ?s = "fold (take_line now oid (Field ent ''order_number'')) ?xs (rs, ?db)"
  have s: "snd (deduct_order now oid ent (rs, ?db)) = snd ?s"
    using deduct_lines_bom [of "(rs, ?db)"] r(1) bom by (simp add: deduct_order_def)
  have "stock_is (snd ?s) i (c - total_taken i ?xs)" "booked (snd ?s) i = booked db i - total_taken i ?xs" "wf_db (snd ?s)"
    using take_lines_stock [of i c ?xs "(rs, ?db)"] take_lines_book [of i c ?xs "(rs, ?db)"]
      take_lines_recipes [of "(rs, ?db)"] ok rb r(1) fd draws(2) by simp_all
  then show ?thesis using stock rb wf r(1)
    by (cases "st' = ''completed'' \<and> st \<noteq> ''completed''"; cases "st' = ''cancelled''")
      (auto simp: status_effects_def s intro: exI [of _ "- total_taken i ?xs"] exI [of _ 0])
qed

text \<open>
  The operations that touch the stock, with what keeps them inside the book: amounts in whole
  hundredths within range, and identifiers that are new. An operation may also fail.
\<close>

definition in_range :: "string \<Rightarrow> persistedDB \<Rightarrow> bool" where
  "in_range i db \<longleftrightarrow> (\<forall>c. stock_is db i c \<longrightarrow> small c)"

definition hundredths :: "string \<Rightarrow> bool" where
  "hundredths t \<longleftrightarrow> (\<exists>k. amount (TrimSpace t) = Some (of_int k / 100) \<and> small k)"

definition new_movement :: "8 word list option \<Rightarrow> persistedDB \<Rightarrow> bool" where
  "new_movement rnd db \<longleftrightarrow> (\<forall>j. UUID rnd = Inr j \<longrightarrow> getEntity db (entityKey ''inventory_movement'' j) = None)"

inductive stock_step :: "string \<Rightarrow> Store \<Rightarrow> Store \<Rightarrow> bool" for i where
  movement: "RecordStockMovement w rnd rnd2 now ing txType qty uc note s = (s', r) \<Longrightarrow> hundredths qty
    \<Longrightarrow> new_movement rnd (state s) \<Longrightarrow> in_range i (state s) \<Longrightarrow> stock_step i s s'"
| status: "UpdateLocalOrderStatusReason w rs now orderID st reason s = (s', r)
    \<Longrightarrow> (\<And>e c. live (state s) ''order'' orderID = Some e \<Longrightarrow> stock_is (state s) i c
          \<Longrightarrow> bom_ok i c (bom (state s) (OrderItems (entity_view e))) \<and> fresh_draws rs (state s)
            \<and> length (bom (state s) (OrderItems (entity_view e))) \<le> length rs) \<Longrightarrow> stock_step i s s'"
| void: "VoidWasteEvent w w' rnd now now' wasteID s = (s', r)
    \<Longrightarrow> (\<And>db ing qty. VoidWasteEvent_tx now wasteID (state s) = Inr (db, ing, qty) \<Longrightarrow> hundredths qty)
    \<Longrightarrow> new_movement rnd (state s) \<Longrightarrow> in_range i (state s) \<Longrightarrow> stock_step i s s'"

definition book_ok :: "string \<Rightarrow> int \<Rightarrow> persistedDB \<Rightarrow> bool" where
  "book_ok i start db \<longleftrightarrow> wf_db db \<and> stock_is db i (start + booked db i)"

lemma movement_book:
  assumes "RecordStockMovement w rnd rnd2 now ing txType qty uc note s = (s', r)" "hundredths qty"
    "new_movement rnd (state s)" "in_range i (state s)" "book_ok i start (state s)"
  shows "book_ok i start (state s')"
proof -
  obtain k where k: "amount (TrimSpace qty) = Some (of_int k / 100)" "small k" using assms(2) unfolding hundredths_def by blast
  obtain x ok where x: "ParseFloat (TrimSpace qty) = (x, ok)" by force
  have q: "about 1 k x" "ok" using about_parse [OF k(1) small_fits [OF k(2)]] x by simp_all
  have st: "stock_is (state s) i (start + booked (state s) i)" "wf_db (state s)"
    using assms(5) by (simp_all add: book_ok_def)
  have small: "small (start + booked (state s) i)" using st(1) assms(4) by (simp add: in_range_def)
  show ?thesis
  proof (cases "state s' = state s")
    case False
    then obtain movID where j: "UUID rnd = Inr movID" "\<not> f_eq x f_zero"
      and w: "withTx w (RecordStockMovement_tx rnd2 now movID ing txType x uc note) s = (s', r)"
      using assms(1) q(2) by (auto simp: RecordStockMovement_def x split: if_splits sum.splits)
    then obtain m where "RecordStockMovement_tx rnd2 now movID ing txType x uc note (state s) = Inr (state s', m)"
      using False withTx_err withTx_ok by (cases r) fastforce+
    moreover have "getEntity (state s) (entityKey ''inventory_movement'' movID) = None"
      using assms(3) j(1) by (simp add: new_movement_def)
    ultimately obtain d where "wf_db (state s')" "stock_is (state s') i (start + booked (state s) i + d)"
      "booked (state s') i = booked (state s) i + d"
      using RecordStockMovement_tx_book [OF _ st(2) _ st(1) q(1) small k(2)] by blast
    then show ?thesis by (simp add: book_ok_def add.assoc)
  qed (use assms(5) in simp)
qed

lemma status_book:
  assumes "UpdateLocalOrderStatusReason w rs now orderID st reason s = (s', r)" "book_ok i start (state s)"
    and ok: "\<And>e c. live (state s) ''order'' orderID = Some e \<Longrightarrow> stock_is (state s) i c
          \<Longrightarrow> bom_ok i c (bom (state s) (OrderItems (entity_view e))) \<and> fresh_draws rs (state s)
            \<and> length (bom (state s) (OrderItems (entity_view e))) \<le> length rs"
  shows "book_ok i start (state s')"
proof (cases "state s' = state s")
  case False
  then obtain u where tx: "UpdateLocalOrderStatusReason_tx rs now orderID st reason (state s) = Inr (state s', u)"
    using assms(1) withTx_err withTx_ok unfolding UpdateLocalOrderStatusReason_def by (cases r) fastforce+
  then obtain e om where e: "live (state s) ''order'' orderID = Some e" and om: "as_map (se_Payload e) = Some om"
    by (auto simp: UpdateLocalOrderStatusReason_tx_def split: option.splits)
  define p where "p = marshal (moved_order now st reason om)"
  have s': "state s' = putEntity (entityKey ''order'' orderID) (bump p e)
      (status_effects rs now orderID (prev_status om) st (entity_view e) (state s))"
    using tx False by (auto simp: UpdateLocalOrderStatusReason_tx_def Let_def e om p_def split: if_splits)
  have st: "stock_is (state s) i (start + booked (state s) i)" "wf_db (state s)"
    using assms(2) by (simp_all add: book_ok_def)
  let ?db = "status_effects rs now orderID (prev_status om) st (entity_view e) (state s)"
  obtain d where d: "stock_is ?db i (start + booked (state s) i + d)" "booked ?db i = booked (state s) i + d" "wf_db ?db"
    using status_effects_book [OF st(2,1)] ok [OF e st(1)] by blast
  have k: "entityKey (se_Type e) (se_ID e) = entityKey ''order'' orderID" "se_Type e \<noteq> ''inventory_movement''"
    using wf_db_key [OF st(2)] live_type [OF st(2) _ e, of "''inventory_movement''"] e by (auto simp: getEntity_live)
  have "wf_db (state s')" unfolding s' using d(3) k by (intro wf_db_put) auto
  moreover have "booked (state s') i = booked ?db i" unfolding s' using k(2) by (intro booked_put_other [OF d(3)]) simp_all
  ultimately show ?thesis using d(1,2) by (simp add: book_ok_def s' stock_is_other add.assoc)
qed (use assms(2) in simp)

lemma VoidWasteEvent_tx_ok:
  assumes "VoidWasteEvent_tx now wasteID db = Inr (db', ing, qty)"
  obtains e m where "live db ''waste_event'' wasteID = Some e" "as_map (se_Payload e) = Some m" "mget m ''status'' \<noteq> JStr ''voided''"
    "db' = putEntity (entityKey ''waste_event'' wasteID)
      (bump (marshal (set_all [(''status'', JStr ''voided''), (''voided_at'', JStr now)] m)) e) db"
    "ing = text_of (mget m ''ingredient_id'')" "qty = text_of (mget m ''quantity'')"
proof -
  have "mget (set_all [(''status'', JStr ''voided''), (''voided_at'', JStr now)] m) k = mget m k"
    if "k \<notin> {''status'', ''voided_at''}" for m k
    using that by (simp add: mget_def map_of_set_all)
  then show ?thesis using assms that by (fastforce simp: VoidWasteEvent_tx_def Let_def split: option.splits if_splits)
qed

lemma void_book:
  assumes run: "VoidWasteEvent w w' rnd now now' wasteID s = (s', r)"
    and h: "\<And>db ing qty. VoidWasteEvent_tx now wasteID (state s) = Inr (db, ing, qty) \<Longrightarrow> hundredths qty"
    and "new_movement rnd (state s)" "in_range i (state s)" "book_ok i start (state s)"
  shows "book_ok i start (state s')"
proof -
  obtain s1 r1 where w: "withTx w (VoidWasteEvent_tx now wasteID) s = (s1, r1)" by force
  show ?thesis
  proof (cases r1)
    case (Inl er)
    then have "state s1 = state s" "s' = s1" using run w withTx_err by (auto simp: VoidWasteEvent_def)
    then show ?thesis using assms(5) by simp
  next
    case (Inr iq)
    obtain ing qty where iq: "iq = (ing, qty)" by force
    have tx: "VoidWasteEvent_tx now wasteID (state s) = Inr (state s1, ing, qty)"
      using w withTx_ok by (simp add: Inr iq)
    from tx obtain e p where e: "live (state s) ''waste_event'' wasteID = Some e"
      and s1: "state s1 = putEntity (entityKey ''waste_event'' wasteID) (bump p e) (state s)"
      by (rule VoidWasteEvent_tx_ok)
    have wf: "wf_db (state s)" using assms(5) by (simp add: book_ok_def)
    have b: "booked (state s1) i = booked (state s) i" unfolding s1 by (rule booked_bump [OF wf e]) simp_all
    have "book_ok i start (state s1)" "new_movement rnd (state s1)" "in_range i (state s1)"
      using assms(3-5) b wf_db_bump [OF wf e] by (simp_all add: book_ok_def new_movement_def in_range_def s1 stock_is_other)
    then show ?thesis using run h [OF tx] movement_book
      by (auto simp: VoidWasteEvent_def w Inr iq split: if_splits prod.splits sum.splits)
  qed
qed

interpretation stock_book: inv_machine "\<lambda>s. book_ok i start (state s)" "stock_step i" "\<lambda>s. book_ok i start (state s)"
  for i start
proof
  fix s t
  assume "stock_step i s t" "book_ok i start (state s)"
  then show "book_ok i start (state t)"
    by (cases rule: stock_step.cases) (blast intro: movement_book status_book void_book)+
qed


text \<open>
  C19. A movement changes the stock by exactly what it books: with amounts in hundredths
  within range, the new stock, the quantity and the stock after in the movement are those
  of exact arithmetic for the kind of the movement (goods out are never booked beyond zero,
  a count books the difference), and no other ingredient changes.
\<close>

theorem RecordStockMovement_exact:
  assumes run: "RecordStockMovement w rnd rnd2 now ing txType qty unitCost note s = (s', Inr movID)"
    and stock: "stock_is (state s) ing c" "small c"
    and qty: "amount (TrimSpace qty) = Some (of_int k / 100)" "small k"
  shows "stock_is (state s') ing (c + delta_cents txType c k) \<and>
    movement_is (state s') movID ing (booked_as txType) (delta_cents txType c k) (c + delta_cents txType c k) \<and>
    (\<forall>i. i \<noteq> ing \<longrightarrow> live (state s') ''ingredient'' i = live (state s) ''ingredient'' i)"
proof -
  obtain x ok where x: "ParseFloat (TrimSpace qty) = (x, ok)" by force
  have q: "about 1 k x" "ok" using about_parse [OF qty(1) small_fits [OF qty(2)]] x by simp_all
  obtain j where w: "withTx w (RecordStockMovement_tx rnd2 now j ing txType x unitCost note) s = (s', Inr movID)"
    using run by (auto simp: RecordStockMovement_def x split: if_splits sum.splits)
  note tx = withTx_ok [OF w]
  then have "movID = j" by (auto simp: RecordStockMovement_tx_def Let_def split: option.splits prod.splits)
  then show ?thesis using RecordStockMovement_tx_exact [OF tx stock(1) q(1) stock(2) qty(2)] by simp
qed

text \<open>A cancelled event stays cancelled: every further attempt fails and changes nothing.\<close>

definition is_voided :: "persistedDB \<Rightarrow> string \<Rightarrow> bool" where
  "is_voided db wasteID \<longleftrightarrow> (\<exists>e m. live db ''waste_event'' wasteID = Some e \<and> as_map (se_Payload e) = Some m
     \<and> mget m ''status'' = JStr ''voided'')"

lemma void_again:
  assumes "is_voided (state s) wasteID"
  shows "state (fst (VoidWasteEvent w w' rnd n n' wasteID s)) = state s \<and> isl (snd (VoidWasteEvent w w' rnd n n' wasteID s))"
proof -
  have f: "VoidWasteEvent_tx n wasteID (state s) = Inl (EStock ErrWasteVoided)"
    using assms by (auto simp: is_voided_def VoidWasteEvent_tx_def)
  obtain s1 r1 where w: "withTx w (VoidWasteEvent_tx n wasteID) s = (s1, r1)" by force
  have "r1 \<noteq> Inr a" for a using withTx_ok [of w "VoidWasteEvent_tx n wasteID" s s1 a] w f by auto
  then obtain er where "r1 = Inl er" by (cases r1) auto
  then show ?thesis using w withTx_err by (auto simp: VoidWasteEvent_def)
qed

lemma void_first:
  assumes "withTx w (VoidWasteEvent_tx now wasteID) s = (s1, Inr (ing, qty))"
    and "live (state s) ''waste_event'' wasteID = Some e" "as_map (se_Payload e) = Some m"
  shows "ing = text_of (mget m ''ingredient_id'') \<and> qty = text_of (mget m ''quantity'') \<and> is_voided (state s1) wasteID
    \<and> (\<forall>i c. stock_is (state s1) i c = stock_is (state s) i c) \<and> (\<forall>i. live (state s1) ''ingredient'' i = live (state s) ''ingredient'' i)"
proof -
  let ?m = "set_all [(''status'', JStr ''voided''), (''voided_at'', JStr now)] m"
  have s1: "state s1 = putEntity (entityKey ''waste_event'' wasteID) (bump (marshal ?m) e) (state s)"
    and iq: "ing = text_of (mget m ''ingredient_id'')" "qty = text_of (mget m ''quantity'')"
    using withTx_ok [OF assms(1)] assms(2,3) by (auto elim!: VoidWasteEvent_tx_ok)
  have "gmap ?m" using assms(3) by (simp add: as_map_gmap)
  moreover have "\<not> se_Deleted e" using assms(2) by (simp add: getEntity_live)
  ultimately have "is_voided (state s1) wasteID"
    by (simp add: is_voided_def s1 mget_def map_of_sort map_of_set_all)
  then show ?thesis using iq by (simp add: s1 stock_is_other)
qed

lemma movement_keeps_waste:
  assumes "RecordStockMovement w rnd rnd2 now ing ''adjustment'' qty uc note s = (s', r)" "is_voided (state s) wasteID"
  shows "is_voided (state s') wasteID"
proof (cases "state s' = state s")
  case False
  obtain x ok where x: "ParseFloat (TrimSpace qty) = (x, ok)" by force
  obtain movID where w: "withTx w (RecordStockMovement_tx rnd2 now movID ing ''adjustment'' x uc note) s = (s', r)"
    using assms(1) False by (auto simp: RecordStockMovement_def x split: if_splits sum.splits)
  then obtain m where "RecordStockMovement_tx rnd2 now movID ing ''adjustment'' x uc note (state s) = Inr (state s', m)"
    using False withTx_err withTx_ok by (cases r) fastforce+
  then have "live (state s') ''waste_event'' wasteID = live (state s) ''waste_event'' wasteID"
    by (auto simp: RecordStockMovement_tx_def stock_delta_def Let_def split: option.splits elim!: subst)
  then show ?thesis using assms(2) by (simp add: is_voided_def)
qed (use assms(2) in simp)

lemma cents_not_zero_text: "shows_cents k q \<Longrightarrow> q \<noteq> [] \<and> q \<noteq> ''0''"
  by (auto simp: shows_cents_def cents_def cents_text_def Cons_eq_append_conv append_eq_Cons_conv)

text \<open>
  Cancelling waste returns it to the stock once: after a successful cancellation the
  ingredient has the wasted amount back, and every later attempt on the same event fails and
  changes nothing.
\<close>

theorem VoidWasteEvent_returns_once:
  assumes run: "VoidWasteEvent w w' rnd now now' wasteID s = (s', Inr ())"
    and event: "live (state s) ''waste_event'' wasteID = Some e" "as_map (se_Payload e) = Some m"
      "map_of m ''ingredient_id'' = Some (JStr i)" "i \<noteq> []" "map_of m ''quantity'' = Some (JStr q)" "shows_cents k q" "small k"
    and stock: "stock_is (state s) i c" "small c"
  shows "stock_is (state s') i (c + k) \<and>
    (\<forall>w2 w3 rnd2 n n'. state (fst (VoidWasteEvent w2 w3 rnd2 n n' wasteID s')) = state s' \<and>
       isl (snd (VoidWasteEvent w2 w3 rnd2 n n' wasteID s')))"
proof -
  obtain s1 ing qty where w: "withTx w (VoidWasteEvent_tx now wasteID) s = (s1, Inr (ing, qty))"
    using run by (auto simp: VoidWasteEvent_def split: prod.splits sum.splits)
  have 1: "ing = i" "qty = q" "is_voided (state s1) wasteID" "stock_is (state s1) i c"
    using void_first [OF w event(1,2)] event(3,5) stock(1) by (simp_all add: mget_def text_of_def)
  obtain movID where mv: "RecordStockMovement w' rnd None now' i ''adjustment'' q [] fa_void_waste s1 = (s', Inr movID)"
    using run w cents_not_zero_text [OF event(6)] event(4)
    by (auto simp: VoidWasteEvent_def 1(1,2) split: prod.splits sum.splits)
  obtain x ok where x: "ParseFloat q = (x, ok)" by force
  have ab: "about 1 k x" using about_parse [OF shows_cents_amount [OF event(6)] small_fits [OF event(7)]] x by simp
  obtain j where "RecordStockMovement_tx None now' j i ''adjustment'' x [] fa_void_waste (state s1) = Inr (state s', movID)"
    using mv cents_trim [OF event(6)] by (auto simp: RecordStockMovement_def x split: if_splits sum.splits dest: withTx_ok)
  then have "stock_is (state s') i (c + k)"
    using RecordStockMovement_tx_exact [OF _ 1(4) ab stock(2) event(7)] by (fastforce simp: delta_cents_def)
  moreover have "is_voided (state s') wasteID" by (rule movement_keeps_waste [OF mv 1(3)])
  ultimately show ?thesis using void_again by blast
qed

text \<open>
  The cancellation is two transactions. When the second one cannot run, here because the
  ingredient has been deleted, the caller gets an error, yet the event is already cancelled:
  the wasted amount is never returned, and trying again is refused.
\<close>

theorem VoidWasteEvent_half_done:
  assumes "\<not> Store.closed s" "live (state s) ''waste_event'' wasteID = Some e" "as_map (se_Payload e) = Some m"
    "mget m ''status'' \<noteq> JStr ''voided''"
    "map_of m ''ingredient_id'' = Some (JStr i)" "i \<noteq> []" "map_of m ''quantity'' = Some (JStr q)" "shows_cents k q"
    "live (state s) ''ingredient'' i = None"
  shows "isl (snd (VoidWasteEvent all_ok w' rnd now now' wasteID s)) \<and>
    is_voided (state (fst (VoidWasteEvent all_ok w' rnd now now' wasteID s))) wasteID"
proof -
  let ?m = "set_all [(''status'', JStr ''voided''), (''voided_at'', JStr now)] m"
  have "VoidWasteEvent_tx now wasteID (state s) =
      Inr (putEntity (entityKey ''waste_event'' wasteID) (bump (marshal ?m) e) (state s), (i, q))"
    using assms(2-8) by (simp add: VoidWasteEvent_tx_def mget_def map_of_set_all text_of_def)
  from withTx_all_ok [of s "VoidWasteEvent_tx now wasteID", OF assms(1) this]
  obtain s1 where w: "withTx all_ok (VoidWasteEvent_tx now wasteID) s = (s1, Inr (i, q))" by simp
  have v: "is_voided (state s1) wasteID" "live (state s1) ''ingredient'' i = None"
    using void_first [OF w assms(2,3)] assms(9) by simp_all
  obtain s2 r where mv: "RecordStockMovement w' rnd None now' i ''adjustment'' q [] fa_void_waste s1 = (s2, r)" by force
  have "isl r"
  proof (rule ccontr)
    assume "\<not> isl r"
    then obtain j where r: "r = Inr j" by (cases r) auto
    obtain x ok where x: "ParseFloat (TrimSpace q) = (x, ok)" by force
    from mv obtain j' where "RecordStockMovement_tx None now' j' i ''adjustment'' x [] fa_void_waste (state s1) = Inr (state s2, j)"
      by (auto simp: RecordStockMovement_def x r split: if_splits sum.splits dest: withTx_ok)
    then show False using v(2) by (simp add: RecordStockMovement_tx_def)
  qed
  then show ?thesis using w mv v(1) movement_keeps_waste [OF mv] cents_not_zero_text [OF assms(8)] assms(6)
    by (auto simp: VoidWasteEvent_def isl_def)
qed

section \<open>Witnesses\<close>

definition demo_ent :: "string \<Rightarrow> string \<Rightarrow> fields \<Rightarrow> persistedDB \<Rightarrow> persistedDB" where
  "demo_ent kind i m db = putEntity (entityKey kind i) (new_record kind i m) db"

text \<open>A kitchen with ten litres of milk, a recipe that takes a tenth of one, an order for three, and a waste event.\<close>

definition demo_kitchen :: Store where
  "demo_kitchen = demo_store\<lparr>state :=
     demo_ent ''waste_event'' ''w1'' [(''ingredient_id'', JStr ''i1''), (''quantity'', JStr ''0.50'')]
      (demo_ent ''order'' ''o1'' [(''items'', JArr [JObj [(''product_id'', JStr ''p1''), (''quantity'', JNum ''3'')]]), (''status'', JStr ''ready'')]
       (demo_ent ''recipe'' ''r1'' [(''items'', JArr [JObj [(''ingredient_id'', JStr ''i1''), (''quantity'', JStr ''0.1'')]]), (''product_id'', JStr ''p1'')]
        (demo_ent ''ingredient'' ''i1'' [(''current_stock'', JStr ''10.00''), (''name'', JStr ''Milk'')] newEmptyDB)))\<rparr>"

lemma demo_cents: "shows_cents 1000 ''10.00''" "shows_cents 50 ''0.50''"
  by code_simp+

lemma demo_amount: "amount ''0.1'' = Some (1 / 10)"
  by code_simp

abbreviation demo_order_fields :: fields where
  "demo_order_fields \<equiv> [(''items'', JArr [JObj [(''product_id'', JStr ''p1''), (''quantity'', JNum ''3'')]]), (''status'', JStr ''ready'')]"

abbreviation demo_recipe_fields :: fields where
  "demo_recipe_fields \<equiv> [(''items'', JArr [JObj [(''ingredient_id'', JStr ''i1''), (''quantity'', JStr ''0.1'')]]), (''product_id'', JStr ''p1'')]"

lemma demo_marshal: "marshal demo_order_fields = JObj demo_order_fields" "marshal demo_recipe_fields = JObj demo_recipe_fields"
  by code_simp+

lemma demo_live:
  "live (state demo_kitchen) ''ingredient'' ''i1'' = Some (new_record ''ingredient'' ''i1'' [(''current_stock'', JStr ''10.00''), (''name'', JStr ''Milk'')])"
  "live (state demo_kitchen) ''order'' ''o1'' = Some (new_record ''order'' ''o1'' demo_order_fields)"
  "live (state demo_kitchen) ''waste_event'' ''w1'' = Some (new_record ''waste_event'' ''w1'' [(''ingredient_id'', JStr ''i1''), (''quantity'', JStr ''0.50'')])"
  by (simp_all add: demo_kitchen_def demo_ent_def new_record_def entityKey_def)

lemma wf_demo_kitchen: "wf_db (state demo_kitchen)"
  by (simp add: demo_kitchen_def demo_ent_def wf_db_new wf_db_empty)

lemma demo_stock: "stock_is (state demo_kitchen) ''i1'' 1000"
  using demo_cents(1) by (simp add: stock_is_def demo_live new_record_def gmap_def map_of_sort)

lemma demo_recipes: "recipes (state demo_kitchen) = [new_record ''recipe'' ''r1'' demo_recipe_fields]"
  by (simp add: recipes_def demo_kitchen_def demo_ent_def putEntity_def newEmptyDB_def new_record_def entityKey_def)

lemma demo_bom: "bom (state demo_kitchen) (OrderItems (entity_view (new_record ''order'' ''o1'' demo_order_fields)))
   = [(3, \<lparr> rl_IngredientID = ''i1'', rl_IngredientName = [], rl_Quantity = ''0.1'', rl_Unit = [] \<rparr>)]"
  unfolding bom_def demo_recipes new_record_def entity_view_def demo_marshal by code_simp

lemma demo_bom_ok: "bom_ok ''i1'' 1000 [(3, \<lparr> rl_IngredientID = ''i1'', rl_IngredientName = [], rl_Quantity = ''0.1'', rl_Unit = [] \<rparr>)]"
  by (simp add: bom_ok_def line_ok_def taken_def cents_of_def demo_amount small_def)

definition demo_complete :: "Store \<times> (err + unit)" where
  "demo_complete = UpdateLocalOrderStatusReason all_ok [demo_uuid 1] ''t1'' ''o1'' ''completed'' [] demo_kitchen"

lemma demo_complete_run: "demo_complete = (fst demo_complete, Inr ())"
proof -
  have "norm_status ''ready'' = ''ready''" "norm_status ''completed'' = ''completed''" by (rule norm_literals)+
  then have "validOrderTransition ''ready'' ''completed''" "\<not> EqualFold ''ready'' ''completed''"
    by (simp_all add: validOrderTransition_def allowedOrderTransitions_def EqualFold_def HasPrefix_def lower_ascii_def)
  moreover have "as_map (marshal demo_order_fields) = Some demo_order_fields" by (simp add: demo_marshal gmap_def)
  ultimately have "\<exists>db. UpdateLocalOrderStatusReason_tx [demo_uuid 1] ''t1'' ''o1'' ''completed'' [] (state demo_kitchen) = Inr (db, ())"
    by (simp add: UpdateLocalOrderStatusReason_tx_def demo_live new_record_def prev_status_def mget_def Let_def)
  then obtain db where tx: "UpdateLocalOrderStatusReason_tx [demo_uuid 1] ''t1'' ''o1'' ''completed'' [] (state demo_kitchen) = Inr (db, ())" ..
  have "\<not> Store.closed demo_kitchen" by (simp add: demo_kitchen_def demo_store_def)
  from withTx_all_ok [of demo_kitchen "UpdateLocalOrderStatusReason_tx [demo_uuid 1] ''t1'' ''o1'' ''completed'' []", OF this tx]
  show ?thesis by (simp add: demo_complete_def UpdateLocalOrderStatusReason_def)
qed


lemma demo_qty: "ParseFloat (TrimSpace ''0.50'') = (fst (ParseFloat ''0.50''), True)" "\<not> f_eq (fst (ParseFloat ''0.50'')) f_zero"
proof -
  have "snd (ParseFloat ''0.50'')" using about_parse [OF shows_cents_amount [OF demo_cents(2)]] by (simp add: fits_def)
  then show "ParseFloat (TrimSpace ''0.50'') = (fst (ParseFloat ''0.50''), True)"
    using cents_trim [OF demo_cents(2)] by (simp add: prod_eq_iff)
  show "\<not> f_eq (fst (ParseFloat ''0.50'')) f_zero" by code_simp
qed

definition demo_move :: "Store \<times> (err + string)" where
  "demo_move = RecordStockMovement all_ok (demo_uuid 1) None ''t1'' ''i1'' ''outgoing'' ''0.50'' [] [] demo_kitchen"

lemma demo_move_run: "demo_move = (fst demo_move, Inr (demo_id 1))"
proof -
  let ?f = "RecordStockMovement_tx None ''t1'' (demo_id 1) ''i1'' ''outgoing'' (fst (ParseFloat ''0.50'')) [] []"
  have "\<exists>db. ?f (state demo_kitchen) = Inr (db, demo_id 1)"
    by (simp add: RecordStockMovement_tx_def demo_live new_record_def gmap_def Let_def split: prod.split)
  then obtain db where tx: "?f (state demo_kitchen) = Inr (db, demo_id 1)" ..
  have "\<not> Store.closed demo_kitchen" by (simp add: demo_kitchen_def demo_store_def)
  from withTx_all_ok [of demo_kitchen ?f, OF this tx] demo_qty
  show ?thesis by (simp add: demo_move_def RecordStockMovement_def demo_id_eq)
qed

theorem RecordStockMovement_exact_witness:
  "stock_is (state (fst demo_move)) ''i1'' 950 \<and> movement_is (state (fst demo_move)) (demo_id 1) ''i1'' ''consumption'' (- 50) 950"
proof -
  have "RecordStockMovement all_ok (demo_uuid 1) None ''t1'' ''i1'' ''outgoing'' ''0.50'' [] [] demo_kitchen = (fst demo_move, Inr (demo_id 1))"
    using demo_move_run by (simp add: demo_move_def)
  moreover have "amount (TrimSpace ''0.50'') = Some (of_int 50 / 100)"
    using shows_cents_amount [OF demo_cents(2)] cents_trim [OF demo_cents(2)] by simp
  ultimately show ?thesis
    using RecordStockMovement_exact [of all_ok "demo_uuid 1" None "''t1''" "''i1''" "''outgoing''" "''0.50''" "[]" "[]" demo_kitchen
        "fst demo_move" "demo_id 1" 1000 50] demo_stock
    by (simp add: small_def delta_cents_def booked_as_def)
qed


definition demo_void :: "Store \<times> (err + unit)" where
  "demo_void = VoidWasteEvent all_ok all_ok (demo_uuid 1) ''t1'' ''t2'' ''w1'' demo_kitchen"

lemma demo_void_run: "demo_void = (fst demo_void, Inr ())"
proof -
  let ?f = "VoidWasteEvent_tx ''t1'' ''w1''" and ?x = "fst (ParseFloat ''0.50'')"
  have "\<exists>db. ?f (state demo_kitchen) = Inr (db, (''i1'', ''0.50''))"
    by (simp add: VoidWasteEvent_tx_def demo_live new_record_def gmap_def mget_def map_of_sort map_of_set_all text_of_def)
  then obtain db where tx: "?f (state demo_kitchen) = Inr (db, (''i1'', ''0.50''))" ..
  have "\<not> Store.closed demo_kitchen" by (simp add: demo_kitchen_def demo_store_def)
  from withTx_all_ok [of demo_kitchen ?f, OF this tx] obtain s1 where
    w: "withTx all_ok ?f demo_kitchen = (s1, Inr (''i1'', ''0.50''))" and c1: "\<not> Store.closed s1"
    using withTx_still_open \<open>\<not> Store.closed demo_kitchen\<close> by fastforce
  have l: "live (state s1) ''ingredient'' ''i1'' = live (state demo_kitchen) ''ingredient'' ''i1''"
    using void_first [OF w demo_live(3)] by (simp add: new_record_def gmap_def)
  let ?g = "RecordStockMovement_tx None ''t2'' (demo_id 1) ''i1'' ''adjustment'' ?x [] fa_void_waste"
  have "\<exists>db. ?g (state s1) = Inr (db, demo_id 1)"
    by (simp add: RecordStockMovement_tx_def l demo_live new_record_def gmap_def Let_def split: prod.split)
  then obtain db2 where tx2: "?g (state s1) = Inr (db2, demo_id 1)" ..
  from withTx_all_ok [of s1 ?g, OF c1 tx2] demo_qty
  show ?thesis by (simp add: demo_void_def VoidWasteEvent_def w RecordStockMovement_def demo_id_eq)
qed

theorem VoidWasteEvent_returns_once_witness:
  "stock_is (state (fst demo_void)) ''i1'' 1050 \<and> isl (snd (VoidWasteEvent all_ok all_ok (demo_uuid 2) ''t3'' ''t4'' ''w1'' (fst demo_void)))"
proof -
  let ?m = "[(''ingredient_id'', JStr ''i1''), (''quantity'', JStr ''0.50'')]"
  have "VoidWasteEvent all_ok all_ok (demo_uuid 1) ''t1'' ''t2'' ''w1'' demo_kitchen = (fst demo_void, Inr ())"
    using demo_void_run by (simp add: demo_void_def)
  moreover have "as_map (se_Payload (new_record ''waste_event'' ''w1'' ?m)) = Some (sort_key fst ?m)"
    by (simp add: new_record_def gmap_def)
  moreover have "map_of (sort_key fst ?m) k = map_of ?m k" for k by (simp add: map_of_sort gmap_def)
  ultimately show ?thesis
    using VoidWasteEvent_returns_once [of all_ok all_ok "demo_uuid 1" "''t1''" "''t2''" "''w1''" demo_kitchen "fst demo_void"
        "new_record ''waste_event'' ''w1'' ?m" "sort_key fst ?m" "''i1''" "''0.50''" 50 1000] demo_live(3) demo_stock demo_cents(2)
    by (simp add: small_def)
qed

theorem VoidWasteEvent_half_done_witness:
  "is_voided (state (fst (VoidWasteEvent all_ok all_ok (demo_uuid 1) ''t1'' ''t2'' ''w1''
     (demo_store\<lparr>state := demo_ent ''waste_event'' ''w1'' [(''ingredient_id'', JStr ''i1''), (''quantity'', JStr ''0.50'')] newEmptyDB\<rparr>)))) ''w1''"
proof -
  let ?m = "[(''ingredient_id'', JStr ''i1''), (''quantity'', JStr ''0.50'')]"
  let ?s = "demo_store\<lparr>state := demo_ent ''waste_event'' ''w1'' ?m newEmptyDB\<rparr>"
  have "live (state ?s) ''waste_event'' ''w1'' = Some (new_record ''waste_event'' ''w1'' ?m)" "live (state ?s) ''ingredient'' ''i1'' = None"
    by (simp_all add: demo_ent_def new_record_def) (simp add: live_def newEmptyDB_def)
  moreover have "as_map (se_Payload (new_record ''waste_event'' ''w1'' ?m)) = Some (sort_key fst ?m)"
    by (simp add: new_record_def gmap_def)
  moreover have "map_of (sort_key fst ?m) k = map_of ?m k" for k by (simp add: map_of_sort gmap_def)
  moreover have "\<not> Store.closed ?s" by (simp add: demo_store_def)
  ultimately show ?thesis
    using VoidWasteEvent_half_done [of ?s "''w1''" "new_record ''waste_event'' ''w1'' ?m" "sort_key fst ?m" "''i1''" "''0.50''" 50]
      demo_cents(2) by (simp add: mget_def)
qed

end
