(* ===== verification/Reports.thy ===== *)
theory Reports
  imports Inventory Go_Time
begin

text \<open>
  What the client reports about its own data: the counters of \<open>Stats\<close>, the money of
  \<open>Analytics\<close> (\<open>internal/store/store.go\<close> and \<open>domains.go\<close>), and the labels of a record's
  state. The loops are modelled as they run, one entity after the other in the order of the
  map; the theorem gives the sums they compute.
\<close>

section \<open>Counters\<close>

record SummaryStats =
  CategoriesCount :: int
  ProductsCount :: int
  IngredientsCount :: int
  LowStockCount :: int
  OrdersCount :: int
  OpenOrdersCount :: int
  RecipesCount :: int
  BannersCount :: int
  TablesCount :: int
  CustomersCount :: int
  DebtorsCount :: int
  LegacyStockCountN :: int
  OutboxQueuedCount :: int
  OutboxBlocked :: int
  OutboxApplied :: int

definition no_stats :: SummaryStats where
  "no_stats = \<lparr> CategoriesCount = 0, ProductsCount = 0, IngredientsCount = 0, LowStockCount = 0, OrdersCount = 0,
     OpenOrdersCount = 0, RecipesCount = 0, BannersCount = 0, TablesCount = 0, CustomersCount = 0, DebtorsCount = 0,
     LegacyStockCountN = 0, OutboxQueuedCount = 0, OutboxBlocked = 0, OutboxApplied = 0 \<rparr>"

definition count_entity :: "storedEntity \<Rightarrow> SummaryStats \<Rightarrow> SummaryStats" where
  "count_entity e st =
    (let k = se_Type e; ent = entity_view e
     in if se_Deleted e then st
        else if k = ''category'' then st\<lparr>CategoriesCount := CategoriesCount st + 1\<rparr>
        else if k = ''product'' then st\<lparr>ProductsCount := ProductsCount st + 1\<rparr>
        else if k = ''ingredient'' then
          st\<lparr>IngredientsCount := IngredientsCount st + 1, LowStockCount := LowStockCount st + (if NeedsReorder ent then 1 else 0)\<rparr>
        else if k = ''order'' then
          st\<lparr>OrdersCount := OrdersCount st + 1, OpenOrdersCount := OpenOrdersCount st +
             (if ToLower (Field ent ''status'') \<in> {[], ''pending'', ''accepted'', ''preparing'', ''ready''} then 1 else 0)\<rparr>
        else if k = ''recipe'' then st\<lparr>RecipesCount := RecipesCount st + 1\<rparr>
        else if k = ''banner'' then st\<lparr>BannersCount := BannersCount st + 1\<rparr>
        else if k = ''table'' then st\<lparr>TablesCount := TablesCount st + 1\<rparr>
        else if k = ''customer'' then st\<lparr>CustomersCount := CustomersCount st + 1\<rparr>
        else if k = ''debtor'' then st\<lparr>DebtorsCount := DebtorsCount st + 1\<rparr>
        else st)"

definition count_op :: "storedOperation \<Rightarrow> SummaryStats \<Rightarrow> SummaryStats" where
  "count_op op st =
    (if so_State op \<in> {''queued'', ''retry'', ''not_processed''} then st\<lparr>OutboxQueuedCount := OutboxQueuedCount st + 1\<rparr>
     else if so_State op \<in> {''conflict'', ''rejected'', ''skipped''} then st\<lparr>OutboxBlocked := OutboxBlocked st + 1\<rparr>
     else if so_State op = ''applied'' then st\<lparr>OutboxApplied := OutboxApplied st + 1\<rparr>
     else st)"

definition Stats :: "persistedDB \<Rightarrow> SummaryStats" where
  "Stats db =
    (let st = fold count_entity (map snd (Entities db)) no_stats;
         st = st\<lparr>LegacyStockCountN := int (length (LegacyStockCounts db))\<rparr>
     in fold count_op (Outbox db) st)"

section \<open>Money\<close>

record FinancialAnalytics =
  TotalSalesIRR :: string
  CashSalesIRR :: string
  CardSalesIRR :: string
  CreditSalesIRR :: string
  TotalExpensesIRR :: string
  TotalReceivablesIRR :: string
  NetOperatingIRR :: string
  CompletedOrders :: int
  OpenOrders :: int
  CancelledOrders :: int
  OccupiedTables :: int
  TotalTables :: int
  PendingTasks :: int
  CompletedTasks :: int
  ActiveStaff :: int

text \<open>The running totals of the loop, as exact integers.\<close>

record tally =
  ta_sales :: int
  ta_cash :: int
  ta_card :: int
  ta_credit :: int
  ta_expenses :: int
  ta_receivables :: int
  ta_completed :: int
  ta_open :: int
  ta_cancelled :: int
  ta_occupied :: int
  ta_tables :: int
  ta_pending :: int
  ta_done :: int
  ta_staff :: int

definition no_tally :: tally where
  "no_tally = \<lparr> ta_sales = 0, ta_cash = 0, ta_card = 0, ta_credit = 0, ta_expenses = 0, ta_receivables = 0,
     ta_completed = 0, ta_open = 0, ta_cancelled = 0, ta_occupied = 0, ta_tables = 0, ta_pending = 0, ta_done = 0, ta_staff = 0 \<rparr>"

text \<open>The period; the zero time (\<open>None\<close>) means all of it.\<close>

definition in_period :: "gotime option \<Rightarrow> Entity \<Rightarrow> bool" where
  "in_period since ent \<longleftrightarrow>
    (case since of
       Some t \<Rightarrow> en_Type ent \<in> {''order'', ''expense''} \<longrightarrow>
         (case parse_time RFC3339 (Field ent ''created_at'') of None \<Rightarrow> False | Some ct \<Rightarrow> \<not> ct < t)
     | None \<Rightarrow> True)"

definition order_status :: "Entity \<Rightarrow> string" where
  "order_status ent = ToLower (Field ent ''status'')"

definition tally_order :: "Entity \<Rightarrow> tally \<Rightarrow> tally" where
  "tally_order ent ta =
    (let status = order_status ent; amt = parseBigIntSafe (PriceIRR ent); pay = Field ent ''payment_method''
     in if status = ''cancelled'' \<or> status = ''canceled'' then ta\<lparr>ta_cancelled := ta_cancelled ta + 1\<rparr>
        else if status = ''completed'' then
          (let ta = ta\<lparr>ta_completed := ta_completed ta + 1, ta_sales := ta_sales ta + amt\<rparr>
           in if pay = ''cash'' then ta\<lparr>ta_cash := ta_cash ta + amt\<rparr>
              else if pay = ''credit_debtor'' then ta\<lparr>ta_credit := ta_credit ta + amt\<rparr>
              else ta\<lparr>ta_card := ta_card ta + amt\<rparr>)
        else ta\<lparr>ta_open := ta_open ta + 1\<rparr>)"

definition tally_entity :: "gotime option \<Rightarrow> storedEntity \<Rightarrow> tally \<Rightarrow> tally" where
  "tally_entity since e ta =
    (let ent = entity_view e; k = se_Type e
     in if se_Deleted e \<or> \<not> in_period since ent then ta
        else if k = ''order'' then tally_order ent ta
        else if k = ''expense'' then ta\<lparr>ta_expenses := ta_expenses ta + parseBigIntSafe (PriceIRR ent)\<rparr>
        else if k = ''debtor'' then ta\<lparr>ta_receivables := ta_receivables ta + parseBigIntSafe (Field ent ''remaining'')\<rparr>
        else if k = ''table'' then
          ta\<lparr>ta_tables := ta_tables ta + 1,
             ta_occupied := ta_occupied ta + (if Field ent ''status'' = ''occupied'' \<or> Field ent ''status'' = ''reserved'' then 1 else 0)\<rparr>
        else if k = ''task'' then
          (if Field ent ''is_done'' = ''true'' \<or> Field ent ''status'' = ''done''
           then ta\<lparr>ta_done := ta_done ta + 1\<rparr> else ta\<lparr>ta_pending := ta_pending ta + 1\<rparr>)
        else if k = ''staff'' then ta\<lparr>ta_staff := ta_staff ta + 1\<rparr>
        else ta)"

definition tally_report :: "tally \<Rightarrow> FinancialAnalytics" where
  "tally_report ta =
    \<lparr> TotalSalesIRR = Itoa (ta_sales ta), CashSalesIRR = Itoa (ta_cash ta), CardSalesIRR = Itoa (ta_card ta),
      CreditSalesIRR = Itoa (ta_credit ta), TotalExpensesIRR = Itoa (ta_expenses ta),
      TotalReceivablesIRR = Itoa (ta_receivables ta), NetOperatingIRR = Itoa (ta_sales ta - ta_expenses ta),
      CompletedOrders = ta_completed ta, OpenOrders = ta_open ta, CancelledOrders = ta_cancelled ta,
      OccupiedTables = ta_occupied ta, TotalTables = ta_tables ta, PendingTasks = ta_pending ta,
      CompletedTasks = ta_done ta, ActiveStaff = ta_staff ta \<rparr>"

definition analyticsRange :: "gotime option \<Rightarrow> persistedDB \<Rightarrow> FinancialAnalytics" where
  "analyticsRange since db = tally_report (fold (tally_entity since) (map snd (Entities db)) no_tally)"

definition Analytics :: "persistedDB \<Rightarrow> FinancialAnalytics" where
  "Analytics db = analyticsRange None db"

definition AnalyticsSince :: "gotime \<Rightarrow> persistedDB \<Rightarrow> FinancialAnalytics" where
  "AnalyticsSince since db = analyticsRange (Some since) db"

section \<open>Labels\<close>

definition StatusLabelOf :: "Entity \<Rightarrow> string" where
  "StatusLabelOf e =
    (let st = ToLower (Field e ''status'')
     in if en_Type e = ''product'' then
          (if Field e ''is_available'' = ''false'' \<or> EqualFold (Field e ''status'') ''inactive'' then (fa [0x646, 0x627, 0x645, 0x648, 0x62C, 0x648, 0x62F]) else (fa [0x645, 0x648, 0x62C, 0x648, 0x62F, 0x20, 0x62F, 0x631, 0x20, 0x645, 0x646, 0x648]))
        else if en_Type e = ''banner'' then (if Field e ''is_active'' = ''false'' then (fa [0x63A, 0x6CC, 0x631, 0x641, 0x639, 0x627, 0x644]) else (fa [0x641, 0x639, 0x627, 0x644]))
        else if en_Type e = ''order'' \<or> en_Type e = ''order_status'' then
          (if st = ''completed'' then (fa [0x62A, 0x6A9, 0x645, 0x6CC, 0x644, 0x20, 0x634, 0x62F, 0x647])
           else if st = ''cancelled'' \<or> st = ''canceled'' then (fa [0x644, 0x63A, 0x648, 0x20, 0x634, 0x62F, 0x647])
           else if st = ''refunded'' then (fa [0x628, 0x627, 0x632, 0x6AF, 0x634, 0x62A, 0x20, 0x648, 0x62C, 0x647])
           else if st = ''preparing'' then (fa [0x62F, 0x631, 0x20, 0x62D, 0x627, 0x644, 0x20, 0x622, 0x645, 0x627, 0x62F, 0x647, 0x200C, 0x633, 0x627, 0x632, 0x6CC])
           else if st = ''ready'' then (fa [0x622, 0x645, 0x627, 0x62F, 0x647, 0x20, 0x62A, 0x62D, 0x648, 0x6CC, 0x644])
           else if st = ''accepted'' then (fa [0x62A, 0x623, 0x6CC, 0x6CC, 0x62F, 0x20, 0x634, 0x62F, 0x647, 0x20, 0x28, 0x635, 0x646, 0x62F, 0x648, 0x642, 0x62F, 0x627, 0x631, 0x29])
           else (fa [0x62F, 0x631, 0x20, 0x627, 0x646, 0x62A, 0x638, 0x627, 0x631, 0x20, 0x62A, 0x623, 0x6CC, 0x6CC, 0x62F, 0x20, 0x635, 0x646, 0x62F, 0x648, 0x642, 0x62F, 0x627, 0x631]))
        else if en_Type e = ''table'' then
          (if st = ''occupied'' then (fa [0x627, 0x634, 0x63A, 0x627, 0x644, 0x20, 0x28, 0x62F, 0x627, 0x631, 0x627, 0x6CC, 0x20, 0x645, 0x647, 0x645, 0x627, 0x646, 0x29])
           else if st = ''reserved'' then (fa [0x631, 0x632, 0x631, 0x648, 0x20, 0x634, 0x62F, 0x647])
           else if st = ''cleaning'' then (fa [0x62F, 0x631, 0x20, 0x62D, 0x627, 0x644, 0x20, 0x646, 0x638, 0x627, 0x641, 0x62A])
           else if st = ''disabled'' then (fa [0x63A, 0x6CC, 0x631, 0x641, 0x639, 0x627, 0x644])
           else (fa [0x622, 0x632, 0x627, 0x62F, 0x20, 0x648, 0x20, 0x622, 0x645, 0x627, 0x62F, 0x647, 0x20, 0x67E, 0x630, 0x6CC, 0x631, 0x634]))
        else if en_Type e = ''debtor'' then
          (if st = ''paid'' then (fa [0x62A, 0x633, 0x648, 0x6CC, 0x647, 0x20, 0x634, 0x62F, 0x647])
           else if st = ''partial'' then (fa [0x67E, 0x631, 0x62F, 0x627, 0x62E, 0x62A, 0x20, 0x628, 0x62E, 0x634, 0x6CC, 0x20, 0x627, 0x632, 0x20, 0x628, 0x62F, 0x647, 0x6CC])
           else if st = ''overdue'' then (fa [0x633, 0x631, 0x631, 0x633, 0x6CC, 0x62F, 0x20, 0x6AF, 0x630, 0x634, 0x62A, 0x647])
           else (fa [0x628, 0x62F, 0x647, 0x6A9, 0x627, 0x631, 0x20, 0x28, 0x628, 0x627, 0x632, 0x29]))
        else if NeedsReorder e then (fa [0x646, 0x6CC, 0x627, 0x632, 0x20, 0x628, 0x647, 0x20, 0x634, 0x627, 0x631, 0x698, 0x20, 0x627, 0x646, 0x628, 0x627, 0x631])
        else (fa [0x641, 0x639, 0x627, 0x644]))"

definition StatusClassOf :: "Entity \<Rightarrow> string" where
  "StatusClassOf e =
    (let st = ToLower (Field e ''status'')
     in if en_Type e = ''product'' then (if Field e ''is_available'' = ''false'' then ''status-warn'' else ''status-ok'')
        else if en_Type e = ''order'' \<or> en_Type e = ''order_status'' then
          (if st = ''completed'' then ''status-ok''
           else if st = ''cancelled'' \<or> st = ''canceled'' then ''status-danger'' else ''status-warn'')
        else if en_Type e = ''table'' then
          (if st = ''occupied'' \<or> st = ''reserved'' then ''status-warn''
           else if st = ''disabled'' then ''status-danger'' else ''status-ok'')
        else if NeedsReorder e then ''status-danger'' else ''status-ok'')"

section \<open>What the report adds up\<close>

text \<open>The live records of a kind in the period, and the value of a list of records.\<close>

definition counted :: "gotime option \<Rightarrow> string \<Rightarrow> storedEntity \<Rightarrow> bool" where
  "counted since kind e \<longleftrightarrow> \<not> se_Deleted e \<and> se_Type e = kind \<and> in_period since (entity_view e)"

definition rows :: "gotime option \<Rightarrow> string \<Rightarrow> (Entity \<Rightarrow> bool) \<Rightarrow> persistedDB \<Rightarrow> Entity list" where
  "rows since kind P db = map entity_view (filter (\<lambda>e. counted since kind e \<and> P (entity_view e)) (map snd (Entities db)))"

definition worth :: "(Entity \<Rightarrow> string) \<Rightarrow> Entity list \<Rightarrow> int" where
  "worth f es = sum_list (map (\<lambda>e. parseBigIntSafe (f e)) es)"

definition completed :: "Entity \<Rightarrow> bool" where
  "completed e \<longleftrightarrow> order_status e = ''completed''"

definition cancelled :: "Entity \<Rightarrow> bool" where
  "cancelled e \<longleftrightarrow> order_status e = ''cancelled'' \<or> order_status e = ''canceled''"

definition paid_in :: "string \<Rightarrow> Entity \<Rightarrow> bool" where
  "paid_in m e \<longleftrightarrow> Field e ''payment_method'' = m"

definition task_done :: "Entity \<Rightarrow> bool" where
  "task_done e \<longleftrightarrow> Field e ''is_done'' = ''true'' \<or> Field e ''status'' = ''done''"

definition table_taken :: "Entity \<Rightarrow> bool" where
  "table_taken e \<longleftrightarrow> Field e ''status'' = ''occupied'' \<or> Field e ''status'' = ''reserved''"

text \<open>A field to which every entity of a kind that passes a test adds its value.\<close>

definition adds :: "(tally \<Rightarrow> int) \<Rightarrow> gotime option \<Rightarrow> string \<Rightarrow> (Entity \<Rightarrow> bool) \<Rightarrow> (Entity \<Rightarrow> int) \<Rightarrow> bool" where
  "adds f since kind P g \<longleftrightarrow>
    (\<forall>e ta. f (tally_entity since e ta) = f ta + (if counted since kind e \<and> P (entity_view e) then g (entity_view e) else 0))"

lemma adds_total:
  assumes "adds f since kind P g"
  shows "f (fold (tally_entity since) (map snd (Entities db)) ta) = f ta + sum_list (map g (rows since kind P db))"
proof -
  have "f (fold (tally_entity since) es ta) =
      f ta + sum_list (map g (map entity_view (filter (\<lambda>e. counted since kind e \<and> P (entity_view e)) es)))" for es
    using assms unfolding adds_def by (induction es arbitrary: ta) auto
  then show ?thesis by (simp add: rows_def)
qed

lemma adds_fields:
  "adds ta_sales since ''order'' completed (\<lambda>e. parseBigIntSafe (PriceIRR e))"
  "adds ta_cash since ''order'' (\<lambda>e. completed e \<and> paid_in ''cash'' e) (\<lambda>e. parseBigIntSafe (PriceIRR e))"
  "adds ta_credit since ''order'' (\<lambda>e. completed e \<and> paid_in ''credit_debtor'' e) (\<lambda>e. parseBigIntSafe (PriceIRR e))"
  "adds ta_card since ''order'' (\<lambda>e. completed e \<and> \<not> paid_in ''cash'' e \<and> \<not> paid_in ''credit_debtor'' e) (\<lambda>e. parseBigIntSafe (PriceIRR e))"
  "adds ta_completed since ''order'' completed (\<lambda>_. 1)"
  "adds ta_cancelled since ''order'' cancelled (\<lambda>_. 1)"
  "adds ta_open since ''order'' (\<lambda>e. \<not> completed e \<and> \<not> cancelled e) (\<lambda>_. 1)"
  by (auto simp: adds_def tally_entity_def tally_order_def counted_def completed_def cancelled_def paid_in_def Let_def)

lemma adds_other_fields:
  "adds ta_expenses since ''expense'' (\<lambda>_. True) (\<lambda>e. parseBigIntSafe (PriceIRR e))"
  "adds ta_receivables since ''debtor'' (\<lambda>_. True) (\<lambda>e. parseBigIntSafe (Field e ''remaining''))"
  "adds ta_tables since ''table'' (\<lambda>_. True) (\<lambda>_. 1)"
  "adds ta_occupied since ''table'' table_taken (\<lambda>_. 1)"
  "adds ta_pending since ''task'' (\<lambda>e. \<not> task_done e) (\<lambda>_. 1)"
  "adds ta_done since ''task'' task_done (\<lambda>_. 1)"
  "adds ta_staff since ''staff'' (\<lambda>_. True) (\<lambda>_. 1)"
  by (auto simp: adds_def tally_entity_def tally_order_def counted_def task_done_def table_taken_def Let_def)

lemma length_count: "sum_list (map (\<lambda>_. 1) es) = int (length es)"
  by (induction es) simp_all

lemma worth_split:
  "worth PriceIRR (rows since ''order'' completed db) =
     worth PriceIRR (rows since ''order'' (\<lambda>e. completed e \<and> paid_in ''cash'' e) db) +
     worth PriceIRR (rows since ''order'' (\<lambda>e. completed e \<and> \<not> paid_in ''cash'' e \<and> \<not> paid_in ''credit_debtor'' e) db) +
     worth PriceIRR (rows since ''order'' (\<lambda>e. completed e \<and> paid_in ''credit_debtor'' e) db)"
proof -
  have "worth PriceIRR (map entity_view (filter (\<lambda>e. counted since ''order'' e \<and> completed (entity_view e)) es)) =
      worth PriceIRR (map entity_view (filter (\<lambda>e. counted since ''order'' e \<and> completed (entity_view e) \<and> paid_in ''cash'' (entity_view e)) es)) +
      worth PriceIRR (map entity_view (filter (\<lambda>e. counted since ''order'' e \<and> completed (entity_view e)
        \<and> \<not> paid_in ''cash'' (entity_view e) \<and> \<not> paid_in ''credit_debtor'' (entity_view e)) es)) +
      worth PriceIRR (map entity_view (filter (\<lambda>e. counted since ''order'' e \<and> completed (entity_view e) \<and> paid_in ''credit_debtor'' (entity_view e)) es))"
    for es by (induction es) (auto simp: worth_def paid_in_def)
  then show ?thesis by (simp add: rows_def)
qed

text \<open>
  C22. The financial report is the sum of the records it names. Whatever order the loop visits
  the entities in, total sales are the prices of the completed orders of the period and of
  nothing else (an open or cancelled order never counts), every completed order is in exactly
  one of cash, credit and card, so the three add up to the total, the net result is sales less
  expenses, and every counter is the number of the records it stands for.
\<close>

theorem analyticsRange_sums:
  "analyticsRange since db =
    \<lparr> TotalSalesIRR = Itoa (worth PriceIRR (rows since ''order'' completed db)),
      CashSalesIRR = Itoa (worth PriceIRR (rows since ''order'' (\<lambda>e. completed e \<and> paid_in ''cash'' e) db)),
      CardSalesIRR = Itoa (worth PriceIRR (rows since ''order'' (\<lambda>e. completed e \<and> \<not> paid_in ''cash'' e \<and> \<not> paid_in ''credit_debtor'' e) db)),
      CreditSalesIRR = Itoa (worth PriceIRR (rows since ''order'' (\<lambda>e. completed e \<and> paid_in ''credit_debtor'' e) db)),
      TotalExpensesIRR = Itoa (worth PriceIRR (rows since ''expense'' (\<lambda>_. True) db)),
      TotalReceivablesIRR = Itoa (worth (\<lambda>e. Field e ''remaining'') (rows since ''debtor'' (\<lambda>_. True) db)),
      NetOperatingIRR = Itoa (worth PriceIRR (rows since ''order'' completed db) - worth PriceIRR (rows since ''expense'' (\<lambda>_. True) db)),
      CompletedOrders = int (length (rows since ''order'' completed db)),
      OpenOrders = int (length (rows since ''order'' (\<lambda>e. \<not> completed e \<and> \<not> cancelled e) db)),
      CancelledOrders = int (length (rows since ''order'' cancelled db)),
      OccupiedTables = int (length (rows since ''table'' table_taken db)),
      TotalTables = int (length (rows since ''table'' (\<lambda>_. True) db)),
      PendingTasks = int (length (rows since ''task'' (\<lambda>e. \<not> task_done e) db)),
      CompletedTasks = int (length (rows since ''task'' task_done db)),
      ActiveStaff = int (length (rows since ''staff'' (\<lambda>_. True) db)) \<rparr> \<and>
   worth PriceIRR (rows since ''order'' completed db) =
     worth PriceIRR (rows since ''order'' (\<lambda>e. completed e \<and> paid_in ''cash'' e) db) +
     worth PriceIRR (rows since ''order'' (\<lambda>e. completed e \<and> \<not> paid_in ''cash'' e \<and> \<not> paid_in ''credit_debtor'' e) db) +
     worth PriceIRR (rows since ''order'' (\<lambda>e. completed e \<and> paid_in ''credit_debtor'' e) db)"
proof -
  have z: "ta_sales no_tally = 0" "ta_cash no_tally = 0" "ta_card no_tally = 0" "ta_credit no_tally = 0" "ta_expenses no_tally = 0"
    "ta_receivables no_tally = 0" "ta_completed no_tally = 0" "ta_open no_tally = 0" "ta_cancelled no_tally = 0" "ta_occupied no_tally = 0"
    "ta_tables no_tally = 0" "ta_pending no_tally = 0" "ta_done no_tally = 0" "ta_staff no_tally = 0"
    by (simp_all add: no_tally_def)
  note sums = adds_fields [THEN adds_total, of since db no_tally] adds_other_fields [THEN adds_total, of since db no_tally]
  show ?thesis using worth_split [of since db]
    by (simp add: analyticsRange_def tally_report_def sums z length_count worth_def)
qed

end
