(* ===== verification/Sha256.thy ===== *)
theory Sha256
  imports Prelude
begin

text \<open>
  What the licence check uses of \<open>crypto/sha256\<close>, \<open>crypto/hmac\<close> and \<open>encoding/hex\<close>: the
  SHA-256 hash (FIPS 180-4) and HMAC (RFC 2104) over it. A byte string is a \<open>string\<close>.
\<close>

unbundle bit_operations_syntax

type_synonym w32 = "32 word"

text \<open>The fractional parts of the cube roots of the first 64 primes and of the square roots of the first 8.\<close>

definition sha_k :: "w32 list" where
  "sha_k =
    [1116352408, 1899447441, 3049323471, 3921009573, 961987163, 1508970993, 2453635748, 2870763221,
     3624381080, 310598401, 607225278, 1426881987, 1925078388, 2162078206, 2614888103, 3248222580,
     3835390401, 4022224774, 264347078, 604807628, 770255983, 1249150122, 1555081692, 1996064986,
     2554220882, 2821834349, 2952996808, 3210313671, 3336571891, 3584528711, 113926993, 338241895,
     666307205, 773529912, 1294757372, 1396182291, 1695183700, 1986661051, 2177026350, 2456956037,
     2730485921, 2820302411, 3259730800, 3345764771, 3516065817, 3600352804, 4094571909, 275423344,
     430227734, 506948616, 659060556, 883997877, 958139571, 1322822218, 1537002063, 1747873779,
     1955562222, 2024104815, 2227730452, 2361852424, 2428436474, 2756734187, 3204031479, 3329325298]"

definition sha_init :: "w32 list" where
  "sha_init = [1779033703, 3144134277, 1013904242, 2773480762, 1359893119, 2600822924, 528734635, 1541459225]"

definition rotr :: "nat \<Rightarrow> w32 \<Rightarrow> w32" where
  "rotr n x = drop_bit n x OR push_bit (32 - n) x"

definition word_of_bytes :: "string \<Rightarrow> w32" where
  "word_of_bytes bs = word_of_int (fold (\<lambda>c n. n * 256 + int (of_char c :: nat)) bs 0)"

definition bytes_of_word :: "w32 \<Rightarrow> string" where
  "bytes_of_word w = map (\<lambda>i. char_of (nat (uint (drop_bit (24 - 8 * i) w)) mod 256)) [0, 1, 2, 3]"

fun words_of :: "string \<Rightarrow> w32 list" where
  "words_of (a # b # c # d # s) = word_of_bytes [a, b, c, d] # words_of s"
| "words_of _ = []"

text \<open>The message with its length in bits, to a multiple of 64 bytes.\<close>

definition sha_pad :: "string \<Rightarrow> string" where
  "sha_pad m =
    (let n = length m; z = (119 - n mod 64) mod 64; bits = word_of_int (int n * 8) :: 64 word
     in m @ CHR 0x80 # replicate z CHR 0x00
        @ map (\<lambda>i. char_of (nat (uint (drop_bit (56 - 8 * i) bits)) mod 256)) [0, 1, 2, 3, 4, 5, 6, 7])"

definition small_sigma0 :: "w32 \<Rightarrow> w32" where
  "small_sigma0 x = rotr 7 x XOR rotr 18 x XOR drop_bit 3 x"

definition small_sigma1 :: "w32 \<Rightarrow> w32" where
  "small_sigma1 x = rotr 17 x XOR rotr 19 x XOR drop_bit 10 x"

text \<open>The schedule, newest word first.\<close>

fun extend :: "nat \<Rightarrow> w32 list \<Rightarrow> w32 list" where
  "extend 0 ws = ws"
| "extend (Suc n) ws =
    extend n ((small_sigma1 (ws ! 1) + ws ! 6 + small_sigma0 (ws ! 14) + ws ! 15) # ws)"

definition sha_round :: "w32 \<times> w32 \<Rightarrow> w32 list \<Rightarrow> w32 list" where
  "sha_round kw st =
    (case (kw, st) of
       ((k, w), [a, b, c, d, e, f, g, h]) \<Rightarrow>
         (let s1 = rotr 6 e XOR rotr 11 e XOR rotr 25 e;
              ch = (e AND f) XOR (NOT e AND g);
              t1 = h + s1 + ch + k + w;
              s0 = rotr 2 a XOR rotr 13 a XOR rotr 22 a;
              maj = (a AND b) XOR (a AND c) XOR (b AND c);
              t2 = s0 + maj
          in [t1 + t2, a, b, c, d + t1, e, f, g])
     | _ \<Rightarrow> st)"

definition sha_block :: "w32 list \<Rightarrow> w32 list \<Rightarrow> w32 list" where
  "sha_block ws st = map2 (+) st (fold sha_round (zip sha_k (rev (extend 48 (rev ws)))) st)"

function sha_blocks :: "w32 list \<Rightarrow> w32 list \<Rightarrow> w32 list" where
  "sha_blocks ws st = (if length ws < 16 then st else sha_blocks (drop 16 ws) (sha_block (take 16 ws) st))"
  by pat_completeness auto
termination
  by (relation "measure (length \<circ> fst)") auto

declare sha_blocks.simps [simp del]

definition sha256 :: "string \<Rightarrow> string" where
  "sha256 m = concat (map bytes_of_word (sha_blocks (words_of (sha_pad m)) sha_init))"

section \<open>HMAC and hexadecimal text\<close>

definition xor_char :: "nat \<Rightarrow> char \<Rightarrow> char" where
  "xor_char n c = char_of (n XOR of_char c)"

definition hmac_sha256 :: "string \<Rightarrow> string \<Rightarrow> string" where
  "hmac_sha256 key m =
    (let k0 = (if length key > 64 then sha256 key else key);
         k = k0 @ replicate (64 - length k0) CHR 0x00
     in sha256 (map (xor_char 0x5C) k @ sha256 (map (xor_char 0x36) k @ m)))"

definition hex_digit_char :: "nat \<Rightarrow> char" where
  "hex_digit_char d = (if d < 10 then char_of (48 + d) else char_of (87 + d))"

definition hex_text :: "string \<Rightarrow> string" where
  "hex_text bs = concat (map (\<lambda>c. [hex_digit_char (of_char c div 16), hex_digit_char (of_char c mod 16)]) bs)"

end
