(* ===== verification/Auth.thy ===== *)
theory Auth
  imports Reports Sha256
begin

text \<open>
  \<open>auth.go\<close> and the entry of \<open>app.go\<close>: the signed licence file, the sessions of manager and
  staff, signing in and out, and the gate that every request passes (host, form, CSRF token,
  licence, session). The files are byte strings, the clock and the outcome of every file
  operation are arguments.
\<close>

section \<open>The licence file\<close>

record licensePayload =
  lp_KeyHash :: string
  lp_Holder :: string
  lp_Plan :: string
  lp_IssuedAt :: string
  lp_ExpiresAt :: string

record LicenseStatus =
  ls_Valid :: bool
  ls_Expired :: bool
  ls_Holder :: string
  ls_Plan :: string
  ls_DaysLeft :: int
  ls_ExpiresAt :: string

definition no_license :: LicenseStatus where
  "no_license = \<lparr> ls_Valid = False, ls_Expired = False, ls_Holder = [], ls_Plan = [], ls_DaysLeft = 0, ls_ExpiresAt = [] \<rparr>"

definition payload_json :: "licensePayload \<Rightarrow> json" where
  "payload_json p =
    JObj [(''key_hash'', JStr (lp_KeyHash p)), (''holder'', JStr (lp_Holder p)), (''plan'', JStr (lp_Plan p)),
      (''issued_at'', JStr (lp_IssuedAt p)), (''expires_at'', JStr (lp_ExpiresAt p))]"

text \<open>\<open>json.MarshalIndent\<close> of the file, up to the white space that a reader skips.\<close>

definition license_text :: "licensePayload \<Rightarrow> string \<Rightarrow> string" where
  "license_text p sig = json_text (JObj [(''payload'', payload_json p), (''sig'', JStr sig)])"

definition payload_of :: "json \<Rightarrow> licensePayload option" where
  "payload_of j =
    (case struct_members j of
       None \<Rightarrow> None
     | Some kvs \<Rightarrow>
        (case (string_field ''key_hash'' kvs, string_field ''holder'' kvs, string_field ''plan'' kvs,
               string_field ''issued_at'' kvs, string_field ''expires_at'' kvs) of
           (Some k, Some h, Some p, Some i, Some e) \<Rightarrow>
             Some \<lparr> lp_KeyHash = k, lp_Holder = h, lp_Plan = p, lp_IssuedAt = i, lp_ExpiresAt = e \<rparr>
         | _ \<Rightarrow> None))"

definition read_license :: "string \<Rightarrow> (licensePayload \<times> string) option" where
  "read_license raw =
    (case json_parse raw of
       None \<Rightarrow> None
     | Some j \<Rightarrow>
        (case struct_members j of
           None \<Rightarrow> None
         | Some kvs \<Rightarrow>
            (case (payload_of (case raw_field ''payload'' kvs of None \<Rightarrow> JNull | Some p \<Rightarrow> p), string_field ''sig'' kvs) of
               (Some p, Some s) \<Rightarrow> Some (p, s)
             | _ \<Rightarrow> None)))"

text \<open>The two files, and what the file system does during one call.\<close>

record license_disk =
  ld_secret :: "string option"
  ld_license :: "string option"

record license_io =
  li_random :: "string option"
  li_mkdir :: bool
  li_write_secret :: bool
  li_write :: bool
  li_rename :: bool

definition licenseSecret :: "license_io \<Rightarrow> license_disk \<Rightarrow> license_disk \<times> (err + string)" where
  "licenseSecret w d =
    (let fresh =
       (case li_random w of
          None \<Rightarrow> (d, Inl (EIO ErrRand))
        | Some secret \<Rightarrow>
            if \<not> li_mkdir w then (d, Inl (EIO ErrOpen))
            else if \<not> li_write_secret w then (d, Inl (EIO ErrWrite))
            else (d\<lparr>ld_secret := Some secret\<rparr>, Inr secret))
     in case ld_secret d of
          Some raw \<Rightarrow> if length raw \<ge> 32 then (d, Inr raw) else fresh
        | None \<Rightarrow> fresh)"

definition signature :: "string \<Rightarrow> licensePayload \<Rightarrow> string" where
  "signature secret p = hex_text (hmac_sha256 secret (json_text (payload_json p)))"

definition signLicense :: "license_io \<Rightarrow> licensePayload \<Rightarrow> license_disk \<Rightarrow> license_disk \<times> (err + string)" where
  "signLicense w p d =
    (case licenseSecret w d of
       (d', Inl e) \<Rightarrow> (d', Inl e)
     | (d', Inr secret) \<Rightarrow> (d', Inr (signature secret p)))"

text \<open>\<open>int(time.Until(exp).Hours() / 24)\<close>: the duration saturates, hours and days are floats.\<close>

definition time_until :: "gotime \<Rightarrow> gotime \<Rightarrow> int" where
  "time_until now ex =
    (let d = (fst ex - fst now) * 1000000000 + (snd ex - snd now)
     in if d < - (2 ^ 63) then - (2 ^ 63) else if d \<ge> 2 ^ 63 then 2 ^ 63 - 1 else d)"

definition duration_hours :: "int \<Rightarrow> float64" where
  "duration_hours d =
    (let h = quo d 3600000000000; ns = d - h * 3600000000000
     in f_add (f_of_int h) (f_div (f_of_int ns) (f_of_int 3600000000000)))"

fun float_int :: "float64 \<Rightarrow> int" where
  "float_int (Fin n m) = (if n then - \<lfloor>m\<rfloor> else \<lfloor>m\<rfloor>)"
| "float_int _ = - (2 ^ 63)"

definition days_left :: "gotime \<Rightarrow> gotime \<Rightarrow> int" where
  "days_left now ex = max 0 (float_int (f_div (duration_hours (time_until now ex)) (f_of_int 24)))"

definition LicenseState :: "license_io \<Rightarrow> gotime \<Rightarrow> license_disk \<Rightarrow> license_disk \<times> LicenseStatus" where
  "LicenseState w now d =
    (case ld_license d of
       None \<Rightarrow> (d, no_license)
     | Some raw \<Rightarrow>
        (case read_license raw of
           None \<Rightarrow> (d, no_license)
         | Some (p, sig) \<Rightarrow>
            (case signLicense w p d of
               (d', Inl _) \<Rightarrow> (d', no_license)
             | (d', Inr expect) \<Rightarrow>
                if expect \<noteq> sig then (d', no_license)
                else (case parse_time RFC3339 (lp_ExpiresAt p) of
                        None \<Rightarrow> (d', no_license)
                      | Some ex \<Rightarrow>
                          (d', \<lparr> ls_Valid = True, ls_Expired = ex < now, ls_Holder = lp_Holder p, ls_Plan = lp_Plan p,
                                 ls_DaysLeft = days_left now ex, ls_ExpiresAt = lp_ExpiresAt p \<rparr>)))))"

section \<open>Activation\<close>

definition fa_my_cafe :: string where "fa_my_cafe = (fa [0x6A9, 0x627, 0x641, 0x647, 0x20, 0x645, 0x646])"
definition fa_plan :: string where "fa_plan = (fa [0x627, 0x634, 0x62A, 0x631, 0x627, 0x6A9, 0x20, 0x622, 0x641, 0x644, 0x627, 0x6CC, 0x646, 0x20, 0x645, 0x646, 0x648, 0x648, 0x6A9, 0x633])"

text \<open>The number after the last dash of the key, when there is something before it.\<close>

definition after_last_dash :: "string \<Rightarrow> string option" where
  "after_last_dash key =
    (let t = rev (takeWhile (\<lambda>c. c \<noteq> CHR ''-'') (rev key))
     in if length t + 1 < length key then Some t else None)"

definition license_days :: "string \<Rightarrow> int" where
  "license_days key =
    (case after_last_dash key of
       None \<Rightarrow> 365
     | Some t \<Rightarrow> (case Atoi (TrimSpace t) of (n, ok) \<Rightarrow> if ok \<and> 7 \<le> n \<and> n \<le> 3650 then n else 365))"

text \<open>\<open>Format(time.RFC3339)\<close> in a zone with a fixed offset of whole minutes.\<close>

definition format_zone :: "int \<Rightarrow> string" where
  "format_zone offset =
    (if offset = 0 then ''Z''
     else (let m = \<bar>offset\<bar> div 60
           in (if offset < 0 then ''-'' else ''+'') @ pad0 2 (m div 60) @ '':'' @ pad0 2 (m mod 60)))"

definition format_RFC3339 :: "int \<Rightarrow> gotime \<Rightarrow> string" where
  "format_RFC3339 offset t =
    (let c = civil_in offset t
     in pad0 4 (cv_Year c) @ ''-'' @ pad0 2 (cv_Month c) @ ''-'' @ pad0 2 (cv_Day c) @ ''T''
        @ pad0 2 (cv_Hour c) @ '':'' @ pad0 2 (cv_Minute c) @ '':'' @ pad0 2 (cv_Second c) @ format_zone offset)"

text \<open>\<open>AddDate(0, 0, days)\<close> in such a zone.\<close>

definition add_days :: "int \<Rightarrow> gotime \<Rightarrow> gotime" where
  "add_days n t = (fst t + n * 86400, snd t)"

definition new_license :: "int \<Rightarrow> gotime \<Rightarrow> string \<Rightarrow> string \<Rightarrow> licensePayload" where
  "new_license offset now key holder =
    \<lparr> lp_KeyHash = hex_text (sha256 key), lp_Holder = (if holder = [] then fa_my_cafe else holder), lp_Plan = fa_plan,
      lp_IssuedAt = format_RFC3339 offset now, lp_ExpiresAt = format_RFC3339 offset (add_days (license_days key) now) \<rparr>"

datatype auth_err = ErrLicenseKey | EAuthIO err

definition ActivateLicense ::
    "license_io \<Rightarrow> int \<Rightarrow> gotime \<Rightarrow> string \<Rightarrow> string \<Rightarrow> license_disk \<Rightarrow> license_disk \<times> (auth_err + LicenseStatus)" where
  "ActivateLicense w offset now key0 holder0 d =
    (let key = TrimSpace key0; holder = TrimSpace holder0
     in if length (runes key) < 4 then (d, Inl ErrLicenseKey)
        else (let p = new_license offset now key holder
              in case signLicense w p d of
                   (d1, Inl e) \<Rightarrow> (d1, Inl (EAuthIO e))
                 | (d1, Inr sig) \<Rightarrow>
                    if \<not> li_mkdir w then (d1, Inl (EAuthIO (EIO ErrOpen)))
                    else if \<not> li_write w then (d1, Inl (EAuthIO (EIO ErrWrite)))
                    else if \<not> li_rename w then (d1, Inl (EAuthIO (EIO ErrRename)))
                    else (case LicenseState w now (d1\<lparr>ld_license := Some (license_text p sig)\<rparr>) of
                            (d2, st) \<Rightarrow> (d2, Inr st))))"

section \<open>Sessions\<close>

record sessionInfo =
  si_Role :: string
  si_Name :: string

text \<open>
  The sessions in memory and their file. A value that does not decode leaves the zero value,
  and the rest of the file is still read.
\<close>

record session_store =
  ss_sessions :: "(string \<times> sessionInfo) list"
  ss_path :: string
  ss_file :: "string option"

fun lenient_string :: "string \<Rightarrow> json list \<Rightarrow> string" where
  "lenient_string cur [] = cur"
| "lenient_string cur (JStr s # js) = lenient_string s js"
| "lenient_string cur (_ # js) = lenient_string cur js"

definition session_of_json :: "json \<Rightarrow> sessionInfo" where
  "session_of_json j =
    (case j of
       JObj kvs \<Rightarrow> \<lparr> si_Role = lenient_string [] (members_of ''Role'' kvs), si_Name = lenient_string [] (members_of ''Name'' kvs) \<rparr>
     | _ \<Rightarrow> \<lparr> si_Role = [], si_Name = [] \<rparr>)"

definition loadSessionsFile :: "string option \<Rightarrow> (string \<times> sessionInfo) list" where
  "loadSessionsFile file =
    (case file of
       None \<Rightarrow> []
     | Some raw \<Rightarrow>
        (case json_parse raw of
           Some (JObj kvs) \<Rightarrow> fold (\<lambda>(k, v). AList.update k (session_of_json v)) kvs []
         | _ \<Rightarrow> []))"

definition sessions_json :: "(string \<times> sessionInfo) list \<Rightarrow> json" where
  "sessions_json m =
    JObj (sort_key fst (map (\<lambda>(k, s). (k, JObj [(''Role'', JStr (si_Role s)), (''Name'', JStr (si_Name s))])) m))"

definition persistSessions :: "bool \<Rightarrow> session_store \<Rightarrow> session_store" where
  "persistSessions saved a =
    (if ss_path a = [] \<or> \<not> saved then a else a\<lparr>ss_file := Some (json_text (sessions_json (ss_sessions a)))\<rparr>)"

text \<open>A new session: the state and the cookie, if the random source answers.\<close>

definition newSession :: "string option \<Rightarrow> bool \<Rightarrow> string \<Rightarrow> string \<Rightarrow> session_store \<Rightarrow> session_store \<times> string option" where
  "newSession rnd saved role name a =
    (case rnd of
       None \<Rightarrow> (a, None)
     | Some bytes \<Rightarrow>
        (let token = hex_text bytes
         in (persistSessions saved (a\<lparr>ss_sessions := AList.update token \<lparr> si_Role = role, si_Name = name \<rparr> (ss_sessions a)\<rparr>),
             Some token)))"

definition sessionOf :: "session_store \<Rightarrow> string option \<Rightarrow> sessionInfo option" where
  "sessionOf a cookie =
    (case cookie of None \<Rightarrow> None | Some v \<Rightarrow> if v = [] then None else map_of (ss_sessions a) v)"

definition dropSession :: "bool \<Rightarrow> string option \<Rightarrow> session_store \<Rightarrow> session_store" where
  "dropSession saved cookie a =
    (case cookie of
       None \<Rightarrow> a
     | Some v \<Rightarrow> persistSessions saved (a\<lparr>ss_sessions := AList.delete v (ss_sessions a)\<rparr>))"

section \<open>The gate\<close>

datatype reply = Redirect string | LicensePage LicenseStatus bool | LoginPage LicenseStatus | Pass

definition authExemptPath :: "string \<Rightarrow> bool" where
  "authExemptPath path \<longleftrightarrow> path \<in> {''/license'', ''/login'', ''/logout'', ''/license/activate''} \<or> HasPrefix path ''/static/''"

definition enforceAuth :: "LicenseStatus \<Rightarrow> sessionInfo option \<Rightarrow> string \<Rightarrow> string \<Rightarrow> reply" where
  "enforceAuth lic sess path expired_param =
    (if path = ''/license'' then
       (if ls_Valid lic \<and> \<not> ls_Expired lic then (if sess \<noteq> None then Redirect ''/'' else Redirect ''/login'')
        else LicensePage lic (ls_Expired lic \<or> expired_param = ''1''))
     else if \<not> ls_Valid lic then Redirect ''/license''
     else if ls_Expired lic then Redirect ''/license?expired=1''
     else if path = ''/login'' then (if sess \<noteq> None then Redirect ''/'' else LoginPage lic)
     else if sess = None then Redirect ''/login''
     else Pass)"

text \<open>\<open>net.SplitHostPort\<close>, the host only.\<close>

definition last_colon :: "string \<Rightarrow> nat option" where
  "last_colon s = (if CHR '':'' \<in> set s then Some (length s - 1 - length (takeWhile (\<lambda>c. c \<noteq> CHR '':'') (rev s))) else None)"

definition SplitHostPort :: "string \<Rightarrow> string option" where
  "SplitHostPort s =
    (case last_colon s of
       None \<Rightarrow> None
     | Some i \<Rightarrow>
        if hd s = CHR ''['' then
          (case Index s '']'' of
             None \<Rightarrow> None
           | Some e \<Rightarrow>
              if e + 1 \<noteq> i then None
              else if CHR ''['' \<in> set (drop 1 s) \<or> CHR '']'' \<in> set (drop (e + 1) s) then None
              else Some (take (e - 1) (drop 1 s)))
        else if CHR '':'' \<in> set (take i s) then None
        else if CHR ''['' \<in> set s \<or> CHR '']'' \<in> set s then None
        else Some (take i s))"

definition trim_brackets :: "string \<Rightarrow> string" where
  "trim_brackets s =
    (let b = (\<lambda>c. c = CHR ''['' \<or> c = CHR '']'') in rev (dropWhile b (rev (dropWhile b s))))"

record request =
  rq_Host :: string
  rq_Method :: string
  rq_Path :: string
  rq_Expired :: string
  rq_Form :: "(string \<Rightarrow> string) option"
  rq_Cookie :: "string option"

text \<open>
  The part of the application that the gate reads. The form is \<open>None\<close> when it does not parse
  or is too large, and a function from names to first values otherwise.
\<close>

record application =
  ap_allowed :: "string list"
  ap_csrf :: string
  ap_authDisabled :: bool
  ap_sessions :: session_store

datatype outcome = HostRefused | FormRefused | CsrfRefused | Answered reply | SignedOut | Routed

definition host_of :: "string \<Rightarrow> string" where
  "host_of h = ToLower (case SplitHostPort h of None \<Rightarrow> trim_brackets h | Some x \<Rightarrow> x)"

definition host_allowed :: "application \<Rightarrow> request \<Rightarrow> bool" where
  "host_allowed a r \<longleftrightarrow> host_of (rq_Host r) \<in> set (ap_allowed a) \<or> HasSuffix (host_of (rq_Host r)) ''.e2b.app''"

definition form_checked :: "request \<Rightarrow> bool" where
  "form_checked r \<longleftrightarrow> rq_Method r \<noteq> ''GET'' \<and> rq_Method r \<noteq> ''HEAD'' \<and> \<not> HasPrefix (rq_Path r) ''/api/v1/''"

definition Handler :: "application \<Rightarrow> LicenseStatus \<Rightarrow> request \<Rightarrow> outcome" where
  "Handler a lic r =
    (let sess = sessionOf (ap_sessions a) (rq_Cookie r);
         auth = enforceAuth lic sess (rq_Path r) (rq_Expired r);
         answer = (if auth = Pass then Routed else Answered auth)
     in if \<not> host_allowed a r then HostRefused
        else if form_checked r \<and> rq_Form r = None then FormRefused
        else if form_checked r \<and> the (rq_Form r) ''csrf'' \<noteq> ap_csrf a then CsrfRefused
        else if ap_authDisabled a then Routed
        else if (rq_Path r = ''/license'' \<or> rq_Path r = ''/login'') \<and> rq_Method r = ''GET'' then answer
        else if \<not> authExemptPath (rq_Path r) then answer
        else if rq_Path r = ''/logout'' \<and> rq_Method r = ''GET'' then SignedOut
        else Routed)"

section \<open>Signing in\<close>

datatype login_error = BadPhone | ShortPassword | StaffListError | StaffInactive | WrongPassword | StaffUnknown

datatype login_reply = LoginFailed login_error | SignedIn

definition fa_inactive :: string where "fa_inactive = (fa [0x63A, 0x6CC, 0x631, 0x641, 0x639, 0x627, 0x644])"
definition fa_manager :: string where "fa_manager = (fa [0x645, 0x62F, 0x6CC, 0x631, 0x20, 0x6A9, 0x627, 0x641, 0x647])"

text \<open>The first member of staff with the phone number decides.\<close>

definition staff_login :: "string \<Rightarrow> string \<Rightarrow> Entity list \<Rightarrow> login_error + string" where
  "staff_login phone password staff =
    (case List.find (\<lambda>e. TrimSpace (Field e ''phone'') = phone) staff of
       None \<Rightarrow> Inl StaffUnknown
     | Some e \<Rightarrow>
        if Field e ''is_active'' = ''false'' \<or> Contains (Field e ''status'') fa_inactive then Inl StaffInactive
        else if Field e ''password_hash'' \<noteq> [] \<and> hex_text (sha256 password) \<noteq> Field e ''password_hash'' then Inl WrongPassword
        else Inr (Label e))"

definition check_login :: "string \<Rightarrow> string \<Rightarrow> string \<Rightarrow> (err + Entity list) \<Rightarrow> login_error + sessionInfo" where
  "check_login mode phone password staff =
    (if length (runes phone) < 10 \<or> \<not> HasPrefix phone ''09'' then Inl BadPhone
     else if length (runes password) < 4 then Inl ShortPassword
     else if mode = ''staff'' then
       (case staff of
          Inl _ \<Rightarrow> Inl StaffListError
        | Inr es \<Rightarrow>
           (case staff_login phone password es of
              Inl e \<Rightarrow> Inl e
            | Inr name \<Rightarrow> Inr \<lparr> si_Role = ''staff'', si_Name = name \<rparr>))
     else Inr \<lparr> si_Role = ''manager'', si_Name = fa_manager \<rparr>)"

definition handleLogin ::
    "io \<Rightarrow> string option \<Rightarrow> bool \<Rightarrow> (string \<Rightarrow> string) \<Rightarrow> Store \<Rightarrow> session_store
      \<Rightarrow> session_store \<times> string option \<times> login_reply" where
  "handleLogin w rnd saved form s a =
    (case check_login (TrimSpace (form ''mode'')) (TrimSpace (form ''phone'')) (form ''password'') (EntitiesOf w ''staff'' s) of
       Inl e \<Rightarrow> (a, None, LoginFailed e)
     | Inr info \<Rightarrow>
        (case newSession rnd saved (si_Role info) (si_Name info) a of (a', cookie) \<Rightarrow> (a', cookie, SignedIn)))"

definition handleLogout :: "bool \<Rightarrow> string option \<Rightarrow> session_store \<Rightarrow> session_store \<times> reply" where
  "handleLogout saved cookie a = (dropSession saved cookie a, Redirect ''/login'')"

datatype activation_reply = ActivationFailed auth_err LicenseStatus | Activated reply

definition handleLicenseActivate ::
    "license_io \<Rightarrow> license_io \<Rightarrow> int \<Rightarrow> gotime \<Rightarrow> gotime \<Rightarrow> (string \<Rightarrow> string) \<Rightarrow> license_disk \<Rightarrow> license_disk \<times> activation_reply" where
  "handleLicenseActivate w w' offset now now' form d =
    (case ActivateLicense w offset now (form ''license_key'') (form ''holder'') d of
       (d1, Inl e) \<Rightarrow> (case LicenseState w' now' d1 of (d2, lic) \<Rightarrow> (d2, ActivationFailed e lic))
     | (d1, Inr _) \<Rightarrow> (d1, Activated (Redirect ''/login'')))"

end
