(* ===== verification/Auth_Props.thy ===== *)
theory Auth_Props
  imports Auth
begin

text \<open>
  What the sign-in code guarantees: nothing behind the gate is served without a licence that
  this device signed and a live session; an activation produces such a licence; sessions
  survive a restart, and signing out ends them on disk as well.
\<close>

section \<open>The gate\<close>

lemma enforceAuth_Pass:
  "enforceAuth lic sess path ep = Pass \<longleftrightarrow>
    ls_Valid lic \<and> \<not> ls_Expired lic \<and> sess \<noteq> None \<and> path \<noteq> ''/license'' \<and> path \<noteq> ''/login''"
  by (simp add: enforceAuth_def)

lemma LicenseState_valid:
  assumes "LicenseState w now d = (d', lic)" "ls_Valid lic"
  obtains raw p secret ex where "ld_license d = Some raw" "read_license raw = Some (p, signature secret p)"
    "ld_secret d' = Some secret" "parse_time RFC3339 (lp_ExpiresAt p) = Some ex" "ls_Expired lic \<longleftrightarrow> ex < now"
proof -
  obtain raw where raw: "ld_license d = Some raw" using assms by (auto simp: LicenseState_def no_license_def split: option.splits)
  obtain p sig where p: "read_license raw = Some (p, sig)"
    using assms raw by (auto simp: LicenseState_def no_license_def split: option.splits)
  obtain d1 r where r: "licenseSecret w d = (d1, r)" by force
  obtain secret where s: "r = Inr secret" using assms raw p r
    by (cases r) (auto simp: LicenseState_def signLicense_def no_license_def)
  have sec: "ld_secret d1 = Some secret"
    using r s by (auto simp: licenseSecret_def Let_def split: option.splits if_splits)
  obtain ex where ex: "parse_time RFC3339 (lp_ExpiresAt p) = Some ex" "sig = signature secret p" "d1 = d'" "ls_Expired lic \<longleftrightarrow> ex < now"
    using assms raw p r s by (auto simp: LicenseState_def signLicense_def no_license_def split: if_splits option.splits)
  show ?thesis using that raw p sec ex by blast
qed


section \<open>Texts\<close>

lemma ascii_hex_text: "ascii (hex_text bs)"
proof -
  have h: "d < 16 \<Longrightarrow> code (hex_digit_char d) < 128" for d by (simp add: hex_digit_char_def)
  have "(of_char c :: nat) div 16 < 16" for c :: char
    by (rule less_mult_imp_div_less) simp
  then have "code (hex_digit_char (of_char c div 16)) < 128" "code (hex_digit_char (of_char c mod 16)) < 128" for c :: char
    by (intro h; simp)+
  then show ?thesis by (simp add: hex_text_def list_all_iff)
qed

lemma ascii_pad0: "ascii (pad0 n i)"
proof -
  have "ascii (nat_text k)" for k using nat_text_digits [of k] by (auto simp: list_all_iff is_digit_def)
  then show ?thesis by (auto simp: pad0_def list_all_iff)
qed

lemma ascii_RFC3339: "ascii (format_RFC3339 offset t)"
  using ascii_pad0 by (simp add: format_RFC3339_def format_zone_def Let_def)

lemma valid_fa: "valid_utf8 fa_plan" "valid_utf8 fa_my_cafe"
  by (simp_all add: fa_plan_def fa_my_cafe_def fa_def utf8_def valid_utf8.simps DecodeRune_def bad_rune_def cont_def)

section \<open>Activation\<close>

lemma read_license_text:
  assumes "valid_utf8 (lp_KeyHash p)" "valid_utf8 (lp_Holder p)" "valid_utf8 (lp_Plan p)" "valid_utf8 (lp_IssuedAt p)"
    "valid_utf8 (lp_ExpiresAt p)" "valid_utf8 sig"
  shows "read_license (license_text p sig) = Some (p, sig)"
proof -
  have k: "valid_utf8 ''payload''" "valid_utf8 ''sig''" "valid_utf8 ''key_hash''" "valid_utf8 ''holder''" "valid_utf8 ''plan''"
    "valid_utf8 ''issued_at''" "valid_utf8 ''expires_at''" by (rule valid_ascii; simp)+
  have "json_parse (license_text p sig) = Some (JObj [(''payload'', payload_json p), (''sig'', JStr sig)])"
    unfolding license_text_def by (rule json_parse_text) (simp add: payload_json_def k assms)
  moreover have "payload_of (payload_json p) = Some p"
    by (simp add: payload_of_def payload_json_def struct_members_def string_field_def members_of_def EqualFold_def HasPrefix_def lower_ascii_def)
  ultimately show ?thesis
    by (simp add: read_license_def struct_members_def raw_field_def string_field_def members_of_def EqualFold_def HasPrefix_def lower_ascii_def)
qed

lemma licenseSecret_kept:
  assumes "licenseSecret w d = (d', Inr secret)" "\<forall>b. li_random w = Some b \<longrightarrow> length b = 32"
  shows "ld_secret d' = Some secret \<and> 32 \<le> length secret \<and> ld_license d' = ld_license d"
  using assms by (auto simp: licenseSecret_def Let_def split: option.splits if_splits)

lemma licenseSecret_again: "ld_secret d = Some secret \<Longrightarrow> 32 \<le> length secret \<Longrightarrow> licenseSecret w d = (d, Inr secret)"
  by (simp add: licenseSecret_def)

lemma activated_state:
  assumes run: "ActivateLicense w offset now key holder d = (d', Inr st)"
    and rnd: "\<forall>b. li_random w = Some b \<longrightarrow> length b = 32"
    and utf: "valid_utf8 (TrimSpace holder)"
    and ex: "parse_time RFC3339 (format_RFC3339 offset (add_days (license_days (TrimSpace key)) now)) = Some ex"
  shows "LicenseState w' t d' =
    (d', \<lparr> ls_Valid = True, ls_Expired = ex < t, ls_Holder = (if TrimSpace holder = [] then fa_my_cafe else TrimSpace holder),
       ls_Plan = fa_plan, ls_DaysLeft = days_left t ex,
       ls_ExpiresAt = format_RFC3339 offset (add_days (license_days (TrimSpace key)) now) \<rparr>)"
proof -
  define p where "p = new_license offset now (TrimSpace key) (TrimSpace holder)"
  obtain d1 r where sec: "licenseSecret w d = (d1, r)" by force
  obtain secret where r: "r = Inr secret"
    using run by (cases r) (auto simp: ActivateLicense_def signLicense_def sec p_def [symmetric] Let_def split: if_splits)
  have kept: "ld_secret d1 = Some secret" "32 \<le> length secret" using licenseSecret_kept [of w d d1 secret] sec r rnd by simp_all
  let ?d = "d1\<lparr>ld_license := Some (license_text p (signature secret p))\<rparr>"
  have "valid_utf8 (lp_KeyHash p)" "valid_utf8 (lp_Holder p)" "valid_utf8 (lp_Plan p)" "valid_utf8 (lp_IssuedAt p)"
    "valid_utf8 (lp_ExpiresAt p)" "valid_utf8 (signature secret p)"
    using utf ascii_hex_text ascii_RFC3339 valid_fa by (simp_all add: p_def new_license_def signature_def valid_ascii)
  then have read: "read_license (license_text p (signature secret p)) = Some (p, signature secret p)"
    by (rule read_license_text)
  have e: "parse_time RFC3339 (lp_ExpiresAt p) = Some ex" using ex by (simp add: p_def new_license_def)
  have state: "LicenseState w0 t0 ?d = (?d, \<lparr> ls_Valid = True, ls_Expired = ex < t0, ls_Holder = lp_Holder p,
      ls_Plan = lp_Plan p, ls_DaysLeft = days_left t0 ex, ls_ExpiresAt = lp_ExpiresAt p \<rparr>)" for w0 t0
    using kept e by (simp add: LicenseState_def read signLicense_def licenseSecret_again)
  have "d' = ?d" using run state
    by (auto simp: ActivateLicense_def signLicense_def sec r p_def [symmetric] Let_def split: if_splits prod.splits)
  then show ?thesis using state by (simp add: p_def new_license_def)
qed


section \<open>Sessions\<close>

lemma sessions_json_read:
  "session_of_json (JObj [(''Role'', JStr (si_Role s)), (''Name'', JStr (si_Name s))]) = s"
  by (simp add: session_of_json_def members_of_def EqualFold_def HasPrefix_def lower_ascii_def)

definition sessions_ok :: "(string \<times> sessionInfo) list \<Rightarrow> bool" where
  "sessions_ok m \<longleftrightarrow> gmap m \<and> list_all (\<lambda>(k, s). valid_utf8 k \<and> valid_utf8 (si_Role s) \<and> valid_utf8 (si_Name s)) m"

lemma load_saved:
  assumes "sessions_ok m"
  shows "map_of (loadSessionsFile (Some (json_text (sessions_json m)))) = map_of m"
proof -
  let ?enc = "\<lambda>(k, s). (k, JObj [(''Role'', JStr (si_Role s)), (''Name'', JStr (si_Name s))])"
  let ?kvs = "sort_key fst (map ?enc m)"
  have f: "map fst (map ?enc m) = map fst m" by (induction m) auto
  have g: "gmap (map ?enc m)" using assms unfolding sessions_ok_def gmap_def f by simp
  have "valid_utf8 ''Role''" "valid_utf8 ''Name''" by (rule valid_ascii; simp)+
  then have "wf_json (sessions_json m)" using assms
    by (auto simp: sessions_json_def sessions_ok_def list_all_iff)
  then have p: "json_parse (json_text (sessions_json m)) = Some (JObj ?kvs)"
    using json_parse_text [of "sessions_json m"] unfolding sessions_json_def by blast
  have fold_map: "fold (\<lambda>(k, v). AList.update k (session_of_json v)) kvs acc
      = fold (\<lambda>(k, v). AList.update k v) (map (\<lambda>(k, v). (k, session_of_json v)) kvs) acc" for kvs acc
    by (induction kvs arbitrary: acc) auto
  have A: "map_of (fold (\<lambda>(k, v). AList.update k (session_of_json v)) ?kvs []) k
      = map_option session_of_json (map_of (rev ?kvs) k)" for k
    by (simp add: fold_map am.get_fold_put rev_map map_of_map split: option.split)
  have B: "map_of (rev ?kvs) k = map_of ?kvs k" for k using gmap_rev [OF gmap_sort [OF g]] .
  have C: "map_of ?kvs k = map_of (map ?enc m) k" for k using map_of_sort [OF g] by simp
  have D: "map_option session_of_json (map_of (map ?enc m) k) = map_of m k" for k
    by (induction m) (auto simp: sessions_json_read)
  show ?thesis by (rule ext) (simp only: loadSessionsFile_def p option.case json.case A B C D)
qed

lemma sessions_ok_update:
  "sessions_ok m \<Longrightarrow> valid_utf8 k \<Longrightarrow> valid_utf8 (si_Role s) \<Longrightarrow> valid_utf8 (si_Name s) \<Longrightarrow> sessions_ok (AList.update k s m)"
  using set_update_subset [of k s m] unfolding sessions_ok_def list_all_iff by auto

lemma sessions_ok_delete: "sessions_ok m \<Longrightarrow> sessions_ok (AList.delete k m)"
proof -
  have "set (AList.delete k m) \<subseteq> set m" by (auto simp: AList.delete_eq)
  then show "sessions_ok m \<Longrightarrow> sessions_ok (AList.delete k m)" unfolding sessions_ok_def list_all_iff by auto
qed

text \<open>A restart: the sessions come from the file.\<close>

definition restarted :: "session_store \<Rightarrow> session_store" where
  "restarted a = a\<lparr>ss_sessions := loadSessionsFile (ss_file a)\<rparr>"

text \<open>
  A session lasts until its owner signs out, and no longer, across restarts. The cookie
  of a new session names it at once and after a restart; after signing out with that cookie
  it names nothing, neither in memory nor after a restart; and no other session is touched.
\<close>

theorem session_lifetime:
  assumes "sessions_ok (ss_sessions a)" "ss_path a \<noteq> []" "valid_utf8 role" "valid_utf8 name"
    and new: "newSession (Some bytes) True role name a = (a', Some token)" and "bytes \<noteq> []"
  shows "sessionOf a' (Some token) = Some \<lparr> si_Role = role, si_Name = name \<rparr> \<and>
    sessionOf (restarted a') (Some token) = Some \<lparr> si_Role = role, si_Name = name \<rparr> \<and>
    sessionOf (dropSession True (Some token) a') (Some token) = None \<and>
    sessionOf (restarted (dropSession True (Some token) a')) (Some token) = None \<and>
    (\<forall>other. other \<noteq> token \<longrightarrow> sessionOf (dropSession True (Some token) a') (Some other) = sessionOf a (Some other) \<and>
      sessionOf (restarted (dropSession True (Some token) a')) (Some other) = sessionOf a (Some other))"
proof -
  let ?s = "\<lparr> si_Role = role, si_Name = name \<rparr>"
  have tok: "token = hex_text bytes" and a': "ss_sessions a' = AList.update token ?s (ss_sessions a)" "ss_path a' = ss_path a"
    "ss_file a' = Some (json_text (sessions_json (ss_sessions a')))"
    using new assms(2) by (auto simp: newSession_def persistSessions_def Let_def)
  have ne: "token \<noteq> []" using assms(6) unfolding tok by (cases bytes) (simp_all add: hex_text_def)
  have "valid_utf8 token" unfolding tok using ascii_hex_text by (rule valid_ascii)
  then have ok: "sessions_ok (ss_sessions a')" using sessions_ok_update [OF assms(1)] assms(3,4) by (simp add: a')
  let ?b = "dropSession True (Some token) a'"
  have b: "ss_sessions ?b = AList.delete token (ss_sessions a')" "ss_file ?b = Some (json_text (sessions_json (ss_sessions ?b)))"
    using assms(2) by (simp_all add: dropSession_def persistSessions_def a'(2))
  have okb: "sessions_ok (ss_sessions ?b)" unfolding b(1) using ok by (rule sessions_ok_delete)
  show ?thesis using ne load_saved [OF ok] load_saved [OF okb]
    by (simp add: sessionOf_def restarted_def a' b)
qed

section \<open>Witnesses\<close>

definition demo_sessions :: session_store where
  "demo_sessions = \<lparr> ss_sessions = [], ss_path = ''sessions.json'', ss_file = None \<rparr>"

theorem session_lifetime_witness:
  "sessionOf (restarted (fst (newSession (Some ''ab'') True ''manager'' ''M'' demo_sessions))) (Some ''6162'')
    = Some \<lparr> si_Role = ''manager'', si_Name = ''M'' \<rparr>"
proof -
  have "hex_text ''ab'' = ''6162''" by code_simp
  then have "newSession (Some ''ab'') True ''manager'' ''M'' demo_sessions =
      (fst (newSession (Some ''ab'') True ''manager'' ''M'' demo_sessions), Some ''6162'')"
    by (simp add: newSession_def Let_def)
  moreover have "valid_utf8 ''manager''" "valid_utf8 ''M''" by (rule valid_ascii; simp)+
  ultimately show ?thesis
    using session_lifetime [of demo_sessions "''manager''" "''M''" "''ab''" _ "''6162''"]
    by (simp add: demo_sessions_def sessions_ok_def)
qed

definition demo_device :: license_io where
  "demo_device = \<lparr> li_random = Some (replicate 32 CHR ''s''), li_mkdir = True, li_write_secret = True, li_write = True, li_rename = True \<rparr>"

definition no_files :: license_disk where
  "no_files = \<lparr> ld_secret = None, ld_license = None \<rparr>"

definition demo_activation :: "license_disk \<times> (auth_err + LicenseStatus)" where
  "demo_activation = ActivateLicense demo_device 12600 (1700000000, 0) ''KEY-30'' ''Cafe'' no_files"

lemma demo_key: "TrimSpace ''KEY-30'' = ''KEY-30''" "TrimSpace ''Cafe'' = ''Cafe''" "TrimSpace ''30'' = ''30''"
  by (rule TrimSpace_graph; simp add: graph_def)+

lemma demo_days: "license_days ''KEY-30'' = 30"
proof -
  have "after_last_dash ''KEY-30'' = Some ''30''" by (simp add: after_last_dash_def)
  moreover have "Atoi ''30'' = (30, True)" by code_simp
  ultimately show ?thesis by (simp add: license_days_def demo_key)
qed

lemma demo_expiry: "parse_time RFC3339 (format_RFC3339 12600 (add_days 30 (1700000000, 0))) = Some (1702592000, 0)"
  by code_simp

lemma demo_activation_run: "\<exists>d st. demo_activation = (d, Inr st)"
  by (simp add: demo_activation_def ActivateLicense_def demo_key runes_ascii signLicense_def licenseSecret_def no_files_def demo_device_def
      Let_def split: prod.split)

lemma demo_valid:
  "ls_Valid (snd (LicenseState demo_device (1702591999, 0) (fst demo_activation)))"
  "\<not> ls_Expired (snd (LicenseState demo_device (1702591999, 0) (fst demo_activation)))"
proof -
  obtain d st where run: "demo_activation = (d, Inr st)" using demo_activation_run by blast
  have "valid_utf8 ''Cafe''" by (rule valid_ascii) simp
  then have "LicenseState demo_device (1702591999, 0) d = (d, \<lparr> ls_Valid = True, ls_Expired = (1702592000, 0) < ((1702591999, 0) :: gotime),
      ls_Holder = ''Cafe'', ls_Plan = fa_plan, ls_DaysLeft = days_left (1702591999, 0) (1702592000, 0),
      ls_ExpiresAt = format_RFC3339 12600 (add_days 30 (1700000000, 0)) \<rparr>)"
    using activated_state [OF run [unfolded demo_activation_def], of "(1702592000, 0)" demo_device "(1702591999, 0)"] demo_expiry demo_days demo_key
    by (simp add: demo_device_def)
  then show "ls_Valid (snd (LicenseState demo_device (1702591999, 0) (fst demo_activation)))"
    "\<not> ls_Expired (snd (LicenseState demo_device (1702591999, 0) (fst demo_activation)))" by (simp_all add: run)
qed


definition demo_request :: request where
  "demo_request = \<lparr> rq_Host = ''localhost'', rq_Method = ''POST'', rq_Path = ''/local/save'', rq_Expired = [],
     rq_Form = Some (\<lambda>k. if k = ''csrf'' then ''c1'' else []), rq_Cookie = Some ''t1'' \<rparr>"

definition demo_app :: application where
  "demo_app = \<lparr> ap_allowed = [''localhost''], ap_csrf = ''c1'', ap_authDisabled = False,
     ap_sessions = demo_sessions\<lparr>ss_sessions := [(''t1'', \<lparr> si_Role = ''manager'', si_Name = ''M'' \<rparr>)]\<rparr> \<rparr>"


end
