(* ===== verification/Seed.thy ===== *)
theory Seed
  imports Reports
begin

text \<open>
  \<open>SeedIranianCafeData\<close> of \<open>internal/store/domains.go\<close>: the records of a sample cafe, put into the
  store in one transaction, and \<open>SeedIfEmpty\<close> of \<open>app.go\<close>, which loads them into a new store. A
  record of the sample is its kind, its identifier and its members.
\<close>

type_synonym seed = "string \<times> string \<times> fields"

section \<open>The sample\<close>

definition seed_menu :: "seed list" where
  "seed_menu =
    [(''cafe_profile'', ''cafe-main-profile'',
        [(''title'', JStr (fa [0x6A9, 0x627, 0x641, 0x647, 0x20, 0x646, 0x645, 0x648, 0x646, 0x647, 0x20, 0x2014, 0x20, 0x634, 0x639, 0x628, 0x647, 0x20, 0x645, 0x631, 0x6A9, 0x632, 0x6CC])), (''name'', JStr (fa [0x6A9, 0x627, 0x641, 0x647, 0x20, 0x646, 0x645, 0x648, 0x646, 0x647])), (''phone'', JStr (fa [0x6F0, 0x6F2, 0x6F1, 0x2D, 0x6F8, 0x6F8, 0x6F9, 0x6F9, 0x6F4, 0x6F4, 0x6F1, 0x6F1])),
        (''address'', JStr (fa [0x62A, 0x647, 0x631, 0x627, 0x646, 0x60C, 0x20, 0x62E, 0x6CC, 0x627, 0x628, 0x627, 0x646, 0x20, 0x648, 0x644, 0x6CC, 0x639, 0x635, 0x631, 0x60C, 0x20, 0x628, 0x627, 0x644, 0x627, 0x62A, 0x631, 0x20, 0x627, 0x632, 0x20, 0x67E, 0x627, 0x631, 0x6A9, 0x20, 0x633, 0x627, 0x639, 0x6CC, 0x60C, 0x20, 0x646, 0x628, 0x634, 0x20, 0x6A9, 0x648, 0x686, 0x647, 0x20, 0x62F, 0x647, 0x645, 0x60C, 0x20, 0x67E, 0x644, 0x627, 0x6A9, 0x20, 0x6F1, 0x6F4, 0x6F2])), (''tax_percent'', JStr ''9''),
        (''currency'', JStr ''IRR''), (''receipt_note'', JStr (fa [0x627, 0x632, 0x20, 0x62D, 0x636, 0x648, 0x631, 0x20, 0x6AF, 0x631, 0x645, 0x20, 0x634, 0x645, 0x627, 0x20, 0x633, 0x67E, 0x627, 0x633, 0x6AF, 0x632, 0x627, 0x631, 0x6CC, 0x645])),
        (''working_hours'', JStr (fa [0x647, 0x631, 0x20, 0x631, 0x648, 0x632, 0x20, 0x627, 0x632, 0x20, 0x633, 0x627, 0x639, 0x62A, 0x20, 0x6F0, 0x6F7, 0x3A, 0x6F3, 0x6F0, 0x20, 0x635, 0x628, 0x62D, 0x20, 0x62A, 0x627, 0x20, 0x6F2, 0x6F3, 0x3A, 0x6F3, 0x6F0, 0x20, 0x634, 0x628]))]),
     (''category'', ''11111111-1111-4111-8111-000000000001'',
        [(''title'', JStr (fa [0x628, 0x627, 0x631, 0x20, 0x6AF, 0x631, 0x645, 0x20, 0x648, 0x20, 0x627, 0x633, 0x67E, 0x631, 0x633, 0x648, 0x20, 0x62A, 0x62E, 0x635, 0x635, 0x6CC])), (''slug'', JStr ''espresso-bar''),
        (''description'', JStr (fa [0x627, 0x646, 0x648, 0x627, 0x639, 0x20, 0x627, 0x633, 0x67E, 0x631, 0x633, 0x648, 0x60C, 0x20, 0x644, 0x627, 0x62A, 0x647, 0x60C, 0x20, 0x6A9, 0x627, 0x67E, 0x648, 0x686, 0x6CC, 0x646, 0x648, 0x20, 0x648, 0x20, 0x646, 0x648, 0x634, 0x6CC, 0x62F, 0x646, 0x6CC, 0x200C, 0x647, 0x627, 0x6CC, 0x20, 0x67E, 0x627, 0x6CC, 0x647, 0x20, 0x627, 0x633, 0x67E, 0x631, 0x633, 0x648, 0x20, 0x628, 0x627, 0x20, 0x62F, 0x627, 0x646, 0x647, 0x20, 0x6F1, 0x6F0, 0x6F0, 0x66A, 0x20, 0x639, 0x631, 0x628, 0x6CC, 0x6A9, 0x627]))]),
     (''category'', ''11111111-1111-4111-8111-000000000002'',
        [(''title'', JStr (fa [0x628, 0x627, 0x631, 0x20, 0x633, 0x631, 0x62F, 0x60C, 0x20, 0x622, 0x6CC, 0x633, 0x20, 0x648, 0x20, 0x645, 0x627, 0x686, 0x627])), (''slug'', JStr ''cold-bar''),
        (''description'', JStr (fa [0x646, 0x648, 0x634, 0x6CC, 0x62F, 0x646, 0x6CC, 0x200C, 0x647, 0x627, 0x6CC, 0x20, 0x62E, 0x646, 0x6A9, 0x60C, 0x20, 0x622, 0x6CC, 0x633, 0x20, 0x644, 0x627, 0x62A, 0x647, 0x60C, 0x20, 0x6A9, 0x644, 0x62F, 0x628, 0x631, 0x648, 0x20, 0x648, 0x20, 0x645, 0x627, 0x686, 0x627, 0x20, 0x644, 0x627, 0x62A, 0x647]))]),
     (''category'', ''11111111-1111-4111-8111-000000000003'',
        [(''title'', JStr (fa [0x642, 0x647, 0x648, 0x647, 0x20, 0x62F, 0x645, 0x6CC, 0x20, 0x648, 0x20, 0x645, 0x648, 0x62C, 0x20, 0x633, 0x648, 0x645])), (''slug'', JStr ''brew-bar''),
        (''description'', JStr (fa [0x648, 0x6CC, 0x6F6, 0x6F0, 0x20, 0x28, 0x56, 0x36, 0x30, 0x29, 0x60C, 0x20, 0x6A9, 0x645, 0x6A9, 0x633, 0x60C, 0x20, 0x627, 0x6CC, 0x631, 0x648, 0x67E, 0x631, 0x633, 0x20, 0x648, 0x20, 0x642, 0x647, 0x648, 0x647, 0x20, 0x62A, 0x631, 0x6A9, 0x20, 0x62A, 0x62E, 0x635, 0x635, 0x6CC]))]),
     (''category'', ''11111111-1111-4111-8111-000000000004'',
        [(''title'', JStr (fa [0x6A9, 0x6CC, 0x6A9, 0x20, 0x631, 0x648, 0x632, 0x60C, 0x20, 0x6A9, 0x631, 0x648, 0x633, 0x627, 0x646, 0x20, 0x648, 0x20, 0x62F, 0x633, 0x631])), (''slug'', JStr ''bakery-dessert''),
        (''description'', JStr (fa [0x67E, 0x62E, 0x62A, 0x20, 0x631, 0x648, 0x632, 0x627, 0x646, 0x647, 0x20, 0x6A9, 0x6CC, 0x6A9, 0x20, 0x632, 0x639, 0x641, 0x631, 0x627, 0x646, 0x6CC, 0x60C, 0x20, 0x686, 0x6CC, 0x632, 0x6A9, 0x6CC, 0x6A9, 0x20, 0x633, 0x646, 0x200C, 0x633, 0x628, 0x627, 0x633, 0x62A, 0x6CC, 0x646, 0x20, 0x648, 0x20, 0x6A9, 0x631, 0x648, 0x633, 0x627, 0x646, 0x20, 0x6A9, 0x631, 0x647, 0x200C, 0x627, 0x6CC]))]),
     (''category'', ''11111111-1111-4111-8111-000000000005'',
        [(''title'', JStr (fa [0x62F, 0x645, 0x646, 0x648, 0x634, 0x200C, 0x647, 0x627, 0x6CC, 0x20, 0x627, 0x6CC, 0x631, 0x627, 0x646, 0x6CC, 0x20, 0x648, 0x20, 0x686, 0x627, 0x6CC])), (''slug'', JStr ''herbal-tea''),
        (''description'', JStr (fa [0x62F, 0x645, 0x646, 0x648, 0x634, 0x200C, 0x647, 0x627, 0x6CC, 0x20, 0x637, 0x628, 0x6CC, 0x639, 0x6CC, 0x20, 0x628, 0x647, 0x627, 0x631, 0x646, 0x627, 0x631, 0x646, 0x62C, 0x60C, 0x20, 0x632, 0x639, 0x641, 0x631, 0x627, 0x646, 0x60C, 0x20, 0x6AF, 0x644, 0x200C, 0x6AF, 0x627, 0x648, 0x632, 0x628, 0x627, 0x646, 0x20, 0x648, 0x20, 0x686, 0x627, 0x6CC, 0x20, 0x644, 0x627, 0x647, 0x6CC, 0x62C, 0x627, 0x646]))]),
     (''product'', ''22222222-2222-4222-8222-000000000001'',
        [(''title'', JStr (fa [0x627, 0x633, 0x67E, 0x631, 0x633, 0x648, 0x20, 0x62F, 0x628, 0x644, 0x20, 0x62A, 0x62E, 0x635, 0x635, 0x6CC, 0x20, 0x28, 0x627, 0x62A, 0x6CC, 0x648, 0x67E, 0x6CC, 0x29])), (''category_id'', JStr ''11111111-1111-4111-8111-000000000001''),
        (''price'', JStr ''950000''), (''cost'', JStr ''280000''), (''is_available'', JBool True),
        (''description'', JStr (fa [0x639, 0x635, 0x627, 0x631, 0x647, 0x200C, 0x6AF, 0x6CC, 0x631, 0x6CC, 0x20, 0x62F, 0x628, 0x644, 0x20, 0x634, 0x627, 0x62A, 0x20, 0x627, 0x632, 0x20, 0x62F, 0x627, 0x646, 0x647, 0x20, 0x639, 0x631, 0x628, 0x6CC, 0x6A9, 0x627, 0x20, 0x627, 0x62A, 0x6CC, 0x648, 0x67E, 0x6CC, 0x20, 0x6CC, 0x631, 0x6AF, 0x627, 0x634, 0x641]))]),
     (''product'', ''22222222-2222-4222-8222-000000000002'',
        [(''title'', JStr (fa [0x6A9, 0x627, 0x641, 0x647, 0x20, 0x644, 0x627, 0x62A, 0x647, 0x20, 0x641, 0x646, 0x62F, 0x642])), (''category_id'', JStr ''11111111-1111-4111-8111-000000000001''), (''price'', JStr ''1450000''),
        (''cost'', JStr ''450000''), (''is_available'', JBool True),
        (''description'', JStr (fa [0x62F, 0x628, 0x644, 0x20, 0x627, 0x633, 0x67E, 0x631, 0x633, 0x648, 0x60C, 0x20, 0x634, 0x6CC, 0x631, 0x20, 0x628, 0x62E, 0x627, 0x631, 0x62F, 0x647, 0x6CC, 0x20, 0x634, 0x62F, 0x647, 0x20, 0x627, 0x628, 0x631, 0x6CC, 0x634, 0x645, 0x6CC, 0x20, 0x648, 0x20, 0x633, 0x6CC, 0x631, 0x648, 0x67E, 0x20, 0x641, 0x646, 0x62F, 0x642, 0x20, 0x627, 0x648, 0x631, 0x62C, 0x6CC, 0x646, 0x627, 0x644]))]),
     (''product'', ''22222222-2222-4222-8222-000000000003'',
        [(''title'', JStr (fa [0x6A9, 0x627, 0x67E, 0x648, 0x686, 0x6CC, 0x646, 0x648, 0x20, 0x6A9, 0x644, 0x627, 0x633, 0x6CC, 0x6A9, 0x20, 0x627, 0x6CC, 0x62A, 0x627, 0x644, 0x6CC, 0x627, 0x6CC, 0x6CC])), (''category_id'', JStr ''11111111-1111-4111-8111-000000000001''),
        (''price'', JStr ''1300000''), (''cost'', JStr ''390000''), (''is_available'', JBool True),
        (''description'', JStr (fa [0x641, 0x648, 0x645, 0x20, 0x634, 0x6CC, 0x631, 0x20, 0x63A, 0x644, 0x6CC, 0x638, 0x20, 0x648, 0x20, 0x627, 0x633, 0x67E, 0x631, 0x633, 0x648, 0x20, 0x62A, 0x62E, 0x635, 0x635, 0x6CC]))]),
     (''product'', ''22222222-2222-4222-8222-000000000004'',
        [(''title'', JStr (fa [0x622, 0x6CC, 0x633, 0x20, 0x6A9, 0x627, 0x631, 0x627, 0x645, 0x644, 0x20, 0x645, 0x627, 0x6A9, 0x6CC, 0x627, 0x62A, 0x648])), (''category_id'', JStr ''11111111-1111-4111-8111-000000000002''), (''price'', JStr ''1550000''),
        (''cost'', JStr ''480000''), (''is_available'', JBool True),
        (''description'', JStr (fa [0x633, 0x631, 0x648, 0x20, 0x633, 0x631, 0x62F, 0x20, 0x628, 0x627, 0x20, 0x6CC, 0x62E, 0x20, 0x628, 0x644, 0x648, 0x631, 0x6CC, 0x60C, 0x20, 0x634, 0x6CC, 0x631, 0x20, 0x62A, 0x627, 0x632, 0x647, 0x60C, 0x20, 0x6A9, 0x627, 0x631, 0x627, 0x645, 0x644, 0x20, 0x62F, 0x633, 0x62A, 0x200C, 0x633, 0x627, 0x632, 0x20, 0x648, 0x20, 0x627, 0x633, 0x67E, 0x631, 0x633, 0x648]))]),
     (''product'', ''22222222-2222-4222-8222-000000000005'',
        [(''title'', JStr (fa [0x645, 0x627, 0x686, 0x627, 0x20, 0x644, 0x627, 0x62A, 0x647, 0x20, 0x62A, 0x634, 0x631, 0x6CC, 0x641, 0x627, 0x62A, 0x6CC, 0x20, 0x28, 0x627, 0x645, 0x67E, 0x631, 0x6CC, 0x627, 0x644, 0x29])), (''category_id'', JStr ''11111111-1111-4111-8111-000000000002''),
        (''price'', JStr ''1750000''), (''cost'', JStr ''620000''), (''is_available'', JBool True),
        (''description'', JStr (fa [0x67E, 0x648, 0x62F, 0x631, 0x20, 0x645, 0x627, 0x686, 0x627, 0x6CC, 0x20, 0x62F, 0x631, 0x62C, 0x647, 0x20, 0x6CC, 0x6A9, 0x20, 0x698, 0x627, 0x67E, 0x646, 0x6CC, 0x20, 0x628, 0x627, 0x20, 0x634, 0x6CC, 0x631, 0x20, 0x628, 0x627, 0x62F, 0x627, 0x645, 0x20, 0x6CC, 0x627, 0x20, 0x634, 0x6CC, 0x631, 0x20, 0x62A, 0x627, 0x632, 0x647]))]),
     (''product'', ''22222222-2222-4222-8222-000000000006'',
        [(''title'', JStr (fa [0x642, 0x647, 0x648, 0x647, 0x20, 0x62F, 0x645, 0x6CC, 0x20, 0x56, 0x36, 0x30, 0x20, 0x28, 0x6A9, 0x646, 0x6CC, 0x627, 0x20, 0x41, 0x41, 0x29])), (''category_id'', JStr ''11111111-1111-4111-8111-000000000003''),
        (''price'', JStr ''1650000''), (''cost'', JStr ''520000''), (''is_available'', JBool True),
        (''description'', JStr (fa [0x62F, 0x645, 0x200C, 0x622, 0x648, 0x631, 0x6CC, 0x20, 0x62F, 0x633, 0x62A, 0x6CC, 0x20, 0x628, 0x627, 0x20, 0x641, 0x6CC, 0x644, 0x62A, 0x631, 0x20, 0x6A9, 0x627, 0x63A, 0x630, 0x6CC, 0x60C, 0x20, 0x637, 0x639, 0x645, 0x200C, 0x6CC, 0x627, 0x62F, 0x20, 0x62A, 0x648, 0x62A, 0x20, 0x633, 0x6CC, 0x627, 0x647, 0x20, 0x648, 0x20, 0x645, 0x631, 0x6A9, 0x628, 0x627, 0x62A]))]),
     (''product'', ''22222222-2222-4222-8222-000000000007'',
        [(''title'', JStr (fa [0x686, 0x6CC, 0x632, 0x6A9, 0x6CC, 0x6A9, 0x20, 0x633, 0x646, 0x200C, 0x633, 0x628, 0x627, 0x633, 0x62A, 0x6CC, 0x646, 0x20, 0x628, 0x627, 0x20, 0x633, 0x633, 0x20, 0x634, 0x6A9, 0x644, 0x627, 0x62A, 0x20, 0x628, 0x644, 0x698, 0x6CC, 0x6A9, 0x6CC])), (''category_id'', JStr ''11111111-1111-4111-8111-000000000004''),
        (''price'', JStr ''1850000''), (''cost'', JStr ''680000''), (''is_available'', JBool True),
        (''description'', JStr (fa [0x67E, 0x62E, 0x62A, 0x20, 0x631, 0x648, 0x632, 0x20, 0x6A9, 0x627, 0x641, 0x647, 0x20, 0x628, 0x627, 0x20, 0x628, 0x627, 0x641, 0x62A, 0x20, 0x6A9, 0x631, 0x645, 0x6CC, 0x20, 0x648, 0x20, 0x633, 0x633, 0x20, 0x634, 0x6A9, 0x644, 0x627, 0x62A, 0x20, 0x62F, 0x627, 0x63A]))]),
     (''product'', ''22222222-2222-4222-8222-000000000008'',
        [(''title'', JStr (fa [0x6A9, 0x6CC, 0x6A9, 0x20, 0x632, 0x639, 0x641, 0x631, 0x627, 0x646, 0x6CC, 0x20, 0x648, 0x20, 0x67E, 0x633, 0x62A, 0x647, 0x20, 0x627, 0x6CC, 0x631, 0x627, 0x646, 0x6CC])), (''category_id'', JStr ''11111111-1111-4111-8111-000000000004''),
        (''price'', JStr ''1400000''), (''cost'', JStr ''420000''), (''is_available'', JBool True),
        (''description'', JStr (fa [0x6A9, 0x6CC, 0x6A9, 0x20, 0x62E, 0x627, 0x646, 0x6AF, 0x6CC, 0x20, 0x628, 0x627, 0x20, 0x632, 0x639, 0x641, 0x631, 0x627, 0x646, 0x20, 0x642, 0x627, 0x626, 0x646, 0x627, 0x62A, 0x60C, 0x20, 0x6AF, 0x644, 0x627, 0x628, 0x20, 0x6A9, 0x627, 0x634, 0x627, 0x646, 0x20, 0x648, 0x20, 0x645, 0x63A, 0x632, 0x20, 0x67E, 0x633, 0x62A, 0x647, 0x20, 0x6A9, 0x631, 0x645, 0x627, 0x646]))])]"

definition seed_stock :: "seed list" where
  "seed_stock =
    [(''ingredient'', ''33333333-3333-4333-8333-000000000001'',
        [(''name'', JStr (fa [0x62F, 0x627, 0x646, 0x647, 0x20, 0x642, 0x647, 0x648, 0x647, 0x20, 0x639, 0x631, 0x628, 0x6CC, 0x6A9, 0x627, 0x20, 0x627, 0x62A, 0x6CC, 0x648, 0x67E, 0x6CC])), (''sku'', JStr ''COF-ETH-01''), (''base_unit'', JStr ''g''),
        (''current_stock'', JStr ''4250''), (''minimum_stock'', JStr ''1500''), (''reorder_point'', JStr ''2000''),
        (''average_cost'', JStr ''14500'')]),
     (''ingredient'', ''33333333-3333-4333-8333-000000000002'',
        [(''name'', JStr (fa [0x634, 0x6CC, 0x631, 0x20, 0x62A, 0x627, 0x632, 0x647, 0x20, 0x67E, 0x631, 0x686, 0x631, 0x628, 0x20, 0x628, 0x627, 0x631, 0x6CC, 0x633, 0x62A, 0x627])), (''sku'', JStr ''MLK-BAR-01''), (''base_unit'', JStr ''ml''),
        (''current_stock'', JStr ''12500''), (''minimum_stock'', JStr ''5000''), (''reorder_point'', JStr ''8000''),
        (''average_cost'', JStr ''480'')]),
     (''ingredient'', ''33333333-3333-4333-8333-000000000003'',
        [(''name'', JStr (fa [0x633, 0x6CC, 0x631, 0x648, 0x67E, 0x20, 0x641, 0x646, 0x62F, 0x642, 0x20, 0x645, 0x648, 0x646, 0x6CC, 0x646])), (''sku'', JStr ''SYR-HAZ-01''), (''base_unit'', JStr ''ml''), (''current_stock'', JStr ''650''),
        (''minimum_stock'', JStr ''700''), (''reorder_point'', JStr ''1000''), (''average_cost'', JStr ''8500'')]),
     (''ingredient'', ''33333333-3333-4333-8333-000000000004'',
        [(''name'', JStr (fa [0x67E, 0x648, 0x62F, 0x631, 0x20, 0x645, 0x627, 0x686, 0x627, 0x20, 0x62A, 0x634, 0x631, 0x6CC, 0x641, 0x627, 0x62A, 0x6CC, 0x20, 0x698, 0x627, 0x67E, 0x646])), (''sku'', JStr ''MTC-JPN-01''), (''base_unit'', JStr ''g''),
        (''current_stock'', JStr ''180''), (''minimum_stock'', JStr ''200''), (''reorder_point'', JStr ''300''), (''average_cost'', JStr ''95000'')]),
     (''ingredient'', ''33333333-3333-4333-8333-000000000005'',
        [(''name'', JStr (fa [0x632, 0x639, 0x641, 0x631, 0x627, 0x646, 0x20, 0x633, 0x631, 0x6AF, 0x644, 0x20, 0x642, 0x627, 0x626, 0x646, 0x627, 0x62A])), (''sku'', JStr ''SAF-QAN-01''), (''base_unit'', JStr ''g''), (''current_stock'', JStr ''45''),
        (''minimum_stock'', JStr ''15''), (''reorder_point'', JStr ''25''), (''average_cost'', JStr ''1150000'')]),
     (''ingredient'', ''33333333-3333-4333-8333-000000000006'',
        [(''name'', JStr (fa [0x644, 0x6CC, 0x648, 0x627, 0x646, 0x20, 0x628, 0x6CC, 0x631, 0x648, 0x646, 0x200C, 0x628, 0x631, 0x20, 0x62F, 0x648, 0x62C, 0x62F, 0x627, 0x631, 0x647, 0x20, 0x6A9, 0x631, 0x627, 0x641, 0x62A])), (''sku'', JStr ''CUP-8OZ-01''), (''base_unit'', JStr ''pcs''),
        (''current_stock'', JStr ''340''), (''minimum_stock'', JStr ''100''), (''reorder_point'', JStr ''150''), (''average_cost'', JStr ''45000'')]),
     (''recipe'', ''44444444-4444-4444-8444-000000000001'',
        [(''title'', JStr (fa [0x631, 0x633, 0x67E, 0x6CC, 0x20, 0x627, 0x633, 0x67E, 0x631, 0x633, 0x648, 0x20, 0x62F, 0x628, 0x644, 0x20, 0x62A, 0x62E, 0x635, 0x635, 0x6CC])), (''product_id'', JStr ''22222222-2222-4222-8222-000000000001''),
        (''product_name'', JStr (fa [0x627, 0x633, 0x67E, 0x631, 0x633, 0x648, 0x20, 0x62F, 0x628, 0x644, 0x20, 0x62A, 0x62E, 0x635, 0x635, 0x6CC, 0x20, 0x28, 0x627, 0x62A, 0x6CC, 0x648, 0x67E, 0x6CC, 0x29])), (''yield_qty'', JStr ''1''),
        (''note'', JStr (fa [0x639, 0x635, 0x627, 0x631, 0x647, 0x200C, 0x6AF, 0x6CC, 0x631, 0x6CC, 0x20, 0x6F1, 0x6F8, 0x20, 0x6AF, 0x631, 0x645, 0x20, 0x633, 0x628, 0x62F, 0x20, 0x62F, 0x628, 0x644, 0x20, 0x62F, 0x631, 0x20, 0x6F2, 0x6F8, 0x20, 0x62B, 0x627, 0x646, 0x6CC, 0x647, 0x20, 0x628, 0x627, 0x20, 0x62F, 0x645, 0x627, 0x6CC, 0x20, 0x6F9, 0x6F3, 0x20, 0x62F, 0x631, 0x62C, 0x647])),
        (''items'', JArr [marshal [(''ingredient_id'', JStr ''33333333-3333-4333-8333-000000000001''),
        (''ingredient_name'', JStr (fa [0x62F, 0x627, 0x646, 0x647, 0x20, 0x642, 0x647, 0x648, 0x647, 0x20, 0x639, 0x631, 0x628, 0x6CC, 0x6A9, 0x627, 0x20, 0x627, 0x62A, 0x6CC, 0x648, 0x67E, 0x6CC])), (''quantity'', JStr ''18.5''), (''unit'', JStr ''g'')]])]),
     (''recipe'', ''44444444-4444-4444-8444-000000000002'',
        [(''title'', JStr (fa [0x631, 0x633, 0x67E, 0x6CC, 0x20, 0x6A9, 0x627, 0x641, 0x647, 0x20, 0x644, 0x627, 0x62A, 0x647, 0x20, 0x641, 0x646, 0x62F, 0x642])), (''product_id'', JStr ''22222222-2222-4222-8222-000000000002''),
        (''product_name'', JStr (fa [0x6A9, 0x627, 0x641, 0x647, 0x20, 0x644, 0x627, 0x62A, 0x647, 0x20, 0x641, 0x646, 0x62F, 0x642])), (''yield_qty'', JStr ''1''),
        (''note'', JStr (fa [0x62F, 0x628, 0x644, 0x20, 0x634, 0x627, 0x62A, 0x20, 0x627, 0x633, 0x67E, 0x631, 0x633, 0x648, 0x20, 0x2B, 0x20, 0x6F2, 0x6F2, 0x6F0, 0x20, 0x645, 0x6CC, 0x644, 0x6CC, 0x200C, 0x644, 0x6CC, 0x62A, 0x631, 0x20, 0x634, 0x6CC, 0x631, 0x20, 0x641, 0x648, 0x645, 0x200C, 0x6AF, 0x6CC, 0x631, 0x6CC, 0x200C, 0x634, 0x62F, 0x647, 0x20, 0x2B, 0x20, 0x6F2, 0x6F0, 0x20, 0x645, 0x6CC, 0x644, 0x6CC, 0x200C, 0x644, 0x6CC, 0x62A, 0x631, 0x20, 0x633, 0x6CC, 0x631, 0x648, 0x67E, 0x20, 0x641, 0x646, 0x62F, 0x642])),
        (''items'', JArr [marshal [(''ingredient_id'', JStr ''33333333-3333-4333-8333-000000000001''),
        (''ingredient_name'', JStr (fa [0x62F, 0x627, 0x646, 0x647, 0x20, 0x642, 0x647, 0x648, 0x647, 0x20, 0x639, 0x631, 0x628, 0x6CC, 0x6A9, 0x627, 0x20, 0x627, 0x62A, 0x6CC, 0x648, 0x67E, 0x6CC])), (''quantity'', JStr ''18.5''),
        (''unit'', JStr ''g'')], marshal [(''ingredient_id'', JStr ''33333333-3333-4333-8333-000000000002''),
        (''ingredient_name'', JStr (fa [0x634, 0x6CC, 0x631, 0x20, 0x62A, 0x627, 0x632, 0x647, 0x20, 0x67E, 0x631, 0x686, 0x631, 0x628, 0x20, 0x628, 0x627, 0x631, 0x6CC, 0x633, 0x62A, 0x627])), (''quantity'', JStr ''220''),
        (''unit'', JStr ''ml'')], marshal [(''ingredient_id'', JStr ''33333333-3333-4333-8333-000000000003''),
        (''ingredient_name'', JStr (fa [0x633, 0x6CC, 0x631, 0x648, 0x67E, 0x20, 0x641, 0x646, 0x62F, 0x642, 0x20, 0x645, 0x648, 0x646, 0x6CC, 0x646])), (''quantity'', JStr ''20''), (''unit'', JStr ''ml'')]])])]"

definition seed_room :: "seed list" where
  "seed_room =
    [(''table'', ''55555555-5555-4555-8555-000000000001'',
        [(''number'', JStr (fa [0x6F1])), (''title'', JStr (fa [0x645, 0x6CC, 0x632, 0x20, 0x6F1, 0x20, 0x2014, 0x20, 0x6A9, 0x646, 0x627, 0x631, 0x20, 0x67E, 0x646, 0x62C, 0x631, 0x647, 0x20, 0x648, 0x644, 0x6CC, 0x639, 0x635, 0x631])), (''zone'', JStr (fa [0x633, 0x627, 0x644, 0x646, 0x20, 0x627, 0x635, 0x644, 0x6CC])), (''capacity'', JStr ''2''),
        (''status'', JStr ''occupied'')]),
     (''table'', ''55555555-5555-4555-8555-000000000002'',
        [(''number'', JStr (fa [0x6F2])), (''title'', JStr (fa [0x645, 0x6CC, 0x632, 0x20, 0x6F2, 0x20, 0x2014, 0x20, 0x633, 0x627, 0x644, 0x646, 0x20, 0x627, 0x635, 0x644, 0x6CC])), (''zone'', JStr (fa [0x633, 0x627, 0x644, 0x646, 0x20, 0x627, 0x635, 0x644, 0x6CC])), (''capacity'', JStr ''4''),
        (''status'', JStr ''available'')]),
     (''table'', ''55555555-5555-4555-8555-000000000003'',
        [(''number'', JStr (fa [0x6F3])), (''title'', JStr (fa [0x645, 0x6CC, 0x632, 0x20, 0x6F3, 0x20, 0x2014, 0x20, 0x633, 0x627, 0x644, 0x646, 0x20, 0x627, 0x635, 0x644, 0x6CC])), (''zone'', JStr (fa [0x633, 0x627, 0x644, 0x646, 0x20, 0x627, 0x635, 0x644, 0x6CC])), (''capacity'', JStr ''4''),
        (''status'', JStr ''available'')]),
     (''table'', ''55555555-5555-4555-8555-000000000004'',
        [(''number'', JStr (fa [0x6F4])), (''title'', JStr (fa [0x645, 0x6CC, 0x632, 0x20, 0x6F4, 0x20, 0x2014, 0x20, 0x62A, 0x631, 0x627, 0x633, 0x20, 0x633, 0x628, 0x632])), (''zone'', JStr (fa [0x62A, 0x631, 0x627, 0x633])), (''capacity'', JStr ''2''),
        (''status'', JStr ''reserved'')]),
     (''table'', ''55555555-5555-4555-8555-000000000005'',
        [(''number'', JStr (fa [0x6F5])), (''title'', JStr (fa [0x645, 0x6CC, 0x632, 0x20, 0x6F5, 0x20, 0x2014, 0x20, 0x62A, 0x631, 0x627, 0x633, 0x20, 0x633, 0x628, 0x632])), (''zone'', JStr (fa [0x62A, 0x631, 0x627, 0x633])), (''capacity'', JStr ''4''),
        (''status'', JStr ''available'')]),
     (''table'', ''55555555-5555-4555-8555-000000000006'',
        [(''number'', JStr (fa [0x6F6])), (''title'', JStr (fa [0x645, 0x6CC, 0x632, 0x20, 0x6F6, 0x20, 0x2014, 0x20, 0x645, 0x6CC, 0x632, 0x20, 0x628, 0x632, 0x631, 0x6AF, 0x20, 0x6AF, 0x631, 0x648, 0x647, 0x6CC, 0x20, 0x28, 0x56, 0x49, 0x50, 0x29])), (''zone'', JStr (fa [0x628, 0x62E, 0x634, 0x20, 0x56, 0x49, 0x50])), (''capacity'', JStr ''8''),
        (''status'', JStr ''available'')]),
     (''reservation'', ''55555555-5555-4555-8555-000000000099'',
        [(''title'', JStr (fa [0x631, 0x632, 0x631, 0x648, 0x20, 0x645, 0x6CC, 0x632, 0x20, 0x6F4, 0x20, 0x62A, 0x631, 0x627, 0x633, 0x20, 0x2014, 0x20, 0x633, 0x631, 0x6A9, 0x627, 0x631, 0x20, 0x62E, 0x627, 0x646, 0x645, 0x20, 0x62A, 0x627, 0x628, 0x634])), (''guest_name'', JStr (fa [0x633, 0x627, 0x631, 0x627, 0x20, 0x62A, 0x627, 0x628, 0x634])), (''guest_phone'', JStr ''09123456789''),
        (''table_label'', JStr (fa [0x645, 0x6CC, 0x632, 0x20, 0x6F4, 0x20, 0x2014, 0x20, 0x62A, 0x631, 0x627, 0x633, 0x20, 0x633, 0x628, 0x632])), (''guests_count'', JStr ''2''), (''reserve_time'', JStr (fa [0x633, 0x627, 0x639, 0x62A, 0x20, 0x6F1, 0x6F8, 0x3A, 0x6F3, 0x6F0, 0x20, 0x627, 0x645, 0x631, 0x648, 0x632])),
        (''note'', JStr (fa [0x62C, 0x634, 0x646, 0x20, 0x633, 0x627, 0x644, 0x6AF, 0x631, 0x62F, 0x20, 0x627, 0x632, 0x62F, 0x648, 0x627, 0x62C, 0x20, 0x2014, 0x20, 0x6AF, 0x644, 0x20, 0x631, 0x648, 0x6CC, 0x20, 0x645, 0x6CC, 0x632])), (''status'', JStr ''confirmed'')])]"

definition seed_people :: "seed list" where
  "seed_people =
    [(''customer'', ''66666666-6666-4666-8666-000000000001'',
        [(''full_name'', JStr (fa [0x627, 0x645, 0x6CC, 0x631, 0x62D, 0x633, 0x6CC, 0x646, 0x20, 0x631, 0x636, 0x627, 0x6CC, 0x6CC])), (''phone'', JStr ''09121112233''), (''tier'', JStr (fa [0x637, 0x644, 0x627, 0x6CC, 0x6CC, 0x20, 0x28, 0x56, 0x49, 0x50, 0x29])),
        (''loyalty_points'', JStr ''48''), (''orders_count'', JStr ''24''), (''note'', JStr (fa [0x627, 0x633, 0x67E, 0x631, 0x633, 0x648, 0x20, 0x628, 0x62F, 0x648, 0x646, 0x20, 0x634, 0x6A9, 0x631, 0x60C, 0x20, 0x634, 0x6CC, 0x631, 0x20, 0x6A9, 0x645, 0x200C, 0x686, 0x631, 0x628]))]),
     (''customer'', ''66666666-6666-4666-8666-000000000002'',
        [(''full_name'', JStr (fa [0x645, 0x647, 0x633, 0x627, 0x20, 0x6A9, 0x631, 0x6CC, 0x645, 0x6CC])), (''phone'', JStr ''09124445566''), (''tier'', JStr (fa [0x646, 0x642, 0x631, 0x647, 0x200C, 0x627, 0x6CC])), (''loyalty_points'', JStr ''19''),
        (''orders_count'', JStr ''11''), (''note'', JStr (fa [0x639, 0x644, 0x627, 0x642, 0x647, 0x200C, 0x645, 0x646, 0x62F, 0x20, 0x628, 0x647, 0x20, 0x642, 0x647, 0x648, 0x647, 0x20, 0x62F, 0x645, 0x6CC, 0x20, 0x56, 0x36, 0x30]))]),
     (''customer'', ''66666666-6666-4666-8666-000000000003'',
        [(''full_name'', JStr (fa [0x62F, 0x6A9, 0x62A, 0x631, 0x20, 0x641, 0x631, 0x647, 0x627, 0x62F, 0x20, 0x646, 0x627, 0x62F, 0x631, 0x6CC, 0x20, 0x28, 0x62F, 0x641, 0x62A, 0x631, 0x20, 0x645, 0x639, 0x645, 0x627, 0x631, 0x6CC, 0x20, 0x645, 0x62C, 0x627, 0x648, 0x631, 0x29])), (''phone'', JStr ''09127778899''), (''tier'', JStr (fa [0x637, 0x644, 0x627, 0x6CC, 0x6CC, 0x20, 0x28, 0x62D, 0x633, 0x627, 0x628, 0x20, 0x634, 0x631, 0x6A9, 0x62A, 0x6CC, 0x29])),
        (''loyalty_points'', JStr ''85''), (''orders_count'', JStr ''42''), (''note'', JStr (fa [0x633, 0x641, 0x627, 0x631, 0x634, 0x200C, 0x647, 0x627, 0x6CC, 0x20, 0x62C, 0x644, 0x633, 0x627, 0x62A, 0x20, 0x62F, 0x641, 0x62A, 0x631, 0x20, 0x645, 0x639, 0x645, 0x627, 0x631, 0x6CC]))]),
     (''debtor'', ''77777777-7777-4777-8777-000000000001'',
        [(''full_name'', JStr (fa [0x62F, 0x6A9, 0x62A, 0x631, 0x20, 0x641, 0x631, 0x647, 0x627, 0x62F, 0x20, 0x646, 0x627, 0x62F, 0x631, 0x6CC, 0x20, 0x28, 0x62F, 0x641, 0x62A, 0x631, 0x20, 0x645, 0x639, 0x645, 0x627, 0x631, 0x6CC, 0x20, 0x645, 0x62C, 0x627, 0x648, 0x631, 0x29])), (''phone'', JStr ''09127778899''), (''total'', JStr ''14500000''),
        (''paid'', JStr ''5000000''), (''remaining'', JStr ''9500000''), (''currency'', JStr ''IRR''), (''status'', JStr ''partial''),
        (''description'', JStr (fa [0x67E, 0x630, 0x6CC, 0x631, 0x627, 0x6CC, 0x6CC, 0x20, 0x62C, 0x644, 0x633, 0x627, 0x62A, 0x20, 0x647, 0x641, 0x62A, 0x6AF, 0x6CC, 0x20, 0x62F, 0x641, 0x62A, 0x631, 0x20, 0x645, 0x639, 0x645, 0x627, 0x631, 0x6CC, 0x20, 0x28, 0x62A, 0x633, 0x648, 0x6CC, 0x647, 0x20, 0x67E, 0x627, 0x6CC, 0x627, 0x646, 0x20, 0x645, 0x627, 0x647, 0x29]))]),
     (''staff'', ''88888888-8888-4888-8888-000000000001'',
        [(''full_name'', JStr (fa [0x622, 0x631, 0x634, 0x20, 0x6A9, 0x627, 0x638, 0x645, 0x6CC])), (''role'', JStr (fa [0x633, 0x631, 0x67E, 0x631, 0x633, 0x62A, 0x20, 0x628, 0x627, 0x631, 0x20, 0x648, 0x20, 0x628, 0x627, 0x631, 0x6CC, 0x633, 0x62A, 0x627, 0x20, 0x627, 0x631, 0x634, 0x62F])), (''phone'', JStr ''09120001122''),
        (''shift'', JStr (fa [0x634, 0x6CC, 0x641, 0x62A, 0x20, 0x635, 0x628, 0x62D, 0x20, 0x28, 0x6F0, 0x6F7, 0x3A, 0x6F3, 0x6F0, 0x20, 0x62A, 0x627, 0x20, 0x6F1, 0x6F5, 0x3A, 0x6F3, 0x6F0, 0x29])), (''salary_irr'', JStr ''220000000''), (''status'', JStr (fa [0x62D, 0x627, 0x636, 0x631, 0x20, 0x62F, 0x631, 0x20, 0x634, 0x6CC, 0x641, 0x62A]))]),
     (''staff'', ''88888888-8888-4888-8888-000000000002'',
        [(''full_name'', JStr (fa [0x646, 0x6AF, 0x627, 0x631, 0x20, 0x645, 0x62D, 0x645, 0x62F, 0x6CC])), (''role'', JStr (fa [0x635, 0x646, 0x62F, 0x648, 0x642, 0x62F, 0x627, 0x631, 0x20, 0x648, 0x20, 0x645, 0x633, 0x626, 0x648, 0x644, 0x20, 0x67E, 0x630, 0x6CC, 0x631, 0x634])), (''phone'', JStr ''09120003344''),
        (''shift'', JStr (fa [0x634, 0x6CC, 0x641, 0x62A, 0x20, 0x635, 0x628, 0x62D, 0x20, 0x28, 0x6F0, 0x6F8, 0x3A, 0x6F0, 0x6F0, 0x20, 0x62A, 0x627, 0x20, 0x6F1, 0x6F6, 0x3A, 0x6F0, 0x6F0, 0x29])), (''salary_irr'', JStr ''180000000''), (''status'', JStr (fa [0x62D, 0x627, 0x636, 0x631, 0x20, 0x62F, 0x631, 0x20, 0x634, 0x6CC, 0x641, 0x62A]))]),
     (''staff'', ''88888888-8888-4888-8888-000000000003'',
        [(''full_name'', JStr (fa [0x6A9, 0x6CC, 0x648, 0x627, 0x646, 0x20, 0x631, 0x627, 0x62F])), (''role'', JStr (fa [0x628, 0x627, 0x631, 0x6CC, 0x633, 0x62A, 0x627, 0x20, 0x628, 0x627, 0x631, 0x20, 0x6AF, 0x631, 0x645, 0x20, 0x648, 0x20, 0x62F, 0x645, 0x6CC])), (''phone'', JStr ''09120005566''),
        (''shift'', JStr (fa [0x634, 0x6CC, 0x641, 0x62A, 0x20, 0x639, 0x635, 0x631, 0x20, 0x28, 0x6F1, 0x6F5, 0x3A, 0x6F3, 0x6F0, 0x20, 0x62A, 0x627, 0x20, 0x6F2, 0x6F3, 0x3A, 0x6F3, 0x6F0, 0x29])), (''salary_irr'', JStr ''195000000''), (''status'', JStr (fa [0x634, 0x6CC, 0x641, 0x62A, 0x20, 0x639, 0x635, 0x631]))]),
     (''task'', ''88888888-8888-4888-8888-000000000011'',
        [(''title'', JStr (fa [0x6A9, 0x627, 0x644, 0x6CC, 0x628, 0x631, 0x627, 0x633, 0x6CC, 0x648, 0x646, 0x20, 0x622, 0x633, 0x6CC, 0x627, 0x628, 0x20, 0x627, 0x633, 0x67E, 0x631, 0x633, 0x648, 0x20, 0x648, 0x20, 0x62A, 0x633, 0x62A, 0x20, 0x639, 0x635, 0x627, 0x631, 0x647, 0x200C, 0x6AF, 0x6CC, 0x631, 0x6CC, 0x20, 0x627, 0x648, 0x644, 0x20, 0x635, 0x628, 0x62D])), (''assignee'', JStr (fa [0x622, 0x631, 0x634, 0x20, 0x6A9, 0x627, 0x638, 0x645, 0x6CC])), (''priority'', JStr (fa [0x628, 0x627, 0x644, 0x627])),
        (''status'', JStr ''done''), (''is_done'', JStr ''true'')]),
     (''task'', ''88888888-8888-4888-8888-000000000012'',
        [(''title'', JStr (fa [0x6A9, 0x646, 0x62A, 0x631, 0x644, 0x20, 0x645, 0x648, 0x62C, 0x648, 0x62F, 0x6CC, 0x20, 0x634, 0x6CC, 0x631, 0x20, 0x62A, 0x627, 0x632, 0x647, 0x20, 0x648, 0x20, 0x62B, 0x628, 0x62A, 0x20, 0x633, 0x641, 0x627, 0x631, 0x634, 0x20, 0x633, 0x6CC, 0x631, 0x648, 0x67E, 0x20, 0x641, 0x646, 0x62F, 0x642])), (''assignee'', JStr (fa [0x646, 0x6AF, 0x627, 0x631, 0x20, 0x645, 0x62D, 0x645, 0x62F, 0x6CC])), (''priority'', JStr (fa [0x645, 0x62A, 0x648, 0x633, 0x637])),
        (''status'', JStr ''pending''), (''is_done'', JStr ''false'')]),
     (''task'', ''88888888-8888-4888-8888-000000000013'',
        [(''title'', JStr (fa [0x628, 0x6A9, 0x200C, 0x648, 0x627, 0x634, 0x20, 0x28, 0x42, 0x61, 0x63, 0x6B, 0x66, 0x6C, 0x75, 0x73, 0x68, 0x29, 0x20, 0x647, 0x62F, 0x6AF, 0x631, 0x648, 0x67E, 0x200C, 0x647, 0x627, 0x6CC, 0x20, 0x627, 0x633, 0x67E, 0x631, 0x633, 0x648, 0x645, 0x627, 0x634, 0x6CC, 0x646, 0x20, 0x628, 0x627, 0x20, 0x67E, 0x648, 0x62F, 0x631, 0x20, 0x6A9, 0x627, 0x641, 0x6CC, 0x632, 0x627])), (''assignee'', JStr (fa [0x6A9, 0x6CC, 0x648, 0x627, 0x646, 0x20, 0x631, 0x627, 0x62F])),
        (''priority'', JStr (fa [0x628, 0x627, 0x644, 0x627])), (''status'', JStr ''pending''), (''is_done'', JStr ''false'')]),
     (''expense'', ''88888888-8888-4888-8888-000000000021'',
        [(''title'', JStr (fa [0x62E, 0x631, 0x6CC, 0x62F, 0x20, 0x634, 0x6CC, 0x631, 0x20, 0x62A, 0x627, 0x632, 0x647, 0x20, 0x631, 0x648, 0x632, 0x627, 0x646, 0x647, 0x20, 0x648, 0x20, 0x62E, 0x627, 0x645, 0x647, 0x20, 0x642, 0x646, 0x627, 0x62F, 0x6CC, 0x20, 0x28, 0x6F2, 0x6F0, 0x20, 0x628, 0x637, 0x631, 0x6CC, 0x29])), (''category'', JStr (fa [0x62E, 0x631, 0x6CC, 0x62F, 0x20, 0x645, 0x648, 0x627, 0x62F, 0x20, 0x627, 0x648, 0x644, 0x6CC, 0x647, 0x20, 0x631, 0x648, 0x632, 0x627, 0x646, 0x647])),
        (''price'', JStr ''6800000''), (''payment_method'', JStr (fa [0x6A9, 0x627, 0x631, 0x62A, 0x20, 0x634, 0x631, 0x6A9, 0x62A, 0x6CC])), (''note'', JStr (fa [0x641, 0x627, 0x6A9, 0x62A, 0x648, 0x631, 0x20, 0x644, 0x628, 0x646, 0x6CC, 0x627, 0x62A, 0x20, 0x635, 0x628, 0x627, 0x62D]))]),
     (''expense'', ''88888888-8888-4888-8888-000000000022'',
        [(''title'', JStr (fa [0x633, 0x631, 0x648, 0x6CC, 0x633, 0x20, 0x62F, 0x648, 0x631, 0x647, 0x200C, 0x627, 0x6CC, 0x20, 0x62A, 0x635, 0x641, 0x6CC, 0x647, 0x20, 0x622, 0x628, 0x20, 0x627, 0x633, 0x67E, 0x631, 0x633, 0x648, 0x645, 0x627, 0x634, 0x6CC, 0x646])), (''category'', JStr (fa [0x62A, 0x639, 0x645, 0x6CC, 0x631, 0x20, 0x648, 0x20, 0x646, 0x6AF, 0x647, 0x62F, 0x627, 0x631, 0x6CC, 0x20, 0x62A, 0x62C, 0x647, 0x6CC, 0x632, 0x627, 0x62A])), (''price'', JStr ''4500000''),
        (''payment_method'', JStr (fa [0x6A9, 0x627, 0x631, 0x62A, 0x20, 0x628, 0x647, 0x20, 0x6A9, 0x627, 0x631, 0x62A])), (''note'', JStr (fa [0x62A, 0x639, 0x648, 0x6CC, 0x636, 0x20, 0x641, 0x6CC, 0x644, 0x62A, 0x631, 0x20, 0x631, 0x632, 0x6CC, 0x646, 0x6CC]))])]"

definition seed_orders :: "seed list" where
  "seed_orders =
    [(''order'', ''99999999-9999-4999-8999-000000000001'',
        [(''order_number'', JStr ''101''), (''fulfillment_type'', JStr ''dine_in''), (''table_id'', JStr ''55555555-5555-4555-8555-000000000001''),
        (''table_label'', JStr (fa [0x645, 0x6CC, 0x632, 0x20, 0x6F1, 0x20, 0x2014, 0x20, 0x6A9, 0x646, 0x627, 0x631, 0x20, 0x67E, 0x646, 0x62C, 0x631, 0x647, 0x20, 0x648, 0x644, 0x6CC, 0x639, 0x635, 0x631])), (''customer_id'', JStr ''66666666-6666-4666-8666-000000000001''),
        (''customer_name'', JStr (fa [0x627, 0x645, 0x6CC, 0x631, 0x62D, 0x633, 0x6CC, 0x646, 0x20, 0x631, 0x636, 0x627, 0x6CC, 0x6CC])), (''customer_phone'', JStr ''09121112233''), (''payment_method'', JStr ''card_pos''),
        (''subtotal_irr'', JStr ''3300000''), (''discount_irr'', JStr ''0''), (''total_irr'', JStr ''3300000''), (''price'', JStr ''3300000''),
        (''status'', JStr ''preparing''), (''note'', JStr (fa [0x644, 0x627, 0x62A, 0x647, 0x20, 0x6A9, 0x645, 0x200C, 0x634, 0x6CC, 0x631, 0x6CC, 0x646, 0x20, 0x633, 0x631, 0x648, 0x20, 0x634, 0x648, 0x62F])), (''items'', JArr [marshal [(''id'', JStr ''l-1''),
        (''product_id'', JStr ''22222222-2222-4222-8222-000000000002''), (''product_name_snapshot'', JStr (fa [0x6A9, 0x627, 0x641, 0x647, 0x20, 0x644, 0x627, 0x62A, 0x647, 0x20, 0x641, 0x646, 0x62F, 0x642])),
        (''quantity'', int_json 1), (''unit_price_irr'', JStr ''1450000''), (''line_total_irr'', JStr ''1450000'')], marshal [(''id'', JStr ''l-2''),
        (''product_id'', JStr ''22222222-2222-4222-8222-000000000007''), (''product_name_snapshot'', JStr (fa [0x686, 0x6CC, 0x632, 0x6A9, 0x6CC, 0x6A9, 0x20, 0x633, 0x646, 0x200C, 0x633, 0x628, 0x627, 0x633, 0x62A, 0x6CC, 0x646, 0x20, 0x628, 0x627, 0x20, 0x633, 0x633, 0x20, 0x634, 0x6A9, 0x644, 0x627, 0x62A, 0x20, 0x628, 0x644, 0x698, 0x6CC, 0x6A9, 0x6CC])),
        (''quantity'', int_json 1), (''unit_price_irr'', JStr ''1850000''), (''line_total_irr'', JStr ''1850000'')]])]),
     (''order'', ''99999999-9999-4999-8999-000000000002'',
        [(''order_number'', JStr ''102''), (''fulfillment_type'', JStr ''outside''), (''table_label'', JStr (fa [0x628, 0x6CC, 0x631, 0x648, 0x646, 0x200C, 0x628, 0x631, 0x20, 0x28, 0x54, 0x61, 0x6B, 0x65, 0x61, 0x77, 0x61, 0x79, 0x29])),
        (''customer_id'', JStr ''66666666-6666-4666-8666-000000000002''), (''customer_name'', JStr (fa [0x645, 0x647, 0x633, 0x627, 0x20, 0x6A9, 0x631, 0x6CC, 0x645, 0x6CC])),
        (''customer_phone'', JStr ''09124445566''), (''payment_method'', JStr ''cash''), (''subtotal_irr'', JStr ''3050000''),
        (''discount_irr'', JStr ''150000''), (''total_irr'', JStr ''2900000''), (''price'', JStr ''2900000''), (''status'', JStr ''completed''),
        (''note'', JStr (fa [0x628, 0x633, 0x62A, 0x647, 0x200C, 0x628, 0x646, 0x62F, 0x6CC, 0x20, 0x628, 0x6CC, 0x631, 0x648, 0x646, 0x200C, 0x628, 0x631, 0x20, 0x62F, 0x648, 0x62C, 0x62F, 0x627, 0x631, 0x647])), (''items'', JArr [marshal [(''id'', JStr ''l-3''),
        (''product_id'', JStr ''22222222-2222-4222-8222-000000000006''), (''product_name_snapshot'', JStr (fa [0x642, 0x647, 0x648, 0x647, 0x20, 0x62F, 0x645, 0x6CC, 0x20, 0x56, 0x36, 0x30, 0x20, 0x28, 0x6A9, 0x646, 0x6CC, 0x627, 0x20, 0x41, 0x41, 0x29])),
        (''quantity'', int_json 1), (''unit_price_irr'', JStr ''1650000''), (''line_total_irr'', JStr ''1650000'')], marshal [(''id'', JStr ''l-4''),
        (''product_id'', JStr ''22222222-2222-4222-8222-000000000008''), (''product_name_snapshot'', JStr (fa [0x6A9, 0x6CC, 0x6A9, 0x20, 0x632, 0x639, 0x641, 0x631, 0x627, 0x646, 0x6CC, 0x20, 0x648, 0x20, 0x67E, 0x633, 0x62A, 0x647, 0x20, 0x627, 0x6CC, 0x631, 0x627, 0x646, 0x6CC])),
        (''quantity'', int_json 1), (''unit_price_irr'', JStr ''1400000''), (''line_total_irr'', JStr ''1400000'')]])])]"

definition seed_devices :: "seed list" where
  "seed_devices =
    [(''printer'', ''99999999-9999-4999-8999-000000000091'',
        [(''title'', JStr (fa [0x686, 0x627, 0x67E, 0x6AF, 0x631, 0x20, 0x62D, 0x631, 0x627, 0x631, 0x62A, 0x6CC, 0x20, 0x635, 0x646, 0x62F, 0x648, 0x642, 0x20, 0x28, 0x641, 0x6CC, 0x634, 0x20, 0x645, 0x634, 0x62A, 0x631, 0x6CC, 0x29])), (''model'', JStr ''Epson TM-T20III (80mm)''),
        (''connection'', JStr ''USB / LAN 192.168.1.201:9100''), (''paper_width'', JStr ''80mm''), (''station'', JStr (fa [0x635, 0x646, 0x62F, 0x648, 0x642, 0x20, 0x641, 0x631, 0x648, 0x634])),
        (''is_active'', JStr ''true'')]),
     (''printer'', ''99999999-9999-4999-8999-000000000092'',
        [(''title'', JStr (fa [0x686, 0x627, 0x67E, 0x6AF, 0x631, 0x20, 0x62D, 0x631, 0x627, 0x631, 0x62A, 0x6CC, 0x20, 0x628, 0x627, 0x631, 0x20, 0x6AF, 0x631, 0x645, 0x20, 0x648, 0x20, 0x633, 0x631, 0x62F])), (''model'', JStr ''Bixolon SRP-330II (80mm)''),
        (''connection'', JStr ''LAN 192.168.1.202:9100''), (''paper_width'', JStr ''80mm''), (''station'', JStr (fa [0x628, 0x627, 0x631, 0x20, 0x6AF, 0x631, 0x645, 0x20, 0x648, 0x20, 0x633, 0x631, 0x62F])),
        (''is_active'', JStr ''true'')]),
     (''printer_route'', ''99999999-9999-4999-8999-000000000095'',
        [(''title'', JStr (fa [0x628, 0x627, 0x631, 0x20, 0x6AF, 0x631, 0x645, 0x20, 0x648, 0x20, 0x627, 0x633, 0x67E, 0x631, 0x633, 0x648, 0x20, 0x2190, 0x20, 0x686, 0x627, 0x67E, 0x6AF, 0x631, 0x20, 0x62D, 0x631, 0x627, 0x631, 0x62A, 0x6CC, 0x20, 0x628, 0x627, 0x631, 0x20, 0x6AF, 0x631, 0x645, 0x20, 0x648, 0x20, 0x633, 0x631, 0x62F])), (''category_name'', JStr (fa [0x628, 0x627, 0x631, 0x20, 0x6AF, 0x631, 0x645, 0x20, 0x648, 0x20, 0x627, 0x633, 0x67E, 0x631, 0x633, 0x648, 0x20, 0x62A, 0x62E, 0x635, 0x635, 0x6CC])),
        (''printer_name'', JStr (fa [0x686, 0x627, 0x67E, 0x6AF, 0x631, 0x20, 0x62D, 0x631, 0x627, 0x631, 0x62A, 0x6CC, 0x20, 0x628, 0x627, 0x631, 0x20, 0x6AF, 0x631, 0x645, 0x20, 0x648, 0x20, 0x633, 0x631, 0x62F, 0x20, 0x28, 0x42, 0x69, 0x78, 0x6F, 0x6C, 0x6F, 0x6E, 0x29])), (''copies'', JStr ''1''),
        (''receipt_type'', JStr (fa [0x62D, 0x648, 0x627, 0x644, 0x647, 0x20, 0x622, 0x645, 0x627, 0x62F, 0x647, 0x200C, 0x633, 0x627, 0x632, 0x6CC, 0x20, 0x628, 0x627, 0x631, 0x6CC, 0x633, 0x62A, 0x627]))]),
     (''printer_route'', ''99999999-9999-4999-8999-000000000096'',
        [(''title'', JStr (fa [0x6A9, 0x644, 0x6CC, 0x647, 0x20, 0x641, 0x627, 0x6A9, 0x62A, 0x648, 0x631, 0x647, 0x627, 0x6CC, 0x20, 0x62A, 0x633, 0x648, 0x6CC, 0x647, 0x20, 0x2190, 0x20, 0x686, 0x627, 0x67E, 0x6AF, 0x631, 0x20, 0x62D, 0x631, 0x627, 0x631, 0x62A, 0x6CC, 0x20, 0x635, 0x646, 0x62F, 0x648, 0x642])), (''category_name'', JStr (fa [0x647, 0x645, 0x647, 0x20, 0x62F, 0x633, 0x62A, 0x647, 0x200C, 0x628, 0x646, 0x62F, 0x6CC, 0x200C, 0x647, 0x627])),
        (''printer_name'', JStr (fa [0x686, 0x627, 0x67E, 0x6AF, 0x631, 0x20, 0x62D, 0x631, 0x627, 0x631, 0x62A, 0x6CC, 0x20, 0x635, 0x646, 0x62F, 0x648, 0x642, 0x20, 0x28, 0x45, 0x70, 0x73, 0x6F, 0x6E, 0x20, 0x54, 0x4D, 0x2D, 0x54, 0x32, 0x30, 0x49, 0x49, 0x49, 0x29])), (''copies'', JStr ''1''),
        (''receipt_type'', JStr (fa [0x641, 0x6CC, 0x634, 0x20, 0x62A, 0x633, 0x648, 0x6CC, 0x647, 0x20, 0x645, 0x634, 0x62A, 0x631, 0x6CC, 0x20, 0x2B, 0x20, 0x628, 0x627, 0x634, 0x6AF, 0x627, 0x647, 0x20, 0x645, 0x634, 0x62A, 0x631, 0x6CC, 0x627, 0x646]))]),
     (''modifier_group'', ''aaaaaaaa-1111-4111-8111-000000000001'',
        [(''title'', JStr (fa [0x627, 0x646, 0x62A, 0x62E, 0x627, 0x628, 0x20, 0x646, 0x648, 0x639, 0x20, 0x634, 0x6CC, 0x631])),
        (''options'', JStr (fa [0x634, 0x6CC, 0x631, 0x20, 0x62A, 0x627, 0x632, 0x647, 0x20, 0x67E, 0x631, 0x686, 0x631, 0x628, 0x20, 0x28, 0x67E, 0x6CC, 0x634, 0x200C, 0x641, 0x631, 0x636, 0x29, 0x20, 0x2022, 0x20, 0x634, 0x6CC, 0x631, 0x20, 0x6A9, 0x645, 0x200C, 0x686, 0x631, 0x628, 0x20, 0x2022, 0x20, 0x634, 0x6CC, 0x631, 0x20, 0x628, 0x627, 0x62F, 0x627, 0x645, 0x20, 0x28, 0x2B, 0x6F2, 0x6F5, 0x2C, 0x6F0, 0x6F0, 0x6F0, 0x20, 0x62A, 0x648, 0x645, 0x627, 0x646, 0x29, 0x20, 0x2022, 0x20, 0x634, 0x6CC, 0x631, 0x20, 0x62C, 0x648, 0x20, 0x62F, 0x648, 0x633, 0x631, 0x20, 0x28, 0x2B, 0x6F3, 0x6F0, 0x2C, 0x6F0, 0x6F0, 0x6F0, 0x20, 0x62A, 0x648, 0x645, 0x627, 0x646, 0x29])),
        (''price'', JStr ''250000''), (''is_required'', JStr (fa [0x627, 0x62E, 0x62A, 0x6CC, 0x627, 0x631, 0x6CC]))]),
     (''modifier_group'', ''aaaaaaaa-1111-4111-8111-000000000002'',
        [(''title'', JStr (fa [0x634, 0x627, 0x62A, 0x20, 0x648, 0x20, 0x633, 0x6CC, 0x631, 0x648, 0x67E, 0x20, 0x627, 0x636, 0x627, 0x641, 0x647])),
        (''options'', JStr (fa [0x634, 0x627, 0x62A, 0x20, 0x627, 0x636, 0x627, 0x641, 0x647, 0x20, 0x639, 0x631, 0x628, 0x6CC, 0x6A9, 0x627, 0x20, 0x28, 0x2B, 0x6F3, 0x6F5, 0x2C, 0x6F0, 0x6F0, 0x6F0, 0x20, 0x62A, 0x648, 0x645, 0x627, 0x646, 0x29, 0x20, 0x2022, 0x20, 0x633, 0x6CC, 0x631, 0x648, 0x67E, 0x20, 0x641, 0x646, 0x62F, 0x642, 0x2F, 0x6A9, 0x627, 0x631, 0x627, 0x645, 0x644, 0x20, 0x28, 0x2B, 0x6F2, 0x6F0, 0x2C, 0x6F0, 0x6F0, 0x6F0, 0x20, 0x62A, 0x648, 0x645, 0x627, 0x646, 0x29, 0x20, 0x2022, 0x20, 0x62F, 0x6CC, 0x200C, 0x6A9, 0x641, 0x20, 0x28, 0x628, 0x62F, 0x648, 0x646, 0x20, 0x6A9, 0x627, 0x641, 0x626, 0x6CC, 0x646, 0x29])),
        (''price'', JStr ''350000''), (''is_required'', JStr (fa [0x627, 0x62E, 0x62A, 0x6CC, 0x627, 0x631, 0x6CC]))])]"

definition seed_office :: "seed list" where
  "seed_office =
    [(''supplier'', ''bbbbbbbb-1111-4111-8111-000000000001'',
        [(''title'', JStr (fa [0x628, 0x631, 0x634, 0x62A, 0x647, 0x200C, 0x6A9, 0x627, 0x631, 0x6CC, 0x20, 0x642, 0x647, 0x648, 0x647, 0x20, 0x62A, 0x62E, 0x635, 0x635, 0x6CC, 0x20, 0x62F, 0x627, 0x631, 0x6A9, 0x200C, 0x631, 0x633, 0x62A, 0x20, 0x62A, 0x647, 0x631, 0x627, 0x646])), (''contact_name'', JStr (fa [0x645, 0x647, 0x646, 0x62F, 0x633, 0x20, 0x633, 0x647, 0x631, 0x627, 0x628, 0x6CC])), (''phone'', JStr ''02188776655''),
        (''items_supplied'', JStr (fa [0x62F, 0x627, 0x646, 0x647, 0x20, 0x642, 0x647, 0x648, 0x647, 0x20, 0x639, 0x631, 0x628, 0x6CC, 0x6A9, 0x627, 0x20, 0x627, 0x62A, 0x6CC, 0x648, 0x67E, 0x6CC, 0x60C, 0x20, 0x6A9, 0x646, 0x6CC, 0x627, 0x20, 0x648, 0x20, 0x6A9, 0x644, 0x645, 0x628, 0x6CC, 0x627])), (''balance_irr'', JStr ''0'')]),
     (''supplier'', ''bbbbbbbb-1111-4111-8111-000000000002'',
        [(''title'', JStr (fa [0x67E, 0x62E, 0x634, 0x20, 0x644, 0x628, 0x646, 0x6CC, 0x627, 0x62A, 0x20, 0x648, 0x20, 0x62E, 0x627, 0x645, 0x647, 0x20, 0x628, 0x627, 0x631, 0x6CC, 0x633, 0x62A, 0x627, 0x20, 0x635, 0x628, 0x627, 0x62D])), (''contact_name'', JStr (fa [0x622, 0x642, 0x627, 0x6CC, 0x20, 0x62D, 0x6CC, 0x62F, 0x631, 0x6CC])), (''phone'', JStr ''02144556677''),
        (''items_supplied'', JStr (fa [0x634, 0x6CC, 0x631, 0x20, 0x67E, 0x631, 0x686, 0x631, 0x628, 0x20, 0x628, 0x627, 0x631, 0x6CC, 0x633, 0x62A, 0x627, 0x60C, 0x20, 0x62E, 0x627, 0x645, 0x647, 0x20, 0x642, 0x646, 0x627, 0x62F, 0x6CC, 0x20, 0x648, 0x20, 0x6A9, 0x631, 0x647])), (''balance_irr'', JStr ''6800000'')]),
     (''purchase'', ''bbbbbbbb-1111-4111-8111-000000000011'',
        [(''title'', JStr (fa [0x641, 0x627, 0x6A9, 0x62A, 0x648, 0x631, 0x20, 0x62E, 0x631, 0x6CC, 0x62F, 0x20, 0x23, 0x50, 0x2D, 0x34, 0x30, 0x31, 0x20, 0x2014, 0x20, 0x62F, 0x627, 0x646, 0x647, 0x20, 0x642, 0x647, 0x648, 0x647, 0x20, 0x639, 0x631, 0x628, 0x6CC, 0x6A9, 0x627, 0x20, 0x28, 0x6F5, 0x20, 0x6A9, 0x6CC, 0x644, 0x648, 0x6AF, 0x631, 0x645, 0x29])), (''supplier_name'', JStr (fa [0x628, 0x631, 0x634, 0x62A, 0x647, 0x200C, 0x6A9, 0x627, 0x631, 0x6CC, 0x20, 0x642, 0x647, 0x648, 0x647, 0x20, 0x62A, 0x62E, 0x635, 0x635, 0x6CC, 0x20, 0x62F, 0x627, 0x631, 0x6A9, 0x200C, 0x631, 0x633, 0x62A, 0x20, 0x62A, 0x647, 0x631, 0x627, 0x646])),
        (''price'', JStr ''72500000''), (''status'', JStr (fa [0x62A, 0x633, 0x648, 0x6CC, 0x647, 0x20, 0x634, 0x62F, 0x647])), (''note'', JStr (fa [0x62A, 0x62D, 0x648, 0x6CC, 0x644, 0x20, 0x627, 0x646, 0x628, 0x627, 0x631, 0x20, 0x645, 0x631, 0x6A9, 0x632, 0x6CC, 0x20, 0x6A9, 0x627, 0x641, 0x647]))]),
     (''retention_campaign'', ''cccccccc-1111-4111-8111-000000000001'',
        [(''title'', JStr (fa [0x647, 0x62F, 0x6CC, 0x647, 0x20, 0x633, 0x627, 0x644, 0x631, 0x648, 0x632, 0x20, 0x62A, 0x648, 0x644, 0x62F, 0x20, 0x627, 0x639, 0x636, 0x627, 0x6CC, 0x20, 0x628, 0x627, 0x634, 0x6AF, 0x627, 0x647, 0x20, 0x645, 0x634, 0x62A, 0x631, 0x6CC, 0x627, 0x646, 0x20, 0x28, 0x6F2, 0x6F0, 0x66A, 0x20, 0x62A, 0x62E, 0x641, 0x6CC, 0x641, 0x20, 0x2B, 0x20, 0x6A9, 0x6CC, 0x6A9, 0x20, 0x631, 0x648, 0x632, 0x29])), (''segment'', JStr (fa [0x627, 0x639, 0x636, 0x627, 0x6CC, 0x20, 0x648, 0x641, 0x627, 0x62F, 0x627, 0x631, 0x20, 0x28, 0x637, 0x644, 0x627, 0x6CC, 0x6CC, 0x20, 0x648, 0x20, 0x646, 0x642, 0x631, 0x647, 0x200C, 0x627, 0x6CC, 0x29])),
        (''channel'', JStr (fa [0x67E, 0x6CC, 0x627, 0x645, 0x6A9, 0x20, 0x62E, 0x648, 0x62F, 0x6A9, 0x627, 0x631, 0x20, 0x2B, 0x20, 0x6A9, 0x6CC, 0x641, 0x20, 0x67E, 0x648, 0x644])), (''discount_percent'', JStr ''20''), (''status'', JStr (fa [0x641, 0x639, 0x627, 0x644]))]),
     (''cafe_plan'', ''cccccccc-1111-4111-8111-000000000011'',
        [(''title'', JStr (fa [0x627, 0x634, 0x62A, 0x631, 0x627, 0x6A9, 0x20, 0x645, 0x627, 0x647, 0x627, 0x646, 0x647, 0x20, 0x642, 0x647, 0x648, 0x647, 0x20, 0x635, 0x628, 0x62D, 0x6AF, 0x627, 0x647, 0x6CC, 0x20, 0x28, 0x6F2, 0x6F0, 0x20, 0x641, 0x646, 0x62C, 0x627, 0x646, 0x20, 0x627, 0x633, 0x67E, 0x631, 0x633, 0x648, 0x20, 0x6CC, 0x627, 0x20, 0x622, 0x645, 0x631, 0x6CC, 0x6A9, 0x627, 0x646, 0x648, 0x29])), (''price'', JStr ''15500000''),
        (''duration_days'', JStr ''30''), (''subscribers_count'', JStr ''18''),
        (''description'', JStr (fa [0x645, 0x62E, 0x635, 0x648, 0x635, 0x20, 0x6A9, 0x627, 0x631, 0x645, 0x646, 0x62F, 0x627, 0x646, 0x20, 0x648, 0x20, 0x62F, 0x641, 0x627, 0x62A, 0x631, 0x20, 0x627, 0x637, 0x631, 0x627, 0x641, 0x20, 0x62E, 0x6CC, 0x627, 0x628, 0x627, 0x646, 0x20, 0x648, 0x644, 0x6CC, 0x639, 0x635, 0x631, 0x20, 0x628, 0x627, 0x20, 0x6F2, 0x6F0, 0x66A, 0x20, 0x635, 0x631, 0x641, 0x647, 0x200C, 0x62C, 0x648, 0x6CC, 0x6CC]))]),
     (''accounting_entry'', ''dddddddd-1111-4111-8111-000000000001'',
        [(''title'', JStr (fa [0x633, 0x646, 0x62F, 0x20, 0x631, 0x648, 0x632, 0x646, 0x627, 0x645, 0x647, 0x20, 0x23, 0x6F1, 0x6F0, 0x6F1, 0x20, 0x2014, 0x20, 0x62B, 0x628, 0x62A, 0x20, 0x641, 0x631, 0x648, 0x634, 0x20, 0x631, 0x648, 0x632, 0x627, 0x646, 0x647, 0x20, 0x635, 0x646, 0x62F, 0x648, 0x642, 0x20, 0x648, 0x20, 0x648, 0x627, 0x631, 0x6CC, 0x632, 0x20, 0x6A9, 0x627, 0x631, 0x62A, 0x62E, 0x648, 0x627, 0x646])),
        (''debit_account'', JStr (fa [0x628, 0x627, 0x646, 0x6A9, 0x20, 0x645, 0x644, 0x62A, 0x20, 0x2D, 0x20, 0x67E, 0x627, 0x6CC, 0x627, 0x646, 0x647, 0x20, 0x641, 0x631, 0x648, 0x634, 0x6AF, 0x627, 0x647, 0x6CC, 0x20, 0x28, 0x6F1, 0x6F1, 0x6F0, 0x6F2, 0x29])), (''credit_account'', JStr (fa [0x62F, 0x631, 0x622, 0x645, 0x62F, 0x20, 0x641, 0x631, 0x648, 0x634, 0x20, 0x646, 0x648, 0x634, 0x6CC, 0x62F, 0x646, 0x6CC, 0x20, 0x648, 0x20, 0x6A9, 0x6CC, 0x6A9, 0x20, 0x28, 0x6F4, 0x6F1, 0x6F0, 0x6F1, 0x29])),
        (''price'', JStr ''6200000''), (''note'', JStr (fa [0x62A, 0x631, 0x627, 0x632, 0x20, 0x62E, 0x648, 0x62F, 0x6A9, 0x627, 0x631, 0x20, 0x67E, 0x627, 0x6CC, 0x627, 0x646, 0x20, 0x634, 0x6CC, 0x641, 0x62A]))]),
     (''job_posting'', ''eeeeeeee-1111-4111-8111-000000000001'',
        [(''title'', JStr (fa [0x627, 0x633, 0x62A, 0x62E, 0x62F, 0x627, 0x645, 0x20, 0x628, 0x627, 0x631, 0x6CC, 0x633, 0x62A, 0x627, 0x20, 0x645, 0x633, 0x644, 0x637, 0x20, 0x628, 0x647, 0x20, 0x628, 0x627, 0x631, 0x20, 0x6AF, 0x631, 0x645, 0x20, 0x648, 0x20, 0x644, 0x627, 0x62A, 0x647, 0x20, 0x622, 0x631, 0x62A, 0x20, 0x28, 0x634, 0x6CC, 0x641, 0x62A, 0x20, 0x639, 0x635, 0x631, 0x29])), (''shift'', JStr (fa [0x6F1, 0x6F5, 0x3A, 0x6F3, 0x6F0, 0x20, 0x627, 0x644, 0x6CC, 0x20, 0x6F2, 0x6F3, 0x3A, 0x6F3, 0x6F0])),
        (''salary_range'', JStr (fa [0x6F2, 0x6F0, 0x20, 0x62A, 0x627, 0x20, 0x6F2, 0x6F5, 0x20, 0x645, 0x6CC, 0x644, 0x6CC, 0x648, 0x646, 0x20, 0x62A, 0x648, 0x645, 0x627, 0x646, 0x20, 0x2B, 0x20, 0x628, 0x6CC, 0x645, 0x647, 0x20, 0x648, 0x20, 0x67E, 0x627, 0x62F, 0x627, 0x634])), (''applicants_count'', JStr ''6''),
        (''status'', JStr (fa [0x62F, 0x631, 0x20, 0x62D, 0x627, 0x644, 0x20, 0x62F, 0x631, 0x6CC, 0x627, 0x641, 0x62A, 0x20, 0x631, 0x632, 0x648, 0x645, 0x647]))])]"

definition seed_records :: "seed list" where
  "seed_records = seed_menu @ seed_stock @ seed_room @ seed_people @ seed_orders @ seed_devices @ seed_office"

section \<open>Loading it\<close>

definition seed_fields :: "string \<Rightarrow> string \<Rightarrow> fields \<Rightarrow> fields" where
  "seed_fields now i fs = fs @ [(''id'', JStr i), (''version'', int_json 1), (''created_at'', JStr now)]"

definition seed_put :: "string \<Rightarrow> seed \<Rightarrow> persistedDB \<Rightarrow> persistedDB" where
  "seed_put now r db = (case r of (kind, i, fs) \<Rightarrow> putEntity (entityKey kind i) (new_record kind i (seed_fields now i fs)) db)"

definition SeedIranianCafeData_tx :: "string \<Rightarrow> persistedDB \<Rightarrow> err + persistedDB \<times> unit" where
  "SeedIranianCafeData_tx now db = Inr (fold (seed_put now) seed_records db, ())"

definition SeedIranianCafeData :: "io \<Rightarrow> string \<Rightarrow> Store \<Rightarrow> Store \<times> (err + unit)" where
  "SeedIranianCafeData w now s = withTx w (SeedIranianCafeData_tx now) s"

definition SeedIfEmpty :: "io \<Rightarrow> string \<Rightarrow> Store \<Rightarrow> Store \<times> (err + unit)" where
  "SeedIfEmpty w now s =
    (let st = Stats (state s)
     in if CategoriesCount st = 0 \<and> ProductsCount st = 0 \<and> OrdersCount st = 0 then SeedIranianCafeData w now s else (s, Inr ()))"

section \<open>What it holds\<close>

definition seed_key :: "seed \<Rightarrow> string" where
  "seed_key r = (case r of (kind, i, _) \<Rightarrow> entityKey kind i)"

definition seed_text :: "fields \<Rightarrow> string \<Rightarrow> string" where
  "seed_text fs k = (case map_of fs k of Some (JStr t) \<Rightarrow> t | _ \<Rightarrow> [])"

definition seed_amount :: "fields \<Rightarrow> string \<Rightarrow> int" where
  "seed_amount fs k = (case SetString (seed_text fs k) of None \<Rightarrow> 0 | Some n \<Rightarrow> n)"

definition seed_items :: "fields \<Rightarrow> fields list" where
  "seed_items fs =
    (case map_of fs ''items'' of
       Some (JArr js) \<Rightarrow> map (\<lambda>j. case j of JObj m \<Rightarrow> m | _ \<Rightarrow> []) js
     | _ \<Rightarrow> [])"

definition seeded :: "string \<Rightarrow> string \<Rightarrow> fields option" where
  "seeded kind i = map_option (snd \<circ> snd) (List.find (\<lambda>(k, j, _). k = kind \<and> j = i) seed_records)"

text \<open>A line of a sample order: its product is there, with this price, and one piece was ordered.\<close>

definition seed_line_ok :: "fields \<Rightarrow> bool" where
  "seed_line_ok l =
    (case seeded ''product'' (seed_text l ''product_id'') of
       None \<Rightarrow> False
     | Some p \<Rightarrow> seed_text l ''unit_price_irr'' = seed_text p ''price'' \<and> map_of l ''quantity'' = Some (int_json 1) \<and>
         seed_text l ''line_total_irr'' = seed_text l ''unit_price_irr'' \<and> seed_text l ''product_name_snapshot'' = seed_text p ''title'')"

definition seed_ok :: "seed \<Rightarrow> bool" where
  "seed_ok r =
    (case r of (kind, i, fs) \<Rightarrow>
      if kind = ''product'' then seeded ''category'' (seed_text fs ''category_id'') \<noteq> None
      else if kind = ''recipe'' then seeded ''product'' (seed_text fs ''product_id'') \<noteq> None \<and>
        list_all (\<lambda>l. seeded ''ingredient'' (seed_text l ''ingredient_id'') \<noteq> None) (seed_items fs)
      else if kind = ''order'' then
        (seed_text fs ''table_id'' = [] \<or> seeded ''table'' (seed_text fs ''table_id'') \<noteq> None) \<and>
        seeded ''customer'' (seed_text fs ''customer_id'') \<noteq> None \<and> list_all seed_line_ok (seed_items fs) \<and>
        seed_amount fs ''subtotal_irr'' = sum_list (map (\<lambda>l. seed_amount l ''line_total_irr'') (seed_items fs)) \<and>
        seed_amount fs ''total_irr'' = seed_amount fs ''subtotal_irr'' - seed_amount fs ''discount_irr'' \<and>
        seed_text fs ''price'' = seed_text fs ''total_irr''
      else if kind = ''debtor'' then seed_amount fs ''total'' = seed_amount fs ''paid'' + seed_amount fs ''remaining''
      else True)"

lemmas seed_defs = seed_records_def seed_menu_def seed_stock_def seed_room_def seed_people_def seed_orders_def seed_devices_def seed_office_def

lemma seed_ids:
  "map (\<lambda>(kind, i, _). (kind, i)) seed_records =
    [(''cafe_profile'', ''cafe-main-profile''), (''category'', ''11111111-1111-4111-8111-000000000001''),
     (''category'', ''11111111-1111-4111-8111-000000000002''), (''category'', ''11111111-1111-4111-8111-000000000003''),
     (''category'', ''11111111-1111-4111-8111-000000000004''), (''category'', ''11111111-1111-4111-8111-000000000005''),
     (''product'', ''22222222-2222-4222-8222-000000000001''), (''product'', ''22222222-2222-4222-8222-000000000002''),
     (''product'', ''22222222-2222-4222-8222-000000000003''), (''product'', ''22222222-2222-4222-8222-000000000004''),
     (''product'', ''22222222-2222-4222-8222-000000000005''), (''product'', ''22222222-2222-4222-8222-000000000006''),
     (''product'', ''22222222-2222-4222-8222-000000000007''), (''product'', ''22222222-2222-4222-8222-000000000008''),
     (''ingredient'', ''33333333-3333-4333-8333-000000000001''), (''ingredient'', ''33333333-3333-4333-8333-000000000002''),
     (''ingredient'', ''33333333-3333-4333-8333-000000000003''), (''ingredient'', ''33333333-3333-4333-8333-000000000004''),
     (''ingredient'', ''33333333-3333-4333-8333-000000000005''), (''ingredient'', ''33333333-3333-4333-8333-000000000006''),
     (''recipe'', ''44444444-4444-4444-8444-000000000001''), (''recipe'', ''44444444-4444-4444-8444-000000000002''),
     (''table'', ''55555555-5555-4555-8555-000000000001''), (''table'', ''55555555-5555-4555-8555-000000000002''),
     (''table'', ''55555555-5555-4555-8555-000000000003''), (''table'', ''55555555-5555-4555-8555-000000000004''),
     (''table'', ''55555555-5555-4555-8555-000000000005''), (''table'', ''55555555-5555-4555-8555-000000000006''),
     (''reservation'', ''55555555-5555-4555-8555-000000000099''), (''customer'', ''66666666-6666-4666-8666-000000000001''),
     (''customer'', ''66666666-6666-4666-8666-000000000002''), (''customer'', ''66666666-6666-4666-8666-000000000003''),
     (''debtor'', ''77777777-7777-4777-8777-000000000001''), (''staff'', ''88888888-8888-4888-8888-000000000001''),
     (''staff'', ''88888888-8888-4888-8888-000000000002''), (''staff'', ''88888888-8888-4888-8888-000000000003''),
     (''task'', ''88888888-8888-4888-8888-000000000011''), (''task'', ''88888888-8888-4888-8888-000000000012''),
     (''task'', ''88888888-8888-4888-8888-000000000013''), (''expense'', ''88888888-8888-4888-8888-000000000021''),
     (''expense'', ''88888888-8888-4888-8888-000000000022''), (''order'', ''99999999-9999-4999-8999-000000000001''),
     (''order'', ''99999999-9999-4999-8999-000000000002''), (''printer'', ''99999999-9999-4999-8999-000000000091''),
     (''printer'', ''99999999-9999-4999-8999-000000000092''), (''printer_route'', ''99999999-9999-4999-8999-000000000095''),
     (''printer_route'', ''99999999-9999-4999-8999-000000000096''), (''modifier_group'', ''aaaaaaaa-1111-4111-8111-000000000001''),
     (''modifier_group'', ''aaaaaaaa-1111-4111-8111-000000000002''), (''supplier'', ''bbbbbbbb-1111-4111-8111-000000000001''),
     (''supplier'', ''bbbbbbbb-1111-4111-8111-000000000002''), (''purchase'', ''bbbbbbbb-1111-4111-8111-000000000011''),
     (''retention_campaign'', ''cccccccc-1111-4111-8111-000000000001''), (''cafe_plan'', ''cccccccc-1111-4111-8111-000000000011''),
     (''accounting_entry'', ''dddddddd-1111-4111-8111-000000000001''), (''job_posting'', ''eeeeeeee-1111-4111-8111-000000000001'')]"
  by (simp add: seed_defs)

lemma seed_keys_distinct: "distinct (map seed_key seed_records)"
proof -
  have "distinct (map (\<lambda>(kind, i). entityKey kind i) (map (\<lambda>(kind, i, _). (kind, i)) seed_records))"
    unfolding seed_ids by (simp add: entityKey_def)
  moreover have "map (\<lambda>(kind, i). entityKey kind i) (map (\<lambda>(kind, i, _). (kind, i)) seed_records) = map seed_key seed_records"
    by (auto simp: seed_key_def)
  ultimately show ?thesis by (simp only:)
qed

lemma seeded_iff: "(\<exists>fs. seeded kind i = Some fs) \<longleftrightarrow> (kind, i) \<in> set (map (\<lambda>(k, j, _). (k, j)) seed_records)"
proof -
  have "seeded kind i \<noteq> None \<longleftrightarrow> (kind, i) \<in> set (map (\<lambda>(k, j, _). (k, j)) seed_records)"
    by (force simp: seeded_def find_None_iff)
  then show ?thesis by auto
qed

lemma seeded_products:
  "seeded ''product'' ''22222222-2222-4222-8222-000000000002'' =
    Some [(''title'', JStr (fa [0x6A9, 0x627, 0x641, 0x647, 0x20, 0x644, 0x627, 0x62A, 0x647, 0x20, 0x641, 0x646, 0x62F, 0x642])), (''category_id'', JStr ''11111111-1111-4111-8111-000000000001''), (''price'', JStr ''1450000''),
        (''cost'', JStr ''450000''), (''is_available'', JBool True),
        (''description'', JStr (fa [0x62F, 0x628, 0x644, 0x20, 0x627, 0x633, 0x67E, 0x631, 0x633, 0x648, 0x60C, 0x20, 0x634, 0x6CC, 0x631, 0x20, 0x628, 0x62E, 0x627, 0x631, 0x62F, 0x647, 0x6CC, 0x20, 0x634, 0x62F, 0x647, 0x20, 0x627, 0x628, 0x631, 0x6CC, 0x634, 0x645, 0x6CC, 0x20, 0x648, 0x20, 0x633, 0x6CC, 0x631, 0x648, 0x67E, 0x20, 0x641, 0x646, 0x62F, 0x642, 0x20, 0x627, 0x648, 0x631, 0x62C, 0x6CC, 0x646, 0x627, 0x644]))]"
  "seeded ''product'' ''22222222-2222-4222-8222-000000000006'' =
    Some [(''title'', JStr (fa [0x642, 0x647, 0x648, 0x647, 0x20, 0x62F, 0x645, 0x6CC, 0x20, 0x56, 0x36, 0x30, 0x20, 0x28, 0x6A9, 0x646, 0x6CC, 0x627, 0x20, 0x41, 0x41, 0x29])), (''category_id'', JStr ''11111111-1111-4111-8111-000000000003''),
        (''price'', JStr ''1650000''), (''cost'', JStr ''520000''), (''is_available'', JBool True),
        (''description'', JStr (fa [0x62F, 0x645, 0x200C, 0x622, 0x648, 0x631, 0x6CC, 0x20, 0x62F, 0x633, 0x62A, 0x6CC, 0x20, 0x628, 0x627, 0x20, 0x641, 0x6CC, 0x644, 0x62A, 0x631, 0x20, 0x6A9, 0x627, 0x63A, 0x630, 0x6CC, 0x60C, 0x20, 0x637, 0x639, 0x645, 0x200C, 0x6CC, 0x627, 0x62F, 0x20, 0x62A, 0x648, 0x62A, 0x20, 0x633, 0x6CC, 0x627, 0x647, 0x20, 0x648, 0x20, 0x645, 0x631, 0x6A9, 0x628, 0x627, 0x62A]))]"
  "seeded ''product'' ''22222222-2222-4222-8222-000000000007'' =
    Some [(''title'', JStr (fa [0x686, 0x6CC, 0x632, 0x6A9, 0x6CC, 0x6A9, 0x20, 0x633, 0x646, 0x200C, 0x633, 0x628, 0x627, 0x633, 0x62A, 0x6CC, 0x646, 0x20, 0x628, 0x627, 0x20, 0x633, 0x633, 0x20, 0x634, 0x6A9, 0x644, 0x627, 0x62A, 0x20, 0x628, 0x644, 0x698, 0x6CC, 0x6A9, 0x6CC])), (''category_id'', JStr ''11111111-1111-4111-8111-000000000004''),
        (''price'', JStr ''1850000''), (''cost'', JStr ''680000''), (''is_available'', JBool True),
        (''description'', JStr (fa [0x67E, 0x62E, 0x62A, 0x20, 0x631, 0x648, 0x632, 0x20, 0x6A9, 0x627, 0x641, 0x647, 0x20, 0x628, 0x627, 0x20, 0x628, 0x627, 0x641, 0x62A, 0x20, 0x6A9, 0x631, 0x645, 0x6CC, 0x20, 0x648, 0x20, 0x633, 0x633, 0x20, 0x634, 0x6A9, 0x644, 0x627, 0x62A, 0x20, 0x62F, 0x627, 0x63A]))]"
  "seeded ''product'' ''22222222-2222-4222-8222-000000000008'' =
    Some [(''title'', JStr (fa [0x6A9, 0x6CC, 0x6A9, 0x20, 0x632, 0x639, 0x641, 0x631, 0x627, 0x646, 0x6CC, 0x20, 0x648, 0x20, 0x67E, 0x633, 0x62A, 0x647, 0x20, 0x627, 0x6CC, 0x631, 0x627, 0x646, 0x6CC])), (''category_id'', JStr ''11111111-1111-4111-8111-000000000004''),
        (''price'', JStr ''1400000''), (''cost'', JStr ''420000''), (''is_available'', JBool True),
        (''description'', JStr (fa [0x6A9, 0x6CC, 0x6A9, 0x20, 0x62E, 0x627, 0x646, 0x6AF, 0x6CC, 0x20, 0x628, 0x627, 0x20, 0x632, 0x639, 0x641, 0x631, 0x627, 0x646, 0x20, 0x642, 0x627, 0x626, 0x646, 0x627, 0x62A, 0x60C, 0x20, 0x6AF, 0x644, 0x627, 0x628, 0x20, 0x6A9, 0x627, 0x634, 0x627, 0x646, 0x20, 0x648, 0x20, 0x645, 0x63A, 0x632, 0x20, 0x67E, 0x633, 0x62A, 0x647, 0x20, 0x6A9, 0x631, 0x645, 0x627, 0x646]))]"
  by (simp_all add: seeded_def seed_defs)

text \<open>
  The sample is consistent: products have their categories, recipes their products and
  ingredients, the orders their tables, customers and products at the prices of the menu, with
  totals that follow from their lines, and the debt adds up.
\<close>

lemma seed_consistent: "list_all seed_ok seed_records"
proof -
  have "list_all seed_ok seed_menu" "list_all seed_ok seed_room" "list_all seed_ok seed_devices" "list_all seed_ok seed_office"
    by (simp_all add: seed_menu_def seed_room_def seed_devices_def seed_office_def seed_ok_def seeded_iff seed_ids seed_text_def)
  moreover have "list_all seed_ok seed_stock"
    by (simp add: seed_stock_def seed_ok_def seeded_iff seed_ids seed_text_def seed_items_def marshal_def map_of_sort gmap_def)
  moreover have "list_all seed_ok seed_people"
    by (simp add: seed_people_def seed_ok_def seed_text_def seed_amount_def SetString_def parse_nat_def is_digit_def)
  moreover have "list_all seed_ok seed_orders"
    by (simp add: seed_orders_def seed_ok_def seeded_iff seed_ids seed_text_def seed_items_def marshal_def map_of_sort gmap_def
        seed_line_ok_def seeded_products seed_amount_def SetString_def parse_nat_def is_digit_def)
  ultimately show ?thesis by (simp add: seed_records_def)
qed

lemma seed_fold:
  "getEntity (fold (seed_put now) rs db) k =
    (case map_of (rev (map (\<lambda>(kind, i, fs). (entityKey kind i, new_record kind i (seed_fields now i fs))) rs)) k of
       None \<Rightarrow> getEntity db k | Some e \<Rightarrow> Some e)"
  by (induction rs arbitrary: db) (auto simp: seed_put_def map_add_def split: option.splits)

text \<open>
  Loading the sample installs each of its records as it is written down, whatever was stored under
  its key, and leaves every other record alone; loading it again at the same time changes nothing.
\<close>

theorem seed_installs:
  assumes "SeedIranianCafeData w now s = (s', Inr u)"
  shows "(\<forall>(kind, i, fs)\<in>set seed_records. live (state s') kind i = Some (new_record kind i (seed_fields now i fs))) \<and>
    (\<forall>k. k \<notin> seed_key ` set seed_records \<longrightarrow> getEntity (state s') k = getEntity (state s) k)"
proof -
  let ?kv = "map (\<lambda>(kind, i, fs). (entityKey kind i, new_record kind i (seed_fields now i fs))) seed_records"
  have st: "state s' = fold (seed_put now) seed_records (state s)"
    using withTx_ok [of w "SeedIranianCafeData_tx now" s s' u] assms by (simp add: SeedIranianCafeData_def SeedIranianCafeData_tx_def)
  have keys: "map fst ?kv = map seed_key seed_records" by (auto simp: seed_key_def)
  then have dist: "distinct (map fst (rev ?kv))" using seed_keys_distinct by (simp add: rev_map [symmetric] del: map_map)
  have "live (state s') kind i = Some (new_record kind i (seed_fields now i fs))" if "(kind, i, fs) \<in> set seed_records" for kind i fs
  proof -
    have "(entityKey kind i, new_record kind i (seed_fields now i fs)) \<in> set (rev ?kv)" using that by force
    then have "map_of (rev ?kv) (entityKey kind i) = Some (new_record kind i (seed_fields now i fs))" using dist by (simp add: map_of_eq_Some_iff)
    then show ?thesis by (simp add: getEntity_live st seed_fold new_record_def)
  qed
  moreover have "getEntity (state s') k = getEntity (state s) k" if "k \<notin> seed_key ` set seed_records" for k
  proof -
    have "fst ` set (rev ?kv) = seed_key ` set seed_records" using arg_cong [OF keys, of set] by (simp only: set_map set_rev)
    then have "map_of (rev ?kv) k = None" using that by (simp only: map_of_eq_None_iff not_False_eq_True)
    then show ?thesis by (simp add: st seed_fold)
  qed
  ultimately show ?thesis by auto
qed

end
