(* ===== verification/Whole_Store.thy ===== *)
theory Whole_Store
  imports Sync_Client Split_Props Printing Inventory_Props Seed
begin

text \<open>
  The operations of \<open>internal/store\<close> together. A relation between databases that is reflexive,
  transitive and kept by storing a record under its own key holds between the states before and
  after every local operation; the interpretations of that interface give the frame of the local
  operations, and with the operations on connection, server data and outbox an invariant of the
  whole store.
\<close>

section \<open>Storing records under their own keys\<close>

lemma live_key: "live db kind i = Some e \<Longrightarrow> wf_db db \<Longrightarrow> entityKey (se_Type e) (se_ID e) = entityKey kind i"
  by (metis getEntity_live wf_db_key)

text \<open>A well-formed database becomes a well-formed one, related to the first.\<close>

definition edited :: "(persistedDB \<Rightarrow> persistedDB \<Rightarrow> bool) \<Rightarrow> persistedDB \<Rightarrow> persistedDB \<Rightarrow> bool" where
  "edited R db db' \<longleftrightarrow> (wf_db db \<longrightarrow> wf_db db' \<and> R db db')"

text \<open>The same of a run of the store: of the state, and of what the database file holds.\<close>

definition edits :: "(persistedDB \<Rightarrow> persistedDB \<Rightarrow> bool) \<Rightarrow> Store \<Rightarrow> Store \<Rightarrow> bool" where
  "edits R s s' \<longleftrightarrow> edited R (state s) (state s') \<and>
     (\<forall>db. main_file (disk s') = Whole db \<longrightarrow> main_file (disk s) = Whole db \<or> edited R (state s) db)"

lemma withTx_file:
  assumes "withTx w fn s = (s', r)" "main_file (disk s') = Whole db"
  shows "main_file (disk s) = Whole db \<or> (\<exists>a. fn (state s) = Inr (db, a))"
  using assms
  by (auto simp: withTx_def commit_trace_def Let_def split: if_splits sum.splits prod.splits option.splits)

locale edit_relation =
  fixes R :: "persistedDB \<Rightarrow> persistedDB \<Rightarrow> bool"
  assumes R_refl: "R db db"
    and R_trans: "R a b \<Longrightarrow> R b c \<Longrightarrow> R a c"
    and R_put: "wf_db db \<Longrightarrow> R db (putEntity (entityKey (se_Type e) (se_ID e)) e db)"
begin

lemma E_refl: "edited R db db"
  by (simp add: edited_def R_refl)

lemma E_trans: "edited R a b \<Longrightarrow> edited R b c \<Longrightarrow> edited R a c"
  by (auto simp: edited_def intro: R_trans)

lemma E_put: "(wf_db db \<Longrightarrow> entityKey (se_Type e) (se_ID e) = k) \<Longrightarrow> edited R db (putEntity k e db)"
  using R_put wf_db_put by (auto simp: edited_def)

lemma E_bump: "live db kind i = Some e \<Longrightarrow> edited R db (putEntity (entityKey kind i) (bump p e) db)"
  by (rule E_put) (simp add: live_key)

lemma E_new: "edited R db (putEntity (entityKey kind i) (new_record kind i m) db)"
  by (rule E_put) (simp add: new_record_def)

lemma E_then_put:
  "edited R a b \<Longrightarrow> (wf_db a \<Longrightarrow> entityKey (se_Type e) (se_ID e) = k) \<Longrightarrow> edited R a (putEntity k e b)"
  using E_put [of b e k] E_trans [of a b] by (auto simp: edited_def)

lemma E_then_new: "edited R a b \<Longrightarrow> edited R a (putEntity (entityKey kind i) (new_record kind i m) b)"
  by (rule E_trans [OF _ E_new])

lemma E_then_bump:
  "edited R a b \<Longrightarrow> live a kind i = Some e \<Longrightarrow> edited R a (putEntity (entityKey kind i) (bump p e) b)"
  by (rule E_then_put) (simp_all add: live_key)

lemma E_run:
  "withTx w fn s = (s', r) \<Longrightarrow> (\<And>db db' a. fn db = Inr (db', a) \<Longrightarrow> edited R db db') \<Longrightarrow> edits R s s'"
  unfolding edits_def using tx.run_relates [of w fn s s' r "edited R"] withTx_file [of w fn s s' r] E_refl by blast

lemma edits_refl: "edits R s s"
  by (simp add: edits_def E_refl)

lemma edits_trans: "edits R a b \<Longrightarrow> edits R b c \<Longrightarrow> edits R a c"
  unfolding edits_def using E_trans by blast

lemma E_fold: "(\<And>x st. edited R (snd st) (snd (f x st))) \<Longrightarrow> edited R (snd st) (snd (fold f xs st))"
proof (induction xs arbitrary: st)
  case Nil
  then show ?case by (simp add: E_refl)
next
  case (Cons x xs)
  show ?case using E_trans [OF Cons.prems Cons.IH [OF Cons.prems]] by simp
qed

subsection \<open>Records and debtors\<close>

lemma E_SaveLocalRecord: "SaveLocalRecord w rnd now kind i fs s = (s', r) \<Longrightarrow> edits R s s'"
  unfolding SaveLocalRecord_def Let_def
  by (auto simp: SaveLocalRecord_tx_def Let_def E_refl edits_refl split: if_splits option.splits sum.splits
      elim!: E_run intro!: E_put)

lemma E_DeleteLocalRecord: "DeleteLocalRecord w kind i s = (s', r) \<Longrightarrow> edits R s s'"
  unfolding DeleteLocalRecord_def
  by (auto simp: DeleteLocalRecord_tx_def E_refl edits_refl live_key split: if_splits option.splits elim!: E_run intro!: E_put)

lemma E_SettleDebtorPayment: "SettleDebtorPayment w now i pay s = (s', r) \<Longrightarrow> edits R s s'"
  unfolding SettleDebtorPayment_def Let_def
  by (auto simp: SettleDebtorPayment_tx_def E_refl edits_refl split: if_splits option.splits elim!: E_run intro!: E_bump)

subsection \<open>Orders\<close>

lemma E_occupy_table: "edited R db (snd (occupy_table tableID orderID db))"
  by (auto simp: occupy_table_def E_refl split: option.splits intro!: E_bump)

lemma E_credit_customer: "edited R db (snd (snd (credit_customer c name phone tot db)))"
  by (auto simp: credit_customer_def Let_def E_refl split: option.splits intro!: E_bump)

lemma E_place_order: "edited R db (place_order gen orderID num now req sub lines db)"
proof -
  obtain lbl db1 where o: "occupy_table (pi_TableID req) orderID db = (lbl, db1)" by fastforce
  obtain tot where tot: "tot = order_total sub (clamp_discount sub (parseBigIntSafe (pi_DiscountIRR req)))
    (clamp_extra (parseBigIntSafe (pi_ExtraIRR req)))" by simp
  obtain name phone db2 where c: "credit_customer (pi_CustomerID req) (TrimSpace (pi_CustomerName req))
    (TrimSpace (pi_CustomerPhone req)) tot db1 = (name, phone, db2)" by (metis prod_cases3)
  have "edited R db db1" using E_occupy_table [of db "pi_TableID req" orderID] o by simp
  moreover have "edited R db1 db2" using E_credit_customer [of db1] c by (metis snd_conv)
  ultimately have "edited R db db2" by (rule E_trans)
  then show ?thesis
    by (simp add: place_order_def o c tot [symmetric] Let_def) (auto intro!: E_then_new)
qed

lemma E_CreatePOSOrder: "CreatePOSOrder w day today rnd gen now req s = (s', r) \<Longrightarrow> edits R s s'"
  unfolding CreatePOSOrder_def
  by (auto simp: CreatePOSOrder_tx_def Let_def E_refl edits_refl E_place_order
      split: if_splits option.splits sum.splits elim!: E_run)

lemma E_UpdateOrderItemsFull: "UpdateOrderItemsFull w gen now i upd s = (s', r) \<Longrightarrow> edits R s s'"
  unfolding UpdateOrderItemsFull_def
  by (auto simp: UpdateOrderItemsFull_tx_def Let_def split: if_splits option.splits sum.splits elim!: E_run intro!: E_bump)

lemma E_free_source: "edited R db (free_source src orderID db)"
  by (auto simp: free_source_def Let_def E_refl split: option.splits intro!: E_bump)

lemma E_TransferOrder_tx:
  assumes "TransferOrder_tx now i dst db = Inr (db', u)"
  shows "edited R db db'"
proof -
  obtain e t om where e: "live db ''order'' i = Some e" and t: "live db ''table'' dst = Some t" and
    db': "db' = take_target dst i t (free_source (payload_field (se_Payload e) ''table_id'') i
      (putEntity (entityKey ''order'' i) (bump (marshal om) e) db))" (is "_ = take_target dst i t ?db2")
    using assms by (auto simp: TransferOrder_tx_def Let_def split: option.splits if_splits)
  have "edited R db ?db2" by (rule E_trans [OF E_bump [OF e] E_free_source])
  then show ?thesis using t by (auto simp: db' take_target_def split: option.splits intro: E_then_bump)
qed

lemma E_TransferOrder: "TransferOrder w now i dst s = (s', r) \<Longrightarrow> edits R s s'"
  unfolding TransferOrder_def Let_def by (auto simp: E_refl edits_refl split: if_splits elim!: E_run E_TransferOrder_tx)

lemma E_DeferOrderToDebtor: "DeferOrderToDebtor w rnd now i name phone due note s = (s', r) \<Longrightarrow> edits R s s'"
  unfolding DeferOrderToDebtor_def Let_def
  by (auto simp: DeferOrderToDebtor_tx_def Let_def E_refl edits_refl
      split: if_splits option.splits sum.splits elim!: E_run intro!: E_then_bump E_new)

lemma E_RecordSplitPayment: "RecordSplitPayment w rnd now i picks pay token s = (s', r) \<Longrightarrow> edits R s s'"
  unfolding RecordSplitPayment_def Let_def
  by (auto simp: RecordSplitPayment_tx_def Let_def E_refl edits_refl
      split: if_splits option.splits sum.splits prod.splits elim!: E_run intro!: E_bump)

lemma E_UndoLastSplitPayment: "UndoLastSplitPayment w now i s = (s', r) \<Longrightarrow> edits R s s'"
  unfolding UndoLastSplitPayment_def
  by (auto simp: UndoLastSplitPayment_tx_def Let_def split: if_splits option.splits list.splits elim!: E_run intro!: E_bump)

subsection \<open>Stock\<close>

lemma E_deduct_line: "edited R (snd st) (snd (deduct_line now oid num q rl st))"
proof -
  obtain rs db where "st = (rs, db)" by (cases st)
  then show ?thesis
    by (auto simp: deduct_line_def Let_def E_refl split: option.splits sum.splits intro!: E_then_new E_bump)
qed

lemma E_deduct_order: "edited R (snd st) (snd (deduct_order now oid ent st))"
  unfolding deduct_order_def deduct_recipe_def
  by (intro E_fold) (auto simp: E_refl intro!: E_fold E_deduct_line)

lemma E_release_table: "edited R db (release_table t db)"
  by (auto simp: release_table_def E_refl split: option.splits intro!: E_bump)

lemma E_status_effects: "edited R db (status_effects rs now oid st st' ent db)"
proof -
  have "edited R db (snd (deduct_order now oid ent (rs, release_table t db)))" for t
    using E_trans [OF E_release_table [of db t]] E_deduct_order [of "(rs, release_table t db)"] by simp
  then show ?thesis by (auto simp: status_effects_def Let_def E_refl E_release_table)
qed

lemma E_UpdateLocalOrderStatusReason:
  "UpdateLocalOrderStatusReason w rs now i st reason s = (s', r) \<Longrightarrow> edits R s s'"
  unfolding UpdateLocalOrderStatusReason_def
  by (auto simp: UpdateLocalOrderStatusReason_tx_def Let_def E_refl edits_refl
      split: if_splits option.splits elim!: E_run intro!: E_then_bump E_status_effects)

lemma E_RecordStockMovement: "RecordStockMovement w rnd rnd2 now i ty qty c note s = (s', r) \<Longrightarrow> edits R s s'"
  unfolding RecordStockMovement_def
  by (auto simp: RecordStockMovement_tx_def Let_def E_refl edits_refl
      split: if_splits option.splits sum.splits prod.splits elim!: E_run intro!: E_then_new E_bump)

lemma E_VoidWasteEvent: "VoidWasteEvent w w' rnd now now' i s = (s', r) \<Longrightarrow> edits R s s'"
proof -
  assume run: "VoidWasteEvent w w' rnd now now' i s = (s', r)"
  obtain s1 r1 where tx: "withTx w (VoidWasteEvent_tx now i) s = (s1, r1)" by fastforce
  have "edits R s s1"
    using tx by (rule E_run) (auto simp: VoidWasteEvent_tx_def Let_def split: option.splits if_splits intro!: E_bump)
  moreover have "edits R s1 s'"
    using run tx by (auto simp: VoidWasteEvent_def E_refl edits_refl E_RecordStockMovement split: sum.splits prod.splits if_splits)
  ultimately show ?thesis by (rule edits_trans)
qed

subsection \<open>The sample\<close>

lemma E_seed_fold: "edited R a b \<Longrightarrow> edited R a (fold (seed_put now) rs b)"
  by (induction rs arbitrary: b) (auto simp: seed_put_def intro: E_then_new split: prod.splits)

lemma E_SeedIranianCafeData: "SeedIranianCafeData w now s = (s', r) \<Longrightarrow> edits R s s'"
  unfolding SeedIranianCafeData_def by (erule E_run) (auto simp: SeedIranianCafeData_tx_def intro: E_seed_fold E_refl)

subsection \<open>Print jobs\<close>

lemma E_savePrintJob: "savePrintJob w now p s = (s', r) \<Longrightarrow> edits R s s'"
  unfolding savePrintJob_def by (auto simp: savePrintJob_tx_def Let_def elim!: E_run intro!: E_put)

lemma E_UpdatePrintJobStatus: "UpdatePrintJobStatus w now i st er s = (s', r) \<Longrightarrow> edits R s s'"
  unfolding UpdatePrintJobStatus_def
  by (auto simp: UpdatePrintJobStatus_tx_def Let_def live_key split: option.splits elim!: E_run intro!: E_put)

end

section \<open>What the local operations leave alone\<close>

text \<open>
  Scope, cursor, queued operations, stock notes and connection stay, and no record disappears (a
  deleted one stays as a tombstone).
\<close>

definition local_frame :: "persistedDB \<Rightarrow> persistedDB \<Rightarrow> bool" where
  "local_frame db db' \<longleftrightarrow> Meta db' = Meta db \<and> same_outbox db db' \<and> LegacyStockCounts db' = LegacyStockCounts db
     \<and> NextLegacyStockCountID db' = NextLegacyStockCountID db \<and> Connection db' = Connection db
     \<and> (\<forall>k. getEntity db k \<noteq> None \<longrightarrow> getEntity db' k \<noteq> None)"

interpretation local_edit: edit_relation local_frame
  by unfold_locales (auto simp: local_frame_def same_outbox_def)

inductive local_op :: "Store \<Rightarrow> Store \<Rightarrow> bool" where
  "SaveLocalRecord w rnd now kind i fs s = (s', r1) \<Longrightarrow> local_op s s'"
| "DeleteLocalRecord w kind i s = (s', r2) \<Longrightarrow> local_op s s'"
| "CreatePOSOrder w day today rnd gen now req s = (s', r1) \<Longrightarrow> local_op s s'"
| "UpdateOrderItemsFull w gen now i upd s = (s', r2) \<Longrightarrow> local_op s s'"
| "TransferOrder w now i dst s = (s', r2) \<Longrightarrow> local_op s s'"
| "DeferOrderToDebtor w rnd now i name phone due note s = (s', r1) \<Longrightarrow> local_op s s'"
| "UpdateLocalOrderStatusReason w draws now i st reason s = (s', r2) \<Longrightarrow> local_op s s'"
| "RecordSplitPayment w rnd now i picks pay token s = (s', r3) \<Longrightarrow> local_op s s'"
| "UndoLastSplitPayment w now i s = (s', r2) \<Longrightarrow> local_op s s'"
| "SettleDebtorPayment w now i pay s = (s', r2) \<Longrightarrow> local_op s s'"
| "RecordStockMovement w rnd rnd2 now i ty qty unit_cost note s = (s', r1) \<Longrightarrow> local_op s s'"
| "VoidWasteEvent w w' rnd now now' i s = (s', r2) \<Longrightarrow> local_op s s'"
| "savePrintJob w now job s = (s', r2) \<Longrightarrow> local_op s s'"
| "UpdatePrintJobStatus w now i st er s = (s', r4) \<Longrightarrow> local_op s s'"
| "SeedIranianCafeData w now s = (s', r2) \<Longrightarrow> local_op s s'"

lemma local_op_edits: "local_op s s' \<Longrightarrow> edits local_frame s s'"
  by (induction rule: local_op.induct)
    (rule local_edit.E_SaveLocalRecord local_edit.E_DeleteLocalRecord local_edit.E_CreatePOSOrder
      local_edit.E_UpdateOrderItemsFull local_edit.E_TransferOrder local_edit.E_DeferOrderToDebtor
      local_edit.E_UpdateLocalOrderStatusReason local_edit.E_RecordSplitPayment local_edit.E_UndoLastSplitPayment
      local_edit.E_SettleDebtorPayment local_edit.E_RecordStockMovement local_edit.E_VoidWasteEvent
      local_edit.E_savePrintJob local_edit.E_UpdatePrintJobStatus local_edit.E_SeedIranianCafeData; assumption)+

section \<open>Every reachable store\<close>

definition store_ok :: "persistedDB \<Rightarrow> bool" where
  "store_ok db \<longleftrightarrow> wf_db db \<and> outbox_inv db"

text \<open>The invariant of a running store: of the state, and of the file if it holds one.\<close>

definition store_inv :: "Store \<Rightarrow> bool" where
  "store_inv s \<longleftrightarrow> store_ok (state s) \<and> (\<forall>db. main_file (disk s) = Whole db \<longrightarrow> store_ok db)"

lemma store_inv_run:
  assumes "withTx w fn s = (s', r)" and "store_inv s" and fn: "\<And>db' a. fn (state s) = Inr (db', a) \<Longrightarrow> store_ok db'"
  shows "store_inv s'"
proof -
  have "store_ok (state s')" using assms(1) by (cases rule: tx.run_view) (use assms(2) fn in \<open>auto simp: store_inv_def\<close>)
  then show ?thesis using assms(2) fn withTx_file [OF assms(1)] by (auto simp: store_inv_def)
qed

lemma store_inv_op:
  assumes "withTx w fn s = (s', r)" and "store_inv s" and "\<And>db db' a. fn db = Inr (db', a) \<Longrightarrow> store_ok db \<Longrightarrow> store_ok db'"
  shows "store_inv s'"
  using assms(1,2) by (rule store_inv_run) (use assms(2,3) in \<open>auto simp: store_inv_def\<close>)

lemma edits_store_inv: "edits local_frame s s' \<Longrightarrow> store_inv s \<Longrightarrow> store_inv s'"
  using outbox_inv_same by (auto simp: edits_def edited_def store_inv_def store_ok_def local_frame_def)

text \<open>The operations on connection, server data and outbox, a restart, and a crash during a commit.\<close>

inductive store_op :: "Store \<Rightarrow> Store \<Rightarrow> bool" where
  local: "local_op s s' \<Longrightarrow> store_op s s'"
| bind: "Bind w scope s = (s', r) \<Longrightarrow> store_op s s'"
| connect: "SaveConnection w now cfg s = (s', r) \<Longrightarrow> store_op s s'"
| reset: "ResetAll w s = (s', r) \<Longrightarrow> store_op s s'"
| page: "ApplyPage w cs cur s = (s', r) \<Longrightarrow> store_op s s'"
| boot: "Bootstrap w secs cur s = (s', r) \<Longrightarrow> store_op s s'"
| stock_note: "AddLegacyStockCount w now d s = (s', r) \<Longrightarrow> store_op s s'"
| queue: "QueueCatalog w r1 r2 now kind i action raw v s = (s', res) \<Longrightarrow> fresh_op r2 (state s) \<Longrightarrow>
    NextOutboxSeq (state s) < 2 ^ 63 - 1 \<Longrightarrow> store_op s s'"
| save: "SaveResults w sent rs s = (s', r) \<Longrightarrow> store_op s s'"
| discard: "Discard w i s = (s', r) \<Longrightarrow> store_op s s'"
| sync: "ss_store st = s \<Longrightarrow> store_op s (ss_store (fst (Refresh srv ios c st)))"
| close: "store_op s (Close s)"
| restart: "Open (disk s) = Inr s' \<Longrightarrow> store_op s s'"
| crash: "store_op s s1 \<Longrightarrow> d \<in> set (fst (commit_trace w (state s1) (disk s))) \<Longrightarrow> Open d = Inr s' \<Longrightarrow> store_op s s'"

lemma changes_wf: "foldE applyChange cs db = Inr db' \<Longrightarrow> wf_db db \<Longrightarrow> wf_db db'"
  by (rule foldE_inv [where I = wf_db]) (auto dest: applyChange_wf)

lemma store_ok_meta: "store_ok db \<Longrightarrow> store_ok (setMeta k v db)"
  by (auto simp: store_ok_def same_outbox_def intro: outbox_inv_same [of db])

lemma page_ok:
  assumes "ApplyPage_tx cs cur db = Inr (db', u)" "store_ok db"
  shows "store_ok db'"
proof -
  obtain db1 where db1: "foldE applyChange cs db = Inr db1" "db' = setMeta ''cursor'' cur db1"
    using assms(1) by (auto simp: ApplyPage_tx_def split: sum.splits)
  have "store_ok db1"
    using assms(2) changes_wf [OF db1(1)] outbox_inv_same [OF _ changes_outbox [OF db1(1)]] by (simp add: store_ok_def)
  then show ?thesis by (simp add: db1(2) store_ok_meta)
qed

lemma bootstrap_section_wf:
  assumes "bootstrap_section sec db = Inr db'" "wf_db db"
  shows "wf_db db'"
proof (cases "map_of bootstrapSectionTypes (fst sec)")
  case (Some kind)
  then have "foldE (bootstrap_row kind) (snd sec) db = Inr db'" using assms(1) by (simp add: bootstrap_section_def)
  then show ?thesis
    by (rule foldE_inv [where I = wf_db]) (use assms(2) in \<open>auto simp: bootstrap_row_def dest!: applyChange_wf split: option.splits\<close>)
qed (use assms in \<open>simp add: bootstrap_section_def\<close>)

lemma boot_ok:
  assumes "Bootstrap_tx secs cur db = Inr (db', u)" "store_ok db"
  shows "store_ok db'"
proof -
  obtain db1 where fold: "foldE bootstrap_section secs (db\<lparr>Entities := []\<rparr>) = Inr db1"
    and db': "db' = setMeta ''cursor'' cur db1" using assms(1) by (auto simp: Bootstrap_tx_def split: sum.splits)
  have "wf_db db1"
    by (rule foldE_inv [OF fold]) (use assms(2) in \<open>auto simp: store_ok_def wf_db_def dest: bootstrap_section_wf\<close>)
  then show ?thesis
    using Bootstrap_tx_outbox [OF assms(1)] assms(2) by (auto simp: store_ok_def db' intro: outbox_inv_same)
qed

lemma queue_ok:
  assumes "QueueCatalog w r1 r2 now kind i action raw v s = (s', res)" "fresh_op r2 (state s)"
    "NextOutboxSeq (state s) < 2 ^ 63 - 1" "store_inv s"
  shows "store_inv s'"
proof -
  have ok: "wf_db (state s)" "outbox_inv (state s)" using assms(4) by (simp_all add: store_inv_def store_ok_def)
  have tx: "store_ok db'" if "UUID r2 = Inr opID" "QueueCatalog_tx opID now kind j action (raw_payload raw) v (state s) = Inr (db', a)"
    for opID j db' a
  proof -
    have "opID \<notin> set (map so_ID (Outbox (state s)))" using assms(2) that(1) by (simp add: fresh_op_def)
    then show ?thesis
      using QueueCatalog_tx_ok [of opID now kind j action "raw_payload raw" v "state s" db' a] that(2) ok
        outbox_inv_queue [OF ok(2) _ assms(3)] by (auto simp: store_ok_def wf_db_def)
  qed
  obtain s1 res1 opID j where "s' = s \<or> s' = s1 \<and> UUID r2 = Inr opID \<and>
      withTx w (QueueCatalog_tx opID now kind j action (raw_payload raw) v) s = (s1, res1)"
    using assms(1) by (auto simp: QueueCatalog_def split: option.splits sum.splits prod.splits)
  then show ?thesis using assms(4) tx by (auto elim!: store_inv_run)
qed

lemma evolves_ok: "outbox_evolves db db' \<Longrightarrow> store_ok db \<Longrightarrow> store_ok db'"
  using outbox_evolves_inv [of db db'] by (auto simp: store_ok_def wf_db_def outbox_evolves_def)

lemma save_ok:
  assumes "SaveResults w sent rs s = (s', r)" "store_inv s"
  shows "store_inv s'"
proof (cases "s' = s")
  case False
  then have run: "withTx w (SaveResults_tx rs) s = (s', r)" and "\<exists>x. foldE check_result rs (remdups (map op_ID sent)) = Inr x"
    using assms(1) by (auto simp: SaveResults_def split: if_splits sum.splits)
  then have "list_all (\<lambda>r. result_status (rs_Status r)) rs" using check_results_ok by blast
  then show ?thesis by (intro store_inv_op [OF run assms(2)]) (blast intro: evolves_ok SaveResults_tx_evolves)
qed (use assms(2) in simp)

lemma discard_ok: "Discard_tx i db = Inr (db', u) \<Longrightarrow> store_ok db \<Longrightarrow> store_ok db'"
  by (rule evolves_ok)
    (auto simp: Discard_tx_def outbox_evolves_def dest: discard_first_evolves split: option.splits)

lemma crash_file:
  "d \<in> set (fst (commit_trace w db d0)) \<Longrightarrow> main_file d = Whole db' \<Longrightarrow> db' = db \<or> main_file d0 = Whole db'"
  by (auto simp: commit_trace_def Let_def split: if_splits)

lemma empty_ok: "store_ok newEmptyDB"
  using wf_db_empty by (simp add: store_ok_def outbox_inv_def newEmptyDB_def)

lemma Open_inv:
  "Open d = Inr s \<Longrightarrow> (\<And>db. main_file d = Whole db \<Longrightarrow> store_ok db) \<Longrightarrow> store_inv s"
  by (auto simp: Open_def store_inv_def empty_ok split: content.splits)

lemma bind_inv: "store_inv s \<Longrightarrow> store_inv (fst (Bind w scope s))"
  unfolding Bind_def
  by (rule store_inv_op [OF surjective_pairing]) (auto simp: Bind_tx_def store_ok_meta split: option.splits if_splits)

lemma page_inv: "store_inv s \<Longrightarrow> store_inv (fst (ApplyPage w cs cur s))"
  unfolding ApplyPage_def by (simp, intro impI, rule store_inv_op [OF surjective_pairing]) (auto intro: page_ok)

lemma bootstrap_inv: "store_inv s \<Longrightarrow> store_inv (fst (Bootstrap w secs cur s))"
  unfolding Bootstrap_def by (simp, intro impI, rule store_inv_op [OF surjective_pairing]) (auto intro: boot_ok)

interpretation round_inv: sync_relation "\<lambda>a b. store_inv (ss_store a) \<longrightarrow> store_inv (ss_store b)"
  by unfold_locales
    (auto simp: send_def intro: bind_inv page_inv bootstrap_inv save_ok [OF surjective_pairing] split: sync_req.splits)

lemma store_op_inv: "store_op s s' \<Longrightarrow> store_inv s \<Longrightarrow> store_inv s'"
proof (induction rule: store_op.induct)
  case (local s s')
  then show ?case by (blast intro: edits_store_inv local_op_edits)
next
  case (bind w scope s s' r)
  then show ?case using bind_inv [of s w scope] by simp
next
  case (connect w now cfg s s' r)
  have "store_ok (db\<lparr>Connection := c\<rparr>)" if "store_ok db" for db c
    using that by (simp add: store_ok_def wf_db_def outbox_inv_def)
  then have "store_ok db'" if "SaveConnection_tx now cfg db = Inr (db', a)" "store_ok db" for db db' a
    using that by (auto simp: SaveConnection_tx_def store_ok_meta Let_def split: option.splits if_splits)
  then show ?case by (rule store_inv_op [OF connect(1) [unfolded SaveConnection_def] connect(2)])
next
  case (reset w s s' r)
  then show ?case unfolding ResetAll_def by (rule store_inv_op) (simp add: empty_ok)
next
  case (page w cs cur s s' r)
  then show ?case using page_inv [of s w cs cur] by simp
next
  case (boot w secs cur s s' r)
  then show ?case using bootstrap_inv [of s w secs cur] by simp
next
  case (stock_note w now d s s' r)
  then show ?case unfolding AddLegacyStockCount_def
    by (rule store_inv_op) (auto simp: AddLegacyStockCount_tx_def Let_def store_ok_def wf_db_def outbox_inv_def)
next
  case (queue w r1 r2 now kind i action raw v s s' res)
  then show ?case by (rule queue_ok)
next
  case (save w sent rs s s' r)
  then show ?case by (rule save_ok)
next
  case (discard w i s s' r)
  then show ?case unfolding Discard_def by (rule store_inv_op) (rule discard_ok)
next
  case (sync st s srv ios c)
  then show ?case using round_inv.R_Refresh [of st srv ios c] by simp
next
  case (close s)
  then show ?case by (simp add: store_inv_def Close_def)
next
  case (restart s s')
  then show ?case by (intro Open_inv) (auto simp: store_inv_def)
next
  case (crash s s1 d w s')
  then have "store_inv s1" by blast
  then show ?case using crash_file [OF crash.hyps(2)] crash.prems
    by (intro Open_inv [OF crash.hyps(3)]) (auto simp: store_inv_def)
qed

text \<open>A store that has just been opened on a file that is not there yet.\<close>

definition first_start :: "Store \<Rightarrow> bool" where
  "first_start s \<longleftrightarrow> Open (disk s) = Inr s \<and> main_file (disk s) = Blank"

interpretation whole: inv_machine first_start store_op store_inv
proof unfold_locales
  fix s assume "first_start s"
  then show "store_inv s" by (intro Open_inv [of "disk s"]) (auto simp: first_start_def)
next
  fix s t assume "store_op s t" "store_inv s"
  then show "store_inv t" by (rule store_op_inv)
qed

text \<open>A concrete edit, on any open store.\<close>

definition demo_saved :: "Store \<Rightarrow> Store" where
  "demo_saved s =
    (let db = fst (projr (SaveLocalRecord_tx ''t1'' False ''product'' ''p7'' demo_fields (state s)))
     in s\<lparr>disk := \<lparr>main_file = Whole db, tmp_file = None\<rparr>, state := db\<rparr>)"

lemma demo_saved_op:
  assumes "\<not> Store.closed s"
  shows "local_op s (demo_saved s)"
proof -
  have trim: "TrimSpace ''product'' = ''product''" "TrimSpace ''p7'' = ''p7''"
    by (rule TrimSpace_graph; simp add: graph_def)+
  define db where "db = fst (projr (SaveLocalRecord_tx ''t1'' False ''product'' ''p7'' demo_fields (state s)))"
  have tx: "SaveLocalRecord_tx ''t1'' False ''product'' ''p7'' demo_fields (state s) = Inr (db, ''p7'')"
    by (simp add: db_def SaveLocalRecord_tx_def Let_def)
  have "SaveLocalRecord all_ok None ''t1'' ''product'' ''p7'' demo_fields s = (demo_saved s, Inr ''p7'')"
    using withTx_all_ok [of s "SaveLocalRecord_tx ''t1'' False ''product'' ''p7'' demo_fields", OF assms tx]
    by (simp add: SaveLocalRecord_def demo_fields_valid trim demo_saved_def Let_def db_def [symmetric])
  then show ?thesis by (rule local_op.intros(1))
qed

lemma demo_saved_state:
  "main_file (disk (demo_saved s)) = Whole (state (demo_saved s))" "live (state (demo_saved s)) ''product'' ''p7'' \<noteq> None"
  by (simp_all add: demo_saved_def SaveLocalRecord_tx_def Let_def live_def getEntity_def [symmetric])

text \<open>
  C25. Every state that the store can reach from its first start, by any sequence of local
  operations, of operations on connection, server data and outbox, of rounds of synchronisation, of restarts and of crashes
  in the middle of a commit, is well typed: the keys of both maps are distinct, every record is
  stored under the key of its own type and identifier, and the outbox keeps its invariant. The
  same holds of the database that the file holds, whenever it holds one.
\<close>

theorem reachable_store_ok:
  assumes "first_start s" "store_op\<^sup>*\<^sup>* s s'"
  shows "wf_db (state s') \<and> outbox_inv (state s') \<and>
    (\<forall>db. main_file (disk s') = Whole db \<longrightarrow> wf_db db \<and> outbox_inv db)"
  using whole.reach_inv [OF assms] by (simp add: store_inv_def store_ok_def)

theorem reachable_store_ok_witness:
  "wf_db (state (demo_saved demo_store)) \<and> outbox_inv (state (demo_saved demo_store)) \<and>
     main_file (disk (demo_saved demo_store)) = Whole (state (demo_saved demo_store)) \<and>
     live (state (demo_saved demo_store)) ''product'' ''p7'' \<noteq> None"
proof -
  have "\<not> Store.closed demo_store" "first_start demo_store" by (simp_all add: first_start_def Open_def demo_store_def)
  then show ?thesis
    using reachable_store_ok [of demo_store "demo_saved demo_store"] demo_saved_state [of demo_store]
      store_op.local [OF demo_saved_op] by blast
qed

text \<open>
  What the local operations (records, orders, split bills, debtors, stock, print jobs) never
  touch: whatever sequence of them runs, with whatever outcome, the binding to the server, the
  synchronisation cursor, the queued operations and their numbering, the stock notes and the
  connection stay as they were, and no record disappears from the store.
\<close>

lemma local_operations_frame:
  assumes "local_op\<^sup>*\<^sup>* s s'" "wf_db (state s)"
  shows "wf_db (state s') \<and> local_frame (state s) (state s')"
proof -
  have "edits local_frame s s'" using assms(1)
    by (induction rule: rtranclp_induct)
      (auto intro: local_edit.edits_refl local_edit.edits_trans dest: local_op_edits)
  then show ?thesis using assms(2) by (simp add: edits_def edited_def)
qed

end
