(* ===== verification/Requests.thy ===== *)
theory Requests
  imports Auth Printing
begin

text \<open>
  What the handlers of \<open>app.go\<close> share: the form of a request, the outcomes and clock readings
  of the calls a handler makes, and the ways it answers. The wording of the messages on the
  screen is not modelled: every message of the source is a constructor of its own.
\<close>

type_synonym form = "(string \<times> string list) list"

record http_request =
  hr_Form :: form
  hr_HX :: bool

text \<open>\<open>r.Form[key]\<close> and \<open>r.Form.Get(key)\<close>.\<close>

definition Values :: "http_request \<Rightarrow> string \<Rightarrow> string list" where
  "Values r k = (case map_of (hr_Form r) k of None \<Rightarrow> [] | Some vs \<Rightarrow> vs)"

definition Get :: "http_request \<Rightarrow> string \<Rightarrow> string" where
  "Get r k = (case Values r k of [] \<Rightarrow> [] | v # _ \<Rightarrow> v)"

definition trimmed :: "http_request \<Rightarrow> string \<Rightarrow> string" where
  "trimmed r k = TrimSpace (Get r k)"

text \<open>The outcome, the clock and the random bytes of the \<open>n\<close>-th call of a handler.\<close>

record calls =
  cl_io :: "nat \<Rightarrow> io"
  cl_now :: "nat \<Rightarrow> string"
  cl_rnd :: "nat \<Rightarrow> 8 word list option"

datatype notice =
    MFailed err
  | MDone
  | MOrderMissing | MCustomerMissing | MGroupMissing | MPaymentMissing | MCategoryMissing | MProductMissing
  | MPrinterMissing | MConfirmNumber | MReasonLength | MCompletedLocked | MCategoryUsed
  | MNameShort | MMobile | MMobileTaken | MCustomerNeeded | MBillingDay | MAmount | MReference | MSettled
  | MNoStage | MStageReached string | MMoved string | MSplitRest string | MSplitComplete
  | MScenario | MQuantity | MReason | MRecipeEmpty | MPolicyMode | MNothing | MNoRoute
  | MBadBoolean | MBadPayload | MBadVersion | MCount | MWasteID | MVariantPair | MVariantAmount | MImage string
  | MPrinterOff | MPrinted "PrintJobView" | MNotPrinted string | MAlreadyPrinted | MPartlyPrinted | MNoTarget | MSummary string
  | MBadForm | MNoFile | MBadCsv | MImported nat nat | MBackupFailed string | MBackupSaved string

text \<open>
  An answer: a redirection, or a page rendered with these settings of the query and a message
  (\<open>a.render\<close> without a change of the query for the empty list).
\<close>

datatype answer = SeeOther string | Rendered "(string \<times> string) list" notice | Answer bool notice

definition navigatePage :: "http_request \<Rightarrow> string \<Rightarrow> notice \<Rightarrow> answer" where
  "navigatePage r page msg = (if hr_HX r then Rendered [(''page'', page)] msg else SeeOther (''/?page='' @ page))"

definition navigatePOS :: "http_request \<Rightarrow> notice \<Rightarrow> string \<Rightarrow> answer" where
  "navigatePOS r msg splitOrderID =
    (if hr_HX r then Rendered ((if splitOrderID \<noteq> [] then [(''split'', splitOrderID)] else []) @ [(''page'', ''pos'')]) msg
     else SeeOther (''/?page=pos'' @ (if splitOrderID \<noteq> [] then ''&split='' @ splitOrderID else [])))"

definition kindToPage :: "string \<Rightarrow> string" where
  "kindToPage kind =
    (if kind = ''category'' then ''categories''
     else if kind \<in> {''product'', ''modifier_group''} then ''products''
     else if kind = ''ingredient_category'' then ''inv-categories''
     else if kind = ''ingredient'' then ''ingredients''
     else if kind = ''supplier'' then ''suppliers''
     else if kind = ''purchase'' then ''inv-purchases''
     else if kind \<in> {''table'', ''reservation''} then ''tables''
     else if kind \<in> {''customer'', ''retention_campaign'', ''cafe_plan''} then ''customers''
     else if kind = ''debtor'' then ''debtors''
     else if kind \<in> {''expense'', ''accounting_entry'', ''shift_close''} then ''finance''
     else if kind \<in> {''staff'', ''job_posting''} then ''staff''
     else if kind = ''task'' then ''staff-checklist''
     else if kind \<in> {''printer'', ''printer_route'', ''cafe_profile''} then ''settings''
     else ''home'')"

definition boolStr :: "bool \<Rightarrow> string" where
  "boolStr b = (if b then ''true'' else ''false'')"

text \<open>\<open>return_page\<close>, or the page of the handler.\<close>

definition page_or :: "http_request \<Rightarrow> string \<Rightarrow> string" where
  "page_or r p = (let t = trimmed r ''return_page'' in if t = [] then p else t)"

text \<open>An Iranian mobile number: eleven bytes that start with \<open>09\<close>.\<close>

definition mobile_ok :: "string \<Rightarrow> bool" where
  "mobile_ok m \<longleftrightarrow> length m = 11 \<and> HasPrefix m ''09''"

text \<open>\<open>SaveLocalRecord\<close> and \<open>DeleteLocalRecord\<close> as the \<open>n\<close>-th call.\<close>

definition save_call :: "calls \<Rightarrow> nat \<Rightarrow> string \<Rightarrow> string \<Rightarrow> fields \<Rightarrow> Store \<Rightarrow> Store \<times> (err + string)" where
  "save_call c n kind i fs s = SaveLocalRecord (cl_io c n) (cl_rnd c n) (cl_now c n) kind i fs s"

definition delete_call :: "calls \<Rightarrow> nat \<Rightarrow> string \<Rightarrow> string \<Rightarrow> Store \<Rightarrow> Store \<times> (err + unit)" where
  "delete_call c n kind i s = DeleteLocalRecord (cl_io c n) kind i s"

text \<open>What most handlers do last: one save, and the same page with the error or the message.\<close>

definition save_and_show ::
    "calls \<Rightarrow> nat \<Rightarrow> http_request \<Rightarrow> string \<Rightarrow> string \<Rightarrow> string \<Rightarrow> fields \<Rightarrow> notice \<Rightarrow> Store \<Rightarrow> Store \<times> answer" where
  "save_and_show c n r page kind i fs msg s =
    (case save_call c n kind i fs s of
       (s', Inl e) \<Rightarrow> (s', navigatePage r page (MFailed e))
     | (s', Inr _) \<Rightarrow> (s', navigatePage r page msg))"

text \<open>\<open>time.Now().AddDate(0, 0, days).Format("2006-01-02")\<close> in a zone with a fixed offset.\<close>

definition format_date :: "int \<Rightarrow> gotime \<Rightarrow> string" where
  "format_date offset t =
    (let c = civil_in offset t in pad0 4 (cv_Year c) @ ''-'' @ pad0 2 (cv_Month c) @ ''-'' @ pad0 2 (cv_Day c))"

definition due_in :: "int \<Rightarrow> gotime \<Rightarrow> string \<Rightarrow> string" where
  "due_in offset now text =
    (case Atoi (TrimSpace text) of (days, ok) \<Rightarrow> if ok \<and> days > 0 then format_date offset (add_days days now) else [])"

end
