(* ===== verification/Order_Handlers.thy ===== *)
theory Order_Handlers
  imports Requests Split_Bill
begin

text \<open>
  The handlers of \<open>app.go\<close> for orders: taking one at the till, its state, its lines, its table,
  split payments and debts. The background prints that a handler starts are returned as the
  lists of jobs handed over.
\<close>

definition form_line :: "string list \<Rightarrow> string list \<Rightarrow> nat \<times> string \<Rightarrow> POSOrderLineInput option" where
  "form_line qtys notes = (\<lambda>(i, raw).
    (let pid = TrimSpace raw; note = (if i < length notes then TrimSpace (notes ! i) else []);
         line = (\<lambda>q. \<lparr> li_ProductID = pid, li_Quantity = q, li_Note = note \<rparr>)
     in if pid = [] then None
        else if i < length qtys
        then (case Atoi (TrimSpace (qtys ! i)) of (q, ok) \<Rightarrow> if ok \<and> q > 0 then Some (line q) else None)
        else Some (line 1)))"

definition form_lines :: "http_request \<Rightarrow> POSOrderLineInput list" where
  "form_lines r =
    List.map_filter (form_line (Values r ''quantity'') (Values r ''line_note''))
      (enumerate 0 (Values r ''product_id''))"

definition deferDueAt :: "int \<Rightarrow> gotime \<Rightarrow> http_request \<Rightarrow> string" where
  "deferDueAt offset now r =
    (let d = trimmed r ''defer_due_date'' in if d \<noteq> [] then d else due_in offset now (Get r ''defer_due_days''))"

definition pos_input :: "int \<Rightarrow> gotime \<Rightarrow> sessionInfo option \<Rightarrow> http_request \<Rightarrow> POSOrderInput" where
  "pos_input offset now sess r =
    \<lparr> pi_ClientToken = Get r ''client_token'', pi_FulfillmentType = Get r ''fulfillment_type'',
      pi_TableID = Get r ''table_id'', pi_CustomerID = Get r ''customer_id'', pi_CustomerName = Get r ''customer_name'',
      pi_CustomerPhone = Get r ''customer_phone'',
      pi_CashierName = (case sess of None \<Rightarrow> [] | Some i \<Rightarrow> si_Name i),
      pi_PaymentMethod = Get r ''payment_method'', pi_DiscountIRR = Get r ''discount_irr'',
      pi_ExtraIRR = Get r ''extra_irr'', pi_ExtraNote = Get r ''extra_note'', pi_DebtorDueAt = deferDueAt offset now r,
      pi_DebtorNote = Get r ''defer_note'', pi_DebtorKind = Get r ''debtor_kind'',
      pi_DebtorGroupID = Get r ''debtor_group_id'', pi_Note = Get r ''note'', pi_Items = form_lines r \<rparr>"

text \<open>What a delivery lacks, if anything.\<close>

definition delivery_problem :: "http_request \<Rightarrow> notice option" where
  "delivery_problem r =
    (if trimmed r ''fulfillment_type'' \<in> {''outside'', ''delivery''}
     then (let phone = normalizeDigits (trimmed r ''customer_phone'')
           in if trimmed r ''customer_name'' = [] \<or> phone = [] then Some MCustomerNeeded
              else if \<not> mobile_ok phone then Some MMobile
              else None)
     else None)"

text \<open>The calendar, the identifiers and the clock of \<open>CreatePOSOrder\<close>, and the printing side.\<close>

record till =
  ti_day :: "string \<Rightarrow> date option"
  ti_today :: date
  ti_gen :: gen
  ti_offset :: int
  ti_time :: gotime
  ti_print :: "nat \<Rightarrow> print_app"

definition print_new_order :: "till \<Rightarrow> http_request \<Rightarrow> string \<Rightarrow> Store \<Rightarrow> Store \<times> PrintJobView list list" where
  "print_new_order t r orderID s =
    (if trimmed r ''table_id'' \<noteq> []
     then (case autoPrintAsync (ti_print t 0) orderID ''create'' s of (s1, j) \<Rightarrow> (s1, [j]))
     else (case autoPrintAsync (ti_print t 0) orderID ''notable'' s of (s1, j1) \<Rightarrow>
            (case autoPrintAsync (ti_print t 1) orderID ''checkout'' s1 of (s2, j2) \<Rightarrow> (s2, [j1, j2]))))"

definition handleCreatePOSOrder ::
    "till \<Rightarrow> calls \<Rightarrow> sessionInfo option \<Rightarrow> http_request \<Rightarrow> Store \<Rightarrow> Store \<times> answer \<times> PrintJobView list list" where
  "handleCreatePOSOrder t c sess r s =
    (case delivery_problem r of
       Some m \<Rightarrow> (s, navigatePage r ''pos'' m, [])
     | None \<Rightarrow>
        (case CreatePOSOrder (cl_io c 0) (ti_day t) (ti_today t) (cl_rnd c 0) (ti_gen t) (cl_now c 0)
                (pos_input (ti_offset t) (ti_time t) sess r) s of
           (s1, Inl e) \<Rightarrow> (s1, navigatePage r ''pos'' (MFailed e), [])
         | (s1, Inr orderID) \<Rightarrow>
            (case print_new_order t r orderID s1 of (s2, jobs) \<Rightarrow> (s2, navigatePage r ''pos'' MDone, jobs))))"

definition handleOrderStatus ::
    "till \<Rightarrow> calls \<Rightarrow> draws \<Rightarrow> http_request \<Rightarrow> Store \<Rightarrow> Store \<times> answer \<times> PrintJobView list list" where
  "handleOrderStatus t c rs r s =
    (let orderID = trimmed r ''order_id''; newStatus = trimmed r ''status''; reason = trimmed r ''reason'';
         n = length (runes reason); page = page_or r ''orders''
     in if EqualFold newStatus ''cancelled'' \<and> (n < 2 \<or> n > 500) then (s, navigatePage r ''orders'' MReasonLength, [])
        else (case UpdateLocalOrderStatusReason (cl_io c 0) rs (cl_now c 0) orderID newStatus reason s of
                (s1, Inl e) \<Rightarrow> (s1, navigatePage r page (MFailed e), [])
              | (s1, Inr _) \<Rightarrow>
                 if newStatus = ''completed''
                 then (case autoPrintAsync (ti_print t 0) orderID ''complete'' s1 of
                         (s2, jobs) \<Rightarrow> (s2, navigatePage r page MDone, [jobs]))
                 else (s1, navigatePage r page MDone, [])))"

text \<open>An amount of the edit form: tomans if they parse, else rials if given, else not changed.\<close>

definition form_amount :: "http_request \<Rightarrow> string \<Rightarrow> string \<Rightarrow> string option" where
  "form_amount r toman irr =
    (case tomanFormToIRR (Get r toman) of
       Some v \<Rightarrow> Some v
     | None \<Rightarrow> (let v = trimmed r irr in if v \<noteq> [] then Some v else None))"

definition if_present :: "http_request \<Rightarrow> string \<Rightarrow> string option" where
  "if_present r k = (case map_of (hr_Form r) k of None \<Rightarrow> None | Some _ \<Rightarrow> Some (Get r k))"

definition handleOrderEdit :: "till \<Rightarrow> calls \<Rightarrow> http_request \<Rightarrow> Store \<Rightarrow> Store \<times> answer" where
  "handleOrderEdit t c r s =
    (let upd = \<lparr> ou_Lines = form_lines r, ou_DiscountIRR = form_amount r ''discount_toman'' ''discount_irr'',
           ou_ExtraIRR = form_amount r ''extra_toman'' ''extra_irr'', ou_ExtraNote = if_present r ''extra_note'',
           ou_Note = if_present r ''note'' \<rparr>;
         page = page_or r ''orders''
     in case UpdateOrderItemsFull (cl_io c 0) (ti_gen t) (cl_now c 0) (trimmed r ''order_id'') upd s of
          (s1, Inl e) \<Rightarrow> (s1, navigatePage r page (MFailed e))
        | (s1, Inr _) \<Rightarrow> (s1, navigatePage r page MDone))"

definition handleOrderTransfer :: "calls \<Rightarrow> http_request \<Rightarrow> Store \<Rightarrow> Store \<times> answer" where
  "handleOrderTransfer c r s =
    (let dst = trimmed r ''target_table_id''
     in case TransferOrder (cl_io c 0) (cl_now c 0) (trimmed r ''order_id'') dst s of
          (s1, Inl e) \<Rightarrow> (s1, navigatePOS r (MFailed e) [])
        | (s1, Inr _) \<Rightarrow>
            (s1, navigatePOS r (MMoved (case EntityOf (cl_io c 1) ''table'' dst s1 of Inl _ \<Rightarrow> [] | Inr t \<Rightarrow> Label t)) []))"

definition handleOrderAdvance :: "calls \<Rightarrow> draws \<Rightarrow> http_request \<Rightarrow> Store \<Rightarrow> Store \<times> answer" where
  "handleOrderAdvance c rs r s =
    (let orderID = trimmed r ''order_id''; page = page_or r ''pos''
     in case EntityOf (cl_io c 0) ''order'' orderID s of
          Inl _ \<Rightarrow> (s, navigatePage r page MOrderMissing)
        | Inr ord \<Rightarrow>
           (case orderAdvanceTarget (ToLower (TrimSpace (Field ord ''status''))) (posEnabledStages (cl_io c 1) s) of
              (tgt, lbl) \<Rightarrow>
                if tgt = [] then (s, navigatePage r page MNoStage)
                else (case UpdateLocalOrderStatusReason (cl_io c 2) rs (cl_now c 0) orderID tgt [] s of
                        (s1, Inl e) \<Rightarrow> (s1, navigatePage r page (MFailed e))
                      | (s1, Inr _) \<Rightarrow> (s1, navigatePage r page (MStageReached lbl)))))"

definition form_picks :: "http_request \<Rightarrow> (string \<times> int) list" where
  "form_picks r =
    List.map_filter (\<lambda>(k, vs).
      if \<not> HasPrefix k ''pick_'' \<or> vs = [] then None
      else (case Atoi (normalizeDigits (TrimSpace (hd vs))) of
              (q, ok) \<Rightarrow> if ok \<and> q > 0 then Some (TrimPrefix k ''pick_'', q) else None)) (hr_Form r)"

definition handleSplitPay :: "calls \<Rightarrow> http_request \<Rightarrow> Store \<Rightarrow> Store \<times> answer" where
  "handleSplitPay c r s =
    (let orderID = trimmed r ''order_id''
     in case RecordSplitPayment (cl_io c 0) (cl_rnd c 0) (cl_now c 0) orderID (form_picks r) (Get r ''method'')
               (Get r ''client_token'') s of
          (s1, Inl e) \<Rightarrow> (s1, navigatePOS r (MFailed e) orderID)
        | (s1, Inr (_, remaining)) \<Rightarrow>
            (s1, navigatePOS r (if remaining = 0 then MSplitComplete
                                else MSplitRest (FormatPersianNumber (Itoa (quo remaining 10)))) orderID))"

definition handleSplitUndo :: "calls \<Rightarrow> http_request \<Rightarrow> Store \<Rightarrow> Store \<times> answer" where
  "handleSplitUndo c r s =
    (let orderID = trimmed r ''order_id''
     in case UndoLastSplitPayment (cl_io c 0) (cl_now c 0) orderID s of
          (s1, Inl e) \<Rightarrow> (s1, navigatePOS r (MFailed e) orderID)
        | (s1, Inr _) \<Rightarrow> (s1, navigatePOS r MDone orderID))"

definition handleOrderDefer :: "till \<Rightarrow> calls \<Rightarrow> http_request \<Rightarrow> Store \<Rightarrow> Store \<times> answer" where
  "handleOrderDefer t c r s =
    (let due = trimmed r ''due_date'';
         dueAt = (if due \<noteq> [] then due else due_in (ti_offset t) (ti_time t) (Get r ''due_days''));
         page = (if trimmed r ''return_page'' = ''pos'' then ''pos'' else ''orders'')
     in case DeferOrderToDebtor (cl_io c 0) (cl_rnd c 0) (cl_now c 0) (trimmed r ''order_id'') (Get r ''customer_name'')
               (Get r ''customer_phone'') dueAt (Get r ''note'') s of
          (s1, Inl e) \<Rightarrow> (s1, navigatePage r page (MFailed e))
        | (s1, Inr _) \<Rightarrow> (s1, navigatePage r page MDone))"

definition handleDebtorPay :: "calls \<Rightarrow> http_request \<Rightarrow> Store \<Rightarrow> Store \<times> answer" where
  "handleDebtorPay c r s =
    (case SettleDebtorPayment (cl_io c 0) (cl_now c 0) (Get r ''debtor_id'') (Get r ''amount_irr'') s of
       (s1, Inl e) \<Rightarrow> (s1, navigatePage r ''debtors'' (MFailed e))
     | (s1, Inr _) \<Rightarrow> (s1, navigatePage r ''debtors'' MDone))"

text \<open>\<open>posStageDefs\<close> by key, and the choice of the stages that the till offers.\<close>

definition handlePOSStages :: "calls \<Rightarrow> http_request \<Rightarrow> Store \<Rightarrow> Store \<times> answer" where
  "handlePOSStages c r s =
    (let enabled = filter (\<lambda>k. Get r (''stage_'' @ k) = ''on'') stage_chain;
         joined = Join enabled '','';
         stagesVal = (if joined = [] then ''none'' else joined)
     in save_and_show c 0 r ''pos'' ''cafe_profile'' ''cafe-main-profile'' [(''pos_stages'', JStr stagesVal)] MDone s)"

definition fa_shift_close :: string where "fa_shift_close = (fa [0x6AF, 0x632, 0x627, 0x631, 0x634, 0x20, 0x628, 0x633, 0x62A, 0x646, 0x20, 0x635, 0x646, 0x62F, 0x648, 0x642, 0x20, 0x631, 0x648, 0x632, 0x627, 0x646, 0x647])"

definition day_close_fields :: "FinancialAnalytics \<Rightarrow> string \<Rightarrow> fields" where
  "day_close_fields a note =
    [(''title'', JStr fa_shift_close), (''total_sales'', JStr (TotalSalesIRR a)), (''cash_sales'', JStr (CashSalesIRR a)),
     (''card_sales'', JStr (CardSalesIRR a)), (''credit_sales'', JStr (CreditSalesIRR a)),
     (''total_expenses'', JStr (TotalExpensesIRR a)), (''net_operating'', JStr (NetOperatingIRR a)),
     (''orders_count'', JStr (Itoa (CompletedOrders a))), (''cashier_note'', JStr note)]"

definition handleDayClose :: "calls \<Rightarrow> http_request \<Rightarrow> Store \<Rightarrow> Store \<times> answer" where
  "handleDayClose c r s =
    save_and_show c 0 r ''finance'' ''shift_close'' [] (day_close_fields (Analytics (state s)) (trimmed r ''note'')) MDone s"

end
