(* ===== verification/Float_Text.thy ===== *)
theory Float_Text
  imports Go_Float
begin

text \<open>
  How \<open>encoding/json\<close> writes a \<open>float64\<close>: the shortest decimal that reads back as the same
  number, without an exponent unless the number is below one millionth or from \<open>10^21\<close> on.
\<close>

definition pow10 :: "int \<Rightarrow> rat" where
  "pow10 k = (if k \<ge> 0 then 10 ^ nat k else 1 / 10 ^ nat (- k))"

fun small_exp :: "nat \<Rightarrow> rat \<Rightarrow> int" where
  "small_exp 0 m = 0"
| "small_exp (Suc n) m = (if m \<ge> 1 then 0 else small_exp n (10 * m) - 1)"

text \<open>The power of ten of the leading digit; no positive \<open>float64\<close> is below \<open>10^-324\<close>.\<close>

definition dec_exp :: "rat \<Rightarrow> int" where
  "dec_exp m = (if m \<ge> 1 then int (length (Itoa \<lfloor>m\<rfloor>)) - 1 else small_exp 400 m)"

text \<open>The decimal with \<open>k\<close> digits that stands for the number, if there is one, as digits and exponent.\<close>

definition decimal_of :: "rat \<Rightarrow> nat \<Rightarrow> (int \<times> int) option" where
  "decimal_of m k =
    (let e = dec_exp m + 1 - int k; q = m / pow10 e;
         reads_back = (\<lambda>c. round64 False (rat_of_int c * pow10 e) = Fin False m)
     in case (reads_back \<lfloor>q\<rfloor>, reads_back (\<lfloor>q\<rfloor> + 1)) of
          (True, True) \<Rightarrow> Some (round_even q, e)
        | (True, False) \<Rightarrow> Some (\<lfloor>q\<rfloor>, e)
        | (False, True) \<Rightarrow> Some (\<lfloor>q\<rfloor> + 1, e)
        | (False, False) \<Rightarrow> None)"

fun first_decimal :: "rat \<Rightarrow> nat list \<Rightarrow> int \<times> int" where
  "first_decimal m [] = (0, 0)"
| "first_decimal m (k # ks) = (case decimal_of m k of Some d \<Rightarrow> d | None \<Rightarrow> first_decimal m ks)"

fun strip_zeros :: "nat \<Rightarrow> int \<times> int \<Rightarrow> int \<times> int" where
  "strip_zeros 0 d = d"
| "strip_zeros (Suc n) d = (if fst d \<noteq> 0 \<and> fst d mod 10 = 0 then strip_zeros n (fst d div 10, snd d + 1) else d)"

definition shortest :: "rat \<Rightarrow> int \<times> int" where
  "shortest m = strip_zeros 20 (first_decimal m [1..<18])"

definition plain_text :: "string \<Rightarrow> int \<Rightarrow> string" where
  "plain_text ds point =
    (if point \<le> 0 then ''0.'' @ replicate (nat (- point)) (CHR ''0'') @ ds
     else if int (length ds) \<le> point then ds @ replicate (nat (point - int (length ds))) (CHR ''0'')
     else take (nat point) ds @ ''.'' @ drop (nat point) ds)"

definition exp_text :: "string \<Rightarrow> int \<Rightarrow> string" where
  "exp_text ds point =
    take 1 ds @ (if length ds > 1 then CHR ''.'' # drop 1 ds else []) @ ''e''
      @ (if point - 1 < 0 then ''-'' else ''+'') @ Itoa \<bar>point - 1\<bar>"

text \<open>\<open>None\<close> where \<open>json.Marshal\<close> fails.\<close>

fun json_float :: "float64 \<Rightarrow> string option" where
  "json_float (Fin n m) =
    (let sign = (if n then ''-'' else [])
     in if m = 0 then Some (sign @ ''0'')
        else (case shortest m of
                (c, e) \<Rightarrow>
                  (let ds = Itoa c; point = int (length ds) + e
                   in Some (sign @ (if f_less (Fin False m) (round64 False (1 / 1000000)) \<or> m \<ge> 10 ^ 21 then exp_text ds point else plain_text ds point)))))"
| "json_float _ = None"

end
