(* ===== verification/Record_Handlers.thy ===== *)
theory Record_Handlers
  imports Requests Float_Text Seed
begin

text \<open>
  The handlers of \<open>app.go\<close> for records, the warehouse and the customer club.
\<close>

section \<open>The catalogue editor\<close>

definition editor_fields :: "(string \<times> string list) list" where
  "editor_fields =
    [(''category'', [''title'', ''slug'', ''description'']),
     (''product'', [''title'', ''slug'', ''description'', ''category_id'', ''price'', ''cost'']),
     (''ingredient'', [''name'', ''sku'', ''barcode'']),
     (''banner'', [''title'', ''image'', ''link''])]"

text \<open>The payload that the form stands for, unless a switch has another value than true or false.\<close>

definition editor_payload :: "http_request \<Rightarrow> fields option" where
  "editor_payload r =
    (let kind = Get r ''kind'';
         texts = List.map_filter (\<lambda>k. let v = trimmed r k in if v \<noteq> [] \<or> k = ''description'' then Some (k, JStr v) else None)
           (case map_of editor_fields kind of None \<Rightarrow> [] | Some ks \<Rightarrow> ks);
         base_unit = (if kind = ''ingredient'' \<and> Get r ''action'' = ''create'' then [(''base_unit'', JStr (Get r ''base_unit''))] else []);
         switches = filter (\<lambda>k. Get r k \<noteq> []) [''is_available'', ''is_active'']
     in if list_ex (\<lambda>k. Get r k \<noteq> ''true'' \<and> Get r k \<noteq> ''false'') switches then None
        else Some (texts @ base_unit @ map (\<lambda>k. (k, JBool (Get r k = ''true''))) switches))"

definition editor_save :: "calls \<Rightarrow> http_request \<Rightarrow> string \<Rightarrow> Store \<Rightarrow> Store \<times> answer" where
  "editor_save c r raw s =
    (case (case json_parse raw of None \<Rightarrow> None | Some j \<Rightarrow> if j = JNull then Some [] else as_map j) of
       None \<Rightarrow> (s, Rendered [] MBadPayload)
     | Some fs \<Rightarrow>
        (let kind = Get r ''kind''; i = Get r ''id''
         in if Get r ''action'' = ''delete''
            then (case delete_call c 0 kind i s of
                    (s1, Inl e) \<Rightarrow> (s1, Rendered [] (MFailed e))
                  | (s1, Inr _) \<Rightarrow> (s1, navigatePage r (kindToPage kind) MDone))
            else (case save_call c 0 kind i fs s of
                    (s1, Inl e) \<Rightarrow> (s1, Rendered [] (MFailed e))
                  | (s1, Inr _) \<Rightarrow> (s1, navigatePage r (kindToPage kind) MDone))))"

definition editor_queue :: "calls \<Rightarrow> http_request \<Rightarrow> string \<Rightarrow> Store \<Rightarrow> Store \<times> answer" where
  "editor_queue c r raw s =
    (case Atoi (Get r ''version'') of
       (v, ok) \<Rightarrow>
         if \<not> ok then (s, Rendered [] MBadVersion)
         else (case QueueCatalog (cl_io c 0) (cl_rnd c 0) (cl_rnd c 1) (cl_now c 0) (Get r ''kind'') (Get r ''id'')
                      (Get r ''action'') raw v s of
                 (s1, Inl e) \<Rightarrow> (s1, Rendered [] (MFailed e))
               | (s1, Inr _) \<Rightarrow> (s1, navigatePage r ''editor'' MDone)))"

text \<open>\<open>standalone\<close> when no synchronisation is configured.\<close>

definition queueCatalog :: "bool \<Rightarrow> calls \<Rightarrow> http_request \<Rightarrow> Store \<Rightarrow> Store \<times> answer" where
  "queueCatalog standalone c r s =
    (let go = (\<lambda>raw. if standalone then editor_save c r raw s else editor_queue c r raw s)
     in if Get r ''mode'' = ''form''
        then (case editor_payload r of
                None \<Rightarrow> (s, Rendered [] MBadBoolean)
              | Some fs \<Rightarrow> go (json_text (marshal fs)))
        else go (Get r ''payload''))"

section \<open>Local records\<close>

definition fa_table :: string where "fa_table = (fa [0x645, 0x6CC, 0x632])"

text \<open>Bulk creation of tables: a failing save ends the loop, the tables before it stay.\<close>

definition bulk_table :: "string \<Rightarrow> string \<Rightarrow> string \<Rightarrow> int \<Rightarrow> fields" where
  "bulk_table prefix zone capacity num =
    [(''title'', JStr (prefix @ '' '' @ Itoa num)), (''number'', JStr (Itoa num)), (''zone'', JStr zone),
     (''capacity'', JStr capacity), (''status'', JStr ''available'')]"

fun bulk_tables ::
    "calls \<Rightarrow> string \<Rightarrow> string \<Rightarrow> string \<Rightarrow> int \<Rightarrow> nat list \<Rightarrow> Store \<Rightarrow> Store \<times> err option" where
  "bulk_tables c prefix zone capacity start [] s = (s, None)"
| "bulk_tables c prefix zone capacity start (n # ns) s =
    (case save_call c n ''table'' [] (bulk_table prefix zone capacity (w64 (start + int n))) s of
       (s1, Inl e) \<Rightarrow> (s1, Some e)
     | (s1, Inr _) \<Rightarrow> bulk_tables c prefix zone capacity start ns s1)"

definition handleTablesBulk :: "calls \<Rightarrow> http_request \<Rightarrow> Store \<Rightarrow> Store \<times> answer" where
  "handleTablesBulk c r s =
    (let count = fst (Atoi (trimmed r ''count'')); start0 = fst (Atoi (trimmed r ''start''));
         start = (if start0 < 1 then 1 else start0);
         prefix0 = trimmed r ''prefix''; prefix = (if prefix0 = [] then fa_table else prefix0)
     in if count < 1 \<or> count > 100 then (s, Rendered [] MCount)
        else (case bulk_tables c prefix (trimmed r ''zone'') (trimmed r ''capacity'') start [0..<nat count] s of
                (s1, Some e) \<Rightarrow> (s1, Rendered [] (MFailed e))
              | (s1, None) \<Rightarrow> (s1, navigatePage r ''tables'' MDone)))"

definition handleLocalDelete :: "calls \<Rightarrow> http_request \<Rightarrow> Store \<Rightarrow> Store \<times> answer" where
  "handleLocalDelete c r s =
    (let kind = trimmed r ''kind''; i = trimmed r ''id''; page = page_or r (kindToPage kind);
         stop = (\<lambda>m. (s, navigatePage r page m));
         delete = (case delete_call c 2 kind i s of
             (s1, Inl e) \<Rightarrow> (s1, navigatePage r page (MFailed e))
           | (s1, Inr _) \<Rightarrow> (s1, navigatePage r page MDone))
     in if kind = ''order'' then
          (case EntityOf (cl_io c 0) ''order'' i s of
             Inl _ \<Rightarrow> stop MOrderMissing
           | Inr ent \<Rightarrow>
              (let expected = normalizeNumInput (Field ent ''order_number'');
                   got = normalizeNumInput (Get r ''confirm_number''); n = length (runes (trimmed r ''reason''))
               in if expected = [] \<or> got \<noteq> expected then stop MConfirmNumber
                  else if n < 2 \<or> n > 500 then stop MReasonLength
                  else if EqualFold (Field ent ''status'') ''completed'' then stop MCompletedLocked
                  else delete))
        else if kind = ''ingredient_category'' then
          (case EntityOf (cl_io c 0) ''ingredient_category'' i s of
             Inl _ \<Rightarrow> stop MCategoryMissing
           | Inr cat \<Rightarrow>
              (case EntitiesOf (cl_io c 1) ''ingredient'' s of
                 Inl _ \<Rightarrow> delete
               | Inr ings \<Rightarrow>
                   if list_ex (\<lambda>g. TrimSpace (Field g ''category'') = Label cat) ings then stop MCategoryUsed else delete))
        else delete)"

definition handleTaskToggle :: "calls \<Rightarrow> http_request \<Rightarrow> Store \<Rightarrow> Store \<times> answer" where
  "handleTaskToggle c r s =
    (let taskID = trimmed r ''task_id''
     in case EntityOf (cl_io c 0) ''task'' taskID s of
          Inl e \<Rightarrow> (s, navigatePage r ''staff-checklist'' (MFailed e))
        | Inr ent \<Rightarrow>
           (let is_done = (Field ent ''is_done'' = ''true'' \<or> Field ent ''status'' = ''done'');
                fs = [(''is_done'', JStr (boolStr (\<not> is_done))), (''status'', JStr (if is_done then ''pending'' else ''done''))]
            in (fst (save_call c 1 ''task'' taskID fs s), navigatePage r (page_or r ''staff-checklist'') MDone)))"

section \<open>The warehouse\<close>

definition handleWasteVoid :: "calls \<Rightarrow> http_request \<Rightarrow> Store \<Rightarrow> Store \<times> answer" where
  "handleWasteVoid c r s =
    (let i = trimmed r ''id''
     in if i = [] then (s, navigatePage r ''waste'' MWasteID)
        else (case VoidWasteEvent (cl_io c 0) (cl_io c 1) (cl_rnd c 0) (cl_now c 0) (cl_now c 1) i s of
                (s1, Inl e) \<Rightarrow> (s1, navigatePage r ''waste'' (MFailed e))
              | (s1, Inr _) \<Rightarrow> (s1, navigatePage r ''waste'' MDone)))"

text \<open>\<open>^[0-9]+(\.[0-9]{1,2})?$\<close>\<close>

definition stockChangeQuantityPattern :: "string \<Rightarrow> bool" where
  "stockChangeQuantityPattern q =
    (let whole = takeWhile is_digit q; rest = dropWhile is_digit q
     in whole \<noteq> [] \<and> (rest = [] \<or> (hd rest = CHR ''.'' \<and> length (tl rest) \<in> {1, 2} \<and> list_all is_digit (tl rest))))"

definition scenario_reasons :: "(string \<times> string list) list" where
  "scenario_reasons =
    [(''incoming'', [(fa [0x631, 0x633, 0x6CC, 0x62F, 0x20, 0x62E, 0x631, 0x6CC, 0x62F]), (fa [0x628, 0x631, 0x6AF, 0x634, 0x62A, 0x20, 0x627, 0x632, 0x20, 0x636, 0x627, 0x6CC, 0x639, 0x627, 0x62A]), (fa [0x627, 0x635, 0x644, 0x627, 0x62D, 0x20, 0x634, 0x645, 0x627, 0x631, 0x634])]),
     (''outgoing'', [(fa [0x645, 0x635, 0x631, 0x641, 0x20, 0x631, 0x648, 0x632, 0x627, 0x646, 0x647]), (fa [0x62A, 0x633, 0x648, 0x6CC, 0x647, 0x20, 0x636, 0x627, 0x6CC, 0x639, 0x627, 0x62A]), (fa [0x627, 0x646, 0x62A, 0x642, 0x627, 0x644, 0x20, 0x628, 0x6CC, 0x646, 0x20, 0x627, 0x646, 0x628, 0x627, 0x631, 0x647, 0x627])]),
     (''adjustment'', [(fa [0x627, 0x635, 0x644, 0x627, 0x62D, 0x20, 0x634, 0x645, 0x627, 0x631, 0x634]), (fa [0x62E, 0x637, 0x627, 0x6CC, 0x20, 0x62B, 0x628, 0x62A, 0x20, 0x642, 0x628, 0x644, 0x6CC]), (fa [0x628, 0x631, 0x6AF, 0x634, 0x62A, 0x20, 0x627, 0x632, 0x20, 0x636, 0x627, 0x6CC, 0x639, 0x627, 0x62A])])]"

definition stock_call ::
    "calls \<Rightarrow> http_request \<Rightarrow> string \<Rightarrow> string \<Rightarrow> string \<Rightarrow> string \<Rightarrow> string \<Rightarrow> Store \<Rightarrow> Store \<times> answer" where
  "stock_call c r page ty qty unitCost note s =
    (case RecordStockMovement (cl_io c 0) (cl_rnd c 0) (cl_rnd c 1) (cl_now c 0) (Get r ''ingredient_id'') ty qty unitCost note s of
       (s1, Inl e) \<Rightarrow> (s1, navigatePage r page (MFailed e))
     | (s1, Inr _) \<Rightarrow> (s1, navigatePage r page MDone))"

definition stock_note :: "http_request \<Rightarrow> string" where
  "stock_note r =
    (let reason = trimmed r ''reason''; desc = trimmed r ''description''
     in if Get r ''transaction_type'' = ''waste'' \<and> reason \<noteq> []
        then (if desc \<noteq> [] then reason @ ''::'' @ desc else reason)
        else Get r ''description'')"

definition handleStockMovement :: "calls \<Rightarrow> http_request \<Rightarrow> Store \<Rightarrow> Store \<times> answer" where
  "handleStockMovement c r s =
    (let rp = trimmed r ''return_page''; page = (if rp \<in> {''waste'', ''ingredients''} then rp else ''ingredients'');
         direction = trimmed r ''direction''
     in if direction \<noteq> [] then
          (case map_of scenario_reasons direction of
             None \<Rightarrow> (s, navigatePage r page MScenario)
           | Some reasons \<Rightarrow>
              (let quantity = trimmed r ''quantity''; qty = ParseFloat quantity;
                   reason0 = trimmed r ''reason''; reason = (if reason0 = [] then hd reasons else reason0)
               in if \<not> stockChangeQuantityPattern quantity \<or> \<not> snd qty \<or> f_le (fst qty) f_zero
                  then (s, navigatePage r page MQuantity)
                  else if reason \<notin> set reasons then (s, navigatePage r page MReason)
                  else stock_call c r page (if direction = ''adjustment'' then ''adjustment_target'' else direction)
                         quantity [] reason s))
        else stock_call c r page (Get r ''transaction_type'') (Get r ''quantity'') (Get r ''unit_cost'') (stock_note r) s)"

definition fa_recipe :: string where "fa_recipe = (fa [0x631, 0x633, 0x67E, 0x6CC, 0x20])"

definition recipe_item :: "string \<Rightarrow> string \<Rightarrow> Entity \<Rightarrow> json" where
  "recipe_item iid qty ing =
    marshal [(''ingredient_id'', JStr iid), (''ingredient_name'', JStr (Label ing)), (''quantity'', JStr qty),
      (''unit'', JStr (Field ing ''base_unit''))]"

definition recipe_fields :: "string \<Rightarrow> Entity \<Rightarrow> string \<Rightarrow> json list \<Rightarrow> fields" where
  "recipe_fields prodID pr note items =
    [(''title'', JStr (fa_recipe @ Label pr)), (''product_id'', JStr prodID), (''product_name'', JStr (Label pr)),
     (''yield_qty'', JStr ''1''), (''note'', JStr note), (''items'', JArr items)]"

text \<open>A row of the recipe form; the reads of the ingredients are the calls from \<open>n\<close> on.\<close>

definition recipe_row :: "(nat \<Rightarrow> io) \<Rightarrow> string list \<Rightarrow> Store \<Rightarrow> nat \<times> string \<Rightarrow> json option" where
  "recipe_row ios qtys s = (\<lambda>(n, raw).
    (let iid = TrimSpace raw
     in if iid = [] \<or> n \<ge> length qtys \<or> TrimSpace (qtys ! n) = [] then None
        else (case EntityOf (ios n) ''ingredient'' iid s of
                Inl _ \<Rightarrow> None
              | Inr ing \<Rightarrow> Some (recipe_item iid (TrimSpace (qtys ! n)) ing))))"

definition handleSaveRecipe :: "calls \<Rightarrow> (nat \<Rightarrow> io) \<Rightarrow> http_request \<Rightarrow> Store \<Rightarrow> Store \<times> answer" where
  "handleSaveRecipe c ios r s =
    (let prodID = trimmed r ''product_id''
     in if prodID = [] then (s, navigatePage r ''recipes'' MProductMissing)
        else (case EntityOf (cl_io c 0) ''product'' prodID s of
                Inl _ \<Rightarrow> (s, navigatePage r ''recipes'' MProductMissing)
              | Inr pr \<Rightarrow>
                 (let items = List.map_filter (recipe_row ios (Values r ''quantity'') s) (enumerate 0 (Values r ''ingredient_id''))
                  in if items = [] then (s, navigatePage r ''recipes'' MRecipeEmpty)
                     else save_and_show c 1 r ''recipes'' ''recipe'' (trimmed r ''recipe_id'')
                            (recipe_fields prodID pr (trimmed r ''note'') items) MDone s)))"

section \<open>Saving a record\<close>

definition form_skip :: "string list" where
  "form_skip = [''csrf'', ''kind'', ''id'', ''return_page'', ''variant_title'', ''variant_value'', ''variant_active'',
     ''recipe_ingredient_id'', ''recipe_quantity'', ''variants_present'', ''recipe_present'']"

definition form_field :: "string \<times> string list \<Rightarrow> (string \<times> json) option" where
  "form_field = (\<lambda>(k, vs).
    if k \<in> set form_skip \<or> vs = [] then None
    else (let v = TrimSpace (hd vs)
          in if k \<in> {''is_available'', ''is_active''} \<and> v \<in> {''true'', ''false''} then Some (k, JBool (v = ''true''))
             else if v \<noteq> [] then Some (k, JStr v) else None))"

definition staff_fields :: "http_request \<Rightarrow> fields \<Rightarrow> fields" where
  "staff_fields r fs =
    (let pw = trimmed r ''password'';
         fs1 = (if pw \<noteq> [] then AList.update ''password_hash'' (JStr (hex_text (sha256 pw))) fs else fs)
     in AList.update ''permissions'' (JStr (Join (Values r ''perm'') '','')) (AList.delete ''password'' fs1))"

definition debtor_defaults :: "fields \<Rightarrow> fields" where
  "debtor_defaults fs =
    (case (map_of fs ''remaining'', map_of fs ''total'') of
       (None, Some t) \<Rightarrow>
         set_all [(''remaining'', t), (''paid'', JStr ''0''), (''status'', JStr ''open''), (''currency'', JStr ''IRR'')] fs
     | _ \<Rightarrow> fs)"

definition fa_thousands :: string where "fa_thousands = (fa [0x66C])"

definition variant_value :: "string list \<Rightarrow> nat \<Rightarrow> string" where
  "variant_value vals i =
    (if i < length vals then Replace [(fa_thousands, [])] (Replace [('','', [])] (normalizeNumInput (vals ! i))) else [])"

text \<open>The variants of a product: title, amount and whether it is offered.\<close>

fun variant_rows ::
    "string list \<Rightarrow> string list \<Rightarrow> nat \<Rightarrow> string list \<Rightarrow> notice + (string \<times> float64 \<times> bool) list" where
  "variant_rows vals on i [] = Inr []"
| "variant_rows vals on i (raw # titles) =
    (let title = TrimSpace raw; v = variant_value vals i; amt = ParseFloat v
     in if title = [] \<and> v = [] then variant_rows vals on (Suc i) titles
        else if title = [] \<or> v = [] then Inl MVariantPair
        else if \<not> snd amt \<or> f_le (fst amt) f_zero then Inl MVariantAmount
        else (case variant_rows vals on (Suc i) titles of
                Inl m \<Rightarrow> Inl m
              | Inr rest \<Rightarrow> Inr ((title, fst amt, Itoa (int i) \<in> set on) # rest)))"

definition form_variants :: "http_request \<Rightarrow> notice + (string \<times> float64 \<times> bool) list" where
  "form_variants r =
    variant_rows (Values r ''variant_value'') (map TrimSpace (Values r ''variant_active'')) 0 (Values r ''variant_title'')"

text \<open>\<open>None\<close> for an amount that has no JSON form (an infinite one).\<close>

definition variants_json :: "(string \<times> float64 \<times> bool) list \<Rightarrow> json option" where
  "variants_json vs =
    map_option JArr (those (map (\<lambda>(t, x, b).
      map_option (\<lambda>n. marshal [(''title'', JStr t), (''value'', JNum n), (''is_active'', JBool b)]) (json_float x)) vs))"

definition product_recipe_row :: "(nat \<Rightarrow> io) \<Rightarrow> string list \<Rightarrow> Store \<Rightarrow> nat \<times> string \<Rightarrow> json option" where
  "product_recipe_row ios qtys s = (\<lambda>(n, raw).
    (let iid = TrimSpace raw
     in if iid = [] \<or> n \<ge> length qtys then None
        else (let q = ParseFloat (Replace [('','', [])] (normalizeNumInput (qtys ! n)))
              in if \<not> snd q \<or> f_le (fst q) f_zero then None
                 else (case EntityOf (ios n) ''ingredient'' iid s of
                         Inl _ \<Rightarrow> None
                       | Inr ing \<Rightarrow> Some (recipe_item iid (TrimSpace (qtys ! n)) ing)))))"

text \<open>
  The product's recipe after a save: the first recipe of that product among the listed ones is
  replaced, or a new one is made; a failing save is not reported.
\<close>

definition attach_recipe :: "calls \<Rightarrow> string \<Rightarrow> json list \<Rightarrow> Store \<Rightarrow> Store" where
  "attach_recipe c savedID items s =
    (case EntityOf (cl_io c 1) ''product'' savedID s of
       Inl _ \<Rightarrow> s
     | Inr pr \<Rightarrow>
        (let old = List.find (\<lambda>rec. Field rec ''product_id'' = savedID) (list_or_empty (cl_io c 2) ''recipe'' s);
             recipeID = (case old of None \<Rightarrow> [] | Some rec \<Rightarrow> en_ID rec);
             note = (case old of None \<Rightarrow> [] | Some rec \<Rightarrow> Field rec ''note'')
         in fst (save_call c 3 ''recipe'' recipeID (recipe_fields savedID pr note items) s)))"

definition save_product ::
    "calls \<Rightarrow> http_request \<Rightarrow> string \<Rightarrow> string \<Rightarrow> string \<Rightarrow> fields \<Rightarrow> json list \<Rightarrow> Store \<Rightarrow> Store \<times> answer" where
  "save_product c r page kind i fs items s =
    (case save_call c 0 kind i fs s of
       (s1, Inl e) \<Rightarrow> (s1, navigatePage r page (MFailed e))
     | (s1, Inr savedID) \<Rightarrow>
         (if items \<noteq> [] then attach_recipe c savedID items s1 else s1, navigatePage r page MDone))"

text \<open>The error of a save whose fields have no JSON form: nothing is written.\<close>

definition marshal_error :: "string \<Rightarrow> fields \<Rightarrow> err" where
  "marshal_error kind fs = (case validateLocalFields kind fs of Some e \<Rightarrow> e | None \<Rightarrow> EData ErrJSON)"

definition base_fields :: "http_request \<Rightarrow> string \<Rightarrow> string option \<Rightarrow> fields" where
  "base_fields r kind img =
    (let fs0 = List.map_filter form_field (hr_Form r);
         fs1 = (case img of None \<Rightarrow> fs0 | Some path \<Rightarrow> AList.update ''image'' (JStr path) fs0);
         fs2 = (if kind = ''staff'' then staff_fields r fs1 else fs1)
     in if kind = ''debtor'' then debtor_defaults fs2 else fs2)"

text \<open>\<open>upload\<close>: no file, the error of storing it, or its path.\<close>

definition handleLocalSave ::
    "calls \<Rightarrow> (nat \<Rightarrow> io) \<Rightarrow> (string + string) option \<Rightarrow> http_request \<Rightarrow> Store \<Rightarrow> Store \<times> answer" where
  "handleLocalSave c ios upload r s =
    (let kind = trimmed r ''kind''; i = trimmed r ''id''; page = page_or r (kindToPage kind);
         img = (if kind \<in> {''product'', ''ingredient''} then upload else None)
     in case img of
          Some (Inl er) \<Rightarrow> (s, navigatePage r page (MImage er))
        | _ \<Rightarrow>
           (let fs = base_fields r kind (case img of Some (Inr p) \<Rightarrow> Some p | _ \<Rightarrow> None);
                with_variants = (kind = ''product'' \<and> Get r ''variants_present'' = ''1'');
                items = (if kind = ''product'' \<and> Get r ''recipe_present'' = ''1''
                         then List.map_filter (product_recipe_row ios (Values r ''recipe_quantity'') s)
                                (enumerate 0 (Values r ''recipe_ingredient_id''))
                         else []);
                stock = (if items \<noteq> [] then AList.update ''stock'' (JStr []) else id)
            in case (if with_variants then form_variants r else Inr []) of
                 Inl m \<Rightarrow> (s, navigatePage r page m)
               | Inr vs \<Rightarrow>
                  (if \<not> with_variants then save_product c r page kind i (stock fs) items s
                   else (case variants_json vs of
                           None \<Rightarrow> (s, navigatePage r page (MFailed (marshal_error kind (stock fs))))
                         | Some j \<Rightarrow> save_product c r page kind i (stock (AList.update ''variants'' j fs)) items s))))"

section \<open>The sample\<close>

definition handleSeedDemo :: "calls \<Rightarrow> http_request \<Rightarrow> Store \<Rightarrow> Store \<times> answer" where
  "handleSeedDemo c r s =
    (case SeedIranianCafeData (cl_io c 0) (cl_now c 0) s of
       (s', Inl e) \<Rightarrow> (s', navigatePage r ''home'' (MFailed e))
     | (s', Inr _) \<Rightarrow> (s', navigatePage r ''home'' MDone))"

end
