(* ===== verification/Club_Handlers.thy ===== *)
theory Club_Handlers
  imports Requests
begin

text \<open>
  The handlers of \<open>app.go\<close> for the customer club: customers, their credit, membership
  payments and groups.
\<close>

section \<open>Customers\<close>

definition club_fields :: "http_request \<Rightarrow> fields" where
  "club_fields r =
    [(''full_name'', JStr (trimmed r ''full_name'')), (''subscription_code'', JStr (trimmed r ''subscription_code'')),
     (''group_id'', JStr (trimmed r ''group_id'')), (''credit_enabled'', JStr (boolStr (Get r ''credit_enabled'' = ''on'')))]"

definition new_member_fields :: "http_request \<Rightarrow> string \<Rightarrow> fields" where
  "new_member_fields r mobile =
    (let on = (Get r ''enable_club'' = ''on''); pts = trimmed r ''initial_points''
     in [(''phone'', JStr mobile), (''club_member'', JStr (boolStr on))]
        @ (if pts \<noteq> [] \<and> on then [(''loyalty_points'', JStr (normalizeDigits pts))] else []))"

definition phone_taken :: "io \<Rightarrow> string \<Rightarrow> Store \<Rightarrow> bool" where
  "phone_taken w mobile s \<longleftrightarrow> list_ex (\<lambda>e. TrimSpace (Field e ''phone'') = mobile) (list_or_empty w ''customer'' s)"

definition handleClubCustomer :: "calls \<Rightarrow> http_request \<Rightarrow> Store \<Rightarrow> Store \<times> answer" where
  "handleClubCustomer c r s =
    (let i = trimmed r ''customer_id''; mobile = normalizeDigits (trimmed r ''phone'');
         stop = (\<lambda>m. (s, navigatePage r ''customers'' m));
         save = (\<lambda>fs. save_and_show c 1 r ''customers'' ''customer'' i fs MDone s)
     in if length (runes (trimmed r ''full_name'')) < 2 then stop MNameShort
        else if i = [] then
          (if \<not> mobile_ok mobile then stop MMobile
           else if phone_taken (cl_io c 0) mobile s then stop MMobileTaken
           else save (club_fields r @ new_member_fields r mobile))
        else (case EntityOf (cl_io c 0) ''customer'' i s of
                Inl _ \<Rightarrow> stop MCustomerMissing
              | Inr _ \<Rightarrow> save (club_fields r)))"

text \<open>A switch of a record: the page, the kind, the field of the form with the identifier, and the new value.\<close>

definition toggle_record ::
    "calls \<Rightarrow> http_request \<Rightarrow> string \<Rightarrow> string \<Rightarrow> string \<Rightarrow> string \<Rightarrow> (string \<Rightarrow> string) \<Rightarrow> notice \<Rightarrow> Store \<Rightarrow> Store \<times> answer" where
  "toggle_record c r page kind idKey field flip missing s =
    (let i = trimmed r idKey
     in case EntityOf (cl_io c 0) kind i s of
          Inl _ \<Rightarrow> (s, navigatePage r page missing)
        | Inr e \<Rightarrow> save_and_show c 1 r page kind i [(field, JStr (flip (Field e field)))] MDone s)"

definition turn_on :: "string \<Rightarrow> string" where
  "turn_on v = (if v = ''true'' then ''false'' else ''true'')"

definition turn_off :: "string \<Rightarrow> string" where
  "turn_off v = (if v = ''false'' then ''true'' else ''false'')"

definition handleClubCreditToggle :: "calls \<Rightarrow> http_request \<Rightarrow> Store \<Rightarrow> Store \<times> answer" where
  "handleClubCreditToggle c r s =
    toggle_record c r ''customers'' ''customer'' ''customer_id'' ''credit_enabled'' turn_on MCustomerMissing s"

section \<open>Membership payments\<close>

definition fa_plan_title :: string where "fa_plan_title = (fa [0x67E, 0x644, 0x646, 0x20, 0x639, 0x636, 0x648, 0x6CC, 0x62A])"

text \<open>The tab that the page opens on.\<close>

definition payments_tab :: "http_request \<Rightarrow> answer" where
  "payments_tab r =
    (if hr_HX r then Rendered [(''tab'', ''membership''), (''sub'', ''payments''), (''page'', ''customers'')] MDone
     else SeeOther ''/?page=customers'')"

definition handleClubPayment :: "calls \<Rightarrow> http_request \<Rightarrow> Store \<Rightarrow> Store \<times> answer" where
  "handleClubPayment c r s =
    (let customerID = trimmed r ''customer_id''; plan0 = trimmed r ''plan_title''; pay0 = trimmed r ''payment_method''
     in case EntityOf (cl_io c 0) ''customer'' customerID s of
          Inl _ \<Rightarrow> (s, navigatePage r ''customers'' MCustomerMissing)
        | Inr e \<Rightarrow>
           (case tomanFormToIRR (Get r ''amount_toman'') of
              None \<Rightarrow> (s, navigatePage r ''customers'' MAmount)
            | Some irr \<Rightarrow>
               (case save_call c 1 ''membership_payment'' []
                       [(''customer_id'', JStr customerID), (''consumer_name'', JStr (Label e)),
                        (''consumer_phone'', JStr (TrimSpace (Field e ''phone''))),
                        (''plan_title'', JStr (if plan0 = [] then fa_plan_title else plan0)), (''amount_irr'', JStr irr),
                        (''payment_method'', JStr (if pay0 = [] then ''card'' else pay0)), (''status'', JStr ''pending'')] s of
                  (s1, Inl er) \<Rightarrow> (s1, navigatePage r ''customers'' (MFailed er))
                | (s1, Inr _) \<Rightarrow> (s1, payments_tab r))))"

definition handleClubPaymentConfirm :: "calls \<Rightarrow> http_request \<Rightarrow> Store \<Rightarrow> Store \<times> answer" where
  "handleClubPaymentConfirm c r s =
    (let paymentID = trimmed r ''payment_id''; reference = trimmed r ''reference_number'';
         stop = (\<lambda>m. (s, navigatePage r ''customers'' m))
     in if reference = [] then stop MReference
        else (case EntityOf (cl_io c 0) ''membership_payment'' paymentID s of
                Inl _ \<Rightarrow> stop MPaymentMissing
              | Inr p \<Rightarrow>
                 if \<not> EqualFold (Field p ''status'') ''pending'' then stop MSettled
                 else (case save_call c 1 ''membership_payment'' paymentID
                              [(''status'', JStr ''paid''), (''reference_number'', JStr reference), (''paid_at'', JStr (cl_now c 0))] s of
                         (s1, Inl er) \<Rightarrow> (s1, navigatePage r ''customers'' (MFailed er))
                       | (s1, Inr _) \<Rightarrow>
                          (let cid = TrimSpace (Field p ''customer_id'')
                           in (if cid \<noteq> [] then fst (save_call c 2 ''customer'' cid [(''club_member'', JStr ''true'')] s1) else s1,
                               payments_tab r)))))"

section \<open>Groups\<close>

definition group_keys :: "string list" where
  "group_keys = [''name'', ''description'', ''contact_name'', ''contact_phone'', ''contract_number'', ''contract_type'',
     ''headcount'', ''meals_per_day'', ''billing_cycle'', ''billing_day'', ''service_address'', ''discount_type'',
     ''discount_value'', ''max_discount_amount'', ''valid_from'', ''valid_until'', ''notes'']"

definition group_fields :: "http_request \<Rightarrow> bool \<Rightarrow> fields" where
  "group_fields r isNew =
    map (\<lambda>k. (k, JStr (trimmed r k))) group_keys
      @ [(''credit_enabled'', JStr (boolStr (Get r ''credit_enabled'' = ''on'')))]
      @ (if isNew then [(''is_active'', JStr ''true'')] else [])"

definition billing_day_ok :: "http_request \<Rightarrow> bool" where
  "billing_day_ok r =
    (let day = trimmed r ''billing_day''
     in day = [] \<or> (case Atoi (normalizeDigits day) of (n, ok) \<Rightarrow> ok \<and> 1 \<le> n \<and> n \<le> 31))"

text \<open>The page of one group.\<close>

definition group_page :: "http_request \<Rightarrow> string \<Rightarrow> notice \<Rightarrow> answer" where
  "group_page r i msg =
    (if hr_HX r then Rendered [(''id'', i), (''page'', ''club-group'')] msg else SeeOther (''/?page=club-group&id='' @ i))"

definition handleClubGroup :: "calls \<Rightarrow> http_request \<Rightarrow> Store \<Rightarrow> Store \<times> answer" where
  "handleClubGroup c r s =
    (let i = trimmed r ''group_id''
     in if length (runes (trimmed r ''name'')) < 2 then (s, navigatePage r ''club-group-form'' MNameShort)
        else if \<not> billing_day_ok r then (s, navigatePage r ''club-group-form'' MBillingDay)
        else (case save_call c 0 ''customer_group'' i (group_fields r (i = [])) s of
                (s1, Inl e) \<Rightarrow> (s1, navigatePage r ''club-group-form'' (MFailed e))
              | (s1, Inr savedID) \<Rightarrow> (s1, group_page r savedID MDone)))"

definition handleClubGroupToggle :: "calls \<Rightarrow> http_request \<Rightarrow> Store \<Rightarrow> Store \<times> answer" where
  "handleClubGroupToggle c r s =
    toggle_record c r ''club-groups'' ''customer_group'' ''group_id'' ''is_active'' turn_off MGroupMissing s"

definition handleClubGroupCredit :: "calls \<Rightarrow> http_request \<Rightarrow> Store \<Rightarrow> Store \<times> answer" where
  "handleClubGroupCredit c r s =
    toggle_record c r ''club-groups'' ''customer_group'' ''group_id'' ''credit_enabled'' turn_on MGroupMissing s"

text \<open>The members leave the group first; a member whose save fails stays in it.\<close>

fun detach_members :: "calls \<Rightarrow> nat \<Rightarrow> Entity list \<Rightarrow> Store \<Rightarrow> Store" where
  "detach_members c n [] s = s"
| "detach_members c n (e # es) s =
    detach_members c (Suc n) es (fst (save_call c n ''customer'' (en_ID e) [(''group_id'', JStr [])] s))"

definition handleClubGroupDelete :: "calls \<Rightarrow> http_request \<Rightarrow> Store \<Rightarrow> Store \<times> answer" where
  "handleClubGroupDelete c r s =
    (let i = trimmed r ''group_id'';
         members = filter (\<lambda>e. TrimSpace (Field e ''group_id'') = i) (list_or_empty (cl_io c 0) ''customer'' s);
         s1 = detach_members c 2 members s
     in case delete_call c 1 ''customer_group'' i s1 of
          (s2, Inl e) \<Rightarrow> (s2, navigatePage r ''club-groups'' (MFailed e))
        | (s2, Inr _) \<Rightarrow> (s2, navigatePage r ''club-groups'' MDone))"

definition handleClubGroupMember :: "calls \<Rightarrow> http_request \<Rightarrow> Store \<Rightarrow> Store \<times> answer" where
  "handleClubGroupMember c r s =
    (let groupID = trimmed r ''group_id''; mobile = normalizeDigits (trimmed r ''mobile'');
         save = (\<lambda>i fs. case save_call c 1 ''customer'' i fs s of
             (s1, Inl e) \<Rightarrow> (s1, group_page r groupID (MFailed e))
           | (s1, Inr _) \<Rightarrow> (s1, group_page r groupID MDone))
     in if \<not> mobile_ok mobile then (s, group_page r groupID MMobile)
        else (case List.find (\<lambda>e. TrimSpace (Field e ''phone'') = mobile) (list_or_empty (cl_io c 0) ''customer'' s) of
                Some e \<Rightarrow> save (en_ID e) [(''group_id'', JStr groupID)]
              | None \<Rightarrow>
                  save [] [(''full_name'', JStr (trimmed r ''full_name'')), (''phone'', JStr mobile), (''group_id'', JStr groupID),
                    (''club_member'', JStr ''true'')]))"

definition handleClubGroupMemberRemove :: "calls \<Rightarrow> http_request \<Rightarrow> Store \<Rightarrow> Store \<times> answer" where
  "handleClubGroupMemberRemove c r s =
    (case save_call c 0 ''customer'' (trimmed r ''customer_id'') [(''group_id'', JStr [])] s of
       (s1, Inl e) \<Rightarrow> (s1, navigatePage r ''club-group'' (MFailed e))
     | (s1, Inr _) \<Rightarrow>
         (s1, if hr_HX r then Rendered [(''id'', trimmed r ''group_id''), (''page'', ''club-group'')] MDone
              else SeeOther ''/?page=club-group''))"

end
