(* ===== verification/Print_Handlers.thy ===== *)
theory Print_Handlers
  imports Requests
begin

text \<open>
  The handlers of \<open>app.go\<close> for printers: the switch, the policy of automatic prints, the routes
  of categories, and the prints a person asks for.
\<close>

section \<open>Settings\<close>

definition handlePrinterToggle :: "calls \<Rightarrow> http_request \<Rightarrow> Store \<Rightarrow> Store \<times> answer" where
  "handlePrinterToggle c r s =
    save_and_show c 0 r ''settings'' ''cafe_profile'' ''cafe-main-profile''
      [(''printer_enabled'', JStr (boolStr (Get r ''enabled'' \<in> {''on'', ''true''})))] MDone s"

definition policy_groups :: "string list" where
  "policy_groups = [''create'', ''notable'', ''checkout'', ''complete'']"

definition form_copies :: "string \<Rightarrow> int" where
  "form_copies text =
    (case Atoi (normalizeDigits (TrimSpace text)) of (n, ok) \<Rightarrow> if ok \<and> n \<ge> 1 \<and> n \<le> 5 then n else 1)"

definition policy_doc :: "string \<Rightarrow> string \<Rightarrow> string" where
  "policy_doc g doc =
    (if doc \<in> {''kitchen'', ''cashier'', ''all''} then doc
     else if g \<in> {''checkout'', ''complete''} then ''cashier'' else ''kitchen'')"

definition policy_key :: "string \<Rightarrow> string \<Rightarrow> string" where
  "policy_key g k = ''pw_'' @ g @ ''_'' @ k"

text \<open>The fields of one group of the form; \<open>None\<close> for a mode that does not exist.\<close>

definition policy_fields :: "http_request \<Rightarrow> string \<Rightarrow> fields option" where
  "policy_fields r g =
    (let md = trimmed r (policy_key g ''mode'')
     in if md = [] then Some []
        else if md \<notin> {''none'', ''kitchen'', ''customer'', ''both'', ''custom''} then None
        else Some ([(policy_key g ''mode'', JStr md), (policy_key g ''doc'', JStr (policy_doc g (trimmed r (policy_key g ''doc'')))),
                (policy_key g ''copies'', JStr (Itoa (form_copies (Get r (policy_key g ''copies'')))))]
               @ (if g = ''checkout''
                  then [(''pw_checkout_merchant'', JStr (boolStr (Get r ''pw_checkout_merchant'' = ''on'')))] else [])))"

definition handlePrintPolicy :: "calls \<Rightarrow> http_request \<Rightarrow> Store \<Rightarrow> Store \<times> answer" where
  "handlePrintPolicy c r s =
    (case those (map (policy_fields r) policy_groups) of
       None \<Rightarrow> (s, navigatePage r ''settings'' MPolicyMode)
     | Some fss \<Rightarrow>
        if concat fss = [] then (s, navigatePage r ''settings'' MNothing)
        else save_and_show c 0 r ''settings'' ''cafe_profile'' ''cafe-main-profile'' (concat fss) MDone s)"

text \<open>The route of a category: the last listed one, and whether it is switched on.\<close>

definition existing_route :: "string \<Rightarrow> Entity list \<Rightarrow> string \<times> string" where
  "existing_route catID routes =
    fold (\<lambda>rt (i, on). if TrimSpace (Field rt ''category_id'') = catID
            then (en_ID rt, let v = TrimSpace (Field rt ''is_active'') in if v \<noteq> [] then v else on)
            else (i, on)) routes ([], ''true'')"

definition handlePrinterRouteSave :: "calls \<Rightarrow> http_request \<Rightarrow> Store \<Rightarrow> Store \<times> answer" where
  "handlePrinterRouteSave c r s =
    (let catID = trimmed r ''category_id''; printerID = trimmed r ''printer_id'';
         stop = (\<lambda>s m. (s, navigatePage r ''settings'' m))
     in case EntityOf (cl_io c 0) ''category'' catID s of
          Inl _ \<Rightarrow> stop s MCategoryMissing
        | Inr cat \<Rightarrow>
           (case existing_route catID (list_or_empty (cl_io c 1) ''printer_route'' s) of
              (existingID, on) \<Rightarrow>
                if printerID = [] then
                  (if existingID \<noteq> []
                   then (case delete_call c 2 ''printer_route'' existingID s of
                           (s1, Inl e) \<Rightarrow> stop s1 (MFailed e) | (s1, Inr _) \<Rightarrow> stop s1 MDone)
                   else stop s MDone)
                else (case EntityOf (cl_io c 3) ''printer'' printerID s of
                        Inl _ \<Rightarrow> stop s MPrinterMissing
                      | Inr printer \<Rightarrow>
                         save_and_show c 4 r ''settings'' ''printer_route'' existingID
                           [(''title'', JStr (Label cat)), (''category_id'', JStr catID), (''category_name'', JStr (Label cat)),
                            (''printer_id'', JStr printerID), (''printer_name'', JStr (Label printer)),
                            (''receipt_type'', JStr ''kitchen''), (''copies'', JStr (Itoa (form_copies (Get r ''copies'')))),
                            (''is_active'', JStr on)] MDone s)))"

definition handlePrinterRouteToggle :: "calls \<Rightarrow> http_request \<Rightarrow> Store \<Rightarrow> Store \<times> answer" where
  "handlePrinterRouteToggle c r s =
    (let catID = trimmed r ''category_id''
     in case List.find (\<lambda>rt. TrimSpace (Field rt ''category_id'') = catID) (list_or_empty (cl_io c 0) ''printer_route'' s) of
          None \<Rightarrow> (s, navigatePage r ''settings'' MNoRoute)
        | Some rt \<Rightarrow>
            save_and_show c 1 r ''settings'' ''printer_route'' (en_ID rt)
              [(''is_active'', JStr (boolStr (Field rt ''is_active'' \<in> {''false'', ''0''})))] MDone s)"

section \<open>Prints on request\<close>

text \<open>
  One document of an order: a printed job becomes pending again and is printed once more. The
  counts are of printed and failed jobs, and whether there was a job at all.
\<close>

fun print_document ::
    "calls \<Rightarrow> (nat \<Rightarrow> dispatch_env) \<Rightarrow> string \<Rightarrow> nat \<Rightarrow> PrintJobView list \<Rightarrow> int \<times> int \<times> bool \<Rightarrow> Store
      \<Rightarrow> Store \<times> (int \<times> int \<times> bool) \<times> delivery list" where
  "print_document c envs doc n [] acc s = (s, acc, [])"
| "print_document c envs doc n (j # js) acc s =
    (if pv_DocType j \<noteq> doc then print_document c envs doc (Suc n) js acc s
     else
       (let (printed, failed, _) = acc;
            again = (pv_Status j = PrintStatusPrinted);
            s1 = (if again then fst (UpdatePrintJobStatus (cl_io c n) (cl_now c n) (pv_ID j) PrintStatusPending [] s) else s);
            j1 = (if again then j\<lparr>pv_Status := PrintStatusPending\<rparr> else j)
        in if pv_Status j1 = PrintStatusFailed \<and> pv_PrinterID j1 = []
           then print_document c envs doc (Suc n) js (printed, failed + 1, True) s1
           else (case dispatchPrintJob (envs n) j1 s1 of
                   (s2, done, out) \<Rightarrow>
                     (case print_document c envs doc (Suc n) js
                             (if pv_Status done = PrintStatusPrinted then (printed + 1, failed, True) else (printed, failed + 1, True)) s2 of
                        (s3, acc', out') \<Rightarrow> (s3, acc', out @ out')))))"

definition document_notice :: "int \<times> int \<times> bool \<Rightarrow> notice" where
  "document_notice acc =
    (case acc of (printed, failed, found) \<Rightarrow>
       if \<not> found then MNoTarget
       else if printed = 0 \<and> failed > 0 then MNotPrinted []
       else if failed > 0 then MPartlyPrinted else MDone)"

definition handlePrintOrder ::
    "calls \<Rightarrow> print_app \<Rightarrow> (nat \<Rightarrow> dispatch_env) \<Rightarrow> (err \<Rightarrow> string) \<Rightarrow> http_request \<Rightarrow> Store \<Rightarrow> Store \<times> answer \<times> delivery list" where
  "handlePrintOrder c app envs errtext r s =
    (let ajax = (Get r ''ajax'' = ''1''); orderID = trimmed r ''order_id''; doc = trimmed r ''doc''
     in if \<not> printerEnabled (pa_read app 0) (pa_read app 1) s
        then (s, if ajax then Answer False MPrinterOff else navigatePage r ''orders'' MPrinterOff, [])
        else if orderID = [] then (s, navigatePage r ''receipts'' MOrderMissing, [])
        else if doc \<in> {''customer'', ''kitchen''} then
          (case EnqueueOrderPrintJobs (pa_queue app) orderID s of
             (s1, _, Some e) \<Rightarrow> (s1, navigatePage r ''orders'' (MFailed e), [])
           | (s1, jobs, None) \<Rightarrow>
              (case print_document c envs doc 0 jobs (0, 0, False) s1 of
                 (s2, (printed, failed, found), out) \<Rightarrow>
                   (s2, if ajax then Answer (found \<and> printed > 0) (document_notice (printed, failed, found))
                        else navigatePage r ''orders'' (document_notice (printed, failed, found)), out)))
        else (case enqueueAndDispatchPrintJobs app errtext orderID s of
                (s1, _, summary, out) \<Rightarrow> (s1, Rendered [(''page'', ''receipt''), (''id'', orderID)] (MSummary summary), out)))"

definition handlePrintRetry ::
    "calls \<Rightarrow> print_app \<Rightarrow> dispatch_env \<Rightarrow> http_request \<Rightarrow> Store \<Rightarrow> Store \<times> answer \<times> delivery list" where
  "handlePrintRetry c app env r s =
    (if \<not> printerEnabled (pa_read app 0) (pa_read app 1) s then (s, navigatePage r ''receipts'' MPrinterOff, [])
     else (case PrintJob (cl_io c 0) (trimmed r ''job_id'') s of
             Inl e \<Rightarrow> (s, navigatePage r ''receipts'' (MFailed e), [])
           | Inr job \<Rightarrow>
              if pv_Status job = PrintStatusPrinted then (s, navigatePage r ''receipts'' MAlreadyPrinted, [])
              else (case dispatchPrintJob env job s of
                      (s1, done, out) \<Rightarrow>
                        (s1, navigatePage r ''receipts'' (if pv_Status done = PrintStatusPrinted then MPrinted done
                               else MNotPrinted (pv_LastError done)), out))))"

definition handlePrintTest ::
    "print_app \<Rightarrow> dispatch_env \<Rightarrow> http_request \<Rightarrow> Store \<Rightarrow> Store \<times> answer \<times> delivery list" where
  "handlePrintTest app env r s =
    (let page = page_or r ''settings''
     in if \<not> printerEnabled (pa_read app 0) (pa_read app 1) s then (s, navigatePage r page MPrinterOff, [])
        else (case EnqueueTestPrintJob (pa_queue app) (trimmed r ''printer_id'') s of
                (s1, Inl e) \<Rightarrow> (s1, navigatePage r page (MFailed e), [])
              | (s1, Inr job) \<Rightarrow>
                 (case dispatchPrintJob env job s1 of
                    (s2, done, out) \<Rightarrow>
                      (s2, navigatePage r page (if pv_Status done = PrintStatusPrinted then MPrinted done
                             else MNotPrinted (pv_LastError done)), out))))"

end
