(* ===== verification/Csv.thy ===== *)
theory Csv
  imports Go_Strings
begin

text \<open>
  What the program uses of \<open>encoding/csv\<close>: the writer with its defaults, and the reader with
  any number of fields per record. The reader works on lines, and takes a carriage return
  before the end of a line for part of that end.
\<close>

section \<open>Writing\<close>

abbreviation lf :: char where "lf \<equiv> CHR 0x0A"
abbreviation cr :: char where "cr \<equiv> CHR 0x0D"
abbreviation quo_char :: char where "quo_char \<equiv> CHR 0x22"
abbreviation comma :: char where "comma \<equiv> CHR 0x2C"

definition fieldNeedsQuotes :: "string \<Rightarrow> bool" where
  "fieldNeedsQuotes f \<longleftrightarrow>
    f \<noteq> [] \<and> (f = [CHR 0x5C, CHR ''.''] \<or> list_ex (\<lambda>c. c = lf \<or> c = cr \<or> c = quo_char \<or> c = comma) f \<or> lead_space f > 0)"

definition escape_byte :: "char \<Rightarrow> string" where
  "escape_byte c = (if c = quo_char then [quo_char, quo_char] else [c])"

definition write_field :: "string \<Rightarrow> string" where
  "write_field f = (if fieldNeedsQuotes f then quo_char # concat (map escape_byte f) @ [quo_char] else f)"

fun write_record :: "string list \<Rightarrow> string" where
  "write_record [] = [lf]"
| "write_record [f] = write_field f @ [lf]"
| "write_record (f # fs) = write_field f @ comma # write_record fs"

definition write_all :: "string list list \<Rightarrow> string" where
  "write_all rows = concat (map write_record rows)"

section \<open>Reading\<close>

datatype csv_err = ErrBareQuote | ErrQuote

definition drop_cr :: "string \<Rightarrow> string" where
  "drop_cr l = (if l \<noteq> [] \<and> last l = cr then butlast l else l)"

text \<open>The next line with its end, and what follows it; \<open>None\<close> at the end of the file.\<close>

definition read_line :: "string \<Rightarrow> (string \<times> string) option" where
  "read_line s =
    (if s = [] then None
     else (let l = takeWhile (\<lambda>c. c \<noteq> lf) s; r = dropWhile (\<lambda>c. c \<noteq> lf) s
           in Some (case r of [] \<Rightarrow> (drop_cr l, []) | _ # t \<Rightarrow> (drop_cr l @ [lf], t))))"

definition end_of_line :: "string \<Rightarrow> bool" where
  "end_of_line l \<longleftrightarrow> l = [] \<or> l = [lf]"

text \<open>A line without its end.\<close>

definition chomp :: "string \<Rightarrow> string" where
  "chomp l = (if l \<noteq> [] \<and> last l = lf then butlast l else l)"

lemma read_line_shorter: "read_line s = Some (l, r) \<Longrightarrow> length r < length s"
  using dropWhile_eq_drop [of "\<lambda>c. c \<noteq> lf" s]
  by (auto simp: read_line_def Let_def split: if_splits list.splits) (metis Suc_le_lessD diff_le_self length_Cons length_drop)

text \<open>
  The fields of a record from a place in its line on: \<open>read_fields\<close> where a field starts,
  \<open>read_quoted\<close> inside of a quoted one, which may run on into the next lines.
\<close>

function read_fields :: "string \<Rightarrow> string \<Rightarrow> csv_err + string list \<times> string"
  and read_quoted :: "string \<Rightarrow> string \<Rightarrow> string \<Rightarrow> csv_err + string list \<times> string" where
  "read_fields rest line =
    (if line \<noteq> [] \<and> hd line = quo_char then read_quoted rest (tl line) []
     else (let f = takeWhile (\<lambda>c. c \<noteq> comma) line; after = dropWhile (\<lambda>c. c \<noteq> comma) line
           in if after = []
              then (if quo_char \<in> set (chomp f) then Inl ErrBareQuote else Inr ([chomp f], rest))
              else if quo_char \<in> set f then Inl ErrBareQuote
              else (case read_fields rest (tl after) of Inl e \<Rightarrow> Inl e | Inr (fs, rest') \<Rightarrow> Inr (f # fs, rest'))))"
| "read_quoted rest [] buf =
    (case read_line rest of None \<Rightarrow> Inl ErrQuote | Some (l, r) \<Rightarrow> read_quoted r l buf)"
| "read_quoted rest (c # line) buf =
    (if c \<noteq> quo_char then read_quoted rest line (buf @ [c])
     else if end_of_line line then Inr ([buf], rest)
     else if hd line = quo_char then read_quoted rest (tl line) (buf @ [quo_char])
     else if hd line = comma
     then (case read_fields rest (tl line) of Inl e \<Rightarrow> Inl e | Inr (fs, rest') \<Rightarrow> Inr (buf # fs, rest'))
     else Inl ErrQuote)"
  by pat_completeness auto

termination
proof (relation "measures [\<lambda>x. case x of Inl (r, l) \<Rightarrow> length r | Inr (r, l, b) \<Rightarrow> length r,
    \<lambda>x. case x of Inl (r, l) \<Rightarrow> length l | Inr (r, l, b) \<Rightarrow> length l]", goal_cases)
  case (3 rest line f after)
  have "length (dropWhile (\<lambda>c. c \<noteq> comma) line) \<le> length line" by (rule length_dropWhile_le)
  then show ?case using 3 by (cases "dropWhile (\<lambda>c. c \<noteq> comma) line") auto
qed (auto simp: end_of_line_def neq_Nil_conv dest: read_line_shorter)

declare read_fields.simps [simp del] read_quoted.simps(1) [simp del]

lemma read_fields_rest:
  "read_fields rest line = Inr (fs, rest') \<Longrightarrow> length rest' \<le> length rest"
  "read_quoted rest line buf = Inr (fs, rest') \<Longrightarrow> length rest' \<le> length rest"
proof (induction rest line and rest line buf arbitrary: fs rest' and fs rest' rule: read_fields_read_quoted.induct)
  case (1 rest line)
  show ?case using "1.prems" "1.IH" by (subst (asm) read_fields.simps) (auto simp: Let_def split: if_splits sum.splits)
next
  case (2 rest buf)
  obtain l r where l: "read_line rest = Some (l, r)" "read_quoted r l buf = Inr (fs, rest')"
    using "2.prems" by (auto simp: read_quoted.simps(1) split: option.splits)
  then show ?case using "2.IH" [OF l(1) refl l(2)] read_line_shorter [OF l(1)] by simp
next
  case (3 rest c line buf)
  show ?case using "3.prems" "3.IH" by (auto split: if_splits sum.splits)
qed

text \<open>\<open>ReadAll\<close>: empty lines are skipped, the first error ends it.\<close>

function ReadAll :: "string \<Rightarrow> csv_err + string list list" where
  "ReadAll s =
    (case read_line s of
       None \<Rightarrow> Inr []
     | Some (l, r) \<Rightarrow>
         if end_of_line l then ReadAll r
         else (case read_fields r l of
                 Inl e \<Rightarrow> Inl e
               | Inr (fs, r') \<Rightarrow> (case ReadAll r' of Inl e \<Rightarrow> Inl e | Inr rows \<Rightarrow> Inr (fs # rows))))"
  by pat_completeness auto

termination
  by (relation "measure length") (use read_line_shorter read_fields_rest in fastforce)+

declare ReadAll.simps [simp del]

section \<open>What is written reads back\<close>

text \<open>The first line of a text without carriage returns, and the rest.\<close>

fun ahead :: "string \<Rightarrow> string \<times> string" where
  "ahead [] = ([], [])"
| "ahead (c # s) = (if c = lf then ([lf], s) else (c # fst (ahead s), snd (ahead s)))"

lemma ahead_eq:
  "ahead s = (case dropWhile (\<lambda>c. c \<noteq> lf) s of [] \<Rightarrow> (takeWhile (\<lambda>c. c \<noteq> lf) s, [])
     | _ # t \<Rightarrow> (takeWhile (\<lambda>c. c \<noteq> lf) s @ [lf], t))"
proof (induction s)
  case (Cons c s)
  define d where "d = dropWhile (\<lambda>c. c \<noteq> lf) s"
  show ?case using Cons.IH by (cases d; cases "c = lf") (simp_all del: dropWhile_eq_Nil_conv add: d_def [symmetric])
qed simp

lemma read_line_ahead: "s \<noteq> [] \<Longrightarrow> cr \<notin> set s \<Longrightarrow> read_line s = Some (ahead s)"
proof -
  assume "s \<noteq> []" "cr \<notin> set s"
  moreover have "cr \<notin> set (takeWhile (\<lambda>c. c \<noteq> lf) s)" using \<open>cr \<notin> set s\<close> by (meson set_takeWhileD)
  then have "drop_cr (takeWhile (\<lambda>c. c \<noteq> lf) s) = takeWhile (\<lambda>c. c \<noteq> lf) s" by (metis drop_cr_def last_in_set)
  ultimately show ?thesis 
    by (cases "dropWhile (\<lambda>c. c \<noteq> lf) s") (simp_all del: dropWhile_eq_Nil_conv add: read_line_def ahead_eq Let_def)
qed

lemma ahead_plain: "lf \<notin> set f \<Longrightarrow> ahead (f @ s) = (f @ fst (ahead s), snd (ahead s))"
  by (induction f) auto

lemma read_quoted_escaped:
  assumes "cr \<notin> set f" "cr \<notin> set t"
  shows "read_quoted (snd (ahead (concat (map escape_byte f) @ quo_char # t))) (fst (ahead (concat (map escape_byte f) @ quo_char # t))) buf
    = read_quoted (snd (ahead t)) (quo_char # fst (ahead t)) (buf @ f)"
  using assms(1)
proof (induction f arbitrary: buf)
  case Nil
  then show ?case by simp
next
  case (Cons c f)
  let ?u = "concat (map escape_byte f) @ quo_char # t"
  have "cr \<notin> set ?u" using Cons.prems assms(2) by (auto simp: escape_byte_def split: if_splits)
  then have "read_line ?u = Some (ahead ?u)" by (intro read_line_ahead) simp_all
  then have lf_case: "read_quoted ?u [] b = read_quoted (snd (ahead ?u)) (fst (ahead ?u)) b" for b
    by (simp add: read_quoted.simps(1) split: prod.split)
  have IH: "read_quoted (snd (ahead ?u)) (fst (ahead ?u)) (buf @ [c]) = read_quoted (snd (ahead t)) (quo_char # fst (ahead t)) (buf @ c # f)"
    using Cons.IH [of "buf @ [c]"] Cons.prems by simp
  have esc: "escape_byte quo_char = [quo_char, quo_char]" "x \<noteq> quo_char \<Longrightarrow> escape_byte x = [x]" for x by (simp_all add: escape_byte_def)
  have qq: "read_quoted r (quo_char # quo_char # l) b = read_quoted r l (b @ [quo_char])" for r l b by (simp add: end_of_line_def)
  consider "c = quo_char" | "c = lf" | "c \<noteq> quo_char" "c \<noteq> lf" by blast
  then show ?case
  proof cases
    case 1
    then show ?thesis using IH by (simp add: esc(1) qq del: read_quoted.simps)
  next
    case 2
    then show ?thesis using IH lf_case by (simp add: esc(2))
  next
    case 3
    then show ?thesis using IH by (simp add: esc(2))
  qed
qed

definition csv_field :: "string \<Rightarrow> bool" where
  "csv_field f \<longleftrightarrow> cr \<notin> set f"

lemma plain_field: "\<not> fieldNeedsQuotes f \<Longrightarrow> lf \<notin> set f \<and> quo_char \<notin> set f \<and> comma \<notin> set f"
  by (auto simp: fieldNeedsQuotes_def list_ex_iff)

lemma read_written_field:
  assumes "cr \<notin> set f" "cr \<notin> set t"
  shows "read_fields (snd (ahead (write_field f @ lf # t))) (fst (ahead (write_field f @ lf # t))) = Inr ([f], t)"
    and "read_fields (snd (ahead (write_field f @ comma # t))) (fst (ahead (write_field f @ comma # t))) =
      (case read_fields (snd (ahead t)) (fst (ahead t)) of Inl e \<Rightarrow> Inl e | Inr (fs, rest) \<Rightarrow> Inr (f # fs, rest))"
proof -
  show "read_fields (snd (ahead (write_field f @ lf # t))) (fst (ahead (write_field f @ lf # t))) = Inr ([f], t)"
  proof (cases "fieldNeedsQuotes f")
    case True
    have "cr \<notin> set (lf # t)" using assms(2) by simp
    from read_quoted_escaped [OF assms(1) this, of "[]"] show ?thesis
      using True by (simp add: write_field_def read_fields.simps end_of_line_def)
  next
    case False
    then have "takeWhile (\<lambda>c. c \<noteq> comma) (f @ [lf]) = f @ [lf]" "dropWhile (\<lambda>c. c \<noteq> comma) (f @ [lf]) = []"
      "hd (f @ [lf]) \<noteq> quo_char" using plain_field [OF False] by (auto simp: takeWhile_eq_all_conv) (cases f; auto)
    then show ?thesis
      using False plain_field [OF False] by (simp add: write_field_def ahead_plain read_fields.simps chomp_def)
  qed
  show "read_fields (snd (ahead (write_field f @ comma # t))) (fst (ahead (write_field f @ comma # t))) =
      (case read_fields (snd (ahead t)) (fst (ahead t)) of Inl e \<Rightarrow> Inl e | Inr (fs, rest) \<Rightarrow> Inr (f # fs, rest))"
  proof (cases "fieldNeedsQuotes f")
    case True
    have "cr \<notin> set (comma # t)" using assms(2) by simp
    from read_quoted_escaped [OF assms(1) this, of "[]"] show ?thesis
      using True by (subst read_fields.simps) (simp add: write_field_def end_of_line_def)
  next
    case False
    let ?l = "f @ comma # fst (ahead t)"
    have all: "\<And>c. c \<in> set f \<Longrightarrow> c \<noteq> comma" using plain_field [OF False] by auto
    have "takeWhile (\<lambda>c. c \<noteq> comma) ?l = f" using all by (subst takeWhile_append2) simp_all
    moreover have "dropWhile (\<lambda>c. c \<noteq> comma) ?l = comma # fst (ahead t)" using all by (subst dropWhile_append2) simp_all
    moreover have "hd ?l \<noteq> quo_char" using plain_field [OF False] by (cases f) auto
    ultimately have read: "takeWhile (\<lambda>c. c \<noteq> comma) ?l = f" "dropWhile (\<lambda>c. c \<noteq> comma) ?l = comma # fst (ahead t)" "hd ?l \<noteq> quo_char"
      by simp_all
    show ?thesis
      using False plain_field [OF False] read by (subst read_fields.simps) (simp add: write_field_def ahead_plain Let_def)
  qed
qed

lemma written_cr: "list_all csv_field row \<Longrightarrow> cr \<notin> set (write_record row)"
proof (induction row rule: write_record.induct)
  case (2 f)
  then show ?case by (auto simp: write_field_def escape_byte_def csv_field_def)
next
  case (3 f g fs)
  then show ?case by (auto simp: write_field_def escape_byte_def csv_field_def)
qed simp

lemma read_written_record:
  assumes "row \<noteq> []" "list_all csv_field row" "cr \<notin> set t"
  shows "read_fields (snd (ahead (write_record row @ t))) (fst (ahead (write_record row @ t))) = Inr (row, t)"
  using assms
proof (induction row rule: write_record.induct)
  case (3 f g fs)
  have "cr \<notin> set (write_record (g # fs) @ t)" using 3 written_cr by auto
  then show ?case using 3 read_written_field(2) [of f "write_record (g # fs) @ t"] by (simp add: csv_field_def)
qed (auto simp: read_written_field csv_field_def)

text \<open>
  The tables that survive: no carriage return in a field, and no record that is written as an
  empty line.
\<close>

definition csv_table :: "string list list \<Rightarrow> bool" where
  "csv_table rows \<longleftrightarrow> list_all (\<lambda>row. row \<noteq> [] \<and> row \<noteq> [[]] \<and> list_all csv_field row) rows"

lemma write_record_start:
  assumes "row \<noteq> []" "row \<noteq> [[]]"
  shows "\<exists>c u. write_record row = c # u \<and> c \<noteq> lf"
proof -
  have field: "write_field f = [] \<or> (\<exists>c u. write_field f = c # u \<and> c \<noteq> lf)" for f
    using plain_field [of f] by (cases f) (auto simp: write_field_def)
  have "write_field f = [] \<longleftrightarrow> f = []" for f by (simp add: write_field_def fieldNeedsQuotes_def)
  with field assms show ?thesis
  proof (cases row rule: write_record.cases)
    case (3 f g fs)
    then show ?thesis using field [of f] by (elim disjE exE conjE) simp_all
  qed (use field in fastforce)+
qed

theorem ReadAll_write_all: "csv_table rows \<Longrightarrow> ReadAll (write_all rows) = Inr rows"
proof (induction rows)
  case Nil
  then show ?case by (simp add: write_all_def ReadAll.simps [of "[]"] read_line_def)
next
  case (Cons row rows)
  let ?t = "write_all rows"
  have row: "row \<noteq> []" "row \<noteq> [[]]" "list_all csv_field row" and table: "csv_table rows"
    using Cons.prems by (auto simp: csv_table_def)
  then have "cr \<notin> set ?t" using written_cr by (fastforce simp: write_all_def csv_table_def list_all_iff)
  moreover obtain c u where cu: "write_record row = c # u" "c \<noteq> lf" using write_record_start row by blast
  ultimately have line: "read_line (write_record row @ ?t) = Some (ahead (write_record row @ ?t))"
    using written_cr [OF row(3)] by (intro read_line_ahead) auto
  obtain l r where ahead: "ahead (write_record row @ ?t) = (l, r)" by fastforce
  have "\<not> end_of_line (fst (ahead (write_record row @ ?t)))" using cu by (simp add: end_of_line_def)
  then have "ReadAll (write_record row @ ?t) = Inr (row # rows)"
    using line read_written_record [OF row(1,3) \<open>cr \<notin> set ?t\<close>] Cons.IH [OF table]
    by (subst ReadAll.simps) (simp add: ahead)
  then show ?case by (simp add: write_all_def)
qed

interpretation csv: codec write_all "\<lambda>s. case ReadAll s of Inl _ \<Rightarrow> None | Inr rows \<Rightarrow> Some rows" csv_table
  by unfold_locales (simp add: ReadAll_write_all)

end
