(* ===== verification/File_Handlers.thy ===== *)
theory File_Handlers
  imports Requests Csv
begin

text \<open>
  The handlers of \<open>app.go\<close> that read and write files: products and stock as CSV, the import of
  products, the pictures that are uploaded and served again, and the backup. Paths are those of
  a Unix file system; the upload directory is a map from file names to contents.
\<close>

section \<open>Products and stock as CSV\<close>

definition utf8_bom :: string where
  "utf8_bom = [CHR 0xEF, CHR 0xBB, CHR 0xBF]"

text \<open>A download with its name and its content, or an error status.\<close>

datatype download = Download string string | StatusError nat

definition catLabel :: "Entity list \<Rightarrow> string \<Rightarrow> string" where
  "catLabel cats k = (case map_of (rev (map (\<lambda>c. (en_ID c, Label c)) cats)) k of None \<Rightarrow> [] | Some l \<Rightarrow> l)"

definition product_header :: "string list" where
  "product_header = [''title'', ''category'', ''price_irr'', ''cost_irr'', ''stock'', ''is_available'', ''description'']"

definition product_row :: "Entity list \<Rightarrow> Entity \<Rightarrow> string list" where
  "product_row cats p =
    [Label p, catLabel cats (Field p ''category_id''), PriceIRR p, Field p ''cost'', Field p ''stock'',
     Field p ''is_available'', Field p ''description'']"

definition products_csv :: "Entity list \<Rightarrow> Entity list \<Rightarrow> string" where
  "products_csv cats ps = utf8_bom @ write_all (product_header # map (product_row cats) ps)"

definition handleProductsExport :: "calls \<Rightarrow> Store \<Rightarrow> download" where
  "handleProductsExport c s =
    (case EntitiesOf (cl_io c 0) ''product'' s of
       Inl _ \<Rightarrow> StatusError 500
     | Inr ps \<Rightarrow> Download ''products.csv'' (products_csv (list_or_empty (cl_io c 1) ''category'' s) ps))"

definition stock_row :: "Entity \<Rightarrow> string list" where
  "stock_row e =
    Label e # map (Field e) [''sku'', ''category'', ''storage_location'', ''base_unit'', ''current_stock'',
      ''reorder_point'', ''average_cost'', ''last_purchase_cost'']"

definition stock_header :: "string list" where
  "stock_header = [''name'', ''sku'', ''category'', ''location'', ''unit'', ''current_stock'', ''reorder_point'',
     ''average_cost_irr'', ''last_purchase_cost_irr'']"

definition handleInventoryExport :: "calls \<Rightarrow> Store \<Rightarrow> download" where
  "handleInventoryExport c s =
    (case EntitiesOf (cl_io c 0) ''ingredient'' s of
       Inl _ \<Rightarrow> StatusError 500
     | Inr es \<Rightarrow> Download ''inventory.csv'' (utf8_bom @ write_all (stock_header # map stock_row es)))"

section \<open>The import of products\<close>

definition catByLabel :: "Entity list \<Rightarrow> string \<Rightarrow> string" where
  "catByLabel cats k =
    (case map_of (rev (concat (map (\<lambda>c. [(Label c, en_ID c), (en_ID c, en_ID c)]) cats))) k of None \<Rightarrow> [] | Some i \<Rightarrow> i)"

definition row_get :: "string list \<Rightarrow> nat \<Rightarrow> string" where
  "row_get rec i = (if i < length rec then TrimSpace (rec ! i) else [])"

text \<open>The fields of the product of a row; the values that are empty are left out.\<close>

definition if_filled :: "string \<Rightarrow> string \<Rightarrow> fields" where
  "if_filled k v = (if v \<noteq> [] then [(k, JStr v)] else [])"

definition import_fields :: "Entity list \<Rightarrow> string \<Rightarrow> string list \<Rightarrow> fields" where
  "import_fields cats title rec =
    (''title'', JStr title) # if_filled ''category_id'' (catByLabel cats (row_get rec 1)) @
    if_filled ''price'' (row_get rec 2) @ if_filled ''cost'' (row_get rec 3) @ if_filled ''stock'' (row_get rec 4) @
    if_filled ''is_available'' (row_get rec 5) @ if_filled ''description'' (row_get rec 6)"

definition row_title :: "string list \<Rightarrow> string" where
  "row_title rec = TrimSpace (TrimPrefix (hd rec) utf8_bom)"

definition is_header :: "string \<Rightarrow> bool" where
  "is_header title \<longleftrightarrow> EqualFold title ''title'' \<or> title = (fa [0x646, 0x627, 0x645, 0x20, 0x645, 0x62D, 0x635, 0x648, 0x644])"

text \<open>The rows from number \<open>i\<close> on, with the numbers of the products made and of the rows refused.\<close>

fun import_rows ::
    "calls \<Rightarrow> Entity list \<Rightarrow> nat \<Rightarrow> string list list \<Rightarrow> nat \<times> nat \<Rightarrow> Store \<Rightarrow> Store \<times> nat \<times> nat" where
  "import_rows c cats i [] n s = (s, n)"
| "import_rows c cats i (rec # recs) (created, failed) s =
    (if rec = [] then import_rows c cats (i + 1) recs (created, failed) s
     else (let title = row_title rec
           in if i = 0 \<and> is_header title then import_rows c cats (i + 1) recs (created, failed) s
              else if title = [] then import_rows c cats (i + 1) recs (created, failed + 1) s
              else (case save_call c (i + 1) ''product'' [] (import_fields cats title rec) s of
                      (s1, Inl _) \<Rightarrow> import_rows c cats (i + 1) recs (created, failed + 1) s1
                    | (s1, Inr _) \<Rightarrow> import_rows c cats (i + 1) recs (created + 1, failed) s1)))"

text \<open>The file of the form is absent, or has a content; \<open>form_ok\<close> is whether the form could be read.\<close>

definition handleProductsImport :: "calls \<Rightarrow> bool \<Rightarrow> string option \<Rightarrow> http_request \<Rightarrow> Store \<Rightarrow> Store \<times> answer" where
  "handleProductsImport c form_ok file r s =
    (if \<not> form_ok then (s, navigatePage r ''products'' MBadForm)
     else (case file of
             None \<Rightarrow> (s, navigatePage r ''products'' MNoFile)
           | Some content \<Rightarrow>
              (case ReadAll content of
                 Inl _ \<Rightarrow> (s, navigatePage r ''products'' MBadCsv)
               | Inr recs \<Rightarrow>
                  (case import_rows c (list_or_empty (cl_io c 0) ''category'' s) 0 recs (0, 0) s of
                     (s1, created, failed) \<Rightarrow> (s1, navigatePage r ''products'' (MImported created failed))))))"

section \<open>Uploaded pictures\<close>

type_synonym upload_dir = "(string \<times> string) list"

text \<open>
  What the system calls of one upload do: opening the upload and seeking back in it, making the
  directory, 16 random bytes, creating the file, and copying, which may end early.
\<close>

record upload_io =
  up_open :: "string option"
  up_seek :: "string option"
  up_mkdir :: "string option"
  up_rand :: "string + 8 word list"
  up_create :: "string option"
  up_copy :: "(nat \<times> string) option"

text \<open>
  \<open>http.DetectContentType\<close> as far as it matters here: the extension of the four kinds of
  pictures by their first bytes. No other signature of the sniffer starts with these bytes.
\<close>

definition image_ext :: "string \<Rightarrow> string option" where
  "image_ext head =
    (if HasPrefix head [CHR 0x89, CHR 0x50, CHR 0x4E, CHR 0x47, CHR 0x0D, CHR 0x0A, CHR 0x1A, CHR 0x0A] then Some ''.png''
     else if HasPrefix head [CHR 0xFF, CHR 0xD8, CHR 0xFF] then Some ''.jpg''
     else if HasPrefix head ''RIFF'' \<and> HasPrefix (drop 8 head) ''WEBPVP'' then Some ''.webp''
     else if HasPrefix head ''GIF87a'' \<or> HasPrefix head ''GIF89a'' then Some ''.gif''
     else None)"

definition too_big :: string where "too_big = (fa [0x62D, 0x62C, 0x645, 0x20, 0x62A, 0x635, 0x648, 0x6CC, 0x631, 0x20, 0x646, 0x628, 0x627, 0x6CC, 0x62F, 0x20, 0x628, 0x6CC, 0x634, 0x62A, 0x631, 0x20, 0x627, 0x632, 0x20, 0x6F8, 0x20, 0x645, 0x6AF, 0x627, 0x628, 0x627, 0x6CC, 0x62A, 0x20, 0x628, 0x627, 0x634, 0x62F])"
definition not_a_picture :: string where "not_a_picture = (fa [0x641, 0x642, 0x637, 0x20, 0x62A, 0x635, 0x648, 0x6CC, 0x631, 0x20, 0x50, 0x4E, 0x47, 0x20, 0x60C, 0x4A, 0x50, 0x47, 0x20, 0x60C, 0x57, 0x45, 0x42, 0x50, 0x20, 0x6CC, 0x627, 0x20, 0x47, 0x49, 0x46, 0x20, 0x645, 0x62C, 0x627, 0x632, 0x20, 0x627, 0x633, 0x62A])"
definition file_exists :: string where "file_exists = ''file exists''"

definition saveUploadedImage :: "upload_io \<Rightarrow> string \<Rightarrow> upload_dir \<Rightarrow> upload_dir \<times> (string + string)" where
  "saveUploadedImage u content dir =
    (if length content > 8 * 1024 * 1024 then (dir, Inl too_big)
     else (case up_open u of
       Some e \<Rightarrow> (dir, Inl e)
     | None \<Rightarrow>
        (case image_ext (take 512 content) of
           None \<Rightarrow> (dir, Inl not_a_picture)
         | Some ext \<Rightarrow>
            (case (up_seek u, up_mkdir u, up_rand u) of
               (Some e, _, _) \<Rightarrow> (dir, Inl e)
             | (None, Some e, _) \<Rightarrow> (dir, Inl e)
             | (None, None, Inl e) \<Rightarrow> (dir, Inl e)
             | (None, None, Inr rb) \<Rightarrow>
                (let name = concat (map hex_byte rb) @ ext
                 in case up_create u of
                      Some e \<Rightarrow> (dir, Inl e)
                    | None \<Rightarrow>
                       (if map_of dir name \<noteq> None then (dir, Inl file_exists)
                        else (case up_copy u of
                                Some (n, e) \<Rightarrow> ((name, take n content) # dir, Inl e)
                              | None \<Rightarrow> ((name, content) # dir, Inr (''/uploads/'' @ name)))))))))"

text \<open>\<open>filepath.Base\<close>.\<close>

definition Base :: "string \<Rightarrow> string" where
  "Base path =
    (if path = [] then ''.''
     else (let p = rev (dropWhile (\<lambda>c. c = CHR ''/'') (rev path))
           in if p = [] then ''/'' else rev (takeWhile (\<lambda>c. c \<noteq> CHR ''/'') (rev p))))"

definition lower_hex :: "char \<Rightarrow> bool" where
  "lower_hex c \<longleftrightarrow> is_digit c \<or> (97 \<le> code c \<and> code c \<le> 102)"

text \<open>\<open>^[a-f0-9]{32}\\.(png|jpg|webp|gif)$\<close>\<close>

definition upload_name :: "string \<Rightarrow> bool" where
  "upload_name n \<longleftrightarrow>
    length (take 32 n) = 32 \<and> list_all lower_hex (take 32 n) \<and> drop 32 n \<in> {''.png'', ''.jpg'', ''.webp'', ''.gif''}"

text \<open>The content that is served; \<open>None\<close> is the answer 404. \<open>ok\<close> is whether the file could be opened and read.\<close>

definition handleUploadServe :: "bool \<Rightarrow> string \<Rightarrow> upload_dir \<Rightarrow> string option" where
  "handleUploadServe ok path dir =
    (let name = Base (TrimPrefix path ''/uploads/'')
     in if name = ''.'' \<or> name = ''/'' \<or> \<not> upload_name name then None
        else if ok then map_of dir name else None)"

section \<open>The backup\<close>

definition downloadBackup :: "bool \<Rightarrow> (persistedDB \<Rightarrow> string) \<Rightarrow> Store \<Rightarrow> download" where
  "downloadBackup ok text s =
    (if ok then Download ''coffish-desktop-backup.json'' (text (ExportBackup s)) else StatusError 500)"

text \<open>
  Where the backup goes: \<open>home\<close> is the home directory, if it is known, and \<open>has_downloads\<close>
  whether it has a directory \<open>Downloads\<close>; \<open>stamp\<close> is the clock as \<open>20060102-150405\<close>.
\<close>

definition backup_path :: "string option \<Rightarrow> bool \<Rightarrow> string \<Rightarrow> string" where
  "backup_path home has_downloads stamp =
    (let file = ''coffish-backup-'' @ stamp @ ''.json''
     in case home of
          None \<Rightarrow> file
        | Some h \<Rightarrow>
           (if h = [] then file
            else (if has_downloads then h @ ''/Downloads'' else h) @ ''/'' @ file))"

definition handleExportBackup ::
    "(string + (persistedDB \<Rightarrow> string)) \<Rightarrow> string option \<Rightarrow> bool \<Rightarrow> string \<Rightarrow> string option \<Rightarrow> http_request \<Rightarrow>
      Store \<Rightarrow> (string \<times> string) option \<times> answer" where
  "handleExportBackup text home has_downloads stamp written r s =
    (case text of
       Inl e \<Rightarrow> (None, navigatePage r ''home'' (MBackupFailed e))
     | Inr enc \<Rightarrow>
        (let path = backup_path home has_downloads stamp
         in case written of
              Some e \<Rightarrow> (None, navigatePage r ''home'' (MBackupFailed e))
            | None \<Rightarrow> (Some (path, enc (ExportBackup s)), navigatePage r ''home'' (MBackupSaved path))))"

end
