(* ===== verification/Local_Api.thy ===== *)
theory Local_Api
  imports Order_Handlers
begin

text \<open>
  The JSON interface of \<open>api_local.go\<close>. A request has a method, a path and the first JSON value
  of its body (\<open>None\<close> when it is not JSON); the answer is a status and the envelope. The text
  of an error is a parameter.
\<close>

record api_call =
  ac_calls :: calls
  ac_till :: till
  ac_text :: "err \<Rightarrow> string"
  ac_junk :: int

definition writeJSONEnvelope :: "nat \<Rightarrow> bool \<Rightarrow> string \<Rightarrow> json \<Rightarrow> json \<Rightarrow> nat \<times> json" where
  "writeJSONEnvelope status success message dat er =
    (status, JObj [(''data'', dat), (''error'', er), (''message'', JStr message), (''success'', JBool success)])"

section \<open>Documents\<close>

definition entity_json :: "Entity \<Rightarrow> json" where
  "entity_json e =
    JObj [(''id'', JStr (en_ID e)), (''type'', JStr (en_Type e)), (''version'', int_json (en_Version e)), (''payload'', en_Payload e)]"

definition analytics_json :: "FinancialAnalytics \<Rightarrow> json" where
  "analytics_json a = JObj
    [(''TotalSalesIRR'', JStr (TotalSalesIRR a)), (''CashSalesIRR'', JStr (CashSalesIRR a)), (''CardSalesIRR'', JStr (CardSalesIRR a)),
     (''CreditSalesIRR'', JStr (CreditSalesIRR a)), (''TotalExpensesIRR'', JStr (TotalExpensesIRR a)),
     (''TotalReceivablesIRR'', JStr (TotalReceivablesIRR a)), (''NetOperatingIRR'', JStr (NetOperatingIRR a)),
     (''CompletedOrders'', int_json (CompletedOrders a)), (''OpenOrders'', int_json (OpenOrders a)),
     (''CancelledOrders'', int_json (CancelledOrders a)), (''OccupiedTables'', int_json (OccupiedTables a)),
     (''TotalTables'', int_json (TotalTables a)), (''PendingTasks'', int_json (PendingTasks a)),
     (''CompletedTasks'', int_json (CompletedTasks a)), (''ActiveStaff'', int_json (ActiveStaff a))]"

definition stats_json :: "SummaryStats \<Rightarrow> json" where
  "stats_json st = JObj
    [(''CategoriesCount'', int_json (CategoriesCount st)), (''ProductsCount'', int_json (ProductsCount st)),
     (''IngredientsCount'', int_json (IngredientsCount st)), (''LowStockCount'', int_json (LowStockCount st)),
     (''OrdersCount'', int_json (OrdersCount st)), (''OpenOrdersCount'', int_json (OpenOrdersCount st)),
     (''RecipesCount'', int_json (RecipesCount st)), (''BannersCount'', int_json (BannersCount st)),
     (''TablesCount'', int_json (TablesCount st)), (''CustomersCount'', int_json (CustomersCount st)),
     (''DebtorsCount'', int_json (DebtorsCount st)), (''LegacyStockCount'', int_json (LegacyStockCountN st)),
     (''OutboxQueuedCount'', int_json (OutboxQueuedCount st)), (''OutboxBlocked'', int_json (OutboxBlocked st)),
     (''OutboxApplied'', int_json (OutboxApplied st))]"

text \<open>\<open>items, _ := a.store.Entities(...)\<close> as JSON: an error leaves the nil slice.\<close>

definition listed :: "io \<Rightarrow> string \<Rightarrow> Store \<Rightarrow> json" where
  "listed w kind s = (case EntitiesOf w kind s of Inl _ \<Rightarrow> JNull | Inr es \<Rightarrow> JArr (map entity_json es))"

section \<open>Reading\<close>

definition domainMap :: "(string \<times> string) list" where
  "domainMap =
    [(''/api/v1/categories'', ''category''), (''/api/v1/products'', ''product''), (''/api/v1/modifier-groups'', ''modifier_group''),
     (''/api/v1/inventory/items'', ''ingredient''), (''/api/v1/inventory/movements'', ''inventory_movement''),
     (''/api/v1/inventory/recipes'', ''recipe''), (''/api/v1/inventory/waste'', ''waste_event''),
     (''/api/v1/inventory/suppliers'', ''supplier''), (''/api/v1/inventory/purchases'', ''purchase''), (''/api/v1/orders'', ''order''),
     (''/api/v1/tables'', ''table''), (''/api/v1/tables/reservations'', ''reservation''), (''/api/v1/customers'', ''customer''),
     (''/api/v1/retention/campaigns'', ''retention_campaign''), (''/api/online/cafe-plans'', ''cafe_plan''), (''/api/v1/debtors'', ''debtor''),
     (''/api/v1/expenses'', ''expense''), (''/api/v1/accounting/entries'', ''accounting_entry''), (''/api/v1/staff'', ''staff''),
     (''/api/v1/tasks'', ''task''), (''/api/v1/jobs'', ''job_posting''), (''/api/v1/banners'', ''banner''), (''/api/v1/printers'', ''printer''),
     (''/api/v1/print-jobs'', ''print_job''), (''/api/printer-configs'', ''printer''),
     (''/api/printer-configs/category-routes'', ''printer_route''), (''/api/v1/printer-configs/category-routes'', ''printer_route''),
     (''/api/v1/cafe/profile'', ''cafe_profile''), (''/api/cafe/profile'', ''cafe_profile'')]"

definition api_list :: "api_call \<Rightarrow> string \<Rightarrow> Store \<Rightarrow> nat \<times> json" where
  "api_list a kind s =
    (case EntitiesOf (cl_io (ac_calls a) 0) kind s of
       Inl e \<Rightarrow> writeJSONEnvelope 500 False (ac_text a e) JNull (JObj [(''code'', JStr ''STORE_ERROR'')])
     | Inr items \<Rightarrow> writeJSONEnvelope 200 True (fa [0x627, 0x637, 0x644, 0x627, 0x639, 0x627, 0x62A, 0x20, 0x628, 0x627, 0x20, 0x645, 0x648, 0x641, 0x642, 0x6CC, 0x62A, 0x20, 0x627, 0x632, 0x20, 0x67E, 0x627, 0x6CC, 0x6AF, 0x627, 0x647, 0x20, 0x62F, 0x627, 0x62F, 0x647, 0x20, 0x645, 0x62D, 0x644, 0x6CC, 0x20, 0x62F, 0x631, 0x6CC, 0x627, 0x641, 0x62A, 0x20, 0x634, 0x62F]) (JArr (map en_Payload items)) JNull)"

definition api_get :: "api_call \<Rightarrow> string \<Rightarrow> Store \<Rightarrow> (nat \<times> json) option" where
  "api_get a path s =
    (let ok = (\<lambda>m d. Some (writeJSONEnvelope 200 True m (JObj d) JNull)); io = cl_io (ac_calls a)
     in if path = ''/health'' then
          ok (fa [0x633, 0x631, 0x648, 0x6CC, 0x633, 0x20, 0x62F, 0x633, 0x6A9, 0x62A, 0x627, 0x67E, 0x20, 0x645, 0x646, 0x648, 0x648, 0x6A9, 0x633, 0x20, 0x641, 0x639, 0x627, 0x644, 0x20, 0x648, 0x20, 0x622, 0x645, 0x627, 0x62F, 0x647, 0x20, 0x627, 0x633, 0x62A])
            [(''mode'', JStr ''standalone_offline_desktop''), (''name'', JStr ''MenuVex Desktop Local Engine''),
             (''status'', JStr ''ok''), (''version'', JStr ''1.0.0-ir'')]
        else if path = ''/ready'' then
          ok (fa [0x67E, 0x627, 0x6CC, 0x6AF, 0x627, 0x647, 0x20, 0x62F, 0x627, 0x62F, 0x647, 0x20, 0x645, 0x62D, 0x644, 0x6CC, 0x20, 0x62F, 0x633, 0x6A9, 0x62A, 0x627, 0x67E, 0x20, 0x622, 0x645, 0x627, 0x62F, 0x647, 0x20, 0x628, 0x647, 0x631, 0x647, 0x200C, 0x628, 0x631, 0x62F, 0x627, 0x631, 0x6CC, 0x20, 0x627, 0x633, 0x62A])
            [(''orders'', int_json (OrdersCount (Stats (state s)))), (''products'', int_json (ProductsCount (Stats (state s)))),
             (''status'', JStr ''ready'')]
        else if path = ''/api/v1/reports/summary'' then
          ok (fa [0x6AF, 0x632, 0x627, 0x631, 0x634, 0x20, 0x62C, 0x627, 0x645, 0x639, 0x20, 0x645, 0x627, 0x644, 0x6CC, 0x20, 0x648, 0x20, 0x639, 0x645, 0x644, 0x6CC, 0x627, 0x62A, 0x6CC, 0x20, 0x6A9, 0x627, 0x641, 0x647])
            [(''analytics'', analytics_json (Analytics (state s))), (''stats'', stats_json (Stats (state s)))]
        else if path = ''/api/v1/deep-analytics/overview'' then
          ok (fa [0x62A, 0x62D, 0x644, 0x6CC, 0x644, 0x20, 0x639, 0x645, 0x6CC, 0x642, 0x20, 0x633, 0x648, 0x62F, 0x622, 0x648, 0x631, 0x6CC, 0x20, 0x648, 0x20, 0x645, 0x647, 0x646, 0x62F, 0x633, 0x6CC, 0x20, 0x645, 0x646, 0x648, 0x20, 0x28, 0x44, 0x65, 0x65, 0x70, 0x20, 0x41, 0x6E, 0x61, 0x6C, 0x79, 0x74, 0x69, 0x63, 0x73, 0x29])
            [(''analytics'', analytics_json (Analytics (state s))),
             (''peak_hours'', JArr [JStr (fa [0x6F0, 0x6F9, 0x3A, 0x6F0, 0x6F0, 0x20, 0x62A, 0x627, 0x20, 0x6F1, 0x6F1, 0x3A, 0x6F3, 0x6F0]), JStr (fa [0x6F1, 0x6F8, 0x3A, 0x6F0, 0x6F0, 0x20, 0x62A, 0x627, 0x20, 0x6F2, 0x6F1, 0x3A, 0x6F3, 0x6F0])]),
             (''stats'', stats_json (Stats (state s)))]
        else if path = ''/api/v1/pos'' then
          ok (fa [0x627, 0x637, 0x644, 0x627, 0x639, 0x627, 0x62A, 0x20, 0x635, 0x646, 0x62F, 0x648, 0x642, 0x20, 0x641, 0x631, 0x648, 0x634, 0x20, 0x622, 0x641, 0x644, 0x627, 0x6CC, 0x646])
            [(''categories'', listed (io 1) ''category'' s), (''orders'', listed (io 3) ''order'' s),
             (''products'', listed (io 0) ''product'' s), (''tables'', listed (io 2) ''table'' s)]
        else map_option (\<lambda>kind. api_list a kind s) (map_of domainMap path))"

section \<open>Writing\<close>

definition line_input :: "json \<Rightarrow> POSOrderLineInput option" where
  "line_input j =
    (case struct_members j of
       None \<Rightarrow> None
     | Some kvs \<Rightarrow>
        (case (string_field ''product_id'' kvs, int_field ''quantity'' kvs, string_field ''note'' kvs) of
           (Some p, Some q, Some n) \<Rightarrow> Some \<lparr> li_ProductID = p, li_Quantity = q, li_Note = n \<rparr>
         | _ \<Rightarrow> None))"

definition order_input :: "json \<Rightarrow> POSOrderInput option" where
  "order_input j =
    (case struct_members j of
       None \<Rightarrow> None
     | Some kvs \<Rightarrow>
        (case (those (map (\<lambda>k. string_field k kvs)
                 [''client_token'', ''fulfillment_type'', ''table_id'', ''customer_id'', ''customer_name'', ''customer_phone'',
                  ''cashier_name'', ''payment_method'', ''discount_irr'', ''extra_irr'', ''extra_note'', ''debtor_due_at'',
                  ''debtor_note'', ''debtor_kind'', ''debtor_group_id'', ''note'']),
               slice_field ''items'' line_input kvs) of
           (Some [tok, ft, tb, ci, cn, cp, ca, pm, di, ex, en, dd, dn, dk, dg, nt], Some items) \<Rightarrow>
             Some \<lparr> pi_ClientToken = tok, pi_FulfillmentType = ft, pi_TableID = tb, pi_CustomerID = ci, pi_CustomerName = cn,
               pi_CustomerPhone = cp, pi_CashierName = ca, pi_PaymentMethod = pm, pi_DiscountIRR = di, pi_ExtraIRR = ex,
               pi_ExtraNote = en, pi_DebtorDueAt = dd, pi_DebtorNote = dn, pi_DebtorKind = dk, pi_DebtorGroupID = dg,
               pi_Note = nt, pi_Items = items \<rparr>
         | _ \<Rightarrow> None))"

text \<open>\<open>ent, _ := a.store.Entity(...)\<close> and \<open>ent.Payload\<close>: without a record the nil message.\<close>

definition payload_or_null :: "io \<Rightarrow> string \<Rightarrow> string \<Rightarrow> Store \<Rightarrow> json" where
  "payload_or_null w kind i s = (case EntityOf w kind i s of Inl _ \<Rightarrow> JNull | Inr e \<Rightarrow> en_Payload e)"

definition api_checkout :: "api_call \<Rightarrow> json option \<Rightarrow> Store \<Rightarrow> Store \<times> nat \<times> json" where
  "api_checkout a body s =
    (let c = ac_calls a; t = ac_till a
     in case Option.bind body order_input of
          None \<Rightarrow> (s, writeJSONEnvelope 400 False (fa [0x641, 0x631, 0x645, 0x62A, 0x20, 0x62F, 0x631, 0x62E, 0x648, 0x627, 0x633, 0x62A, 0x20, 0x646, 0x627, 0x645, 0x639, 0x62A, 0x628, 0x631, 0x20, 0x627, 0x633, 0x62A]) JNull JNull)
        | Some req \<Rightarrow>
           (case CreatePOSOrder (cl_io c 0) (ti_day t) (ti_today t) (cl_rnd c 0) (ti_gen t) (cl_now c 0) req s of
              (s1, Inl e) \<Rightarrow> (s1, writeJSONEnvelope 400 False (ac_text a e) JNull JNull)
            | (s1, Inr i) \<Rightarrow>
                (s1, writeJSONEnvelope 201 True (fa [0x633, 0x641, 0x627, 0x631, 0x634, 0x20, 0x628, 0x627, 0x20, 0x645, 0x648, 0x641, 0x642, 0x6CC, 0x62A, 0x20, 0x62F, 0x631, 0x20, 0x635, 0x646, 0x62F, 0x648, 0x642, 0x20, 0x62B, 0x628, 0x62A, 0x20, 0x634, 0x62F])
                   (payload_or_null (cl_io c 1) ''order'' i s1) JNull)))"

text \<open>
  A field of a struct whose decoding errors are ignored keeps the last value that fitted.
\<close>

definition kept_string :: "string \<Rightarrow> (string \<times> json) list \<Rightarrow> string" where
  "kept_string name kvs = fold (\<lambda>j cur. case j of JStr t \<Rightarrow> t | _ \<Rightarrow> cur) (members_of name kvs) []"

definition kept_int :: "string \<Rightarrow> (string \<times> json) list \<Rightarrow> int" where
  "kept_int name kvs = fold (\<lambda>j cur. case j of JNum t \<Rightarrow> (if snd (Atoi t) then fst (Atoi t) else cur) | _ \<Rightarrow> cur) (members_of name kvs) 0"

text \<open>
  The share of each person. When the total is not a number, \<open>SetString\<close> leaves an unspecified
  value behind: \<open>ac_junk\<close>. \<open>Div\<close> rounds down for a positive divisor, as \<open>div\<close> does.
\<close>

definition split_share :: "int \<Rightarrow> string \<Rightarrow> int \<Rightarrow> int \<times> int" where
  "split_share junk totalIRR people0 =
    (let people = (if people0 \<le> 0 then 2 else people0);
         tot = (case SetString (TrimSpace totalIRR) of None \<Rightarrow> junk | Some n \<Rightarrow> n)
     in (people, tot div people))"

definition api_split :: "api_call \<Rightarrow> json option \<Rightarrow> nat \<times> json" where
  "api_split a body =
    (let kvs = (case Option.bind body struct_members of None \<Rightarrow> [] | Some kvs \<Rightarrow> kvs);
         (people, share) = split_share (ac_junk a) (kept_string ''total_irr'' kvs) (kept_int ''people'' kvs)
     in writeJSONEnvelope 200 True (fa [0x645, 0x62D, 0x627, 0x633, 0x628, 0x647, 0x20, 0x62F, 0x646, 0x6AF, 0x20, 0x647, 0x631, 0x20, 0x646, 0x641, 0x631, 0x20, 0x627, 0x646, 0x62C, 0x627, 0x645, 0x20, 0x634, 0x62F])
          (JObj [(''people'', int_json people), (''share_formatted'', JStr (FormatIRRToToman (Itoa share))), (''share_irr'', JStr (Itoa share))])
          JNull)"

definition fa_night_close :: string where "fa_night_close = (fa [0x6AF, 0x632, 0x627, 0x631, 0x634, 0x20, 0x628, 0x633, 0x62A, 0x646, 0x20, 0x635, 0x646, 0x62F, 0x648, 0x642, 0x20, 0x67E, 0x627, 0x6CC, 0x627, 0x646, 0x20, 0x634, 0x628])"

definition api_close_fields :: "FinancialAnalytics \<Rightarrow> fields" where
  "api_close_fields a =
    [(''title'', JStr fa_night_close), (''total_sales'', JStr (TotalSalesIRR a)), (''cash_sales'', JStr (CashSalesIRR a)),
     (''card_sales'', JStr (CardSalesIRR a)), (''credit_sales'', JStr (CreditSalesIRR a)),
     (''total_expenses'', JStr (TotalExpensesIRR a)), (''net_operating'', JStr (NetOperatingIRR a)),
     (''orders_count'', JStr (Itoa (CompletedOrders a)))]"

definition api_day_close :: "api_call \<Rightarrow> Store \<Rightarrow> Store \<times> nat \<times> json" where
  "api_day_close a s =
    (let fin = Analytics (state s)
     in case save_call (ac_calls a) 0 ''shift_close'' [] (api_close_fields fin) s of
          (s1, res) \<Rightarrow>
            (s1, writeJSONEnvelope 200 True (fa [0x635, 0x646, 0x62F, 0x648, 0x642, 0x20, 0x631, 0x648, 0x632, 0x627, 0x646, 0x647, 0x20, 0x628, 0x627, 0x20, 0x645, 0x648, 0x641, 0x642, 0x6CC, 0x62A, 0x20, 0x628, 0x633, 0x62A, 0x647, 0x20, 0x634, 0x62F])
               (JObj [(''analytics'', analytics_json fin), (''id'', JStr (case res of Inl _ \<Rightarrow> [] | Inr i \<Rightarrow> i))]) JNull))"

text \<open>The generic write: the kind is the rest of the path, the identifier a string of the body.\<close>

definition body_map :: "json option \<Rightarrow> fields option" where
  "body_map body = (case body of Some JNull \<Rightarrow> Some [] | Some j \<Rightarrow> as_map j | None \<Rightarrow> None)"

definition api_write :: "api_call \<Rightarrow> string \<Rightarrow> json option \<Rightarrow> Store \<Rightarrow> Store \<times> nat \<times> json" where
  "api_write a kind body s =
    (case body_map body of
       None \<Rightarrow> (s, writeJSONEnvelope 400 False (fa [0x648, 0x631, 0x648, 0x62F, 0x6CC, 0x20, 0x4A, 0x53, 0x4F, 0x4E, 0x20, 0x646, 0x627, 0x645, 0x639, 0x62A, 0x628, 0x631, 0x20, 0x627, 0x633, 0x62A]) JNull JNull)
     | Some m \<Rightarrow>
        (case save_call (ac_calls a) 0 kind (case mget m ''id'' of JStr t \<Rightarrow> t | _ \<Rightarrow> []) m s of
           (s1, res) \<Rightarrow>
             (s1, case res of
                    Inl e \<Rightarrow> writeJSONEnvelope 400 False (ac_text a e) JNull JNull
                  | Inr savedID \<Rightarrow>
                      writeJSONEnvelope 200 True (fa [0x631, 0x6A9, 0x648, 0x631, 0x62F, 0x20, 0x628, 0x627, 0x20, 0x645, 0x648, 0x641, 0x642, 0x6CC, 0x62A, 0x20, 0x62F, 0x631, 0x20, 0x67E, 0x627, 0x6CC, 0x6AF, 0x627, 0x647, 0x20, 0x62F, 0x627, 0x62F, 0x647, 0x20, 0x645, 0x62D, 0x644, 0x6CC, 0x20, 0x630, 0x62E, 0x6CC, 0x631, 0x647, 0x20, 0x634, 0x62F])
                        (payload_or_null (cl_io (ac_calls a) 1) kind savedID s1) JNull)))"

text \<open>The routes; \<open>None\<close> for a request that is not of this interface.\<close>

definition local_api :: "api_call \<Rightarrow> string \<Rightarrow> string \<Rightarrow> json option \<Rightarrow> Store \<Rightarrow> Store \<times> (nat \<times> json) option" where
  "local_api a verb path body s =
    (let some = (\<lambda>(s1, r). (s1, Some r))
     in if verb = ''GET'' then (s, api_get a path s)
        else if verb \<noteq> ''POST'' then (s, None)
        else if path = ''/api/v1/pos/checkout'' then some (api_checkout a body s)
        else if path = ''/api/v1/split-bill/calculate'' then (s, Some (api_split a body))
        else if path = ''/api/v1/orders/day-close'' then some (api_day_close a s)
        else if HasPrefix path ''/api/v1/local/'' then some (api_write a (TrimPrefix path ''/api/v1/local/'') body s)
        else (s, None))"

section \<open>What the interface promises\<close>

text \<open>A request that reads changes nothing.\<close>

lemma api_reads: "verb \<noteq> ''POST'' \<Longrightarrow> fst (local_api a verb path body s) = s"
  by (simp add: local_api_def Let_def)

text \<open>
  The shares of a bill never exceed it, and miss less than one rial for each person.
\<close>

lemma split_share_bounds:
  assumes "split_share junk tt n = (people, share)" "SetString (TrimSpace tt) = Some tot"
  shows "people > 0 \<and> people * share \<le> tot \<and> tot < people * share + people"
proof -
  have p: "people > 0" and share: "share = tot div people" using assms by (auto simp: split_share_def Let_def split: if_splits)
  have "people * share + tot mod people = tot" unfolding share by (rule mult_div_mod_eq)
  with p pos_mod_bound [of people tot] pos_mod_sign [of people tot] show ?thesis by linarith
qed

text \<open>
  The nightly closing answers with success even when its record could not be saved; only the
  empty identifier tells.
\<close>

lemma api_day_close_hides_failure:
  assumes "save_call (ac_calls a) 0 ''shift_close'' [] (api_close_fields (Analytics (state s))) s = (s1, Inl e)"
  shows "\<exists>msg dat. api_day_close a s = (s1, writeJSONEnvelope 200 True msg dat JNull)"
  using assms by (auto simp: api_day_close_def Let_def)

end
