(* ===== verification/Handler_Props.thy ===== *)
theory Handler_Props
  imports Whole_Store Order_Handlers Record_Handlers Club_Handlers Print_Handlers File_Handlers Local_Api
begin

text \<open>
  What the handlers of \<open>app.go\<close> do to the store: each of them runs operations of the store one
  after the other, and nothing else.
\<close>

section \<open>Handlers as sequences of operations\<close>

abbreviation acts :: "Store \<Rightarrow> Store \<Rightarrow> bool" where
  "acts \<equiv> local_op\<^sup>*\<^sup>*"

lemma act: "local_op s s' \<Longrightarrow> acts s s'"
  by (rule r_into_rtranclp)

lemma acts_trans: "acts a b \<Longrightarrow> acts b c \<Longrightarrow> acts a c"
  by (rule rtranclp_trans)

lemma save_call_acts: "acts s (fst (save_call c n kind i fs s))"
  unfolding save_call_def by (rule act, rule local_op.intros(1), rule surjective_pairing)

lemma delete_call_acts: "acts s (fst (delete_call c n kind i s))"
  unfolding delete_call_def by (rule act, rule local_op.intros(2), rule surjective_pairing)

lemma save_and_show_acts: "acts s (fst (save_and_show c n r page kind i fs msg s))"
  using save_call_acts [of s c n kind i fs] by (auto simp: save_and_show_def split: prod.splits sum.splits)

subsection \<open>Printing\<close>

lemma create_jobs_acts: "acts s (fst (create_jobs env ix ps n out s))"
proof (induction env ix ps n out s rule: create_jobs.induct)
  case (1 env ix n out s)
  then show ?case by simp
next
  case (2 env ix p ps n out s)
  have job: "acts s (fst (savePrintJob w now j s))" for w now j
    by (rule act, rule local_op.intros(13), rule surjective_pairing)
  show ?case
    using 2 job by (auto split: option.splits sum.splits prod.splits intro: acts_trans) (metis acts_trans fst_conv)+
qed

lemma Enqueue_acts: "acts s (fst (EnqueueOrderPrintJobsDocs env i ds s))"
  by (auto simp: EnqueueOrderPrintJobsDocs_def createPrintJobs_def Let_def split: sum.splits intro: create_jobs_acts)

lemma status_acts: "acts s (fst (UpdatePrintJobStatus w now i st er s))"
  by (rule act, rule local_op.intros(14), rule surjective_pairing)

lemma dispatch_acts: "acts s (fst (dispatchPrintJob env job s))"
proof -
  obtain s1 r1 where up: "UpdatePrintJobStatus (de_io env 0) (de_now env 0) (pv_ID job) PrintStatusPrinting [] s = (s1, r1)"
    by fastforce
  then have "acts s s1" using status_acts by (metis fst_conv)
  moreover have "acts s1 (fst (dispatchPrintJob env job s))"
    by (cases r1) (auto simp: dispatchPrintJob_def up Let_def status_acts split: prod.splits)
  ultimately show ?thesis by (rule acts_trans)
qed

lemma autoPrintAsync_acts: "acts s (fst (autoPrintAsync app i event s))"
  using Enqueue_acts [of s "pa_queue app" i "event_docs app event s"]
  by (auto simp: autoPrintAsync_def Let_def split: prod.splits option.splits)

lemma dispatch_loop_acts: "acts s (fst (dispatch_loop envs i n st s))"
proof (induction n arbitrary: i st s)
  case 0
  then show ?case by simp
next
  case (Suc n)
  obtain s1 d out where run: "dispatchPrintJob (envs i) (ds_jobs st ! i) s = (s1, d, out)" by (metis prod_cases3)
  then have "acts s s1" using dispatch_acts by (metis fst_conv)
  then show ?case using Suc.IH by (auto simp: run Let_def intro: acts_trans)
qed

lemma enqueueAndDispatch_acts: "acts s (fst (enqueueAndDispatchPrintJobsDocs app errtext i ds s))"
proof -
  obtain s1 jobs e where run: "EnqueueOrderPrintJobsDocs (pa_queue app) i ds s = (s1, jobs, e)" by (metis prod_cases3)
  then have "acts s s1" using Enqueue_acts by (metis fst_conv)
  moreover have "acts s1 (fst (dispatch_loop (pa_disp app) 0 (length jobs) st s1))" for st by (rule dispatch_loop_acts)
  ultimately show ?thesis
    by (auto simp: enqueueAndDispatchPrintJobsDocs_def run split: option.splits prod.splits) (metis acts_trans fst_conv)
qed

lemma EnqueueTest_acts: "acts s (fst (EnqueueTestPrintJob env i s))"
proof -
  have job: "acts s (fst (savePrintJob w now j s))" for w now j
    by (rule act, rule local_op.intros(13), rule surjective_pairing)
  show ?thesis
    using job by (auto simp: EnqueueTestPrintJob_def Let_def split: sum.splits prod.splits) (metis fst_conv)+
qed

subsection \<open>Orders\<close>

lemma print_new_order_acts: "acts s (fst (print_new_order t r i s))"
proof -
  obtain s1 j where run: "autoPrintAsync (ti_print t 0) i ''notable'' s = (s1, j)" by fastforce
  then have "acts s s1" using autoPrintAsync_acts by (metis fst_conv)
  then have "acts s (fst (autoPrintAsync (ti_print t 1) i ''checkout'' s1))" using autoPrintAsync_acts acts_trans by blast
  then show ?thesis
    using autoPrintAsync_acts [of s "ti_print t 0" i "''create''"] by (auto simp: print_new_order_def run split: prod.splits)
qed

lemma handleCreatePOSOrder_acts: "acts s (fst (handleCreatePOSOrder t c sess r s))"
proof -
  obtain s1 res where run: "CreatePOSOrder (cl_io c 0) (ti_day t) (ti_today t) (cl_rnd c 0) (ti_gen t) (cl_now c 0)
      (pos_input (ti_offset t) (ti_time t) sess r) s = (s1, res)" by fastforce
  then have "acts s s1" by (intro act local_op.intros(3))
  then show ?thesis
    using print_new_order_acts [of s1 t r]
    by (auto simp: handleCreatePOSOrder_def run split: option.splits sum.splits prod.splits) (metis acts_trans fst_conv)
qed

lemma status_change_acts: "acts s (fst (UpdateLocalOrderStatusReason w rs now i st reason s))"
  by (rule act, rule local_op.intros(7), rule surjective_pairing)

lemma handleOrderStatus_acts: "acts s (fst (handleOrderStatus t c rs r s))"
proof -
  obtain s1 res where run: "UpdateLocalOrderStatusReason (cl_io c 0) rs (cl_now c 0) (trimmed r ''order_id'') (trimmed r ''status'')
      (trimmed r ''reason'') s = (s1, res)" by fastforce
  then have "acts s s1" using status_change_acts by (metis fst_conv)
  then show ?thesis
    using autoPrintAsync_acts [of s1 "ti_print t 0" "trimmed r ''order_id''" "''complete''"]
    by (auto simp: handleOrderStatus_def run Let_def split: sum.splits prod.splits intro: acts_trans)
qed

lemma one_call_acts:
  "acts s (fst (handleOrderEdit t c r s))" "acts s (fst (handleOrderTransfer c r s))"
  "acts s (fst (handleSplitPay c r s))" "acts s (fst (handleSplitUndo c r s))"
  "acts s (fst (handleOrderDefer t c r s))" "acts s (fst (handleDebtorPay c r s))"
  unfolding handleOrderEdit_def handleOrderTransfer_def handleSplitPay_def handleSplitUndo_def handleOrderDefer_def
    handleDebtorPay_def Let_def
  by (auto split: prod.splits sum.splits intro!: act intro: local_op.intros)

lemma handleOrderAdvance_acts: "acts s (fst (handleOrderAdvance c rs r s))"
  unfolding handleOrderAdvance_def Let_def
  by (auto split: prod.splits sum.splits intro!: act intro: local_op.intros)

lemma till_settings_acts: "acts s (fst (handlePOSStages c r s))" "acts s (fst (handleDayClose c r s))"
  by (simp_all add: handlePOSStages_def handleDayClose_def Let_def save_and_show_acts)

subsection \<open>Records, warehouse and club\<close>

lemma editor_save_acts: "acts s (fst (editor_save c r raw s))"
  using save_call_acts [of s c 0] delete_call_acts [of s c 0]
  by (auto simp: editor_save_def Let_def split: option.splits prod.splits sum.splits) (metis fst_conv)+

lemma queueCatalog_acts: "acts s (fst (queueCatalog True c r s))"
  by (simp add: queueCatalog_def Let_def editor_save_acts split: option.splits)

lemma bulk_tables_acts: "acts s (fst (bulk_tables c p z cap start ns s))"
proof (induction ns arbitrary: s)
  case Nil
  then show ?case by simp
next
  case (Cons n ns)
  obtain s1 res where run: "save_call c n ''table'' [] (bulk_table p z cap (w64 (start + int n))) s = (s1, res)" by fastforce
  then have "acts s s1" using save_call_acts by (metis fst_conv)
  then show ?case using Cons.IH [of s1] by (auto simp: run split: sum.splits intro: acts_trans)
qed

lemma handleTablesBulk_acts: "acts s (fst (handleTablesBulk c r s))"
proof -
  have "acts s (fst (case bulk_tables c p z cap start ns s of (s1, Some e) \<Rightarrow> (s1, a e) | (s1, None) \<Rightarrow> (s1, b)))"
    for p z cap start ns and a :: "err \<Rightarrow> answer" and b
    using bulk_tables_acts [of s c p z cap start ns] by (auto split: prod.split option.split)
  then show ?thesis by (simp add: handleTablesBulk_def Let_def)
qed

lemma handleLocalDelete_acts: "acts s (fst (handleLocalDelete c r s))"
proof -
  have "acts s (fst (case delete_call c 2 k i s of (s1, Inl e) \<Rightarrow> (s1, a e) | (s1, Inr u) \<Rightarrow> (s1, b u)))"
    for k i and a :: "err \<Rightarrow> answer" and b
    using delete_call_acts [of s c 2 k i] by (auto split: prod.split sum.split)
  then show ?thesis by (simp add: handleLocalDelete_def Let_def split: sum.split)
qed

lemma handleTaskToggle_acts: "acts s (fst (handleTaskToggle c r s))"
  by (auto simp: handleTaskToggle_def Let_def save_call_acts split: sum.splits)

lemma attach_recipe_acts: "acts s (attach_recipe c i items s)"
  by (auto simp: attach_recipe_def Let_def save_call_acts split: sum.splits option.splits)

lemma save_product_acts: "acts s (fst (save_product c r page kind i fs items s))"
proof -
  obtain s1 res where run: "save_call c 0 kind i fs s = (s1, res)" by fastforce
  then have "acts s s1" using save_call_acts by (metis fst_conv)
  then show ?thesis using attach_recipe_acts by (auto simp: save_product_def run split: sum.splits intro: acts_trans)
qed

lemma handleLocalSave_acts: "acts s (fst (handleLocalSave c ios up r s))"
  unfolding handleLocalSave_def Let_def by (simp add: save_product_acts split: option.split sum.split)

lemma stock_call_acts: "acts s (fst (stock_call c r page ty q u note s))"
  unfolding stock_call_def by (auto split: prod.splits sum.splits intro!: act intro: local_op.intros)

lemma warehouse_acts:
  "acts s (fst (handleStockMovement c r s))" "acts s (fst (handleWasteVoid c r s))" "acts s (fst (handleSaveRecipe c ios r s))"
  unfolding handleStockMovement_def handleWasteVoid_def handleSaveRecipe_def Let_def
  by (auto simp: stock_call_acts save_and_show_acts split: prod.splits sum.splits option.splits intro!: act intro: local_op.intros)

lemma toggle_record_acts: "acts s (fst (toggle_record c r page kind key field flip missing s))"
  by (auto simp: toggle_record_def Let_def save_and_show_acts split: sum.splits)

lemma detach_members_acts: "acts s (detach_members c n es s)"
  by (induction c n es s rule: detach_members.induct) (auto intro: acts_trans save_call_acts)

lemma handleClubGroupDelete_acts: "acts s (fst (handleClubGroupDelete c r s))"
proof -
  let ?s1 = "detach_members c 2 (filter (\<lambda>e. TrimSpace (Field e ''group_id'') = trimmed r ''group_id'')
    (list_or_empty (cl_io c 0) ''customer'' s)) s"
  have "acts s (fst (delete_call c 1 ''customer_group'' (trimmed r ''group_id'') ?s1))"
    using detach_members_acts delete_call_acts acts_trans by blast
  then show ?thesis by (auto simp: handleClubGroupDelete_def Let_def split: prod.splits sum.splits)
qed

lemma handleClubPaymentConfirm_acts: "acts s (fst (handleClubPaymentConfirm c r s))"
proof -
  obtain s1 res where run: "save_call c 1 ''membership_payment'' (trimmed r ''payment_id'')
    [(''status'', JStr ''paid''), (''reference_number'', JStr (trimmed r ''reference_number'')), (''paid_at'', JStr (cl_now c 0))] s
      = (s1, res)" by fastforce
  then have "acts s s1" using save_call_acts by (metis fst_conv)
  then show ?thesis
    by (auto simp: handleClubPaymentConfirm_def Let_def run [unfolded One_nat_def] split: sum.splits intro: acts_trans save_call_acts)
qed

lemma club_acts:
  "acts s (fst (handleClubCustomer c r s))" "acts s (fst (handleClubCreditToggle c r s))"
  "acts s (fst (handleClubGroupToggle c r s))" "acts s (fst (handleClubGroupCredit c r s))"
  by (auto simp: handleClubCustomer_def handleClubCreditToggle_def handleClubGroupToggle_def handleClubGroupCredit_def
      Let_def toggle_record_acts save_and_show_acts split: sum.splits)

lemma club_save_acts:
  "acts s (fst (handleClubPayment c r s))" "acts s (fst (handleClubGroup c r s))"
  "acts s (fst (handleClubGroupMember c r s))" "acts s (fst (handleClubGroupMemberRemove c r s))"
  unfolding handleClubPayment_def handleClubGroup_def handleClubGroupMember_def handleClubGroupMemberRemove_def Let_def save_call_def
  by (auto split: sum.splits prod.splits option.splits intro!: act intro: local_op.intros(1))

subsection \<open>Printers\<close>

lemma printer_settings_acts:
  "acts s (fst (handlePrinterToggle c r s))" "acts s (fst (handlePrintPolicy c r s))"
  "acts s (fst (handlePrinterRouteToggle c r s))"
  by (auto simp: handlePrinterToggle_def handlePrintPolicy_def handlePrinterRouteToggle_def Let_def save_and_show_acts
      split: option.splits)

lemma handlePrinterRouteSave_acts: "acts s (fst (handlePrinterRouteSave c r s))"
  using delete_call_acts [of s c 2 "''printer_route''"]
  by (auto simp: handlePrinterRouteSave_def Let_def save_and_show_acts split: sum.splits prod.splits) (metis fst_conv)+

lemma print_document_acts: "acts s (fst (print_document c envs doc n js acc s))"
proof (induction js arbitrary: n acc s)
  case Nil
  then show ?case by simp
next
  case (Cons j js)
  define s1 where "s1 = (if pv_Status j = PrintStatusPrinted
    then fst (UpdatePrintJobStatus (cl_io c n) (cl_now c n) (pv_ID j) PrintStatusPending [] s) else s)"
  define j1 where "j1 = (if pv_Status j = PrintStatusPrinted then j\<lparr>pv_Status := PrintStatusPending\<rparr> else j)"
  have s1: "acts s s1" by (simp add: s1_def status_acts)
  obtain s2 d out where run: "dispatchPrintJob (envs n) j1 s1 = (s2, d, out)" by (metis prod_cases3)
  then have "acts s s2" using s1 dispatch_acts acts_trans by (metis fst_conv)
  then have next1: "acts s (fst (print_document c envs doc m js a s2))" "acts s (fst (print_document c envs doc m js a s1))" for m a
    using Cons.IH s1 acts_trans by blast+
  show ?case
    using next1 Cons.IH [of s "Suc n" acc]
    by (cases acc) (auto simp: run Let_def s1_def [symmetric] j1_def [symmetric] split: prod.splits, (metis fst_conv next1)+)
qed

lemma print_request_acts:
  "acts s (fst (handlePrintRetry c app env r s))" "acts s (fst (handlePrintTest app env r s))"
proof -
  show "acts s (fst (handlePrintRetry c app env r s))"
    using dispatch_acts [of s env] by (auto simp: handlePrintRetry_def split: sum.splits prod.splits) (metis fst_conv)
  obtain s1 res where run: "EnqueueTestPrintJob (pa_queue app) (trimmed r ''printer_id'') s = (s1, res)" by fastforce
  then have "acts s s1" using EnqueueTest_acts by (metis fst_conv)
  then show "acts s (fst (handlePrintTest app env r s))"
    using dispatch_acts [of s1 env] by (auto simp: handlePrintTest_def run Let_def split: sum.splits prod.splits) (metis acts_trans fst_conv)
qed

lemma handlePrintOrder_acts: "acts s (fst (handlePrintOrder c app envs errtext r s))"
proof -
  obtain s1 jobs e where run: "EnqueueOrderPrintJobs (pa_queue app) (trimmed r ''order_id'') s = (s1, jobs, e)" by (metis prod_cases3)
  then have "acts s s1" using Enqueue_acts by (metis EnqueueOrderPrintJobs_def fst_conv)
  then have "acts s (fst (print_document c envs d 0 jobs a s1))" for d a using print_document_acts acts_trans by blast
  moreover have "acts s (fst (enqueueAndDispatchPrintJobs app errtext (trimmed r ''order_id'') s))"
    by (simp add: enqueueAndDispatchPrintJobs_def enqueueAndDispatch_acts)
  ultimately show ?thesis using \<open>acts s s1\<close>
    by (auto simp: handlePrintOrder_def run Let_def split: option.splits prod.splits) (metis fst_conv)+
qed

section \<open>Requests and the store\<close>

lemma import_rows_acts: "acts s (fst (import_rows c cats i recs n s))"
proof (induction c cats i recs n s rule: import_rows.induct)
  case (2 c cats i rec recs created failed s)
  obtain s1 res where run: "save_call c (i + 1) ''product'' [] (import_fields cats (row_title rec) rec) s = (s1, res)" by fastforce
  then have "acts s s1" using save_call_acts by (metis fst_conv)
  then show ?case using 2 run by (auto simp: Let_def split: sum.splits intro: acts_trans)
qed simp

lemma handleProductsImport_acts: "acts s (fst (handleProductsImport c form_ok file r s))"
proof -
  have "acts s (fst (case import_rows c cats i recs n s of (s1, a, b) \<Rightarrow> (s1, f a b)))" for cats i recs n and f :: "nat \<Rightarrow> nat \<Rightarrow> answer"
    using import_rows_acts [of s c cats i recs n] by (auto split: prod.split)
  then show ?thesis by (auto simp: handleProductsImport_def split: option.split sum.split)
qed

lemma api_acts: "acts s (fst (api_checkout a body s))" "acts s (fst (api_day_close a s))" "acts s (fst (api_write a kind body s))"
proof -
  have create: "acts s (fst (case CreatePOSOrder w d t rnd g now req s of (s1, Inl e) \<Rightarrow> (s1, p e) | (s1, Inr i) \<Rightarrow> (s1, q s1 i)))"
    for w d t rnd g now req and p :: "err \<Rightarrow> nat \<times> json" and q
    by (auto split: prod.split sum.split intro!: act intro: local_op.intros)
  then show "acts s (fst (api_checkout a body s))" by (auto simp: api_checkout_def Let_def split: option.split)
  have save: "acts s (fst (case save_call c n k i m s of (s1, res) \<Rightarrow> (s1, q s1 res)))" for c n k i m and q :: "Store \<Rightarrow> err + string \<Rightarrow> nat \<times> json"
    using save_call_acts [of s c n k i m] by (auto split: prod.split)
  then show "acts s (fst (api_day_close a s))" by (simp add: api_day_close_def Let_def)
  show "acts s (fst (api_write a kind body s))"
  proof (cases "body_map body")
    case (Some m)
    then show ?thesis unfolding api_write_def by (simp only: option.case save)
  qed (simp add: api_write_def)
qed

lemma local_api_acts: "acts s (fst (local_api a verb path body s))"
proof -
  have "fst (case x of (s1, r) \<Rightarrow> (s1, Some r)) = fst x" for x :: "Store \<times> nat \<times> json" by (simp split: prod.split)
  then show ?thesis unfolding local_api_def Let_def by (simp only: if_distrib [of fst] fst_conv api_acts rtranclp.rtrancl_refl split: if_split) simp
qed

lemma handleSeedDemo_acts: "acts s (fst (handleSeedDemo c r s))"
  by (auto simp: handleSeedDemo_def split: prod.split sum.split intro!: act intro: local_op.intros)

inductive handled :: "Store \<Rightarrow> Store \<Rightarrow> bool" where
  "handled s (fst (handleCreatePOSOrder t c sess r s))"
| "handled s (fst (handleOrderStatus t c rs r s))"
| "handled s (fst (handleOrderEdit t c r s))"
| "handled s (fst (handleOrderTransfer c r s))"
| "handled s (fst (handleOrderAdvance c rs r s))"
| "handled s (fst (handleSplitPay c r s))"
| "handled s (fst (handleSplitUndo c r s))"
| "handled s (fst (handleOrderDefer t c r s))"
| "handled s (fst (handleDebtorPay c r s))"
| "handled s (fst (handlePOSStages c r s))"
| "handled s (fst (handleDayClose c r s))"
| "handled s (fst (queueCatalog True c r s))"
| "handled s (fst (handleTablesBulk c r s))"
| "handled s (fst (handleLocalSave c ios up r s))"
| "handled s (fst (handleLocalDelete c r s))"
| "handled s (fst (handleTaskToggle c r s))"
| "handled s (fst (handleWasteVoid c r s))"
| "handled s (fst (handleStockMovement c r s))"
| "handled s (fst (handleSaveRecipe c ios r s))"
| "handled s (fst (handleClubCustomer c r s))"
| "handled s (fst (handleClubCreditToggle c r s))"
| "handled s (fst (handleClubPayment c r s))"
| "handled s (fst (handleClubPaymentConfirm c r s))"
| "handled s (fst (handleClubGroup c r s))"
| "handled s (fst (handleClubGroupToggle c r s))"
| "handled s (fst (handleClubGroupCredit c r s))"
| "handled s (fst (handleClubGroupDelete c r s))"
| "handled s (fst (handleClubGroupMember c r s))"
| "handled s (fst (handleClubGroupMemberRemove c r s))"
| "handled s (fst (handlePrinterToggle c r s))"
| "handled s (fst (handlePrintPolicy c r s))"
| "handled s (fst (handlePrinterRouteSave c r s))"
| "handled s (fst (handlePrinterRouteToggle c r s))"
| "handled s (fst (handlePrintOrder c app envs errtext r s))"
| "handled s (fst (handlePrintRetry c app env r s))"
| "handled s (fst (handlePrintTest app env r s))"
| "handled s (fst (handleProductsImport c form_ok file r s))"
| "handled s (fst (local_api a verb path body s))"
| "handled s (fst (dispatchPrintJob env job s))"
| "handled s (fst (handleSeedDemo c r s))"

lemmas handler_acts =
  handleCreatePOSOrder_acts handleOrderStatus_acts one_call_acts handleOrderAdvance_acts till_settings_acts
  queueCatalog_acts handleTablesBulk_acts handleLocalSave_acts handleLocalDelete_acts handleTaskToggle_acts warehouse_acts
  club_acts club_save_acts handleClubPaymentConfirm_acts handleClubGroupDelete_acts printer_settings_acts
  handlePrinterRouteSave_acts handlePrintOrder_acts print_request_acts handleProductsImport_acts local_api_acts dispatch_acts handleSeedDemo_acts

lemma handled_acts: "handled s s' \<Longrightarrow> acts s s'"
  by (induction rule: handled.induct) (rule handler_acts)+

lemma handled_steps_act: "handled\<^sup>*\<^sup>* s s' \<Longrightarrow> acts s s'"
  by (induction rule: rtranclp_induct) (auto dest: handled_acts intro: acts_trans)


section \<open>Deleting an order\<close>

lemma order_key:
  assumes "entityKey kind j = entityKey ''order'' i" "CHR 0x00 \<notin> set i"
  shows "kind = ''order'' \<and> j = i"
proof -
  have k: "kind @ CHR 0x00 # j = ''order'' @ CHR 0x00 # i" using assms(1) by (simp add: entityKey_def)
  have "CHR 0x00 \<notin> set kind"
  proof
    assume "CHR 0x00 \<in> set kind"
    then obtain a b where "kind = a @ CHR 0x00 # b" "CHR 0x00 \<notin> set a" by (metis split_list_first)
    with k have "a = ''order'' \<and> b @ CHR 0x00 # j = i"
      using sep_inj [of "CHR 0x00" a "''order''" "b @ CHR 0x00 # j" i] by simp
    then show False using assms(2) by auto
  qed
  then show ?thesis using k sep_inj [of "CHR 0x00" kind "''order''" j i] by simp
qed

lemma DeleteLocalRecord_state:
  assumes "DeleteLocalRecord w kind j s = (s', res)" "state s' \<noteq> state s"
  shows "\<exists>d. state s' = putEntity (entityKey kind j) d (state s)"
proof -
  have "DeleteLocalRecord_tx kind j (state s) = Inr (state s', ())"
    using assms by (auto simp: DeleteLocalRecord_def elim: tx.run_view split: if_splits)
  then show ?thesis by (auto simp: DeleteLocalRecord_tx_def split: option.splits dest: sym)
qed

text \<open>The state after a call whose result only decides the answer.\<close>

lemma fst_call [simp]: "fst (case x of (s1, Inl e) \<Rightarrow> (s1, f e) | (s1, Inr u) \<Rightarrow> (s1, g u)) = fst x"
  by (auto split: prod.split sum.split)

lemma order_entity: "live (state s) ''order'' i = Some e \<Longrightarrow> EntityOf w ''order'' i s = Inr ent \<Longrightarrow> ent = entity_view e"
  by (auto simp: EntityOf_def split: if_splits option.splits)

lemma handleLocalDelete_cases:
  "P s \<Longrightarrow> P (fst (delete_call c 2 (trimmed r ''kind'') (trimmed r ''id'') s)) \<Longrightarrow> P (fst (handleLocalDelete c r s))"
  unfolding handleLocalDelete_def Let_def by (auto split: sum.split)


section \<open>The policy of automatic prints\<close>

lemma save_and_show_done:
  assumes "save_and_show c n r page kind i fs MDone s = (s', Rendered q MDone)"
  shows "\<exists>j. SaveLocalRecord (cl_io c n) (cl_rnd c n) (cl_now c n) kind i fs s = (s', Inr j)"
  using assms by (auto simp: save_and_show_def save_call_def navigatePage_def split: prod.splits sum.splits if_splits)

text \<open>What a saved profile reads as.\<close>

lemma saved_profile:
  assumes "SaveLocalRecord w1 rnd now ''cafe_profile'' ''cafe-main-profile'' fs s = (s', Inr j)" "gmap fs" "ctx_ok w"
  shows "\<exists>prof. profile w s' = Inr prof \<and> (\<forall>k. k \<notin> own_fields \<longrightarrow> Field prof k =
    (case map_of fs k of Some v \<Rightarrow> field_text v | None \<Rightarrow> (case profile w s of Inl _ \<Rightarrow> [] | Inr old \<Rightarrow> Field old k)))"
proof -
  let ?key = "entityKey ''cafe_profile'' ''cafe-main-profile''"
  have trim: "TrimSpace ''cafe-main-profile'' = ''cafe-main-profile''" by (rule TrimSpace_graph) (simp_all add: graph_def)
  have j: "j = ''cafe-main-profile''"
    using assms(1) by (auto simp: SaveLocalRecord_def Let_def trim SaveLocalRecord_tx_def dest!: withTx_ok split: if_splits option.splits)
  define e where "e = \<lparr> se_ID = j, se_Type = ''cafe_profile'', se_Version = next_version (getEntity (state s) ?key), se_Deleted = False,
    se_Payload = marshal (merged_fields now False j fs (getEntity (state s) ?key)) \<rparr>"
  have "state s' = putEntity ?key e (state s)"
    using SaveLocalRecord_ok(2) [OF assms(1)] trim by (simp add: SaveLocalRecord_tx_def e_def j Let_def)
  then have "profile w s' = Inr (entity_view e)" using assms(3) by (simp add: profile_def EntityOf_def e_def)
  moreover have "Field (entity_view e) k = (case map_of fs k of Some v \<Rightarrow> field_text v
      | None \<Rightarrow> (case profile w s of Inl _ \<Rightarrow> [] | Inr old \<Rightarrow> Field old k))" if "k \<notin> own_fields" for k
    using saved_field [OF assms(2) that, of now False j "state s" "''cafe_profile''"] assms(3)
    by (auto simp: Field_def entity_view_def e_def j profile_def EntityOf_def split: option.splits)
  ultimately show ?thesis by blast
qed

lemma policy_key_inj:
  assumes "CHR ''_'' \<notin> set g" "CHR ''_'' \<notin> set g'"
  shows "policy_key g k = policy_key g' k' \<longleftrightarrow> g = g' \<and> k = k'"
  using sep_inj [OF assms] by (simp add: policy_key_def)

lemma policy_group_plain: "g \<in> set policy_groups \<Longrightarrow> CHR ''_'' \<notin> set g"
  by (auto simp: policy_groups_def)

lemma policy_fields_keys:
  "policy_fields r g = Some f \<Longrightarrow> (k, v) \<in> set f \<Longrightarrow> \<exists>x. k = policy_key g x"
  by (auto simp: policy_fields_def Let_def policy_key_def split: if_splits)

lemma policy_fields_other:
  assumes "policy_fields r g' = Some f" "g \<in> set policy_groups" "g' \<in> set policy_groups" "g \<noteq> g'"
  shows "map_of f (policy_key g k) = None"
  using policy_fields_keys [OF assms(1)] assms(2-4) policy_key_inj policy_group_plain
  by (metis map_of_SomeD not_None_eq)

lemma policy_four:
  assumes "those (map (policy_fields r) policy_groups) = Some fss"
  obtains f1 f2 f3 f4 where "policy_fields r ''create'' = Some f1" "policy_fields r ''notable'' = Some f2"
    "policy_fields r ''checkout'' = Some f3" "policy_fields r ''complete'' = Some f4" "concat fss = f1 @ f2 @ f3 @ f4"
  using assms by (auto simp: policy_groups_def split: option.splits)

lemma policy_map:
  assumes "those (map (policy_fields r) policy_groups) = Some fss" "g \<in> set policy_groups"
  shows "map_of (concat fss) (policy_key g k) = map_of (the (policy_fields r g)) (policy_key g k)"
proof -
  obtain f1 f2 f3 f4 where f: "policy_fields r ''create'' = Some f1" "policy_fields r ''notable'' = Some f2"
    "policy_fields r ''checkout'' = Some f3" "policy_fields r ''complete'' = Some f4" "concat fss = f1 @ f2 @ f3 @ f4"
    using policy_four [OF assms(1)] by blast
  note other = policy_fields_other [OF f(1)] policy_fields_other [OF f(2)] policy_fields_other [OF f(3)] policy_fields_other [OF f(4)]
  from assms(2) have "g = ''create'' \<or> g = ''notable'' \<or> g = ''checkout'' \<or> g = ''complete''" by (simp add: policy_groups_def)
  then show ?thesis
    by (elim disjE) (simp_all add: f other policy_groups_def map_add_def split: option.split)
qed

lemma policy_gmap:
  assumes "those (map (policy_fields r) policy_groups) = Some fss"
  shows "gmap (concat fss)"
proof -
  obtain f1 f2 f3 f4 where f: "policy_fields r ''create'' = Some f1" "policy_fields r ''notable'' = Some f2"
    "policy_fields r ''checkout'' = Some f3" "policy_fields r ''complete'' = Some f4" "concat fss = f1 @ f2 @ f3 @ f4"
    using policy_four [OF assms] by blast
  have d: "distinct (map fst f)" if "policy_fields r g = Some f" for g f
    using that by (auto simp: policy_fields_def Let_def policy_key_def split: if_splits)
  have disj: "fst ` set f \<inter> fst ` set f' = {}" if "policy_fields r g = Some f" "policy_fields r g' = Some f'" "g \<in> set policy_groups"
    "g' \<in> set policy_groups" "g \<noteq> g'" for g g' f f'
    using policy_fields_keys [OF that(1)] policy_fields_keys [OF that(2)] policy_key_inj policy_group_plain that(3-) by fastforce
  show ?thesis
    unfolding gmap_def f(5)
    using d [OF f(1)] d [OF f(2)] d [OF f(3)] d [OF f(4)] disj [OF f(1) f(2)] disj [OF f(1) f(3)] disj [OF f(1) f(4)]
      disj [OF f(2) f(3)] disj [OF f(2) f(4)] disj [OF f(3) f(4)]
    by (simp add: policy_groups_def Int_Un_distrib)
qed

text \<open>The policy as a function of what the profile reads as.\<close>

definition profile_field :: "io \<Rightarrow> Store \<Rightarrow> string \<Rightarrow> string" where
  "profile_field w s k = (case profile w s of Inl _ \<Rightarrow> [] | Inr prof \<Rightarrow> Field prof k)"

definition scenario_from :: "(string \<Rightarrow> string) \<Rightarrow> string \<Rightarrow> PrintScenario" where
  "scenario_from F g =
    (let b = the (scenario_of defaultPolicy g); m = TrimSpace (F (policy_key g ''mode'')); d = TrimSpace (F (policy_key g ''doc''));
         t = TrimSpace (F (policy_key g ''copies'')); n = Atoi t; v = TrimSpace (F (policy_key g ''merchant''))
     in b\<lparr>sc_Mode := (if m \<noteq> [] then m else sc_Mode b), sc_Doc := (if d \<noteq> [] then d else sc_Doc b),
          sc_Copies := (if t \<noteq> [] \<and> snd n \<and> fst n \<ge> 1 \<and> fst n \<le> 5 then fst n else sc_Copies b),
          sc_Merchant := (if g = ''checkout'' \<and> v \<noteq> [] then v = ''true'' else sc_Merchant b)\<rparr>)"

lemma printPolicy_reads:
  assumes "g \<in> set policy_groups"
  shows "scenario_of (printPolicy w s) g = Some (scenario_from (profile_field w s) g)"
proof -
  from assms have "g = ''create'' \<or> g = ''notable'' \<or> g = ''checkout'' \<or> g = ''complete''" by (simp add: policy_groups_def)
  then show ?thesis
    by (elim disjE; cases "profile w s")
      (simp_all add: printPolicy_def scenario_of_def scenario_from_def profile_field_def apply_policy_def defaultPolicy_def
        policy_key_def Let_def)
qed

lemma form_copies_bounds: "1 \<le> form_copies t \<and> form_copies t \<le> 5"
  by (auto simp: form_copies_def split: prod.splits)

lemma policy_doc_trim: "TrimSpace (policy_doc g d) = policy_doc g d" "policy_doc g d \<noteq> []"
  using TrimSpace_graph [of "''kitchen''"] TrimSpace_graph [of "''cashier''"] TrimSpace_graph [of "''all''"]
  by (auto simp: policy_doc_def graph_def)

lemma boolStr_trim [simp]: "TrimSpace (boolStr b) = boolStr b" "boolStr b \<noteq> []" "boolStr b = ''true'' \<longleftrightarrow> b"
  using TrimSpace_graph [of "''true''"] TrimSpace_graph [of "''false''"] by (auto simp: boolStr_def graph_def)

text \<open>
  The policy of automatic prints that a person sets is the policy that the prints follow:
  once the page says that the form was saved, every group of the form is read back with its
  mode, its document (or the default of the group for an unknown one), its copies (one, for a
  number that is not between 1 and 5) and, at checkout, the copy for the merchant; a group that
  the form did not give keeps its scenario as it was.
\<close>

theorem PrintPolicy_roundtrip:
  assumes "handlePrintPolicy c r s = (s', Rendered q MDone)" "ctx_ok w" "g \<in> set policy_groups"
  shows "\<exists>sc. scenario_of (printPolicy w s') g = Some sc \<and>
    (if trimmed r (policy_key g ''mode'') = [] then scenario_of (printPolicy w s) g = Some sc
     else sc_Mode sc = trimmed r (policy_key g ''mode'') \<and> sc_Doc sc = policy_doc g (trimmed r (policy_key g ''doc'')) \<and>
       sc_Copies sc = form_copies (Get r (policy_key g ''copies'')) \<and>
       (g = ''checkout'' \<longrightarrow> sc_Merchant sc = (Get r ''pw_checkout_merchant'' = ''on'')))"
proof -
  obtain fss where fss: "those (map (policy_fields r) policy_groups) = Some fss"
    using assms(1) by (auto simp: handlePrintPolicy_def navigatePage_def split: option.splits if_splits)
  then have "save_and_show c 0 r ''settings'' ''cafe_profile'' ''cafe-main-profile'' (concat fss) MDone s = (s', Rendered q MDone)"
    using assms(1) by (auto simp: handlePrintPolicy_def navigatePage_def split: if_splits)
  then obtain j where "SaveLocalRecord (cl_io c 0) (cl_rnd c 0) (cl_now c 0) ''cafe_profile'' ''cafe-main-profile'' (concat fss) s = (s', Inr j)"
    using save_and_show_done by blast
  from saved_profile [OF this policy_gmap [OF fss] assms(2)] obtain prof where prof: "profile w s' = Inr prof"
    and fields: "\<And>k. k \<notin> own_fields \<Longrightarrow> Field prof k =
      (case map_of (concat fss) k of Some v \<Rightarrow> field_text v | None \<Rightarrow> profile_field w s k)"
    unfolding profile_field_def by blast
  have reads: "profile_field w s' k = (case map_of (concat fss) k of Some v \<Rightarrow> field_text v | None \<Rightarrow> profile_field w s k)"
    if "k \<notin> own_fields" for k using fields [OF that] by (simp add: profile_field_def [of w s'] prof)
  obtain f where f: "policy_fields r g = Some f"
    using policy_four [OF fss] assms(3) by (auto simp: policy_groups_def)
  have key: "profile_field w s' (policy_key g k) =
      (case map_of f (policy_key g k) of Some v \<Rightarrow> field_text v | None \<Rightarrow> profile_field w s (policy_key g k))" for k
    using policy_map [OF fss assms(3), of k] reads [of "policy_key g k"] by (simp add: f policy_key_def)
  show ?thesis
  proof (cases "trimmed r (policy_key g ''mode'') = []")
    case True
    then have "f = []" using f by (simp add: policy_fields_def Let_def)
    then show ?thesis using key True by (simp add: printPolicy_reads [OF assms(3)] scenario_from_def)
  next
    case False
    have trim: "TrimSpace (trimmed r k) = trimmed r k" for k by (simp add: trimmed_def)
    have merchant: "policy_key ''checkout'' ''merchant'' = ''pw_checkout_merchant''" by (simp add: policy_key_def)
    have fs: "f = [(policy_key g ''mode'', JStr (trimmed r (policy_key g ''mode''))),
        (policy_key g ''doc'', JStr (policy_doc g (trimmed r (policy_key g ''doc'')))),
        (policy_key g ''copies'', JStr (Itoa (form_copies (Get r (policy_key g ''copies'')))))]
        @ (if g = ''checkout'' then [(policy_key g ''merchant'', JStr (boolStr (Get r ''pw_checkout_merchant'' = ''on'')))] else [])"
      using f False by (auto simp: policy_fields_def Let_def merchant split: if_splits)
    have inj: "policy_key g' a = policy_key g' b \<longleftrightarrow> a = b" for g' a b by (simp add: policy_key_def)
    have at: "profile_field w s' (policy_key g ''mode'') = trimmed r (policy_key g ''mode'')"
      "profile_field w s' (policy_key g ''doc'') = policy_doc g (trimmed r (policy_key g ''doc''))"
      "profile_field w s' (policy_key g ''copies'') = Itoa (form_copies (Get r (policy_key g ''copies'')))"
      by (simp_all add: key fs inj)
    have "profile_field w s' (policy_key g ''merchant'') = boolStr (Get r ''pw_checkout_merchant'' = ''on'')" if "g = ''checkout''"
      using key [of "''merchant''"] that by (simp add: fs inj)
    note at = at this
    have "in64 (form_copies t)" for t using form_copies_bounds [of t] by (simp add: in64_def)
    then show ?thesis
      using False at form_copies_bounds [of "Get r (policy_key g ''copies'')"]
      by (simp add: printPolicy_reads [OF assms(3)] scenario_from_def Let_def trim policy_doc_trim Atoi_Itoa)
  qed
qed

section \<open>Concrete requests\<close>

definition demo_calls :: calls where
  "demo_calls = \<lparr> cl_io = (\<lambda>_. all_ok), cl_now = (\<lambda>_. ''t1''), cl_rnd = (\<lambda>_. demo_uuid 1) \<rparr>"

lemma demo_calls_simps [simp]: "cl_io demo_calls n = all_ok" "cl_now demo_calls n = ''t1''" "cl_rnd demo_calls n = demo_uuid 1"
  by (simp_all add: demo_calls_def)

lemma ctx_all_ok [simp]: "ctx_ok all_ok"
  by (simp add: all_ok_def)

lemma save_all_ok:
  assumes "\<not> Store.closed s" "TrimSpace kind \<noteq> []" "TrimSpace i \<noteq> []" "validateLocalFields kind fs = None"
  shows "\<exists>s'. SaveLocalRecord all_ok rnd now kind i fs s = (s', Inr i)"
proof -
  obtain db where tx: "SaveLocalRecord_tx now False kind i fs (state s) = Inr (db, i)"
    by (simp add: SaveLocalRecord_tx_def Let_def)
  show ?thesis
    using withTx_all_ok [of s "SaveLocalRecord_tx now False kind i fs", OF assms(1) tx] assms(2-) by (simp add: SaveLocalRecord_def)
qed

definition demo_policy :: http_request where
  "demo_policy = \<lparr> hr_Form = [(''pw_checkout_mode'', [''both'']), (''pw_checkout_copies'', [''3'']), (''pw_checkout_merchant'', [''on''])],
     hr_HX = True \<rparr>"

lemma demo_trim: "TrimSpace ''both'' = ''both''" "TrimSpace ''3'' = ''3''" "TrimSpace ''cafe_profile'' \<noteq> []"
  "TrimSpace ''cafe-main-profile'' \<noteq> []"
  using TrimSpace_graph [of "''both''"] TrimSpace_graph [of "''3''"] TrimSpace_graph [of "''cafe_profile''"]
    TrimSpace_graph [of "''cafe-main-profile''"]
  by (simp_all add: graph_def)

lemma demo_policy_run:
  assumes "\<not> Store.closed s"
  shows "\<exists>s'. handlePrintPolicy demo_calls demo_policy s = (s', Rendered [(''page'', ''settings'')] MDone)"
proof -
  have fields: "those (map (policy_fields demo_policy) policy_groups) = Some [[], [], the (policy_fields demo_policy ''checkout''), []]"
    "the (policy_fields demo_policy ''checkout'') \<noteq> []"
    by (simp_all add: policy_groups_def policy_fields_def policy_key_def trimmed_def Get_def Values_def demo_policy_def demo_trim)
  have "validateLocalFields ''cafe_profile'' (the (policy_fields demo_policy ''checkout'')) = None"
    by (simp add: validateLocalFields_def checked_fields_def)
  then obtain s' where "SaveLocalRecord all_ok (demo_uuid 1) ''t1'' ''cafe_profile'' ''cafe-main-profile''
      (the (policy_fields demo_policy ''checkout'')) s = (s', Inr ''cafe-main-profile'')"
    using save_all_ok [OF assms] demo_trim(3,4) by blast
  then show ?thesis
    using fields by (simp add: handlePrintPolicy_def save_and_show_def save_call_def navigatePage_def demo_policy_def)
qed

theorem PrintPolicy_roundtrip_witness:
  "\<exists>s' sc. handlePrintPolicy demo_calls demo_policy demo_store = (s', Rendered [(''page'', ''settings'')] MDone) \<and>
     scenario_of (printPolicy all_ok s') ''checkout'' = Some sc \<and> sc_Mode sc = ''both'' \<and> sc_Doc sc = ''cashier'' \<and> sc_Merchant sc"
proof -
  obtain s' where run: "handlePrintPolicy demo_calls demo_policy demo_store = (s', Rendered [(''page'', ''settings'')] MDone)"
    using demo_policy_run [of demo_store] by (auto simp: demo_store_def)
  have form: "trimmed demo_policy (policy_key ''checkout'' ''mode'') = ''both''" "trimmed demo_policy (policy_key ''checkout'' ''doc'') = []"
    "Get demo_policy ''pw_checkout_merchant'' = ''on''"
    by (simp_all add: trimmed_def Get_def Values_def demo_policy_def policy_key_def demo_trim)
  have "\<exists>sc. scenario_of (printPolicy all_ok s') ''checkout'' = Some sc \<and> sc_Mode sc = ''both'' \<and> sc_Doc sc = ''cashier'' \<and> sc_Merchant sc"
    using PrintPolicy_roundtrip [OF run ctx_all_ok, of "''checkout''"] form by (auto simp: policy_groups_def policy_doc_def)
  then show ?thesis using run by blast
qed


definition demo_orders :: "string \<Rightarrow> Store" where
  "demo_orders st = demo_store\<lparr>state := putEntity (entityKey ''order'' ''o1'')
     (new_record ''order'' ''o1'' [(''order_number'', JStr ''104''), (''status'', JStr st)]) newEmptyDB\<rparr>"

lemma demo_orders_live:
  "live (state (demo_orders st)) ''order'' ''o1'' =
     Some (new_record ''order'' ''o1'' [(''order_number'', JStr ''104''), (''status'', JStr st)])"
  by (simp add: demo_orders_def new_record_def)

lemma delete_demo_order:
  "\<exists>s'. delete_call demo_calls n ''order'' ''o1'' (demo_orders st) = (s', Inr ()) \<and> live (state s') ''order'' ''o1'' = None"
proof -
  obtain db where tx: "DeleteLocalRecord_tx ''order'' ''o1'' (state (demo_orders st)) = Inr (db, ())"
    and gone: "live db ''order'' ''o1'' = None"
    by (simp add: DeleteLocalRecord_tx_def demo_orders_live)
  have "TrimSpace ''order'' = ''order''" "TrimSpace ''o1'' = ''o1''" by (rule TrimSpace_graph; simp add: graph_def)+
  moreover have "\<not> Store.closed (demo_orders st)" by (simp add: demo_orders_def demo_store_def)
  note withTx_all_ok [of "demo_orders st" "DeleteLocalRecord_tx ''order'' ''o1''", OF this tx]
  ultimately show ?thesis using gone by (simp add: delete_call_def DeleteLocalRecord_def)
qed

definition demo_delete :: http_request where
  "demo_delete = \<lparr> hr_Form = [(''kind'', [''order'']), (''id'', [''o1'']), (''confirm_number'', ['' 104'']), (''reason'', [''wrong table''])],
     hr_HX = True \<rparr>"

lemma demo_delete_form:
  "trimmed demo_delete ''kind'' = ''order''" "trimmed demo_delete ''id'' = ''o1''" "trimmed demo_delete ''reason'' = ''wrong table''"
  "normalizeNumInput (Get demo_delete ''confirm_number'') = ''104''" "normalizeNumInput ''104'' = ''104''"
proof -
  have t: "TrimSpace ''order'' = ''order''" "TrimSpace ''o1'' = ''o1''" "TrimSpace ''wrong table'' = ''wrong table''"
    "TrimSpace ''104'' = ''104''" by (rule TrimSpace_graph; simp add: graph_def)+
  have u: "TrimSpace '' 104'' = ''104''" by code_simp
  show "trimmed demo_delete ''kind'' = ''order''" "trimmed demo_delete ''id'' = ''o1''"
    "trimmed demo_delete ''reason'' = ''wrong table''" by (simp_all add: trimmed_def Get_def Values_def demo_delete_def t)
  have digits: "char_of (49::nat) = CHR ''1''" "char_of (48::nat) = CHR ''0''" "char_of (52::nat) = CHR ''4''" by code_simp+
  have "Get demo_delete ''confirm_number'' = '' 104''" by (simp add: Get_def Values_def demo_delete_def)
  then show "normalizeNumInput (Get demo_delete ''confirm_number'') = ''104''" "normalizeNumInput ''104'' = ''104''"
    by (simp_all add: normalizeNumInput_def t u runes_ascii num_input_rune_def utf8_def digits)
qed


text \<open>
  The editor does not ask: without a synchronisation client, its deletion removes any record,
  also a completed order, with neither number nor reason.
\<close>

definition demo_editor :: http_request where
  "demo_editor = \<lparr> hr_Form = [(''kind'', [''order'']), (''id'', [''o1'']), (''action'', [''delete'']), (''payload'', [''{}''])],
     hr_HX = True \<rparr>"

lemma editor_deletes_completed:
  "\<exists>s'. queueCatalog True demo_calls demo_editor (demo_orders ''completed'') = (s', Rendered [(''page'', ''home'')] MDone) \<and>
     live (state s') ''order'' ''o1'' = None"
proof -
  obtain s' where del: "delete_call demo_calls 0 ''order'' ''o1'' (demo_orders ''completed'') = (s', Inr ())"
    "live (state s') ''order'' ''o1'' = None" using delete_demo_order by blast
  have "json_parse ''{}'' = Some (JObj [])" using json_parse_text [of "JObj []"] by simp
  then have "queueCatalog True demo_calls demo_editor (demo_orders ''completed'') = (s', Rendered [(''page'', ''home'')] MDone)"
    using del by (simp add: queueCatalog_def editor_save_def demo_editor_def Get_def Values_def as_map_def navigatePage_def kindToPage_def)
  then show ?thesis using del(2) by blast
qed

end
