(* ===== verification/File_Props.thy ===== *)
theory File_Props
  imports File_Handlers Handler_Props
begin

text \<open>
  Files go out and come in: the products that are exported are the products that are imported
  again, and an uploaded picture is served under the name it was given and under no other path.
\<close>

section \<open>Products\<close>


lemma bom_title: "write_field (utf8_bom @ ''title'') = utf8_bom @ ''title''" "write_field ''title'' = ''title''"
  by (simp_all add: write_field_def fieldNeedsQuotes_def utf8_bom_def lead_space_def space_seqs_def HasPrefix_def)

lemma products_csv_rows:
  "products_csv cats ps = write_all (((utf8_bom @ ''title'') # tl product_header) # map (product_row cats) ps)"
  by (simp add: products_csv_def write_all_def product_header_def bom_title)

lemma ReadAll_products:
  assumes "list_all (\<lambda>p. list_all csv_field (product_row cats p)) ps"
  shows "ReadAll (products_csv cats ps) = Inr (((utf8_bom @ ''title'') # tl product_header) # map (product_row cats) ps)"
proof -
  have "csv_table (((utf8_bom @ ''title'') # tl product_header) # map (product_row cats) ps)"
    using assms by (auto simp: csv_table_def list_all_iff product_header_def csv_field_def utf8_bom_def product_row_def)
  then show ?thesis unfolding products_csv_rows by (rule ReadAll_write_all)
qed

lemma header_row: "is_header (row_title ((utf8_bom @ ''title'') # hs))"
proof -
  have "TrimSpace ''title'' = ''title''" by (rule TrimSpace_graph) (simp_all add: graph_def)
  then show ?thesis by (simp add: row_title_def is_header_def TrimPrefix_def HasPrefix_def EqualFold_def)
qed

text \<open>The record of an imported row: the fields of the row, and no others of its own.\<close>

definition row_stored :: "Entity list \<Rightarrow> string list \<Rightarrow> storedEntity \<Rightarrow> bool" where
  "row_stored cats rec e \<longleftrightarrow>
    (\<forall>k. k \<notin> own_fields \<longrightarrow> payload_field (se_Payload e) k =
       (case map_of (import_fields cats (row_title rec) rec) k of Some v \<Rightarrow> field_text v | None \<Rightarrow> []))"

lemma gmap_import: "gmap (import_fields cats t rec)"
  by (simp add: gmap_def import_fields_def if_filled_def)

lemma import_rows_failed: "import_rows c cats i recs (a, f) s = (s', a', f') \<Longrightarrow> f \<le> f'"
proof (induction recs arbitrary: i a f s)
  case (Cons rec recs)
  then show ?case by (fastforce simp: Let_def split: if_splits prod.splits sum.splits dest: Suc_leD)
qed simp

lemma save_call_id: "save_call c n kind [] fs s = (s1, Inr x) \<Longrightarrow> UUID (cl_rnd c n) = Inr x"
  by (auto simp: save_call_def SaveLocalRecord_def Let_def SaveLocalRecord_tx_def split: if_splits option.splits sum.splits dest!: withTx_ok)

lemma save_new:
  assumes "save_call c n kind [] fs s = (s1, Inr x)" "gmap fs" "getEntity (state s) (entityKey kind x) = None"
  shows "\<exists>e. state s1 = putEntity (entityKey kind x) e (state s) \<and> \<not> se_Deleted e \<and>
    (\<forall>k. k \<notin> own_fields \<longrightarrow> payload_field (se_Payload e) k = (case map_of fs k of Some v \<Rightarrow> field_text v | None \<Rightarrow> []))"
proof -
  have run: "SaveLocalRecord (cl_io c n) (cl_rnd c n) (cl_now c n) kind [] fs s = (s1, Inr x)"
    using assms(1) by (simp add: save_call_def)
  define e where "e = \<lparr> se_ID = x, se_Type = kind, se_Version = next_version None, se_Deleted = False,
    se_Payload = marshal (merged_fields (cl_now c n) True x fs None) \<rparr>"
  have put: "state s1 = putEntity (entityKey kind x) e (state s)"
    using SaveLocalRecord_ok(2) [OF run] by (simp add: SaveLocalRecord_tx_def e_def Let_def assms(3))
  have "live (state s) kind x = None" using assms(3) by (simp add: live_def getEntity_def)
  then have "payload_field (se_Payload e) k = (case map_of fs k of Some v \<Rightarrow> field_text v | None \<Rightarrow> [])" if "k \<notin> own_fields" for k
    using saved_field [OF assms(2) that, of "cl_now c n" True x "state s" kind]
    by (cases "map_of fs k") (simp_all add: e_def assms(3))
  moreover have "\<not> se_Deleted e" by (simp add: e_def)
  ultimately show ?thesis using put by blast
qed

lemma import_rows_stored:
  assumes "import_rows c cats i recs (a, f) s = (s', a', f)" "0 < i" "[] \<notin> set recs"
    and "inj_on (\<lambda>n. UUID (cl_rnd c n)) {i + 1..i + length recs}"
    and "\<And>n x. i < n \<Longrightarrow> n \<le> i + length recs \<Longrightarrow> UUID (cl_rnd c n) = Inr x \<Longrightarrow> getEntity (state s) (entityKey ''product'' x) = None"
  shows "a' = a + length recs \<and>
    (\<forall>rec\<in>set recs. \<exists>x e. live (state s') ''product'' x = Some e \<and> row_stored cats rec e) \<and>
    (\<forall>x e. live (state s) ''product'' x = Some e \<longrightarrow> live (state s') ''product'' x = Some e)"
  using assms
proof (induction recs arbitrary: i a s)
  case Nil
  then show ?case by simp
next
  case (Cons rec recs)
  let ?fs = "import_fields cats (row_title rec) rec"
  have title: "row_title rec \<noteq> []"
    using Cons.prems(1-3) import_rows_failed [of c cats "i + 1" recs a "f + 1" s s' a' f] by (auto simp: Let_def)
  then obtain s1 x where save: "save_call c (i + 1) ''product'' [] ?fs s = (s1, Inr x)"
    and rest: "import_rows c cats (i + 1) recs (a + 1, f) s1 = (s', a', f)"
    using Cons.prems(1-3) import_rows_failed [of c cats "i + 1" recs a "f + 1" _ s' a' f]
    by (fastforce simp: Let_def split: if_splits prod.splits sum.splits)
  have x: "UUID (cl_rnd c (i + 1)) = Inr x" and fresh: "getEntity (state s) (entityKey ''product'' x) = None"
  proof -
    show x: "UUID (cl_rnd c (i + 1)) = Inr x" using save save_call_id by blast
    show "getEntity (state s) (entityKey ''product'' x) = None" by (rule Cons.prems(5) [OF _ _ x]) simp_all
  qed
  from save_new [OF save gmap_import fresh] obtain e where
    e: "state s1 = putEntity (entityKey ''product'' x) e (state s)" "\<not> se_Deleted e" "row_stored cats rec e"
    by (auto simp: row_stored_def)
  have ids: "UUID (cl_rnd c n) \<noteq> Inr x" if "i + 1 < n" "n \<le> i + 1 + length recs" for n
    using inj_onD [OF Cons.prems(4), of n "i + 1"] that x by auto
  have "a' = a + 1 + length recs \<and>
    (\<forall>rec\<in>set recs. \<exists>x e. live (state s') ''product'' x = Some e \<and> row_stored cats rec e) \<and>
    (\<forall>x e. live (state s1) ''product'' x = Some e \<longrightarrow> live (state s') ''product'' x = Some e)"
  proof (rule Cons.IH [OF rest])
    show "inj_on (\<lambda>n. UUID (cl_rnd c n)) {i + 1 + 1..i + 1 + length recs}"
      by (rule inj_on_subset [OF Cons.prems(4)]) auto
    fix n y assume n: "i + 1 < n" "n \<le> i + 1 + length recs" "UUID (cl_rnd c n) = Inr y"
    then have "y \<noteq> x" using ids by auto
    moreover have "getEntity (state s) (entityKey ''product'' y) = None" using n Cons.prems(5) [of n y] by simp
    ultimately show "getEntity (state s1) (entityKey ''product'' y) = None" by (simp add: e(1) entityKey_id)
  qed (use Cons.prems(3) in simp_all)
  moreover have "live (state s1) ''product'' x = Some e" using e by simp
  moreover have "live (state s1) ''product'' y = Some o1" if "live (state s) ''product'' y = Some o1" for y o1
  proof -
    have "y \<noteq> x" using that fresh by (auto simp: live_def getEntity_def)
    then show ?thesis using that by (simp add: e(1) entityKey_id)
  qed
  ultimately show ?case using e(3) by (auto, blast+)
qed

lemma map_of_if_filled:
  "map_of (if_filled k v @ m) k' = (if k' = k \<and> v \<noteq> [] then Some (JStr v) else map_of m k')"
  "map_of (if_filled k v) k' = (if k' = k \<and> v \<noteq> [] then Some (JStr v) else None)"
  by (simp_all add: if_filled_def)

lemma imported_field:
  assumes "row_stored cats rec e"
  shows "payload_field (se_Payload e) ''title'' = row_title rec"
    and "payload_field (se_Payload e) ''category_id'' = catByLabel cats (row_get rec 1)"
    and "payload_field (se_Payload e) ''price'' = row_get rec 2"
    and "payload_field (se_Payload e) ''cost'' = row_get rec 3"
    and "payload_field (se_Payload e) ''stock'' = row_get rec 4"
    and "payload_field (se_Payload e) ''is_available'' = row_get rec 5"
    and "payload_field (se_Payload e) ''description'' = row_get rec 6"
  using assms by (simp_all add: row_stored_def import_fields_def map_of_if_filled del: map_of_append)

text \<open>What an imported product shows of the product it was exported from.\<close>

definition product_copied :: "Entity list \<Rightarrow> Entity list \<Rightarrow> Entity \<Rightarrow> storedEntity \<Rightarrow> bool" where
  "product_copied cats cats' p e \<longleftrightarrow>
    (let get = payload_field (se_Payload e)
     in get ''title'' = TrimSpace (TrimPrefix (Label p) utf8_bom) \<and>
        get ''category_id'' = catByLabel cats' (TrimSpace (catLabel cats (Field p ''category_id''))) \<and>
        get ''price'' = TrimSpace (PriceIRR p) \<and>
        list_all (\<lambda>k. get k = TrimSpace (Field p k)) [''cost'', ''stock'', ''is_available'', ''description''])"

lemma product_row_copied: "row_stored cats' (product_row cats p) e \<Longrightarrow> product_copied cats cats' p e"
  by (simp add: product_copied_def Let_def imported_field row_title_def row_get_def product_row_def)


definition demo_shop :: Store where
  "demo_shop = demo_store\<lparr>state := putEntity (entityKey ''product'' ''p1'') (new_record ''product'' ''p1'' demo_fields) newEmptyDB\<rparr>"

definition demo_product :: Entity where
  "demo_product = entity_view (new_record ''product'' ''p1'' demo_fields)"

definition demo_post :: http_request where
  "demo_post = \<lparr> hr_Form = [], hr_HX = True \<rparr>"

lemma demo_shop_lists:
  "EntitiesOf all_ok ''product'' demo_shop = Inr [demo_product]" "list_or_empty all_ok ''category'' demo_shop = []"
  "list_or_empty all_ok ''category'' demo_store = []"
  by (simp_all add: EntitiesOf_def list_or_empty_def demo_shop_def demo_product_def demo_store_def putEntity_def newEmptyDB_def
      new_record_def limit_take)

lemma demo_product_row: "product_row [] demo_product = [''Espresso'', [], ''950000'', [], [], [], []]"
  by (simp add: product_row_def Label_def demo_product_def entity_view_def new_record_def demo_fields_def catLabel_def PriceIRR_def
      Field_def payload_field_marshal gmap_def as_map_marshal)

lemma demo_import_fields: "import_fields [] (row_title (product_row [] demo_product)) (product_row [] demo_product) = demo_fields"
proof -
  have "TrimSpace ''Espresso'' = ''Espresso''" "TrimSpace ''950000'' = ''950000''" by (rule TrimSpace_graph; simp add: graph_def)+
  then show ?thesis
    by (simp add: demo_product_row import_fields_def if_filled_def row_title_def row_get_def TrimPrefix_def HasPrefix_def
        utf8_bom_def catByLabel_def demo_fields_def)
qed

lemma demo_import_run:
  "\<exists>t. handleProductsImport demo_calls True (Some (products_csv [] [demo_product])) demo_post demo_store =
     (t, Rendered [(''page'', ''products'')] (MImported 1 0))"
proof -
  let ?tx = "SaveLocalRecord_tx ''t1'' True ''product'' (demo_id 1) demo_fields"
  obtain db where tx: "?tx (state demo_store) = Inr (db, demo_id 1)" by (simp add: SaveLocalRecord_tx_def Let_def)
  have trim: "TrimSpace ''product'' = ''product''" by (rule TrimSpace_graph) (simp_all add: graph_def)
  have opened: "\<not> Store.closed demo_store" by (simp add: demo_store_def)
  obtain t where save: "save_call demo_calls 2 ''product'' [] demo_fields demo_store = (t, Inr (demo_id 1))"
    using withTx_all_ok [of demo_store ?tx, OF opened tx] demo_id_eq [of 1]
    by (auto simp: save_call_def SaveLocalRecord_def demo_fields_valid trim)
  have clean: "list_all (\<lambda>p. list_all csv_field (product_row [] p)) [demo_product]"
    by (simp add: demo_product_row csv_field_def)
  have title: "row_title (product_row [] demo_product) \<noteq> []" "product_row [] demo_product \<noteq> []"
    using demo_import_fields by (auto simp: import_fields_def demo_fields_def product_row_def)
  have "import_rows demo_calls [] 1 [product_row [] demo_product] (0, 0) demo_store = (t, 1, 0)"
    using save title by (simp add: Let_def demo_import_fields numeral_2_eq_2)
  then have "import_rows demo_calls [] 0 (((utf8_bom @ ''title'') # tl product_header) # [product_row [] demo_product]) (0, 0) demo_store = (t, 1, 0)"
    by (subst import_rows.simps) (simp add: Let_def header_row del: import_rows.simps)
  then show ?thesis
    by (simp add: handleProductsImport_def ReadAll_products [OF clean] demo_shop_lists navigatePage_def demo_post_def del: import_rows.simps)
qed


section \<open>Pictures\<close>

lemma Base_plain: "CHR ''/'' \<notin> set n \<Longrightarrow> n \<noteq> [] \<Longrightarrow> Base n = n"
proof -
  assume n: "CHR ''/'' \<notin> set n" "n \<noteq> []"
  then have "dropWhile (\<lambda>c. c = CHR ''/'') (rev n) = rev n" by (cases "rev n") (auto simp: rev_eq_Cons_iff)
  moreover have "takeWhile (\<lambda>c. c \<noteq> CHR ''/'') (rev n) = rev n" using n by (subst takeWhile_eq_all_conv) auto
  ultimately show ?thesis using n unfolding Base_def Let_def by (simp only: rev_rev_ident if_False)
qed

lemma upload_name_chars: "upload_name n \<Longrightarrow> CHR ''/'' \<notin> set n \<and> n \<noteq> [] \<and> n \<noteq> ''.'' \<and> n \<noteq> ''/''"
proof -
  assume n: "upload_name n"
  have "set n = set (take 32 n) \<union> set (drop 32 n)" by (metis append_take_drop_id set_append)
  then show ?thesis using n by (auto simp: upload_name_def list_all_iff lower_hex_def is_digit_def)
qed

lemma hex_lower: "d < 16 \<Longrightarrow> lower_hex (hex_char d)"
  by (simp add: hex_char_def lower_hex_def is_digit_def)

lemma hex_name: "list_all lower_hex (concat (map hex_byte bs)) \<and> length (concat (map hex_byte bs)) = 2 * length bs"
proof (induction bs)
  case (Cons b bs)
  have "unat b < 2 ^ LENGTH(8)" by (rule unsigned_less)
  then have "unat b div 16 < 16" "unat b mod 16 < 16" by auto
  then show ?case using Cons by (simp add: hex_byte_def hex_lower)
qed simp

lemma HasPrefix_take: "length p \<le> n \<Longrightarrow> HasPrefix (take n h) p = HasPrefix h p"
  by (simp add: HasPrefix_def min_def)

lemma image_ext_head: "image_ext (take 512 h) = image_ext h"
  by (simp add: image_ext_def HasPrefix_take drop_take)

lemma image_ext_set: "image_ext h = Some x \<Longrightarrow> x \<in> {''.png'', ''.jpg'', ''.webp'', ''.gif''}"
  by (auto simp: image_ext_def split: if_splits)

text \<open>
  C29. An uploaded picture is one of the four kinds, at most 8 MiB, and is served again, as it
  was, under the address that the upload returned; no upload changes what another address
  serves. Whatever the path of a request for an upload, what it serves is a file of the upload
  directory whose name is 32 hexadecimal digits with one of the four extensions.
\<close>

theorem uploads_served:
  assumes "saveUploadedImage u content dir = (dir', Inr url)" and "\<And>rb. up_rand u = Inr rb \<Longrightarrow> length rb = 16"
  shows "handleUploadServe True url dir' = Some content \<and> image_ext content \<noteq> None \<and> length content \<le> 8388608 \<and>
    (\<forall>path x. handleUploadServe True path dir = Some x \<longrightarrow> handleUploadServe True path dir' = Some x) \<and>
    (\<forall>ok path x. handleUploadServe ok path dir' = Some x \<longrightarrow> (\<exists>n. upload_name n \<and> CHR ''/'' \<notin> set n \<and> map_of dir' n = Some x))"
proof -
  obtain ext rb where ext: "image_ext (take 512 content) = Some ext" and rb: "up_rand u = Inr rb" and size: "length content \<le> 8388608"
    and dir': "dir' = (concat (map hex_byte rb) @ ext, content) # dir" and new: "map_of dir (concat (map hex_byte rb) @ ext) = None"
    and url: "url = ''/uploads/'' @ concat (map hex_byte rb) @ ext"
    using assms(1) by (auto simp: saveUploadedImage_def Let_def split: if_splits option.splits sum.splits)
  let ?n = "concat (map hex_byte rb) @ ext"
  have name: "upload_name ?n"
    using hex_name [of rb] assms(2) [OF rb] image_ext_set [OF ext] by (auto simp: upload_name_def)
  then have "handleUploadServe True url dir' = Some content"
    using upload_name_chars [OF name] by (simp add: handleUploadServe_def url dir' TrimPrefix_def HasPrefix_def Base_plain Let_def)
  moreover have "image_ext content \<noteq> None" using ext by (simp add: image_ext_head)
  moreover have "handleUploadServe True path dir' = Some x" if "handleUploadServe True path dir = Some x" for path x
    using that new by (auto simp: handleUploadServe_def dir' Let_def split: if_splits)
  moreover have "\<exists>n. upload_name n \<and> CHR ''/'' \<notin> set n \<and> map_of dir' n = Some x" if "handleUploadServe ok path dir' = Some x" for ok path x
    using that upload_name_chars by (auto simp: handleUploadServe_def Let_def split: if_splits)
  ultimately show ?thesis using size by blast
qed

definition demo_upload :: upload_io where
  "demo_upload = \<lparr> up_open = None, up_seek = None, up_mkdir = None, up_rand = Inr (replicate 16 0), up_create = None, up_copy = None \<rparr>"

theorem uploads_served_witness:
  "\<exists>url dir. saveUploadedImage demo_upload ''GIF89a...'' [] = (dir, Inr url) \<and> handleUploadServe True url dir = Some ''GIF89a...''"
proof -
  have "image_ext ''GIF89a...'' = Some ''.gif''" by (simp add: image_ext_def HasPrefix_def)
  then obtain dir url where run: "saveUploadedImage demo_upload ''GIF89a...'' [] = (dir, Inr url)"
    by (auto simp: saveUploadedImage_def demo_upload_def Let_def)
  have "handleUploadServe True url dir = Some ''GIF89a...''"
    using uploads_served [OF run] by (simp add: demo_upload_def)
  with run show ?thesis by blast
qed

end
