(* ===== verification/Views.thy ===== *)
theory Views
  imports Split_Bill Reports Receipts Float_Text
begin

text \<open>
  \<open>app.go\<close>, the rows and labels that the pages share. Times are instants; the day of a stamp
  in Tehran is a parameter, as for orders.
\<close>

section \<open>Numbers, words and times\<close>

text \<open>\<open>int(x)\<close> of a \<open>float64\<close>, on amd64.\<close>

definition f_int :: "float64 \<Rightarrow> int" where
  "f_int x =
    (case x of
       Fin n m \<Rightarrow> (let t = (if n then - \<lfloor>m\<rfloor> else \<lfloor>m\<rfloor>) in if in64 t then t else - (2 ^ 63))
     | _ \<Rightarrow> - (2 ^ 63))"

definition f_half :: float64 where "f_half = Fin False (1 / 2)"

text \<open>\<open>strconv.FormatFloat(x, 'f', -1, 64)\<close> and \<open>strconv.FormatFloat(x, 'f', 0, 64)\<close>.\<close>

fun FormatFloat_min :: "float64 \<Rightarrow> string" where
  "FormatFloat_min (Fin n m) =
    (if n then ''-'' else []) @
    (if m = 0 then ''0'' else (case shortest m of (c, e) \<Rightarrow> (let ds = Itoa c in plain_text ds (int (length ds) + e))))"
| "FormatFloat_min (Infty n) = (if n then ''-Inf'' else ''+Inf'')"
| "FormatFloat_min NaN = ''NaN''"

fun FormatFloat_0 :: "float64 \<Rightarrow> string" where
  "FormatFloat_0 (Fin n m) = (if n then ''-'' else []) @ Itoa (round_even m)"
| "FormatFloat_0 (Infty n) = (if n then ''-Inf'' else ''+Inf'')"
| "FormatFloat_0 NaN = ''NaN''"

text \<open>\<open>strings.Fields\<close>, from a word that is being read on.\<close>

function space_words :: "string \<Rightarrow> string \<Rightarrow> string list" where
  "space_words cur [] = (if cur = [] then [] else [cur])"
| "space_words cur (c # s) =
    (if lead_space (c # s) > 0
     then (if cur = [] then [] else [cur]) @ space_words [] (drop (lead_space (c # s) - 1) s)
     else space_words (cur @ [c]) s)"
  by pat_completeness auto

termination
  by (relation "measure (\<lambda>(cur, s). length s)") auto

definition entityTime :: "Entity \<Rightarrow> gotime option" where
  "entityTime e =
    (let raw = TrimSpace (Field e ''created_at'') in if raw = [] then None else parse_time RFC3339 raw)"

text \<open>Nanoseconds from one instant to another; \<open>time.Duration\<close> saturates.\<close>

definition since :: "gotime \<Rightarrow> gotime \<Rightarrow> int" where
  "since now t =
    (let d = (fst now - fst t) * 1000000000 + (snd now - snd t) in max (- (2 ^ 63)) (min (2 ^ 63 - 1) d))"

text \<open>\<open>d.Minutes()\<close> and \<open>d.Hours()\<close>.\<close>

definition in_units :: "int \<Rightarrow> int \<Rightarrow> float64" where
  "in_units ns d = f_add (f_of_int (quo d ns)) (f_div (f_of_int (rmd d ns)) (f_of_int ns))"

definition orderRelTimeFa :: "gotime \<Rightarrow> string \<Rightarrow> string" where
  "orderRelTimeFa now raw =
    (case parse_time RFC3339 (TrimSpace raw) of
       None \<Rightarrow> []
     | Some t \<Rightarrow>
        (let d = since now t; minute = 60000000000; hour = 60 * minute;
             show = (\<lambda>x unit. FormatPersianNumber (Itoa (f_int x)) @ unit)
         in if d < minute then (fa [0x686, 0x646, 0x62F, 0x20, 0x644, 0x62D, 0x638, 0x647, 0x20, 0x67E, 0x6CC, 0x634])
            else if d < hour then show (in_units minute d) (fa [0x20, 0x62F, 0x642, 0x6CC, 0x642, 0x647, 0x20, 0x67E, 0x6CC, 0x634])
            else if d < 24 * hour then show (in_units hour d) (fa [0x20, 0x633, 0x627, 0x639, 0x62A, 0x20, 0x67E, 0x6CC, 0x634])
            else show (f_div (in_units hour d) (f_of_int 24)) (fa [0x20, 0x631, 0x648, 0x632, 0x20, 0x67E, 0x6CC, 0x634])))"

definition isTehranToday :: "(string \<Rightarrow> date option) \<Rightarrow> date \<Rightarrow> string \<Rightarrow> bool" where
  "isTehranToday day today createdAt \<longleftrightarrow> day (TrimSpace createdAt) = Some today"

definition growthBadge :: "float64 \<Rightarrow> float64 \<Rightarrow> string \<times> string" where
  "growthBadge today yesterday =
    (let pct = (\<lambda>d. f_int (f_add (f_mul (f_div d yesterday) (f_of_int 100)) f_half));
         badge = (\<lambda>n word cls. if n = 0 then ((fa [0x628, 0x62F, 0x648, 0x646, 0x20, 0x62A, 0x63A, 0x6CC, 0x6CC, 0x631]), ''neutral'') else (FormatPersianNumber (Itoa n) @ word, cls))
     in if f_le yesterday f_zero then ([], [])
        else if f_less today yesterday then badge (pct (f_sub yesterday today)) (fa [0x66A, 0x20, 0x6A9, 0x627, 0x647, 0x634]) ''neg''
        else badge (pct (f_sub today yesterday)) (fa [0x66A, 0x20, 0x627, 0x641, 0x632, 0x627, 0x6CC, 0x634]) ''pos'')"

text \<open>An amount in rials on a page: \<open>new(big.Int).Div(parseIRRBig(x), 10)\<close> rounds down.\<close>

definition toman_down :: "string \<Rightarrow> string" where
  "toman_down irr = FormatPersianNumber (Itoa (parseIRRBig irr div 10))"

definition toman64 :: "int \<Rightarrow> string" where
  "toman64 n = FormatPersianNumber (Itoa (quo n 10))"

definition ParseInt_or :: "string \<Rightarrow> int" where
  "ParseInt_or t = fst (Atoi (TrimSpace t))"

section \<open>Orders\<close>

definition orderNextStep :: "string \<Rightarrow> string \<times> string" where
  "orderNextStep key =
    (if key = ''PENDING'' then (''accepted'', (fa [0x62A, 0x623, 0x6CC, 0x6CC, 0x62F, 0x20, 0x635, 0x646, 0x62F, 0x648, 0x642, 0x62F, 0x627, 0x631]))
     else if key = ''ACCEPTED'' then (''preparing'', (fa [0x62F, 0x631, 0x20, 0x62D, 0x627, 0x644, 0x20, 0x622, 0x645, 0x627, 0x62F, 0x647, 0x200C, 0x633, 0x627, 0x632, 0x6CC]))
     else if key = ''PREPARING'' then (''ready'', (fa [0x622, 0x645, 0x627, 0x62F, 0x647, 0x20, 0x62A, 0x62D, 0x648, 0x6CC, 0x644]))
     else if key = ''READY'' then (''completed'', (fa [0x62A, 0x6A9, 0x645, 0x6CC, 0x644, 0x20, 0x633, 0x641, 0x627, 0x631, 0x634]))
     else ([], []))"

definition is_cancelled :: "Entity \<Rightarrow> bool" where
  "is_cancelled e \<longleftrightarrow> EqualFold (Field e ''status'') ''cancelled'' \<or> EqualFold (Field e ''status'') ''canceled''"

definition row_status :: "Entity \<Rightarrow> string" where
  "row_status e = ToLower (TrimSpace (Field e ''status''))"

definition items_quantity :: "Entity \<Rightarrow> int" where
  "items_quantity e = fold (\<lambda>l n. w64 (n + ov_Quantity l)) (OrderItems e) 0"

text \<open>A line as \<open>name times quantity\<close>.\<close>

definition item_text :: "OrderLineView \<Rightarrow> string" where
  "item_text l = ov_ProductName l @ (fa [0x20, 0xD7]) @ FormatPersianNumber (Itoa (ov_Quantity l))"

section \<open>Staff\<close>

record StaffRow =
  sr_Entity :: Entity
  sr_Active :: bool
  sr_RoleLabel :: string
  sr_Cooperation :: string
  sr_Insurance :: string
  sr_SalaryText :: string

definition staffRoleLabels :: "(string \<times> string) list" where
  "staffRoleLabels = [(''owner'', (fa [0x645, 0x627, 0x644, 0x6A9])), (''manager'', (fa [0x645, 0x62F, 0x6CC, 0x631])), (''staff'', (fa [0x6A9, 0x627, 0x631, 0x645, 0x646, 0x62F])),
     (''cashier'', (fa [0x635, 0x646, 0x62F, 0x648, 0x642, 0x62F, 0x627, 0x631])), (''waiter'', (fa [0x6AF, 0x627, 0x631, 0x633, 0x648, 0x646])), (''inventory_manager'', (fa [0x645, 0x633, 0x626, 0x648, 0x644, 0x20, 0x627, 0x646, 0x628, 0x627, 0x631]))]"

definition or_else :: "string \<Rightarrow> string \<Rightarrow> string" where
  "or_else s t = (if s = [] then t else s)"

definition staffRowOf :: "Entity \<Rightarrow> StaffRow" where
  "staffRowOf e =
    \<lparr> sr_Entity = e,
      sr_Active = (Field e ''is_active'' \<noteq> ''false'' \<and> \<not> Contains (Field e ''status'') (fa [0x63A, 0x6CC, 0x631, 0x641, 0x639, 0x627, 0x644])),
      sr_RoleLabel = or_else (case map_of staffRoleLabels (Field e ''role_key'') of None \<Rightarrow> [] | Some l \<Rightarrow> l)
        (or_else (Field e ''role'') (fa [0x6A9, 0x627, 0x631, 0x645, 0x646, 0x62F])),
      sr_Cooperation = (if Field e ''salary_period'' = ''daily'' then (fa [0x631, 0x648, 0x632, 0x645, 0x632, 0x62F])
        else if Field e ''salary_period'' = ''hourly'' then (fa [0x633, 0x627, 0x639, 0x62A, 0x6CC]) else (fa [0x645, 0x627, 0x647, 0x627, 0x646, 0x647])),
      sr_Insurance = (if Field e ''insurance_enabled'' = ''true'' then or_else (Field e ''insurance_provider'') (fa [0x62F, 0x627, 0x631, 0x62F]) else (fa [0x646, 0x62F, 0x627, 0x631, 0x62F])),
      sr_SalaryText = (if Field e ''salary_irr'' \<noteq> [] \<and> Field e ''salary_irr'' \<noteq> ''0'' then PriceToman e else ''-'') \<rparr>"

definition defaultCafePermissionsForRole :: "string \<Rightarrow> string list" where
  "defaultCafePermissionsForRole role0 =
    (let role = TrimSpace (ToLower role0);
         common = [''printers.manage'', ''support.tickets.view'', ''help.view'', ''updates.view'']
     in if role = ''cashier'' then
          common @ [''pos.view'', ''orders.view'', ''orders.update'', ''receipts.view'', ''tables.view'', ''tables.transfer'', ''menu.qr.view'']
        else if role = ''waiter'' then common @ [''pos.view'', ''orders.view'', ''tables.view'', ''menu.qr.view'']
        else if role = ''inventory_manager'' then
          common @ [''pos.view'', ''orders.view'', ''receipts.view'', ''tables.view'', ''inventory.view'', ''inventory.purchases.view'',
            ''inventory.recipes.view'', ''inventory.waste.view'', ''menu.qr.view'']
        else if role = ''staff'' then common @ [''pos.view'', ''orders.view'', ''tables.view'']
        else [])"

section \<open>The customer club\<close>

record ClubCustomerRow =
  cc_Entity :: Entity
  cc_Name :: string
  cc_Mobile :: string
  cc_IsMember :: bool
  cc_TierKey :: string
  cc_TierLabel :: string
  cc_PointsFa :: string
  cc_MemberCode :: string
  cc_CreditEnabled :: bool
  cc_GroupName :: string
  cc_GroupID :: string
  cc_LastVisitFa :: string
  cc_LastOrderNo :: string
  cc_LastOrderMeta :: string
  cc_LastOrderAmountFa :: string
  cc_TotalSpentFa :: string
  cc_TotalOrders :: int
  cc_DebtorRemainFa :: string
  cc_Initials :: string
  cc_OnlineOrders :: int
  cc_LastOrderDateFa :: string

definition clubTierLabels :: "(string \<times> string) list" where
  "clubTierLabels = [(''bronze'', (fa [0x628, 0x631, 0x646, 0x632, 0x6CC])), (''silver'', (fa [0x646, 0x642, 0x631, 0x647, 0x200C, 0x627, 0x6CC])), (''gold'', (fa [0x637, 0x644, 0x627, 0x6CC, 0x6CC])), (''platinum'', (fa [0x67E, 0x644, 0x627, 0x62A, 0x6CC, 0x646, 0x6CC, 0x648, 0x645]))]"

definition tier_of :: "Entity \<Rightarrow> string \<times> string" where
  "tier_of c =
    (let raw = TrimSpace (Field c ''tier'')
     in if raw = [] then (''none'', (fa [0x628, 0x62F, 0x648, 0x646, 0x20, 0x633, 0x637, 0x62D]))
        else (case map_of clubTierLabels (ToLower raw) of Some l \<Rightarrow> (ToLower raw, l) | None \<Rightarrow> (''none'', raw)))"

text \<open>The orders of a customer that count, and the last of them by its stamp.\<close>

definition customer_order :: "Entity \<Rightarrow> Entity \<Rightarrow> bool" where
  "customer_order c x \<longleftrightarrow>
    (let mobile = TrimSpace (Field c ''phone'')
     in (TrimSpace (Field x ''customer_id'') = en_ID c \<or> (mobile \<noteq> [] \<and> TrimSpace (Field x ''customer_phone'') = mobile)) \<and> \<not> is_cancelled x)"

definition later_order :: "Entity \<Rightarrow> Entity option \<Rightarrow> Entity option" where
  "later_order x cur =
    (case cur of None \<Rightarrow> Some x | Some y \<Rightarrow> if Field x ''created_at'' > Field y ''created_at'' then Some x else Some y)"

definition initials :: "string \<Rightarrow> string" where
  "initials name =
    (case runes name of
       [] \<Rightarrow> []
     | [r] \<Rightarrow> utf8 r
     | r # _ \<Rightarrow>
        (case space_words [] name of
           p # q # _ \<Rightarrow> utf8 (hd (runes p)) @ utf8 (hd (runes q))
         | _ \<Rightarrow> utf8 r))"

definition sum_fields :: "(Entity \<Rightarrow> string) \<Rightarrow> Entity list \<Rightarrow> int" where
  "sum_fields f es = fold (\<lambda>e n. w64 (n + ParseInt_or (f e))) es 0"

definition clubRow :: "Entity list \<Rightarrow> Entity list \<Rightarrow> Entity list \<Rightarrow> Entity \<Rightarrow> ClubCustomerRow" where
  "clubRow orders debtors groups c =
    (let mobile = TrimSpace (Field c ''phone'');
         mine = filter (customer_order c) orders;
         spent = sum_fields PriceIRR mine;
         last_one = fold later_order mine None;
         remain = sum_fields (\<lambda>d. Field d ''remaining'') (filter (\<lambda>d. mobile \<noteq> [] \<and> TrimSpace (Field d ''phone'') = mobile) debtors);
         (tierKey, tierLabel) = tier_of c;
         name = TrimSpace (Label c);
         gid = TrimSpace (Field c ''group_id'');
         of_last = (\<lambda>f. case last_one of None \<Rightarrow> [] | Some x \<Rightarrow> f x)
     in \<lparr> cc_Entity = c, cc_Name = name, cc_Mobile = mobile,
          cc_IsMember = (Field c ''club_member'' = ''true'' \<or> TrimSpace (Field c ''tier'') \<noteq> [] \<or> TrimSpace (Field c ''loyalty_points'') \<noteq> []),
          cc_TierKey = tierKey, cc_TierLabel = tierLabel,
          cc_PointsFa = or_else (FormatPersianNumber (TrimSpace (Field c ''loyalty_points''))) (fa [0x6F0]),
          cc_MemberCode = TrimSpace (Field c ''subscription_code''),
          cc_CreditEnabled = (Field c ''credit_enabled'' = ''true''),
          cc_GroupName = (case map_of (rev (map (\<lambda>g. (en_ID g, Label g)) groups)) gid of None \<Rightarrow> [] | Some l \<Rightarrow> l),
          cc_GroupID = gid,
          cc_LastVisitFa = of_last (\<lambda>x. FormatJalaliShort (Field x ''created_at'')),
          cc_LastOrderNo = of_last (\<lambda>x. TrimSpace (Field x ''order_number'')),
          cc_LastOrderMeta = of_last (\<lambda>x. FormatJalaliShort (Field x ''created_at'') @ (fa [0x20, 0xB7, 0x20]) @ StatusLabelOf x),
          cc_LastOrderAmountFa = of_last (\<lambda>x. toman_down (PriceIRR x) @ fa_toman),
          cc_TotalSpentFa = (if mine = [] then (fa [0x2014]) else toman64 spent @ fa_toman),
          cc_TotalOrders = int (length mine),
          cc_DebtorRemainFa = (if remain > 0 then toman64 remain @ fa_toman else []),
          cc_Initials = initials name,
          cc_OnlineOrders = int (length mine),
          cc_LastOrderDateFa = of_last (\<lambda>x. FormatJalaliDate (Field x ''created_at'')) \<rparr>)"

definition clubBuildRows :: "Entity list \<Rightarrow> Entity list \<Rightarrow> Entity list \<Rightarrow> Entity list \<Rightarrow> ClubCustomerRow list" where
  "clubBuildRows customers orders debtors groups = map (clubRow orders debtors groups) customers"

record ClubGroupRow =
  cg_Entity :: Entity
  cg_MembersCount :: int
  cg_DiscountText :: string
  cg_CapText :: string
  cg_ValidityText :: string
  cg_StatusKey :: string
  cg_StatusLabel :: string

definition group_discount :: "Entity \<Rightarrow> string" where
  "group_discount g =
    (let v = fst (Atoi (normalizeDigits (TrimSpace (Field g ''discount_value''))))
     in if v \<le> 0 then (if Field g ''credit_enabled'' = ''true'' then (fa [0x628, 0x62F, 0x648, 0x646, 0x20, 0x62A, 0x62E, 0x641, 0x6CC, 0x641, 0x20, 0x28, 0x641, 0x642, 0x637, 0x20, 0x646, 0x633, 0x6CC, 0x647, 0x29]) else (fa [0x628, 0x62F, 0x648, 0x646, 0x20, 0x62A, 0x62E, 0x641, 0x6CC, 0x641, 0x20, 0x28, 0x6F0, 0x66A, 0x29]))
        else if Field g ''discount_type'' = ''fixed'' then FormatPersianNumber (Itoa v) @ fa_toman
        else FormatPersianNumber (Itoa v) @ (fa [0x66A]))"

definition group_cap :: "Entity \<Rightarrow> string" where
  "group_cap g =
    (if Field g ''discount_type'' \<in> {''percentage'', []} then
       (let cap = fst (Atoi (normalizeDigits (TrimSpace (Field g ''max_discount_amount''))))
        in if cap > 0 then (fa [0x633, 0x642, 0x641, 0x20]) @ FormatPersianNumber (Itoa cap) @ fa_toman else (fa [0x628, 0x62F, 0x648, 0x646, 0x20, 0x633, 0x642, 0x641]))
     else (fa [0x2014]))"

text \<open>\<open>today\<close> is the day of the clock as \<open>2006-01-02\<close>; days are compared as texts.\<close>

definition group_state :: "string \<Rightarrow> Entity \<Rightarrow> string" where
  "group_state today g =
    (let from_day = TrimSpace (Field g ''valid_from''); to_day = TrimSpace (Field g ''valid_until'')
     in if Field g ''is_active'' = ''false'' then ''inactive''
        else if (from_day = [] \<or> from_day \<le> today) \<and> (to_day = [] \<or> to_day \<ge> today) then ''valid''
        else ''out'')"

definition clubGroupRowOf :: "string \<Rightarrow> int \<Rightarrow> Entity \<Rightarrow> ClubGroupRow" where
  "clubGroupRowOf today members g =
    (let st = group_state today g;
         from_day = TrimSpace (Field g ''valid_from''); to_day = TrimSpace (Field g ''valid_until'')
     in \<lparr> cg_Entity = g, cg_MembersCount = members, cg_DiscountText = group_discount g, cg_CapText = group_cap g,
          cg_ValidityText =
            (if st = ''out'' then (fa [0x62E, 0x627, 0x631, 0x62C, 0x20, 0x627, 0x632, 0x20, 0x627, 0x639, 0x62A, 0x628, 0x627, 0x631])
             else if to_day \<noteq> [] then (fa [0x62A, 0x627, 0x20]) @ FormatJalaliDate to_day
             else if from_day \<noteq> [] then (fa [0x627, 0x632, 0x20]) @ FormatJalaliDate from_day
             else (fa [0x628, 0x62F, 0x648, 0x646, 0x20, 0x67E, 0x627, 0x6CC, 0x627, 0x646])),
          cg_StatusKey = st,
          cg_StatusLabel = (if st = ''inactive'' then (fa [0x63A, 0x6CC, 0x631, 0x641, 0x639, 0x627, 0x644]) else if st = ''valid'' then (fa [0x645, 0x639, 0x62A, 0x628, 0x631]) else (fa [0x62E, 0x627, 0x631, 0x62C, 0x20, 0x627, 0x632, 0x20, 0x62F, 0x648, 0x631, 0x647])) \<rparr>)"

section \<open>Facts\<close>

text \<open>
  The salary of the staff page is taken from the price of the record, which \<open>salary_irr\<close> is no
  part of: whoever has a salary and no price is shown an empty text.
\<close>

lemma salary_not_shown:
  assumes "Field e ''salary_irr'' \<noteq> []" "Field e ''salary_irr'' \<noteq> ''0''" "PriceIRR e = []"
  shows "sr_SalaryText (staffRowOf e) = []"
  using assms by (simp add: staffRowOf_def PriceToman_def)

lemma later_order_last:
  assumes "fold later_order xs cur = Some y"
  shows "(y \<in> set xs \<or> cur = Some y) \<and> (\<forall>x\<in>set xs. Field x ''created_at'' \<le> Field y ''created_at'') \<and>
    (\<forall>z. cur = Some z \<longrightarrow> Field z ''created_at'' \<le> Field y ''created_at'')"
  using assms
proof (induction xs arbitrary: cur)
  case (Cons x xs)
  from Cons.IH [of "later_order x cur"] Cons.prems show ?case
    by (auto simp: later_order_def not_less split: option.splits if_splits intro: order_trans less_imp_le)
qed simp

text \<open>
  The order a club row speaks of is an order of this customer that was not cancelled, and no
  other one of them has a later stamp.
\<close>

lemma club_last_order:
  assumes "fold later_order (filter (customer_order c) orders) None = Some y"
  shows "y \<in> set orders \<and> customer_order c y \<and>
    (\<forall>x\<in>set orders. customer_order c x \<longrightarrow> Field x ''created_at'' \<le> Field y ''created_at'')"
  using later_order_last [OF assms] by auto

text \<open>A group is shown as valid exactly when it is active and the day lies in its period.\<close>

lemma group_valid_iff:
  "cg_StatusKey (clubGroupRowOf today n g) = ''valid'' \<longleftrightarrow> Field g ''is_active'' \<noteq> ''false'' \<and>
     (TrimSpace (Field g ''valid_from'') = [] \<or> TrimSpace (Field g ''valid_from'') \<le> today) \<and>
     (TrimSpace (Field g ''valid_until'') = [] \<or> today \<le> TrimSpace (Field g ''valid_until''))"
  by (simp add: clubGroupRowOf_def group_state_def Let_def)

end
