(* ===== verification/Orders_Page.thy ===== *)
theory Orders_Page
  imports Views
begin

text \<open>
  The pages of \<open>app.go\<close> that list orders: the cases \<open>orders\<close>, \<open>receipts\<close> and \<open>receipt\<close> of
  \<open>render\<close>. A page takes the outcomes of its reads, the clock, the query of its address and
  \<open>strings.ToLower\<close> as a function, since a search folds the case of every script.
\<close>

record page_env =
  pg_io :: "nat \<Rightarrow> io"
  pg_now :: gotime
  pg_day :: "string \<Rightarrow> date option"
  pg_today :: date
  pg_lower :: "string \<Rightarrow> string"
  pg_query :: "string \<Rightarrow> string"

definition query_of :: "page_env \<Rightarrow> string \<Rightarrow> string" where
  "query_of env k = TrimSpace (pg_query env k)"

definition entities_or_empty :: "page_env \<Rightarrow> nat \<Rightarrow> string \<Rightarrow> Store \<Rightarrow> Entity list" where
  "entities_or_empty env n kind s = (case EntitiesOf (pg_io env n) kind s of Inl _ \<Rightarrow> [] | Inr es \<Rightarrow> es)"

text \<open>A stable sort with the largest key first.\<close>

definition sort_desc :: "('a \<Rightarrow> 'k::linorder) \<Rightarrow> 'a list \<Rightarrow> 'a list" where
  "sort_desc key xs = rev (sort_key key (rev xs))"

text \<open>
  \<open>strings.ToUpper\<close> as far as a comparison with ASCII can tell: U+0131 and U+017F are the only
  other letters with an ASCII capital.
\<close>

definition upper_ascii :: "char \<Rightarrow> char" where
  "upper_ascii c = (if 97 \<le> code c \<and> code c \<le> 122 then char_of (code c - 32) else c)"

fun ToUpper :: "string \<Rightarrow> string" where
  "ToUpper [] = []"
| "ToUpper (c # s) =
    (if c = CHR 0xC4 \<and> HasPrefix s [CHR 0xB1] then CHR ''I'' # ToUpper (drop 1 s)
     else if c = CHR 0xC5 \<and> HasPrefix s [CHR 0xBF] then CHR ''S'' # ToUpper (drop 1 s)
     else upper_ascii c # ToUpper s)"

section \<open>The list of orders\<close>

record OrderRow =
  or_Entity :: Entity
  or_Number :: string
  or_ShortID :: string
  or_TableNumber :: string
  or_ItemsPreview :: string
  or_ItemsHidden :: nat
  or_ItemsFull :: string
  or_TotalFa :: string
  or_TimeLabel :: string
  or_StatusKey :: string
  or_StatusLabel :: string
  or_CustomerName :: string
  or_CashierName :: string
  or_OriginKind :: string
  or_OriginLabel :: string
  or_NextStatus :: string
  or_NextLabel :: string
  or_Cancellable :: bool
  or_CanDelete :: bool
  or_NumberRaw :: string
  or_CustomerPhone :: string
  or_ItemsJSON :: string
  or_Editable :: bool

text \<open>The digits of a text in the three scripts.\<close>

definition digit_rune :: "nat \<Rightarrow> string" where
  "digit_rune r =
    (if 48 \<le> r \<and> r \<le> 57 then [char_of r]
     else if 0x6F0 \<le> r \<and> r \<le> 0x6F9 then [char_of (48 + (r - 0x6F0))]
     else if 0x660 \<le> r \<and> r \<le> 0x669 then [char_of (48 + (r - 0x660))]
     else [])"

definition digitsOf :: "string \<Rightarrow> string" where
  "digitsOf t = concat (map digit_rune (runes t))"

text \<open>The table of an order: from its stored label, else from the table itself.\<close>

definition table_number :: "Entity list \<Rightarrow> Entity \<Rightarrow> string" where
  "table_number tables x =
    or_else (digitsOf (Field x ''table_label''))
      (case map_of (rev (map (\<lambda>t. (en_ID t, t)) tables)) (Field x ''table_id'') of
         None \<Rightarrow> []
       | Some t \<Rightarrow> or_else (digitsOf (Field t ''number'')) (digitsOf (Label t)))"

definition item_json :: "OrderLineView \<Rightarrow> json" where
  "item_json l = JObj [(''pid'', JStr (ov_ProductID l)), (''title'', JStr (ov_ProductName l)), (''qty'', int_json (ov_Quantity l)),
     (''unit'', JStr (ov_UnitPrice l)), (''note'', JStr (ov_Note l))]"

definition open_key :: "string \<Rightarrow> bool" where
  "open_key key \<longleftrightarrow> key \<in> {''PENDING'', ''ACCEPTED'', ''PREPARING'', ''READY''}"

definition order_row :: "page_env \<Rightarrow> bool \<Rightarrow> string list \<Rightarrow> Entity list \<Rightarrow> Entity \<Rightarrow> OrderRow" where
  "order_row env canDelete stages tables x =
    (let key = orderStatusKey (Field x ''status'');
         items = OrderItems x; parts = map item_text items;
         number = displayOrderNumber (Field x ''order_number'');
         shortID = (if length (en_ID x) \<ge> 8 then ''#'' @ take 8 (en_ID x) else []);
         readable = (number \<noteq> [] \<and> number \<noteq> ''0'');
         takeaway = ToLower (TrimSpace (Field x ''fulfillment_type'')) \<in> {''outside'', ''delivery'', ''takeaway''};
         (nextStatus, nextLabel) = orderPrimaryAction (ToLower key) stages;
         tableNum = table_number tables x
     in \<lparr> or_Entity = x,
          or_Number = (if readable then FormatPersianNumber number else shortID),
          or_ShortID = (if readable then shortID else []),
          or_TableNumber = (if tableNum \<noteq> [] then FormatPersianNumber tableNum else []),
          or_ItemsPreview = Join (take 2 parts) (fa [0x60C, 0x20]),
          or_ItemsHidden = length parts - 2,
          or_ItemsFull = Join parts (fa [0x60C, 0x20]),
          or_TotalFa = toman_down (PriceIRR x),
          or_TimeLabel = orderRelTimeFa (pg_now env) (Field x ''created_at''),
          or_StatusKey = key, or_StatusLabel = StatusLabelOf x,
          or_CustomerName = TrimSpace (Field x ''customer_name''), or_CashierName = TrimSpace (Field x ''cashier_name''),
          or_OriginKind = (if takeaway then ''takeaway'' else ''pos''), or_OriginLabel = (if takeaway then (fa [0x628, 0x6CC, 0x631, 0x648, 0x646, 0x200C, 0x628, 0x631]) else (fa [0x635, 0x646, 0x62F, 0x648, 0x642])),
          or_NextStatus = nextStatus, or_NextLabel = nextLabel,
          or_Cancellable = open_key key, or_CanDelete = canDelete, or_NumberRaw = number,
          or_CustomerPhone = TrimSpace (Field x ''customer_phone''),
          or_ItemsJSON = json_text (JArr (map item_json items)), or_Editable = open_key key \<rparr>)"

definition status_filter :: "page_env \<Rightarrow> string" where
  "status_filter env =
    (let st = ToUpper (query_of env ''status'')
     in if st \<in> {''PENDING'', ''ACCEPTED'', ''PREPARING'', ''READY'', ''COMPLETED'', ''CANCELLED''} then st else ''ALL'')"

text \<open>Whether the address asks for a row: its day, its state and the search.\<close>

definition row_asked :: "page_env \<Rightarrow> Entity list \<Rightarrow> OrderRow \<Rightarrow> bool" where
  "row_asked env tables row =
    (let x = or_Entity row; query = pg_lower env (query_of env ''q'')
     in (query_of env ''scope'' = ''all'' \<or> isTehranToday (pg_day env) (pg_today env) (Field x ''created_at'')) \<and>
        (status_filter env = ''ALL'' \<or> or_StatusKey row = status_filter env) \<and>
        (query = [] \<or> Contains (pg_lower env (or_NumberRaw row @ '' '' @ or_CustomerName row @ '' '' @ or_ItemsFull row @ '' ''
           @ table_number tables x @ '' '' @ or_TableNumber row)) query))"

text \<open>Completed orders, then cancelled ones, go to the end.\<close>

definition ordRank :: "OrderRow \<Rightarrow> nat" where
  "ordRank row = (if or_StatusKey row = ''COMPLETED'' then 1 else if or_StatusKey row = ''CANCELLED'' then 2 else 0)"

definition newest_first :: "Entity list \<Rightarrow> Entity list" where
  "newest_first xs = sort_desc (\<lambda>x. (Field x ''created_at'', Field x ''order_number'')) xs"

text \<open>The window of a page: its number, and the rows from \<open>start\<close> to \<open>end\<close>.\<close>

definition orderPageSize :: nat where "orderPageSize = 20"

definition total_pages :: "nat \<Rightarrow> nat" where
  "total_pages n = max 1 ((n + orderPageSize - 1) div orderPageSize)"

definition page_number :: "page_env \<Rightarrow> nat \<Rightarrow> nat" where
  "page_number env total_p =
    (let raw = query_of env ''p''
     in case Atoi raw of (n, ok) \<Rightarrow> if raw \<noteq> [] \<and> ok \<and> n > 0 then min (nat n) total_p else min 1 total_p)"

record OrdersView =
  vo_Rows :: "OrderRow list"
  vo_Page :: nat
  vo_TotalPages :: nat
  vo_FilteredTotal :: nat
  vo_From :: nat
  vo_To :: nat
  vo_All :: nat
  vo_Pending :: nat
  vo_Accepted :: nat
  vo_Preparing :: nat
  vo_Ready :: nat
  vo_Completed :: nat
  vo_Cancelled :: nat
  vo_Open :: nat
  vo_Revenue :: string

definition count_key :: "string \<Rightarrow> Entity list \<Rightarrow> nat" where
  "count_key key xs = length (filter (\<lambda>x. orderStatusKey (Field x ''status'') = key) xs)"

definition asked_rows :: "page_env \<Rightarrow> bool \<Rightarrow> string list \<Rightarrow> Entity list \<Rightarrow> Entity list \<Rightarrow> OrderRow list" where
  "asked_rows env canDelete stages tables orders =
    sort_key ordRank (filter (row_asked env tables) (map (order_row env canDelete stages tables) (newest_first orders)))"

definition orders_view :: "page_env \<Rightarrow> bool \<Rightarrow> string list \<Rightarrow> Entity list \<Rightarrow> Entity list \<Rightarrow> OrdersView" where
  "orders_view env canDelete stages tables orders =
    (let rows = asked_rows env canDelete stages tables orders;
         tp = total_pages (length rows);
         pg = page_number env tp;
         start = min ((pg - 1) * orderPageSize) (length rows);
         stop = min (start + orderPageSize) (length rows)
     in \<lparr> vo_Rows = take (stop - start) (drop start rows), vo_Page = pg, vo_TotalPages = tp, vo_FilteredTotal = length rows,
          vo_From = (if rows = [] then 0 else start + 1), vo_To = (if rows = [] then 0 else stop),
          vo_All = length orders, vo_Pending = count_key ''PENDING'' orders, vo_Accepted = count_key ''ACCEPTED'' orders,
          vo_Preparing = count_key ''PREPARING'' orders, vo_Ready = count_key ''READY'' orders,
          vo_Completed = count_key ''COMPLETED'' orders, vo_Cancelled = count_key ''CANCELLED'' orders,
          vo_Open = length (filter (\<lambda>x. orderStatusKey (Field x ''status'') \<notin> {''COMPLETED'', ''CANCELLED'', ''REFUNDED''}) orders),
          vo_Revenue = FormatPersianNumber (Itoa (sum_list (map (\<lambda>x. parseIRRBig (PriceIRR x))
            (filter (\<lambda>x. orderStatusKey (Field x ''status'') = ''COMPLETED'') orders)) div 10)) \<rparr>)"

definition orders_page :: "page_env \<Rightarrow> bool \<Rightarrow> Store \<Rightarrow> err + OrdersView" where
  "orders_page env canDelete s =
    (case EntitiesOf (pg_io env 2) ''order'' s of
       Inl e \<Rightarrow> Inl e
     | Inr orders \<Rightarrow>
         Inr (orders_view env canDelete (posEnabledStages (pg_io env 3) s) (entities_or_empty env 1 ''table'' s) orders))"

section \<open>Receipts\<close>

definition receipts_page :: "page_env \<Rightarrow> Store \<Rightarrow> Entity list" where
  "receipts_page env s =
    (let q = pg_lower env (query_of env ''q''); orders = entities_or_empty env 0 ''order'' s
     in if q = [] then orders
        else filter (\<lambda>x. Contains (pg_lower env (displayOrderNumber (Field x ''order_number'') @ '' '' @ Field x ''customer_name'' @ '' ''
               @ Field x ''customer_phone'' @ '' '' @ Field x ''table_label'' @ '' '' @ Join (map ov_ProductName (OrderItems x)) '' '')) q) orders)"

record ReceiptView =
  re_Order :: Entity
  re_CafeName :: string
  re_HeaderText :: string
  re_FooterText :: string
  re_ItemCount :: int
  re_TableNumber :: string
  re_DateTime :: string
  re_DateOnly :: string
  re_TimeOnly :: string
  re_OrderType :: string
  re_Payment :: string

text \<open>The order of the address, or the first one there is.\<close>

definition receipt_order :: "page_env \<Rightarrow> Store \<Rightarrow> Entity option" where
  "receipt_order env s =
    (case EntityOf (pg_io env 0) ''order'' (pg_query env ''id'') s of
       Inr x \<Rightarrow> Some x
     | Inl _ \<Rightarrow> (case entities_or_empty env 1 ''order'' s of [] \<Rightarrow> None | x # _ \<Rightarrow> Some x))"

definition receipt_view :: "Entity \<Rightarrow> Entity \<Rightarrow> ReceiptView" where
  "receipt_view prof x =
    (let when = jalaliDateTimeFa (Field x ''created_at'');
         (d, t) = (case SplitN2 when ''  '' of [a, b] \<Rightarrow> (a, b) | _ \<Rightarrow> (when, []));
         (hd_text, foot) = cafeReceiptTexts prof
     in \<lparr> re_Order = x, re_CafeName = cafeNameFa prof, re_HeaderText = hd_text, re_FooterText = foot,
          re_ItemCount = items_quantity x, re_TableNumber = tableNumberFa x, re_DateTime = when, re_DateOnly = d,
          re_TimeOnly = t, re_OrderType = orderTypeLabelFa x, re_Payment = paymentLabelFa x \<rparr>)"

section \<open>What the list shows\<close>

lemma sort_desc_set [simp]: "mset (sort_desc key xs) = mset xs" "set (sort_desc key xs) = set xs"
  by (simp_all add: sort_desc_def)

lemma sort_desc_sorted: "sorted_wrt (\<lambda>a b. key a \<ge> key b) (sort_desc key xs)"
proof -
  have "sorted_wrt (\<lambda>a b. key a \<le> key b) (sort_key key (rev xs))" using sorted_sort_key [of key "rev xs"] by (simp add: sorted_map)
  then show ?thesis by (simp add: sort_desc_def sorted_wrt_rev)
qed

lemma concat_windows: "concat (map (\<lambda>i. take k (drop (i * k) xs)) [0..<m]) = take (m * k) xs"
proof (induction m)
  case (Suc m)
  have "take (Suc m * k) xs = take (m * k + k) xs" by (simp add: add.commute)
  then show ?case using Suc take_add [of "m * k" k xs] by simp
qed simp

lemma total_pages_enough: "n \<le> total_pages n * orderPageSize"
proof -
  have "(n + orderPageSize - 1) div orderPageSize * orderPageSize + (n + orderPageSize - 1) mod orderPageSize = n + orderPageSize - 1"
    by (rule div_mult_mod_eq)
  moreover have "(n + orderPageSize - 1) mod orderPageSize < orderPageSize" by (simp add: orderPageSize_def)
  ultimately have "n \<le> (n + orderPageSize - 1) div orderPageSize * orderPageSize" by (simp add: orderPageSize_def)
  also have "\<dots> \<le> total_pages n * orderPageSize" by (simp add: total_pages_def)
  finally show ?thesis .
qed

text \<open>The same page with another page number in its address.\<close>

definition at_page :: "nat \<Rightarrow> page_env \<Rightarrow> page_env" where
  "at_page n env = env\<lparr>pg_query := (pg_query env)(''p'' := Itoa (int n))\<rparr>"

lemma at_page_simps [simp]:
  "pg_io (at_page n env) = pg_io env" "pg_now (at_page n env) = pg_now env" "pg_lower (at_page n env) = pg_lower env"
  "k \<noteq> ''p'' \<Longrightarrow> query_of (at_page n env) k = query_of env k"
  by (simp_all add: at_page_def query_of_def)

lemma asked_rows_at_page [simp]: "asked_rows (at_page n env) cd stages tables orders = asked_rows env cd stages tables orders"
proof -
  have "order_row (at_page n env) cd stages tables = order_row env cd stages tables" by (rule ext) (simp add: order_row_def)
  moreover have "row_asked (at_page n env) tables = row_asked env tables"
    by (rule ext) (simp add: row_asked_def status_filter_def, simp add: at_page_def)
  ultimately show ?thesis by (simp add: asked_rows_def)
qed

lemma page_number_at: "in64 (int n) \<Longrightarrow> 1 \<le> n \<Longrightarrow> n \<le> tp \<Longrightarrow> page_number (at_page n env) tp = n"
  by (simp add: page_number_def query_of_def at_page_def TrimSpace_Itoa Atoi_Itoa Itoa_ne)

lemma orders_view_rows:
  assumes "in64 (int n)" "1 \<le> n" "n \<le> vo_TotalPages (orders_view env cd stages tables orders)"
  shows "vo_Rows (orders_view (at_page n env) cd stages tables orders) =
    take orderPageSize (drop ((n - 1) * orderPageSize) (asked_rows env cd stages tables orders))"
proof -
  let ?rows = "asked_rows env cd stages tables orders"
  have pg: "page_number (at_page n env) (total_pages (length ?rows)) = n"
    using assms by (intro page_number_at) (simp_all add: orders_view_def Let_def)
  have "take (min (min a (length xs) + k) (length xs) - min a (length xs)) (drop (min a (length xs)) xs) = take k (drop a xs)"
    for a k and xs :: "OrderRow list" by (cases "a \<le> length xs") (simp_all add: min_def)
  then show ?thesis by (simp add: orders_view_def Let_def pg)
qed

lemma orders_view_pages:
  assumes "length orders \<le> 500"
  shows "concat (map (\<lambda>n. vo_Rows (orders_view (at_page n env) cd stages tables orders))
      [1..<vo_TotalPages (orders_view env cd stages tables orders) + 1]) = asked_rows env cd stages tables orders"
proof -
  let ?rows = "asked_rows env cd stages tables orders" and ?v = "orders_view env cd stages tables orders"
  have len: "length ?rows \<le> 500"
    using assms length_filter_le [of "row_asked env tables" "map (order_row env cd stages tables) (newest_first orders)"]
    by (simp add: asked_rows_def newest_first_def sort_desc_def)
  have tp: "vo_TotalPages ?v = total_pages (length ?rows)" by (simp add: orders_view_def Let_def)
  have small: "total_pages (length ?rows) \<le> 26" using len by (simp add: total_pages_def orderPageSize_def)
  have "map (\<lambda>n. vo_Rows (orders_view (at_page n env) cd stages tables orders)) [1..<vo_TotalPages ?v + 1] =
    map (\<lambda>i. take orderPageSize (drop (i * orderPageSize) ?rows)) [0..<vo_TotalPages ?v]"
    (is "map ?f _ = map ?g _")
  proof -
    have "[1..<vo_TotalPages ?v + 1] = map Suc [0..<vo_TotalPages ?v]" by (simp add: map_Suc_upt)
    moreover have "?f (Suc i) = ?g i" if "i < vo_TotalPages ?v" for i
      using orders_view_rows [of "Suc i" env cd stages tables orders] that small by (simp add: tp in64_def)
    ultimately show ?thesis by simp
  qed
  then show ?thesis by (simp add: concat_windows tp total_pages_enough)
qed

lemma sorted_wrt_classes: "(\<And>k. sorted_wrt R (filter (\<lambda>y. f y = k) ys)) \<Longrightarrow> sorted_wrt (\<lambda>a b. f a = f b \<longrightarrow> R a b) ys"
proof (induction ys)
  case (Cons y ys)
  have "sorted_wrt R (filter (\<lambda>z. f z = k) ys)" for k using Cons.prems [of k] by (auto split: if_splits)
  moreover have "\<forall>z\<in>set ys. f y = f z \<longrightarrow> R y z" using Cons.prems [of "f y"] by auto
  ultimately show ?case using Cons.IH by simp
qed simp

lemma stable_sort_key_order: "sorted_wrt R xs \<Longrightarrow> sorted_wrt (\<lambda>a b. f a = f b \<longrightarrow> R a b) (sort_key f xs)"
  by (rule sorted_wrt_classes) (simp add: sort_key_stable sorted_wrt_filter)

lemma asked_rows_order:
  "sorted (map ordRank (asked_rows env cd stages tables orders))"
  "sorted_wrt (\<lambda>a b. ordRank a = ordRank b \<longrightarrow> Field (or_Entity b) ''created_at'' \<le> Field (or_Entity a) ''created_at'')
     (asked_rows env cd stages tables orders)"
proof -
  show "sorted (map ordRank (asked_rows env cd stages tables orders))" by (simp add: asked_rows_def)
  let ?age = "\<lambda>r. Field (or_Entity r) ''created_at''"
  let ?rows = "filter (row_asked env tables) (map (order_row env cd stages tables) (newest_first orders))"
  have "or_Entity (order_row env cd stages tables x) = x" for x by (simp add: order_row_def Let_def split: prod.split)
  moreover have "sorted_wrt (\<lambda>a b. Field b ''created_at'' \<le> Field a ''created_at'') (newest_first orders)"
    using sort_desc_sorted [of "\<lambda>x. (Field x ''created_at'', Field x ''order_number'')" orders] unfolding newest_first_def
    by (rule sorted_wrt_mono_rel [rotated]) auto
  ultimately have new: "sorted_wrt (\<lambda>a b. ?age b \<le> ?age a) ?rows"
    by (intro sorted_wrt_filter) (simp add: sorted_wrt_map)
  show "sorted_wrt (\<lambda>a b. ordRank a = ordRank b \<longrightarrow> ?age b \<le> ?age a) (asked_rows env cd stages tables orders)"
    unfolding asked_rows_def by (rule stable_sort_key_order [OF new])
qed

lemma status_keys:
  "orderStatusKey st \<in> {''PENDING'', ''ACCEPTED'', ''PREPARING'', ''READY'', ''COMPLETED'', ''CANCELLED'', ''REFUNDED''}"
  by (simp add: orderStatusKey_def Let_def)

lemma order_counts:
  fixes env cd stages tables orders
  defines "v \<equiv> orders_view env cd stages tables orders"
  shows "vo_Open v + vo_Completed v + vo_Cancelled v + count_key ''REFUNDED'' orders = vo_All v"
    and "vo_Pending v + vo_Accepted v + vo_Preparing v + vo_Ready v = vo_Open v"
proof -
  have one: "length (filter (\<lambda>x. orderStatusKey (Field x ''status'') \<notin> {''COMPLETED'', ''CANCELLED'', ''REFUNDED''}) xs)
      + count_key ''COMPLETED'' xs + count_key ''CANCELLED'' xs + count_key ''REFUNDED'' xs = length xs" for xs
    by (induction xs) (auto simp: count_key_def)
  have two: "count_key ''PENDING'' xs + count_key ''ACCEPTED'' xs + count_key ''PREPARING'' xs + count_key ''READY'' xs =
      length (filter (\<lambda>x. orderStatusKey (Field x ''status'') \<notin> {''COMPLETED'', ''CANCELLED'', ''REFUNDED''}) xs)" for xs
  proof (induction xs)
    case (Cons x xs)
    then show ?case using status_keys [of "Field x ''status''"] by (auto simp: count_key_def)
  qed (simp add: count_key_def)
  show "vo_Open v + vo_Completed v + vo_Cancelled v + count_key ''REFUNDED'' orders = vo_All v"
    "vo_Pending v + vo_Accepted v + vo_Preparing v + vo_Ready v = vo_Open v"
    using one [of orders] two [of orders] by (simp_all add: v_def orders_view_def Let_def)
qed


definition demo_reader :: page_env where
  "demo_reader = \<lparr> pg_io = (\<lambda>_. all_ok), pg_now = (0, 0), pg_day = (\<lambda>_. None), pg_today = (2026, 1, 1), pg_lower = id,
     pg_query = (\<lambda>k. if k = ''scope'' then ''all'' else []) \<rparr>"

definition demo_list :: Store where
  "demo_list = demo_store\<lparr>state := putEntity (entityKey ''order'' ''o1'')
     (new_record ''order'' ''o1'' [(''order_number'', JStr ''104''), (''status'', JStr ''ready'')]) newEmptyDB\<rparr>"

definition demo_listed :: Entity where
  "demo_listed = entity_view (new_record ''order'' ''o1'' [(''order_number'', JStr ''104''), (''status'', JStr ''ready'')])"

lemma demo_list_orders: "EntitiesOf all_ok ''order'' demo_list = Inr [demo_listed]"
  by (simp add: EntitiesOf_def demo_list_def demo_listed_def demo_store_def putEntity_def newEmptyDB_def new_record_def limit_take all_ok_def)


end
