(* ===== verification/Till_Page.thy ===== *)
theory Till_Page
  imports Orders_Page
begin

text \<open>
  The till of \<open>app.go\<close>, the case \<open>pos\<close> of \<open>render\<close>: products by category, a card for every
  table with the order that is open on it, the recent orders, the split bills for the dialogue
  and an order that is being edited.
\<close>

section \<open>Products by category\<close>

record POSGroup =
  pg_ID :: string
  pg_Label :: string
  pg_Products :: "Entity list"

definition category_group :: "Entity list \<Rightarrow> Entity \<Rightarrow> POSGroup" where
  "category_group products c =
    \<lparr> pg_ID = en_ID c, pg_Label = Label c, pg_Products = filter (\<lambda>p. Field p ''category_id'' = en_ID c) products \<rparr>"

definition POSGroups :: "Entity list \<Rightarrow> Entity list \<Rightarrow> POSGroup list" where
  "POSGroups categories products =
    (let rest = filter (\<lambda>p. Field p ''category_id'' \<notin> set (map en_ID categories)) products
     in filter (\<lambda>g. pg_Products g \<noteq> []) (map (category_group products) categories)
        @ (if rest \<noteq> [] then [\<lparr> pg_ID = ''__other'', pg_Label = (fa [0x633, 0x627, 0x6CC, 0x631, 0x20, 0x645, 0x62D, 0x635, 0x648, 0x644, 0x627, 0x62A]), pg_Products = rest \<rparr>] else []))"

section \<open>Tables\<close>

record POSStep =
  ps_Label :: string
  ps_Done :: bool
  ps_Current :: bool

record POSTableRow =
  pt_Table :: Entity
  pt_HasOrder :: bool
  pt_OrderID :: string
  pt_Number :: string
  pt_TotalFa :: string
  pt_ItemsCount :: int
  pt_TimeLabel :: string
  pt_StateKey :: string
  pt_StateLabel :: string
  pt_NextTarget :: string
  pt_NextLabel :: string
  pt_ShowComplete :: bool
  pt_SplitRemainingFa :: string
  pt_SplitSettled :: bool
  pt_Steps :: "POSStep list"

definition open_on :: "string \<Rightarrow> Entity \<Rightarrow> bool" where
  "open_on tid x \<longleftrightarrow> open_status (row_status x) \<and> TrimSpace (Field x ''table_id'') = tid \<and> tid \<noteq> []"

text \<open>\<open>openByTable\<close>: of the open orders on a table the one with the latest stamp.\<close>

definition openByTable :: "Entity list \<Rightarrow> string \<Rightarrow> Entity option" where
  "openByTable orders tid = fold later_order (filter (open_on tid) orders) None"

definition stepDefs :: "(string \<times> string) list" where
  "stepDefs = [(''pending'', (fa [0x62B, 0x628, 0x62A])), (''accepted'', (fa [0x62A, 0x623, 0x6CC, 0x6CC, 0x62F])), (''preparing'', (fa [0x622, 0x645, 0x627, 0x62F, 0x647, 0x200C, 0x633, 0x627, 0x632, 0x6CC])), (''ready'', (fa [0x622, 0x645, 0x627, 0x62F, 0x647])), (''completed'', (fa [0x62A, 0x6A9, 0x645, 0x6CC, 0x644]))]"

definition flowIdx :: "string \<Rightarrow> nat" where
  "flowIdx key = (if key = ''accepted'' then 1 else if key = ''preparing'' then 2 else if key = ''ready'' then 3 else 0)"

definition pos_steps :: "string list \<Rightarrow> string \<Rightarrow> POSStep list" where
  "pos_steps stages key =
    map (\<lambda>(i, k, l). \<lparr> ps_Label = l, ps_Done = i < flowIdx key, ps_Current = (i = flowIdx key) \<rparr>)
      (filter (\<lambda>(i, k, l). k = ''pending'' \<or> k = ''completed'' \<or> k \<in> set stages) (enumerate 0 stepDefs))"

definition clock_label :: "Entity \<Rightarrow> string" where
  "clock_label x = (case parse_time RFC3339 (Field x ''created_at'') of None \<Rightarrow> [] | Some t \<Rightarrow> FormatJalaliClock t)"

definition free_card :: "Entity \<Rightarrow> string \<Rightarrow> string \<Rightarrow> POSTableRow" where
  "free_card t key label =
    \<lparr> pt_Table = t, pt_HasOrder = False, pt_OrderID = [], pt_Number = [], pt_TotalFa = [], pt_ItemsCount = 0, pt_TimeLabel = [],
      pt_StateKey = key, pt_StateLabel = label, pt_NextTarget = [], pt_NextLabel = [], pt_ShowComplete = False,
      pt_SplitRemainingFa = [], pt_SplitSettled = False, pt_Steps = [] \<rparr>"

definition order_card :: "string list \<Rightarrow> Entity \<Rightarrow> Entity \<Rightarrow> POSTableRow" where
  "order_card stages t x =
    (let key = row_status x; (nextTarget, nextLabel) = orderPrimaryAction key stages;
         splitRem = (case SplitBillOf x of (_, _, _, rem) \<Rightarrow> rem)
     in \<lparr> pt_Table = t, pt_HasOrder = True, pt_OrderID = en_ID x, pt_Number = displayOrderNumber (Field x ''order_number''),
          pt_TotalFa = toman_down (PriceIRR x), pt_ItemsCount = items_quantity x, pt_TimeLabel = clock_label x,
          pt_StateKey = key, pt_StateLabel = StatusLabelOf x, pt_NextTarget = nextTarget, pt_NextLabel = nextLabel,
          pt_ShowComplete = (nextTarget = ''completed''), pt_SplitRemainingFa = toman64 splitRem,
          pt_SplitSettled = (splitRem = 0 \<and> Field x ''split_status'' = ''PAID''), pt_Steps = pos_steps stages key \<rparr>)"

definition table_card :: "string list \<Rightarrow> Entity list \<Rightarrow> Entity \<Rightarrow> POSTableRow" where
  "table_card stages orders t =
    (let st = row_status t
     in case openByTable orders (en_ID t) of
          Some x \<Rightarrow> order_card stages t x
        | None \<Rightarrow>
           (if st = ''reserved'' then free_card t ''reserved'' (fa [0x631, 0x632, 0x631, 0x648])
            else if st = ''disabled'' \<or> st = ''cleaning'' then free_card t st (StatusLabelOf t)
            else free_card t ''free'' (fa [0x622, 0x632, 0x627, 0x62F])))"

section \<open>Recent orders\<close>

record POSRecentRow =
  rr_ID :: string
  rr_Number :: string
  rr_TotalFa :: string
  rr_StatusLabel :: string
  rr_StatusKey :: string
  rr_TimeLabel :: string
  rr_TableLabel :: string
  rr_ItemsLabel :: string
  rr_OriginLabel :: string
  rr_CustomerName :: string
  rr_NextTarget :: string
  rr_NextLabel :: string
  rr_ProgressPct :: int
  rr_IsOpen :: bool
  rr_IsCompleted :: bool
  rr_IsCancelled :: bool
  rr_HasTable :: bool

definition recent_items :: "Entity \<Rightarrow> string" where
  "recent_items x =
    (case SplitBillOf x of (lines, _) \<Rightarrow>
      (case lines of
         [] \<Rightarrow> []
       | l # _ \<Rightarrow> FormatPersianNumber (Itoa (fold (\<lambda>b n. w64 (n + sl_Quantity b)) lines 0)) @ (fa [0x20, 0x642, 0x644, 0x645, 0x3A, 0x20]) @ sl_Title l))"

definition origin_label :: "Entity \<Rightarrow> string" where
  "origin_label x =
    (let tbl = TrimSpace (Field x ''table_label''); ft = TrimSpace (Field x ''fulfillment_type'')
     in if tbl \<noteq> [] then tbl
        else if ft = ''outside'' then (fa [0x628, 0x6CC, 0x631, 0x648, 0x646, 0x200C, 0x628, 0x631, 0x20, 0x2022, 0x20, 0x628, 0x62F, 0x648, 0x646, 0x20, 0x645, 0x6CC, 0x632])
        else if ft = ''delivery'' then (fa [0x67E, 0x6CC, 0x6A9, 0x20, 0x2022, 0x20, 0x628, 0x62F, 0x648, 0x646, 0x20, 0x645, 0x6CC, 0x632])
        else (fa [0x62D, 0x636, 0x648, 0x631, 0x6CC, 0x20, 0x2022, 0x20, 0x628, 0x62F, 0x648, 0x646, 0x20, 0x645, 0x6CC, 0x632]))"

text \<open>The place of a state in the chain; the last one counts.\<close>

definition progress :: "string list \<Rightarrow> string \<Rightarrow> int" where
  "progress enabled st =
    (let steps = ''pending'' # enabled @ [''completed''];
         cur = (if st = ''completed'' then length steps - 1
                else fold (\<lambda>(i, k) c. if k = st then i else c) (enumerate 0 steps) 0)
     in int cur * 100 div int (length steps - 1))"

definition recent_row :: "(string \<Rightarrow> string) \<Rightarrow> string list \<Rightarrow> Entity \<Rightarrow> POSRecentRow" where
  "recent_row upper enabled x =
    (let st = row_status x; done = (st = ''completed''); gone = (st = ''cancelled'' \<or> st = ''canceled'');
         (nt, nl) = (if \<not> done \<and> \<not> gone then orderPrimaryAction st enabled else ([], []))
     in \<lparr> rr_ID = en_ID x, rr_Number = displayOrderNumber (Field x ''order_number''), rr_TotalFa = toman_down (PriceIRR x),
          rr_StatusLabel = StatusLabelOf x, rr_StatusKey = upper (TrimSpace (Field x ''status'')), rr_TimeLabel = clock_label x,
          rr_TableLabel = TrimSpace (Field x ''table_label''), rr_ItemsLabel = recent_items x, rr_OriginLabel = origin_label x,
          rr_CustomerName = TrimSpace (Field x ''customer_name''), rr_NextTarget = nt,
          rr_NextLabel = (if nt = ''completed'' then (fa [0x62A, 0x6A9, 0x645, 0x6CC, 0x644, 0x20, 0x648, 0x20, 0x635, 0x62F, 0x648, 0x631, 0x20, 0x641, 0x627, 0x6A9, 0x62A, 0x648, 0x631]) else nl),
          rr_ProgressPct = progress enabled st, rr_IsOpen = (\<not> done \<and> \<not> gone), rr_IsCompleted = done, rr_IsCancelled = gone,
          rr_HasTable = (TrimSpace (Field x ''table_label'') \<noteq> []) \<rparr>)"

definition posRecentRank :: "POSRecentRow \<Rightarrow> nat" where
  "posRecentRank r = (if rr_IsCancelled r then 2 else if rr_IsCompleted r then 1 else 0)"

text \<open>Of the twelve newest orders those of today and the open ones.\<close>

definition recent_shown :: "page_env \<Rightarrow> Entity \<Rightarrow> bool" where
  "recent_shown env x \<longleftrightarrow>
    isTehranToday (pg_day env) (pg_today env) (Field x ''created_at'') \<or> row_status x \<notin> {''completed'', ''cancelled'', ''canceled''}"

definition POSRecent :: "page_env \<Rightarrow> (string \<Rightarrow> string) \<Rightarrow> string list \<Rightarrow> Entity list \<Rightarrow> POSRecentRow list" where
  "POSRecent env upper enabled orders =
    sort_key posRecentRank (map (recent_row upper enabled)
      (filter (recent_shown env) (take 12 (sort_desc (\<lambda>x. Field x ''created_at'') orders))))"

section \<open>Split bills and the order that is edited\<close>

fun count_sub :: "string \<Rightarrow> string \<Rightarrow> nat \<Rightarrow> nat" where
  "count_sub sub s 0 = 0"
| "count_sub sub s (Suc n) = (case Index s sub of None \<Rightarrow> 0 | Some i \<Rightarrow> Suc (count_sub sub (drop (i + length sub) s) n))"

text \<open>\<open>len(strings.Split(s, sub)) - 1\<close> for a separator that is not empty.\<close>

definition occurrences :: "string \<Rightarrow> string \<Rightarrow> nat" where
  "occurrences sub s = count_sub sub s (length s)"

definition split_line_json :: "SplitBillLine \<Rightarrow> json" where
  "split_line_json l = JObj [(''key'', JStr (sl_Key l)), (''title'', JStr (sl_Title l)), (''qty'', int_json (sl_Quantity l)),
     (''paidQty'', int_json (sl_PaidQuantity l)), (''remainIrr'', int_json (sl_RemainingIRR l)), (''unitIrr'', int_json (sl_UnitPayableIRR l))]"

definition split_bill_json :: "Entity \<Rightarrow> json" where
  "split_bill_json x =
    (case SplitBillOf x of (lines, tot, paid, rem) \<Rightarrow>
      JObj [(''orderId'', JStr (en_ID x)), (''number'', JStr (displayOrderNumber (Field x ''order_number''))),
        (''table'', JStr (TrimSpace (Field x ''table_label''))), (''totalIrr'', int_json tot), (''paidIrr'', int_json paid),
        (''remainIrr'', int_json rem), (''lines'', if lines = [] then JNull else JArr (map split_line_json lines)),
        (''payments'', int_json (int (occurrences [CHR 0x22, CHR ''i'', CHR ''d'', CHR 0x22] (TrimSpace (Field x ''split_payments'')))))])"

definition POSSplitJSON :: "Entity list \<Rightarrow> string" where
  "POSSplitJSON orders =
    json_text (marshal (fold (\<lambda>x. AList.update (en_ID x) (split_bill_json x)) (filter (\<lambda>x. open_status (row_status x)) orders) []))"

record POSEditState =
  pg_OrderID :: string
  pg_Number :: string
  pg_TableLabel :: string
  pg_CustomerName :: string
  pg_CustomerPhone :: string
  pg_Note :: string
  pg_ExtraNote :: string
  pg_DiscountIRR :: int
  pg_ExtraIRR :: int
  pg_ItemsJSON :: string
  pg_ItemsCount :: int

definition edit_line :: "OrderLineView \<Rightarrow> json" where
  "edit_line l = JObj [(''pid'', JStr (ov_ProductID l)), (''title'', JStr (ov_ProductName l)), (''price'', int_json (ParseInt_or (ov_UnitPrice l))),
     (''qty'', int_json (ov_Quantity l)), (''note'', JStr (ov_Note l))]"

definition POSEdit :: "page_env \<Rightarrow> Store \<Rightarrow> POSEditState option" where
  "POSEdit env s =
    (let editID = query_of env ''edit''
     in if editID = [] then None
        else (case EntityOf (pg_io env 9) ''order'' editID s of
                Inl _ \<Rightarrow> None
              | Inr x \<Rightarrow>
                 (if \<not> open_status (row_status x) then None
                  else Some \<lparr> pg_OrderID = en_ID x, pg_Number = displayOrderNumber (Field x ''order_number''),
                    pg_TableLabel = TrimSpace (Field x ''table_label''), pg_CustomerName = TrimSpace (Field x ''customer_name''),
                    pg_CustomerPhone = TrimSpace (Field x ''customer_phone''), pg_Note = TrimSpace (Field x ''note''),
                    pg_ExtraNote = TrimSpace (Field x ''extra_note''), pg_DiscountIRR = ParseInt_or (Field x ''discount_irr''),
                    pg_ExtraIRR = ParseInt_or (Field x ''extra_irr''),
                    pg_ItemsJSON = json_text (if OrderItems x = [] then JNull else JArr (map edit_line (OrderItems x))),
                    pg_ItemsCount = items_quantity x \<rparr>)))"

section \<open>The page\<close>

record TillView =
  tv_Groups :: "POSGroup list"
  tv_Stages :: "(string \<times> bool) list"
  tv_StageCount :: nat
  tv_Tables :: "POSTableRow list"
  tv_LastOrder :: "(string \<times> string) option"
  tv_Recent :: "POSRecentRow list"
  tv_ClubRows :: "ClubCustomerRow list"
  tv_ClubGroups :: "ClubGroupRow list"
  tv_SplitJSON :: string
  tv_OpenSplit :: string
  tv_Edit :: "POSEditState option"

definition member_count :: "Entity list \<Rightarrow> string \<Rightarrow> int" where
  "member_count customers gid = int (length (filter (\<lambda>c. gid \<noteq> [] \<and> TrimSpace (Field c ''group_id'') = gid) customers))"

text \<open>\<open>day_text\<close> is the day of the clock as \<open>2006-01-02\<close>.\<close>

definition till_page :: "page_env \<Rightarrow> (string \<Rightarrow> string) \<Rightarrow> string \<Rightarrow> Store \<Rightarrow> TillView" where
  "till_page env upper day_text s =
    (let list = (\<lambda>n kind. entities_or_empty env n kind s);
         categories = list 0 ''category''; products = list 1 ''product''; tables = list 2 ''table''; customers = list 3 ''customer'';
         groups = list 4 ''customer_group''; stages = posEnabledStages (pg_io env 6) s; orders = list 7 ''order'';
         enabled = filter (\<lambda>k. k \<in> set stages) stage_chain;
         sorted_orders = sort_desc (\<lambda>x. Field x ''created_at'') orders
     in \<lparr> tv_Groups = POSGroups categories products,
          tv_Stages = map (\<lambda>k. (k, k \<in> set stages)) stage_chain, tv_StageCount = length stages + 1,
          tv_Tables = map (table_card stages orders) tables,
          tv_LastOrder = (case sorted_orders of [] \<Rightarrow> None | x # _ \<Rightarrow> Some (en_ID x, toman_down (PriceIRR x))),
          tv_Recent = POSRecent env upper enabled orders,
          tv_ClubRows = clubBuildRows customers orders (list 8 ''debtor'') groups,
          tv_ClubGroups = map (\<lambda>g. clubGroupRowOf day_text (member_count customers (en_ID g)) g) groups,
          tv_SplitJSON = POSSplitJSON orders, tv_OpenSplit = query_of env ''split'', tv_Edit = POSEdit env s \<rparr>)"

section \<open>What the till shows\<close>

lemma filter_by_category:
  "distinct ids \<Longrightarrow> mset (concat (map (\<lambda>i. filter (\<lambda>p. f p = i) ps) ids)) = mset (filter (\<lambda>p. f p \<in> set ids) ps)"
proof (induction ids)
  case (Cons i ids)
  have "filter_mset (\<lambda>p. f p = i) (mset ps) + filter_mset (\<lambda>p. f p \<in> set ids) (mset ps) = filter_mset (\<lambda>p. f p \<in> set (i # ids)) (mset ps)"
    using Cons.prems by (induction ps) auto
  then show ?case using Cons by simp
qed simp

lemma concat_nonempty: "concat (map g (filter (\<lambda>x. g x \<noteq> []) xs)) = concat (map g xs)"
  by (induction xs) auto

lemma POSGroups_mset:
  assumes "distinct (map en_ID cats)"
  shows "mset (concat (map pg_Products (POSGroups cats ps))) = mset ps"
proof -
  let ?f = "\<lambda>p. Field p ''category_id''"
  have "concat (map pg_Products (filter (\<lambda>g. pg_Products g \<noteq> []) (map (category_group ps) cats))) =
      concat (map (\<lambda>i. filter (\<lambda>p. ?f p = i) ps) (map en_ID cats))"
    by (simp add: concat_nonempty [of pg_Products] category_group_def comp_def)
  moreover have "concat (map pg_Products (if xs \<noteq> [] then [\<lparr> pg_ID = i, pg_Label = l, pg_Products = xs \<rparr>] else [])) = xs" for xs i l by simp
  ultimately have "mset (concat (map pg_Products (POSGroups cats ps))) =
      mset (filter (\<lambda>p. ?f p \<in> set (map en_ID cats)) ps) + mset (filter (\<lambda>p. ?f p \<notin> set (map en_ID cats)) ps)"
    using filter_by_category [OF assms, of ?f ps] unfolding POSGroups_def Let_def by (simp only: map_append concat_append mset_append)
  also have "\<dots> = mset ps" by (simp add: multiset_partition [symmetric])
  finally show ?thesis .
qed

lemma POSGroups_sound:
  assumes "g \<in> set (POSGroups cats ps)"
  shows "pg_Products g \<noteq> [] \<and> (\<forall>p\<in>set (pg_Products g).
    (\<exists>c\<in>set cats. pg_ID g = en_ID c \<and> pg_Label g = Label c \<and> Field p ''category_id'' = en_ID c) \<or>
    (pg_ID g = ''__other'' \<and> (\<forall>c\<in>set cats. Field p ''category_id'' \<noteq> en_ID c)))"
  using assms by (auto simp: POSGroups_def category_group_def Let_def split: if_splits)

lemma later_order_none: "fold later_order xs cur = None \<longleftrightarrow> xs = [] \<and> cur = None"
  by (induction xs arbitrary: cur) (auto simp: later_order_def split: option.splits)


definition demo_hall :: Store where
  "demo_hall = demo_store\<lparr>state := newEmptyDB\<lparr>Entities :=
     map (\<lambda>e. (entityKey (se_Type e) (se_ID e), e))
      [new_record ''category'' ''c1'' [(''title'', JStr ''Hot'')],
       new_record ''product'' ''p1'' [(''title'', JStr ''Espresso''), (''category_id'', JStr ''c1'')],
       new_record ''table'' ''t1'' [(''number'', JStr ''4'')],
       new_record ''order'' ''o1'' [(''status'', JStr ''ready''), (''table_id'', JStr ''t1'')]]\<rparr>\<rparr>"

lemma demo_hall_lists:
  "entities_or_empty demo_reader n ''category'' demo_hall = [entity_view (new_record ''category'' ''c1'' [(''title'', JStr ''Hot'')])]"
  "entities_or_empty demo_reader n ''product'' demo_hall =
     [entity_view (new_record ''product'' ''p1'' [(''title'', JStr ''Espresso''), (''category_id'', JStr ''c1'')])]"
  "entities_or_empty demo_reader n ''table'' demo_hall = [entity_view (new_record ''table'' ''t1'' [(''number'', JStr ''4'')])]"
  "entities_or_empty demo_reader n ''order'' demo_hall = [entity_view (new_record ''order'' ''o1'' [(''status'', JStr ''ready''), (''table_id'', JStr ''t1'')])]"
  by (simp_all add: entities_or_empty_def EntitiesOf_def demo_reader_def demo_hall_def demo_store_def new_record_def limit_take all_ok_def)

lemma demo_hall_open: "open_on ''t1'' (entity_view (new_record ''order'' ''o1'' [(''status'', JStr ''ready''), (''table_id'', JStr ''t1'')]))"
proof -
  have "TrimSpace ''ready'' = ''ready''" "TrimSpace ''t1'' = ''t1''" by (rule TrimSpace_graph; simp add: graph_def)+
  moreover have "ToLower ''ready'' = ''ready''" by (simp add: lower_ascii_def HasPrefix_def)
  ultimately show ?thesis
    by (simp add: open_on_def row_status_def Field_def entity_view_def new_record_def payload_field_marshal gmap_def open_status_def)
qed


end
