(* ===== verification/Catalog_Pages.thy ===== *)
theory Catalog_Pages
  imports Till_Page
begin

text \<open>
  The pages of \<open>app.go\<close> about the menu and the warehouse: the cases \<open>products\<close>, \<open>product-form\<close>,
  \<open>categories\<close>, \<open>ingredients\<close>, \<open>waste\<close>, \<open>pricing\<close>, \<open>inv-categories\<close> and the routes of
  \<open>settings\<close>.
\<close>

section \<open>Products\<close>

record ProductRow =
  pr_Rank :: nat
  pr_Entity :: Entity
  pr_CategoryLabel :: string
  pr_OrdersCount :: int
  pr_StatusKey :: string
  pr_StockDisplay :: string
  pr_ImageURL :: string

definition ProductRow_StatusText :: "ProductRow \<Rightarrow> string" where
  "ProductRow_StatusText r =
    (if pr_StatusKey r = ''low'' then (fa [0x6A9, 0x645, 0x200C, 0x645, 0x648, 0x62C, 0x648, 0x62F, 0x6CC]) else if pr_StatusKey r = ''out'' then (fa [0x646, 0x627, 0x645, 0x648, 0x62C, 0x648, 0x62F]) else (fa [0x645, 0x648, 0x62C, 0x648, 0x62F]))"

text \<open>How often a product was ordered, in orders that were not cancelled.\<close>

definition orders_count :: "Entity list \<Rightarrow> string \<Rightarrow> int" where
  "orders_count orders pid =
    fold (\<lambda>l n. if ov_ProductID l = pid then w64 (n + ov_Quantity l) else n)
      (concat (map OrderItems (filter (\<lambda>x. \<not> is_cancelled x) orders))) 0"

definition product_stock :: "Entity \<Rightarrow> float64 option" where
  "product_stock p =
    (let raw = TrimSpace (Field p ''stock'') in case ParseFloat raw of (x, ok) \<Rightarrow> if ok \<and> raw \<noteq> [] then Some x else None)"

definition product_status :: "Entity \<Rightarrow> string" where
  "product_status p =
    (let stock = product_stock p
     in if Field p ''is_available'' = ''false'' \<or> (case stock of None \<Rightarrow> False | Some x \<Rightarrow> f_le x f_zero) then ''out''
        else if (case stock of None \<Rightarrow> False | Some x \<Rightarrow> f_less x (f_of_int 10)) then ''low'' else ''in'')"

definition label_of :: "Entity list \<Rightarrow> string \<Rightarrow> string" where
  "label_of es i = (case map_of (rev (map (\<lambda>c. (en_ID c, Label c)) es)) i of None \<Rightarrow> [] | Some l \<Rightarrow> l)"

definition product_view :: "Entity list \<Rightarrow> Entity list \<Rightarrow> Entity \<Rightarrow> ProductRow" where
  "product_view cats orders p =
    \<lparr> pr_Rank = 0, pr_Entity = p, pr_CategoryLabel = or_else (label_of cats (Field p ''category_id'')) (fa [0x2014]),
      pr_OrdersCount = orders_count orders (en_ID p), pr_StatusKey = product_status p,
      pr_StockDisplay = (case product_stock p of None \<Rightarrow> (fa [0x2014]) | Some x \<Rightarrow> FormatPersianNumber (FormatFloat_min x)),
      pr_ImageURL = Field p ''image'' \<rparr>"

definition product_asked :: "page_env \<Rightarrow> Entity \<Rightarrow> bool" where
  "product_asked env p =
    (let q = pg_lower env (query_of env ''q''); cat = query_of env ''category''; st = query_of env ''status''
     in (q = [] \<or> Contains (pg_lower env (Label p)) q \<or> Contains (pg_lower env (Field p ''description'')) q) \<and>
        (cat = [] \<or> Field p ''category_id'' = cat) \<and> (st = [] \<or> product_status p = st))"

record ProductsView =
  vp_Rows :: "ProductRow list"
  vp_Total :: nat
  vp_InStock :: nat
  vp_LowStock :: nat
  vp_OutOfStock :: nat

definition products_page :: "page_env \<Rightarrow> Store \<Rightarrow> ProductsView option" where
  "products_page env s =
    (case EntitiesOf (pg_io env 0) ''product'' s of
       Inl _ \<Rightarrow> None
     | Inr ps \<Rightarrow>
        (let cats = entities_or_empty env 1 ''category'' s; orders = entities_or_empty env 3 ''order'' s;
             rows = map (product_view cats orders) (filter (product_asked env) ps);
             count = (\<lambda>P. length (filter P ps))
         in Some \<lparr> vp_Rows = map (\<lambda>(i, r). r\<lparr>pr_Rank := i\<rparr>) (enumerate 1 rows), vp_Total = length ps,
              vp_InStock = count (\<lambda>p. product_status p \<notin> {''out'', ''low''}), vp_LowStock = count (\<lambda>p. product_status p = ''low''),
              vp_OutOfStock = count (\<lambda>p. product_status p = ''out'') \<rparr>))"

section \<open>The form of a record\<close>

text \<open>The fields of a form: strings as they are, other values as their JSON text.\<close>

definition form_value :: "json \<Rightarrow> string" where
  "form_value j = (case j of JStr t \<Rightarrow> t | JNull \<Rightarrow> [] | _ \<Rightarrow> json_text j)"

definition form_fields :: "json \<Rightarrow> (string \<times> string) list" where
  "form_fields payload = (case as_map payload of None \<Rightarrow> [] | Some m \<Rightarrow> map (\<lambda>(k, j). (k, form_value j)) m)"

definition record_form :: "io \<Rightarrow> string \<Rightarrow> string \<Rightarrow> Store \<Rightarrow> string \<times> (string \<times> string) list" where
  "record_form w kind i s =
    (if i = [] then (''create'', [])
     else (case EntityOf w kind i s of Inl _ \<Rightarrow> (''create'', []) | Inr e \<Rightarrow> (''update'', form_fields (en_Payload e))))"

record ProductVariantRow =
  pvr_Title :: string
  pvr_Value :: string
  pvr_Active :: bool

fun dec_flag :: "bool option \<Rightarrow> json list \<Rightarrow> bool option option" where
  "dec_flag cur [] = Some cur"
| "dec_flag cur (JNull # js) = dec_flag None js"
| "dec_flag cur (JBool b # js) = dec_flag (Some b) js"
| "dec_flag cur (_ # js) = None"

definition variant_row :: "json \<Rightarrow> ProductVariantRow option" where
  "variant_row j =
    (case struct_members j of
       None \<Rightarrow> None
     | Some kvs \<Rightarrow>
        (case (string_field ''title'' kvs, dec_flag None (members_of ''is_active'' kvs)) of
           (Some t, Some act) \<Rightarrow>
             Some \<lparr> pvr_Title = t, pvr_Value = TrimChar (raw_text (raw_field ''value'' kvs)) (CHR 0x22),
               pvr_Active = (case act of None \<Rightarrow> True | Some b \<Rightarrow> b) \<rparr>
         | _ \<Rightarrow> None))"

definition product_variants :: "Entity \<Rightarrow> ProductVariantRow list" where
  "product_variants e =
    (case Option.bind (struct_members (en_Payload e)) (slice_field ''variants'' variant_row) of None \<Rightarrow> [] | Some vs \<Rightarrow> vs)"

definition product_recipe :: "Entity list \<Rightarrow> string \<Rightarrow> RecipeLineView list" where
  "product_recipe recipes pid =
    (case List.find (\<lambda>r. Field r ''product_id'' = pid) recipes of None \<Rightarrow> [] | Some r \<Rightarrow> RecipeLines r)"

section \<open>Categories and routes\<close>

definition category_rows :: "Entity list \<Rightarrow> Entity list \<Rightarrow> (Entity \<times> nat) list" where
  "category_rows cats products = map (\<lambda>c. (c, length (filter (\<lambda>p. Field p ''category_id'' = en_ID c) products))) cats"

record CategoryRouteRow =
  cr_Category :: Entity
  cr_Products :: nat
  cr_HasRoute :: bool
  cr_Active :: bool
  cr_PrinterID :: string
  cr_Copies :: int

definition route_row :: "Entity list \<Rightarrow> Entity list \<Rightarrow> Entity \<Rightarrow> CategoryRouteRow" where
  "route_row routes products c =
    (let n = length (filter (\<lambda>p. Field p ''category_id'' = en_ID c) products)
     in case map_of (rev (filter (\<lambda>(k, _). k \<noteq> []) (map (\<lambda>rt. (TrimSpace (Field rt ''category_id''), rt)) routes))) (en_ID c) of
          None \<Rightarrow> \<lparr> cr_Category = c, cr_Products = n, cr_HasRoute = False, cr_Active = True, cr_PrinterID = [], cr_Copies = 1 \<rparr>
        | Some rt \<Rightarrow>
            \<lparr> cr_Category = c, cr_Products = n, cr_HasRoute = True,
              cr_Active = (Field rt ''is_active'' \<noteq> ''false'' \<and> Field rt ''is_active'' \<noteq> ''0''),
              cr_PrinterID = TrimSpace (Field rt ''printer_id''),
              cr_Copies = (case Atoi (TrimSpace (Field rt ''copies'')) of (k, ok) \<Rightarrow> if ok \<and> k \<ge> 1 \<and> k \<le> 5 then k else 1) \<rparr>)"

record InvCategoryRow =
  ic_Entity :: Entity
  ic_Items :: nat
  ic_ItemsFa :: string
  ic_SortOrder :: int
  ic_Active :: bool

definition inv_category_rows :: "Entity list \<Rightarrow> Entity list \<Rightarrow> InvCategoryRow list" where
  "inv_category_rows cats ingredients =
    (let count = (\<lambda>l. length (filter (\<lambda>g. l \<noteq> [] \<and> TrimSpace (Field g ''category'') = l) ingredients))
     in sort_key (\<lambda>r. (ic_SortOrder r, Label (ic_Entity r)))
          (map (\<lambda>c. \<lparr> ic_Entity = c, ic_Items = count (Label c), ic_ItemsFa = FormatPersianNumber (Itoa (int (count (Label c)))),
                 ic_SortOrder = ParseInt_or (Field c ''sort_order''), ic_Active = (Field c ''is_active'' \<noteq> ''false'') \<rparr>) cats))"

section \<open>The warehouse\<close>

record InvRow =
  ir_Entity :: Entity
  ir_StatusKey :: string
  ir_StockDisplay :: string
  ir_ValueToman :: string
  ir_Location :: string
  ir_Category :: string

definition InvRow_StatusText :: "InvRow \<Rightarrow> string" where
  "InvRow_StatusText r =
    (if ir_StatusKey r = ''low'' then (fa [0x6A9, 0x645, 0x200C, 0x645, 0x648, 0x62C, 0x648, 0x62F, 0x6CC]) else if ir_StatusKey r = ''out'' then (fa [0x67E, 0x627, 0x6CC, 0x627, 0x646, 0x200C, 0x6CC, 0x627, 0x641, 0x62A, 0x647]) else (fa [0x645, 0x648, 0x62C, 0x648, 0x62F]))"

text \<open>A positive number rounded to the given number of bits, as \<open>big.Float\<close> does it.\<close>

definition round_bits :: "int \<Rightarrow> rat \<Rightarrow> rat" where
  "round_bits p m =
    (if m = 0 then 0 else (let u = exponent m - p + 1 in rat_of_int (round_even (m / 2 powi u)) * 2 powi u))"

text \<open>
  The value of a stock: \<open>big.NewFloat(stock)\<close> times \<open>SetInt(avg)\<close>, cut to an integer. \<open>None\<close>
  is the panic of \<open>big.NewFloat(NaN)\<close>, of infinity times zero, and of adding the missing integer
  that infinity converts to.
\<close>

definition stock_value :: "float64 \<Rightarrow> int \<Rightarrow> int option" where
  "stock_value stock avg =
    (case stock of
       Fin n m \<Rightarrow>
         (let v = \<lfloor>round_bits (max 64 (bit_length \<bar>avg\<bar>)) (m * rat_of_int \<bar>avg\<bar>)\<rfloor> in Some (if n = (avg < 0) then v else - v))
     | _ \<Rightarrow> None)"

definition ing_stock :: "Entity \<Rightarrow> float64" where
  "ing_stock g = fst (ParseFloat (Field g ''current_stock''))"

definition inv_status :: "Entity \<Rightarrow> string" where
  "inv_status g = (if f_le (ing_stock g) f_zero then ''out'' else if NeedsReorder g then ''low'' else ''in'')"

definition inv_row :: "Entity \<Rightarrow> InvRow option" where
  "inv_row g =
    map_option (\<lambda>v. \<lparr> ir_Entity = g, ir_StatusKey = inv_status g,
        ir_StockDisplay = FormatPersianNumber (FormatFloat_min (ing_stock g)) @ '' '' @ UnitLabel g, ir_ValueToman = FormatIRRToToman (Itoa v),
        ir_Location = or_else (Field g ''storage_location'') (fa [0x627, 0x646, 0x628, 0x627, 0x631, 0x20, 0x627, 0x635, 0x644, 0x6CC]), ir_Category = or_else (Field g ''category'') (fa [0x628, 0x62F, 0x648, 0x646, 0x20, 0x62F, 0x633, 0x62A, 0x647, 0x200C, 0x628, 0x646, 0x62F, 0x6CC]) \<rparr>)
      (stock_value (ing_stock g) (parseIRRBig (Field g ''average_cost'')))"

text \<open>What an ingredient lost in the last thirty days; \<open>cutoff\<close> is their start.\<close>

definition consumed :: "gotime \<Rightarrow> Entity list \<Rightarrow> string \<Rightarrow> float64" where
  "consumed cutoff movements i =
    fold (\<lambda>mv acc.
        (case ParseFloat (Field mv ''quantity'') of (q, ok) \<Rightarrow>
          if \<not> ok \<or> f_le f_zero q then acc
          else if (case parse_time RFC3339 (Field mv ''created_at'') of None \<Rightarrow> False | Some t \<Rightarrow> t < cutoff) then acc
          else if Field mv ''ingredient_id'' = i then f_add acc (f_neg q) else acc))
      movements f_zero"

definition ending_soon :: "gotime \<Rightarrow> Entity list \<Rightarrow> Entity \<Rightarrow> bool" where
  "ending_soon cutoff movements g =
    (let stock = ing_stock g; daily = f_div (consumed cutoff movements (en_ID g)) (f_of_int 30)
     in f_less f_zero stock \<and> f_less f_zero daily \<and> f_le (f_div stock daily) (f_of_int 30))"

definition inv_asked :: "page_env \<Rightarrow> InvRow \<Rightarrow> bool" where
  "inv_asked env r =
    (let g = ir_Entity r; q = pg_lower env (query_of env ''q''); has = (\<lambda>t. Contains (pg_lower env t) q);
         cat = query_of env ''icategory''; loc = query_of env ''ilocation''; st = query_of env ''istatus''
     in (q = [] \<or> has (Label g) \<or> has (Field g ''sku'') \<or> has (ir_Location r) \<or> has (Field g ''supplier'')) \<and>
        (cat = [] \<or> ir_Category r = cat) \<and> (loc = [] \<or> ir_Location r = loc) \<and> (st = [] \<or> ir_StatusKey r = st))"

text \<open>A stable sort by a comparison; the code sorts the stock as numbers.\<close>

fun insert_by :: "('a \<Rightarrow> 'a \<Rightarrow> bool) \<Rightarrow> 'a \<Rightarrow> 'a list \<Rightarrow> 'a list" where
  "insert_by lt x [] = [x]"
| "insert_by lt x (y # ys) = (if lt y x then y # insert_by lt x ys else x # y # ys)"

definition sort_by :: "('a \<Rightarrow> 'a \<Rightarrow> bool) \<Rightarrow> 'a list \<Rightarrow> 'a list" where
  "sort_by lt xs = foldr (insert_by lt) xs []"

definition inv_sort :: "string \<Rightarrow> InvRow list \<Rightarrow> InvRow list" where
  "inv_sort how rs =
    (let stock = (\<lambda>r. ing_stock (ir_Entity r))
     in if how = ''stock-asc'' then sort_by (\<lambda>a b. f_less (stock a) (stock b)) rs
        else if how = ''stock-desc'' then sort_by (\<lambda>a b. f_less (stock b) (stock a)) rs
        else if how = ''name'' then sort_key (\<lambda>r. Label (ir_Entity r)) rs
        else rs)"

record InventoryView =
  vi_Rows :: "InvRow list"
  vi_Total :: nat
  vi_Out :: nat
  vi_Low :: nat
  vi_EndingSoon :: nat
  vi_ValueToman :: string
  vi_Categories :: "string list"
  vi_Locations :: "string list"
  vi_Alerts :: "InvRow list"
  vi_Movements :: "Entity list"

text \<open>\<open>None\<close> when the page panics.\<close>

definition inventory_view :: "page_env \<Rightarrow> gotime \<Rightarrow> Entity list \<Rightarrow> Entity list \<Rightarrow> Entity list \<Rightarrow> InventoryView option" where
  "inventory_view env cutoff ingredients movements catEnts =
    map_option (\<lambda>rows.
        (let count = (\<lambda>k. length (filter (\<lambda>r. ir_StatusKey r = k) rows))
         in \<lparr> vi_Rows = inv_sort (query_of env ''isort'') (filter (inv_asked env) rows), vi_Total = length rows,
              vi_Out = count ''out'', vi_Low = count ''low'',
              vi_EndingSoon = length (filter (ending_soon cutoff movements) ingredients),
              vi_ValueToman = FormatIRRToToman (Itoa (sum_list (map
                (\<lambda>g. the (stock_value (ing_stock g) (parseIRRBig (Field g ''average_cost'')))) ingredients))),
              vi_Categories = sort (remdups (map ir_Category rows @ map Label catEnts)),
              vi_Locations = sort (remdups (map ir_Location rows)),
              vi_Alerts = take 8 (filter (\<lambda>r. ir_StatusKey r \<noteq> ''in'') rows), vi_Movements = take 8 movements \<rparr>))
      (those (map inv_row ingredients))"

section \<open>Waste\<close>

record WasteRow =
  wr_Entity :: Entity
  wr_ReasonLabel :: string
  wr_CostFa :: string
  wr_Voided :: bool

record WasteAgg =
  wa_Label :: string
  wa_Events :: nat
  wa_CostFa :: string
  wa_QtyFa :: string

definition reasonLabels :: "(string \<times> string) list" where
  "reasonLabels =
    [(''expired'', (fa [0x645, 0x646, 0x642, 0x636, 0x6CC, 0x20, 0x634, 0x62F, 0x647])), (''spoilage'', (fa [0x641, 0x627, 0x633, 0x62F, 0x20, 0x634, 0x62F, 0x647])), (''preparation'', (fa [0x622, 0x645, 0x627, 0x62F, 0x647, 0x200C, 0x633, 0x627, 0x632, 0x6CC])), (''overproduction'', (fa [0x62A, 0x648, 0x644, 0x6CC, 0x62F, 0x20, 0x627, 0x636, 0x627, 0x641, 0x647])),
     (''quality_reject'', (fa [0x631, 0x62F, 0x20, 0x6A9, 0x6CC, 0x641, 0x6CC, 0x62A])), (''breakage'', (fa [0x634, 0x6A9, 0x633, 0x62A, 0x6AF, 0x6CC])), (''staff_error'', (fa [0x62E, 0x637, 0x627, 0x6CC, 0x20, 0x67E, 0x631, 0x633, 0x646, 0x644])), (''other'', (fa [0x633, 0x627, 0x6CC, 0x631]))]"

definition reason_label :: "Entity \<Rightarrow> string" where
  "reason_label e =
    (let r = TrimSpace (Field e ''reason'')
     in or_else (case map_of reasonLabels r of None \<Rightarrow> [] | Some l \<Rightarrow> l) (or_else r (fa [0x633, 0x627, 0x6CC, 0x631])))"

definition costFa :: "float64 \<Rightarrow> string" where
  "costFa c = (if f_le c f_zero then (fa [0x2014]) else FormatPersianNumber (Itoa (f_int (f_div c (f_of_int 10)))) @ fa_toman)"

definition waste_qty :: "Entity \<Rightarrow> float64" where
  "waste_qty e = fst (ParseFloat (TrimSpace (Field e ''quantity'')))"

definition avg_cost :: "Entity list \<Rightarrow> string \<Rightarrow> float64" where
  "avg_cost ingredients i =
    (case map_of (rev (map (\<lambda>g. (en_ID g, fst (ParseFloat (TrimSpace (Field g ''average_cost''))))) ingredients)) i of None \<Rightarrow> f_zero | Some f \<Rightarrow> f)"

definition waste_cost :: "Entity list \<Rightarrow> Entity \<Rightarrow> float64" where
  "waste_cost ingredients e = f_mul (waste_qty e) (avg_cost ingredients (Field e ''ingredient_id''))"

definition f_sum :: "float64 list \<Rightarrow> float64" where
  "f_sum xs = fold (\<lambda>x acc. f_add acc x) xs f_zero"

definition active_waste :: "Entity list \<Rightarrow> Entity list" where
  "active_waste es = filter (\<lambda>e. Field e ''status'' \<noteq> ''voided'') es"

definition waste_row :: "Entity list \<Rightarrow> Entity \<Rightarrow> WasteRow" where
  "waste_row ingredients e =
    \<lparr> wr_Entity = e, wr_ReasonLabel = reason_label e, wr_CostFa = costFa (waste_cost ingredients e), wr_Voided = (Field e ''status'' = ''voided'') \<rparr>"

definition waste_unit :: "Entity list \<Rightarrow> string" where
  "waste_unit es = (case List.find (\<lambda>u. u \<noteq> []) (map (\<lambda>e. Field e ''unit'') es) of None \<Rightarrow> [] | Some u \<Rightarrow> TrimSpace u)"

text \<open>
  One aggregate for each key of the events that count; \<open>order\<close> is the order in which the map
  is ranged over.
\<close>

definition waste_by_reason :: "(string list \<Rightarrow> string list) \<Rightarrow> Entity list \<Rightarrow> Entity list \<Rightarrow> WasteAgg list" where
  "waste_by_reason order ingredients events =
    (let es = active_waste events; of_key = (\<lambda>k. filter (\<lambda>e. reason_label e = k) es)
     in sort_desc wa_Events (map (\<lambda>k. \<lparr> wa_Label = k, wa_Events = length (of_key k),
          wa_CostFa = costFa (f_sum (map (waste_cost ingredients) (of_key k))), wa_QtyFa = [] \<rparr>) (order (remdups (map reason_label es)))))"

definition waste_top_items :: "(string list \<Rightarrow> string list) \<Rightarrow> Entity list \<Rightarrow> Entity list \<Rightarrow> WasteAgg list" where
  "waste_top_items order ingredients events =
    (let es = active_waste events; name = (\<lambda>e. Field e ''ingredient_name''); of_key = (\<lambda>k. filter (\<lambda>e. name e = k) es)
     in take 5 (sort_desc wa_Events (map (\<lambda>k. \<lparr> wa_Label = k, wa_Events = length (of_key k),
          wa_CostFa = costFa (f_sum (map (waste_cost ingredients) (of_key k))),
          wa_QtyFa = FormatPersianNumber (FormatFloat_min (f_sum (map waste_qty (of_key k))))
            @ (let u = waste_unit (of_key k) in if u \<noteq> [] then '' '' @ u else []) \<rparr>) (order (remdups (map name es))))))"

definition waste_total :: "Entity list \<Rightarrow> Entity list \<Rightarrow> string" where
  "waste_total ingredients events = costFa (f_sum (map (waste_cost ingredients) (active_waste events)))"

section \<open>Facts\<close>

text \<open>The three counters of the products cover all of them, and the rows are ranked from 1 on.\<close>

lemma products_counters:
  assumes "products_page env s = Some v"
  shows "vp_InStock v + vp_LowStock v + vp_OutOfStock v = vp_Total v \<and> map pr_Rank (vp_Rows v) = [1..<length (vp_Rows v) + 1]"
proof -
  have count: "length (filter (\<lambda>p. product_status p \<notin> {''out'', ''low''}) ps) + length (filter (\<lambda>p. product_status p = ''low'') ps)
      + length (filter (\<lambda>p. product_status p = ''out'') ps) = length ps" for ps
    by (induction ps) auto
  have rank: "map pr_Rank (map (\<lambda>(i, r). r\<lparr>pr_Rank := i\<rparr>) (enumerate n rs)) = [n..<length rs + n]" for rs n
  proof -
    have "map pr_Rank (map (\<lambda>(i, r). r\<lparr>pr_Rank := i\<rparr>) (enumerate n rs)) = map fst (enumerate n rs)"
      by (rule nth_equalityI) (simp_all add: nth_enumerate_eq)
    then show ?thesis by (simp add: add.commute)
  qed
  from assms obtain ps rs where "vp_Rows v = map (\<lambda>(i, r). r\<lparr>pr_Rank := i\<rparr>) (enumerate 1 rs)" "vp_Total v = length ps"
    "vp_InStock v = length (filter (\<lambda>p. product_status p \<notin> {''out'', ''low''}) ps)"
    "vp_LowStock v = length (filter (\<lambda>p. product_status p = ''low'') ps)" "vp_OutOfStock v = length (filter (\<lambda>p. product_status p = ''out'') ps)"
    by (auto simp: products_page_def Let_def split: sum.splits)
  then show ?thesis using count [of ps] rank [of 1 rs] by (simp only: length_map length_enumerate)
qed

text \<open>A negative or missing stock is out, whatever else is set; a product without a stock is only out when it is switched off.\<close>

lemma product_status_cases:
  "product_status p \<in> {''out'', ''low'', ''in''}"
  "product_stock p = None \<Longrightarrow> product_status p = (if Field p ''is_available'' = ''false'' then ''out'' else ''in'')"
  by (simp_all add: product_status_def Let_def)

end
