(* ===== verification/People_Pages.thy ===== *)
theory People_Pages
  imports Catalog_Pages
begin

text \<open>
  The pages of \<open>app.go\<close> about people: the cases \<open>staff\<close>, \<open>staff-checklist\<close>, \<open>staff-form\<close>,
  \<open>customers\<close>, \<open>club-groups\<close>, \<open>club-group\<close> and \<open>debtors\<close> of \<open>render\<close>.
\<close>

section \<open>Staff\<close>

record StaffView =
  vs_Rows :: "StaffRow list"
  vs_Total :: nat
  vs_Active :: nat
  vs_Inactive :: nat
  vs_Shifts :: nat

definition has_shift :: "Entity \<Rightarrow> bool" where
  "has_shift e \<longleftrightarrow> TrimSpace (Field e ''shift'') \<noteq> [] \<or> TrimSpace (Field e ''shifts'') \<noteq> []"

definition staff_asked :: "page_env \<Rightarrow> StaffRow \<Rightarrow> bool" where
  "staff_asked env r =
    (let e = sr_Entity r; q = pg_lower env (query_of env ''q''); st = query_of env ''sstatus''; role = query_of env ''srole''
     in (q = [] \<or> Contains (pg_lower env (Label e)) q \<or> Contains (Field e ''phone'') q \<or> Contains (pg_lower env (sr_RoleLabel r)) q) \<and>
        (st = ''active'' \<longrightarrow> sr_Active r) \<and> (st = ''inactive'' \<longrightarrow> \<not> sr_Active r) \<and>
        (role = [] \<or> Field e ''role_key'' = role))"

text \<open>The counters run over the whole staff, whatever is asked for.\<close>

definition staff_view :: "(StaffRow \<Rightarrow> bool) \<Rightarrow> Entity list \<Rightarrow> StaffView" where
  "staff_view shown staff =
    (let rows = map staffRowOf staff
     in \<lparr> vs_Rows = filter shown rows, vs_Total = length rows, vs_Active = length (filter sr_Active rows),
          vs_Inactive = length (filter (\<lambda>r. \<not> sr_Active r) rows), vs_Shifts = length (filter has_shift staff) \<rparr>)"

definition staff_page :: "page_env \<Rightarrow> Store \<Rightarrow> StaffView" where
  "staff_page env s = staff_view (staff_asked env) (entities_or_empty env 0 ''staff'' s)"

definition task_ticked :: "Entity \<Rightarrow> bool" where
  "task_ticked t \<longleftrightarrow> Field t ''is_done'' = ''true'' \<or> Field t ''status'' = ''done''"

definition checklist_percent :: "Entity list \<Rightarrow> nat" where
  "checklist_percent tasks = (if tasks = [] then 0 else length (filter task_ticked tasks) * 100 div length tasks)"

definition staff_checklist_page :: "page_env \<Rightarrow> Store \<Rightarrow> nat \<times> StaffView" where
  "staff_checklist_page env s =
    (checklist_percent (entities_or_empty env 0 ''task'' s),
     staff_view (\<lambda>r. has_shift (sr_Entity r)) (entities_or_empty env 1 ''staff'' s))"

definition legacy_permissions :: "(string \<times> string) list" where
  "legacy_permissions = [(''recipes.view'', ''inventory.recipes.view''), (''waste.view'', ''inventory.waste.view''), (''staff.manage'', ''staff.view'')]"

text \<open>The boxes that the form of a member of the staff ticks.\<close>

definition stored_permissions :: "string \<Rightarrow> string list" where
  "stored_permissions t =
    (let keys = filter (\<lambda>k. k \<noteq> []) (map TrimSpace (SplitChar t (CHR '','')))
     in keys @ map snd (filter (\<lambda>(legacy, _). legacy \<in> set keys) legacy_permissions))"

definition staff_perms :: "(string \<times> string) list \<Rightarrow> string list" where
  "staff_perms form =
    (case map_of form ''permissions'' of
       Some t \<Rightarrow> stored_permissions t
     | None \<Rightarrow> defaultCafePermissionsForRole (or_else (case map_of form ''role_key'' of None \<Rightarrow> [] | Some r \<Rightarrow> r) ''staff''))"

definition staff_form_page :: "page_env \<Rightarrow> Store \<Rightarrow> string \<times> (string \<times> string) list \<times> string list" where
  "staff_form_page env s =
    (case record_form (pg_io env 0) ''staff'' (query_of env ''id'') s of (action, form) \<Rightarrow> (action, form, staff_perms form))"

section \<open>Customers\<close>

record ClubPaymentRow =
  cp_Entity :: Entity
  cp_CustomerName :: string
  cp_CustomerPhone :: string
  cp_PlanTitle :: string
  cp_AmountFa :: string
  cp_MethodLabel :: string
  cp_StatusKey :: string
  cp_StatusLabel :: string
  cp_Pending :: bool
  cp_Reference :: string
  cp_DateFa :: string

definition paid_status :: "string \<Rightarrow> bool" where
  "paid_status st \<longleftrightarrow> st \<in> {''paid'', ''confirmed'', ''completed'', ''success''}"

definition payment_method_label :: "string \<Rightarrow> string" where
  "payment_method_label m =
    (if m = ''online'' then (fa [0x622, 0x646, 0x644, 0x627, 0x6CC, 0x646]) else if m = ''cash'' then (fa [0x646, 0x642, 0x62F, 0x6CC]) else if m = ''card'' then (fa [0x6A9, 0x627, 0x631, 0x62A])
     else if m = ''transfer'' then (fa [0x6A9, 0x627, 0x631, 0x62A, 0x20, 0x628, 0x647, 0x20, 0x6A9, 0x627, 0x631, 0x62A]) else (fa [0x2014]))"

definition payment_status_label :: "string \<Rightarrow> string" where
  "payment_status_label st =
    (if st = ''pending'' then (fa [0x62F, 0x631, 0x20, 0x627, 0x646, 0x62A, 0x638, 0x627, 0x631, 0x20, 0x62A, 0x627, 0x6CC, 0x6CC, 0x62F]) else if paid_status st then (fa [0x62A, 0x627, 0x6CC, 0x6CC, 0x62F, 0x20, 0x634, 0x62F, 0x647]) else if st = ''failed'' then (fa [0x646, 0x627, 0x645, 0x648, 0x641, 0x642])
     else if st = ''cancelled'' \<or> st = ''canceled'' then (fa [0x644, 0x63A, 0x648, 0x20, 0x634, 0x62F, 0x647]) else (fa [0x646, 0x627, 0x645, 0x634, 0x62E, 0x635]))"

definition club_payment_row :: "page_env \<Rightarrow> Entity list \<Rightarrow> Entity \<Rightarrow> ClubPaymentRow" where
  "club_payment_row env customers p =
    (let status = pg_lower env (TrimSpace (Field p ''status''));
         cid = TrimSpace (Field p ''customer_id'');
         found = (if cid = [] then None else map_of (rev (map (\<lambda>c. (en_ID c, c)) customers)) cid);
         of_customer = (\<lambda>f. case found of None \<Rightarrow> [] | Some c \<Rightarrow> f c)
     in \<lparr> cp_Entity = p,
          cp_CustomerName = or_else (or_else (TrimSpace (Field p ''consumer_name'')) (of_customer Label)) (fa [0x645, 0x634, 0x62A, 0x631, 0x6CC]),
          cp_CustomerPhone = or_else (TrimSpace (Field p ''consumer_phone'')) (of_customer (\<lambda>c. TrimSpace (Field c ''phone''))),
          cp_PlanTitle = or_else (TrimSpace (Field p ''plan_title'')) (fa [0x2014]),
          cp_AmountFa = toman64 (ParseInt_or (Field p ''amount_irr'')) @ fa_toman,
          cp_MethodLabel = payment_method_label (ToLower (TrimSpace (Field p ''payment_method''))),
          cp_StatusKey = status, cp_StatusLabel = payment_status_label status, cp_Pending = (status = ''pending''),
          cp_Reference = TrimSpace (Field p ''reference_number''),
          cp_DateFa = FormatJalaliDate (or_else (TrimSpace (Field p ''paid_at'')) (TrimSpace (Field p ''created_at''))) \<rparr>)"

definition found_in :: "page_env \<Rightarrow> string \<Rightarrow> bool" where
  "found_in env t \<longleftrightarrow>
    query_of env ''cq'' = [] \<or> Contains (pg_lower env t) (pg_lower env (query_of env ''cq''))"

record ClubView =
  vc_Tab :: string
  vc_SubTab :: string
  vc_Rows :: "ClubCustomerRow list"
  vc_StatMembers :: nat
  vc_StatPending :: nat
  vc_StatPaid :: nat
  vc_Payments :: "ClubPaymentRow list"

definition club_view :: "page_env \<Rightarrow> ClubCustomerRow list \<Rightarrow> ClubPaymentRow list \<Rightarrow> ClubView" where
  "club_view env rs pays =
    (let membership = (query_of env ''tab'' = ''membership'')
     in \<lparr> vc_Tab = (if membership then ''membership'' else ''customers''),
          vc_SubTab = (if query_of env ''sub'' = ''payments'' then ''payments'' else ''members''),
          vc_Rows = filter (\<lambda>r. found_in env (cc_Name r @ '' '' @ cc_Mobile r @ (if membership then [] else '' '' @ cc_MemberCode r))) rs,
          vc_StatMembers = (if membership then length (filter cc_IsMember rs) else 0),
          vc_StatPending = length (filter cp_Pending pays),
          vc_StatPaid = length (filter (\<lambda>p. paid_status (cp_StatusKey p)) pays),
          vc_Payments = filter (\<lambda>p. found_in env (cp_CustomerName p @ '' '' @ cp_CustomerPhone p @ '' '' @ cp_PlanTitle p @ '' '' @ cp_Reference p)) pays \<rparr>)"

text \<open>\<open>None\<close> is the error page: only a failed read of the customers shows it.\<close>

definition customers_page :: "page_env \<Rightarrow> Store \<Rightarrow> ClubView option" where
  "customers_page env s =
    (case EntitiesOf (pg_io env 0) ''customer'' s of
       Inl _ \<Rightarrow> None
     | Inr customers \<Rightarrow>
        Some (club_view env
          (clubBuildRows customers (entities_or_empty env 3 ''order'' s) (entities_or_empty env 1 ''debtor'' s) (entities_or_empty env 2 ''customer_group'' s))
          (map (club_payment_row env customers) (entities_or_empty env 4 ''membership_payment'' s))))"

section \<open>Groups of customers\<close>

definition group_members :: "Entity list \<Rightarrow> string \<Rightarrow> nat" where
  "group_members customers i = length (filter (\<lambda>c. TrimSpace (Field c ''group_id'') = i \<and> i \<noteq> []) customers)"

record ClubGroupsView =
  vg_Groups :: "ClubGroupRow list"
  vg_Total :: nat
  vg_Valid :: nat
  vg_Members :: nat

definition club_groups_view :: "page_env \<Rightarrow> string \<Rightarrow> Entity list \<Rightarrow> Entity list \<Rightarrow> ClubGroupsView" where
  "club_groups_view env today groups customers =
    (let row = (\<lambda>g. clubGroupRowOf today (int (group_members customers (en_ID g))) g);
         valid = (\<lambda>g. cg_StatusKey (row g) = ''valid'')
     in \<lparr> vg_Groups = map row (filter (\<lambda>g. (pg_query env ''valid'' = ''1'' \<longrightarrow> valid g) \<and>
            found_in env (Label g @ '' '' @ Field g ''contact_name'' @ '' '' @ Field g ''contact_phone'')) groups),
          vg_Total = length groups, vg_Valid = length (filter valid groups),
          vg_Members = sum_list (map (\<lambda>g. group_members customers (en_ID g)) groups) \<rparr>)"

definition club_groups_page :: "page_env \<Rightarrow> string \<Rightarrow> Store \<Rightarrow> ClubGroupsView" where
  "club_groups_page env today s =
    club_groups_view env today (entities_or_empty env 0 ''customer_group'' s) (entities_or_empty env 1 ''customer'' s)"

record ClubGroupOrder =
  go_Number :: string
  go_CustomerName :: string
  go_TotalFa :: string
  go_StatusLabel :: string
  go_DateFa :: string

record ClubGroupDetail =
  gd_Group :: Entity
  gd_Row :: ClubGroupRow
  gd_Members :: "ClubCustomerRow list"
  gd_RecentOrders :: "ClubGroupOrder list"
  gd_TotalSpentFa :: string
  gd_CreditSpentFa :: string

definition group_order :: "Entity \<Rightarrow> ClubGroupOrder" where
  "group_order x =
    \<lparr> go_Number = displayOrderNumber (Field x ''order_number''), go_CustomerName = TrimSpace (Field x ''customer_name''),
      go_TotalFa = toman_down (PriceIRR x) @ fa_toman, go_StatusLabel = StatusLabelOf x, go_DateFa = FormatJalaliDate (Field x ''created_at'') \<rparr>"

text \<open>The orders that members of a group placed, by their identifier or their phone.\<close>

definition member_orders :: "ClubCustomerRow list \<Rightarrow> Entity list \<Rightarrow> Entity list" where
  "member_orders members orders =
    (let ids = map (\<lambda>r. en_ID (cc_Entity r)) members; phones = filter (\<lambda>m. m \<noteq> []) (map cc_Mobile members)
     in filter (\<lambda>x. \<not> is_cancelled x \<and>
          (TrimSpace (Field x ''customer_id'') \<in> set ids \<or> TrimSpace (Field x ''customer_phone'') \<in> set phones)) orders)"

definition club_group_detail :: "string \<Rightarrow> string \<Rightarrow> Entity \<Rightarrow> ClubCustomerRow list \<Rightarrow> Entity list \<Rightarrow> ClubGroupDetail" where
  "club_group_detail today gid g rs orders =
    (let members = filter (\<lambda>r. cc_GroupID r = gid) rs;
         theirs = member_orders members orders;
         credit = filter (\<lambda>x. EqualFold (Field x ''payment_method'') ''credit_debtor'') theirs
     in \<lparr> gd_Group = g, gd_Row = (clubGroupRowOf today 0 g)\<lparr>cg_MembersCount := int (length members)\<rparr>,
          gd_Members = members,
          gd_RecentOrders = map group_order (take 10 (sort_desc (\<lambda>x. Field x ''created_at'') theirs)),
          gd_TotalSpentFa = toman64 (sum_fields PriceIRR theirs) @ fa_toman,
          gd_CreditSpentFa = toman64 (sum_fields PriceIRR credit) @ fa_toman \<rparr>)"

definition club_group_page :: "page_env \<Rightarrow> string \<Rightarrow> Store \<Rightarrow> ClubGroupDetail option" where
  "club_group_page env today s =
    (case EntityOf (pg_io env 0) ''customer_group'' (query_of env ''id'') s of
       Inl _ \<Rightarrow> None
     | Inr g \<Rightarrow>
        (let orders = entities_or_empty env 2 ''order'' s
         in Some (club_group_detail today (query_of env ''id'') g
              (clubBuildRows (entities_or_empty env 1 ''customer'' s) orders (entities_or_empty env 3 ''debtor'' s)
                (entities_or_empty env 4 ''customer_group'' s)) orders)))"

section \<open>Debtors\<close>

record DebtorRow =
  dr_Entity :: Entity
  dr_ItemsText :: string
  dr_OrderNumber :: string
  dr_OrderWhen :: string
  dr_DueLabel :: string
  dr_NoteText :: string
  dr_OtherDebts :: string
  dr_OtherCount :: nat

definition person_key :: "Entity \<Rightarrow> string" where
  "person_key d = or_else (TrimSpace (Field d ''phone'')) (TrimSpace (Label d))"

definition other_debts :: "Entity list \<Rightarrow> Entity \<Rightarrow> Entity list" where
  "other_debts debtors d = filter (\<lambda>x. person_key x = person_key d \<and> en_ID x \<noteq> en_ID d) debtors"

definition debt_left :: "Entity \<Rightarrow> int" where
  "debt_left d = parseIRRBig (Field d ''remaining'')"

definition when_text :: "Entity \<Rightarrow> string" where
  "when_text e = (case parse_time RFC3339 (Field e ''created_at'') of None \<Rightarrow> [] | Some t \<Rightarrow> FormatJalaliFull t)"

definition debtor_row :: "Entity list \<Rightarrow> Entity list \<Rightarrow> Entity \<Rightarrow> DebtorRow" where
  "debtor_row orders debtors d =
    (let oid = TrimSpace (Field d ''order_id'');
         linked = (if oid = [] then None else map_of (rev (map (\<lambda>x. (en_ID x, x)) orders)) oid);
         of_order = (\<lambda>f. case linked of None \<Rightarrow> [] | Some x \<Rightarrow> f x);
         others = other_debts debtors d
     in \<lparr> dr_Entity = d,
          dr_ItemsText = of_order (\<lambda>x. Join (map item_text (OrderItems x)) (fa [0x60C, 0x20])),
          dr_OrderNumber = of_order (\<lambda>x. displayOrderNumber (Field x ''order_number'')),
          dr_OrderWhen = or_else (of_order when_text) (when_text d),
          dr_DueLabel = TrimSpace (Field d ''due_at''),
          dr_NoteText = or_else (TrimSpace (Field d ''note'')) (TrimSpace (Field d ''description'')),
          dr_OtherDebts =
            (if others = [] then []
             else FormatPersianNumber (Itoa (int (length others))) @ (fa [0x20, 0x628, 0x62F, 0x647, 0x6CC, 0x20, 0x62F, 0x6CC, 0x6AF, 0x631, 0x20, 0x628, 0x647, 0x20, 0x645, 0x628, 0x644, 0x63A, 0x20])
               @ FormatIRRToToman (Itoa (sum_list (map debt_left others)))),
          dr_OtherCount = length others \<rparr>)"

definition debtors_page :: "page_env \<Rightarrow> Store \<Rightarrow> DebtorRow list option" where
  "debtors_page env s =
    (case EntitiesOf (pg_io env 0) ''debtor'' s of
       Inl _ \<Rightarrow> None
     | Inr debtors \<Rightarrow> Some (map (debtor_row (entities_or_empty env 2 ''order'' s) debtors) debtors))"

section \<open>Facts\<close>

lemma staff_counters: "vs_Active (staff_view shown staff) + vs_Inactive (staff_view shown staff) = vs_Total (staff_view shown staff)"
  using sum_length_filter_compl [of sr_Active "map staffRowOf staff"] by (simp add: staff_view_def Let_def)

text \<open>
  A stored list of permissions is what the form shows, also an empty one; the defaults of a role
  are for a record that has none. No key of the old names is lost.
\<close>

lemma stored_permissions_empty [simp]: "stored_permissions [] = []"
  by (simp add: stored_permissions_def)

lemma legacy_kept:
  assumes "(legacy, current) \<in> set legacy_permissions" "legacy \<in> set (stored_permissions t)"
  shows "current \<in> set (stored_permissions t)"
proof -
  let ?keys = "filter (\<lambda>k. k \<noteq> []) (map TrimSpace (SplitChar t (CHR '','')))"
  have no_target: "legacy \<notin> snd ` set legacy_permissions"
    using assms(1) by (auto simp: legacy_permissions_def)
  have "legacy \<in> set ?keys \<or> legacy \<in> snd ` set legacy_permissions"
    using assms(2) by (auto simp only: stored_permissions_def Let_def set_append set_map set_filter)
  with no_target have "(legacy, current) \<in> set (filter (\<lambda>(l, _). l \<in> set ?keys) legacy_permissions)"
    using assms(1) by auto
  then have "snd (legacy, current) \<in> set (map snd (filter (\<lambda>(l, _). l \<in> set ?keys) legacy_permissions))"
    unfolding set_map by (rule imageI)
  then show ?thesis by (simp only: stored_permissions_def Let_def set_append snd_conv) blast
qed

text \<open>
  The debts of one person: what a row shows beside its own debt adds up, with it, to all that
  this person owes, so that every row of a person speaks of the same total.
\<close>

lemma sum_without:
  fixes f :: "'a \<Rightarrow> int"
  assumes "distinct (map key xs)" "d \<in> set xs" "P d"
  shows "f d + sum_list (map f (filter (\<lambda>x. P x \<and> key x \<noteq> key d) xs)) = sum_list (map f (filter P xs))"
  using assms
proof (induction xs)
  case (Cons x xs)
  show ?case
  proof (cases "x = d")
    case True
    with Cons.prems have "\<forall>y\<in>set xs. key y \<noteq> key d" by (auto simp: image_iff)
    then have "filter (\<lambda>y. P y \<and> key y \<noteq> key d) xs = filter P xs" by (intro filter_cong) auto
    with True Cons.prems show ?thesis by simp
  next
    case False
    with Cons.prems have "key x \<noteq> key d" by (metis distinct.simps(2) image_eqI list.set_map list.simps(9) set_ConsD)
    with False Cons show ?thesis by auto
  qed
qed simp

lemma debts_of_person:
  assumes "distinct (map en_ID debtors)" "d \<in> set debtors"
  shows "debt_left d + sum_list (map debt_left (other_debts debtors d)) =
    sum_list (map debt_left (filter (\<lambda>x. person_key x = person_key d) debtors))"
  unfolding other_debts_def by (rule sum_without [OF assms]) simp

end
