(* ===== verification/Report_Pages.thy ===== *)
theory Report_Pages
  imports People_Pages
begin

text \<open>
  The pages of \<open>app.go\<close> about money: the cases \<open>pricing\<close>, \<open>analytics\<close>, \<open>finance\<close> and \<open>reports\<close>
  of \<open>render\<close>, with \<open>Store.ProductRecipeCostIRR\<close> of \<open>internal/store/domains.go\<close>. The order in
  which a Go map is ranged over is a parameter (\<open>order\<close>), and so is \<open>big.Rat.SetString\<close>
  (\<open>rat_text\<close>).
\<close>

section \<open>The cost of a recipe\<close>

text \<open>
  \<open>new(big.Float).SetRat(total)\<close>, plus a half, cut to an integer: the precision is that of the
  larger of the two parts of the fraction, and 64 bits at least.
\<close>

definition big_round :: "int \<Rightarrow> rat \<Rightarrow> rat" where
  "big_round p x = (if x < 0 then - round_bits p (- x) else round_bits p x)"

definition rat_prec :: "rat \<Rightarrow> int" where
  "rat_prec t = (case quotient_of t of (a, b) \<Rightarrow> max 64 (max (bit_length \<bar>a\<bar>) (bit_length b)))"

definition round_cost :: "rat \<Rightarrow> int" where
  "round_cost t =
    (let p = rat_prec t; x = big_round p (big_round p t + 1 / 2) in if x < 0 then - \<lfloor>- x\<rfloor> else \<lfloor>x\<rfloor>)"

definition line_cost :: "(string \<Rightarrow> rat option) \<Rightarrow> io \<Rightarrow> Store \<Rightarrow> RecipeLineView \<Rightarrow> rat option" where
  "line_cost rat_text w s l =
    (case EntityOf w ''ingredient'' (rl_IngredientID l) s of
       Inl _ \<Rightarrow> None
     | Inr ing \<Rightarrow>
        (case (rat_text (TrimSpace (rl_Quantity l)), rat_text (TrimSpace (Field ing ''average_cost''))) of
           (Some q, Some c) \<Rightarrow> Some (q * c)
         | _ \<Rightarrow> None))"

text \<open>\<open>None\<close> when the product has no recipe, or none of its lines has a cost.\<close>

definition ProductRecipeCostIRR :: "(string \<Rightarrow> rat option) \<Rightarrow> (nat \<Rightarrow> io) \<Rightarrow> string \<Rightarrow> Store \<Rightarrow> err + string option" where
  "ProductRecipeCostIRR rat_text w pid s =
    (case EntitiesOf (w 0) ''recipe'' s of
       Inl e \<Rightarrow> Inl e
     | Inr recipes \<Rightarrow>
        (case List.find (\<lambda>r. Field r ''product_id'' = pid) recipes of
           None \<Rightarrow> Inr None
         | Some r \<Rightarrow>
            (let costs = List.map_filter (\<lambda>(n, l). line_cost rat_text (w n) s l) (enumerate 1 (RecipeLines r))
             in Inr (if costs = [] then None else Some (Itoa (round_cost (sum_list costs)))))))"

section \<open>Prices and best sellers\<close>

record PricingRow =
  pc_Product :: Entity
  pc_RecipeCostIRR :: string
  pc_HasRecipe :: bool
  pc_MarginIRR :: string

definition CostToman :: "PricingRow \<Rightarrow> string" where
  "CostToman r = (if pc_HasRecipe r then FormatIRRToToman (pc_RecipeCostIRR r) else (fa [0x2014]))"

definition MarginToman :: "PricingRow \<Rightarrow> string" where
  "MarginToman r = (if pc_HasRecipe r then FormatIRRToToman (pc_MarginIRR r) else (fa [0x2014]))"

definition pricing_row :: "(string \<Rightarrow> err + string option) \<Rightarrow> Entity \<Rightarrow> PricingRow" where
  "pricing_row recipe_cost p =
    (case recipe_cost (en_ID p) of
       Inr (Some c) \<Rightarrow>
         \<lparr> pc_Product = p, pc_RecipeCostIRR = c, pc_HasRecipe = True, pc_MarginIRR = Itoa (parseIRRBig (PriceIRR p) - parseIRRBig c) \<rparr>
     | _ \<Rightarrow> \<lparr> pc_Product = p, pc_RecipeCostIRR = [], pc_HasRecipe = False, pc_MarginIRR = ''0'' \<rparr>)"

text \<open>The reads for one product have outcomes of their own.\<close>

definition pricing_page :: "page_env \<Rightarrow> (string \<Rightarrow> rat option) \<Rightarrow> (string \<Rightarrow> nat \<Rightarrow> io) \<Rightarrow> Store \<Rightarrow> PricingRow list" where
  "pricing_page env rat_text w s =
    map (pricing_row (\<lambda>pid. ProductRecipeCostIRR rat_text (w pid) pid s)) (entities_or_empty env 0 ''product'' s)"

record TopProduct =
  tp_Name :: string
  tp_Quantity :: int
  tp_RevenueIRR :: string

definition sum64 :: "int list \<Rightarrow> int" where
  "sum64 ns = fold (\<lambda>x n. w64 (n + x)) ns 0"

definition top_product :: "OrderLineView list \<Rightarrow> string \<Rightarrow> TopProduct" where
  "top_product ls pid =
    (let mine = filter (\<lambda>l. ov_ProductID l = pid) ls
     in \<lparr> tp_Name = ov_ProductName (hd mine), tp_Quantity = sum64 (map ov_Quantity mine),
          tp_RevenueIRR = Itoa (sum_list (map (\<lambda>l. parseIRRBig (ov_LineTotal l)) mine)) \<rparr>)"

definition completed_lines :: "Entity list \<Rightarrow> OrderLineView list" where
  "completed_lines orders = concat (map OrderItems (filter (\<lambda>x. Field x ''status'' = ''completed'') orders))"

definition top_products :: "(string list \<Rightarrow> string list) \<Rightarrow> Entity list \<Rightarrow> TopProduct list" where
  "top_products order orders =
    (let ls = completed_lines orders
     in take 10 (sort_desc tp_Quantity (map (top_product ls) (order (remdups (map ov_ProductID ls))))))"

definition analytics_page :: "page_env \<Rightarrow> (string list \<Rightarrow> string list) \<Rightarrow> Store \<Rightarrow> TopProduct list" where
  "analytics_page env order s = top_products order (entities_or_empty env 0 ''order'' s)"

section \<open>Accounts\<close>

record FinanceView =
  vf_Tab :: string
  vf_CashFa :: string
  vf_BankFa :: string
  vf_ReceivablesFa :: string
  vf_InvValueFa :: string
  vf_MonthRevFa :: string
  vf_MonthCOGSFa :: string
  vf_MonthExpFa :: string
  vf_MonthProfitFa :: string

text \<open>\<open>None\<close> is the panic of a stock that is no number, see \<^const>\<open>stock_value\<close>.\<close>

definition fin_inventory :: "Entity list \<Rightarrow> int option" where
  "fin_inventory ingredients =
    map_option sum_list (those (map (\<lambda>g.
      stock_value (fst (ParseFloat (TrimSpace (Field g ''current_stock'')))) (parseIRRBig (Field g ''average_cost''))) ingredients))"

text \<open>The cost of a product is read once and kept for the request.\<close>

definition unit_cost :: "(string \<Rightarrow> err + string option) \<Rightarrow> string \<Rightarrow> int" where
  "unit_cost recipe_cost pid = (case recipe_cost pid of Inr (Some c) \<Rightarrow> parseIRRBig c | _ \<Rightarrow> 0)"

definition month_order :: "gotime \<Rightarrow> Entity \<Rightarrow> bool" where
  "month_order monthStart x \<longleftrightarrow>
    row_status x = ''completed'' \<and> (case parse_time RFC3339 (Field x ''created_at'') of None \<Rightarrow> False | Some t \<Rightarrow> monthStart \<le> t)"

definition month_cogs :: "(string \<Rightarrow> err + string option) \<Rightarrow> gotime \<Rightarrow> Entity list \<Rightarrow> int" where
  "month_cogs recipe_cost monthStart orders =
    sum_list (map (\<lambda>l. unit_cost recipe_cost (ov_ProductID l) * ov_Quantity l)
      (concat (map OrderItems (filter (month_order monthStart) orders))))"

definition finance_tab :: "string \<Rightarrow> string" where
  "finance_tab t = (if t \<in> {''expenses'', ''journal'', ''accounts'', ''pnl''} then t else ''overview'')"

definition finance_view :: "string \<Rightarrow> FinancialAnalytics \<Rightarrow> FinancialAnalytics \<Rightarrow> int \<Rightarrow> int \<Rightarrow> FinanceView" where
  "finance_view t overall month stock cogs =
    (let rev = parseIRRBig (TotalSalesIRR month); spent = parseIRRBig (TotalExpensesIRR month)
     in \<lparr> vf_Tab = finance_tab t, vf_CashFa = FormatIRRToToman (CashSalesIRR overall), vf_BankFa = FormatIRRToToman (CardSalesIRR overall),
          vf_ReceivablesFa = FormatIRRToToman (TotalReceivablesIRR overall), vf_InvValueFa = FormatIRRToToman (Itoa stock),
          vf_MonthRevFa = FormatIRRToToman (Itoa rev), vf_MonthCOGSFa = FormatIRRToToman (Itoa cogs),
          vf_MonthExpFa = FormatIRRToToman (Itoa spent), vf_MonthProfitFa = FormatIRRToToman (Itoa (rev - cogs - spent)) \<rparr>)"

text \<open>What becomes of a page: shown, an error page, a panic, an unknown address. This one fails when the expenses cannot be read, and panics on a stock without a value.\<close>

datatype 'a shown = Shown 'a | Failed | Panicked | NotFound

definition finance_page ::
  "page_env \<Rightarrow> (string \<Rightarrow> rat option) \<Rightarrow> (string \<Rightarrow> nat \<Rightarrow> io) \<Rightarrow> gotime \<Rightarrow> Store \<Rightarrow> FinanceView shown" where
  "finance_page env rat_text w monthStart s =
    (case EntitiesOf (pg_io env 0) ''expense'' s of
       Inl _ \<Rightarrow> (case fin_inventory (entities_or_empty env 1 ''ingredient'' s) of None \<Rightarrow> Panicked | Some _ \<Rightarrow> Failed)
     | Inr _ \<Rightarrow>
        (case fin_inventory (entities_or_empty env 1 ''ingredient'' s) of
           None \<Rightarrow> Panicked
         | Some stock \<Rightarrow>
            Shown (finance_view (query_of env ''tab'') (Analytics (state s)) (AnalyticsSince monthStart (state s)) stock
              (month_cogs (\<lambda>pid. ProductRecipeCostIRR rat_text (w pid) pid s) monthStart (entities_or_empty env 2 ''order'' s)))))"

end
