(* ===== verification/Reports_Page.thy ===== *)
theory Reports_Page
  imports Report_Pages Split_Props
begin

text \<open>
  The case \<open>reports\<close> of \<open>render\<close> in \<open>app.go\<close>: the orders of a period, their states as a ring,
  the products sold in it, and the comparison with the period before. The bounds of the periods
  come from the clock in the zone of the machine and are parameters.
\<close>

record report_clock =
  rc_from :: gotime
  rc_prev :: gotime
  rc_yesterday :: gotime
  rc_today :: gotime

section \<open>The orders of a period\<close>

definition report_period :: "page_env \<Rightarrow> string" where
  "report_period env = (let p = query_of env ''period'' in if p \<in> {''today'', ''week'', ''month''} then p else ''all'')"

definition report_label :: "string \<Rightarrow> string" where
  "report_label p =
    (if p = ''today'' then (fa [0x631, 0x648, 0x632, 0x627, 0x646, 0x647, 0x20, 0x2014, 0x20, 0x627, 0x645, 0x631, 0x648, 0x632]) else if p = ''week'' then (fa [0x647, 0x641, 0x62A, 0x6AF, 0x6CC, 0x20, 0x2014, 0x20, 0x6F7, 0x20, 0x631, 0x648, 0x632, 0x20, 0x627, 0x62E, 0x6CC, 0x631])
     else if p = ''month'' then (fa [0x645, 0x627, 0x647, 0x627, 0x646, 0x647, 0x20, 0x2014, 0x20, 0x6F3, 0x6F0, 0x20, 0x631, 0x648, 0x632, 0x20, 0x627, 0x62E, 0x6CC, 0x631]) else (fa [0x647, 0x645, 0x647, 0x20, 0x62F, 0x648, 0x631, 0x647, 0x200C, 0x647, 0x627]))"

definition normalizeStatus :: "(string \<Rightarrow> string) \<Rightarrow> string \<Rightarrow> string" where
  "normalizeStatus lower raw =
    (let t = lower (TrimSpace raw)
     in if t = ''canceled'' then ''cancelled'' else if t = [] \<or> t = ''open'' then ''pending'' else t)"

definition report_key :: "page_env \<Rightarrow> Entity \<Rightarrow> string" where
  "report_key env x = normalizeStatus (pg_lower env) (Field x ''status'')"

definition in_report :: "gotime option \<Rightarrow> Entity \<Rightarrow> bool" where
  "in_report since_when x =
    (case since_when of None \<Rightarrow> True | Some f \<Rightarrow> (case entityTime x of None \<Rightarrow> False | Some t \<Rightarrow> f \<le> t))"

text \<open>Newest first; orders without a stamp stay at the end, in their order.\<close>

definition time_key :: "Entity \<Rightarrow> nat \<times> gotime" where
  "time_key x = (case entityTime x of None \<Rightarrow> (0, (0, 0)) | Some t \<Rightarrow> (1, t))"

definition report_orders :: "gotime option \<Rightarrow> Entity list \<Rightarrow> Entity list" where
  "report_orders since_when orders = sort_desc time_key (filter (in_report since_when) orders)"

record ReportOrderRow =
  ro_Entity :: Entity
  ro_Number :: string
  ro_ItemsCount :: int
  ro_ItemsFa :: string
  ro_TotalFa :: string
  ro_StatusKey :: string
  ro_StatusLabel :: string
  ro_StatusClass :: string
  ro_DateFa :: string

definition report_status_labels :: "(string \<times> string) list" where
  "report_status_labels =
    [(''pending'', (fa [0x62F, 0x631, 0x20, 0x627, 0x646, 0x62A, 0x638, 0x627, 0x631, 0x20, 0x62A, 0x623, 0x6CC, 0x6CC, 0x62F])), (''accepted'', (fa [0x62A, 0x623, 0x6CC, 0x6CC, 0x62F, 0x20, 0x635, 0x646, 0x62F, 0x648, 0x642, 0x62F, 0x627, 0x631])), (''preparing'', (fa [0x62F, 0x631, 0x20, 0x62D, 0x627, 0x644, 0x20, 0x622, 0x645, 0x627, 0x62F, 0x647, 0x200C, 0x633, 0x627, 0x632, 0x6CC])),
     (''ready'', (fa [0x622, 0x645, 0x627, 0x62F, 0x647, 0x20, 0x62A, 0x62D, 0x648, 0x6CC, 0x644])), (''completed'', (fa [0x62A, 0x6A9, 0x645, 0x6CC, 0x644, 0x200C, 0x634, 0x62F, 0x647])), (''cancelled'', (fa [0x644, 0x63A, 0x648, 0x634, 0x62F, 0x647])), (''refunded'', (fa [0x628, 0x627, 0x632, 0x6AF, 0x634, 0x62A, 0x20, 0x648, 0x62C, 0x647]))]"

definition report_row :: "page_env \<Rightarrow> Entity \<Rightarrow> ReportOrderRow" where
  "report_row env x =
    (let key = report_key env x; n = items_quantity x
     in \<lparr> ro_Entity = x, ro_Number = displayOrderNumber (Field x ''order_number''), ro_ItemsCount = n,
          ro_ItemsFa = FormatPersianNumber (Itoa n) @ (fa [0x20, 0x642, 0x644, 0x645]), ro_TotalFa = PriceToman x, ro_StatusKey = key,
          ro_StatusLabel = (case map_of report_status_labels key of None \<Rightarrow> StatusLabelOf x | Some l \<Rightarrow> l),
          ro_StatusClass = StatusClassOf x, ro_DateFa = FormatJalaliShort (Field x ''created_at'') \<rparr>)"

section \<open>The ring of states\<close>

record ReportStatusSlice =
  ss_Key :: string
  ss_Label :: string
  ss_Color :: string
  ss_Count :: nat
  ss_Percent :: int
  ss_Dash :: float64
  ss_Offset :: float64

definition statusDefs :: "(string \<times> string \<times> string) list" where
  "statusDefs =
    [(''pending'', (fa [0x62F, 0x631, 0x20, 0x627, 0x646, 0x62A, 0x638, 0x627, 0x631]), ''#F59E0B''), (''accepted'', (fa [0x62A, 0x623, 0x6CC, 0x6CC, 0x62F, 0x20, 0x635, 0x646, 0x62F, 0x648, 0x642, 0x62F, 0x627, 0x631]), ''#0D9488''),
     (''preparing'', (fa [0x62F, 0x631, 0x20, 0x62D, 0x627, 0x644, 0x20, 0x622, 0x645, 0x627, 0x62F, 0x647, 0x200C, 0x633, 0x627, 0x632, 0x6CC]), ''#3B82F6''), (''ready'', (fa [0x622, 0x645, 0x627, 0x62F, 0x647, 0x20, 0x62A, 0x62D, 0x648, 0x6CC, 0x644]), ''#8B5CF6''),
     (''completed'', (fa [0x62A, 0x6A9, 0x645, 0x6CC, 0x644, 0x200C, 0x634, 0x62F, 0x647]), ''#10B981''), (''cancelled'', (fa [0x644, 0x63A, 0x648, 0x634, 0x62F, 0x647]), ''#F43F5E''), (''refunded'', (fa [0x628, 0x627, 0x632, 0x6AF, 0x634, 0x62A, 0x20, 0x648, 0x62C, 0x647]), ''#64748B'')]"

definition donutCircumference :: float64 where
  "donutCircumference = fst (ParseFloat ''339.2920066'')"

definition slice_visible :: "bool \<Rightarrow> float64 \<Rightarrow> float64" where
  "slice_visible several segment =
    (let quarter = f_mul segment (fst (ParseFloat ''0.25''));
         gap = (if f_less quarter (f_of_int 3) then quarter else f_of_int 3);
         seen = (if several then f_sub segment gap else segment)
     in if f_less seen f_zero then f_zero else seen)"

text \<open>One slice for each state that occurs; \<open>start\<close> is where it begins on the ring.\<close>

fun slices :: "(string \<Rightarrow> nat) \<Rightarrow> nat \<Rightarrow> bool \<Rightarrow> float64 \<Rightarrow> (string \<times> string \<times> string) list \<Rightarrow> ReportStatusSlice list" where
  "slices n_of whole several start [] = []"
| "slices n_of whole several start ((key, label, color) # defs) =
    (if n_of key = 0 \<or> whole = 0 then slices n_of whole several start defs
     else (let part = f_div (f_of_int (int (n_of key))) (f_of_int (int whole)); segment = f_mul part donutCircumference
           in \<lparr> ss_Key = key, ss_Label = label, ss_Color = color, ss_Count = n_of key,
                ss_Percent = f_int (f_add (f_mul part (f_of_int 100)) f_half),
                ss_Dash = slice_visible several segment, ss_Offset = f_neg start \<rparr>
              # slices n_of whole several (f_add start segment) defs))"

definition status_count :: "page_env \<Rightarrow> Entity list \<Rightarrow> string \<Rightarrow> nat" where
  "status_count env xs key = length (filter (\<lambda>x. report_key env x = key) xs)"

definition status_slices :: "page_env \<Rightarrow> Entity list \<Rightarrow> ReportStatusSlice list" where
  "status_slices env xs =
    (let n_of = status_count env xs; live_defs = filter (\<lambda>(key, _). n_of key > 0) statusDefs
     in slices n_of (length xs) (length live_defs > 1) f_zero statusDefs)"

section \<open>Products of the period\<close>

record ReportProductRow =
  rp_Title :: string
  rp_Quantity :: int
  rp_QuantityFa :: string
  rp_RevenueIRR :: int
  rp_RevenueFa :: string
  rp_Share :: float64
  rp_ShareFa :: string
  rp_BarWidth :: int

definition sold_lines :: "page_env \<Rightarrow> Entity list \<Rightarrow> SplitBillLine list" where
  "sold_lines env xs = concat (map (\<lambda>x. fst (SplitBillOf x)) (filter (\<lambda>x. report_key env x = ''completed'') xs))"

definition title_quantity :: "SplitBillLine list \<Rightarrow> string \<Rightarrow> int" where
  "title_quantity ls t = sum64 (map sl_Quantity (filter (\<lambda>l. sl_Title l = t) ls))"

definition title_revenue :: "SplitBillLine list \<Rightarrow> string \<Rightarrow> int" where
  "title_revenue ls t = sum64 (map sl_LinePayableIRR (filter (\<lambda>l. sl_Title l = t) ls))"

definition report_product :: "SplitBillLine list \<Rightarrow> int \<Rightarrow> int \<Rightarrow> string \<Rightarrow> ReportProductRow" where
  "report_product ls whole largest t =
    (let qty = title_quantity ls t; rev = title_revenue ls t;
         share = (if whole > 0 then f_mul (f_div (f_of_int rev) (f_of_int whole)) (f_of_int 100) else f_zero)
     in \<lparr> rp_Title = t, rp_Quantity = qty, rp_QuantityFa = FormatPersianNumber (Itoa qty), rp_RevenueIRR = rev,
          rp_RevenueFa = toman64 rev @ fa_toman, rp_Share = share,
          rp_ShareFa = FormatPersianNumber (Itoa (f_int (f_add share f_half))) @ (fa [0x66A]),
          rp_BarWidth =
            (if largest > 0 \<and> rev > 0 then max 2 (f_int (f_mul (f_div (f_of_int rev) (f_of_int largest)) (f_of_int 100))) else 0) \<rparr>)"

definition report_products :: "(string list \<Rightarrow> string list) \<Rightarrow> SplitBillLine list \<Rightarrow> ReportProductRow list" where
  "report_products order ls =
    (let titles = order (remdups (map sl_Title ls)); revs = map (title_revenue ls) titles
     in sort_desc (\<lambda>r. (rp_RevenueIRR r, rp_Quantity r)) (map (report_product ls (sum64 revs) (fold max revs 0)) titles))"

definition best_sellers :: "ReportProductRow list \<Rightarrow> (string \<times> string \<times> string) list" where
  "best_sellers ps =
    map (\<lambda>r. (rp_Title r, rp_QuantityFa r, rp_RevenueFa r)) (take 8 (sort_desc (\<lambda>r. (rp_Quantity r, rp_RevenueIRR r)) ps))"

section \<open>The comparison\<close>

text \<open>The income, the orders that were not cancelled and the completed ones, between two instants.\<close>

definition aggregateRange :: "page_env \<Rightarrow> Entity list \<Rightarrow> gotime \<Rightarrow> gotime \<Rightarrow> int \<times> nat \<times> nat" where
  "aggregateRange env orders start stop =
    (let xs = filter (\<lambda>x. case entityTime x of None \<Rightarrow> False | Some t \<Rightarrow> start \<le> t \<and> t < stop) orders;
         completed = filter (\<lambda>x. report_key env x = ''completed'') xs
     in (sum_list (map (\<lambda>x. parseIRRBig (PriceIRR x)) completed), length (filter (\<lambda>x. report_key env x \<noteq> ''cancelled'') xs), length completed))"

definition f_average :: "float64 \<Rightarrow> nat \<Rightarrow> float64" where
  "f_average x n = (if n > 0 then f_div x (f_of_int (int n)) else f_zero)"

record ReportsView =
  vr_Period :: string
  vr_Label :: string
  vr_AllIncomeIRR :: string
  vr_AllOrdersCount :: int
  vr_StatusTotal :: nat
  vr_OrdersCount :: nat
  vr_CompletedCount :: nat
  vr_Orders :: "ReportOrderRow list"
  vr_Slices :: "ReportStatusSlice list"
  vr_Products :: "ReportProductRow list"
  vr_SoldProducts :: nat
  vr_BestSellers :: "(string \<times> string \<times> string) list"
  vr_AverageFa :: string
  vr_YesterdayIncomeFa :: string
  vr_PrevIncomeFa :: string
  vr_IncomeGrowth :: "string \<times> string"
  vr_OrdersGrowth :: "string \<times> string"
  vr_AverageGrowth :: "string \<times> string"

definition reports_view ::
  "page_env \<Rightarrow> (string list \<Rightarrow> string list) \<Rightarrow> report_clock \<Rightarrow> FinancialAnalytics \<Rightarrow> FinancialAnalytics \<Rightarrow> Entity list \<Rightarrow> ReportsView" where
  "reports_view env order rc overall current orders =
    (let period = report_period env; has_prev = (period \<noteq> ''all'');
         xs = report_orders (if has_prev then Some (rc_from rc) else None) orders;
         done = status_count env xs ''completed'';
         not_cancelled = length (filter (\<lambda>x. report_key env x \<noteq> ''cancelled'') xs);
         products = report_products order (sold_lines env xs);
         income = parseIRRBig (TotalSalesIRR current);
         (prevIncome, prevOrders, prevCompleted) = aggregateRange env orders (rc_prev rc) (rc_from rc);
         growth = (\<lambda>a b. if has_prev then growthBadge a b else ([], []))
     in \<lparr> vr_Period = period, vr_Label = report_label period, vr_AllIncomeIRR = TotalSalesIRR overall,
          vr_AllOrdersCount = CompletedOrders overall + OpenOrders overall + CancelledOrders overall,
          vr_StatusTotal = length xs, vr_OrdersCount = not_cancelled, vr_CompletedCount = done,
          vr_Orders = map (report_row env) (take 6 xs), vr_Slices = status_slices env xs,
          vr_Products = products, vr_SoldProducts = length products, vr_BestSellers = best_sellers products,
          vr_AverageFa = (if done > 0 then FormatIRRToToman (Itoa (quo income (int done))) else fa_zero_toman),
          vr_YesterdayIncomeFa = FormatIRRToToman (Itoa (fst (aggregateRange env orders (rc_yesterday rc) (rc_today rc)))),
          vr_PrevIncomeFa = (if has_prev then FormatIRRToToman (Itoa prevIncome) else []),
          vr_IncomeGrowth = growth (f_of_int income) (f_of_int prevIncome),
          vr_OrdersGrowth = growth (f_of_int (int not_cancelled)) (f_of_int (int prevOrders)),
          vr_AverageGrowth = growth (f_average (f_of_int income) done) (f_average (f_of_int prevIncome) prevCompleted) \<rparr>)"

definition reports_page :: "page_env \<Rightarrow> (string list \<Rightarrow> string list) \<Rightarrow> report_clock \<Rightarrow> Store \<Rightarrow> ReportsView" where
  "reports_page env order rc s =
    reports_view env order rc (Analytics (state s))
      (if report_period env = ''all'' then Analytics (state s) else AnalyticsSince (rc_from rc) (state s))
      (entities_or_empty env 0 ''order'' s)"

section \<open>Facts\<close>

lemma sum_by_key:
  fixes f :: "'a \<Rightarrow> int"
  assumes "finite K" "key ` set ls \<subseteq> K"
  shows "(\<Sum>k\<in>K. sum_list (map f (filter (\<lambda>l. key l = k) ls))) = sum_list (map f ls)"
  using assms(2)
proof (induction ls)
  case (Cons x ls)
  have "(\<Sum>k\<in>K. sum_list (map f (filter (\<lambda>l. key l = k) (x # ls)))) =
      (\<Sum>k\<in>K. (if key x = k then f x else 0) + sum_list (map f (filter (\<lambda>l. key l = k) ls)))"
    by (intro sum.cong) auto
  also have "\<dots> = f x + sum_list (map f ls)"
    using Cons assms(1) by (simp add: sum.distrib)
  finally show ?case by simp
qed simp

lemma sum_list_filter_le:
  fixes f :: "'a \<Rightarrow> int"
  shows "\<forall>x\<in>set xs. 0 \<le> f x \<Longrightarrow> sum_list (map f (filter P xs)) \<le> sum_list (map f xs)"
  by (induction xs) auto

lemma sum64_id:
  assumes "\<forall>n\<in>set ns. 0 \<le> n" "sum_list ns < 2 ^ 63"
  shows "sum64 ns = sum_list ns"
proof -
  have "fold (\<lambda>x n. w64 (n + x)) ns a = a + sum_list ns" if "0 \<le> a" "a + sum_list ns < 2 ^ 63" "\<forall>n\<in>set ns. 0 \<le> n" for a
    using that
  proof (induction ns arbitrary: a)
    case (Cons x ns)
    from Cons.prems(3) have "0 \<le> sum_list ns" by (intro sum_list_nonneg) auto
    with Cons.prems have "w64 (a + x) = a + x" by (intro w64_id) (auto simp: in64_def)
    with Cons show ?case by (simp add: add.assoc)
  qed simp
  with assms show ?thesis by (simp add: sum64_def)
qed

lemma sum_list_sort_desc:
  fixes f :: "'a \<Rightarrow> int"
  shows "sum_list (map f (sort_desc key xs)) = sum_list (map f xs)"
  by (metis mset_map sort_desc_set(1) sum_mset_sum_list)

lemma title_revenue_exact:
  assumes "\<forall>l\<in>set ls. 0 \<le> sl_LinePayableIRR l" "sum_list (map sl_LinePayableIRR ls) < 2 ^ 63"
  shows "title_revenue ls t = sum_list (map sl_LinePayableIRR (filter (\<lambda>l. sl_Title l = t) ls))"
  unfolding title_revenue_def using assms sum_list_filter_le [OF assms(1), of "\<lambda>l. sl_Title l = t"]
  by (intro sum64_id) auto

text \<open>The revenues of the products are those of the lines, in whatever order the map gave them.\<close>

lemma report_products_revenue:
  assumes "\<forall>l\<in>set ls. 0 \<le> sl_LinePayableIRR l" "sum_list (map sl_LinePayableIRR ls) < 2 ^ 63"
    and order: "\<And>xs. mset (order xs) = mset xs"
  shows "sum_list (map rp_RevenueIRR (report_products order ls)) = sum_list (map sl_LinePayableIRR ls)"
proof -
  let ?ts = "order (remdups (map sl_Title ls))"
  have ts: "distinct ?ts" "set ?ts = sl_Title ` set ls"
    using order [of "remdups (map sl_Title ls)"] by (metis distinct_remdups mset_eq_imp_distinct_iff, metis list.set_map mset_eq_setD set_remdups)
  have "sum_list (map rp_RevenueIRR (report_products order ls)) = sum_list (map (title_revenue ls) ?ts)"
    by (simp add: report_products_def Let_def sum_list_sort_desc comp_def report_product_def)
  also have "\<dots> = (\<Sum>t\<in>set ?ts. title_revenue ls t)" by (simp add: ts(1) sum_list_distinct_conv_sum_set)
  also have "\<dots> = sum_list (map sl_LinePayableIRR ls)"
    using sum_by_key [of "set ?ts" sl_Title ls sl_LinePayableIRR] ts(2) by (simp add: title_revenue_exact [OF assms(1,2)])
  finally show ?thesis .
qed

lemma sold_lines_total:
  assumes "\<forall>x\<in>set xs. report_key env x = ''completed'' \<longrightarrow> fair_bill x"
  shows "sum_list (map sl_LinePayableIRR (sold_lines env xs)) = sum_list (map bill_total (filter (\<lambda>x. report_key env x = ''completed'') xs))
    \<and> (\<forall>l\<in>set (sold_lines env xs). 0 \<le> sl_LinePayableIRR l)"
  using assms by (induction xs) (use bill_shares in \<open>auto simp: sold_lines_def\<close>)


text \<open>A completed order of two lines, 300 and 400 rials, with a discount of 100.\<close>

definition demo_sold_fields :: fields where
  "demo_sold_fields = [(''items'', lines_json [line_fields ''a'' (demo_item ''p1'' 1) demo_view 300 300,
       line_fields ''b'' (demo_item ''p2'' 2) demo_view 200 400]), (''price'', JStr (Itoa 600)), (''status'', JStr ''completed'')]"

definition demo_sold :: Entity where
  "demo_sold = entity_view (new_record ''order'' ''o1'' demo_sold_fields)"

lemma demo_sold_members:
  "gmap demo_sold_fields"
  "members_of ''items'' demo_sold_fields = [lines_json [line_fields ''a'' (demo_item ''p1'' 1) demo_view 300 300,
       line_fields ''b'' (demo_item ''p2'' 2) demo_view 200 400]]"
  by (simp_all add: gmap_def members_of_def demo_sold_fields_def EqualFold_def HasPrefix_def lower_ascii_def)

lemma demo_sold_read: "PriceIRR demo_sold = Itoa 600" "Field demo_sold ''status'' = ''completed''"
  using demo_sold_members(1)
  by (simp_all add: PriceIRR_def Field_def entity_view_def demo_sold_def new_record_def) (simp_all add: demo_sold_fields_def)

lemma demo_sold_amounts: "map line_amount (OrderItems demo_sold) = [300, 400]"
proof -
  have "raw_field ''items'' (sort_key fst demo_sold_fields) = Some (lines_json [line_fields ''a'' (demo_item ''p1'' 1) demo_view 300 300,
       line_fields ''b'' (demo_item ''p2'' 2) demo_view 200 400])"
    by (simp add: raw_field_sort demo_sold_members) (simp add: raw_field_def demo_sold_members)
  moreover have "in64 (li_Quantity (demo_item ''p1'' 1))" "in64 (li_Quantity (demo_item ''p2'' 2))"
    by (simp_all add: demo_item_def in64_def)
  ultimately show ?thesis
    by (simp add: OrderItems_def array_field_def entity_view_def demo_sold_def new_record_def marshal_def [of demo_sold_fields]
        lines_json_def order_line_read demo_label line_amount_def Int64_def w64_literal)
qed

lemma demo_sold_fair: "fair_bill demo_sold" "bill_total demo_sold = 600"
proof -
  show total: "bill_total demo_sold = 600" by (simp add: bill_total_def demo_sold_read Int64_def w64_literal)
  have "line_amount ` set (OrderItems demo_sold) = {300, 400}" using arg_cong [OF demo_sold_amounts, of set] by simp
  then have "\<forall>it\<in>set (OrderItems demo_sold). line_amount it = 300 \<or> line_amount it = 400" by (metis image_eqI insertE singletonD)
  moreover have "OrderItems demo_sold \<noteq> []" using demo_sold_amounts by auto
  ultimately show "fair_bill demo_sold" by (auto simp: fair_bill_def total demo_sold_amounts)
qed


end
