(* ===== verification/Dashboard.thy ===== *)
theory Dashboard
  imports Reports_Page
begin

text \<open>
  The first page: \<open>fillDashboard\<close> of \<open>app.go\<close>, and the numbers behind the two charts,
  \<open>buildRevenueChart\<close> and \<open>buildReportIncomeChart\<close>. The text of the SVG pictures is not
  modelled. \<open>sort.Slice\<close> leaves the order of equal elements open: the order before a stable sort
  is a parameter (\<open>ties\<close>).
\<close>

section \<open>Days in Tehran\<close>

definition tehran_day :: "gotime \<Rightarrow> int" where
  "tehran_day t = (fst t + tehranZone) div 86400"

definition tehran_hour :: "gotime \<Rightarrow> int" where
  "tehran_hour t = (fst t + tehranZone) mod 86400 div 3600"

definition day_start :: "int \<Rightarrow> gotime" where
  "day_start d = (d * 86400 - tehranZone, 0)"

text \<open>\<open>t.AddDate(0, 0, n)\<close> in a zone with a fixed offset.\<close>

definition later_days :: "int \<Rightarrow> gotime \<Rightarrow> gotime" where
  "later_days n t = (fst t + n * 86400, snd t)"

section \<open>The dashboard\<close>

record DashRecentRow =
  dx_Entity :: Entity
  dx_ItemsLabel :: string
  dx_Items :: "string list"
  dx_Quantity :: int
  dx_TimeLabel :: string

record DashPopularRow =
  dp_Rank :: nat
  dp_Name :: string
  dp_Qty :: int
  dp_Percent :: int

record DashView =
  dv_TodayLabel :: string
  dv_Waiting :: nat
  dv_OrdersToday :: nat
  dv_RevTodayFa :: string
  dv_AvgTodayFa :: string
  dv_RevGrowth :: "string \<times> string"
  dv_OrdersGrowth :: "string \<times> string"
  dv_AvgGrowth :: "string \<times> string"
  dv_LowStock :: nat
  dv_LowItems :: "(Entity \<times> string \<times> string) list"
  dv_Recent :: "DashRecentRow list"
  dv_RecentTotal :: string
  dv_Popular :: "DashPopularRow list"
  dv_ChartRange :: string

definition stamped :: "(gotime \<Rightarrow> bool) \<Rightarrow> Entity \<Rightarrow> bool" where
  "stamped P x = (case entityTime x of None \<Rightarrow> False | Some t \<Rightarrow> P t)"

definition is_completed :: "Entity \<Rightarrow> bool" where
  "is_completed x \<longleftrightarrow> ToLower (Field x ''status'') = ''completed''"

definition is_waiting :: "Entity \<Rightarrow> bool" where
  "is_waiting x \<longleftrightarrow> ToLower (Field x ''status'') \<in> {''preparing'', ''accepted'', ''pending'', ''ready''}"

definition price_float :: "Entity \<Rightarrow> float64" where
  "price_float x = fst (ParseFloat (PriceIRR x))"

definition day_sales :: "int \<Rightarrow> Entity list \<Rightarrow> Entity list" where
  "day_sales d orders = filter (\<lambda>x. stamped (\<lambda>t. day_start d \<le> t \<and> t < day_start (d + 1)) x \<and> is_completed x) orders"

text \<open>The sales of today have no end: a stamp in the future counts as today.\<close>

definition today_sales :: "int \<Rightarrow> Entity list \<Rightarrow> Entity list" where
  "today_sales d orders = filter (\<lambda>x. stamped (\<lambda>t. day_start d \<le> t) x \<and> is_completed x) orders"

definition recent_view :: "Entity \<Rightarrow> DashRecentRow" where
  "recent_view x =
    (let ls = OrderItems x
     in \<lparr> dx_Entity = x, dx_ItemsLabel = Join (map ov_ProductName ls) (fa [0x60C, 0x20]),
          dx_Items = map (\<lambda>l. if ov_Quantity l > 1 then item_text l else ov_ProductName l) ls,
          dx_Quantity = items_quantity x,
          dx_TimeLabel = (case entityTime x of None \<Rightarrow> [] | Some t \<Rightarrow> FormatJalaliClock t) \<rparr>)"

definition dash_recent :: "(Entity list \<Rightarrow> Entity list) \<Rightarrow> Entity list \<Rightarrow> Entity list" where
  "dash_recent ties orders = take 6 (sort_desc time_key (ties (filter (stamped (\<lambda>_. True)) orders)))"

definition sold_of :: "OrderLineView list \<Rightarrow> string \<Rightarrow> int" where
  "sold_of ls name = sum64 (map ov_Quantity (filter (\<lambda>l. ov_ProductName l = name) ls))"

definition dash_popular :: "(string list \<Rightarrow> string list) \<Rightarrow> OrderLineView list \<Rightarrow> DashPopularRow list" where
  "dash_popular ties ls =
    (let names = remdups (map ov_ProductName ls); most = fold max (map (sold_of ls) names) 0
     in map (\<lambda>(i, name). \<lparr> dp_Rank = i, dp_Name = name, dp_Qty = sold_of ls name,
          dp_Percent = (if most > 0 then quo (w64 (sold_of ls name * 100)) most else 0) \<rparr>)
        (enumerate 1 (take 5 (sort_desc (sold_of ls) (ties names)))))"

definition low_item :: "Entity \<Rightarrow> Entity \<times> string \<times> string" where
  "low_item g = (g, if f_le (ing_stock g) f_zero then ''out'' else ''low'',
     FormatPersianNumber (FormatFloat_min (ing_stock g)) @ '' '' @ UnitLabel g)"

definition chart_range :: "page_env \<Rightarrow> string" where
  "chart_range env = (let r = query_of env ''range'' in if r = ''7d'' \<or> r = ''30d'' then r else ''today'')"

definition fillDashboard ::
  "page_env \<Rightarrow> (Entity list \<Rightarrow> Entity list) \<Rightarrow> (string list \<Rightarrow> string list) \<Rightarrow> Entity list \<Rightarrow> Entity list \<Rightarrow> DashView" where
  "fillDashboard env ties names orders ingredients =
    (let now = pg_now env; day = tehran_day now;
         today = today_sales day orders; before = day_sales (day - 1) orders;
         rev = f_sum (map price_float today); revY = f_sum (map price_float before);
         avg = f_average rev (length today); avgY = f_average revY (length before);
         recents = dash_recent ties orders; low = filter NeedsReorder ingredients
     in \<lparr> dv_TodayLabel = (fa [0x627, 0x645, 0x631, 0x648, 0x632, 0x60C, 0x20]) @ hd (SplitN2 (FormatJalaliFull now) (fa [0x20, 0x2014, 0x20])),
          dv_Waiting = length (filter (\<lambda>x. stamped (\<lambda>_. True) x \<and> is_waiting x) orders),
          dv_OrdersToday = length today, dv_RevTodayFa = tomanNumber (FormatFloat_0 rev), dv_AvgTodayFa = tomanNumber (FormatFloat_0 avg),
          dv_RevGrowth = growthBadge rev revY,
          dv_OrdersGrowth = growthBadge (f_of_int (int (length today))) (f_of_int (int (length before))),
          dv_AvgGrowth = growthBadge avg avgY,
          dv_LowStock = length low, dv_LowItems = map low_item (take 4 low),
          dv_Recent = map recent_view recents,
          dv_RecentTotal = FormatIRRToToman (Itoa (sum_list (map (\<lambda>x. parseIRRBig (PriceIRR x)) recents))),
          dv_Popular = dash_popular names (concat (map OrderItems today)), dv_ChartRange = chart_range env \<rparr>)"

definition home_page ::
  "page_env \<Rightarrow> (Entity list \<Rightarrow> Entity list) \<Rightarrow> (string list \<Rightarrow> string list) \<Rightarrow> Store \<Rightarrow> DashView" where
  "home_page env ties names s =
    fillDashboard env ties names (entities_or_empty env 0 ''order'' s) (entities_or_empty env 2 ''ingredient'' s)"

section \<open>The charts\<close>

definition month_name :: "int \<Rightarrow> string" where
  "month_name jm = (if jm \<ge> 1 \<and> jm \<le> 12 then jalaliMonthNames ! nat jm else [])"

definition dayLabel :: "gotime \<Rightarrow> string" where
  "dayLabel t = (case jalali_of (civil_in tehranZone t) of (_, jm, jd) \<Rightarrow> ToPersianDigits (Itoa jd) @ '' '' @ month_name jm)"

definition fullDate :: "gotime \<Rightarrow> string" where
  "fullDate t =
    (let loc = civil_in tehranZone t
     in case jalali_of loc of (jy, jm, jd) \<Rightarrow>
       ToPersianDigits (jalaliWeekdayNames ! nat (cv_Weekday loc mod 7) @ '' '' @ Itoa jd @ '' '' @ month_name jm @ '' '' @ Itoa jy))"

definition hour_label :: "int \<Rightarrow> string" where
  "hour_label h = pad0 2 h @ '':00''"

record bucket =
  bk_label :: string
  bk_title :: string
  bk_income :: float64
  bk_expense :: float64

text \<open>A bucket takes the completed orders and the expenses whose instants it accepts.\<close>

definition fill_bucket :: "Entity list \<Rightarrow> Entity list \<Rightarrow> string \<Rightarrow> string \<Rightarrow> (gotime \<Rightarrow> bool) \<Rightarrow> bucket" where
  "fill_bucket orders expenses label title P =
    \<lparr> bk_label = label, bk_title = title,
      bk_income = f_sum (map price_float (filter (\<lambda>x. is_completed x \<and> stamped P x) orders)),
      bk_expense = f_sum (map price_float (filter (stamped P) expenses)) \<rparr>"

definition in_hour :: "gotime \<Rightarrow> int \<Rightarrow> gotime \<Rightarrow> bool" where
  "in_hour now h t \<longleftrightarrow> tehran_day t = tehran_day now \<and> tehran_hour t = h"

definition on_day :: "gotime \<Rightarrow> gotime \<Rightarrow> bool" where
  "on_day d t \<longleftrightarrow> tehran_day t = tehran_day d"

text \<open>The last \<open>n\<close> days up to now, and the hours of a day.\<close>

definition last_days :: "nat \<Rightarrow> gotime \<Rightarrow> gotime list" where
  "last_days n now = map (\<lambda>i. later_days (int i - (int n - 1)) now) [0..<n]"

definition hours :: "int list" where
  "hours = map int [0..<24]"

definition revenue_buckets :: "string \<Rightarrow> gotime \<Rightarrow> Entity list \<Rightarrow> Entity list \<Rightarrow> bucket list" where
  "revenue_buckets rk now orders expenses =
    (if rk = ''today'' then
       map (\<lambda>h. fill_bucket orders expenses (hour_label h) (fullDate now @ (fa [0x20, 0x2D, 0x20, 0x633, 0x627, 0x639, 0x62A, 0x20]) @ ToPersianDigits (hour_label h)) (in_hour now h)) hours
     else map (\<lambda>d. fill_bucket orders expenses (dayLabel d) (fullDate d) (on_day d)) (last_days (if rk = ''30d'' then 30 else 7) now))"

record point =
  pt_label :: string
  pt_title :: string
  pt_income :: float64
  pt_orders :: nat

definition fill_point :: "Entity list \<Rightarrow> string \<Rightarrow> string \<Rightarrow> (gotime \<Rightarrow> bool) \<Rightarrow> point" where
  "fill_point orders label title P =
    \<lparr> pt_label = label, pt_title = title,
      pt_income = f_sum (map price_float (filter (\<lambda>x. stamped P x \<and> row_status x = ''completed'') orders)),
      pt_orders = length (filter (\<lambda>x. stamped P x \<and> row_status x \<noteq> ''cancelled'' \<and> row_status x \<noteq> ''canceled'') orders) \<rparr>"

text \<open>The months from year 0 on.\<close>

definition tehran_month :: "gotime \<Rightarrow> int" where
  "tehran_month t = (let loc = civil_in tehranZone t in cv_Year loc * 12 + (cv_Month loc - 1))"

definition month_label :: "int \<Rightarrow> string" where
  "month_label m = (case GregorianToJalali (m div 12) (m mod 12 + 1) 1 of (jy, jm, _) \<Rightarrow> month_name jm @ '' '' @ ToPersianDigits (Itoa jy))"

text \<open>The chart of all orders: a point for each day up to 62 days, else one for each month.\<close>

definition all_points :: "Entity list \<Rightarrow> gotime list \<Rightarrow> point list" where
  "all_points orders dated =
    (let lo = Min (set dated); hi = Max (set dated)
     in if tehran_day hi - tehran_day lo + 1 \<le> 62 then
          map (\<lambda>d. fill_point orders (dayLabel (day_start d)) (FormatJalaliFull (day_start d)) (\<lambda>t. tehran_day t = d)) [tehran_day lo..tehran_day hi]
        else map (\<lambda>m. fill_point orders (month_label m) (month_label m) (\<lambda>t. tehran_month t = m)) [tehran_month lo..tehran_month hi])"

definition income_points :: "string \<Rightarrow> gotime \<Rightarrow> Entity list \<Rightarrow> point list" where
  "income_points period now orders =
    (if period = ''today'' then
       map (\<lambda>h. let label = ToPersianDigits (hour_label h) in fill_point orders label (FormatJalaliFull now @ (fa [0x20, 0x2014, 0x20, 0x633, 0x627, 0x639, 0x62A, 0x20]) @ label) (in_hour now h)) hours
     else if period = ''month'' then map (\<lambda>d. fill_point orders (dayLabel d) (FormatJalaliFull d) (on_day d)) (last_days 30 now)
     else if period = ''all'' then
       (let dated = List.map_filter entityTime orders
        in if dated = [] then [\<lparr> pt_label = dayLabel now, pt_title = FormatJalaliFull now, pt_income = f_zero, pt_orders = 0 \<rparr>]
           else all_points orders dated)
     else map (\<lambda>d. fill_point orders (dayLabel d) (FormatJalaliFull d) (on_day d)) (last_days 7 now))"

section \<open>Facts\<close>

definition not_cancelled :: "Entity \<Rightarrow> bool" where
  "not_cancelled x \<longleftrightarrow> row_status x \<noteq> ''cancelled'' \<and> row_status x \<noteq> ''canceled''"

text \<open>The instants that the chart of a period shows.\<close>

definition chart_covers :: "string \<Rightarrow> gotime \<Rightarrow> gotime list \<Rightarrow> gotime \<Rightarrow> bool" where
  "chart_covers period now dated t =
    (let back = (\<lambda>n. tehran_day now - n \<le> tehran_day t \<and> tehran_day t \<le> tehran_day now)
     in if period = ''today'' then tehran_day t = tehran_day now
        else if period = ''month'' then back 29
        else if period = ''all'' then
          tehran_day (Max (set dated)) - tehran_day (Min (set dated)) + 1 \<le> 62
            \<or> tehran_month (Min (set dated)) \<le> tehran_month t \<and> tehran_month t \<le> tehran_month (Max (set dated))
        else back 6)"

lemma count_by_key:
  assumes "finite K"
  shows "(\<Sum>k\<in>K. length (filter (\<lambda>x. P x \<and> key x = k) xs)) = length (filter (\<lambda>x. P x \<and> key x \<in> K) xs)"
proof (induction xs)
  case (Cons x xs)
  have "(\<Sum>k\<in>K. length (filter (\<lambda>x. P x \<and> key x = k) (x # xs))) =
      (\<Sum>k\<in>K. (if key x = k then if P x then 1 else 0 else 0) + length (filter (\<lambda>x. P x \<and> key x = k) xs))"
    by (intro sum.cong) auto
  also have "\<dots> = length (filter (\<lambda>x. P x \<and> key x \<in> K) (x # xs))"
    using Cons assms by (simp add: sum.distrib)
  finally show ?case .
qed simp

text \<open>The counts of a chart whose points ask for different keys.\<close>

lemma points_count:
  assumes "distinct (map g ks)"
  shows "sum_list (map (\<lambda>k. pt_orders (fill_point orders (l k) (h k) (\<lambda>t. Q t \<and> key t = g k))) ks) =
    length (filter (\<lambda>x. not_cancelled x \<and> stamped (\<lambda>t. Q t \<and> key t \<in> g ` set ks) x) orders)"
proof -
  let ?P = "\<lambda>x. not_cancelled x \<and> stamped Q x" and ?key = "\<lambda>x. key (the (entityTime x))"
  have one: "pt_orders (fill_point orders l h (\<lambda>t. Q t \<and> key t = j)) = length (filter (\<lambda>x. ?P x \<and> ?key x = j) orders)" for l h j
    by (simp add: fill_point_def not_cancelled_def) (intro arg_cong [of _ _ length] filter_cong, auto simp: stamped_def split: option.splits)
  have "sum_list (map (\<lambda>k. pt_orders (fill_point orders (l k) (h k) (\<lambda>t. Q t \<and> key t = g k))) ks) =
      sum_list (map (\<lambda>j. length (filter (\<lambda>x. ?P x \<and> ?key x = j) orders)) (map g ks))"
    by (simp add: one comp_def)
  also have "\<dots> = (\<Sum>j\<in>set (map g ks). length (filter (\<lambda>x. ?P x \<and> ?key x = j) orders))"
    using assms by (rule sum_list_distinct_conv_sum_set)
  also have "\<dots> = length (filter (\<lambda>x. ?P x \<and> ?key x \<in> set (map g ks)) orders)"
    by (rule count_by_key) simp
  also have "\<dots> = length (filter (\<lambda>x. not_cancelled x \<and> stamped (\<lambda>t. Q t \<and> key t \<in> g ` set ks) x) orders)"
    by (intro arg_cong [of _ _ length] filter_cong) (auto simp: stamped_def split: option.splits)
  finally show ?thesis .
qed

lemma tehran_day_add [simp]: "tehran_day (later_days n t) = tehran_day t + n"
  by (simp add: tehran_day_def later_days_def)

lemma last_days_days: "map tehran_day (last_days n now) = map (\<lambda>i. tehran_day now + (int i - (int n - 1))) [0..<n]"
  by (simp add: last_days_def comp_def)

lemma last_days_set:
  "distinct (map tehran_day (last_days n now))"
  "tehran_day ` set (last_days n now) = {tehran_day now - (int n - 1)..tehran_day now}"
proof -
  show "distinct (map tehran_day (last_days n now))"
    unfolding last_days_days by (simp add: distinct_map inj_on_def)
  have "tehran_day ` set (last_days n now) = (\<lambda>i. tehran_day now + (int i - (int n - 1))) ` {0..<n}"
    using arg_cong [OF last_days_days, of set] by simp
  also have "\<dots> = {tehran_day now - (int n - 1)..tehran_day now}"
  proof (intro equalityI subsetI)
    fix d assume d: "d \<in> {tehran_day now - (int n - 1)..tehran_day now}"
    then have "d = tehran_day now + (int (nat (d - tehran_day now + (int n - 1))) - (int n - 1))" by simp
    moreover have "nat (d - tehran_day now + (int n - 1)) \<in> {0..<n}" using d by auto
    ultimately show "d \<in> (\<lambda>i. tehran_day now + (int i - (int n - 1))) ` {0..<n}" by (rule image_eqI)
  qed auto
  finally show "tehran_day ` set (last_days n now) = {tehran_day now - (int n - 1)..tehran_day now}" .
qed

lemma days_count:
  "sum_list (map (\<lambda>d. pt_orders (fill_point orders (l d) (h d) (on_day d))) (last_days n now)) =
    length (filter (\<lambda>x. not_cancelled x \<and> stamped (\<lambda>t. tehran_day now - (int n - 1) \<le> tehran_day t \<and> tehran_day t \<le> tehran_day now) x) orders)"
  using points_count [OF last_days_set(1), where Q = "\<lambda>_. True" and key = tehran_day and l = l and h = h and orders = orders, of n now]
  by (simp add: on_day_def [abs_def] last_days_set(2))

lemma hours_count:
  "sum_list (map (\<lambda>k. pt_orders (fill_point orders (l k) (h k) (in_hour now k))) hours) =
    length (filter (\<lambda>x. not_cancelled x \<and> stamped (\<lambda>t. tehran_day t = tehran_day now) x) orders)"
proof -
  have "tehran_hour t \<in> set hours" for t
    by (auto simp: tehran_hour_def hours_def image_iff intro!: bexI [of _ "nat ((fst t + tehranZone) mod 86400 div 3600)"])
  moreover have "distinct (map id hours)" by (simp add: hours_def distinct_map)
  ultimately show ?thesis
    using points_count [of id hours, where Q = "\<lambda>t. tehran_day t = tehran_day now" and key = tehran_hour and l = l and h = h and orders = orders]
    by (simp add: in_hour_def [abs_def])
qed

lemma tehran_day_mono: "t \<le> u \<Longrightarrow> tehran_day t \<le> tehran_day u"
  by (cases t; cases u) (auto simp: tehran_day_def less_eq_prod_def intro!: zdiv_mono1)

lemma all_points_count:
  assumes "dated = List.map_filter entityTime orders" "dated \<noteq> []"
  shows "sum_list (map pt_orders (all_points orders dated)) =
    length (filter (\<lambda>x. not_cancelled x \<and> stamped (chart_covers ''all'' now dated) x) orders)"
proof -
  let ?lo = "Min (set dated)" and ?hi = "Max (set dated)"
  have range: "?lo \<le> t \<and> t \<le> ?hi" if "x \<in> set orders" "entityTime x = Some t" for x t
  proof -
    have "t \<in> set dated" using that by (force simp: assms(1) List.map_filter_def)
    then show ?thesis by simp
  qed
  show ?thesis
  proof (cases "tehran_day ?hi - tehran_day ?lo + 1 \<le> 62")
    case True
    have "sum_list (map pt_orders (all_points orders dated)) =
        length (filter (\<lambda>x. not_cancelled x \<and> stamped (\<lambda>t. tehran_day t \<in> {tehran_day ?lo..tehran_day ?hi}) x) orders)"
      using True points_count [of id "[tehran_day ?lo..tehran_day ?hi]" orders "\<lambda>d. dayLabel (day_start d)" "\<lambda>d. FormatJalaliFull (day_start d)" "\<lambda>_. True" tehran_day]
      by (simp add: all_points_def Let_def comp_def)
    also have "\<dots> = length (filter (\<lambda>x. not_cancelled x \<and> stamped (chart_covers ''all'' now dated) x) orders)"
      using True range by (intro arg_cong [of _ _ length] filter_cong)
        (auto simp: stamped_def chart_covers_def Let_def intro: tehran_day_mono split: option.splits)
    finally show ?thesis .
  next
    case False
    have "sum_list (map pt_orders (all_points orders dated)) =
        length (filter (\<lambda>x. not_cancelled x \<and> stamped (\<lambda>t. tehran_month t \<in> {tehran_month ?lo..tehran_month ?hi}) x) orders)"
      using False points_count [of id "[tehran_month ?lo..tehran_month ?hi]" orders month_label month_label "\<lambda>_. True" tehran_month]
      by (simp add: all_points_def Let_def comp_def)
    with False show ?thesis by (simp add: chart_covers_def [abs_def] Let_def)
  qed
qed


end
