(* ===== verification/Pages.thy ===== *)
theory Pages
  imports Dashboard Outbox Orders_Props Printing
begin

text \<open>
  \<open>render\<close> of \<open>app.go\<close>: every address \<open>?page=\<close> with the data of its page. What the machine
  supplies is a record: the order of Go maps, the ties of unstable sorts, \<open>big.Rat.SetString\<close>,
  the outcomes of the reads behind the cost of a recipe, dates in the zone of the machine,
  \<open>strings.ToUpper\<close>, and whether the session may delete. The HTML of the templates and the SVG
  text of the charts are not modelled.
\<close>

record page_args =
  pa_order :: "string list \<Rightarrow> string list"
  pa_ties :: "Entity list \<Rightarrow> Entity list"
  pa_rat :: "string \<Rightarrow> rat option"
  pa_cost_io :: "string \<Rightarrow> nat \<Rightarrow> io"
  pa_month :: gotime
  pa_cutoff :: gotime
  pa_clock :: report_clock
  pa_today :: string
  pa_upper :: "string \<Rightarrow> string"
  pa_can_delete :: bool
  pa_posted :: "(string \<times> string \<times> int) option"

section \<open>Forms\<close>

record ProductForm =
  fp_Action :: string
  fp_Fields :: "(string \<times> string) list"
  fp_Variants :: "ProductVariantRow list"
  fp_Recipe :: "RecipeLineView list"

definition product_form_page :: "page_env \<Rightarrow> Store \<Rightarrow> ProductForm" where
  "product_form_page env s =
    (let i = query_of env ''id'';
         blank = \<lparr> fp_Action = ''create'', fp_Fields = [], fp_Variants = [], fp_Recipe = [] \<rparr>
     in if i = [] then blank
        else (case EntityOf (pg_io env 0) ''product'' i s of
                Inl _ \<Rightarrow> blank
              | Inr e \<Rightarrow> \<lparr> fp_Action = ''update'', fp_Fields = form_fields (en_Payload e), fp_Variants = product_variants e,
                  fp_Recipe = product_recipe (entities_or_empty env 1 ''recipe'' s) i \<rparr>))"

record EditorForm =
  ed_Action :: string
  ed_Version :: int
  ed_Source :: "string + json"
  ed_Fields :: "(string \<times> string) list"

definition editor_defaults :: "(string \<times> json) list" where
  "editor_defaults =
    [(''category'', JObj [(''title'', JStr [])]),
     (''product'', JObj [(''title'', JStr []), (''category_id'', JStr []), (''price'', JStr ''0'')]),
     (''ingredient'', JObj [(''name'', JStr []), (''base_unit'', JStr ''g'')]), (''banner'', JObj [(''title'', JStr [])])]"

definition source_fields :: "string + json \<Rightarrow> (string \<times> string) list" where
  "source_fields src =
    (case src of Inr j \<Rightarrow> form_fields j | Inl t \<Rightarrow> (case json_parse t of None \<Rightarrow> [] | Some j \<Rightarrow> form_fields j))"

text \<open>
  The editor of the catalogue. A record that cannot be read is an error, but for a product the
  result of reading the categories replaces it.
\<close>

definition editor_form :: "page_env \<Rightarrow> page_args \<Rightarrow> string \<Rightarrow> json \<Rightarrow> Store \<Rightarrow> EditorForm \<times> bool" where
  "editor_form env pa kind blank_doc s =
    (let i = pg_query env ''id'';
         (action, version, src, ok) =
           (if i = [] then (''create'', 0, Inr blank_doc, True)
            else (case EntityOf (pg_io env 0) kind i s of
                    Inl _ \<Rightarrow> (''create'', 0, Inr blank_doc, False)
                  | Inr e \<Rightarrow> (''update'', en_Version e, Inr (EditablePayload kind (en_Payload e)), True)));
         (action, version, src) = (case pa_posted pa of None \<Rightarrow> (action, version, src) | Some (text, act, ver) \<Rightarrow> (act, ver, Inl text))
     in (\<lparr> ed_Action = action, ed_Version = version, ed_Source = src, ed_Fields = source_fields src \<rparr>, ok))"

definition editor_page :: "page_env \<Rightarrow> page_args \<Rightarrow> Store \<Rightarrow> EditorForm shown" where
  "editor_page env pa s =
    (case map_of editor_defaults (pg_query env ''kind'') of
       None \<Rightarrow> NotFound
     | Some blank_doc \<Rightarrow>
        (case editor_form env pa (pg_query env ''kind'') blank_doc s of (form, ok) \<Rightarrow>
          if (if pg_query env ''kind'' = ''product'' then (case EntitiesOf (pg_io env 1) ''category'' s of Inl _ \<Rightarrow> False | Inr _ \<Rightarrow> True) else ok)
          then Shown form else Failed))"

section \<open>Lists\<close>

definition categories_page :: "page_env \<Rightarrow> Store \<Rightarrow> (Entity \<times> nat) list shown" where
  "categories_page env s =
    (case EntitiesOf (pg_io env 0) ''category'' s of
       Inl _ \<Rightarrow> Failed
     | Inr cats \<Rightarrow> Shown (category_rows cats (entities_or_empty env 1 ''product'' s)))"

text \<open>Without the ingredients the page is empty.\<close>

definition ingredients_page :: "page_env \<Rightarrow> page_args \<Rightarrow> Store \<Rightarrow> InventoryView option shown" where
  "ingredients_page env pa s =
    (case EntitiesOf (pg_io env 0) ''ingredient'' s of
       Inl _ \<Rightarrow> Shown None
     | Inr ings \<Rightarrow>
        (case inventory_view env (pa_cutoff pa) ings (entities_or_empty env 1 ''inventory_movement'' s) (entities_or_empty env 2 ''ingredient_category'' s) of
           None \<Rightarrow> Panicked
         | Some v \<Rightarrow> Shown (Some v)))"

record WasteView =
  vw_Rows :: "WasteRow list"
  vw_ByReason :: "WasteAgg list"
  vw_TopItems :: "WasteAgg list"
  vw_TotalFa :: string

definition waste_page :: "page_env \<Rightarrow> page_args \<Rightarrow> Store \<Rightarrow> WasteView shown" where
  "waste_page env pa s =
    (case EntitiesOf (pg_io env 0) ''waste_event'' s of
       Inl _ \<Rightarrow> Failed
     | Inr es \<Rightarrow>
        (let ings = entities_or_empty env 1 ''ingredient'' s
         in Shown \<lparr> vw_Rows = map (waste_row ings) es, vw_ByReason = waste_by_reason (pa_order pa) ings es,
              vw_TopItems = waste_top_items (pa_order pa) ings es, vw_TotalFa = waste_total ings es \<rparr>))"

definition list_page :: "page_env \<Rightarrow> string \<Rightarrow> string list \<Rightarrow> Store \<Rightarrow> Entity list list shown" where
  "list_page env main others s =
    (case EntitiesOf (pg_io env 0) main s of
       Inl _ \<Rightarrow> Failed
     | Inr es \<Rightarrow> Shown (es # map (\<lambda>(n, kind). entities_or_empty env n kind s) (enumerate 1 others)))"

definition lists_page :: "page_env \<Rightarrow> string list \<Rightarrow> Store \<Rightarrow> Entity list list" where
  "lists_page env kinds s = map (\<lambda>(n, kind). entities_or_empty env n kind s) (enumerate 0 kinds)"

definition inv_categories_page :: "page_env \<Rightarrow> Store \<Rightarrow> InvCategoryRow list \<times> (string \<times> string) list" where
  "inv_categories_page env s =
    (inv_category_rows (entities_or_empty env 0 ''ingredient_category'' s) (entities_or_empty env 1 ''ingredient'' s),
     snd (record_form (pg_io env 2) ''ingredient_category'' (query_of env ''edit'') s))"

definition settings_page :: "page_env \<Rightarrow> Store \<Rightarrow> Entity list \<times> PrintPolicy \<times> CategoryRouteRow list" where
  "settings_page env s =
    (entities_or_empty env 0 ''printer'' s, printPolicy (pg_io env 2) s,
     map (route_row (entities_or_empty env 1 ''printer_route'' s) (entities_or_empty env 4 ''product'' s)) (entities_or_empty env 3 ''category'' s))"

definition receipt_page :: "page_env \<Rightarrow> Store \<Rightarrow> ReceiptView option" where
  "receipt_page env s =
    map_option (receipt_view (case EntityOf (pg_io env 21) ''cafe_profile'' ''cafe-main-profile'' s of
        Inr p \<Rightarrow> p | Inl _ \<Rightarrow> \<lparr> en_ID = [], en_Type = [], en_Version = 0, en_Payload = JNull \<rparr>))
      (receipt_order env s)"

section \<open>All pages\<close>

datatype page_view =
    HomePage DashView "bucket list"
  | TillPage TillView
  | ProductsPage "ProductsView option"
  | ProductFormPage ProductForm
  | CategoriesPage "(Entity \<times> nat) list"
  | IngredientsPage "InventoryView option"
  | FormPage string "(string \<times> string) list"
  | OrdersPage OrdersView
  | ReceiptsPage "Entity list"
  | PricingPage "PricingRow list"
  | AnalyticsPage "TopProduct list"
  | WastePage WasteView
  | ReceiptPage "ReceiptView option"
  | ListPage "Entity list list"
  | CustomersPage ClubView
  | ClubGroupsPage ClubGroupsView
  | ClubGroupPage "ClubGroupDetail option"
  | DebtorsPage "DebtorRow list"
  | FinancePage FinanceView
  | ReportsPage ReportsView DashView "point list"
  | StaffPage StaffView
  | ChecklistPage "nat \<times> StaffView"
  | StaffFormPage "string \<times> (string \<times> string) list \<times> string list"
  | InvCategoriesPage "InvCategoryRow list \<times> (string \<times> string) list"
  | SettingsPage "Entity list \<times> PrintPolicy \<times> CategoryRouteRow list"
  | EditorPage EditorForm

definition of_option :: "('a \<Rightarrow> page_view) \<Rightarrow> 'a option \<Rightarrow> page_view shown" where
  "of_option f r = (case r of None \<Rightarrow> Failed | Some v \<Rightarrow> Shown (f v))"

definition with_view :: "('a \<Rightarrow> page_view) \<Rightarrow> 'a shown \<Rightarrow> page_view shown" where
  "with_view f r = (case r of Shown v \<Rightarrow> Shown (f v) | Failed \<Rightarrow> Failed | Panicked \<Rightarrow> Panicked | NotFound \<Rightarrow> NotFound)"

definition form_page :: "page_env \<Rightarrow> string \<Rightarrow> Store \<Rightarrow> page_view shown" where
  "form_page env kind s = (case record_form (pg_io env 0) kind (query_of env ''id'') s of (action, form) \<Rightarrow> Shown (FormPage action form))"

definition home_view :: "page_env \<Rightarrow> page_args \<Rightarrow> Store \<Rightarrow> page_view" where
  "home_view env pa s =
    HomePage (home_page env (pa_ties pa) (pa_order pa) s)
      (revenue_buckets (chart_range env) (pg_now env) (entities_or_empty env 0 ''order'' s) (entities_or_empty env 4 ''expense'' s))"

definition reports_data :: "page_env \<Rightarrow> page_args \<Rightarrow> Store \<Rightarrow> page_view" where
  "reports_data env pa s =
    (let orders = entities_or_empty env 0 ''order'' s
     in ReportsPage (reports_page env (pa_order pa) (pa_clock pa) s)
          (fillDashboard env (pa_ties pa) (pa_order pa) orders (entities_or_empty env 2 ''ingredient'' s))
          (income_points (report_period env) (pg_now env) orders))"

text \<open>The table of addresses.\<close>

definition pages :: "(string \<times> (page_env \<Rightarrow> page_args \<Rightarrow> Store \<Rightarrow> page_view shown)) list" where
  "pages =
    [(''home'', \<lambda>env pa s. Shown (home_view env pa s)),
     (''pos'', \<lambda>env pa s. Shown (TillPage (till_page env (pa_upper pa) (pa_today pa) s))),
     (''products'', \<lambda>env pa s. Shown (ProductsPage (products_page env s))),
     (''product-form'', \<lambda>env pa s. Shown (ProductFormPage (product_form_page env s))),
     (''categories'', \<lambda>env pa s. with_view CategoriesPage (categories_page env s)),
     (''ingredients'', \<lambda>env pa s. with_view IngredientsPage (ingredients_page env pa s)),
     (''ingredient-form'', \<lambda>env pa s. form_page env ''ingredient'' s),
     (''orders'', \<lambda>env pa s. case orders_page env (pa_can_delete pa) s of Inl _ \<Rightarrow> Failed | Inr v \<Rightarrow> Shown (OrdersPage v)),
     (''receipts'', \<lambda>env pa s. Shown (ReceiptsPage (receipts_page env s))),
     (''pricing'', \<lambda>env pa s. Shown (PricingPage (pricing_page env (pa_rat pa) (pa_cost_io pa) s))),
     (''analytics'', \<lambda>env pa s. Shown (AnalyticsPage (analytics_page env (pa_order pa) s))),
     (''waste'', \<lambda>env pa s. with_view WastePage (waste_page env pa s)),
     (''receipt'', \<lambda>env pa s. Shown (ReceiptPage (receipt_page env s))),
     (''recipes'', \<lambda>env pa s. with_view ListPage (list_page env ''recipe'' [''product'', ''ingredient''] s)),
     (''tables'', \<lambda>env pa s. with_view ListPage (list_page env ''table'' [''reservation''] s)),
     (''customers'', \<lambda>env pa s. of_option CustomersPage (customers_page env s)),
     (''club-groups'', \<lambda>env pa s. Shown (ClubGroupsPage (club_groups_page env (pa_today pa) s))),
     (''club-group-form'', \<lambda>env pa s. form_page env ''customer_group'' s),
     (''club-group'', \<lambda>env pa s. Shown (ClubGroupPage (club_group_page env (pa_today pa) s))),
     (''debtors'', \<lambda>env pa s. of_option DebtorsPage (debtors_page env s)),
     (''finance'', \<lambda>env pa s. with_view FinancePage (finance_page env (pa_rat pa) (pa_cost_io pa) (pa_month pa) s)),
     (''reports'', \<lambda>env pa s. Shown (reports_data env pa s)),
     (''staff'', \<lambda>env pa s. Shown (StaffPage (staff_page env s))),
     (''staff-checklist'', \<lambda>env pa s. Shown (ChecklistPage (staff_checklist_page env s))),
     (''staff-form'', \<lambda>env pa s. Shown (StaffFormPage (staff_form_page env s))),
     (''inv-categories'', \<lambda>env pa s. Shown (InvCategoriesPage (inv_categories_page env s))),
     (''inv-purchases'', \<lambda>env pa s. Shown (ListPage (lists_page env [''purchase'', ''supplier'', ''ingredient''] s))),
     (''suppliers'', \<lambda>env pa s. Shown (ListPage (lists_page env [''supplier'', ''purchase''] s))),
     (''settings'', \<lambda>env pa s. Shown (SettingsPage (settings_page env s))),
     (''editor'', \<lambda>env pa s. with_view EditorPage (editor_page env pa s))]"

definition page_asked :: "page_env \<Rightarrow> string" where
  "page_asked env = or_else (pg_query env ''page'') ''home''"

definition render :: "page_env \<Rightarrow> page_args \<Rightarrow> Store \<Rightarrow> page_view shown" where
  "render env pa s =
    (case Cursor (pg_io env 20) s of
       Inl _ \<Rightarrow> Failed
     | Inr _ \<Rightarrow> (case map_of pages (page_asked env) of None \<Rightarrow> NotFound | Some show_page \<Rightarrow> show_page env pa s))"

section \<open>Which pages are shown\<close>

definition stored :: "string \<Rightarrow> Store \<Rightarrow> Entity list" where
  "stored kind s = (case EntitiesOf all_ok kind s of Inl _ \<Rightarrow> [] | Inr es \<Rightarrow> es)"

definition reads_ok :: "page_env \<Rightarrow> bool" where
  "reads_ok env \<longleftrightarrow> (\<forall>n. ctx_ok (pg_io env n))"

definition not_number :: "float64 \<Rightarrow> bool" where
  "not_number x \<longleftrightarrow> (case x of Fin _ _ \<Rightarrow> False | _ \<Rightarrow> True)"

lemma reads [simp]:
  assumes "reads_ok env"
  shows "EntitiesOf (pg_io env n) kind s = Inr (stored kind s)" "entities_or_empty env n kind s = stored kind s"
  using assms by (simp_all add: reads_ok_def EntitiesOf_def stored_def entities_or_empty_def all_ok_def)

lemma read_one [simp]:
  assumes "reads_ok env"
  shows "EntityOf (pg_io env n) kind i s = (case live (state s) kind i of None \<Rightarrow> Inl (EData ErrNotFound) | Some e \<Rightarrow> Inr (entity_view e))"
  using assms by (simp add: reads_ok_def EntityOf_def)

lemma those_None: "those xs = None \<longleftrightarrow> None \<in> set xs"
  by (induction xs) (auto split: option.splits)

lemma stock_value_None: "stock_value x avg = None \<longleftrightarrow> not_number x"
  by (cases x) (simp_all add: stock_value_def not_number_def Let_def)

lemma inventory_panics: "inventory_view env cutoff ings movements cats = None \<longleftrightarrow> (\<exists>g\<in>set ings. not_number (ing_stock g))"
  by (auto simp: inventory_view_def those_None inv_row_def image_iff eq_commute [of None] stock_value_None)

lemma fin_inventory_None:
  "fin_inventory ings = None \<longleftrightarrow> (\<exists>g\<in>set ings. not_number (fst (ParseFloat (TrimSpace (Field g ''current_stock'')))))"
  by (auto simp: fin_inventory_def those_None image_iff eq_commute [of None] stock_value_None)

text \<open>The stocks that make a page panic, and the editor's addresses without a page.\<close>

definition panics :: "string \<Rightarrow> Store \<Rightarrow> bool" where
  "panics p s \<longleftrightarrow>
    p = ''ingredients'' \<and> (\<exists>g\<in>set (stored ''ingredient'' s). not_number (ing_stock g)) \<or>
    p = ''finance'' \<and> (\<exists>g\<in>set (stored ''ingredient'' s). not_number (fst (ParseFloat (TrimSpace (Field g ''current_stock'')))))"

definition no_record :: "string \<Rightarrow> page_env \<Rightarrow> Store \<Rightarrow> bool" where
  "no_record p env s \<longleftrightarrow> p = ''editor'' \<and> pg_query env ''kind'' \<in> {''category'', ''ingredient'', ''banner''} \<and>
    pg_query env ''id'' \<noteq> [] \<and> live (state s) (pg_query env ''kind'') (pg_query env ''id'') = None"

definition no_page :: "string \<Rightarrow> page_env \<Rightarrow> bool" where
  "no_page p env \<longleftrightarrow> p = ''editor'' \<and> pg_query env ''kind'' \<notin> {''category'', ''product'', ''ingredient'', ''banner''}"

definition outcomes :: "string \<Rightarrow> (page_env \<Rightarrow> page_args \<Rightarrow> Store \<Rightarrow> page_view shown) \<Rightarrow> bool" where
  "outcomes p f \<longleftrightarrow> (\<forall>env pa s. reads_ok env \<longrightarrow>
    (f env pa s = NotFound \<longleftrightarrow> no_page p env) \<and> (f env pa s = Panicked \<longleftrightarrow> panics p s) \<and> (f env pa s = Failed \<longleftrightarrow> no_record p env s))"

lemma always_shown:
  assumes "\<And>env pa s. reads_ok env \<Longrightarrow> \<exists>v. f env pa s = Shown v" "p \<notin> {''ingredients'', ''finance'', ''editor''}"
  shows "outcomes p f"
  unfolding outcomes_def
proof (intro allI impI)
  fix env :: page_env and pa s
  assume "reads_ok env"
  from assms(1) [OF this] obtain v where "f env pa s = Shown v" by blast
  with assms(2) show "(f env pa s = NotFound \<longleftrightarrow> no_page p env) \<and> (f env pa s = Panicked \<longleftrightarrow> panics p s) \<and> (f env pa s = Failed \<longleftrightarrow> no_record p env s)"
    by (simp add: no_page_def panics_def no_record_def)
qed

lemma ingredients_outcomes: "outcomes ''ingredients'' (\<lambda>env pa s. with_view IngredientsPage (ingredients_page env pa s))"
  by (simp add: outcomes_def with_view_def ingredients_page_def no_page_def no_record_def panics_def split: option.split)
    (metis inventory_panics option.distinct(1))

lemma finance_outcomes:
  "outcomes ''finance'' (\<lambda>env pa s. with_view FinancePage (finance_page env (pa_rat pa) (pa_cost_io pa) (pa_month pa) s))"
  by (simp add: outcomes_def with_view_def finance_page_def no_page_def no_record_def panics_def split: option.split)
    (metis fin_inventory_None option.distinct(1))

lemma editor_ok: "reads_ok env \<Longrightarrow> snd (editor_form env pa kind d s) \<longleftrightarrow> pg_query env ''id'' = [] \<or> live (state s) kind (pg_query env ''id'') \<noteq> None"
  by (auto simp: editor_form_def Let_def split: prod.split option.split)

lemma editor_outcomes: "outcomes ''editor'' (\<lambda>env pa s. with_view EditorPage (editor_page env pa s))"
  unfolding outcomes_def
proof (intro allI impI)
  fix env :: page_env and pa s
  assume ok: "reads_ok env"
  let ?kind = "pg_query env ''kind''"
  show "(with_view EditorPage (editor_page env pa s) = NotFound \<longleftrightarrow> no_page ''editor'' env) \<and>
      (with_view EditorPage (editor_page env pa s) = Panicked \<longleftrightarrow> panics ''editor'' s) \<and>
      (with_view EditorPage (editor_page env pa s) = Failed \<longleftrightarrow> no_record ''editor'' env s)"
  proof (cases "map_of editor_defaults ?kind")
    case None
    then have "?kind \<notin> {''category'', ''product'', ''ingredient'', ''banner''}" by (auto simp: editor_defaults_def)
    with None show ?thesis by (simp add: editor_page_def with_view_def no_page_def panics_def no_record_def)
  next
    case (Some d)
    then have kind: "?kind \<in> {''category'', ''product'', ''ingredient'', ''banner''}" by (auto simp: editor_defaults_def split: if_splits)
    have "editor_page env pa s =
        (if ?kind = ''product'' \<or> snd (editor_form env pa ?kind d s) then Shown (fst (editor_form env pa ?kind d s)) else Failed)"
      using Some ok by (simp add: editor_page_def split: prod.split)
    with kind show ?thesis by (auto simp: with_view_def no_page_def panics_def no_record_def editor_ok [OF ok])
  qed
qed

lemma pages_outcomes: "list_all (\<lambda>(p, f). outcomes p f) pages"
  unfolding pages_def
  by (simp add: ingredients_outcomes finance_outcomes editor_outcomes)
    (intro conjI always_shown; simp add: with_view_def of_option_def form_page_def categories_page_def orders_page_def waste_page_def list_page_def
      customers_page_def debtors_page_def Let_def split: prod.split)


text \<open>An ingredient whose stock was entered as \<open>NaN\<close>.\<close>

definition demo_nan :: Store where
  "demo_nan = demo_store\<lparr>state := putEntity (entityKey ''ingredient'' ''g1'')
     (new_record ''ingredient'' ''g1'' [(''current_stock'', JStr ''NaN'')]) newEmptyDB\<rparr>"

definition demo_at :: "string \<Rightarrow> page_env" where
  "demo_at p = demo_reader\<lparr>pg_query := (\<lambda>k. if k = ''page'' then p else [])\<rparr>"

definition demo_args :: page_args where
  "demo_args = \<lparr> pa_order = id, pa_ties = id, pa_rat = (\<lambda>_. None), pa_cost_io = (\<lambda>_ _. all_ok), pa_month = (0, 0), pa_cutoff = (0, 0),
     pa_clock = \<lparr> rc_from = (0, 0), rc_prev = (0, 0), rc_yesterday = (0, 0), rc_today = (0, 0) \<rparr>, pa_today = [], pa_upper = id,
     pa_can_delete = False, pa_posted = None \<rparr>"

lemma demo_nan_stored: "stored ''ingredient'' demo_nan = [entity_view (new_record ''ingredient'' ''g1'' [(''current_stock'', JStr ''NaN'')])]"
  by (simp add: stored_def EntitiesOf_def demo_nan_def demo_store_def putEntity_def newEmptyDB_def new_record_def limit_take all_ok_def)


section \<open>What the pages never see\<close>

definition live_of :: "string \<Rightarrow> Store \<Rightarrow> storedEntity list" where
  "live_of kind s = filter (\<lambda>e. \<not> se_Deleted e \<and> (se_Type e = kind \<or> (kind = ''order'' \<and> se_Type e = ''order_status'')))
     (map snd (Entities (state s)))"

text \<open>
  A list of records ends after 500, in the order of the identifiers: of more records than that
  some are on no page and in no sum that a page shows.
\<close>

lemma stored_take: "stored kind s = take 500 (sort_key (\<lambda>e. (en_ID e, en_Type e)) (map entity_view (live_of kind s)))"
  by (simp add: stored_def EntitiesOf_def live_of_def all_ok_def limit_take)

lemma stored_hides:
  assumes "500 < length (live_of kind s)" "distinct (map entity_view (live_of kind s))"
  shows "length (stored kind s) = 500 \<and> (\<exists>e\<in>set (live_of kind s). entity_view e \<notin> set (stored kind s))"
proof -
  let ?ys = "sort_key (\<lambda>e. (en_ID e, en_Type e)) (map entity_view (live_of kind s))"
  note st = stored_take [of kind s]
  have len: "500 < length ?ys" using assms(1) by simp
  moreover have "distinct ?ys" using assms(2) by simp
  ultimately have "?ys ! 500 \<notin> set (take 500 ?ys)"
    by (auto simp: in_set_conv_nth nth_eq_iff_index_eq)
  moreover have "?ys ! 500 \<in> entity_view ` set (live_of kind s)" using nth_mem [OF len] by simp
  ultimately show ?thesis using len by (auto simp: st)
qed

section \<open>From the till to the list\<close>

text \<open>The record of a new order, as far as the list needs it.\<close>

lemma new_order_record:
  assumes "CreatePOSOrder w day today rnd gen now req s = (s', Inr i)"
    and "TrimSpace (pi_ClientToken req) = [] \<or> find_token (state s) (TrimSpace (pi_ClientToken req)) = None"
  obtains e where "live (state s') ''order'' i = Some e" "se_Type e = ''order''" "se_ID e = i" "Field (entity_view e) ''status'' = ''pending''"
proof -
  from assms(1) obtain oid where tx: "CreatePOSOrder_tx day today gen oid now req (state s) = Inr (state s', i)"
    by (rule CreatePOSOrder_ok)
  from CreatePOSOrder_tx_new [OF tx assms(2)] obtain sub lines num where
    i: "i = oid" and s': "state s' = place_order gen oid num now req sub lines (state s)" .
  from place_order_shape [of "state s" gen oid num now req sub lines] obtain db3 ft pm lbl name phone e where
    e: "e = new_record ''order'' oid (order_fields oid num ft pm lbl name phone sub (clamp_discount sub (parseBigIntSafe (pi_DiscountIRR req)))
      (clamp_extra (parseBigIntSafe (pi_ExtraIRR req))) (new_total req sub) lines now req)"
    and put: "state s' = putEntity (entityKey ''order'' oid) e db3" using s' by metis
  show thesis
  proof (rule that)
    show "live (state s') ''order'' i = Some e" by (simp add: put i e new_record_def)
    show "se_Type e = ''order''" "se_ID e = i" by (simp_all add: e new_record_def i)
    show "Field (entity_view e) ''status'' = ''pending''" using order_fields_read(5) [OF e] by (simp add: Field_def entity_view_def)
  qed
qed

lemma live_listed:
  assumes "live (state s) ''order'' i = Some e" "se_Type e = ''order''" "length (live_of ''order'' s) \<le> 500"
  shows "entity_view e \<in> set (stored ''order'' s)"
proof -
  have "e \<in> set (live_of ''order'' s)"
    using assms(1,2) by (auto simp: live_of_def live_def image_iff split: option.splits if_splits dest!: map_of_SomeD intro: bexI [rotated])
  then show ?thesis using assms(3) by (simp add: stored_take)
qed

lemma order_row_simps [simp]:
  "or_Entity (order_row env cd stages tables x) = x"
  "or_StatusKey (order_row env cd stages tables x) = orderStatusKey (Field x ''status'')"
  "or_Editable (order_row env cd stages tables x) = open_key (orderStatusKey (Field x ''status''))"
  "or_TotalFa (order_row env cd stages tables x) = toman_down (PriceIRR x)"
  by (simp_all add: order_row_def Let_def split: prod.split)

text \<open>
  C34. An order taken at the till is on the list of orders: while the store holds at most 500
  orders, one of the pages of the list of all days, without a filter, has a row of the new order,
  which is pending, can be edited and shows the total of the order.
\<close>

theorem new_order_listed:
  assumes "CreatePOSOrder w day today rnd gen now req s = (s', Inr i)"
    and "TrimSpace (pi_ClientToken req) = [] \<or> find_token (state s) (TrimSpace (pi_ClientToken req)) = None"
    and "length (live_of ''order'' s') \<le> 500"
    and "reads_ok env" "query_of env ''scope'' = ''all''" "query_of env ''status'' = []" "pg_lower env (query_of env ''q'') = []"
  shows "\<exists>e n v row. live (state s') ''order'' i = Some e \<and> orders_page (at_page n env) cd s' = Inr v \<and> 1 \<le> n \<and> n \<le> vo_TotalPages v \<and>
    row \<in> set (vo_Rows v) \<and> or_Entity row = entity_view e \<and> en_ID (or_Entity row) = i \<and> or_StatusKey row = ''PENDING'' \<and> or_Editable row \<and>
    or_TotalFa row = toman_down (PriceIRR (entity_view e))"
proof -
  from assms(1,2) obtain e where e: "live (state s') ''order'' i = Some e" "se_Type e = ''order''" "se_ID e = i"
    "Field (entity_view e) ''status'' = ''pending''" by (rule new_order_record)
  define orders tables stages where "orders = stored ''order'' s'" "tables = stored ''table'' s'" "stages = posEnabledStages (pg_io env 3) s'"
  let ?row = "order_row env cd stages tables (entity_view e)" and ?rows = "asked_rows env cd stages tables orders"
  have key: "orderStatusKey (Field (entity_view e) ''status'') = ''PENDING''"
    unfolding e(4) by code_simp
  have row: "or_Entity ?row = entity_view e" "en_ID (entity_view e) = i" "or_StatusKey ?row = ''PENDING''" "or_Editable ?row"
    "or_TotalFa ?row = toman_down (PriceIRR (entity_view e))"
    by (simp_all add: key open_key_def) (simp add: entity_view_def e(3))
  have asked: "row_asked env ts r" for ts r by (simp add: row_asked_def status_filter_def assms(5-7))
  have "?row \<in> set ?rows"
    using live_listed [OF e(1,2) assms(3)] by (simp add: asked_rows_def newest_first_def asked orders_tables_stages_def)
  moreover have len: "length orders \<le> 500" by (simp add: orders_tables_stages_def stored_take)
  ultimately have "?row \<in> set (concat (map (\<lambda>n. vo_Rows (orders_view (at_page n env) cd stages tables orders))
      [1..<vo_TotalPages (orders_view env cd stages tables orders) + 1]))"
    using orders_view_pages [OF len, of env cd stages tables] by simp
  then obtain n where n: "1 \<le> n" "n \<le> vo_TotalPages (orders_view env cd stages tables orders)"
    "?row \<in> set (vo_Rows (orders_view (at_page n env) cd stages tables orders))" by auto
  have page: "orders_page (at_page n env) cd s' = Inr (orders_view (at_page n env) cd stages tables orders)"
    using assms(4) by (simp add: orders_page_def orders_tables_stages_def entities_or_empty_def)
  have "vo_TotalPages (orders_view (at_page n env) cd stages tables orders) = vo_TotalPages (orders_view env cd stages tables orders)"
    by (simp add: orders_view_def Let_def)
  then show ?thesis using e(1) n page row by metis
qed

lemma length_update: "length (AList.update k v xs) \<le> Suc (length xs)"
  by (induction xs) auto

lemma length_putEntity: "length (Entities (putEntity k e db)) \<le> Suc (length (Entities db))"
  by (simp add: putEntity_def length_update)

lemma place_demo_order: "length (Entities (place_order gen oid num now (demo_req token) sub lines db)) \<le> Suc (length (Entities db))"
  by (simp add: place_order_def Let_def occupy_table_def credit_customer_def demo_req_def length_putEntity)

theorem new_order_listed_witness:
  "\<exists>n v row. orders_page (at_page n demo_reader) False (fst (demo_order ''k1'')) = Inr v \<and> row \<in> set (vo_Rows v)
     \<and> en_ID (or_Entity row) = demo_id 9 \<and> or_StatusKey row = ''PENDING''"
proof -
  let ?s' = "fst (demo_order ''k1'')"
  have run: "CreatePOSOrder all_ok no_day (2026, 1, 1) (demo_uuid 9) demo_gen ''t1'' (demo_req ''k1'') demo_menu = (?s', Inr (demo_id 9))"
    using demo_order_run by (simp add: demo_order_def)
  from run obtain oid where tx: "CreatePOSOrder_tx no_day (2026, 1, 1) demo_gen oid ''t1'' (demo_req ''k1'') (state demo_menu) = Inr (state ?s', demo_id 9)"
    by (rule CreatePOSOrder_ok)
  have new: "TrimSpace (pi_ClientToken (demo_req ''k1'')) = [] \<or> find_token (state demo_menu) (TrimSpace (pi_ClientToken (demo_req ''k1''))) = None"
    by (simp add: demo_no_token)
  from CreatePOSOrder_tx_new [OF tx new] obtain sub lines num where
    "state ?s' = place_order demo_gen oid num ''t1'' (demo_req ''k1'') sub lines (state demo_menu)" .
  moreover have "length (Entities (state demo_menu)) = 1" by (simp add: demo_menu_def putEntity_def newEmptyDB_def)
  ultimately have "length (Entities (state ?s')) \<le> 2" using place_demo_order [of demo_gen oid num "''t1''" "''k1''" sub lines "state demo_menu"] by simp
  then have few: "length (live_of ''order'' ?s') \<le> 500"
    using length_filter_le [of _ "map snd (Entities (state ?s'))"] by (simp add: live_of_def le_trans [OF length_filter_le])
  have scope: "TrimSpace ''all'' = ''all''" by (rule TrimSpace_graph) (simp_all add: graph_def)
  have env: "reads_ok demo_reader" "query_of demo_reader ''scope'' = ''all''" "query_of demo_reader ''status'' = []"
    "pg_lower demo_reader (query_of demo_reader ''q'') = []"
    by (simp_all add: reads_ok_def query_of_def demo_reader_def all_ok_def scope)
  from new_order_listed [OF run new few env, of False] show ?thesis by metis
qed

end
