(* ===== verification/Spec2Isabelle.thy ===== *)
theory Spec2Isabelle
  imports Store_Props Money Outbox Split_Props Sync_Client Printing Inventory_Props Auth_Props Whole_Store Handler_Props File_Props Pages
begin

text \<open>
  \<^bold>\<open>The offline Menuvex client.\<close> The Go program under \<open>src/offline-menuvex\<close> is the cash desk of
  a cafe that works without a network: a local web server over one database file, which
  synchronises with a server when there is one and prints on receipt printers. This library
  models its logic and proves what makes it correct.

  \<^bold>\<open>Parts and theories.\<close> Each theory names the file it follows; operations keep their Go names.

  \<^item> \<open>internal/store/store.go\<close>: the database, transactions that write a temporary file and rename
    it, the merge of server changes, bootstrap, listing and the views of a payload are
    \<open>Store_Core\<close> and \<open>Store_Entities\<close>; \<open>Store_Props\<close> shows that a transaction is all or nothing,
    that a crash in the middle of a commit leaves the old or the new database (and that the
    fallback without rename does not promise that), that a page of changes refines a versioned
    register per key, and what a bootstrap keeps and drops.
  \<^item> \<open>internal/store/outbox.go\<close>: offline edits, their validation, queue and answers (\<open>Outbox\<close>),
    with the invariant of the queue, its history and the exactness of recorded answers.
  \<^item> \<open>internal/syncclient/client.go\<close>: a round of synchronisation against an arbitrary server and
    file system (\<open>Sync_Client\<close>): acknowledgements follow commits, nothing queued is lost, and the
    round ends.
  \<^item> \<open>internal/store/domains.go\<close>: records and debtors (\<open>Local_Records\<close>), orders (\<open>Orders\<close>,
    \<open>Orders_Props\<close>), split bills (\<open>Split_Bill\<close>, \<open>Split_Props\<close>), stock and recipes (\<open>Inventory\<close>,
    \<open>Inventory_Props\<close>), reports (\<open>Reports\<close>), the sample data (\<open>Seed\<close>): totals, idempotence of repeated submissions, exact
    distribution of a bill, conservation of debts, exact stock arithmetic and a stock book that
    balances, reports as sums, a consistent sample.
  \<^item> \<open>internal/store/printing.go\<close> and \<open>printing.go\<close>: print jobs (\<open>Print_Jobs\<close>, \<open>Print_Props\<close>),
    documents and their bytes (\<open>Receipts\<close>, \<open>Jalali\<close>), policy and dispatcher (\<open>Printing\<close>): jobs
    are made once, every line goes to one kitchen ticket, a reference printer shows exactly the
    lines of a document, and the outcome of a dispatch is recorded.
  \<^item> \<open>auth.go\<close> and the gate of \<open>app.go\<close>: \<open>Sha256\<close>, \<open>Auth\<close>, \<open>Auth_Props\<close>.
  \<^item> the request handlers of \<open>app.go\<close>: \<open>Requests\<close>, \<open>Order_Handlers\<close>, \<open>Record_Handlers\<close>,
    \<open>Club_Handlers\<close>, \<open>Print_Handlers\<close>, \<open>File_Handlers\<close> (with \<open>Csv\<close>), and the JSON interface of
    \<open>api_local.go\<close>: \<open>Local_Api\<close>. \<open>Handler_Props\<close> and \<open>File_Props\<close> show what no request touches,
    what guards the deletion of orders, and the round trips of the print policy, of exported
    products and of uploaded pictures.
  \<^item> the pages of \<open>app.go\<close>: shared rows and labels (\<open>Views\<close>), the list of orders and receipts
    (\<open>Orders_Page\<close>), the till (\<open>Till_Page\<close>), menu and warehouse (\<open>Catalog_Pages\<close>), staff, customers
    and debtors (\<open>People_Pages\<close>), prices, accounts and the cost of a recipe (\<open>Report_Pages\<close>), the
    reports (\<open>Reports_Page\<close>), the dashboard and the numbers of the charts (\<open>Dashboard\<close>), and
    \<open>render\<close> itself (\<open>Pages\<close>): which addresses are shown and which fail, that the numbered pages
    show every order asked for once and list an order taken at the till, that the till shows every product and table, that the
    products of a report add up to its sales, and that a chart counts every order once.
  \<^item> \<open>Whole_Store\<close> puts the store together: every state that any sequence of its operations,
    of rounds of synchronisation, of restarts and of crashes can reach is well formed.

  Below them are the parts of the language and its library that the program uses: \<open>Prelude\<close>
  (64-bit integers, Go maps, the locales of encoders, transactions and state machines),
  \<open>Go_Strings\<close>, \<open>Go_Float\<close>, \<open>Float_Text\<close>, \<open>Go_Time\<close>, \<open>Json\<close>, \<open>Json_Structs\<close>, \<open>Csv\<close>, \<open>Money\<close>.

  \<^bold>\<open>How the code is read.\<close> A Go string is its list of bytes; texts in Persian are given by their
  code points through \<open>fa\<close>. An \<open>int64\<close> is an integer that \<open>w64\<close> reduces wherever the code adds or
  multiplies; \<open>big.Int\<close> is an integer; a \<open>float64\<close> is rounded to binary64 after every operation.
  A Go map is an association list with distinct keys; where the code ranges over a map, the order
  is an argument. A method that changes the store is a function \<open>X_tx\<close> on the database, run by
  \<open>withTx\<close>, with the outcome of every file operation, the clock and the random bytes as
  arguments; errors are the left values of a sum. A handler takes the form, the outcome of each
  of its calls (\<open>calls\<close>) and the store, and returns the store and an answer; the wording of the
  messages on the screen is reduced to one constructor each, and prints in the background are
  run by separate steps. The server of a round of synchronisation, the printers and the time zone
  are parameters too.

  \<^bold>\<open>Bounds.\<close> No loop needs fuel to end in the model unless the code bounds it: a round pulls at
  most 100 pages, hence sends at most 203 requests; a listing shows 500 records, an order 100
  print jobs. Stock amounts are exact as long as their hundredths stay below \<open>5 * 10 ^ 13\<close>. The
  text of a \<open>float64\<close> needs at most 17 digits, and its leading digit is found within 400 steps,
  since no positive \<open>float64\<close> is below \<open>10 ^ -324\<close>.

  \<^bold>\<open>Not modelled.\<close> The HTML of the templates, the SVG text of the two charts with the steps of
  their axes, and the frame around a page: they turn the data modelled here into text. The start
  of the program and its route table; the window launchers under \<open>cmd\<close> and
  \<open>shell\<close>; everything outside \<open>offline-menuvex\<close> (the Rust agent, the C++ agent, the SDK and the
  React interface are other programs). On the pages, \<open>strings.ToLower\<close> of a search, \<open>big.Rat.SetString\<close>
  and the calendar of the machine's zone are parameters. Of JSON, numbers
  keep their text, so the rounding of literals beyond 53 bits on their way through \<open>any\<close> does not
  show; neither does the indentation of raw messages.
\<close>

end
